(* ===== verification/Fabric_Prelude.thy ===== *)
theory Fabric_Prelude
  imports Main
begin

text \<open>
  Shared ground of the development: the exception classes of
  \<^verbatim>\<open>src/src/mncs_fabric/errors.py\<close> together with the built-in Python exceptions the modelled
  code can let escape, the result type every fallible operation returns, the sequencing
  combinators used to write a Python body (\<open>tryE\<close> is ``call, and let an exception pass'',
  \<open>mapE\<close> a list comprehension whose body may raise, \<open>filterE\<close> one whose condition may raise, \<open>foldE\<close> a \<^verbatim>\<open>for\<close> loop over a state), and the
  lemmas on them that carry the component proofs.
\<close>

section \<open>Errors and results\<close>

text \<open>
  A Fabric exception keeps its class and its message; values interpolated into a message by an
  f-string are left out of it. The \<open>Py\<close> constructors are the built-in exceptions that the source
  does not catch.
\<close>

datatype fabric_error =
    ValidationError string
  | IntegrityError string
  | ProtocolError string
  | TransportTimeoutError string
  | StorageError string
  | PyKeyError string
  | PyTypeError
  | PyValueError
  | PyAttributeError
  | PyOverflowError
  | PyStopIteration

type_synonym 'a result = "fabric_error + 'a"

definition tryE :: "'a result \<Rightarrow> ('a \<Rightarrow> 'b result) \<Rightarrow> 'b result" where
  "tryE r k = (case r of Inl e \<Rightarrow> Inl e | Inr a \<Rightarrow> k a)"

fun mapE :: "('a \<Rightarrow> 'b result) \<Rightarrow> 'a list \<Rightarrow> 'b list result" where
  "mapE f [] = Inr []"
| "mapE f (x # xs) = tryE (f x) (\<lambda>y. tryE (mapE f xs) (\<lambda>ys. Inr (y # ys)))"

fun foldE :: "('a \<Rightarrow> 's \<Rightarrow> 's result) \<Rightarrow> 'a list \<Rightarrow> 's \<Rightarrow> 's result" where
  "foldE f [] s = Inr s"
| "foldE f (x # xs) s = tryE (f x s) (foldE f xs)"

fun filterE :: "('a \<Rightarrow> bool result) \<Rightarrow> 'a list \<Rightarrow> 'a list result" where
  "filterE f [] = Inr []"
| "filterE f (x # xs) = tryE (f x) (\<lambda>b. tryE (filterE f xs) (\<lambda>ys. Inr (if b then x # ys else ys)))"

text \<open>
  \<open>ensure\<close> is a guard that raises, \<open>all_checks\<close> a sequence of checks of which the first that fails raises.
\<close>

definition ensure :: "bool \<Rightarrow> string \<Rightarrow> unit result" where
  "ensure c msg = (if c then Inr () else Inl (ValidationError msg))"

fun all_checks :: "unit result list \<Rightarrow> unit result" where
  "all_checks [] = Inr ()"
| "all_checks (c # cs) = tryE c (\<lambda>_. all_checks cs)"

definition find_first :: "('a \<Rightarrow> bool) \<Rightarrow> 'a list \<Rightarrow> 'a option" where
  "find_first P xs = List.find P xs"

definition find_last :: "('a \<Rightarrow> bool) \<Rightarrow> 'a list \<Rightarrow> 'a option" where
  "find_last P xs = List.find P (rev xs)"

named_theorems result_simps "success of a fallible operation, as conditions on its parts"

named_theorems fabric_defs "definitions the component proofs unfold"

declare Let_def [simp]

section \<open>Lemmas on results\<close>

lemma tryE_Inl [simp]: "tryE (Inl e) k = Inl e"
  by (simp add: tryE_def)

lemma tryE_Inr [simp]: "tryE (Inr a) k = k a"
  by (simp add: tryE_def)

lemma tryE_eq_Inr [result_simps]: "tryE r k = Inr b \<longleftrightarrow> (\<exists>a. r = Inr a \<and> k a = Inr b)"
  by (cases r) simp_all

lemma tryE_eq_Inl: "tryE r k = Inl e \<longleftrightarrow> r = Inl e \<or> (\<exists>a. r = Inr a \<and> k a = Inl e)"
  by (cases r) auto

lemma if_Inl_eq_Inr [result_simps]: "(if c then Inl e else r) = Inr b \<longleftrightarrow> \<not> c \<and> r = Inr b"
  by simp

lemma if_Inl_eq_Inr2 [result_simps]: "(if c then r else Inl e) = Inr b \<longleftrightarrow> c \<and> r = Inr b"
  by simp

lemma tryE_assoc: "tryE (tryE r k) h = tryE r (\<lambda>a. tryE (k a) h)"
  by (cases r) simp_all

lemma tryE_cong [fundef_cong]:
  "r = r' \<Longrightarrow> (\<And>a. r' = Inr a \<Longrightarrow> k a = k' a) \<Longrightarrow> tryE r k = tryE r' k'"
  by (cases r') simp_all

lemma ensure_eq_Inr [result_simps]: "ensure c msg = Inr u \<longleftrightarrow> c"
  by (simp add: ensure_def)

lemma all_checks_eq_Inr [result_simps]: "all_checks cs = Inr u \<longleftrightarrow> list_all (\<lambda>c. c = Inr ()) cs"
  by (induction cs) (auto simp: tryE_eq_Inr)

lemma mapE_eq_Inr:
  "mapE f xs = Inr ys \<longleftrightarrow> list_all2 (\<lambda>x y. f x = Inr y) xs ys"
proof (induction xs arbitrary: ys)
  case Nil
  then show ?case by (cases ys) auto
next
  case (Cons x xs)
  then show ?case by (cases ys) (auto simp: tryE_eq_Inr)
qed

lemma mapE_length: "mapE f xs = Inr ys \<Longrightarrow> length ys = length xs"
  by (auto simp: mapE_eq_Inr dest: list_all2_lengthD)

lemma mapE_total: "(\<And>x. x \<in> set xs \<Longrightarrow> f x = Inr (g x)) \<Longrightarrow> mapE f xs = Inr (map g xs)"
  by (induction xs) simp_all

lemma mapE_set:
  "mapE f xs = Inr ys \<Longrightarrow> y \<in> set ys \<Longrightarrow> \<exists>x \<in> set xs. f x = Inr y"
  by (induction xs arbitrary: ys) (fastforce simp: tryE_eq_Inr)+

lemma mapE_set2:
  "mapE f xs = Inr ys \<Longrightarrow> x \<in> set xs \<Longrightarrow> \<exists>y \<in> set ys. f x = Inr y"
  by (induction xs arbitrary: ys) (fastforce simp: tryE_eq_Inr)+

lemma mapE_exists: "(\<And>x. x \<in> set xs \<Longrightarrow> \<exists>y. f x = Inr y) \<Longrightarrow> \<exists>ys. mapE f xs = Inr ys"
  by (induction xs) force+

lemma mapE_two_stages:
  assumes "\<And>x y. f x = Inr y \<Longrightarrow> \<exists>z. g x y = Inr z"
  shows "mapE (\<lambda>x. tryE (f x) (g x)) xs = tryE (mapE f xs) (\<lambda>ys. mapE (\<lambda>(x, y). g x y) (zip xs ys))"
proof (induction xs)
  case (Cons x xs)
  show ?case
  proof (cases "f x")
    case (Inr y)
    with assms obtain z where "g x y = Inr z" by blast
    with Inr Cons.IH show ?thesis by (cases "mapE f xs") simp_all
  qed simp
qed simp

lemma filterE_eq_Inr:
  "filterE f xs = Inr ys \<longleftrightarrow> (\<forall>x \<in> set xs. \<exists>b. f x = Inr b) \<and> ys = filter (\<lambda>x. f x = Inr True) xs"
proof (induction xs arbitrary: ys)
  case (Cons x xs)
  show ?case
  proof (cases "f x")
    case (Inr b)
    then have "filterE f (x # xs) = Inr ys \<longleftrightarrow> (\<exists>zs. filterE f xs = Inr zs \<and> (if b then x # zs else zs) = ys)"
      by (simp add: tryE_eq_Inr)
    then show ?thesis unfolding Cons.IH using Inr by (cases b) auto
  qed simp
qed auto

lemma filterE_total: "(\<And>x. x \<in> set xs \<Longrightarrow> f x = Inr (P x)) \<Longrightarrow> filterE f xs = Inr (filter P xs)"
  by (induction xs) simp_all

lemma foldE_append: "foldE f (xs @ ys) s = tryE (foldE f xs s) (foldE f ys)"
proof (induction xs arbitrary: s)
  case (Cons x xs)
  then show ?case by (cases "f x s") simp_all
qed simp

lemma foldE_snoc: "foldE f (xs @ [x]) s = tryE (foldE f xs s) (f x)"
proof -
  have "foldE f [x] t = f x t" for t by (cases "f x t") simp_all
  then show ?thesis by (cases "foldE f xs s") (simp_all add: foldE_append del: foldE.simps)
qed

lemma foldE_invariant:
  assumes "foldE f xs s = Inr t" and "I s"
    and "\<And>x s t. x \<in> set xs \<Longrightarrow> I s \<Longrightarrow> f x s = Inr t \<Longrightarrow> I t"
  shows "I t"
  using assms
proof (induction xs arbitrary: s)
  case Nil
  then show ?case by simp
next
  case (Cons x xs)
  from Cons.prems(1) obtain u where u: "f x s = Inr u" "foldE f xs u = Inr t"
    by (auto simp: tryE_eq_Inr)
  have "I u"
    by (rule Cons.prems(3) [OF _ Cons.prems(2) u(1)]) simp
  with u(2) show ?case
    by (rule Cons.IH) (rule Cons.prems(3), auto)
qed

lemma unlessI: "(\<not> P \<Longrightarrow> Q) \<Longrightarrow> P \<or> Q"
  by blast

section \<open>Lemmas on searches\<close>

lemma find_first_Nil [simp]: "find_first P [] = None"
  by (simp add: find_first_def)

lemma find_first_Cons: "find_first P (x # xs) = (if P x then Some x else find_first P xs)"
  by (simp add: find_first_def)

lemma find_first_append:
  "find_first P (xs @ ys) = (case find_first P xs of None \<Rightarrow> find_first P ys | Some x \<Rightarrow> Some x)"
  by (induction xs) (simp_all add: find_first_Cons)

lemma find_first_Some: "find_first P xs = Some x \<Longrightarrow> x \<in> set xs \<and> P x"
  by (induction xs) (auto simp: find_first_Cons split: if_splits)

lemma find_first_None: "find_first P xs = None \<longleftrightarrow> (\<forall>x \<in> set xs. \<not> P x)"
  by (induction xs) (auto simp: find_first_Cons)

lemma find_last_rev: "find_last P xs = find_first P (rev xs)"
  by (simp add: find_last_def find_first_def)

lemma find_last_Nil [simp]: "find_last P [] = None"
  by (simp add: find_last_rev)

lemma find_last_snoc: "find_last P (xs @ [x]) = (if P x then Some x else find_last P xs)"
  by (simp add: find_last_rev find_first_Cons)

lemma find_last_append:
  "find_last P (xs @ ys) = (case find_last P ys of None \<Rightarrow> find_last P xs | Some y \<Rightarrow> Some y)"
  by (simp add: find_last_rev find_first_append split: option.split)

lemma find_last_Some: "find_last P xs = Some x \<Longrightarrow> x \<in> set xs \<and> P x"
  using find_first_Some by (fastforce simp: find_last_rev)

lemma find_last_None: "find_last P xs = None \<longleftrightarrow> (\<forall>x \<in> set xs. \<not> P x)"
  by (simp add: find_last_rev find_first_None)

end
