(* ===== verification/PyJson.thy ===== *)
theory PyJson
  imports Fabric_Prelude "HOL-Library.Finite_Map" "HOL-Library.List_Lexorder" "HOL-Library.Char_ord"
begin

text \<open>
  The Python values the modelled code passes around: JSON values, and the part of the language's
  operations on them that the code uses (\<^verbatim>\<open>dict.get\<close>, \<^verbatim>\<open>d[k]\<close>, truth value, \<^verbatim>\<open>isinstance\<close>, membership
  in a set of strings, \<^verbatim>\<open>str.startswith\<close>, \<^verbatim>\<open>str.split\<close>, \<^verbatim>\<open>int\<close>, comparison of numbers).

  A \<^verbatim>\<open>str\<close> is a list of characters whose code points are below 256. A \<^verbatim>\<open>dict\<close> is a finite map from
  strings, so HOL equality of two dicts is Python's \<^verbatim>\<open>==\<close> on them up to the identification of
  \<^verbatim>\<open>1\<close>, \<^verbatim>\<open>1.0\<close> and \<^verbatim>\<open>True\<close>, and no definition depends on an iteration order. A finite float is its
  sign and its shortest round-trip decimal (mantissa and power of ten), which is what \<^verbatim>\<open>repr\<close> prints
  and \<^verbatim>\<open>json.loads\<close> reads back; the non-finite floats are not JSON values.
\<close>

section \<open>Values\<close>

datatype json =
    JNull
  | JBool bool
  | JInt int
  | JFloat bool nat int
  | JStr string
  | JList "json list"
  | JObj "(string, json) fmap"

type_synonym dict = "(string, json) fmap"

abbreviation dict_of :: "(string \<times> json) list \<Rightarrow> dict" where
  "dict_of kvs \<equiv> fmap_of_list kvs"

abbreviation obj :: "(string \<times> json) list \<Rightarrow> json" where
  "obj kvs \<equiv> JObj (fmap_of_list kvs)"

definition opt_str :: "string option \<Rightarrow> json" where
  "opt_str x = (case x of None \<Rightarrow> JNull | Some s \<Rightarrow> JStr s)"

section \<open>Type tests and truth value\<close>

fun is_str :: "json \<Rightarrow> bool" where
  "is_str (JStr _) = True"
| "is_str _ = False"

fun is_list :: "json \<Rightarrow> bool" where
  "is_list (JList _) = True"
| "is_list _ = False"

fun is_dict :: "json \<Rightarrow> bool" where
  "is_dict (JObj _) = True"
| "is_dict _ = False"

fun is_bool :: "json \<Rightarrow> bool" where
  "is_bool (JBool _) = True"
| "is_bool _ = False"

text \<open>\<^verbatim>\<open>isinstance(x, int)\<close> holds of booleans too: \<^verbatim>\<open>bool\<close> is a subclass of \<^verbatim>\<open>int\<close>.\<close>

fun as_int :: "json \<Rightarrow> int option" where
  "as_int (JInt n) = Some n"
| "as_int (JBool b) = Some (if b then 1 else 0)"
| "as_int _ = None"

fun is_number :: "json \<Rightarrow> bool" where
  "is_number (JInt _) = True"
| "is_number (JBool _) = True"
| "is_number (JFloat _ _ _) = True"
| "is_number _ = False"

fun truthy :: "json \<Rightarrow> bool" where
  "truthy JNull = False"
| "truthy (JBool b) = b"
| "truthy (JInt n) = (n \<noteq> 0)"
| "truthy (JFloat _ m _) = (m \<noteq> 0)"
| "truthy (JStr s) = (s \<noteq> [])"
| "truthy (JList xs) = (xs \<noteq> [])"
| "truthy (JObj m) = (m \<noteq> fmempty)"

text \<open>The value of \<^verbatim>\<open>a or b\<close>.\<close>

definition py_or :: "json \<Rightarrow> json \<Rightarrow> json" where
  "py_or a b = (if truthy a then a else b)"

section \<open>Dictionaries\<close>

text \<open>\<^verbatim>\<open>d.get(k)\<close>, \<^verbatim>\<open>d.get(k, v)\<close>, \<^verbatim>\<open>d[k]\<close>, and \<^verbatim>\<open>x.get(k)\<close> on a value that may not be a dict.\<close>

definition dget :: "dict \<Rightarrow> string \<Rightarrow> json" where
  "dget m k = (case fmlookup m k of None \<Rightarrow> JNull | Some v \<Rightarrow> v)"

definition dget_default :: "dict \<Rightarrow> string \<Rightarrow> json \<Rightarrow> json" where
  "dget_default m k d = (case fmlookup m k of None \<Rightarrow> d | Some v \<Rightarrow> v)"

definition dsub :: "dict \<Rightarrow> string \<Rightarrow> json result" where
  "dsub m k = (case fmlookup m k of None \<Rightarrow> Inl (PyKeyError k) | Some v \<Rightarrow> Inr v)"

definition jget :: "json \<Rightarrow> string \<Rightarrow> json result" where
  "jget v k = (case v of JObj m \<Rightarrow> Inr (dget m k) | _ \<Rightarrow> Inl PyAttributeError)"

definition keys_are :: "dict \<Rightarrow> string list \<Rightarrow> bool" where
  "keys_are m ks = (fmdom m = fset_of_list ks)"

text \<open>\<^verbatim>\<open>x in {s1, ..., sn}\<close> for a set of strings: an unhashable \<^verbatim>\<open>x\<close> raises \<^verbatim>\<open>TypeError\<close>.\<close>

fun in_strset :: "json \<Rightarrow> string list \<Rightarrow> bool result" where
  "in_strset (JStr s) xs = Inr (s \<in> set xs)"
| "in_strset (JList _) xs = Inl PyTypeError"
| "in_strset (JObj _) xs = Inl PyTypeError"
| "in_strset _ xs = Inr False"

definition hashable :: "json \<Rightarrow> bool" where
  "hashable v = (\<not> is_list v \<and> \<not> is_dict v)"

section \<open>Strings\<close>

definition startswith :: "string \<Rightarrow> string \<Rightarrow> bool" where
  "startswith s p = (take (length p) s = p)"

text \<open>\<^verbatim>\<open>s.split(c)\<close> for a one-character separator: never the empty list.\<close>

fun split_on :: "char \<Rightarrow> string \<Rightarrow> string list" where
  "split_on c [] = [[]]"
| "split_on c (x # xs) =
     (if x = c then [] # split_on c xs
      else (case split_on c xs of [] \<Rightarrow> [[x]] | y # ys \<Rightarrow> (x # y) # ys))"

text \<open>\<^verbatim>\<open>c.join(parts)\<close> for a one-character separator.\<close>

fun join_with :: "char \<Rightarrow> string list \<Rightarrow> string" where
  "join_with c [] = []"
| "join_with c [x] = x"
| "join_with c (x # y # ys) = x @ c # join_with c (y # ys)"

text \<open>\<^verbatim>\<open>s.partition(c)\<close>: what comes before the first \<open>c\<close>, whether there is one, what comes after.\<close>

fun partition_on :: "char \<Rightarrow> string \<Rightarrow> string \<times> bool \<times> string" where
  "partition_on c [] = ([], False, [])"
| "partition_on c (x # xs) =
     (if x = c then ([], True, xs)
      else (case partition_on c xs of (a, f, b) \<Rightarrow> (x # a, f, b)))"

definition is_ascii_digit :: "char \<Rightarrow> bool" where
  "is_ascii_digit c = (48 \<le> (of_char c :: nat) \<and> (of_char c :: nat) \<le> 57)"

definition digit_val :: "char \<Rightarrow> nat" where
  "digit_val c = of_char c - 48"

text \<open>
  \<^verbatim>\<open>str.isdigit\<close> also holds of the superscript digits (code points 178, 179 and 185), which
  \<^verbatim>\<open>int\<close> refuses.
\<close>

definition isdigit_char :: "char \<Rightarrow> bool" where
  "isdigit_char c = (is_ascii_digit c \<or> (of_char c :: nat) \<in> {178, 179, 185})"

definition isdigit :: "string \<Rightarrow> bool" where
  "isdigit s = (s \<noteq> [] \<and> list_all isdigit_char s)"

definition digits_val :: "string \<Rightarrow> nat" where
  "digits_val s = foldl (\<lambda>n c. 10 * n + digit_val c) 0 s"

text \<open>\<^verbatim>\<open>int(s)\<close> on a string for which \<^verbatim>\<open>s.isdigit()\<close> holds.\<close>

definition int_of_digits :: "string \<Rightarrow> nat result" where
  "int_of_digits s = (if s \<noteq> [] \<and> list_all is_ascii_digit s then Inr (digits_val s) else Inl PyValueError)"

section \<open>Numbers\<close>

text \<open>A number as mantissa and power of ten; comparison by scaling to a common power.\<close>

fun num_parts :: "json \<Rightarrow> (int \<times> int) option" where
  "num_parts (JInt n) = Some (n, 0)"
| "num_parts (JBool b) = Some (if b then 1 else 0, 0)"
| "num_parts (JFloat s m e) = Some (if s then - int m else int m, e)"
| "num_parts _ = None"

fun parts_le :: "int \<times> int \<Rightarrow> int \<times> int \<Rightarrow> bool" where
  "parts_le (m, e) (n, f) =
     (let g = min e f in m * 10 ^ nat (e - g) \<le> n * 10 ^ nat (f - g))"

definition num_le :: "json \<Rightarrow> json \<Rightarrow> bool" where
  "num_le x y = (case (num_parts x, num_parts y) of (Some p, Some q) \<Rightarrow> parts_le p q | _ \<Rightarrow> False)"

section \<open>Lemmas on dictionaries and strings\<close>

lemma dget_eq: "fmlookup m k = Some v \<Longrightarrow> dget m k = v"
  by (simp add: dget_def)

lemma dget_fmupd [simp]: "dget (fmupd k v m) k' = (if k = k' then v else dget m k')"
  by (simp add: dget_def)

lemma dget_fmdrop [simp]: "dget (fmdrop k m) k' = (if k = k' then JNull else dget m k')"
  by (simp add: dget_def)

lemma dget_empty [simp]: "dget fmempty k = JNull"
  by (simp add: dget_def)

lemma dget_dict_of [simp]:
  "dget (dict_of kvs) k = (case map_of kvs k of None \<Rightarrow> JNull | Some v \<Rightarrow> v)"
  by (simp add: dget_def fmlookup_of_list)

lemma dget_default_dict_of [simp]:
  "dget_default (dict_of kvs) k d = (case map_of kvs k of None \<Rightarrow> d | Some v \<Rightarrow> v)"
  by (simp add: dget_default_def fmlookup_of_list)

lemma dget_default_fmupd [simp]:
  "dget_default (fmupd k v m) k' d = (if k = k' then v else dget_default m k' d)"
  by (simp add: dget_default_def)

lemma dget_default_empty [simp]: "dget_default fmempty k d = d"
  by (simp add: dget_default_def)

lemma dget_default_fmadd [simp]: "dget_default (a ++\<^sub>f b) k d = dget_default b k (dget_default a k d)"
  by (auto simp: dget_default_def split: option.splits)

lemma dget_as_default: "dget m k = dget_default m k JNull"
  by (simp add: dget_def dget_default_def)

lemma dget_default_present: "fmlookup m k \<noteq> None \<Longrightarrow> dget_default m k d = dget m k"
  by (auto simp: dget_default_def dget_def)

lemma dget_not_null: "dget m k \<noteq> JNull \<Longrightarrow> fmlookup m k = Some (dget m k)"
  by (auto simp: dget_def split: option.splits)

lemma dget_merge: "dget b k \<noteq> JNull \<Longrightarrow> dget (a ++\<^sub>f b) k = dget b k"
  by (auto simp: dget_def fmdomI split: option.splits)

lemma dsub_eq_Inr [result_simps]: "dsub m k = Inr v \<longleftrightarrow> fmlookup m k = Some v"
  by (simp add: dsub_def split: option.splits)

lemma dsub_dget: "fmlookup m k \<noteq> None \<Longrightarrow> dsub m k = Inr (dget m k)"
  by (auto simp: dsub_def dget_def)

lemma jget_JObj [simp]: "jget (JObj m) k = Inr (dget m k)"
  by (simp add: jget_def)

lemma jget_eq_Inr [result_simps]: "jget v k = Inr w \<longleftrightarrow> (\<exists>m. v = JObj m \<and> w = dget m k)"
  by (cases v) (auto simp: jget_def)

lemma keys_are_lookup: "keys_are m ks \<Longrightarrow> k \<in> set ks \<Longrightarrow> fmlookup m k = Some (dget m k)"
proof -
  assume "keys_are m ks" and "k \<in> set ks"
  then have "k |\<in>| fmdom m" by (simp add: keys_are_def fset_of_list_elem)
  then obtain v where "fmlookup m k = Some v" by auto
  then show ?thesis by (simp add: dget_def)
qed

lemma in_strset_eq_Inr_True: "in_strset v xs = Inr True \<longleftrightarrow> (\<exists>s. v = JStr s \<and> s \<in> set xs)"
  by (cases v) auto

lemma opt_str_simps [simp]:
  "opt_str None = JNull" "opt_str (Some s) = JStr s"
  by (simp_all add: opt_str_def)

lemma opt_str_inject [simp]: "opt_str x = opt_str y \<longleftrightarrow> x = y"
  by (cases x; cases y) simp_all

lemma startswith_append [simp]: "startswith (p @ s) p"
  by (simp add: startswith_def)

lemma startswith_iff: "startswith s p \<longleftrightarrow> (\<exists>t. s = p @ t)"
  unfolding startswith_def by (metis append_eq_conv_conj append_take_drop_id)

lemma split_on_nonempty [simp]: "split_on c s \<noteq> []"
  by (cases s) (auto split: list.splits)

lemma join_split_on: "join_with c (split_on c s) = s"
proof (induction s)
  case (Cons x xs)
  show ?case
  proof (cases "split_on c xs")
    case Nil
    then show ?thesis by simp
  next
    case (Cons y ys)
    with \<open>join_with c (split_on c xs) = xs\<close> show ?thesis by (cases ys) auto
  qed
qed simp

lemma split_on_no_sep: "p \<in> set (split_on c s) \<Longrightarrow> c \<notin> set p"
proof (induction s arbitrary: p)
  case (Cons x xs)
  then show ?case by (cases "split_on c xs") (auto split: if_splits)
qed simp

end
