(* ===== verification/Sha256.thy ===== *)
theory Sha256
  imports Main "HOL-Library.Char_ord"
begin

text \<open>
  \<^verbatim>\<open>hashlib.sha256(data).hexdigest()\<close>, which every Fabric identity is built on. Bytes are
  characters; a 32-bit word is an integer with the wrap-around \<open>mod 4294967296\<close> written out, so that
  the simplifier evaluates the function on a closed input. The published test vector for
  \<^verbatim>\<open>abc\<close> is the lemma \<open>sha256_abc\<close>.
\<close>

unbundle bit_operations_syntax

section \<open>The compression function\<close>

type_synonym sha_regs = "int \<times> int \<times> int \<times> int \<times> int \<times> int \<times> int \<times> int"

definition sha_k :: "int list" where
  "sha_k =
    [1116352408, 1899447441, 3049323471, 3921009573, 961987163, 1508970993, 2453635748, 2870763221,
     3624381080, 310598401, 607225278, 1426881987, 1925078388, 2162078206, 2614888103, 3248222580,
     3835390401, 4022224774, 264347078, 604807628, 770255983, 1249150122, 1555081692, 1996064986,
     2554220882, 2821834349, 2952996808, 3210313671, 3336571891, 3584528711, 113926993, 338241895,
     666307205, 773529912, 1294757372, 1396182291, 1695183700, 1986661051, 2177026350, 2456956037,
     2730485921, 2820302411, 3259730800, 3345764771, 3516065817, 3600352804, 4094571909, 275423344,
     430227734, 506948616, 659060556, 883997877, 958139571, 1322822218, 1537002063, 1747873779,
     1955562222, 2024104815, 2227730452, 2361852424, 2428436474, 2756734187, 3204031479, 3329325298]"

definition sha_init :: sha_regs where
  "sha_init = (1779033703, 3144134277, 1013904242, 2773480762,
               1359893119, 2600822924, 528734635, 1541459225)"

definition sha_rotr :: "nat \<Rightarrow> int \<Rightarrow> int" where
  "sha_rotr n x = drop_bit n x OR push_bit (32 - n) (take_bit n x)"

text \<open>The sliding window of the message schedule: the sixteen words the next rounds read.\<close>

fun sha_window :: "int list \<Rightarrow> int list" where
  "sha_window [w0, w1, w2, w3, w4, w5, w6, w7, w8, w9, w10, w11, w12, w13, w14, w15] =
     [w1, w2, w3, w4, w5, w6, w7, w8, w9, w10, w11, w12, w13, w14, w15,
      (w0 + (sha_rotr 7 w1 XOR sha_rotr 18 w1 XOR drop_bit 3 w1) + w9
          + (sha_rotr 17 w14 XOR sha_rotr 19 w14 XOR drop_bit 10 w14)) mod 4294967296]"
| "sha_window ws = ws"

fun sha_round :: "sha_regs \<Rightarrow> int \<Rightarrow> int \<Rightarrow> sha_regs" where
  "sha_round (a, b, c, d, e, f, g, h) k w =
     (let t1 = (h + (sha_rotr 6 e XOR sha_rotr 11 e XOR sha_rotr 25 e)
                  + ((e AND f) XOR ((4294967295 - e) AND g)) + k + w) mod 4294967296;
          t2 = (sha_rotr 2 a XOR sha_rotr 13 a XOR sha_rotr 22 a)
                  + ((a AND b) XOR (a AND c) XOR (b AND c))
      in ((t1 + t2) mod 4294967296, a, b, c, (d + t1) mod 4294967296, e, f, g))"

primrec sha_rounds :: "int list \<Rightarrow> sha_regs \<Rightarrow> int list \<Rightarrow> sha_regs" where
  "sha_rounds [] r ws = r"
| "sha_rounds (k # ks) r ws = sha_rounds ks (sha_round r k (hd ws)) (sha_window ws)"

definition sha_add :: "sha_regs \<Rightarrow> sha_regs \<Rightarrow> sha_regs" where
  "sha_add r r' =
     (case r of (a, b, c, d, e, f, g, h) \<Rightarrow>
      case r' of (a', b', c', d', e', f', g', h') \<Rightarrow>
        ((a + a') mod 4294967296, (b + b') mod 4294967296, (c + c') mod 4294967296,
         (d + d') mod 4294967296, (e + e') mod 4294967296, (f + f') mod 4294967296,
         (g + g') mod 4294967296, (h + h') mod 4294967296))"

section \<open>Padding, blocks and the hexadecimal digest\<close>

definition sha_pad :: "string \<Rightarrow> string" where
  "sha_pad m = m @ CHR 0x80 # replicate ((119 - length m mod 64) mod 64) (CHR 0x00)
     @ map (\<lambda>i. char_of ((8 * length m) div 256 ^ i mod 256)) [7, 6, 5, 4, 3, 2, 1, 0]"

fun sha_words :: "string \<Rightarrow> int list" where
  "sha_words (a # b # c # d # r) =
     (((int (of_char a) * 256 + int (of_char b)) * 256 + int (of_char c)) * 256 + int (of_char d)) # sha_words r"
| "sha_words _ = []"

function sha_blocks :: "int list \<Rightarrow> sha_regs \<Rightarrow> sha_regs" where
  "sha_blocks ws r =
     (if ws = [] then r else sha_blocks (drop 16 ws) (sha_add r (sha_rounds sha_k r (take 16 ws))))"
  by pat_completeness auto
termination
  by (relation "measure (\<lambda>(ws, r). length ws)") auto

definition hex_digit :: "nat \<Rightarrow> char" where
  "hex_digit n = ''0123456789abcdef'' ! (n mod 16)"

definition hex_word :: "int \<Rightarrow> string" where
  "hex_word w = map (\<lambda>i. hex_digit (nat (w div 16 ^ i mod 16))) [7, 6, 5, 4, 3, 2, 1, 0]"

definition sha256_hex :: "string \<Rightarrow> string" where
  "sha256_hex m =
     (case sha_blocks (sha_words (sha_pad m)) sha_init of
        (a, b, c, d, e, f, g, h) \<Rightarrow> concat (map hex_word [a, b, c, d, e, f, g, h]))"

declare sha_blocks.simps [simp del]

section \<open>Shape of the digest\<close>

lemma hex_digit_in: "hex_digit n \<in> set ''0123456789abcdef''"
proof -
  have "n mod 16 < length ''0123456789abcdef''" by simp
  then show ?thesis unfolding hex_digit_def by (rule nth_mem)
qed

lemma hex_digit_inj: "m < 16 \<Longrightarrow> n < 16 \<Longrightarrow> hex_digit m = hex_digit n \<Longrightarrow> m = n"
proof -
  assume mn: "m < 16" "n < 16" and eq: "hex_digit m = hex_digit n"
  have "distinct ''0123456789abcdef''" by simp
  moreover have "m < length ''0123456789abcdef''" "n < length ''0123456789abcdef''"
    using mn by simp_all
  moreover have "''0123456789abcdef'' ! m = ''0123456789abcdef'' ! n"
    using eq mn by (simp add: hex_digit_def)
  ultimately show ?thesis by (simp only: nth_eq_iff_index_eq)
qed

lemma sha256_hex_length: "length (sha256_hex m) = 64"
  by (simp add: sha256_hex_def hex_word_def split: prod.split)

lemma sha256_hex_chars: "set (sha256_hex m) \<subseteq> set ''0123456789abcdef''"
proof -
  have "set (hex_word w) \<subseteq> set ''0123456789abcdef''" for w
    unfolding hex_word_def set_map using hex_digit_in by blast
  then show ?thesis
    unfolding sha256_hex_def by (simp only: split: prod.split) (simp del: set_simps add: set_concat)
qed

lemma replicate_numeral_Cons: "replicate (numeral k) x = x # replicate (pred_numeral k) x"
  by (simp add: numeral_eq_Suc)

lemma sha256_abc:
  "sha256_hex ''abc'' = ''ba7816bf8f01cfea414140de5dae2223b00361a396177a9cb410ff61f20015ad''"
proof -
  have pad: "sha_words (sha_pad ''abc'') = [0x61626380, 0, 0, 0, 0, 0, 0, 0, 0, 0, 0, 0, 0, 0, 0, 0x18]"
    by (simp add: sha_pad_def replicate_numeral_Cons)
  have "sha_rounds sha_k sha_init [0x61626380, 0, 0, 0, 0, 0, 0, 0, 0, 0, 0, 0, 0, 0, 0, 0x18] =
     ((0xba7816bf - 0x6a09e667) mod 4294967296, (0x8f01cfea - 0xbb67ae85) mod 4294967296,
      (0x414140de - 0x3c6ef372) mod 4294967296, (0x5dae2223 - 0xa54ff53a) mod 4294967296,
      (0xb00361a3 - 0x510e527f) mod 4294967296, (0x96177a9c - 0x9b05688c) mod 4294967296,
      (0xb410ff61 - 0x1f83d9ab) mod 4294967296, (0xf20015ad - 0x5be0cd19) mod 4294967296)"
    by (simp add: sha_k_def sha_init_def sha_rotr_def Let_def)
  then have "sha_blocks (sha_words (sha_pad ''abc'')) sha_init =
     (0xba7816bf, 0x8f01cfea, 0x414140de, 0x5dae2223, 0xb00361a3, 0x96177a9c, 0xb410ff61, 0xf20015ad)"
    by (simp add: pad sha_blocks.simps [of "_ # _"] sha_blocks.simps [of "[]"] sha_init_def sha_add_def)
  then show ?thesis
    by (simp add: sha256_hex_def hex_word_def hex_digit_def)
qed

end
