(* ===== verification/Canonical.thy ===== *)
theory Canonical
  imports PyJson Sha256
begin

text \<open>
  \<^verbatim>\<open>src/src/mncs_fabric/canonical.py\<close>: canonical JSON bytes, SHA-256 identities, and the functions
  that attach an identity to a record and verify it. \<open>json_dumps\<close> is \<^verbatim>\<open>json.dumps\<close> with the
  options the source passes (keys sorted, no white space, non-ASCII kept); \<open>utf8\<close> is
  \<^verbatim>\<open>str.encode("utf-8")\<close> on code points below 256.

  Shown here: an attached identity verifies and has the shape \<open>is_sha256_identity\<close> accepts; the
  canonical encoding is injective on values without floats, so that two records with the same
  identity are equal unless SHA-256 collides on their encodings.
\<close>

section \<open>json.dumps and UTF-8\<close>

fun show_nat :: "nat \<Rightarrow> string" where
  "show_nat n = (if n < 10 then [char_of (48 + n)] else show_nat (n div 10) @ [char_of (48 + n mod 10)])"

definition show_int :: "int \<Rightarrow> string" where
  "show_int i = (if i < 0 then CHR ''-'' # show_nat (nat (- i)) else show_nat (nat i))"

text \<open>
  \<^verbatim>\<open>float.__repr__\<close>: \<open>p\<close> is the position of the decimal point after the digits; exponent form is used
  when it lies more than sixteen places to the right or at least four to the left of the digits.
\<close>

definition float_repr :: "bool \<Rightarrow> nat \<Rightarrow> int \<Rightarrow> string" where
  "float_repr s m e =
     (let ds = show_nat m; p = int (length ds) + e;
          body =
            (if m = 0 then ''0.0''
             else if p \<le> -4 \<or> 16 < p then
               hd ds # (if tl ds = [] then [] else CHR ''.'' # tl ds) @ CHR ''e''
                 # (if p - 1 < 0 then CHR ''-'' else CHR ''+'')
                 # (let x = show_nat (nat \<bar>p - 1\<bar>) in if length x < 2 then CHR ''0'' # x else x)
             else if p \<le> 0 then ''0.'' @ replicate (nat (- p)) (CHR ''0'') @ ds
             else if int (length ds) \<le> p then ds @ replicate (nat (p - int (length ds))) (CHR ''0'') @ ''.0''
             else take (nat p) ds @ CHR ''.'' # drop (nat p) ds)
      in if s then CHR ''-'' # body else body)"

definition json_escape :: "char \<Rightarrow> string" where
  "json_escape c =
     (if c = CHR 0x22 then [CHR 0x5C, CHR 0x22]
      else if c = CHR 0x5C then [CHR 0x5C, CHR 0x5C]
      else if c = CHR 0x08 then [CHR 0x5C, CHR ''b'']
      else if c = CHR 0x0C then [CHR 0x5C, CHR ''f'']
      else if c = CHR 0x0A then [CHR 0x5C, CHR ''n'']
      else if c = CHR 0x0D then [CHR 0x5C, CHR ''r'']
      else if c = CHR 0x09 then [CHR 0x5C, CHR ''t'']
      else if (of_char c :: nat) < 32 then
        [CHR 0x5C, CHR ''u'', CHR ''0'', CHR ''0'', hex_digit (of_char c div 16), hex_digit (of_char c mod 16)]
      else [c])"

definition json_string :: "string \<Rightarrow> string" where
  "json_string s = CHR 0x22 # concat (map json_escape s) @ [CHR 0x22]"

fun join_comma :: "string list \<Rightarrow> string" where
  "join_comma [] = []"
| "join_comma [x] = x"
| "join_comma (x # y # ys) = x @ CHR '','' # join_comma (y # ys)"

primrec json_dumps :: "json \<Rightarrow> string" where
  "json_dumps JNull = ''null''"
| "json_dumps (JBool b) = (if b then ''true'' else ''false'')"
| "json_dumps (JInt n) = show_int n"
| "json_dumps (JFloat s m e) = float_repr s m e"
| "json_dumps (JStr s) = json_string s"
| "json_dumps (JList xs) = CHR ''['' # join_comma (map json_dumps xs) @ '']''"
| "json_dumps (JObj m) =
     CHR 0x7B # join_comma (map (\<lambda>(k, t). json_string k @ CHR '':'' # t)
       (sorted_list_of_fmap (fmmap json_dumps m))) @ [CHR 0x7D]"

definition utf8_char :: "char \<Rightarrow> string" where
  "utf8_char c = (let n = (of_char c :: nat) in
     if n < 128 then [c] else [char_of (192 + n div 64), char_of (128 + n mod 64)])"

definition utf8 :: "string \<Rightarrow> string" where
  "utf8 s = concat (map utf8_char s)"

definition canonical_json_bytes :: "json \<Rightarrow> string" where
  "canonical_json_bytes v = utf8 (json_dumps v)"

section \<open>Identities\<close>

definition IDENTITY_PREFIX :: string where
  "IDENTITY_PREFIX = ''sha256:''"

definition sha256_identity_bytes :: "string \<Rightarrow> string" where
  "sha256_identity_bytes data = IDENTITY_PREFIX @ sha256_hex data"

definition sha256_identity :: "json \<Rightarrow> string" where
  "sha256_identity v = sha256_identity_bytes (canonical_json_bytes v)"

definition identity_payload :: "dict \<Rightarrow> string \<Rightarrow> dict" where
  "identity_payload r f = fmdrop f r"

definition attach_identity :: "dict \<Rightarrow> string \<Rightarrow> dict" where
  "attach_identity r f = (let p = identity_payload r f in fmupd f (JStr (sha256_identity (JObj p))) p)"

definition verify_identity :: "dict \<Rightarrow> string \<Rightarrow> bool" where
  "verify_identity r f =
     (case dget r f of JStr actual \<Rightarrow> actual = sha256_identity (JObj (identity_payload r f)) | _ \<Rightarrow> False)"

definition is_sha256_identity :: "json \<Rightarrow> bool" where
  "is_sha256_identity v =
     (case v of JStr s \<Rightarrow>
        startswith s IDENTITY_PREFIX \<and>
        (let digest = drop (length IDENTITY_PREFIX) s in
           length digest = 64 \<and> list_all (\<lambda>ch. ch \<in> set ''0123456789abcdef'') digest)
      | _ \<Rightarrow> False)"

text \<open>Values that contain no float: the domain of the injectivity theorem.\<close>

primrec float_free :: "json \<Rightarrow> bool" where
  "float_free JNull = True"
| "float_free (JBool b) = True"
| "float_free (JInt n) = True"
| "float_free (JFloat s m e) = False"
| "float_free (JStr s) = True"
| "float_free (JList xs) = list_all id (map float_free xs)"
| "float_free (JObj m) = fmpred (\<lambda>_ b. b) (fmmap float_free m)"

declare show_nat.simps [simp del]

section \<open>Attached identities verify\<close>

lemma fmlookup_attach [simp]:
  "fmlookup (attach_identity r f) k =
     (if k = f then Some (JStr (sha256_identity (JObj (fmdrop f r)))) else fmlookup r k)"
  by (simp add: attach_identity_def identity_payload_def Let_def)

lemma dget_attach [simp]:
  "dget (attach_identity r f) k =
     (if k = f then JStr (sha256_identity (JObj (fmdrop f r))) else dget r k)"
  by (simp add: dget_def)

lemma fmdrop_twice [simp]: "fmdrop f (fmdrop f r) = fmdrop f r"
  by (rule fmap_ext) simp

lemma fmdrop_attach [simp]: "fmdrop f (attach_identity r f) = fmdrop f r"
  by (rule fmap_ext) simp

lemma fmdom_attach [simp]: "fmdom (attach_identity r f) = finsert f (fmdom r)"
  by (auto simp: attach_identity_def identity_payload_def Let_def)

lemma sha256_identity_shape: "is_sha256_identity (JStr (sha256_identity v))"
  using sha256_hex_chars sha256_hex_length
  by (fastforce simp: is_sha256_identity_def sha256_identity_def sha256_identity_bytes_def
      IDENTITY_PREFIX_def startswith_def list_all_iff Let_def)

lemma sha256_identity_startswith [simp]: "startswith (sha256_identity v) ''sha256:''"
  by (simp add: sha256_identity_def sha256_identity_bytes_def IDENTITY_PREFIX_def startswith_def)

lemma sha256_identity_nonempty [simp]: "sha256_identity v \<noteq> []"
  by (simp add: sha256_identity_def sha256_identity_bytes_def IDENTITY_PREFIX_def)

lemma verify_attach [simp]: "verify_identity (attach_identity r f) f"
  by (simp add: verify_identity_def identity_payload_def)

lemma verify_identity_iff:
  "verify_identity r f \<longleftrightarrow> r = attach_identity (fmdrop f r) f"
proof
  assume "verify_identity r f"
  then have f: "dget r f = JStr (sha256_identity (JObj (fmdrop f r)))"
    by (auto simp: verify_identity_def identity_payload_def split: json.splits)
  then have "fmlookup r f = Some (JStr (sha256_identity (JObj (fmdrop f r))))"
    by (metis dget_not_null json.distinct(7))
  then show "r = attach_identity (fmdrop f r) f"
    by (intro fmap_ext) auto
next
  assume "r = attach_identity (fmdrop f r) f"
  then show "verify_identity r f" by (metis verify_attach)
qed


section \<open>The canonical encoding is injective\<close>

text \<open>What follows a value in a canonical text never starts with a digit.\<close>

definition nondigit_start :: "string \<Rightarrow> bool" where
  "nondigit_start r = (r = [] \<or> \<not> is_ascii_digit (hd r))"

lemma nondigit_start_simps [simp]:
  "nondigit_start []" "nondigit_start (c # r) = (\<not> is_ascii_digit c)"
  by (simp_all add: nondigit_start_def)

lemma is_ascii_digit_char_of [simp]: "d < 10 \<Longrightarrow> is_ascii_digit (char_of (48 + d :: nat))"
  by (simp add: is_ascii_digit_def)

lemma digit_val_char_of [simp]: "d < 10 \<Longrightarrow> digit_val (char_of (48 + d :: nat)) = d"
  by (simp add: digit_val_def)

lemma digits_val_snoc [simp]: "digits_val (s @ [c]) = 10 * digits_val s + digit_val c"
  by (simp add: digits_val_def)

lemma show_nat_digits: "list_all is_ascii_digit (show_nat n)"
proof (induction n rule: show_nat.induct)
  case (1 n)
  then show ?case by (cases "n < 10") (simp_all add: show_nat.simps [of n])
qed

lemma show_nat_nonempty [simp]: "show_nat n \<noteq> []"
  by (simp add: show_nat.simps [of n])

lemma digits_val_show_nat: "digits_val (show_nat n) = n"
proof (induction n rule: show_nat.induct)
  case (1 n)
  show ?case
  proof (cases "n < 10")
    case True
    then have "digits_val ([] @ show_nat n) = n"
      by (simp add: show_nat.simps [of n] digits_val_def)
    then show ?thesis by simp
  next
    case False
    with 1 show ?thesis by (simp add: show_nat.simps [of n])
  qed
qed

lemma takeWhile_digits:
  "list_all is_ascii_digit ds \<Longrightarrow> nondigit_start r \<Longrightarrow> takeWhile is_ascii_digit (ds @ r) = ds"
  by (cases r) (auto simp: list_all_iff takeWhile_append2)

lemma show_nat_prefix:
  assumes eq: "show_nat m @ r = show_nat n @ s" and r: "nondigit_start r" and s: "nondigit_start s"
  shows "m = n \<and> r = s"
proof -
  have "show_nat m = takeWhile is_ascii_digit (show_nat m @ r)"
    using show_nat_digits r by (simp add: takeWhile_digits)
  also have "\<dots> = show_nat n"
    unfolding eq using show_nat_digits s by (simp add: takeWhile_digits)
  finally have sh: "show_nat m = show_nat n" .
  then have "digits_val (show_nat m) = digits_val (show_nat n)" by simp
  then have "m = n" by (simp add: digits_val_show_nat)
  with sh eq show ?thesis by simp
qed

lemma show_nat_head: "\<exists>c r. show_nat n = c # r \<and> is_ascii_digit c"
proof (cases "show_nat n")
  case (Cons c r)
  with show_nat_digits [of n] show ?thesis by simp
qed simp

lemma show_int_prefix:
  assumes eq: "show_int i @ r = show_int j @ s" and r: "nondigit_start r" and s: "nondigit_start s"
  shows "i = j \<and> r = s"
proof -
  have minus: "\<not> is_ascii_digit (CHR ''-'')" by (simp add: is_ascii_digit_def)
  obtain c u where c: "show_nat (nat i) = c # u" "is_ascii_digit c" using show_nat_head by blast
  obtain d v where d: "show_nat (nat j) = d # v" "is_ascii_digit d" using show_nat_head by blast
  consider "i < 0" "j < 0" | "\<not> i < 0" "\<not> j < 0" | "(i < 0) \<noteq> (j < 0)" by blast
  then show ?thesis
  proof cases
    case 1
    with eq have "nat (- i) = nat (- j) \<and> r = s"
      using show_nat_prefix [OF _ r s, of "nat (- i)" "nat (- j)"] by (simp add: show_int_def)
    with 1 show ?thesis by auto
  next
    case 2
    with eq have "nat i = nat j \<and> r = s"
      using show_nat_prefix [OF _ r s, of "nat i" "nat j"] by (simp add: show_int_def)
    with 2 show ?thesis by auto
  next
    case 3
    with eq c d minus show ?thesis by (auto simp: show_int_def split: if_splits)
  qed
qed

definition num_start :: "char \<Rightarrow> bool" where
  "num_start c = (is_ascii_digit c \<or> c = CHR ''-'')"

lemma num_start_simps [simp]:
  "\<not> num_start (CHR ''n'')" "\<not> num_start (CHR ''t'')" "\<not> num_start (CHR ''f'')"
  "\<not> num_start (CHR 0x22)" "\<not> num_start (CHR ''['')" "\<not> num_start (CHR 0x7B)"
  "\<not> num_start (CHR '']'')" "\<not> num_start (CHR 0x7D)" "\<not> num_start (CHR '','')"
  by (simp_all add: num_start_def is_ascii_digit_def)

lemma show_int_head: "\<exists>c r. show_int i = c # r \<and> num_start c"
  using show_nat_head [of "nat i"] by (auto simp: show_int_def num_start_def)

lemma show_int_start: "show_int i @ s = c # r \<Longrightarrow> num_start c" "c # r = show_int i @ s \<Longrightarrow> num_start c"
  using show_int_head [of i] by auto

subsection \<open>Strings\<close>

definition escape_pairs :: "(char \<times> char) list" where
  "escape_pairs = [(CHR 0x22, CHR 0x22), (CHR 0x5C, CHR 0x5C), (CHR 0x08, CHR ''b''), (CHR 0x0C, CHR ''f''),
     (CHR 0x0A, CHR ''n''), (CHR 0x0D, CHR ''r''), (CHR 0x09, CHR ''t'')]"

lemma json_escape_cases:
  obtains (plain) "json_escape c = [c]" "c \<noteq> CHR 0x5C" "c \<noteq> CHR 0x22"
  | (short) x where "json_escape c = [CHR 0x5C, x]" "(c, x) \<in> set escape_pairs"
  | (long) "json_escape c = [CHR 0x5C, CHR ''u'', CHR ''0'', CHR ''0'',
      hex_digit (of_char c div 16), hex_digit (of_char c mod 16)]" "(of_char c :: nat) < 32"
proof -
  have "(json_escape c = [c] \<and> c \<noteq> CHR 0x5C \<and> c \<noteq> CHR 0x22)
    \<or> (\<exists>x. json_escape c = [CHR 0x5C, x] \<and> (c, x) \<in> set escape_pairs)
    \<or> (json_escape c = [CHR 0x5C, CHR ''u'', CHR ''0'', CHR ''0'',
        hex_digit (of_char c div 16), hex_digit (of_char c mod 16)] \<and> (of_char c :: nat) < 32)"
    by (simp add: json_escape_def escape_pairs_def)
  with that show ?thesis by blast
qed

lemma escape_pairs_inj: "(c, x) \<in> set escape_pairs \<Longrightarrow> (d, x) \<in> set escape_pairs \<Longrightarrow> c = d"
  unfolding escape_pairs_def by auto

lemma escape_pairs_no_u: "(c, CHR ''u'') \<notin> set escape_pairs"
  unfolding escape_pairs_def by simp

lemma hex_pair_inj:
  assumes "(of_char x :: nat) < 32" and "(of_char y :: nat) < 32"
    and "hex_digit (of_char x div 16) = hex_digit (of_char y div 16)"
    and "hex_digit (of_char x mod 16) = hex_digit (of_char y mod 16)"
  shows "x = y"
proof -
  have "of_char x div 16 = (of_char y div 16 :: nat)"
    by (rule hex_digit_inj) (use assms in auto)
  moreover have "of_char x mod 16 = (of_char y mod 16 :: nat)"
    by (rule hex_digit_inj) (use assms in auto)
  ultimately have "(of_char x :: nat) = of_char y" by (metis div_mult_mod_eq)
  then show ?thesis by simp
qed

lemma json_escape_prefix: "json_escape c @ u = json_escape d @ v \<Longrightarrow> c = d \<and> u = v"
proof (cases c rule: json_escape_cases)
  case plain
  assume "json_escape c @ u = json_escape d @ v"
  with plain show ?thesis by (cases d rule: json_escape_cases) auto
next
  case (short x)
  assume "json_escape c @ u = json_escape d @ v"
  with short show ?thesis
    by (cases d rule: json_escape_cases) (auto dest: escape_pairs_inj simp: escape_pairs_no_u)
next
  case long
  assume "json_escape c @ u = json_escape d @ v"
  with long show ?thesis
    by (cases d rule: json_escape_cases) (auto intro: hex_pair_inj simp: escape_pairs_no_u)
qed

lemma json_escape_not_quote: "json_escape c @ u \<noteq> CHR 0x22 # v"
  by (cases c rule: json_escape_cases) auto

lemma escapes_prefix:
  "concat (map json_escape s) @ CHR 0x22 # r = concat (map json_escape t) @ CHR 0x22 # r' \<Longrightarrow> s = t \<and> r = r'"
proof (induction s arbitrary: t)
  case Nil
  show ?case
  proof (cases t)
    case (Cons d t')
    with Nil.prems have "json_escape d @ concat (map json_escape t') @ CHR 0x22 # r' = CHR 0x22 # r" by simp
    with json_escape_not_quote show ?thesis by blast
  qed (use Nil.prems in simp)
next
  case (Cons c s)
  show ?case
  proof (cases t)
    case Nil
    with Cons.prems show ?thesis using json_escape_not_quote by simp
  next
    case (Cons d t')
    with Cons.prems
    have "json_escape c @ concat (map json_escape s) @ CHR 0x22 # r
        = json_escape d @ concat (map json_escape t') @ CHR 0x22 # r'" by simp
    then have "c = d" and "concat (map json_escape s) @ CHR 0x22 # r = concat (map json_escape t') @ CHR 0x22 # r'"
      using json_escape_prefix by blast+
    with Cons.IH Cons show ?thesis by blast
  qed
qed

lemma json_string_prefix: "json_string s @ r = json_string t @ r' \<Longrightarrow> s = t \<and> r = r'"
  using escapes_prefix [of s r t r'] by (simp add: json_string_def)

subsection \<open>Lists and objects\<close>

lemma join_comma_Cons:
  "join_comma (x # xs) = x @ (if xs = [] then [] else CHR '','' # join_comma xs)"
  by (cases xs) simp_all

lemma join_prefix:
  assumes inj: "\<And>x y r s. x \<in> set xs \<Longrightarrow> y \<in> set ys \<Longrightarrow> nondigit_start r \<Longrightarrow> nondigit_start s \<Longrightarrow>
      f x @ r = f y @ s \<Longrightarrow> x = y \<and> r = s"
    and hd: "\<And>x. x \<in> set xs \<union> set ys \<Longrightarrow> \<exists>c r. f x = c # r \<and> c \<noteq> e"
    and e: "e \<noteq> CHR '',''" "\<not> is_ascii_digit e"
    and eq: "join_comma (map f xs) @ e # r = join_comma (map f ys) @ e # s"
  shows "xs = ys \<and> r = s"
  using inj hd eq
proof (induction xs arbitrary: ys)
  case Nil
  then show ?case by (cases ys) (fastforce simp: join_comma_Cons)+
next
  case (Cons x xs)
  have comma: "\<not> is_ascii_digit (CHR '','')" by (simp add: is_ascii_digit_def)
  show ?case
  proof (cases ys)
    case Nil
    with Cons.prems(2) [of x] Cons.prems(3) show ?thesis by (auto simp: join_comma_Cons)
  next
    case (Cons y ys')
    let ?tl = "\<lambda>zs t. if zs = [] then e # t else CHR '','' # join_comma (map f zs) @ e # t"
    from Cons.prems(3) Cons have "f x @ ?tl xs r = f y @ ?tl ys' s"
      by (auto simp: join_comma_Cons)
    then have xy: "x = y" "?tl xs r = ?tl ys' s"
      using Cons.prems(1) [of x y "?tl xs r" "?tl ys' s"] Cons comma e by simp_all
    show ?thesis
    proof (cases "xs = [] \<or> ys' = []")
      case True
      with xy e show ?thesis using Cons by (auto split: if_splits)
    next
      case False
      with xy have "join_comma (map f xs) @ e # r = join_comma (map f ys') @ e # s" by simp
      then have "xs = ys' \<and> r = s"
        by (intro Cons.IH) (use Cons.prems(1,2) Cons in auto)
      with xy Cons show ?thesis by simp
    qed
  qed
qed

lemma sorted_list_fmmap:
  "sorted_list_of_fmap (fmmap f m) = map (\<lambda>(k, v). (k, f v)) (sorted_list_of_fmap m)"
  unfolding sorted_list_of_fmap_def by (auto simp: sorted_list_of_fset_simps elim!: fmdomE)

lemma sorted_list_of_fmap_inj: "sorted_list_of_fmap m = sorted_list_of_fmap n \<Longrightarrow> m = n"
  by (metis map_of_sorted_list fmlookup_inject)


definition dump_pair :: "string \<times> json \<Rightarrow> string" where
  "dump_pair p = json_string (fst p) @ CHR '':'' # json_dumps (snd p)"

lemma json_dumps_JObj:
  "json_dumps (JObj m) = CHR 0x7B # join_comma (map dump_pair (sorted_list_of_fmap m)) @ [CHR 0x7D]"
  by (simp add: sorted_list_fmmap dump_pair_def [abs_def] comp_def split_beta)

lemma sorted_list_of_fmap_ran: "(k, v) \<in> set (sorted_list_of_fmap m) \<Longrightarrow> fmlookup m k = Some v"
  by (auto simp: sorted_list_of_fmap_def sorted_list_of_fset_simps elim!: fmdomE)

lemma float_free_JObj: "float_free (JObj m) \<longleftrightarrow> (\<forall>k v. fmlookup m k = Some v \<longrightarrow> float_free v)"
  unfolding float_free.simps fmpred_iff by (metis fmlookup_map option.simps(9) map_option_eq_Some)

declare float_free.simps(7) [simp del]

lemma float_free_fmempty [simp]: "float_free (JObj fmempty)"
  by (simp add: float_free_JObj)

lemma float_free_fmupd [simp]: "float_free v \<Longrightarrow> float_free (JObj m) \<Longrightarrow> float_free (JObj (fmupd k v m))"
  by (simp add: float_free_JObj)

lemma float_free_fmdrop [simp]: "float_free (JObj m) \<Longrightarrow> float_free (JObj (fmdrop k m))"
  by (auto simp: float_free_JObj)

lemma float_free_attach [simp]: "float_free (JObj r) \<Longrightarrow> float_free (JObj (attach_identity r f))"
  by (simp add: float_free_JObj)

lemma json_dumps_head:
  assumes "float_free v"
  shows "\<exists>c r. json_dumps v = c # r \<and> c \<notin> {CHR '']'', CHR 0x7D, CHR '',''}"
proof (cases v)
  case (JInt n)
  then show ?thesis using show_int_head [of n] by auto
qed (use assms in \<open>auto simp: json_string_def\<close>)

lemma json_dumps_prefix:
  assumes "float_free v" and "float_free w" and "json_dumps v @ r = json_dumps w @ s"
    and "nondigit_start r" and "nondigit_start s"
  shows "v = w \<and> r = s"
  using assms
proof (induction v arbitrary: w r s)
  case JNull
  then show ?case by (cases w) (auto simp: json_string_def split: if_splits dest!: show_int_start)
next
  case (JBool b)
  then show ?case by (cases w) (auto simp: json_string_def split: if_splits dest!: show_int_start)
next
  case (JInt n)
  show ?case
  proof (cases w)
    case (JInt k)
    with JInt.prems show ?thesis using show_int_prefix [of n r k s] by simp
  qed (use JInt in \<open>auto simp: json_string_def split: if_splits dest!: show_int_start\<close>)
next
  case (JFloat a b c)
  then show ?case by simp
next
  case (JStr t)
  show ?case
  proof (cases w)
    case (JStr u)
    with JStr.prems show ?thesis using json_string_prefix [of t r u s] by simp
  qed (use JStr in \<open>auto simp: json_string_def split: if_splits dest!: show_int_start\<close>)
next
  case (JList xs)
  show ?case
  proof (cases w)
    case (JList ys)
    have "xs = ys \<and> r = s"
    proof (rule join_prefix [of xs ys json_dumps "CHR '']''"])
      show "x = y \<and> r = s" if "x \<in> set xs" "y \<in> set ys" "nondigit_start r" "nondigit_start s"
        "json_dumps x @ r = json_dumps y @ s" for x y r s
        by (rule JList.IH) (use JList.prems(1,2) JList that in \<open>auto simp: list_all_iff\<close>)
      show "\<exists>c r. json_dumps x = c # r \<and> c \<noteq> CHR '']''" if "x \<in> set xs \<union> set ys" for x
        using JList.prems(1,2) JList that json_dumps_head [of x] by (auto simp: list_all_iff)
    qed (use JList JList.prems in \<open>auto simp: is_ascii_digit_def\<close>)
    with JList show ?thesis by simp
  qed (use JList.prems in \<open>auto simp: json_string_def split: if_splits dest!: show_int_start\<close>)
next
  case (JObj m)
  show ?case
  proof (cases w)
    case (JObj n)
    have ff: "float_free y" if "(k, y) \<in> set (sorted_list_of_fmap m) \<union> set (sorted_list_of_fmap n)" for k y
      using JObj.prems(1,2) that unfolding JObj float_free_JObj by (auto dest!: sorted_list_of_fmap_ran)
    have "sorted_list_of_fmap m = sorted_list_of_fmap n \<and> r = s"
    proof (rule join_prefix [of "sorted_list_of_fmap m" "sorted_list_of_fmap n" dump_pair "CHR 0x7D"])
      fix x y r s
      assume x: "x \<in> set (sorted_list_of_fmap m)" and y: "y \<in> set (sorted_list_of_fmap n)"
        and rs: "nondigit_start r" "nondigit_start s" and eq: "dump_pair x @ r = dump_pair y @ s"
      obtain k v k' v' where xy: "x = (k, v)" "y = (k', v')" by (cases x, cases y) auto
      from eq xy have "json_string k @ CHR '':'' # json_dumps v @ r = json_string k' @ CHR '':'' # json_dumps v' @ s"
        by (simp add: dump_pair_def)
      then have kv: "k = k'" "json_dumps v @ r = json_dumps v' @ s"
        using json_string_prefix by blast+
      from x xy have "v \<in> fmran' m" by (auto dest: sorted_list_of_fmap_ran intro: fmran'I)
      then have "v = v' \<and> r = s"
        by (rule JObj.IH) (use ff x y xy kv rs in auto)
      with kv xy show "x = y \<and> r = s" by simp
    qed (use JObj JObj.prems in \<open>auto simp: is_ascii_digit_def dump_pair_def json_string_def json_dumps_JObj
        simp del: json_dumps.simps(7)\<close>)
    with JObj show ?thesis by (auto dest: sorted_list_of_fmap_inj)
  qed (use JObj.prems in \<open>auto simp: json_string_def split: if_splits dest!: show_int_start\<close>)
qed

lemma utf8_char_prefix: "utf8_char c @ u = utf8_char d @ v \<Longrightarrow> c = d \<and> u = v"
proof -
  assume eq: "utf8_char c @ u = utf8_char d @ v"
  have c: "(of_char c :: nat) < 256" and d: "(of_char d :: nat) < 256" by simp_all
  let ?c = "of_char c :: nat" and ?d = "of_char d :: nat"
  have big: "192 + n div 64 < 256" "128 + n mod 64 < 256" if "n < 256" for n :: nat
    using that by auto
  show ?thesis
  proof (cases "?c < 128"; cases "?d < 128")
    assume "?c < 128" "?d < 128"
    with eq show ?thesis by (simp add: utf8_char_def Let_def)
  next
    assume a: "?c < 128" "\<not> ?d < 128"
    with eq have "?c = of_char (char_of (192 + ?d div 64) :: char)" by (simp add: utf8_char_def Let_def)
    with a big(1) [OF d] show ?thesis by simp
  next
    assume a: "\<not> ?c < 128" "?d < 128"
    with eq have "?d = of_char (char_of (192 + ?c div 64) :: char)" by (auto simp: utf8_char_def Let_def)
    with a big(1) [OF c] show ?thesis by simp
  next
    assume a: "\<not> ?c < 128" "\<not> ?d < 128"
    with eq have uv: "u = v"
      and h: "char_of (192 + ?c div 64) = (char_of (192 + ?d div 64) :: char)"
      and l: "char_of (128 + ?c mod 64) = (char_of (128 + ?d mod 64) :: char)"
      by (simp_all add: utf8_char_def Let_def)
    from h have "(192 + ?c div 64) mod 256 = (192 + ?d div 64) mod 256" by (metis of_char_of)
    then have "?c div 64 = ?d div 64" using big(1) [OF c] big(1) [OF d] by simp
    moreover from l have "(128 + ?c mod 64) mod 256 = (128 + ?d mod 64) mod 256" by (metis of_char_of)
    then have "?c mod 64 = ?d mod 64" using big(2) [OF c] big(2) [OF d] by simp
    ultimately have "?c = ?d" by (metis div_mult_mod_eq)
    with uv show ?thesis by simp
  qed
qed

lemma utf8_inj: "utf8 s = utf8 t \<Longrightarrow> s = t"
proof (induction s arbitrary: t)
  case Nil
  then show ?case by (cases t) (auto simp: utf8_def utf8_char_def Let_def split: if_splits)
next
  case (Cons c s)
  show ?case
  proof (cases t)
    case Nil
    with Cons.prems show ?thesis by (auto simp: utf8_def utf8_char_def Let_def split: if_splits)
  next
    case (Cons d t')
    with Cons.prems have "utf8_char c @ utf8 s = utf8_char d @ utf8 t'" by (simp add: utf8_def)
    with Cons Cons.IH show ?thesis using utf8_char_prefix by blast
  qed
qed

lemma canonical_json_bytes_inj:
  "float_free v \<Longrightarrow> float_free w \<Longrightarrow> canonical_json_bytes v = canonical_json_bytes w \<Longrightarrow> v = w"
  using json_dumps_prefix [of v w "[]" "[]"] by (auto simp: canonical_json_bytes_def dest: utf8_inj)

section \<open>Properties\<close>



text \<open>
  attaching an identity makes the record verify, changes no other field, and the identity has the
  form that \<open>is_sha256_identity\<close> accepts; attaching it again changes nothing.
\<close>

theorem attach_identity_verifies:
  "verify_identity (attach_identity r f) f
   \<and> is_sha256_identity (dget (attach_identity r f) f)
   \<and> (\<forall>k. k = f \<or> fmlookup (attach_identity r f) k = fmlookup r k)
   \<and> attach_identity (attach_identity r f) f = attach_identity r f"
proof (intro conjI allI)
  show "is_sha256_identity (dget (attach_identity r f) f)" by (simp add: sha256_identity_shape)
  show "attach_identity (attach_identity r f) f = attach_identity r f" by (rule fmap_ext) simp
qed auto

text \<open>
  canonical JSON is a faithful encoding: two values without floats have the same canonical bytes
  exactly when they are equal.
\<close>

theorem canonical_json_bytes_injective:
  assumes "float_free v" and "float_free w"
  shows "canonical_json_bytes v = canonical_json_bytes w \<longleftrightarrow> v = w"
  using canonical_json_bytes_inj assms by blast

theorem canonical_json_bytes_injective_witness:
  "canonical_json_bytes (JList [JInt 12, JNull]) = canonical_json_bytes (JList [JInt 1, JInt 2, JNull]) \<longleftrightarrow>
   JList [JInt 12, JNull] = JList [JInt 1, JInt 2, JNull]"
  by (rule canonical_json_bytes_injective) simp_all

end
