(* ===== verification/Record_Fields.thy ===== *)
theory Record_Fields
  imports Canonical
begin

text \<open>
  The field checks that the record modules share (\<^verbatim>\<open>_text\<close> and \<^verbatim>\<open>_optional_identity\<close>, which
  \<^verbatim>\<open>management.py\<close>, \<^verbatim>\<open>update_lifecycle.py\<close>, \<^verbatim>\<open>rollout.py\<close> and others define alike), the comparison of
  two values as strings, and the facts about records that carry an identity: what a verified record of a
  known field set holds, and that such a record is what \<^verbatim>\<open>attach_identity\<close> makes of its payload.
\<close>

section \<open>Field checks\<close>

definition text_field :: "string \<Rightarrow> nat \<Rightarrow> json \<Rightarrow> string result" where
  "text_field field maximum v =
     (case v of
        JStr s \<Rightarrow>
          if s = [] \<or> maximum < length s \<or> CHR 0x00 \<in> set s
          then Inl (ValidationError (field @ '' must be bounded non-empty text'')) else Inr s
      | _ \<Rightarrow> Inl (ValidationError (field @ '' must be bounded non-empty text'')))"

definition optional_identity :: "string \<Rightarrow> json \<Rightarrow> json result" where
  "optional_identity field v =
     (case v of
        JNull \<Rightarrow> Inr JNull
      | JStr s \<Rightarrow>
          if startswith s ''sha256:'' then Inr v
          else Inl (ValidationError (field @ '' must be a sha256 identity or null''))
      | _ \<Rightarrow> Inl (ValidationError (field @ '' must be a sha256 identity or null'')))"

text \<open>\<^verbatim>\<open>a <= b\<close> and \<^verbatim>\<open>a > b\<close> where \<^verbatim>\<open>a\<close> is a \<^verbatim>\<open>str\<close>: any other type of \<^verbatim>\<open>b\<close> raises.\<close>

definition str_le :: "string \<Rightarrow> json \<Rightarrow> bool result" where
  "str_le a b = (case b of JStr s \<Rightarrow> Inr (a \<le> s) | _ \<Rightarrow> Inl PyTypeError)"

definition str_gt :: "string \<Rightarrow> json \<Rightarrow> bool result" where
  "str_gt a b = (case b of JStr s \<Rightarrow> Inr (a > s) | _ \<Rightarrow> Inl PyTypeError)"

section \<open>Texts and keys\<close>

text \<open>\<^verbatim>\<open>str(x)\<close> of a scalar; lists and dicts, whose text is not modelled, are refused.\<close>

fun py_str :: "json \<Rightarrow> string result" where
  "py_str (JStr s) = Inr s"
| "py_str (JInt n) = Inr (show_int n)"
| "py_str (JBool b) = Inr (if b then ''True'' else ''False'')"
| "py_str JNull = Inr ''None''"
| "py_str (JFloat s m e) = Inr (float_repr s m e)"
| "py_str _ = Inl PyTypeError"

text \<open>The keys of a dict, in ascending order.\<close>

definition dict_keys :: "dict \<Rightarrow> string list" where
  "dict_keys d = sorted_list_of_fset (fmdom d)"

text \<open>\<^verbatim>\<open>for x in v\<close>: list elements, characters, keys; a number or \<^verbatim>\<open>True\<close> cannot be iterated.\<close>

definition py_iter :: "json \<Rightarrow> json list result" where
  "py_iter v =
     (case v of
        JList xs \<Rightarrow> Inr xs
      | JStr s \<Rightarrow> Inr (map (\<lambda>c. JStr [c]) s)
      | JObj m \<Rightarrow> Inr (map JStr (dict_keys m))
      | _ \<Rightarrow> Inl PyTypeError)"

text \<open>\<^verbatim>\<open>sep.join(parts)\<close> for a separator of any length.\<close>

fun join_text :: "string \<Rightarrow> string list \<Rightarrow> string" where
  "join_text sep [] = []"
| "join_text sep [x] = x"
| "join_text sep (x # y # ys) = x @ sep @ join_text sep (y # ys)"

text \<open>\<^verbatim>\<open>repr\<close> of a string, and of a list of strings, on code points below 256.\<close>

definition is_printable :: "char \<Rightarrow> bool" where
  "is_printable c = (let n = (of_char c :: nat) in 32 \<le> n \<and> n \<le> 126 \<or> 161 \<le> n \<and> n \<noteq> 173)"

definition repr_char :: "char \<Rightarrow> char \<Rightarrow> string" where
  "repr_char quote c =
     (if c = quote \<or> c = CHR 0x5C then [CHR 0x5C, c]
      else if c = CHR 0x0A then [CHR 0x5C, CHR ''n'']
      else if c = CHR 0x0D then [CHR 0x5C, CHR ''r'']
      else if c = CHR 0x09 then [CHR 0x5C, CHR ''t'']
      else if is_printable c then [c]
      else [CHR 0x5C, CHR ''x'', hex_digit (of_char c div 16), hex_digit (of_char c mod 16)])"

definition repr_str :: "string \<Rightarrow> string" where
  "repr_str s =
     (let quote = (if CHR 0x27 \<in> set s \<and> CHR 0x22 \<notin> set s then CHR 0x22 else CHR 0x27) in
      quote # concat (map (repr_char quote) s) @ [quote])"

definition repr_strs :: "string list \<Rightarrow> string" where
  "repr_strs xs = ''['' @ join_text '', '' (map repr_str xs) @ '']''"

section \<open>Lemmas\<close>

lemma dict_keys_set [simp]: "set (dict_keys d) = fset (fmdom d)" "sorted (dict_keys d)" "distinct (dict_keys d)"
  by (simp_all add: dict_keys_def sorted_list_of_fset.rep_eq)

lemma sorted_list_of_fset_empty [simp]: "sorted_list_of_fset X = [] \<longleftrightarrow> X = {||}"
proof
  assume "sorted_list_of_fset X = []"
  then have "set (sorted_list_of_fset X) = {}" by simp
  then have "fset X = fset {||}" by (simp add: sorted_list_of_fset.rep_eq)
  then show "X = {||}" by (simp only: fset_inject)
qed (simp add: sorted_list_of_fset.rep_eq)

lemma sorted_list_of_fempty [simp]: "sorted_list_of_fset {||} = []"
  by simp

definition text_ok :: "nat \<Rightarrow> string \<Rightarrow> bool" where
  "text_ok maximum s = (s \<noteq> [] \<and> length s \<le> maximum \<and> CHR 0x00 \<notin> set s)"

lemma text_field_eq_Inr [result_simps]: "text_field f n v = Inr s \<longleftrightarrow> v = JStr s \<and> text_ok n s"
  by (cases v) (auto simp: text_field_def text_ok_def)

lemma text_field_ok [simp]: "text_ok n s \<Longrightarrow> text_field f n (JStr s) = Inr s"
  by (simp add: text_field_eq_Inr)

definition identity_or_null :: "json \<Rightarrow> bool" where
  "identity_or_null v = (v = JNull \<or> (\<exists>s. v = JStr s \<and> startswith s ''sha256:''))"

lemma optional_identity_eq_Inr [result_simps]: "optional_identity f v = Inr w \<longleftrightarrow> w = v \<and> identity_or_null v"
  by (cases v) (auto simp: optional_identity_def identity_or_null_def)

lemma optional_identity_ok [simp]: "identity_or_null v \<Longrightarrow> optional_identity f v = Inr v"
  by (simp add: optional_identity_eq_Inr)

lemma identity_or_null_JNull [simp]: "identity_or_null JNull"
  by (simp add: identity_or_null_def)

lemma str_le_eq_Inr [result_simps]: "str_le a b = Inr c \<longleftrightarrow> (\<exists>s. b = JStr s \<and> c = (a \<le> s))"
  by (cases b) (auto simp: str_le_def)

lemma str_gt_eq_Inr [result_simps]: "str_gt a b = Inr c \<longleftrightarrow> (\<exists>s. b = JStr s \<and> c = (a > s))"
  by (cases b) (auto simp: str_gt_def)

lemma str_compare_JStr [simp]: "str_le a (JStr s) = Inr (a \<le> s)" "str_gt a (JStr s) = Inr (a > s)"
  by (simp_all add: str_le_def str_gt_def)

lemma keys_are_sub: "keys_are m ks \<Longrightarrow> k \<in> set ks \<Longrightarrow> dsub m k = Inr (dget m k)"
  by (rule dsub_dget) (simp add: keys_are_lookup)

lemma in_strset_total: "is_str v \<Longrightarrow> \<exists>b. in_strset v xs = Inr b"
  by (cases v) auto

lemma attach_nonempty [simp]: "attach_identity m k \<noteq> fmempty" "fmempty \<noteq> attach_identity m k"
proof -
  have "fmlookup (attach_identity m k) k \<noteq> None" by simp
  then show "attach_identity m k \<noteq> fmempty" by (metis fmempty_lookup)
  then show "fmempty \<noteq> attach_identity m k" by metis
qed

end
