(* ===== verification/Timestamps.thy ===== *)
theory Timestamps
  imports Record_Fields
begin

text \<open>
  The time stamps of the records: \<^verbatim>\<open>utc_now\<close> of \<^verbatim>\<open>node.py\<close>, and \<^verbatim>\<open>_timestamp\<close> and \<^verbatim>\<open>_instant\<close> of
  \<^verbatim>\<open>lifecycle.py\<close>. An instant is a number of microseconds since 1970-01-01T00:00:00 UTC.
  \<^verbatim>\<open>datetime.fromisoformat\<close> is modelled on the extended format (date, one separator, a time with or
  without minutes, seconds and a fraction, an optional offset); its compact and week-date forms, which
  the code never writes, are refused.
\<close>

section \<open>Decimals\<close>

definition fixed_digits :: "nat \<Rightarrow> nat \<Rightarrow> string" where
  "fixed_digits w n = map (\<lambda>i. char_of (48 + n div 10 ^ i mod 10)) (rev [0..<w])"

definition digits_nat :: "nat \<Rightarrow> string \<Rightarrow> nat option" where
  "digits_nat w s = (if length s = w \<and> list_all is_ascii_digit s then Some (digits_val s) else None)"

section \<open>The calendar\<close>

definition is_leap :: "int \<Rightarrow> bool" where
  "is_leap y = (y mod 4 = 0 \<and> (y mod 100 \<noteq> 0 \<or> y mod 400 = 0))"

definition days_in_month :: "int \<Rightarrow> nat \<Rightarrow> nat" where
  "days_in_month y m =
     (if m = 2 then (if is_leap y then 29 else 28) else if m \<in> {4, 6, 9, 11} then 30 else 31)"

text \<open>Days since 1970-01-01, counting years from March; and back.\<close>

definition days_from_civil :: "int \<Rightarrow> nat \<Rightarrow> nat \<Rightarrow> int" where
  "days_from_civil y m d =
     (let y' = (if m \<le> 2 then y - 1 else y);
          yoe = y' mod 400;
          doy = (153 * ((int m + 9) mod 12) + 2) div 5 + int d - 1;
          doe = yoe * 365 + yoe div 4 - yoe div 100 + doy
      in y' div 400 * 146097 + doe - 719468)"

definition civil_from_days :: "int \<Rightarrow> int \<times> nat \<times> nat" where
  "civil_from_days days =
     (let z = days + 719468;
          doe = z mod 146097;
          yoe = (doe - doe div 1460 + doe div 36524 - doe div 146096) div 365;
          doy = doe - (365 * yoe + yoe div 4 - yoe div 100);
          mp = (5 * doy + 2) div 153;
          d = doy - (153 * mp + 2) div 5 + 1;
          m = (if mp < 10 then mp + 3 else mp - 9)
      in (yoe + z div 146097 * 400 + (if m \<le> 2 then 1 else 0), nat m, nat d))"

section \<open>Parsing\<close>

text \<open>A clock \<^verbatim>\<open>HH[:MM[:SS[.digits]]]\<close> in microseconds, with the hour, the minute and the second in range.\<close>

definition parse_fraction :: "string \<Rightarrow> nat option" where
  "parse_fraction s =
     (if s = [] then Some 0
      else if hd s \<in> {CHR ''.'', CHR '',''} \<and> tl s \<noteq> [] \<and> list_all is_ascii_digit (tl s)
        then Some (digits_val (take 6 (tl s @ replicate 6 (CHR ''0''))))
      else None)"

definition parse_hms :: "string \<Rightarrow> int option" where
  "parse_hms s =
     (let two = (\<lambda>i. digits_nat 2 (take 2 (drop i s))); colon = (\<lambda>i. length s > i \<and> s ! i = CHR '':'') in
      case two 0 of
        None \<Rightarrow> None
      | Some h \<Rightarrow>
          if 24 \<le> h then None
          else if length s = 2 then Some (int h * 3600000000)
          else if \<not> colon 2 then None
          else
            (case two 3 of
               None \<Rightarrow> None
             | Some mi \<Rightarrow>
                 if 60 \<le> mi then None
                 else if length s = 5 then Some ((int h * 60 + int mi) * 60000000)
                 else if \<not> colon 5 then None
                 else
                   (case (two 6, parse_fraction (drop 8 s)) of
                      (Some sec, Some us) \<Rightarrow>
                        if 60 \<le> sec then None
                        else Some (((int h * 60 + int mi) * 60 + int sec) * 1000000 + int us)
                    | _ \<Rightarrow> None)))"

definition parse_date :: "string \<Rightarrow> int option" where
  "parse_date s =
     (case (digits_nat 4 (take 4 s), digits_nat 2 (take 2 (drop 5 s)), digits_nat 2 (take 2 (drop 8 s))) of
        (Some y, Some m, Some d) \<Rightarrow>
          if length s = 10 \<and> s ! 4 = CHR ''-'' \<and> s ! 7 = CHR ''-'' \<and> 1 \<le> y \<and> 1 \<le> m \<and> m \<le> 12
             \<and> 1 \<le> d \<and> d \<le> days_in_month (int y) m
          then Some (days_from_civil (int y) m d) else None
      | _ \<Rightarrow> None)"

text \<open>
  \<^verbatim>\<open>datetime.fromisoformat\<close>: the local microseconds and the offset, if there is one. \<open>None\<close> is the
  \<^verbatim>\<open>ValueError\<close>.
\<close>

definition fromisoformat :: "string \<Rightarrow> (int \<times> int option) option" where
  "fromisoformat s =
     (case parse_date (take 10 s) of
        None \<Rightarrow> None
      | Some days \<Rightarrow>
          if length s = 10 then Some (days * 86400000000, None)
          else
            (let rest = drop 11 s;
                 clock = takeWhile (\<lambda>c. c \<noteq> CHR ''+'' \<and> c \<noteq> CHR ''-'') rest;
                 off = drop (length clock) rest
             in case parse_hms clock of
                  None \<Rightarrow> None
                | Some t \<Rightarrow>
                    if off = [] then Some (days * 86400000000 + t, None)
                    else
                      (case parse_hms (tl off) of
                         None \<Rightarrow> None
                       | Some u \<Rightarrow> Some (days * 86400000000 + t, Some (if hd off = CHR ''-'' then - u else u)))))"

definition replace_Z :: "string \<Rightarrow> string" where
  "replace_Z s = concat (map (\<lambda>c. if c = CHR ''Z'' then ''+00:00'' else [c]) s)"

section \<open>Printing\<close>

text \<open>
  \<^verbatim>\<open>datetime.isoformat().replace("+00:00", "Z")\<close> of a UTC time whose date and time to the second print
  as \<open>base\<close>: the microseconds are left out when they are zero.
\<close>

definition utc_isoformat :: "string \<Rightarrow> nat \<Rightarrow> string" where
  "utc_isoformat base micros =
     base @ (if micros = 0 then []
             else CHR ''.'' # fixed_digits 6 micros) @ ''Z''"

definition instant_ok :: "int \<Rightarrow> bool" where
  "instant_ok us = (days_from_civil 1 1 1 * 86400000000 \<le> us \<and> us < days_from_civil 10000 1 1 * 86400000000)"

definition show_instant :: "int \<Rightarrow> string" where
  "show_instant us =
     (let secs = us div 1000000 in
      case civil_from_days (secs div 86400) of
        (y, m, d) \<Rightarrow>
          let t = nat (secs mod 86400) in
          utc_isoformat
            (fixed_digits 4 (nat y) @ CHR ''-'' # fixed_digits 2 m @ CHR ''-'' # fixed_digits 2 d @ CHR ''T''
              # fixed_digits 2 (t div 3600) @ CHR '':'' # fixed_digits 2 (t div 60 mod 60) @ CHR '':''
              # fixed_digits 2 (t mod 60))
            (nat (us mod 1000000)))"

section \<open>The checks of the lifecycle store\<close>

definition bounded_text :: "string \<Rightarrow> nat \<Rightarrow> json \<Rightarrow> string result" where
  "bounded_text field maximum v =
     (case v of
        JStr s \<Rightarrow>
          if maximum < length s \<or> CHR 0x00 \<in> set s \<or> s = []
          then Inl (ValidationError (field @ '' must be bounded text'')) else Inr s
      | _ \<Rightarrow> Inl (ValidationError (field @ '' must be bounded text'')))"

definition instant_of_offset :: "int \<times> int \<Rightarrow> int result" where
  "instant_of_offset p = (let us = fst p - snd p in if instant_ok us then Inr us else Inl PyOverflowError)"

definition timestamp :: "string \<Rightarrow> json \<Rightarrow> string result" where
  "timestamp field v =
     tryE (bounded_text field 64 v) (\<lambda>raw.
       case fromisoformat (replace_Z raw) of
         None \<Rightarrow> Inl (ValidationError (field @ '' must be an RFC 3339 timestamp''))
       | Some (local', None) \<Rightarrow> Inl (ValidationError (field @ '' must include a timezone''))
       | Some (local', Some off) \<Rightarrow> tryE (instant_of_offset (local', off)) (\<lambda>us. Inr (show_instant us)))"

text \<open>\<^verbatim>\<open>_instant\<close> reads stored stamps, which carry an offset; one without an offset is refused here.\<close>

definition instant :: "json \<Rightarrow> int result" where
  "instant v =
     (case v of
        JStr s \<Rightarrow>
          (case fromisoformat (replace_Z s) of
             Some (local', Some off) \<Rightarrow> instant_of_offset (local', off)
           | _ \<Rightarrow> Inl PyValueError)
      | _ \<Rightarrow> Inl PyAttributeError)"

section \<open>Fixed-width decimals\<close>

lemma fixed_digits_Suc: "fixed_digits (Suc w) n = char_of (48 + n div 10 ^ w mod 10) # fixed_digits w n"
  by (simp add: fixed_digits_def)

lemma fixed_digits_mod: "fixed_digits w (n mod 10 ^ w) = fixed_digits w n"
proof -
  have "n mod 10 ^ w div 10 ^ i mod 10 = n div 10 ^ i mod 10" if "i < w" for i
  proof -
    obtain k where k: "w = Suc k + i" using \<open>i < w\<close> less_imp_Suc_add by (metis add.commute add_Suc)
    then have "(10 :: nat) ^ w = 10 ^ i * 10 ^ Suc k" by (simp add: power_add)
    then have "n mod 10 ^ w div 10 ^ i = n div 10 ^ i mod 10 ^ Suc k"
      by (simp add: mod_mult2_eq)
    then show ?thesis by (simp add: mod_mod_cancel)
  qed
  then show ?thesis by (simp add: fixed_digits_def)
qed

lemma digit_char_less: "a < 10 \<Longrightarrow> b < 10 \<Longrightarrow> char_of (48 + a :: nat) < char_of (48 + b :: nat) \<longleftrightarrow> a < b"
  by (simp add: less_char_def)

lemma digit_char_eq: "a < 10 \<Longrightarrow> b < 10 \<Longrightarrow> char_of (48 + a :: nat) = char_of (48 + b :: nat) \<longleftrightarrow> a = b"
  by (metis digit_char_less less_irrefl linorder_neqE_nat)

lemma less_by_div_mod: "m < n \<longleftrightarrow> m div p < n div p \<or> m div p = n div p \<and> m mod p < n mod (p :: nat)"
proof (cases "m div p" "n div p" rule: linorder_cases)
  case less
  then show ?thesis using div_le_mono [of n m p] by (cases "m < n") auto
next
  case equal
  then show ?thesis using div_mult_mod_eq [of m p] div_mult_mod_eq [of n p] by (simp, linarith)
next
  case greater
  then show ?thesis using div_le_mono [of m n p] by (cases "m < n") auto
qed

lemma fixed_digits_less: "m < 10 ^ w \<Longrightarrow> n < 10 ^ w \<Longrightarrow> fixed_digits w m @ r < fixed_digits w n @ r \<longleftrightarrow> m < n"
proof (induction w arbitrary: m n)
  case 0
  then show ?case by (simp add: fixed_digits_def)
next
  case (Suc w)
  let ?p = "(10 :: nat) ^ w"
  have q: "m div ?p < 10" "n div ?p < 10" using Suc.prems by (simp_all add: less_mult_imp_div_less)
  have ih: "fixed_digits w m @ r < fixed_digits w n @ r \<longleftrightarrow> m mod ?p < n mod ?p"
    using Suc.IH [of "m mod ?p" "n mod ?p"] by (simp add: fixed_digits_mod)
  have "m < n \<longleftrightarrow> m div ?p < n div ?p \<or> m div ?p = n div ?p \<and> m mod ?p < n mod ?p"
    by (rule less_by_div_mod)
  then show ?case
    using q by (simp add: fixed_digits_Suc digit_char_less digit_char_eq ih)
qed

lemma append_less [simp]: "xs @ ys < xs @ zs \<longleftrightarrow> ys < (zs :: string)"
  by (induction xs) simp_all

lemma utc_isoformat_less:
  assumes "m < 10 ^ 6" "n < 10 ^ 6"
  shows "utc_isoformat base m < utc_isoformat base n \<longleftrightarrow> (if (m = 0) = (n = 0) then m < n else n = 0)"
proof -
  have f: "utc_isoformat base k = base @ (if k = 0 then ''Z'' else CHR ''.'' # fixed_digits 6 k @ ''Z'')" for k
    by (simp add: utc_isoformat_def)
  show ?thesis
    using assms fixed_digits_less [of m 6 n "''Z''"] by (simp add: f less_char_def)
qed


lemma fixed_digits_numeral:
  "fixed_digits 0 n = []"
  "fixed_digits (numeral k) n =
     char_of (48 + n div 10 ^ pred_numeral k mod 10) # fixed_digits (pred_numeral k) n"
  by (simp add: fixed_digits_def, simp only: numeral_eq_Suc [of k] fixed_digits_Suc)

section \<open>Evaluation\<close>

lemmas parse_eval = fromisoformat_def parse_date_def parse_hms_def parse_fraction_def digits_nat_def replace_Z_def
  is_ascii_digit_def digits_val_def digit_val_def days_in_month_def is_leap_def days_from_civil_def

lemma parse_examples:
  "fromisoformat (replace_Z ''2026-01-01T02:00:00+02:00'') = Some (1767232800000000, Some 7200000000)"
  "fromisoformat (replace_Z ''2026-01-01T00:00:00Z'') = Some (1767225600000000, Some 0)"
  by (simp_all add: parse_eval)

lemma instant_range: "instant_ok us \<longleftrightarrow> - 62135596800000000 \<le> us \<and> us < 253402300800000000"
  by (simp add: instant_ok_def days_from_civil_def)

lemma digit_chars:
  "char_of (48 :: nat) = CHR ''0''" "char_of (49 :: nat) = CHR ''1''" "char_of (50 :: nat) = CHR ''2''"
  "char_of (51 :: nat) = CHR ''3''" "char_of (52 :: nat) = CHR ''4''" "char_of (53 :: nat) = CHR ''5''"
  "char_of (54 :: nat) = CHR ''6''" "char_of (55 :: nat) = CHR ''7''" "char_of (56 :: nat) = CHR ''8''"
  "char_of (57 :: nat) = CHR ''9''"
  by (simp_all add: char_of_def bit_iff_odd)

lemma civil_example: "civil_from_days 20454 = (2026, 1, 1)"
  unfolding civil_from_days_def Let_def by simp

lemma show_example: "show_instant 1767225600000000 = ''2026-01-01T00:00:00Z''"
proof -
  have "fixed_digits 4 2026 = ''2026''" "fixed_digits 2 1 = ''01''" "fixed_digits 2 0 = ''00''"
    by (simp_all add: fixed_digits_numeral fixed_digits_Suc digit_chars)
  then show ?thesis unfolding show_instant_def Let_def by (simp add: civil_example utc_isoformat_def)
qed

lemma timestamp_examples:
  "timestamp f (JStr ''2026-01-01T02:00:00+02:00'') = Inr ''2026-01-01T00:00:00Z''"
  "timestamp f (JStr ''2026-01-01T00:00:00Z'') = Inr ''2026-01-01T00:00:00Z''"
  "instant (JStr ''2026-01-01T00:00:00Z'') = Inr 1767225600000000"
  by (simp_all add: timestamp_def instant_def bounded_text_def parse_examples instant_of_offset_def instant_range show_example)

end
