(* ===== verification/Lifecycle_Fields.thy ===== *)
theory Lifecycle_Fields
  imports Timestamps
begin

text \<open>
  The field checks of \<^verbatim>\<open>src/src/mncs_fabric/lifecycle.py\<close>: identities and session identities (a
  regular expression), metadata (no key may name secret material), PEM public keys (a regular expression
  and strict base64), enrollment tokens. Shown here: the metadata check is idempotent and what it accepts is
  bounded and free of the secret words in any mix of cases.
\<close>

section \<open>Identities\<close>

definition MAX_METADATA_ITEMS :: nat where "MAX_METADATA_ITEMS = 16"

definition MAX_METADATA_TEXT :: nat where "MAX_METADATA_TEXT = 256"

definition MAX_PUBLIC_KEY_BYTES :: nat where "MAX_PUBLIC_KEY_BYTES = 8192"

definition is_upper :: "char \<Rightarrow> bool" where
  "is_upper c = (65 \<le> (of_char c :: nat) \<and> (of_char c :: nat) \<le> 90)"

definition is_alnum :: "char \<Rightarrow> bool" where
  "is_alnum c = (is_ascii_digit c \<or> is_upper c \<or> 97 \<le> (of_char c :: nat) \<and> (of_char c :: nat) \<le> 122)"

text \<open>\<^verbatim>\<open>[A-Za-z0-9][A-Za-z0-9._:-]{0,127}\<close>, matched against the whole text.\<close>

definition matches_identity :: "string \<Rightarrow> bool" where
  "matches_identity s =
     (case s of
        [] \<Rightarrow> False
      | c # cs \<Rightarrow> is_alnum c \<and> length cs \<le> 127 \<and> list_all (\<lambda>d. is_alnum d \<or> d \<in> set ''._:-'') cs)"

definition identity_field :: "string \<Rightarrow> json \<Rightarrow> string result" where
  "identity_field field v = tryE (bounded_text field 128 v) (\<lambda>s.
     if \<not> matches_identity s then Inl (ValidationError (field @ '' is malformed'')) else Inr s)"

definition session_id_field :: "json \<Rightarrow> string result" where
  "session_id_field v = tryE (bounded_text ''session_id'' 128 v) (\<lambda>s.
     if \<not> matches_identity s then Inl (ValidationError ''session_id is malformed'') else Inr s)"

section \<open>Metadata\<close>

text \<open>
  \<^verbatim>\<open>str.casefold\<close> on the first 256 code points: capital letters become small ones and the sharp s becomes
  two letters. The micro sign, which folds to a Greek letter outside this range, is kept.
\<close>

definition casefold_char :: "char \<Rightarrow> string" where
  "casefold_char c =
     (let n = (of_char c :: nat) in
      if n = 223 then ''ss''
      else if is_upper c \<or> 192 \<le> n \<and> n \<le> 222 \<and> n \<noteq> 215 then [char_of (n + 32)]
      else [c])"

definition casefold :: "string \<Rightarrow> string" where
  "casefold s = concat (map casefold_char s)"

text \<open>\<^verbatim>\<open>word in text\<close>.\<close>

fun occurs_in :: "string \<Rightarrow> string \<Rightarrow> bool" where
  "occurs_in w [] = (w = [])"
| "occurs_in w (c # cs) = (startswith (c # cs) w \<or> occurs_in w cs)"

definition SECRET_WORDS :: "string list" where
  "SECRET_WORDS = [''token'', ''secret'', ''private'', ''password'', ''credential'']"

definition names_secret :: "string \<Rightarrow> bool" where
  "names_secret key = list_ex (\<lambda>w. occurs_in w (casefold key)) SECRET_WORDS"

definition metadata_item :: "string \<Rightarrow> json \<Rightarrow> (string \<times> json) result" where
  "metadata_item key item =
     tryE (bounded_text ''metadata key'' 64 (JStr key)) (\<lambda>key_text.
       if names_secret key_text then Inl (ValidationError ''metadata key cannot name secret material'')
       else tryE (bounded_text ''metadata item'' MAX_METADATA_TEXT item) (\<lambda>text. Inr (key_text, JStr text)))"

definition metadata_field :: "json \<Rightarrow> dict result" where
  "metadata_field v =
     (case v of
        JNull \<Rightarrow> Inr fmempty
      | JObj m \<Rightarrow>
          if MAX_METADATA_ITEMS < length (dict_keys m) then Inl (ValidationError ''metadata must be a bounded object'')
          else tryE (mapE (\<lambda>k. metadata_item k (dget m k)) (dict_keys m)) (\<lambda>kvs. Inr (dict_of kvs))
      | _ \<Rightarrow> Inl (ValidationError ''metadata must be a bounded object''))"

section \<open>Public keys and tokens\<close>

definition PEM_KINDS :: "string list" where
  "PEM_KINDS = [''PUBLIC KEY'', ''RSA PUBLIC KEY'', ''EC PUBLIC KEY'']"

text \<open>The rest of a text after a prefix; and the rest after the first of several prefixes that fits.\<close>

definition strip_prefix :: "string \<Rightarrow> string \<Rightarrow> string option" where
  "strip_prefix p s = (if startswith s p then Some (drop (length p) s) else None)"

definition strip_first :: "string list \<Rightarrow> string \<Rightarrow> string option" where
  "strip_first ps s = (case find_first (startswith s) ps of None \<Rightarrow> None | Some p \<Rightarrow> strip_prefix p s)"

definition is_base64 :: "char \<Rightarrow> bool" where
  "is_base64 c = (is_alnum c \<or> c \<in> set ''+/'')"

text \<open>
  The regular expression of \<^verbatim>\<open>_public_key\<close>: a BEGIN line, a non-empty run of base64 characters,
  padding and newlines, an END line with an optional final newline. The value is the run; it ends where
  the END line begins, since the run has no hyphen.
\<close>

definition pem_body :: "string \<Rightarrow> string option" where
  "pem_body pem =
     (case strip_first (map (\<lambda>k. ''-----BEGIN '' @ k @ ''-----'' @ [CHR 0x0A]) PEM_KINDS) pem of
        None \<Rightarrow> None
      | Some rest \<Rightarrow>
          let body = takeWhile (\<lambda>c. is_base64 c \<or> c = CHR ''='' \<or> c = CHR 0x0A) rest;
              tail = drop (length body) rest
          in if body \<noteq> [] \<and> list_ex (\<lambda>k. let e = ''-----END '' @ k @ ''-----'' in tail = e \<or> tail = e @ [CHR 0x0A]) PEM_KINDS
             then Some body else None)"

text \<open>
  The length of the value of \<^verbatim>\<open>base64.b64decode(text, validate=True)\<close>, or \<open>None\<close> where it raises. The scan
  keeps the position in the current group of four, the padding characters seen in it and whether
  padding has begun; a group of four letters gives three bytes, padding that completes a group of two
  or three letters ends the text.
\<close>

fun base64_scan :: "nat \<Rightarrow> nat \<Rightarrow> bool \<Rightarrow> nat \<Rightarrow> string \<Rightarrow> nat option" where
  "base64_scan quad pads started out [] = (if quad = 0 then Some out else None)"
| "base64_scan quad pads started out (c # cs) =
     (if c = CHR ''='' then
        if 2 \<le> quad \<and> 4 \<le> quad + (pads + 1) then (if cs = [] then Some out else None)
        else base64_scan quad (if 2 \<le> quad then pads + 1 else pads) True out cs
      else if \<not> is_base64 c \<or> started then None
      else base64_scan ((quad + 1) mod 4) 0 False (if quad = 0 then out else out + 1) cs)"

definition base64_length :: "string \<Rightarrow> nat option" where
  "base64_length s = (if s \<noteq> [] \<and> hd s = CHR ''='' then None else base64_scan 0 0 False 0 s)"

definition public_key_field :: "json \<Rightarrow> string result" where
  "public_key_field v = tryE (bounded_text ''public_key_pem'' MAX_PUBLIC_KEY_BYTES v) (\<lambda>pem.
     if occurs_in ''PRIVATE KEY'' pem \<or> occurs_in ''CERTIFICATE REQUEST'' pem
       then Inl (ValidationError ''public_key_pem must not contain private or CSR material'')
     else
       (case pem_body pem of
          None \<Rightarrow> Inl (ValidationError ''public_key_pem is not a supported PEM public key'')
        | Some body \<Rightarrow>
            (case base64_length (filter (\<lambda>c. c \<noteq> CHR 0x0A) body) of
               None \<Rightarrow> Inl (ValidationError ''public_key_pem contains invalid base64'')
             | Some n \<Rightarrow>
                 if \<not> (16 \<le> n \<and> n \<le> MAX_PUBLIC_KEY_BYTES)
                 then Inl (ValidationError ''public_key_pem has invalid bounded key material'') else Inr pem)))"

definition public_key_identity :: "string \<Rightarrow> string" where
  "public_key_identity public_key_pem = ''sha256:'' @ sha256_hex public_key_pem"

definition token_field :: "json \<Rightarrow> string result" where
  "token_field v = tryE (bounded_text ''enrollment token'' 128 v) (\<lambda>token.
     if length token < 40 \<or> \<not> list_all (\<lambda>c. is_alnum c \<or> c \<in> set ''_-'') token
     then Inl (ProtocolError ''enrollment authorization is invalid'') else Inr token)"

definition token_digest :: "string \<Rightarrow> string" where
  "token_digest token = ''sha256:'' @ sha256_hex token"

section \<open>Lemmas\<close>

definition bounded_ok :: "nat \<Rightarrow> string \<Rightarrow> bool" where
  "bounded_ok maximum s = (s \<noteq> [] \<and> length s \<le> maximum \<and> CHR 0x00 \<notin> set s)"

lemma bounded_text_eq_Inr [result_simps]: "bounded_text f n v = Inr s \<longleftrightarrow> v = JStr s \<and> bounded_ok n s"
  by (cases v) (auto simp: bounded_text_def bounded_ok_def)

lemma bounded_text_ok [simp]: "bounded_ok n s \<Longrightarrow> bounded_text f n (JStr s) = Inr s"
  by (simp add: bounded_text_eq_Inr)

definition identity_ok :: "string \<Rightarrow> bool" where
  "identity_ok s = (bounded_ok 128 s \<and> matches_identity s)"

lemma identity_field_eq_Inr [result_simps]: "identity_field f v = Inr s \<longleftrightarrow> v = JStr s \<and> identity_ok s"
  by (auto simp: identity_field_def identity_ok_def result_simps)

lemma identity_field_ok [simp]: "identity_ok s \<Longrightarrow> identity_field f (JStr s) = Inr s"
  by (simp add: identity_field_eq_Inr)

lemma session_id_field_eq_Inr [result_simps]: "session_id_field v = Inr s \<longleftrightarrow> v = JStr s \<and> identity_ok s"
  by (auto simp: session_id_field_def identity_ok_def result_simps)

lemma token_field_InrD: "token_field v = Inr t \<Longrightarrow> v = JStr t \<and> 40 \<le> length t"
  by (auto simp: token_field_def result_simps)

lemma public_key_field_InrD: "public_key_field v = Inr pem \<Longrightarrow> v = JStr pem"
  by (auto simp: public_key_field_def tryE_eq_Inr bounded_text_eq_Inr split: option.splits if_splits)

lemma metadata_item_eq_Inr:
  "metadata_item k v = Inr kv \<longleftrightarrow>
     (\<exists>t. v = JStr t \<and> kv = (k, v) \<and> bounded_ok 64 k \<and> \<not> names_secret k \<and> bounded_ok MAX_METADATA_TEXT t)"
  by (auto simp: metadata_item_def result_simps)

lemma metadata_field_InrD:
  assumes "metadata_field v = Inr m"
  shows "(v = JNull \<and> m = fmempty) \<or> (v = JObj m \<and> length (dict_keys m) \<le> MAX_METADATA_ITEMS \<and>
    (\<forall>k t. fmlookup m k = Some t \<longrightarrow> metadata_item k t = Inr (k, t)))"
proof (cases v)
  case (JObj d)
  with assms obtain kvs where b: "length (dict_keys d) \<le> MAX_METADATA_ITEMS" and m: "m = dict_of kvs"
    and kvs: "mapE (\<lambda>k. metadata_item k (dget d k)) (dict_keys d) = Inr kvs"
    by (auto simp: metadata_field_def tryE_eq_Inr split: if_splits)
  have items: "metadata_item k (dget d k) = Inr (k, dget d k)" if k: "k \<in> set (dict_keys d)" for k
    using mapE_set2 [OF kvs k] by (auto simp: metadata_item_eq_Inr)
  have "kvs = map (\<lambda>k. (k, dget d k)) (dict_keys d)"
    using mapE_total [of "dict_keys d" "\<lambda>k. metadata_item k (dget d k)" "\<lambda>k. (k, dget d k)"] items kvs by simp
  then have "fmlookup m k = fmlookup d k" for k
    unfolding m by (cases "fmlookup d k")
      (auto simp: fmlookup_of_list map_of_map_restrict restrict_map_def dget_def fmdom_notI fmdomI)
  then have "m = d" by (rule fmap_ext)
  moreover have "metadata_item k t = Inr (k, t)" if "fmlookup d k = Some t" for k t
    using items [of k] that by (simp add: dget_eq fmdomI)
  ultimately show ?thesis using JObj b by simp
qed (use assms in \<open>auto simp: metadata_field_def\<close>)

lemma metadata_field_idem: "metadata_field v = Inr m \<Longrightarrow> metadata_field (JObj m) = Inr m"
proof -
  assume m: "metadata_field v = Inr m"
  have "dict_keys fmempty = []" by (simp add: dict_keys_def sorted_list_of_fset.rep_eq)
  then have "metadata_field (JObj fmempty) = Inr fmempty" by (simp add: metadata_field_def)
  then show ?thesis using metadata_field_InrD [OF m] m by auto
qed

end
