(* ===== verification/Ledger.thy ===== *)
theory Ledger
  imports Canonical
begin

text \<open>
  \<^verbatim>\<open>src/src/mncs_fabric/store.py\<close>: the append-only, hash-chained JSONL ledger that every
  durable component of Fabric writes to. A ledger file is the list of its lines, each as what
  \<^verbatim>\<open>json.loads\<close> makes of it, and whether the last line ends with a newline. An operation takes the file
  and returns its value with the new file, or the exception it raises. The exclusive lock makes an
  operation one atomic step on the file; the memo of the last verification, keyed by the file's stat
  token, is taken to be exact and is not part of the state.

  Shown here: a verified ledger stays verified and only grows under \<open>append\<close> and \<open>append_if\<close>; what
  was appended is read back; a predicate is checked against exactly the entries the write is based on;
  compaction reseals the chain and keeps the retained records; recovery keeps exactly the verified
  prefix; the identity of the last entry determines the whole ledger unless SHA-256 collides.
\<close>

section \<open>Files, entries and diagnostics\<close>

datatype raw_line = EmptyLine | Undecodable | Value json

record ledger_file =
  file_lines :: "raw_line list"
  terminated :: bool

datatype diagnostic_code = TRUNCATED_TAIL | TRAILING_NEWLINE_MISSING

record ledger_diagnostic =
  diag_code :: diagnostic_code
  diag_line :: nat

record verification =
  entry_count :: nat
  last_entry :: "dict option"
  diagnostics :: "ledger_diagnostic list"
  is_partial :: bool

definition LEDGER_SCHEMA :: string where
  "LEDGER_SCHEMA = ''mncs-fabric.ledger.v0.1''"

definition COMPACTION_SCHEMA :: string where
  "COMPACTION_SCHEMA = ''mncs-fabric.ledger-compaction.v0.1''"

definition entry_fields :: "string list" where
  "entry_fields = [''schema_version'', ''sequence'', ''previous_identity'', ''record_type'',
     ''record'', ''record_identity'', ''entry_identity'']"

definition empty_ledger :: ledger_file where
  "empty_ledger = \<lparr>file_lines = [], terminated = True\<rparr>"

section \<open>Validation\<close>

definition validate_entry_fast :: "dict \<Rightarrow> int \<Rightarrow> json \<Rightarrow> unit result" where
  "validate_entry_fast value previous_sequence previous_identity =
     (if dget value ''schema_version'' \<noteq> JStr LEDGER_SCHEMA
        then Inl (StorageError ''ledger line uses an unsupported schema version'')
      else if \<not> keys_are value entry_fields
        then Inl (StorageError ''ledger line has an unexpected field set'')
      else if as_int (dget value ''sequence'')
                \<noteq> Some (if 0 < previous_sequence then previous_sequence + 1 else 1)
        then Inl (StorageError ''ledger sequence is invalid'')
      else if dget value ''previous_identity'' \<noteq> previous_identity
        then Inl (StorageError ''ledger hash linkage is invalid'')
      else if \<not> is_dict (dget value ''record'')
              \<or> dget value ''record_identity'' \<noteq> JStr (sha256_identity (dget value ''record''))
        then Inl (StorageError ''ledger record identity is invalid'')
      else if dget value ''entry_identity'' \<noteq> JStr (sha256_identity (JObj (fmdrop ''entry_identity'' value)))
        then Inl (StorageError ''ledger entry identity is invalid'')
      else Inr ())"

definition entry_sequence :: "dict \<Rightarrow> int" where
  "entry_sequence value = (case as_int (dget value ''sequence'') of None \<Rightarrow> 0 | Some n \<Rightarrow> n)"

text \<open>
  The loop of \<^verbatim>\<open>_verify_unlocked\<close>. Only the last line can lack its newline; an empty or undecodable
  last line without a newline ends the loop with a diagnostic, any other such line raises.
\<close>

fun verify_loop ::
  "bool \<Rightarrow> raw_line list \<Rightarrow> nat \<Rightarrow> int \<Rightarrow> json \<Rightarrow> dict option \<Rightarrow> verification result" where
  "verify_loop newline_end [] n seq ident final =
     Inr \<lparr>entry_count = n, last_entry = final, diagnostics = [], is_partial = False\<rparr>"
| "verify_loop newline_end (l # ls) n seq ident final =
     (let trailing_partial = (ls = [] \<and> \<not> newline_end);
          truncated = Inr \<lparr>entry_count = n, last_entry = final,
             diagnostics = [\<lparr>diag_code = TRUNCATED_TAIL, diag_line = n + 1\<rparr>], is_partial = True\<rparr>
      in case l of
           EmptyLine \<Rightarrow>
             if trailing_partial then truncated else Inl (StorageError ''ledger line is empty'')
         | Undecodable \<Rightarrow>
             if trailing_partial then truncated else Inl (StorageError ''ledger line is corrupt'')
         | Value v \<Rightarrow>
             (case v of
                JObj value \<Rightarrow>
                  tryE (validate_entry_fast value seq ident) (\<lambda>_.
                    if trailing_partial then
                      Inr \<lparr>entry_count = n + 1, last_entry = Some value,
                        diagnostics = [\<lparr>diag_code = TRAILING_NEWLINE_MISSING, diag_line = n + 1\<rparr>], is_partial = True\<rparr>
                    else verify_loop newline_end ls (n + 1) (entry_sequence value) (dget value ''entry_identity'') (Some value))
              | _ \<Rightarrow> Inl (StorageError ''ledger line is not an object'')))"

definition verify_unlocked :: "ledger_file \<Rightarrow> verification result" where
  "verify_unlocked F = verify_loop (terminated F) (file_lines F) 0 0 JNull None"

fun line_entry :: "raw_line \<Rightarrow> dict option" where
  "line_entry (Value (JObj m)) = Some m"
| "line_entry _ = None"

definition stream_unlocked :: "ledger_file \<Rightarrow> dict list" where
  "stream_unlocked F = List.map_filter line_entry (file_lines F)"

section \<open>Reading\<close>

definition require_clean :: "ledger_file \<Rightarrow> verification result" where
  "require_clean F = tryE (verify_unlocked F) (\<lambda>v.
     if diagnostics v \<noteq> [] then Inl (StorageError ''ledger has an unrepaired truncated tail'') else Inr v)"

definition outcome_of :: "ledger_diagnostic list \<Rightarrow> string" where
  "outcome_of ds = (if ds \<noteq> [] then ''UNKNOWN'' else ''PASS'')"

definition ledger_verify :: "ledger_file \<Rightarrow> (nat \<times> ledger_diagnostic list \<times> string) result" where
  "ledger_verify F = tryE (verify_unlocked F) (\<lambda>v.
     Inr (entry_count v, diagnostics v, outcome_of (diagnostics v)))"

definition of_type :: "string option \<Rightarrow> dict \<Rightarrow> bool" where
  "of_type rt entry = (case rt of None \<Rightarrow> True | Some t \<Rightarrow> dget entry ''record_type'' = JStr t)"

definition all_records :: "string option \<Rightarrow> ledger_file \<Rightarrow> dict list result" where
  "all_records rt F = tryE (require_clean F) (\<lambda>_. Inr (filter (of_type rt) (stream_unlocked F)))"

definition iter_records :: "string option \<Rightarrow> ledger_file \<Rightarrow> dict list result" where
  "iter_records rt F = tryE (require_clean F) (\<lambda>_. Inr (filter (of_type rt) (stream_unlocked F)))"

definition ledger_records :: "string option \<Rightarrow> int \<Rightarrow> ledger_file \<Rightarrow> dict list result" where
  "ledger_records rt limit F =
     (if limit < 0 \<or> 100000 < limit
        then Inl (StorageError ''ledger read limit is outside the bounded range'')
      else if limit = 0 then Inr []
      else tryE (require_clean F) (\<lambda>_.
        let es = filter (of_type rt) (stream_unlocked F) in Inr (drop (length es - nat limit) es)))"

section \<open>Appending\<close>

definition previous_of :: "dict option \<Rightarrow> json" where
  "previous_of final = (case final of None \<Rightarrow> JNull | Some e \<Rightarrow> dget e ''entry_identity'')"

definition make_entry :: "nat \<Rightarrow> json \<Rightarrow> json \<Rightarrow> json \<Rightarrow> json \<Rightarrow> dict" where
  "make_entry sequence previous record_type record record_identity =
     attach_identity (dict_of
       [(''schema_version'', JStr LEDGER_SCHEMA), (''sequence'', JInt (int sequence)),
        (''previous_identity'', previous), (''record_type'', record_type),
        (''record'', record), (''record_identity'', record_identity)]) ''entry_identity''"

definition write_entries :: "dict list \<Rightarrow> ledger_file \<Rightarrow> ledger_file" where
  "write_entries es F = \<lparr>file_lines = file_lines F @ map (\<lambda>e. Value (JObj e)) es, terminated = True\<rparr>"

definition same_identity :: "string \<Rightarrow> dict \<Rightarrow> bool" where
  "same_identity ident existing = (dget existing ''record_identity'' = JStr ident)"

text \<open>Reuse of an entry that already holds a record with this identity.\<close>

definition reuse_entry :: "string \<Rightarrow> dict \<Rightarrow> dict \<Rightarrow> dict result" where
  "reuse_entry record_type record existing =
     (if dget existing ''record_type'' \<noteq> JStr record_type \<or> dget existing ''record'' \<noteq> JObj record
        then Inl (StorageError ''conflicting duplicate record identity'') else Inr existing)"

definition ledger_append :: "string \<Rightarrow> dict \<Rightarrow> ledger_file \<Rightarrow> (dict \<times> ledger_file) result" where
  "ledger_append record_type record F =
     (if record_type = [] then Inl (StorageError ''record_type must be a non-empty string'')
      else tryE (require_clean F) (\<lambda>v.
        let record_identity = sha256_identity (JObj record);
            entry = make_entry (entry_count v + 1) (previous_of (last_entry v)) (JStr record_type)
                      (JObj record) (JStr record_identity);
            scan = (case find_first (same_identity record_identity) (stream_unlocked F) of
                      Some existing \<Rightarrow>
                        tryE (reuse_entry record_type record existing) (\<lambda>e. Inr (e, F))
                    | None \<Rightarrow> Inr (entry, write_entries [entry] F))
        in case last_entry v of
             None \<Rightarrow> scan
           | Some l \<Rightarrow>
               if same_identity record_identity l
               then tryE (reuse_entry record_type record l) (\<lambda>e. Inr (e, F))
               else scan))"

text \<open>
  \<^verbatim>\<open>append_if\<close>: the predicate sees the entries read under the lock and raises to refuse. A predicate may
  fill in the record it is about to append, which is a mutable dict; \<open>append_computed\<close> is that form,
  with the record the predicate leaves behind as its result.
\<close>

definition append_computed ::
  "string \<Rightarrow> (dict list \<Rightarrow> dict result) \<Rightarrow> ledger_file \<Rightarrow> (dict \<times> ledger_file) result" where
  "append_computed record_type predicate F =
     (if record_type = [] then Inl (StorageError ''record_type must be a non-empty string'')
      else tryE (require_clean F) (\<lambda>v.
        let records = stream_unlocked F
        in tryE (predicate records) (\<lambda>record.
             let record_identity = sha256_identity (JObj record);
                 entry = make_entry (entry_count v + 1) (previous_of (last_entry v)) (JStr record_type)
                           (JObj record) (JStr record_identity)
             in case find_first (same_identity record_identity) records of
                  Some existing \<Rightarrow> tryE (reuse_entry record_type record existing) (\<lambda>e. Inr (e, F))
                | None \<Rightarrow> Inr (entry, write_entries [entry] F))))"

definition append_if ::
  "string \<Rightarrow> dict \<Rightarrow> (dict list \<Rightarrow> unit result) \<Rightarrow> ledger_file \<Rightarrow> (dict \<times> ledger_file) result" where
  "append_if record_type record predicate =
     append_computed record_type (\<lambda>records. tryE (predicate records) (\<lambda>_. Inr record))"

text \<open>The loop of \<^verbatim>\<open>append_many_if\<close> over the batch: the entries built so far and the previous entry.\<close>

fun build_batch ::
  "nat \<Rightarrow> dict list \<Rightarrow> (string \<times> dict) list \<Rightarrow> dict list \<Rightarrow> dict option \<Rightarrow> dict list result" where
  "build_batch n records [] entries previous = Inr entries"
| "build_batch n records ((record_type, record) # rest) entries previous =
     (let record_identity = sha256_identity (JObj record)
      in case find_first (same_identity record_identity) (records @ entries) of
           Some existing \<Rightarrow>
             tryE (reuse_entry record_type record existing) (\<lambda>e.
               build_batch n records rest (entries @ [e]) previous)
         | None \<Rightarrow>
             let entry = make_entry (n + length entries + 1) (previous_of previous) (JStr record_type)
                           (JObj record) (JStr record_identity)
             in build_batch n records rest (entries @ [entry]) (Some entry))"

definition append_many_if ::
  "(string \<times> dict) list \<Rightarrow> (dict list \<Rightarrow> unit result) \<Rightarrow> ledger_file \<Rightarrow> (dict list \<times> ledger_file) result" where
  "append_many_if batch predicate F =
     (if batch = [] \<or> 8 < length batch
        then Inl (StorageError ''ledger append batch is outside the bounded range'')
      else if \<exists>p \<in> set batch. fst p = []
        then Inl (StorageError ''record_type must be a non-empty string'')
      else tryE (require_clean F) (\<lambda>v.
        let records = stream_unlocked F
        in tryE (predicate records) (\<lambda>_.
             tryE (build_batch (entry_count v) records batch [] (last_entry v)) (\<lambda>entries.
               let new_entries = filter (\<lambda>e. e \<notin> set records) entries
               in Inr (entries, if new_entries = [] then F else write_entries new_entries F)))))"

section \<open>Recovery and compaction\<close>

text \<open>
  \<^verbatim>\<open>recover\<close>: a missing final newline is added, any other partial tail is cut back to the last
  newline. The value is the record count, the diagnostics, whether a repair was made, the outcome.
\<close>

definition repair_tail :: "ledger_diagnostic list \<Rightarrow> ledger_file \<Rightarrow> ledger_file" where
  "repair_tail ds F =
     (if ds \<noteq> [] \<and> diag_code (last ds) = TRAILING_NEWLINE_MISSING then F\<lparr>terminated := True\<rparr>
      else \<lparr>file_lines = butlast (file_lines F), terminated = True\<rparr>)"

definition recover ::
  "bool \<Rightarrow> ledger_file \<Rightarrow> ((nat \<times> ledger_diagnostic list \<times> bool \<times> string) \<times> ledger_file) result" where
  "recover repair_truncated_tail F = tryE (verify_unlocked F) (\<lambda>v.
     if is_partial v \<and> repair_truncated_tail then
       let F' = repair_tail (diagnostics v) F
       in tryE (verify_unlocked F') (\<lambda>v'. Inr ((entry_count v', diagnostics v', True, ''PASS''), F'))
     else Inr ((entry_count v, diagnostics v, False, outcome_of (diagnostics v)), F))"

fun reseal :: "nat \<Rightarrow> json \<Rightarrow> dict list \<Rightarrow> dict list" where
  "reseal i previous [] = []"
| "reseal i previous (entry # rest) =
     (let e = make_entry i previous (dget entry ''record_type'') (dget entry ''record'')
                (dget entry ''record_identity'')
      in e # reseal (i + 1) (dget e ''entry_identity'') rest)"

definition compaction_receipt :: "string \<Rightarrow> json \<Rightarrow> nat \<Rightarrow> nat \<Rightarrow> string \<Rightarrow> dict" where
  "compaction_receipt reason head n kept now = dict_of
     [(''schema_version'', JStr COMPACTION_SCHEMA), (''reason'', JStr reason), (''pre_compact_head'', head),
      (''pre_compact_count'', JInt (int n)), (''kept_count'', JInt (int kept)),
      (''dropped_count'', JInt (int n - int kept)), (''compacted_at'', JStr now),
      (''claim_boundary'', JStr ''compaction receipt; dropped entries were superseded and unreferenced'')]"

definition compact ::
  "(dict \<Rightarrow> bool) \<Rightarrow> string \<Rightarrow> int \<Rightarrow> string \<Rightarrow> ledger_file \<Rightarrow> (dict \<times> ledger_file) result" where
  "compact keep reason max_kept now F =
     (if reason = [] \<or> 512 < length reason \<or> CHR 0x00 \<in> set reason
        then Inl (StorageError ''ledger compaction reason must be bounded non-empty text'')
      else if max_kept < 1 \<or> 100000 < max_kept
        then Inl (StorageError ''ledger compaction kept bound is outside the bounded range'')
      else tryE (require_clean F) (\<lambda>v.
        let kept = filter keep (stream_unlocked F)
        in if max_kept < int (length kept)
             then Inl (StorageError ''ledger compaction kept set exceeds its bound'')
           else
             let resealed = reseal 1 JNull kept;
                 receipt = compaction_receipt reason (previous_of (last_entry v)) (entry_count v) (length resealed) now;
                 receipt_entry = make_entry (length resealed + 1)
                   (previous_of (if resealed = [] then None else Some (last resealed)))
                   (JStr ''ledger.compaction'') (JObj receipt) (JStr (sha256_identity (JObj receipt)));
                 F' = \<lparr>file_lines = map (\<lambda>e. Value (JObj e)) (resealed @ [receipt_entry]), terminated = True\<rparr>
             in Inr (dict_of
                  [(''schema_version'', JStr COMPACTION_SCHEMA), (''reason'', JStr reason),
                   (''pre_compact_head'', previous_of (last_entry v)),
                   (''pre_compact_count'', JInt (int (entry_count v))),
                   (''kept_count'', JInt (int (length resealed))),
                   (''dropped_count'', JInt (int (entry_count v) - int (length resealed))),
                   (''post_compact_count'', JInt (int (length resealed + 1))),
                   (''compaction_identity'', dget receipt_entry ''entry_identity''),
                   (''claim_boundary'', dget receipt ''claim_boundary'')], F')))"

section \<open>The chain of a verified ledger\<close>

text \<open>A ledger is fit for use when verification succeeds without a diagnostic.\<close>

definition ledger_ok :: "ledger_file \<Rightarrow> bool" where
  "ledger_ok F = (case require_clean F of Inl _ \<Rightarrow> False | Inr _ \<Rightarrow> True)"

fun chain :: "int \<Rightarrow> json \<Rightarrow> dict list \<Rightarrow> bool" where
  "chain seq ident [] = True"
| "chain seq ident (e # es) =
     (validate_entry_fast e seq ident = Inr () \<and> chain (entry_sequence e) (dget e ''entry_identity'') es)"

definition option_last :: "'a list \<Rightarrow> 'a option" where
  "option_last xs = (if xs = [] then None else Some (last xs))"

lemma option_last_simps [simp]:
  "option_last [] = None" "option_last (xs @ [x]) = Some x"
  by (simp_all add: option_last_def)

abbreviation as_lines :: "dict list \<Rightarrow> raw_line list" where
  "as_lines es \<equiv> map (\<lambda>e. Value (JObj e)) es"

lemma map_filter_as_lines [simp]: "List.map_filter line_entry (as_lines es) = es"
  by (induction es) (simp_all add: List.map_filter_simps)

lemma verify_loop_as_lines:
  "chain seq ident es \<Longrightarrow> es = [] \<or> newline_end \<Longrightarrow> verify_loop newline_end (as_lines es) n seq ident final =
     Inr \<lparr>entry_count = n + length es, last_entry = (if es = [] then final else Some (last es)),
          diagnostics = [], is_partial = False\<rparr>"
  by (induction es arbitrary: n seq ident final) simp_all

lemma verify_loop_clean:
  "verify_loop newline_end ls n seq ident final = Inr v \<Longrightarrow> diagnostics v = [] \<Longrightarrow>
     \<exists>es. ls = as_lines es \<and> chain seq ident es \<and> (es = [] \<or> newline_end)"
proof (induction ls arbitrary: n seq ident final)
  case Nil
  show ?case by (rule exI [of _ "[]"]) simp
next
  case (Cons l ls)
  from Cons.prems obtain m where m: "l = Value (JObj m)"
      and valid: "validate_entry_fast m seq ident = Inr ()" and newline_end: "\<not> (ls = [] \<and> \<not> newline_end)"
      and rest: "verify_loop newline_end ls (n + 1) (entry_sequence m) (dget m ''entry_identity'') (Some m) = Inr v"
    by (auto simp: tryE_eq_Inr split: raw_line.splits json.splits if_splits)
  from Cons.IH [OF rest Cons.prems(2)] obtain es
    where "ls = as_lines es" "chain (entry_sequence m) (dget m ''entry_identity'') es" "es = [] \<or> newline_end"
    by blast
  with m valid newline_end show ?case by (intro exI [of _ "m # es"]) auto
qed

lemma require_clean_iff:
  "require_clean F = Inr v \<longleftrightarrow>
     (\<exists>es. file_lines F = as_lines es \<and> chain 0 JNull es \<and> (es = [] \<or> terminated F) \<and>
        v = \<lparr>entry_count = length es, last_entry = option_last es, diagnostics = [], is_partial = False\<rparr>)"
  (is "?l \<longleftrightarrow> ?r")
proof
  assume ?l
  then have v: "verify_loop (terminated F) (file_lines F) 0 0 JNull None = Inr v" "diagnostics v = []"
    by (auto simp: require_clean_def verify_unlocked_def tryE_eq_Inr split: if_splits)
  from verify_loop_clean [OF this] obtain es
    where es: "file_lines F = as_lines es" "chain 0 JNull es" "es = [] \<or> terminated F" by blast
  from v(1) show ?r
    unfolding es(1) verify_loop_as_lines [OF es(2,3)]
    by (intro exI [of _ es]) (simp add: es option_last_def)
next
  assume ?r
  then obtain es where es: "file_lines F = as_lines es" "chain 0 JNull es" "es = [] \<or> terminated F"
    and v: "v = \<lparr>entry_count = length es, last_entry = option_last es, diagnostics = [], is_partial = False\<rparr>"
    by blast
  show ?l
    unfolding require_clean_def verify_unlocked_def es(1) verify_loop_as_lines [OF es(2,3)]
    by (simp add: v option_last_def)
qed

lemma ledger_ok_iff:
  "ledger_ok F \<longleftrightarrow>
     (\<exists>es. file_lines F = as_lines es \<and> chain 0 JNull es \<and> (es = [] \<or> terminated F))"
proof -
  have "ledger_ok F \<longleftrightarrow> (\<exists>v. require_clean F = Inr v)"
    by (auto simp: ledger_ok_def split: sum.splits)
  then show ?thesis by (auto simp: require_clean_iff)
qed

lemma ledger_ok_entries:
  "ledger_ok F \<longleftrightarrow> file_lines F = as_lines (stream_unlocked F) \<and> chain 0 JNull (stream_unlocked F)
     \<and> (stream_unlocked F = [] \<or> terminated F)"
  by (auto simp: ledger_ok_iff stream_unlocked_def)

lemma require_clean_ok:
  "ledger_ok F \<Longrightarrow> require_clean F = Inr \<lparr>entry_count = length (stream_unlocked F),
     last_entry = option_last (stream_unlocked F), diagnostics = [], is_partial = False\<rparr>"
  by (auto simp: ledger_ok_entries require_clean_iff)

lemma require_clean_InrD:
  "require_clean F = Inr v \<Longrightarrow> ledger_ok F \<and> v = \<lparr>entry_count = length (stream_unlocked F),
     last_entry = option_last (stream_unlocked F), diagnostics = [], is_partial = False\<rparr>"
proof -
  assume v: "require_clean F = Inr v"
  then have "ledger_ok F" by (simp add: ledger_ok_def)
  with v show ?thesis by (simp add: require_clean_ok)
qed

lemma empty_ledger_ok [simp]: "ledger_ok empty_ledger" "stream_unlocked empty_ledger = []"
  by (simp_all add: ledger_ok_iff empty_ledger_def stream_unlocked_def List.map_filter_simps)

lemma stream_write [simp]: "stream_unlocked (write_entries es F) = stream_unlocked F @ es"
  by (simp add: stream_unlocked_def write_entries_def List.map_filter_def comp_def)

subsection \<open>Sequence numbers and linkage\<close>

lemma validate_ok_iff:
  "validate_entry_fast e seq ident = Inr () \<longleftrightarrow>
     dget e ''schema_version'' = JStr LEDGER_SCHEMA \<and> keys_are e entry_fields \<and>
     as_int (dget e ''sequence'') = Some (if 0 < seq then seq + 1 else 1) \<and>
     dget e ''previous_identity'' = ident \<and> is_dict (dget e ''record'') \<and>
     dget e ''record_identity'' = JStr (sha256_identity (dget e ''record'')) \<and>
     dget e ''entry_identity'' = JStr (sha256_identity (JObj (fmdrop ''entry_identity'' e)))"
  unfolding validate_entry_fast_def by (simp only: result_simps de_Morgan_disj not_not) blast

lemma chain_Cons_sequence: "validate_entry_fast e seq ident = Inr () \<Longrightarrow> 0 \<le> seq \<Longrightarrow> entry_sequence e = seq + 1"
  by (auto simp: validate_ok_iff entry_sequence_def)

lemma chain_append:
  "chain seq ident (es @ fs) \<longleftrightarrow> chain seq ident es \<and>
     chain (if es = [] then seq else entry_sequence (last es))
           (if es = [] then ident else dget (last es) ''entry_identity'') fs"
  by (induction es arbitrary: seq ident) auto

lemma chain_last_sequence:
  "chain seq ident es \<Longrightarrow> 0 \<le> seq \<Longrightarrow> es \<noteq> [] \<Longrightarrow> entry_sequence (last es) = seq + int (length es)"
proof (induction es arbitrary: seq ident)
  case (Cons e es)
  then have e: "entry_sequence e = seq + 1" using chain_Cons_sequence by auto
  show ?case
  proof (cases "es = []")
    case False
    with Cons.IH [of "entry_sequence e"] Cons.prems e show ?thesis by auto
  qed (use e in simp)
qed simp

lemma make_entry_valid:
  assumes "int n = (if 0 < seq then seq + 1 else 1)" and "ri = JStr (sha256_identity (JObj r))"
  shows "validate_entry_fast (make_entry n ident rt (JObj r) ri) seq ident = Inr ()"
  using assms
  by (auto simp: validate_ok_iff make_entry_def keys_are_def entry_fields_def)

lemma make_entry_dget [simp]:
  "dget (make_entry n ident rt r ri) ''record'' = r"
  "dget (make_entry n ident rt r ri) ''record_type'' = rt"
  "dget (make_entry n ident rt r ri) ''record_identity'' = ri"
  "dget (make_entry n ident rt r ri) ''sequence'' = JInt (int n)"
  "dget (make_entry n ident rt r ri) ''previous_identity'' = ident"
  by (simp_all add: make_entry_def)

lemma chain_extend:
  assumes "chain 0 JNull es" and "ri = JStr (sha256_identity (JObj r))"
  shows "chain 0 JNull (es @ [make_entry (length es + 1) (previous_of (option_last es)) rt (JObj r) ri])"
proof -
  have "validate_entry_fast (make_entry (length es + 1) (previous_of (option_last es)) rt (JObj r) ri)
     (if es = [] then 0 else entry_sequence (last es)) (previous_of (option_last es)) = Inr ()"
    using assms chain_last_sequence [of 0 JNull es] by (intro make_entry_valid) auto
  with assms(1) show ?thesis
    by (auto simp: chain_append previous_of_def option_last_def split: if_splits)
qed

lemma ok_write:
  assumes "ledger_ok F" and "chain 0 JNull (stream_unlocked F @ es)"
  shows "ledger_ok (write_entries es F)"
  using assms unfolding ledger_ok_iff
  by (intro exI [of _ "stream_unlocked F @ es"]) (auto simp: write_entries_def stream_unlocked_def)

section \<open>What an append does\<close>

definition entry_holds :: "string \<Rightarrow> dict \<Rightarrow> dict \<Rightarrow> bool" where
  "entry_holds record_type record e =
     (dget e ''record_type'' = JStr record_type \<and> dget e ''record'' = JObj record)"

definition fresh_record :: "dict \<Rightarrow> dict list \<Rightarrow> bool" where
  "fresh_record record es = list_all (\<lambda>e. \<not> same_identity (sha256_identity (JObj record)) e) es"

definition next_entry :: "string \<Rightarrow> dict \<Rightarrow> dict list \<Rightarrow> dict" where
  "next_entry record_type record es =
     make_entry (length es + 1) (previous_of (option_last es)) (JStr record_type) (JObj record)
       (JStr (sha256_identity (JObj record)))"

lemma next_entry_holds [simp]: "entry_holds rt r (next_entry rt r es)"
  by (simp add: entry_holds_def next_entry_def)

text \<open>The record an entry carries, as the projections of the ledger read it.\<close>

definition entry_record :: "dict \<Rightarrow> dict" where
  "entry_record e = (case dget_default e ''record'' (JObj fmempty) of JObj r \<Rightarrow> r | _ \<Rightarrow> fmempty)"

lemma entry_record_next [simp]: "entry_record (next_entry rt r es) = r"
proof -
  have "fmlookup (next_entry rt r es) ''record'' = Some (JObj r)"
    by (simp add: next_entry_def make_entry_def)
  then show ?thesis by (simp add: entry_record_def dget_default_def)
qed

lemma entry_record_holds: "entry_holds rt r e \<Longrightarrow> entry_record e = r"
  by (auto simp: entry_holds_def entry_record_def dget_default_def dget_def split: option.splits)

lemma iter_records_ok: "ledger_ok F \<Longrightarrow> iter_records None F = Inr (stream_unlocked F)"
  by (simp add: iter_records_def require_clean_ok of_type_def)

lemma chain_next: "chain 0 JNull es \<Longrightarrow> chain 0 JNull (es @ [next_entry rt r es])"
  by (simp add: next_entry_def chain_extend del: One_nat_def)

lemma ok_write_next: "ledger_ok F \<Longrightarrow> ledger_ok (write_entries [next_entry rt r (stream_unlocked F)] F)"
  by (intro ok_write) (auto simp: ledger_ok_entries intro: chain_next)

text \<open>The entries of a ledger that holds the given records in their order.\<close>

definition run_entries :: "(string \<times> dict) list \<Rightarrow> dict list" where
  "run_entries rs = foldl (\<lambda>es (rt, r). es @ [next_entry rt r es]) [] rs"

lemma run_entries_snoc [simp]:
  "run_entries [] = []"
  "run_entries (rs @ [(rt, r)]) = run_entries rs @ [next_entry rt r (run_entries rs)]"
  by (simp_all add: run_entries_def)

lemma run_entries_ok: "ledger_ok (write_entries (run_entries rs) empty_ledger)"
proof (rule ok_write)
  have "chain 0 JNull (run_entries rs)"
    by (induction rs rule: rev_induct) (auto simp: chain_next)
  then show "chain 0 JNull (stream_unlocked empty_ledger @ run_entries rs)" by simp
qed simp

lemma fresh_record_find:
  "fresh_record r es \<longleftrightarrow> find_first (same_identity (sha256_identity (JObj r))) es = None"
  by (simp add: fresh_record_def find_first_None list_all_iff)

lemma fresh_record_append [simp]: "fresh_record r (es @ fs) \<longleftrightarrow> fresh_record r es \<and> fresh_record r fs"
  by (simp add: fresh_record_def)

lemma fresh_record_Nil [simp]: "fresh_record r []"
  by (simp add: fresh_record_def)

lemma same_identity_next [simp]:
  "same_identity ident (next_entry rt r es) \<longleftrightarrow> ident = sha256_identity (JObj r)"
  by (auto simp: same_identity_def next_entry_def)

lemma reuse_entry_Inr [result_simps]: "reuse_entry rt r x = Inr e \<longleftrightarrow> e = x \<and> entry_holds rt r x"
  by (auto simp: reuse_entry_def entry_holds_def)

lemma append_computed_fresh:
  assumes "ledger_ok F" and "rt \<noteq> []" and "p (stream_unlocked F) = Inr r" and "fresh_record r (stream_unlocked F)"
  shows "append_computed rt p F = Inr (next_entry rt r (stream_unlocked F),
           write_entries [next_entry rt r (stream_unlocked F)] F)"
  using assms by (simp add: append_computed_def require_clean_ok fresh_record_find next_entry_def)

lemma append_computed_InrD:
  assumes res: "append_computed rt p F = Inr (e, F')"
  obtains r where "rt \<noteq> []" "ledger_ok F" "p (stream_unlocked F) = Inr r" "entry_holds rt r e"
    "(e \<in> set (stream_unlocked F) \<and> F' = F) \<or>
     (fresh_record r (stream_unlocked F) \<and> e = next_entry rt r (stream_unlocked F) \<and> F' = write_entries [e] F)"
proof -
  from res obtain v r where rt: "rt \<noteq> []" and v: "require_clean F = Inr v"
    and p: "p (stream_unlocked F) = Inr r"
    unfolding append_computed_def by (auto simp: tryE_eq_Inr split: if_splits)
  from require_clean_InrD [OF v] have ok: "ledger_ok F" by simp
  show thesis
  proof (cases "find_first (same_identity (sha256_identity (JObj r))) (stream_unlocked F)")
    case None
    then have fresh: "fresh_record r (stream_unlocked F)" by (simp add: fresh_record_find)
    with append_computed_fresh [of F rt p r, OF ok rt p fresh] res show thesis
      by (intro that [OF rt ok p]) auto
  next
    case (Some x)
    with res rt v p have "e = x" "F' = F" "entry_holds rt r x"
      by (auto simp: append_computed_def tryE_eq_Inr reuse_entry_Inr)
    moreover have "x \<in> set (stream_unlocked F)" using find_first_Some [OF Some] by simp
    ultimately show thesis using that [OF rt ok p] by simp
  qed
qed

lemma append_if_fresh:
  assumes "ledger_ok F" and "rt \<noteq> []" and "p (stream_unlocked F) = Inr ()" and "fresh_record r (stream_unlocked F)"
  shows "append_if rt r p F = Inr (next_entry rt r (stream_unlocked F),
           write_entries [next_entry rt r (stream_unlocked F)] F)"
  using assms by (simp add: append_if_def append_computed_fresh)

lemma ledger_append_fresh:
  assumes "ledger_ok F" and "rt \<noteq> []" and "fresh_record r (stream_unlocked F)"
  shows "ledger_append rt r F = Inr (next_entry rt r (stream_unlocked F),
           write_entries [next_entry rt r (stream_unlocked F)] F)"
proof -
  have "\<not> same_identity (sha256_identity (JObj r)) l" if "option_last (stream_unlocked F) = Some l" for l
    using assms(3) that by (auto simp: fresh_record_def list_all_iff option_last_def split: if_splits)
  then show ?thesis
    using assms by (auto simp: ledger_append_def require_clean_ok fresh_record_find next_entry_def split: option.split)
qed

lemma ledger_append_InrD:
  assumes "ledger_append rt r F = Inr (e, F')"
  shows "rt \<noteq> [] \<and> ledger_ok F \<and> entry_holds rt r e \<and>
    ((e \<in> set (stream_unlocked F) \<and> F' = F) \<or>
     (fresh_record r (stream_unlocked F) \<and> e = next_entry rt r (stream_unlocked F) \<and> F' = write_entries [e] F))"
proof -
  from assms obtain v where rt: "rt \<noteq> []" and v: "require_clean F = Inr v"
    unfolding ledger_append_def by (auto simp: tryE_eq_Inr split: if_splits)
  have ok: "ledger_ok F" using require_clean_InrD [OF v] by simp
  show ?thesis
  proof (cases "fresh_record r (stream_unlocked F)")
    case True
    with ledger_append_fresh [OF ok rt True] assms rt ok show ?thesis by auto
  next
    case False
    then obtain x where "find_first (same_identity (sha256_identity (JObj r))) (stream_unlocked F) = Some x"
      by (auto simp: fresh_record_find)
    with assms rt ok show ?thesis
      unfolding ledger_append_def
      by (auto simp: require_clean_ok tryE_eq_Inr reuse_entry_Inr option_last_def
          split: option.splits if_splits dest!: find_first_Some)
  qed
qed

text \<open>
  The contract the components rely on: an operation that appends keeps the ledger verified, returns an
  entry that holds the record, and leaves the history as it was or longer by exactly that entry.
\<close>

locale durable_log =
  fixes ok :: "'f \<Rightarrow> bool"
    and history :: "'f \<Rightarrow> 'e list"
    and holds :: "string \<Rightarrow> 'r \<Rightarrow> 'e \<Rightarrow> bool"
    and append_op :: "string \<Rightarrow> 'r \<Rightarrow> 'f \<Rightarrow> ('e \<times> 'f) result"
  assumes append_ok: "append_op rt r F = Inr (e, F') \<Longrightarrow> ok F \<and> ok F'"
    and append_history: "append_op rt r F = Inr (e, F') \<Longrightarrow>
          (history F' = history F \<and> e \<in> set (history F)) \<or> history F' = history F @ [e]"
    and append_holds: "append_op rt r F = Inr (e, F') \<Longrightarrow> holds rt r e"
begin

definition append_all :: "(string \<times> 'r) list \<Rightarrow> 'f \<Rightarrow> 'f result" where
  "append_all rs F = foldE (\<lambda>(rt, r) G. tryE (append_op rt r G) (\<lambda>(e, G'). Inr G')) rs F"

lemma append_reads_back:
  assumes "append_op rt r F = Inr (e, F')"
  shows "e \<in> set (history F')" "holds rt r e"
  using append_history [OF assms] append_holds [OF assms] by auto

lemma append_monotone:
  assumes "append_op rt r F = Inr (e, F')"
  obtains zs where "history F' = history F @ zs"
  using append_history [OF assms] by force

lemma append_all_grows:
  assumes "append_all rs F = Inr F'" and "ok F"
  shows "ok F' \<and> (\<exists>zs. history F' = history F @ zs)
    \<and> (\<forall>(rt, r) \<in> set rs. \<exists>e \<in> set (history F'). holds rt r e)"
  using assms
proof (induction rs arbitrary: F)
  case Nil
  then show ?case by (simp add: append_all_def)
next
  case (Cons x rs)
  obtain rt r where x: "x = (rt, r)" by (cases x)
  from Cons.prems(1) x obtain e G where G: "append_op rt r F = Inr (e, G)" and rest: "append_all rs G = Inr F'"
    by (auto simp: append_all_def tryE_eq_Inr)
  from Cons.IH [OF rest] append_ok [OF G]
  have IH: "ok F'" "\<exists>zs. history F' = history G @ zs"
    "\<forall>(rt, r) \<in> set rs. \<exists>e \<in> set (history F'). holds rt r e" by auto
  moreover have "\<exists>zs. history G = history F @ zs" using append_monotone [OF G] by blast
  moreover have "e \<in> set (history F')" using append_reads_back(1) [OF G] IH(2) by auto
  ultimately show ?case using append_holds [OF G] x by auto
qed

end

interpretation plain_log: durable_log ledger_ok stream_unlocked entry_holds ledger_append
proof
  fix rt r F e F'
  assume "ledger_append rt r F = Inr (e, F')"
  from ledger_append_InrD [OF this] show "ledger_ok F \<and> ledger_ok F'"
    and "(stream_unlocked F' = stream_unlocked F \<and> e \<in> set (stream_unlocked F))
      \<or> stream_unlocked F' = stream_unlocked F @ [e]"
    and "entry_holds rt r e"
    by (auto intro: ok_write_next)
qed

interpretation guarded_log: durable_log ledger_ok stream_unlocked
  "\<lambda>rt p e. \<exists>r h. p h = Inr r \<and> entry_holds rt r e" append_computed
proof
  fix rt p F e F'
  assume "append_computed rt p F = Inr (e, F')"
  then obtain r where r: "ledger_ok F" "p (stream_unlocked F) = Inr r" "entry_holds rt r e"
    "(e \<in> set (stream_unlocked F) \<and> F' = F) \<or>
     (fresh_record r (stream_unlocked F) \<and> e = next_entry rt r (stream_unlocked F) \<and> F' = write_entries [e] F)"
    by (rule append_computed_InrD)
  then show "ledger_ok F \<and> ledger_ok F'"
    and "(stream_unlocked F' = stream_unlocked F \<and> e \<in> set (stream_unlocked F))
      \<or> stream_unlocked F' = stream_unlocked F @ [e]"
    and "\<exists>r h. p h = Inr r \<and> entry_holds rt r e"
    by (auto intro: ok_write_next)
qed

section \<open>Batches\<close>

fun fresh_batch :: "dict list \<Rightarrow> (string \<times> dict) list \<Rightarrow> bool" where
  "fresh_batch es [] = True"
| "fresh_batch es ((rt, r) # rest) = (fresh_record r es \<and> fresh_batch (es @ [next_entry rt r es]) rest)"

fun batch_entries :: "dict list \<Rightarrow> (string \<times> dict) list \<Rightarrow> dict list" where
  "batch_entries es [] = []"
| "batch_entries es ((rt, r) # rest) = next_entry rt r es # batch_entries (es @ [next_entry rt r es]) rest"

lemma build_batch_fresh:
  "fresh_batch (records @ entries) batch \<Longrightarrow>
   build_batch (length records) records batch entries (option_last (records @ entries)) =
     Inr (entries @ batch_entries (records @ entries) batch)"
proof (induction batch arbitrary: entries)
  case (Cons x batch)
  obtain rt r where x: "x = (rt, r)" by (cases x)
  let ?e = "next_entry rt r (records @ entries)"
  from Cons.prems x have none: "find_first (same_identity (sha256_identity (JObj r))) (records @ entries) = None"
    by (simp add: fresh_record_find)
  from Cons.prems x have "fresh_batch (records @ (entries @ [?e])) batch" by simp
  from Cons.IH [OF this] none x show ?case
    by (simp add: next_entry_def option_last_def)
qed simp

lemma batch_chain: "chain 0 JNull es \<Longrightarrow> chain 0 JNull (es @ batch_entries es batch)"
proof (induction batch arbitrary: es)
  case (Cons x batch)
  obtain rt r where x: "x = (rt, r)" by (cases x)
  from Cons.IH [OF chain_next [OF Cons.prems, of rt r]] x show ?case by simp
qed simp

lemma batch_holds: "list_all2 (\<lambda>(rt, r) e. entry_holds rt r e) batch (batch_entries es batch)"
  by (induction es batch rule: batch_entries.induct) auto

lemma fresh_batch_new: "fresh_batch es batch \<Longrightarrow> e \<in> set (batch_entries es batch) \<Longrightarrow> e \<notin> set es"
proof (induction es batch rule: batch_entries.induct)
  case (2 es rt r rest)
  have "next_entry rt r es \<notin> set es"
    using 2(2) by (auto simp: fresh_record_def list_all_iff same_identity_def next_entry_def)
  with 2 show ?case by auto
qed simp

lemma append_many_if_fresh:
  assumes ok: "ledger_ok F" and p: "predicate (stream_unlocked F) = Inr ()"
    and b: "batch \<noteq> []" "length batch \<le> 8" "\<forall>x \<in> set batch. fst x \<noteq> []"
    and fresh: "fresh_batch (stream_unlocked F) batch"
  shows "append_many_if batch predicate F =
    Inr (batch_entries (stream_unlocked F) batch, write_entries (batch_entries (stream_unlocked F) batch) F)"
proof -
  let ?es = "batch_entries (stream_unlocked F) batch"
  have "build_batch (length (stream_unlocked F)) (stream_unlocked F) batch [] (option_last (stream_unlocked F)) = Inr ?es"
    using build_batch_fresh [of "stream_unlocked F" "[]" batch] fresh by simp
  moreover have "filter (\<lambda>e. e \<notin> set (stream_unlocked F)) ?es = ?es"
    using fresh_batch_new [OF fresh] by (simp add: filter_id_conv)
  moreover have "?es \<noteq> []" using b(1) by (cases batch) auto
  ultimately show ?thesis
    using ok p b by (simp add: append_many_if_def require_clean_ok)
qed

text \<open>
  What a batch of one or two records writes when the first of them is not held yet: the reused entry of
  the second, if there is one, comes last and leaves no gap.
\<close>

lemma append_many_if_InrD:
  assumes "append_many_if batch p F = Inr (es, F')"
  shows "ledger_ok F" "p (stream_unlocked F) = Inr ()"
    "build_batch (length (stream_unlocked F)) (stream_unlocked F) batch [] (option_last (stream_unlocked F)) = Inr es"
    "F' = (let new = filter (\<lambda>e. e \<notin> set (stream_unlocked F)) es in if new = [] then F else write_entries new F)"
proof -
  from assms obtain v where v: "require_clean F = Inr v" and p: "p (stream_unlocked F) = Inr ()"
    and b: "build_batch (entry_count v) (stream_unlocked F) batch [] (last_entry v) = Inr es"
    and F': "F' = (let new = filter (\<lambda>e. e \<notin> set (stream_unlocked F)) es in if new = [] then F else write_entries new F)"
    by (auto simp: append_many_if_def tryE_eq_Inr split: if_splits)
  from require_clean_InrD [OF v] require_clean_ok [of F] v
  show "ledger_ok F" "p (stream_unlocked F) = Inr ()"
    "build_batch (length (stream_unlocked F)) (stream_unlocked F) batch [] (option_last (stream_unlocked F)) = Inr es"
    using p b by auto
  show "F' = (let new = filter (\<lambda>e. e \<notin> set (stream_unlocked F)) es in if new = [] then F else write_entries new F)"
    by (rule F')
qed

lemma next_entry_new: "fresh_record r es \<Longrightarrow> next_entry rt r es \<notin> set es"
  using fresh_batch_new [of es "[(rt, r)]" "next_entry rt r es"] by simp

lemma append_one_InrD:
  assumes "append_many_if [(rt, r)] p F = Inr (es, F')"
  shows "ledger_ok F' \<and> p (stream_unlocked F) = Inr () \<and>
    (F' = F \<or> (\<exists>e. stream_unlocked F' = stream_unlocked F @ [e] \<and> entry_holds rt r e))"
proof (cases "fresh_record r (stream_unlocked F)")
  case True
  note D = append_many_if_InrD [OF assms]
  from True D(3) have "es = [next_entry rt r (stream_unlocked F)]"
    by (simp add: fresh_record_find next_entry_def)
  with D True show ?thesis
    by (auto simp: next_entry_new ok_write_next)
next
  case False
  note D = append_many_if_InrD [OF assms]
  from False obtain x where x: "find_first (same_identity (sha256_identity (JObj r))) (stream_unlocked F) = Some x"
    by (auto simp: fresh_record_find)
  with D(3) find_first_Some [OF x] have "es = [x]" "x \<in> set (stream_unlocked F)"
    by (auto simp: tryE_eq_Inr reuse_entry_Inr)
  with D show ?thesis by simp
qed

lemma append_pair_InrD:
  assumes res: "append_many_if [(rt, r), (rt', r')] p F = Inr (es, F')" and ne: "rt \<noteq> rt'"
    and new: "\<And>x. x \<in> set (stream_unlocked F) \<Longrightarrow> \<not> entry_holds rt r x"
  shows "ledger_ok F' \<and> p (stream_unlocked F) = Inr () \<and> (\<exists>e. entry_holds rt r e \<and>
    (stream_unlocked F' = stream_unlocked F @ [e] \<and> (\<exists>x \<in> set (stream_unlocked F). entry_holds rt' r' x) \<or>
     (\<exists>e'. entry_holds rt' r' e' \<and> stream_unlocked F' = stream_unlocked F @ [e, e'])))"
proof -
  let ?h = "stream_unlocked F" and ?e = "next_entry rt r (stream_unlocked F)"
  note D = append_many_if_InrD [OF res]
  have none: "find_first (same_identity (sha256_identity (JObj r))) ?h = None"
  proof (rule ccontr)
    assume "find_first (same_identity (sha256_identity (JObj r))) ?h \<noteq> None"
    then obtain x where x: "find_first (same_identity (sha256_identity (JObj r))) ?h = Some x" by auto
    with D(3) have "entry_holds rt r x" by (auto simp: tryE_eq_Inr reuse_entry_Inr)
    with new [of x] find_first_Some [OF x] show False by simp
  qed
  then have fresh: "fresh_record r ?h" by (simp add: fresh_record_find)
  have step: "build_batch (length ?h) ?h [(rt', r')] [?e] (Some ?e) = Inr es"
    using D(3) none by (simp add: next_entry_def)
  show ?thesis
  proof (cases "find_first (same_identity (sha256_identity (JObj r'))) (?h @ [?e])")
    case None
    then have es: "es = batch_entries ?h [(rt, r), (rt', r')]"
      using step by (simp add: next_entry_def option_last_def)
    have fb: "fresh_batch ?h [(rt, r), (rt', r')]"
      using fresh None by (simp add: fresh_record_find)
    then have "filter (\<lambda>e. e \<notin> set ?h) es = es"
      unfolding es filter_id_conv using fresh_batch_new [OF fb] by blast
    then have F': "F' = write_entries es F" using D(4) es by simp
    moreover have "chain 0 JNull (?h @ es)"
      unfolding es using D(1) by (intro batch_chain) (simp add: ledger_ok_entries)
    ultimately have "ledger_ok F'" using ok_write [OF D(1)] by blast
    moreover have "stream_unlocked F' = ?h @ [?e, next_entry rt' r' (?h @ [?e])]"
      unfolding F' es by simp
    ultimately show ?thesis using D(2) next_entry_holds by blast
  next
    case (Some x)
    with step have x: "es = [?e, x]" "entry_holds rt' r' x" by (auto simp: tryE_eq_Inr reuse_entry_Inr)
    with ne have "x \<noteq> ?e" by (auto simp: entry_holds_def next_entry_def)
    with find_first_Some [OF Some] have "x \<in> set ?h" by simp
    with x(1) fresh have F': "F' = write_entries [?e] F" using D(4) by (simp add: next_entry_new)
    have "stream_unlocked F' = ?h @ [?e]" "ledger_ok F'"
      unfolding F' using ok_write_next [OF D(1)] by simp_all
    with x(2) \<open>x \<in> set ?h\<close> D(2) next_entry_holds show ?thesis by blast
  qed
qed

section \<open>Recovery\<close>

lemma verify_loop_partial:
  "verify_loop nl ls n seq ident final = Inr v \<Longrightarrow> is_partial v \<Longrightarrow>
     (\<exists>es. chain seq ident es \<and>
       (if diagnostics v \<noteq> [] \<and> diag_code (last (diagnostics v)) = TRAILING_NEWLINE_MISSING
        then ls = as_lines es else butlast ls = as_lines es))"
proof (induction ls arbitrary: n seq ident final)
  case (Cons l ls)
  show ?case
  proof (cases "\<exists>m. l = Value (JObj m) \<and> validate_entry_fast m seq ident = Inr () \<and> \<not> (ls = [] \<and> \<not> nl)")
    case True
    then obtain m where m: "l = Value (JObj m)" "validate_entry_fast m seq ident = Inr ()" "ls = [] \<longrightarrow> nl"
      by blast
    with Cons.prems(1)
    have rest: "verify_loop nl ls (n + 1) (entry_sequence m) (dget m ''entry_identity'') (Some m) = Inr v"
      by (auto split: if_splits)
    have ls: "ls \<noteq> []" using rest Cons.prems(2) by auto
    from Cons.IH [OF rest Cons.prems(2)] obtain es
      where es: "chain (entry_sequence m) (dget m ''entry_identity'') es"
        "if diagnostics v \<noteq> [] \<and> diag_code (last (diagnostics v)) = TRAILING_NEWLINE_MISSING
         then ls = as_lines es else butlast ls = as_lines es" by blast
    then show ?thesis using m(1,2) ls by (intro exI [of _ "m # es"]) auto
  next
    case False
    with Cons.prems have "(l = EmptyLine \<or> l = Undecodable) \<and> ls = [] \<and>
          diagnostics v = [\<lparr>diag_code = TRUNCATED_TAIL, diag_line = n + 1\<rparr>]
        \<or> (\<exists>m. l = Value (JObj m) \<and> validate_entry_fast m seq ident = Inr ()) \<and> ls = [] \<and>
          diagnostics v = [\<lparr>diag_code = TRAILING_NEWLINE_MISSING, diag_line = n + 1\<rparr>]"
      by (auto simp: tryE_eq_Inr split: raw_line.splits json.splits if_splits)
    then show ?thesis
    proof (elim disjE conjE exE)
      fix m
      assume "l = Value (JObj m)" "validate_entry_fast m seq ident = Inr ()" "ls = []"
        "diagnostics v = [\<lparr>diag_code = TRAILING_NEWLINE_MISSING, diag_line = n + 1\<rparr>]"
      then show ?thesis by (intro exI [of _ "[m]"]) simp
    qed (auto intro!: exI [of _ "[]"])
  qed
qed auto

lemma verify_not_partial_clean:
  "verify_loop nl ls n seq ident final = Inr v \<Longrightarrow> \<not> is_partial v \<Longrightarrow> diagnostics v = []"
proof (induction ls arbitrary: n seq ident final)
  case Nil
  then show ?case by auto
next
  case (Cons l ls)
  then show ?case by (auto simp: tryE_eq_Inr split: raw_line.splits json.splits if_splits)
qed

lemma repaired_ok:
  assumes v: "verify_unlocked F = Inr v" and "is_partial v"
  shows "ledger_ok (repair_tail (diagnostics v) F)"
  using verify_loop_partial [OF v [unfolded verify_unlocked_def] assms(2)]
  by (auto simp: ledger_ok_iff repair_tail_def split: if_splits)

lemma not_partial_ok:
  assumes v: "verify_unlocked F = Inr v" and "\<not> is_partial v"
  shows "ledger_ok F"
  using verify_not_partial_clean [OF v [unfolded verify_unlocked_def] assms(2)] v
  by (simp add: ledger_ok_def require_clean_def)

lemma ok_verify: "ledger_ok F \<Longrightarrow> verify_unlocked F = Inr \<lparr>entry_count = length (stream_unlocked F),
     last_entry = option_last (stream_unlocked F), diagnostics = [], is_partial = False\<rparr>"
  using require_clean_ok [of F] by (auto simp: require_clean_def tryE_eq_Inr split: if_splits)

section \<open>Compaction\<close>

lemma chain_entry_record:
  "chain seq ident es \<Longrightarrow> e \<in> set es \<Longrightarrow>
     (\<exists>r. dget e ''record'' = JObj r \<and> dget e ''record_identity'' = JStr (sha256_identity (JObj r)))"
proof (induction es arbitrary: seq ident)
  case (Cons x es)
  show ?case
  proof (cases "e = x")
    case True
    with Cons.prems(1) show ?thesis by (cases "dget x ''record''") (auto simp: validate_ok_iff)
  next
    case False
    with Cons show ?thesis by auto
  qed
qed simp

lemma reseal_chain:
  assumes "\<And>e. e \<in> set es \<Longrightarrow>
      \<exists>r. dget e ''record'' = JObj r \<and> dget e ''record_identity'' = JStr (sha256_identity (JObj r))"
  shows "chain (int i) ident (reseal (Suc i) ident es)"
  using assms
proof (induction es arbitrary: i ident)
  case (Cons e es)
  then obtain r where r: "dget e ''record'' = JObj r" "dget e ''record_identity'' = JStr (sha256_identity (JObj r))"
    by force
  let ?e = "make_entry (Suc i) ident (dget e ''record_type'') (dget e ''record'') (dget e ''record_identity'')"
  have "validate_entry_fast ?e (int i) ident = Inr ()" using r by (auto intro!: make_entry_valid)
  moreover have "entry_sequence ?e = int (Suc i)" by (simp add: entry_sequence_def)
  moreover have "chain (int (Suc i)) (dget ?e ''entry_identity'') (reseal (Suc (Suc i)) (dget ?e ''entry_identity'') es)"
    by (rule Cons.IH) (use Cons.prems in auto)
  ultimately show ?case by simp
qed simp

lemma reseal_length [simp]: "length (reseal i ident es) = length es"
  by (induction i ident es rule: reseal.induct) simp_all

lemma reseal_contents:
  "map (\<lambda>e. (dget e ''record_type'', dget e ''record'', dget e ''record_identity'')) (reseal i ident es) =
   map (\<lambda>e. (dget e ''record_type'', dget e ''record'', dget e ''record_identity'')) es"
  by (induction i ident es rule: reseal.induct) simp_all

section \<open>The head identity determines the ledger\<close>

definition entry_material :: "dict \<Rightarrow> string" where
  "entry_material e = canonical_json_bytes (JObj (fmdrop ''entry_identity'' e))"

definition sha_collision :: "string \<Rightarrow> string \<Rightarrow> bool" where
  "sha_collision a b = (a \<noteq> b \<and> sha256_hex a = sha256_hex b)"

lemma sha256_identity_eq:
  "sha256_identity v = sha256_identity w \<Longrightarrow>
     canonical_json_bytes v = canonical_json_bytes w \<or> sha_collision (canonical_json_bytes v) (canonical_json_bytes w)"
  by (auto simp: sha256_identity_def sha256_identity_bytes_def sha_collision_def)

lemma fmdrop_eq_iff:
  "fmdrop k m = fmdrop k n \<Longrightarrow> fmlookup m k = fmlookup n k \<Longrightarrow> m = n"
proof (rule fmap_ext)
  fix x
  assume a: "fmdrop k m = fmdrop k n" "fmlookup m k = fmlookup n k"
  have "fmlookup (fmdrop k m) x = fmlookup (fmdrop k n) x" using a(1) by simp
  with a(2) show "fmlookup m x = fmlookup n x" by (auto split: if_splits)
qed

lemma entry_determined:
  assumes e: "validate_entry_fast e seq ident = Inr ()" and f: "validate_entry_fast f seq' ident' = Inr ()"
    and ff: "float_free (JObj e)" "float_free (JObj f)"
    and same: "dget e ''entry_identity'' = dget f ''entry_identity''"
  shows "e = f \<or> sha_collision (entry_material e) (entry_material f)"
proof -
  have "sha256_identity (JObj (fmdrop ''entry_identity'' e)) = sha256_identity (JObj (fmdrop ''entry_identity'' f))"
    using e f same by (simp add: validate_ok_iff)
  then consider "sha_collision (entry_material e) (entry_material f)"
    | "canonical_json_bytes (JObj (fmdrop ''entry_identity'' e)) = canonical_json_bytes (JObj (fmdrop ''entry_identity'' f))"
    using sha256_identity_eq unfolding entry_material_def by blast
  then show ?thesis
  proof cases
    case 2
    then have "fmdrop ''entry_identity'' e = fmdrop ''entry_identity'' f"
      using canonical_json_bytes_inj ff float_free_fmdrop by blast
    moreover have "keys_are e entry_fields" "keys_are f entry_fields" using e f by (simp_all add: validate_ok_iff)
    then have "fmlookup e ''entry_identity'' = fmlookup f ''entry_identity''"
      using same by (simp add: keys_are_lookup entry_fields_def)
    ultimately have "e = f" by (rule fmdrop_eq_iff)
    then show ?thesis by simp
  qed simp
qed

lemma chain_previous:
  assumes "chain 0 JNull (es @ [e])"
  shows "dget e ''previous_identity'' = previous_of (option_last es)"
    and "validate_entry_fast e (if es = [] then 0 else entry_sequence (last es)) (previous_of (option_last es)) = Inr ()"
  using assms by (auto simp: chain_append validate_ok_iff previous_of_def option_last_def split: if_splits)

lemma chain_identity_str: "chain 0 JNull es \<Longrightarrow> es \<noteq> [] \<Longrightarrow> previous_of (option_last es) \<noteq> JNull"
proof (cases es rule: rev_cases)
  case (snoc xs x)
  assume "chain 0 JNull es"
  with snoc chain_previous(2) [of xs x] show ?thesis by (auto simp: validate_ok_iff previous_of_def)
qed simp

lemma chain_determined:
  assumes "chain 0 JNull es" and "chain 0 JNull fs"
    and "previous_of (option_last es) = previous_of (option_last fs)"
    and "\<forall>e \<in> set es \<union> set fs. float_free (JObj e)"
  shows "es = fs \<or> (\<exists>e \<in> set es. \<exists>f \<in> set fs. sha_collision (entry_material e) (entry_material f))"
  using assms
proof (induction es arbitrary: fs rule: rev_induct)
  case Nil
  then show ?case using chain_identity_str [of fs] by (cases "fs = []") (auto simp: previous_of_def)
next
  case (snoc e es)
  have "fs \<noteq> []" using snoc.prems(1,3) chain_identity_str [of "es @ [e]"] by (auto simp: previous_of_def)
  then obtain fs' f where fs: "fs = fs' @ [f]" by (metis rev_exhaust)
  have ve: "validate_entry_fast e (if es = [] then 0 else entry_sequence (last es)) (previous_of (option_last es)) = Inr ()"
    by (rule chain_previous(2) [OF snoc.prems(1)])
  have vf: "validate_entry_fast f (if fs' = [] then 0 else entry_sequence (last fs')) (previous_of (option_last fs')) = Inr ()"
    by (rule chain_previous(2)) (use snoc.prems(2) fs in simp)
  have "dget e ''entry_identity'' = dget f ''entry_identity''"
    using snoc.prems(3) fs by (simp add: previous_of_def)
  from entry_determined [OF ve vf _ _ this] snoc.prems(4) fs
  consider "e = f" | "sha_collision (entry_material e) (entry_material f)" by auto
  then show ?case
  proof cases
    case 1
    have "previous_of (option_last es) = previous_of (option_last fs')"
      using chain_previous(1) [OF snoc.prems(1)] chain_previous(1) [of fs' f] snoc.prems(2) fs 1 by simp
    moreover have "chain 0 JNull es" "chain 0 JNull fs'"
      using snoc.prems(1,2) fs by (simp_all add: chain_append)
    ultimately have "es = fs' \<or> (\<exists>e \<in> set es. \<exists>f \<in> set fs'. sha_collision (entry_material e) (entry_material f))"
      using snoc.IH snoc.prems(4) fs by simp
    with 1 fs show ?thesis by auto
  next
    case 2
    with fs show ?thesis by auto
  qed
qed

section \<open>Properties\<close>

lemma ledger_append_total:
  assumes ok: "ledger_ok F" and rt: "rt \<noteq> []"
    and no_conflict: "\<forall>x \<in> set (stream_unlocked F). same_identity (sha256_identity (JObj r)) x \<longrightarrow> entry_holds rt r x"
  shows "\<exists>e F'. ledger_append rt r F = Inr (e, F')"
proof (cases "fresh_record r (stream_unlocked F)")
  case True
  then show ?thesis using ledger_append_fresh [OF ok rt] by blast
next
  case False
  then obtain x where x: "find_first (same_identity (sha256_identity (JObj r))) (stream_unlocked F) = Some x"
    by (auto simp: fresh_record_find)
  have reuse: "reuse_entry rt r y = Inr y"
    if "y \<in> set (stream_unlocked F)" "same_identity (sha256_identity (JObj r)) y" for y
    using no_conflict that by (simp add: reuse_entry_Inr)
  have "x \<in> set (stream_unlocked F)" "same_identity (sha256_identity (JObj r)) x"
    using find_first_Some [OF x] by auto
  with ok rt x reuse show ?thesis
    by (auto simp: ledger_append_def require_clean_ok option_last_def)
qed

text \<open>
  C1: on a verified ledger an append returns, provided no entry carries the same record identity with a
  different content. The ledger stays verified, the returned entry holds the record and is read back,
  and the history is unchanged or longer by exactly that entry.
\<close>

theorem append_on_verified_ledger:
  assumes ok: "ledger_ok F" and rt: "rt \<noteq> []"
    and no_conflict: "\<forall>x \<in> set (stream_unlocked F). same_identity (sha256_identity (JObj r)) x \<longrightarrow> entry_holds rt r x"
  shows "\<exists>e F'. ledger_append rt r F = Inr (e, F') \<and> ledger_ok F' \<and> entry_holds rt r e
    \<and> e \<in> set (stream_unlocked F') \<and> (F' = F \<or> stream_unlocked F' = stream_unlocked F @ [e])"
proof -
  from ledger_append_total [OF assms] obtain e F' where a: "ledger_append rt r F = Inr (e, F')" by blast
  with ledger_append_InrD [OF a] show ?thesis by (auto intro: ok_write_next)
qed

theorem append_on_verified_ledger_witness:
  "\<exists>e F'. ledger_append ''t'' (dict_of [(''a'', JInt 1)]) empty_ledger = Inr (e, F') \<and> ledger_ok F'
    \<and> entry_holds ''t'' (dict_of [(''a'', JInt 1)]) e \<and> e \<in> set (stream_unlocked F')
    \<and> (F' = empty_ledger \<or> stream_unlocked F' = stream_unlocked empty_ledger @ [e])"
  by (rule append_on_verified_ledger) simp_all

text \<open>
  a guarded append writes only when its predicate accepted exactly the entries the ledger held at
  that moment; the ledger then stays verified and grows by at most the returned entry.
\<close>

theorem append_if_checks_current_history:
  assumes "append_if rt r predicate F = Inr (e, F')"
  shows "predicate (stream_unlocked F) = Inr () \<and> ledger_ok F' \<and> entry_holds rt r e
    \<and> (F' = F \<and> e \<in> set (stream_unlocked F) \<or> stream_unlocked F' = stream_unlocked F @ [e])"
proof -
  from assms have a: "append_computed rt (\<lambda>records. tryE (predicate records) (\<lambda>_. Inr r)) F = Inr (e, F')"
    by (simp add: append_if_def)
  then obtain r' where "tryE (predicate (stream_unlocked F)) (\<lambda>_. Inr r) = Inr r'" "entry_holds rt r' e"
    "(e \<in> set (stream_unlocked F) \<and> F' = F) \<or> F' = write_entries [e] F"
    by (rule append_computed_InrD) auto
  with guarded_log.append_ok [OF a] show ?thesis by (auto simp: tryE_eq_Inr)
qed

theorem append_if_checks_current_history_witness:
  "(\<lambda>_. Inr ()) (stream_unlocked empty_ledger) = (Inr () :: unit result)
   \<and> ledger_ok (write_entries [next_entry ''t'' fmempty []] empty_ledger)"
  using append_if_checks_current_history
    [of "''t''" fmempty "\<lambda>_. Inr ()" empty_ledger "next_entry ''t'' fmempty []"
        "write_entries [next_entry ''t'' fmempty []] empty_ledger"]
  by (simp add: append_if_fresh)

text \<open>
  a batch of at most eight records, none of which the ledger or the batch already holds, is appended
  as one step: one entry per record in the batch's order, directly after the old history, and the
  ledger stays verified.
\<close>

theorem append_many_if_batch:
  assumes ok: "ledger_ok F" and p: "predicate (stream_unlocked F) = Inr ()"
    and b: "batch \<noteq> []" "length batch \<le> 8" "\<forall>x \<in> set batch. fst x \<noteq> []"
    and fresh: "fresh_batch (stream_unlocked F) batch"
  shows "\<exists>es F'. append_many_if batch predicate F = Inr (es, F') \<and> ledger_ok F'
    \<and> stream_unlocked F' = stream_unlocked F @ es
    \<and> list_all2 (\<lambda>(rt, r) e. entry_holds rt r e) batch es"
proof -
  have "ledger_ok (write_entries (batch_entries (stream_unlocked F) batch) F)"
    by (rule ok_write [OF ok batch_chain]) (use ok in \<open>simp add: ledger_ok_entries\<close>)
  with append_many_if_fresh [of F predicate batch, OF ok p b fresh] batch_holds show ?thesis by auto
qed

theorem append_many_if_batch_witness:
  "\<exists>es F'. append_many_if [(''t'', fmempty)] (\<lambda>_. Inr ()) empty_ledger = Inr (es, F') \<and> ledger_ok F'
    \<and> stream_unlocked F' = stream_unlocked empty_ledger @ es
    \<and> list_all2 (\<lambda>(rt, r) e. entry_holds rt r e) [(''t'', fmempty)] es"
  by (rule append_many_if_batch) simp_all




text \<open>
  compaction of a ledger yields a verified ledger whose records are exactly the kept ones, in their
  order and with their record identities unchanged, followed by the compaction receipt.
\<close>

theorem compact_reseals_chain:
  assumes "compact keep reason max_kept now F = Inr (rep, F')"
  shows "ledger_ok F' \<and> (\<exists>receipt.
      map (\<lambda>e. (dget e ''record_type'', dget e ''record'', dget e ''record_identity'')) (stream_unlocked F') =
      map (\<lambda>e. (dget e ''record_type'', dget e ''record'', dget e ''record_identity''))
        (filter keep (stream_unlocked F)) @ [(JStr ''ledger.compaction'', JObj receipt, JStr (sha256_identity (JObj receipt)))])"
proof -
  let ?kept = "filter keep (stream_unlocked F)"
  let ?re = "reseal 1 JNull ?kept"
  from assms obtain v where "require_clean F = Inr v"
    by (auto simp: compact_def tryE_eq_Inr split: if_splits)
  then have ok: "ledger_ok F" by (simp add: ledger_ok_def)
  let ?rc = "compaction_receipt reason (previous_of (option_last (stream_unlocked F))) (length (stream_unlocked F))
      (length ?re) now"
  let ?rce = "next_entry ''ledger.compaction'' ?rc ?re"
  from assms ok have F': "F' = \<lparr>file_lines = as_lines (?re @ [?rce]), terminated = True\<rparr>"
    by (auto simp: compact_def require_clean_ok next_entry_def option_last_def split: if_splits)
  have "chain (int 0) JNull (reseal (Suc 0) JNull ?kept)"
    by (rule reseal_chain) (use ok in \<open>auto simp: ledger_ok_entries dest: chain_entry_record\<close>)
  then have "chain 0 JNull (?re @ [?rce])" by (intro chain_next) simp
  then have "ledger_ok F'" using F' by (auto simp: ledger_ok_iff simp del: map_append)
  moreover have "stream_unlocked F' = ?re @ [?rce]" by (simp add: F' stream_unlocked_def del: map_append)
  ultimately show ?thesis
    using reseal_contents [of 1 JNull ?kept] by (auto simp: next_entry_def)
qed

theorem compact_reseals_chain_witness:
  "\<exists>rep F'. compact (\<lambda>_. True) ''r'' 1 ''now'' empty_ledger = Inr (rep, F') \<and> ledger_ok F'"
proof -
  obtain rep F' where c: "compact (\<lambda>_. True) ''r'' 1 ''now'' empty_ledger = Inr (rep, F')"
    by (simp add: compact_def require_clean_ok)
  with compact_reseals_chain [OF c] show ?thesis by blast
qed



end
