(* ===== verification/Effects.thy ===== *)
theory Effects
  imports Fabric_Prelude
begin

text \<open>
  Code that calls back into its environment: an action takes the state of the environment and returns a
  result together with the state it leaves behind, also when it raises. \<open>act_bind\<close> runs one action after
  another and stops at the first exception.
\<close>

type_synonym ('a, 'e) act = "'e \<Rightarrow> 'a result \<times> 'e"

definition act_return :: "'a \<Rightarrow> ('a, 'e) act" where
  "act_return a e = (Inr a, e)"

definition act_lift :: "'a result \<Rightarrow> ('a, 'e) act" where
  "act_lift r e = (r, e)"

definition act_bind :: "('a, 'e) act \<Rightarrow> ('a \<Rightarrow> ('b, 'e) act) \<Rightarrow> ('b, 'e) act" where
  "act_bind m k e = (case m e of (Inl x, e') \<Rightarrow> (Inl x, e') | (Inr a, e') \<Rightarrow> k a e')"

text \<open>
  A computation that only reads the environment, and one that returns a new environment with its
  result: where it raises, the environment is what it was.
\<close>

definition act_read :: "('e \<Rightarrow> 'a result) \<Rightarrow> ('a, 'e) act" where
  "act_read f e = (f e, e)"

definition act_op :: "('e \<Rightarrow> ('a \<times> 'e) result) \<Rightarrow> ('a, 'e) act" where
  "act_op f e = (case f e of Inl x \<Rightarrow> (Inl x, e) | Inr (a, e') \<Rightarrow> (Inr a, e'))"

text \<open>An action whose effect, whether it returns or raises, is a step of a relation.\<close>

definition act_steps :: "('e \<Rightarrow> 'e \<Rightarrow> bool) \<Rightarrow> ('a, 'e) act \<Rightarrow> bool" where
  "act_steps R m = (\<forall>e. R e (snd (m e)))"

lemma act_return_apply [simp]: "act_return a e = (Inr a, e)"
  by (simp add: act_return_def)

lemma act_lift_Inr [simp]: "act_lift (Inr a) = act_return a"
  by (simp add: act_lift_def act_return_def fun_eq_iff)

lemma act_bind_return [simp]: "act_bind (act_return a) k = k a"
  by (simp add: act_bind_def fun_eq_iff)

lemma act_bind_eq_Inr [result_simps]:
  "act_bind m k e = (Inr b, e'') \<longleftrightarrow> (\<exists>a e'. m e = (Inr a, e') \<and> k a e' = (Inr b, e''))"
  by (cases "m e"; cases "fst (m e)") (auto simp: act_bind_def)

lemma act_lift_eq_Inr [result_simps]: "act_lift r e = (Inr a, e') \<longleftrightarrow> r = Inr a \<and> e' = e"
  by (auto simp: act_lift_def)

lemma act_return_eq_Inr [result_simps]: "act_return a e = (Inr b, e') \<longleftrightarrow> b = a \<and> e' = e"
  by auto

lemma act_bind_lift_Inl [simp]: "act_bind (act_lift (Inl x)) k = act_lift (Inl x)"
  by (simp add: act_bind_def act_lift_def fun_eq_iff)

lemma act_read_eq_Inr [result_simps]: "act_read f e = (Inr a, e') \<longleftrightarrow> f e = Inr a \<and> e' = e"
  by (auto simp: act_read_def)

lemma act_op_eq_Inr [result_simps]: "act_op f e = (Inr a, e') \<longleftrightarrow> f e = Inr (a, e')"
  by (auto simp: act_op_def split: sum.splits)

lemma act_steps_pure:
  assumes "\<And>e. R e e"
  shows "act_steps R (act_lift r)" "act_steps R (act_return a)" "act_steps R (act_read f)"
  by (simp_all add: act_steps_def act_lift_def act_read_def assms)

lemma act_steps_lift:
  assumes "\<And>e. R e e" and "\<And>a. r = Inr a \<Longrightarrow> act_steps R (k a)"
  shows "act_steps R (act_bind (act_lift r) k)"
  using assms by (cases r) (simp_all add: act_steps_pure)

lemma act_steps_read:
  assumes "\<And>e. R e e" and "\<And>e a. f e = Inr a \<Longrightarrow> R e (snd (k a e))"
  shows "act_steps R (act_bind (act_read f) k)"
  using assms by (auto simp: act_steps_def act_bind_def act_read_def split: sum.split)

lemma act_steps_op:
  assumes "\<And>e. R e e" and "\<And>e a e'. f e = Inr (a, e') \<Longrightarrow> R e e'" and "\<And>a e. snd (k a e) = e"
  shows "act_steps R (act_bind (act_op f) k)"
  using assms by (auto simp: act_steps_def act_bind_def act_op_def split: sum.split)

lemma act_pure_snd [simp]: "snd (act_lift r e) = e" "snd (act_read f e) = e"
  by (simp_all add: act_lift_def act_read_def)

end
