(* ===== verification/Lifecycle.thy ===== *)
theory Lifecycle
  imports Lifecycle_Fields Ledger Effects
begin

text \<open>
  \<^verbatim>\<open>src/src/mncs_fabric/lifecycle.py\<close>: the controller's durable record of enrollment authorizations,
  enrollment requests, decisions and fleet membership. The state is the ledger file; every operation reads the
  complete history and appends under the ledger's lock. An operation that appends is an action on the ledger file: where it raises after
  the append, the file is already written. Arguments stand for what the code takes from outside: the
  random token, and the values of \<^verbatim>\<open>now or utc_now()\<close>, one argument for each time the code evaluates it. Durations are whole
  microseconds. Values read back from the ledger may have any JSON type; the record type of an entry is a
  string, as the ledger writes it.
\<close>

section \<open>Schemas\<close>

definition AUTHORIZATION_SCHEMA :: string where
  "AUTHORIZATION_SCHEMA = ''mncs-fabric.enrollment-authorization.v0.1''"

definition REQUEST_SCHEMA :: string where
  "REQUEST_SCHEMA = ''mncs-fabric.enrollment-request.v0.1''"

definition DECISION_SCHEMA :: string where
  "DECISION_SCHEMA = ''mncs-fabric.enrollment-decision.v0.1''"

definition MEMBERSHIP_SCHEMA :: string where
  "MEMBERSHIP_SCHEMA = ''mncs-fabric.fleet-membership.v0.1''"

definition PRESENCE_SCHEMA :: string where
  "PRESENCE_SCHEMA = ''mncs-fabric.session-presence.v0.1''"

definition LIFECYCLE_SCHEMA :: string where
  "LIFECYCLE_SCHEMA = ''mncs-fabric.lifecycle.v0.1''"

definition SUPPORTED_RECORD_SCHEMAS :: "string list" where
  "SUPPORTED_RECORD_SCHEMAS = [AUTHORIZATION_SCHEMA, REQUEST_SCHEMA, DECISION_SCHEMA, MEMBERSHIP_SCHEMA,
     PRESENCE_SCHEMA, LIFECYCLE_SCHEMA]"

definition DECISIONS :: "string list" where
  "DECISIONS = [''APPROVED'', ''DENIED'', ''EXPIRED'']"

definition MAX_TTL_MICROS :: int where
  "MAX_TTL_MICROS = 7 * 24 * 60 * 60 * 1000000"

section \<open>Derived status\<close>

definition has_type :: "string \<Rightarrow> dict \<Rightarrow> bool" where
  "has_type rt e = (dget e ''record_type'' = JStr rt)"

text \<open>\<^verbatim>\<open>entry["record"].get(k)\<close>.\<close>

definition rget :: "dict \<Rightarrow> string \<Rightarrow> json" where
  "rget e k = dget (entry_record e) k"

definition find_authorization :: "dict list \<Rightarrow> json \<Rightarrow> dict option" where
  "find_authorization records authorization_id = map_option entry_record
     (find_first (\<lambda>e. has_type ''enrollment.authorization'' e \<and> rget e ''authorization_id'' = authorization_id) records)"

definition authorization_event :: "json \<Rightarrow> dict \<Rightarrow> bool result" where
  "authorization_event authorization_id e =
     (if rget e ''authorization_id'' \<noteq> authorization_id then Inr False
      else in_strset (rget e ''event'') [''consumed'', ''revoked'', ''expired''])"

definition record_status :: "dict list \<Rightarrow> json \<Rightarrow> string \<Rightarrow> string result" where
  "record_status records authorization_id now =
     (case find_authorization records authorization_id of
        None \<Rightarrow> Inl (ProtocolError ''enrollment authorization is unknown'')
      | Some created \<Rightarrow> tryE (filterE (authorization_event authorization_id) records) (\<lambda>events.
          let event_names = map (\<lambda>e. rget e ''event'') events in
          if JStr ''revoked'' \<in> set event_names then Inr ''REVOKED''
          else
            tryE (if JStr ''expired'' \<in> set event_names then Inr True
                  else tryE (instant (JStr now)) (\<lambda>t.
                         tryE (dsub created ''expires_at'') (\<lambda>x. tryE (instant x) (\<lambda>u. Inr (u \<le> t))))) (\<lambda>expired.
            Inr (if expired then ''EXPIRED'' else if JStr ''consumed'' \<in> set event_names then ''CONSUMED'' else ''ACTIVE''))))"

definition find_request :: "dict list \<Rightarrow> json \<Rightarrow> dict option" where
  "find_request records request_id = map_option entry_record
     (find_first (\<lambda>e. has_type ''enrollment.request'' e \<and> rget e ''request_id'' = request_id) records)"

definition request_status :: "dict list \<Rightarrow> json \<Rightarrow> string \<Rightarrow> string result" where
  "request_status records request_id now =
     (case find_request records request_id of
        None \<Rightarrow> Inl (ProtocolError ''enrollment request is unknown'')
      | Some request \<Rightarrow>
          (case find_last (\<lambda>e. has_type ''enrollment.decision'' e \<and> rget e ''request_id'' = request_id) records of
             Some d \<Rightarrow> tryE (dsub (entry_record d) ''decision'') py_str
           | None \<Rightarrow>
               tryE (dsub request ''authorization_id'') (\<lambda>authorization_id.
               tryE (record_status records authorization_id now) (\<lambda>auth_state.
                 Inr (if auth_state \<in> {''EXPIRED'', ''REVOKED''} then ''EXPIRED'' else ''PENDING'')))))"

definition membership_entry :: "string \<Rightarrow> dict \<Rightarrow> bool" where
  "membership_entry worker_id e =
     ((has_type ''fleet.membership'' e \<or> has_type ''fleet.revocation'' e) \<and> rget e ''worker_id'' = JStr worker_id)"

definition latest_membership :: "dict list \<Rightarrow> string \<Rightarrow> dict option" where
  "latest_membership records worker_id = map_option entry_record (find_last (membership_entry worker_id) records)"

section \<open>Authorizations\<close>

text \<open>\<^verbatim>\<open>dict(x)\<close> of stored metadata, which the code writes as an object.\<close>

definition as_dict :: "json \<Rightarrow> dict result" where
  "as_dict v = (case v of JObj m \<Rightarrow> Inr m | _ \<Rightarrow> Inl PyTypeError)"

definition redact_authorization :: "dict \<Rightarrow> string \<Rightarrow> dict result" where
  "redact_authorization record' status =
     tryE (dsub record' ''authorization_id'') (\<lambda>authorization_id.
     tryE (dsub record' ''issued_at'') (\<lambda>issued_at.
     tryE (dsub record' ''expires_at'') (\<lambda>expires_at.
     tryE (as_dict (dget_default record' ''metadata'' (JObj fmempty))) (\<lambda>metadata.
       Inr (dict_of
         [(''schema_version'', JStr AUTHORIZATION_SCHEMA), (''authorization_id'', authorization_id),
          (''issued_at'', issued_at), (''expires_at'', expires_at),
          (''expected_worker_identity'', dget record' ''expected_worker_identity''),
          (''metadata'', JObj metadata), (''status'', JStr status)])))))"

definition supported_entry :: "dict \<Rightarrow> unit \<Rightarrow> unit result" where
  "supported_entry e u =
     (case dget e ''record'' of
        JObj r \<Rightarrow> tryE (in_strset (dget r ''schema_version'') SUPPORTED_RECORD_SCHEMAS) (\<lambda>known.
          if known then Inr () else Inl (StorageError ''lifecycle ledger contains an unsupported record schema''))
      | _ \<Rightarrow> Inl (StorageError ''lifecycle ledger contains an unsupported record schema''))"

definition lifecycle_records :: "ledger_file \<Rightarrow> dict list result" where
  "lifecycle_records F = tryE (all_records None F) (\<lambda>records.
     tryE (foldE supported_entry records ()) (\<lambda>_. Inr records))"

definition authorization_record :: "string \<Rightarrow> string \<Rightarrow> string \<Rightarrow> json \<Rightarrow> dict \<Rightarrow> dict" where
  "authorization_record issued expires token expected metadata = attach_identity (dict_of
     [(''schema_version'', JStr AUTHORIZATION_SCHEMA), (''issued_at'', JStr issued), (''expires_at'', JStr expires),
      (''token_digest'', JStr (token_digest token)), (''expected_worker_identity'', expected),
      (''metadata'', JObj metadata), (''event'', JStr ''created'')]) ''authorization_id''"

definition create_authorization ::
  "string \<Rightarrow> int \<Rightarrow> json \<Rightarrow> json \<Rightarrow> string \<Rightarrow> (dict, ledger_file) act" where
  "create_authorization token ttl expected_worker_identity metadata issued_at =
     act_bind (act_lift
       (if \<not> (1000000 \<le> ttl \<and> ttl \<le> MAX_TTL_MICROS)
          then Inl (ValidationError ''authorization TTL is outside the bounded range'')
        else
          tryE (timestamp ''issued_at'' (JStr issued_at)) (\<lambda>issued.
          tryE (instant (JStr issued)) (\<lambda>t.
          if \<not> instant_ok (t + ttl) then Inl PyOverflowError else
          tryE (if expected_worker_identity = JNull then Inr JNull
                else tryE (identity_field ''expected_worker_identity'' expected_worker_identity) (\<lambda>w. Inr (JStr w))) (\<lambda>expected.
          tryE (metadata_field metadata) (\<lambda>checked.
            Inr (authorization_record issued (show_instant (t + ttl)) token expected checked))))))) (\<lambda>record'.
     act_bind (act_op (ledger_append ''enrollment.authorization'' record')) (\<lambda>entry.
     act_lift (tryE (redact_authorization record' ''ACTIVE'') (\<lambda>shown. Inr (fmupd ''token'' (JStr token) shown)))))"

definition authorization :: "string \<Rightarrow> string \<Rightarrow> ledger_file \<Rightarrow> dict result" where
  "authorization authorization_id now F =
     tryE (bounded_text ''authorization_id'' 80 (JStr authorization_id)) (\<lambda>_.
     tryE (lifecycle_records F) (\<lambda>records.
       case find_authorization records (JStr authorization_id) of
         None \<Rightarrow> Inl (ProtocolError ''enrollment authorization is unknown'')
       | Some created \<Rightarrow>
           tryE (timestamp ''now'' (JStr now)) (\<lambda>current.
           tryE (record_status records (JStr authorization_id) current) (redact_authorization created))))"

definition list_authorizations :: "string \<Rightarrow> ledger_file \<Rightarrow> dict list result" where
  "list_authorizations now F =
     tryE (timestamp ''now'' (JStr now)) (\<lambda>current.
     tryE (lifecycle_records F) (\<lambda>records.
       mapE (\<lambda>e. tryE (dsub (entry_record e) ''authorization_id'') (\<lambda>authorization_id.
                  tryE (record_status records authorization_id current) (redact_authorization (entry_record e))))
         (filter (has_type ''enrollment.authorization'') records)))"

definition revoked_event :: "string \<Rightarrow> string \<Rightarrow> string \<Rightarrow> dict" where
  "revoked_event authorization_id revoked_at reason = attach_identity (dict_of
     [(''schema_version'', JStr AUTHORIZATION_SCHEMA), (''authorization_id'', JStr authorization_id),
      (''event'', JStr ''revoked''), (''revoked_at'', JStr revoked_at), (''reason'', JStr reason)]) ''event_identity''"

definition revoke_authorization ::
  "string \<Rightarrow> string \<Rightarrow> string \<Rightarrow> string \<Rightarrow> string \<Rightarrow> (dict, ledger_file) act" where
  "revoke_authorization authorization_id reason now1 now2 now3 =
     act_bind (act_lift (bounded_text ''reason'' 512 (JStr reason))) (\<lambda>reason.
     act_bind (act_read (authorization authorization_id now1)) (\<lambda>current.
     act_bind (act_lift
       (if dget current ''status'' \<noteq> JStr ''ACTIVE'' then Inl (ProtocolError ''authorization is not active'')
        else timestamp ''revoked_at'' (JStr now2))) (\<lambda>revoked_at.
     act_bind (act_op (ledger_append ''enrollment.authorization-revoked''
                (revoked_event authorization_id revoked_at reason))) (\<lambda>entry.
     act_read (authorization authorization_id now3)))))"

text \<open>
  \<^verbatim>\<open>_consume_locked\<close> reads the creation record as the first one with the event \<^verbatim>\<open>created\<close>, whatever its
  record type; where there is none the generator is exhausted and \<^verbatim>\<open>next\<close> raises.
\<close>

definition consume_locked :: "dict list \<Rightarrow> json \<Rightarrow> string \<Rightarrow> string \<Rightarrow> unit result" where
  "consume_locked records authorization_id worker_id now =
     tryE (record_status records authorization_id now) (\<lambda>state.
       if state \<noteq> ''ACTIVE'' then Inl (ProtocolError ''enrollment authorization is not active'')
       else
         (case find_first (\<lambda>e. rget e ''authorization_id'' = authorization_id \<and> rget e ''event'' = JStr ''created'') records of
            None \<Rightarrow> Inl PyStopIteration
          | Some e \<Rightarrow>
              if rget e ''expected_worker_identity'' \<noteq> JNull \<and> rget e ''expected_worker_identity'' \<noteq> JStr worker_id
              then Inl (ProtocolError ''enrollment authorization does not match worker identity'') else Inr ()))"

definition consumed_event :: "json \<Rightarrow> string \<Rightarrow> string \<Rightarrow> dict" where
  "consumed_event authorization_id worker_id consumed_at = attach_identity (dict_of
     [(''schema_version'', JStr AUTHORIZATION_SCHEMA), (''authorization_id'', authorization_id),
      (''worker_identity'', JStr worker_id), (''consumed_at'', JStr consumed_at),
      (''event'', JStr ''consumed'')]) ''event_identity''"

definition authorization_of_token :: "string \<Rightarrow> dict list \<Rightarrow> json result" where
  "authorization_of_token token records =
     (case find_first (\<lambda>e. has_type ''enrollment.authorization'' e
                        \<and> rget e ''token_digest'' = JStr (token_digest token)) records of
        None \<Rightarrow> Inl (ProtocolError ''enrollment authorization is invalid'')
      | Some created \<Rightarrow> dsub (entry_record created) ''authorization_id'')"

definition consume_authorization :: "json \<Rightarrow> json \<Rightarrow> string \<Rightarrow> (dict, ledger_file) act" where
  "consume_authorization token worker_identity now =
     act_bind (act_lift (identity_field ''worker_identity'' worker_identity)) (\<lambda>worker_id.
     act_bind (act_lift (token_field token)) (\<lambda>token.
     act_bind (act_lift (timestamp ''now'' (JStr now))) (\<lambda>current.
     act_bind (act_read (\<lambda>F. tryE (lifecycle_records F) (authorization_of_token token))) (\<lambda>authorization_id.
     act_bind (act_op (append_if ''enrollment.authorization-consumed''
                (consumed_event authorization_id worker_id current)
                (\<lambda>latest. consume_locked latest authorization_id worker_id current))) (\<lambda>entry.
     act_read (\<lambda>F. case authorization_id of
         JStr a \<Rightarrow> authorization a current F
       | _ \<Rightarrow> Inl (ValidationError ''authorization_id must be bounded text'')))))))"

section \<open>Requests\<close>

definition build_request ::
  "json \<Rightarrow> json \<Rightarrow> json \<Rightarrow> json \<Rightarrow> json \<Rightarrow> json \<Rightarrow> json \<Rightarrow> json \<Rightarrow> dict result" where
  "build_request worker_identity public_key_pem hostname_hint operating_system architecture authorization_id
     requested_at metadata =
     tryE (identity_field ''worker_identity'' worker_identity) (\<lambda>worker.
     tryE (public_key_field public_key_pem) (\<lambda>pem.
     tryE (bounded_text ''hostname_hint'' 255 hostname_hint) (\<lambda>host.
     tryE (bounded_text ''operating_system'' 64 operating_system) (\<lambda>os.
     tryE (bounded_text ''architecture'' 64 architecture) (\<lambda>arch.
     tryE (timestamp ''requested_at'' requested_at) (\<lambda>requested.
     tryE (bounded_text ''authorization_id'' 80 authorization_id) (\<lambda>authorization.
     tryE (metadata_field metadata) (\<lambda>checked.
       Inr (attach_identity (dict_of
         [(''schema_version'', JStr REQUEST_SCHEMA), (''worker_identity'', JStr worker),
          (''public_key_pem'', JStr pem), (''public_key_identity'', JStr (public_key_identity pem)),
          (''hostname_hint'', JStr host), (''operating_system'', JStr os), (''architecture'', JStr arch),
          (''requested_at'', JStr requested), (''authorization_id'', JStr authorization),
          (''metadata'', JObj checked)]) ''request_id'')))))))))"

definition request_fields :: "string list" where
  "request_fields = [''schema_version'', ''worker_identity'', ''public_key_pem'', ''public_key_identity'',
     ''hostname_hint'', ''operating_system'', ''architecture'', ''requested_at'', ''authorization_id'',
     ''metadata'', ''request_id'']"

definition check_request :: "string \<Rightarrow> json \<Rightarrow> dict result" where
  "check_request clock v =
     (case v of
        JObj request \<Rightarrow>
          if \<not> keys_are request request_fields \<or> dget request ''schema_version'' \<noteq> JStr REQUEST_SCHEMA
            then Inl (ValidationError ''enrollment request fields or schema are invalid'')
          else
            tryE (build_request (dget request ''worker_identity'') (dget request ''public_key_pem'')
                    (dget request ''hostname_hint'') (dget request ''operating_system'') (dget request ''architecture'')
                    (dget request ''authorization_id'') (py_or (dget request ''requested_at'') (JStr clock))
                    (dget request ''metadata'')) (\<lambda>checked.
              if checked \<noteq> request
              then Inl (ValidationError ''enrollment request identity or fields do not verify'') else Inr checked)
      | _ \<Rightarrow> Inl (ValidationError ''enrollment request must be an object''))"

text \<open>Whether an entry is an open or effective request of the worker.\<close>

definition conflicting_request :: "dict list \<Rightarrow> string \<Rightarrow> string \<Rightarrow> dict \<Rightarrow> bool result" where
  "conflicting_request records worker_id now e =
     (if \<not> has_type ''enrollment.request'' e \<or> rget e ''worker_identity'' \<noteq> JStr worker_id then Inr False
      else
        tryE (dsub (entry_record e) ''request_id'') (\<lambda>request_id.
        tryE (request_status records request_id now) (\<lambda>status.
          Inr (status = ''PENDING'' \<or> status = ''APPROVED'' \<and>
               (case latest_membership records worker_id of
                  None \<Rightarrow> False | Some m \<Rightarrow> dget m ''membership_status'' = JStr ''ENROLLED'')))))"

fun any_other_key :: "json \<Rightarrow> dict list \<Rightarrow> bool result" where
  "any_other_key key [] = Inr False"
| "any_other_key key (e # es) = tryE (dsub (entry_record e) ''public_key_identity'') (\<lambda>k.
     if k \<noteq> key then Inr True else any_other_key key es)"

definition submit_precondition :: "dict \<Rightarrow> string \<Rightarrow> string \<Rightarrow> dict list \<Rightarrow> unit result" where
  "submit_precondition checked worker_id now records =
     (if list_ex (\<lambda>e. has_type ''enrollment.request'' e \<and> rget e ''request_id'' = dget checked ''request_id'') records
        then Inl (ProtocolError ''duplicate enrollment request'')
      else
        tryE (filterE (conflicting_request records worker_id now) records) (\<lambda>conflicting.
        tryE (any_other_key (dget checked ''public_key_identity'') conflicting) (\<lambda>other.
        if other then Inl (ProtocolError ''worker identity already has conflicting enrollment material'')
        else consume_locked records (dget checked ''authorization_id'') worker_id now)))"

definition consumption :: "dict \<Rightarrow> string \<Rightarrow> dict" where
  "consumption checked consumed_at = attach_identity (dict_of
     [(''schema_version'', JStr AUTHORIZATION_SCHEMA), (''authorization_id'', dget checked ''authorization_id''),
      (''worker_identity'', dget checked ''worker_identity''), (''consumed_at'', JStr consumed_at),
      (''request_id'', dget checked ''request_id''), (''event'', JStr ''consumed'')]) ''event_identity''"

definition public_request :: "dict \<Rightarrow> string \<Rightarrow> dict" where
  "public_request request status = fmupd ''status'' (JStr status) request"

text \<open>
  The token is an argument of \<^verbatim>\<open>submit_request\<close> that its body does not read. The worker identity of a
  checked request is an identity, so reading it back cannot fail.
\<close>

definition submit_request :: "json \<Rightarrow> json \<Rightarrow> string \<Rightarrow> string \<Rightarrow> (dict, ledger_file) act" where
  "submit_request request token clock now =
     act_bind (act_lift (check_request clock request)) (\<lambda>checked.
     act_bind (act_lift (timestamp ''now'' (JStr now))) (\<lambda>current.
     act_bind (act_lift (identity_field ''worker_identity'' (dget checked ''worker_identity''))) (\<lambda>worker_id.
     act_bind (act_op (append_many_if
                [(''enrollment.authorization-consumed'', consumption checked current),
                 (''enrollment.request'', checked)]
                (submit_precondition checked worker_id current))) (\<lambda>entries.
     act_return (public_request checked ''PENDING'')))))"

definition request_of :: "string \<Rightarrow> string \<Rightarrow> ledger_file \<Rightarrow> dict result" where
  "request_of request_id now F =
     tryE (lifecycle_records F) (\<lambda>records.
       case find_request records (JStr request_id) of
         None \<Rightarrow> Inl (ProtocolError ''enrollment request is unknown'')
       | Some value \<Rightarrow>
           tryE (timestamp ''now'' (JStr now)) (\<lambda>current.
           tryE (request_status records (JStr request_id) current) (\<lambda>status. Inr (public_request value status))))"

definition pending_requests :: "string \<Rightarrow> ledger_file \<Rightarrow> dict list result" where
  "pending_requests now F =
     tryE (timestamp ''now'' (JStr now)) (\<lambda>current.
     tryE (lifecycle_records F) (\<lambda>records.
     tryE (filterE (\<lambda>e. if \<not> has_type ''enrollment.request'' e then Inr False
                        else tryE (dsub (entry_record e) ''request_id'') (\<lambda>request_id.
                             tryE (request_status records request_id current) (\<lambda>status. Inr (status = ''PENDING'')))) records) (\<lambda>es.
       Inr (map (\<lambda>e. public_request (entry_record e) ''PENDING'') es))))"

end
