(* ===== verification/Fleet_Presence.thy ===== *)
theory Fleet_Presence
  imports Lifecycle
begin

text \<open>
  The second half of \<^verbatim>\<open>src/src/mncs_fabric/lifecycle.py\<close>: decisions on enrollment requests, fleet
  membership, authenticated sessions and the status derived from them. A session record is written under
  the ledger's lock from the history read there (\<open>append_computed\<close>). Generations are integers.
\<close>

section \<open>Sessions\<close>

definition SESSION_MAX_AGE_MICROS :: int where
  "SESSION_MAX_AGE_MICROS = 300000000"

text \<open>\<^verbatim>\<open>(e["generation"], e["observed_at"]) >= (a["generation"], a["observed_at"])\<close>.\<close>

definition session_ge :: "dict \<Rightarrow> dict \<Rightarrow> bool result" where
  "session_ge event active =
     tryE (dsub event ''generation'') (\<lambda>g. tryE (dsub event ''observed_at'') (\<lambda>t.
     tryE (dsub active ''generation'') (\<lambda>g'. tryE (dsub active ''observed_at'') (\<lambda>t'.
       case (as_int g, as_int g') of
         (Some x, Some y) \<Rightarrow>
           if x \<noteq> y then Inr (y < x)
           else if t = t' then Inr True
           else (case (t, t') of (JStr a, JStr b) \<Rightarrow> Inr (b \<le> a) | _ \<Rightarrow> Inl PyTypeError)
       | _ \<Rightarrow> Inl PyTypeError))))"

definition session_entry :: "string \<Rightarrow> dict \<Rightarrow> bool" where
  "session_entry worker_id e =
     ((has_type ''presence.session'' e \<or> has_type ''presence.session-ended'' e
       \<or> has_type ''presence.session-conflict'' e) \<and> rget e ''worker_id'' = JStr worker_id)"

definition session_step :: "dict \<Rightarrow> dict option \<Rightarrow> dict option result" where
  "session_step event active =
     tryE (in_strset (dget event ''event'') [''authenticated'', ''heartbeat'', ''reconnected'']) (\<lambda>opens.
       if opens then
         (case active of
            None \<Rightarrow> Inr (Some event)
          | Some a \<Rightarrow> tryE (session_ge event a) (\<lambda>ge. Inr (if ge then Some event else active)))
       else if dget event ''event'' \<noteq> JStr ''ended'' then Inr active
       else
         (case active of
            None \<Rightarrow> Inr None
          | Some a \<Rightarrow>
              tryE (dsub a ''session_id'') (\<lambda>sid.
                if dget event ''session_id'' \<noteq> sid then Inr active
                else tryE (dsub a ''generation'') (\<lambda>g.
                  Inr (if dget event ''generation'' = g then None else active)))))"

definition current_session :: "dict list \<Rightarrow> string \<Rightarrow> dict option result" where
  "current_session records worker_id =
     foldE (\<lambda>e. session_step (entry_record e)) (filter (session_entry worker_id) records) None"

section \<open>Status\<close>

text \<open>
  \<^verbatim>\<open>timedelta.total_seconds()\<close> as the float that is written: the decimal of the microseconds
  without trailing zeros, which is the shortest one for ages below 285 years.
\<close>

fun strip_zeros :: "nat \<Rightarrow> int \<Rightarrow> nat \<times> int" where
  "strip_zeros m e = (if m \<noteq> 0 \<and> m mod 10 = 0 then strip_zeros (m div 10) (e + 1) else (m, e))"

declare strip_zeros.simps [simp del]

definition seconds_json :: "int \<Rightarrow> json" where
  "seconds_json us =
     (if us = 0 then JFloat False 0 0
      else case strip_zeros (nat \<bar>us\<bar>) (-6) of (m, e) \<Rightarrow> JFloat (us < 0) m e)"

definition text_ge :: "json \<Rightarrow> json \<Rightarrow> bool result" where
  "text_ge a b = (case (a, b) of (JStr s, JStr t) \<Rightarrow> Inr (t \<le> s) | _ \<Rightarrow> Inl PyTypeError)"

definition find_conflict :: "dict list \<Rightarrow> string \<Rightarrow> dict option" where
  "find_conflict records worker_id = map_option entry_record
     (find_last (\<lambda>e. rget e ''worker_id'' = JStr worker_id \<and> rget e ''event'' = JStr ''duplicate-identity'') records)"

definition conflict_after_session :: "dict option \<Rightarrow> dict option \<Rightarrow> bool result" where
  "conflict_after_session conflict session =
     (case conflict of
        None \<Rightarrow> Inr False
      | Some c \<Rightarrow>
          (case session of
             None \<Rightarrow> Inr True
           | Some s \<Rightarrow> text_ge (dget_default c ''observed_at'' (JStr [])) (dget_default s ''observed_at'' (JStr []))))"

definition session_age :: "string \<Rightarrow> dict option \<Rightarrow> int option result" where
  "session_age current_time session =
     (case session of
        None \<Rightarrow> Inr None
      | Some s \<Rightarrow>
          tryE (instant (JStr current_time)) (\<lambda>t.
          tryE (dsub s ''observed_at'') (\<lambda>x. tryE (instant x) (\<lambda>u. Inr (Some (t - u))))))"

definition is_fresh :: "int \<Rightarrow> int option \<Rightarrow> bool" where
  "is_fresh max_age age = (case age of None \<Rightarrow> False | Some a \<Rightarrow> 0 \<le> a \<and> a \<le> max_age)"

definition enrolled :: "dict \<Rightarrow> bool" where
  "enrolled member = (dget member ''membership_status'' = JStr ''ENROLLED'')"

definition presence_of :: "dict \<Rightarrow> bool \<Rightarrow> dict option \<Rightarrow> bool \<Rightarrow> string \<times> string" where
  "presence_of member conflict session fresh =
     (if \<not> enrolled member then (''REVOKED'', ''UNAVAILABLE'')
      else if conflict then (''DUPLICATE_IDENTITY'', ''UNKNOWN'')
      else if session = None then (''ABSENT'', ''UNAVAILABLE'')
      else if fresh then (''PRESENT'', ''AVAILABLE'')
      else (''STALE'', ''UNKNOWN''))"

definition session_get :: "dict option \<Rightarrow> string \<Rightarrow> json" where
  "session_get session k = (case session of None \<Rightarrow> JNull | Some s \<Rightarrow> dget s k)"

definition status_record :: "string \<Rightarrow> dict \<Rightarrow> dict option \<Rightarrow> bool \<Rightarrow> int option \<Rightarrow> bool \<Rightarrow> dict" where
  "status_record worker_id member session conflict age fresh = dict_of
     [(''schema_version'', JStr PRESENCE_SCHEMA), (''worker_id'', JStr worker_id),
      (''membership_status'', dget member ''membership_status''),
      (''current_lifecycle'', dget member ''current_lifecycle''),
      (''presence'', JStr (fst (presence_of member conflict session fresh))),
      (''availability'', JStr (snd (presence_of member conflict session fresh))),
      (''authenticated'', JBool (session \<noteq> None \<and> enrolled member)),
      (''session_id'', session_get session ''session_id''),
      (''session_generation'', session_get session ''generation''),
      (''last_authenticated_at'', session_get session ''observed_at''),
      (''session_age_seconds'', case age of None \<Rightarrow> JNull | Some a \<Rightarrow> seconds_json a),
      (''session_fresh'', JBool fresh), (''capability_freshness'', JStr ''UNKNOWN''),
      (''resource_freshness'', JStr ''UNKNOWN''),
      (''claim_boundary'', JStr ''membership, authenticated presence, liveness, capability freshness, and resource freshness are separate claims'')]"

definition status_of :: "string \<Rightarrow> string \<Rightarrow> int \<Rightarrow> dict list \<Rightarrow> dict result" where
  "status_of worker_id current_time max_age records =
     (case latest_membership records worker_id of
        None \<Rightarrow> Inl (ProtocolError ''worker membership is unknown'')
      | Some member \<Rightarrow>
          tryE (current_session records worker_id) (\<lambda>session.
          tryE (conflict_after_session (find_conflict records worker_id) session) (\<lambda>conflict.
          tryE (session_age current_time session) (\<lambda>age.
            Inr (status_record worker_id member session conflict age (is_fresh max_age age))))))"

definition worker_status :: "json \<Rightarrow> string \<Rightarrow> int \<Rightarrow> ledger_file \<Rightarrow> dict result" where
  "worker_status worker now max_age F =
     tryE (identity_field ''worker_id'' worker) (\<lambda>worker_id.
     if \<not> (0 < max_age \<and> max_age \<le> MAX_TTL_MICROS) then Inl (ValidationError ''session freshness bound is invalid'')
     else
       tryE (timestamp ''now'' (JStr now)) (\<lambda>current_time.
       tryE (lifecycle_records F) (status_of worker_id current_time max_age)))"

definition membership :: "json \<Rightarrow> string \<Rightarrow> ledger_file \<Rightarrow> dict result" where
  "membership worker now F =
     tryE (identity_field ''worker_id'' worker) (\<lambda>worker_id.
     tryE (lifecycle_records F) (\<lambda>records.
       case latest_membership records worker_id of
         None \<Rightarrow> Inl (ProtocolError ''worker membership is unknown'')
       | Some value \<Rightarrow>
           tryE (worker_status (JStr worker_id) now SESSION_MAX_AGE_MICROS F) (\<lambda>status. Inr (value ++\<^sub>f status))))"

fun member_worker :: "dict \<Rightarrow> string list" where
  "member_worker e =
     (if has_type ''fleet.membership'' e \<or> has_type ''fleet.revocation'' e
      then (case rget e ''worker_id'' of JStr w \<Rightarrow> [w] | _ \<Rightarrow> []) else [])"

definition memberships :: "(string \<Rightarrow> string) \<Rightarrow> ledger_file \<Rightarrow> dict list result" where
  "memberships now F = tryE (lifecycle_records F) (\<lambda>records.
     mapE (\<lambda>w. membership (JStr w) (now w) F) (sorted_list_of_set (set (concat (map member_worker records)))))"

text \<open>
  \<^verbatim>\<open>doctor\<close>: the outcome, the verification of the ledger, and the memberships or the protocol or storage
  error that kept them from being read.
\<close>

definition doctor ::
  "(string \<Rightarrow> string) \<Rightarrow> ledger_file \<Rightarrow> (string \<times> (nat \<times> ledger_diagnostic list \<times> string) \<times> dict list result) result" where
  "doctor now F = tryE (ledger_verify F) (\<lambda>verification.
     case memberships now F of
       Inr workers \<Rightarrow> Inr (snd (snd verification), verification, Inr workers)
     | Inl (ProtocolError m) \<Rightarrow> Inr (''UNKNOWN'', verification, Inl (ProtocolError m))
     | Inl (StorageError m) \<Rightarrow> Inr (''UNKNOWN'', verification, Inl (StorageError m))
     | Inl err \<Rightarrow> Inl err)"

section \<open>Decisions\<close>

definition decision_record :: "json \<Rightarrow> string \<Rightarrow> string \<Rightarrow> json \<Rightarrow> string \<Rightarrow> json \<Rightarrow> dict" where
  "decision_record request_id worker decision key decided_at reason = attach_identity (dict_of
     [(''schema_version'', JStr DECISION_SCHEMA), (''request_id'', request_id), (''worker_id'', JStr worker),
      (''decision'', JStr decision), (''public_key_identity'', key), (''decided_at'', JStr decided_at),
      (''reason'', reason), (''event'', JStr ''decision'')]) ''decision_id''"

definition membership_record :: "dict \<Rightarrow> json \<Rightarrow> string \<Rightarrow> json \<Rightarrow> string \<Rightarrow> json \<Rightarrow> dict \<Rightarrow> dict" where
  "membership_record decision request_id worker key approved_at created_at labels = attach_identity (dict_of
     [(''schema_version'', JStr MEMBERSHIP_SCHEMA), (''worker_id'', JStr worker), (''public_key_identity'', key),
      (''membership_status'', JStr ''ENROLLED''), (''current_lifecycle'', JStr ''ENROLLED''),
      (''enrollment_request_id'', request_id), (''decision_id'', dget decision ''decision_id''),
      (''created_at'', created_at), (''approved_at'', JStr approved_at), (''operator_labels'', JObj labels),
      (''event'', JStr ''enrolled'')]) ''membership_id''"

text \<open>What is checked before the append, with the chosen worker; and the records to append.\<close>

definition check_decision :: "json \<Rightarrow> string \<Rightarrow> json \<Rightarrow> string \<Rightarrow> dict list \<Rightarrow> dict \<Rightarrow> string result" where
  "check_decision request_id decision worker current records request =
     tryE (request_status records request_id current) (\<lambda>status.
     if decision \<noteq> ''EXPIRED'' \<and> status \<noteq> ''PENDING''
       then Inl (ProtocolError ''enrollment request is already decided'')
     else if decision = ''EXPIRED'' \<and> status \<noteq> ''EXPIRED''
       then Inl (ProtocolError ''enrollment request has not expired'')
     else
       tryE (if truthy worker then Inr worker else dsub request ''worker_identity'') (\<lambda>w.
       tryE (identity_field ''worker_id'' w) (\<lambda>chosen_worker.
       tryE (if decision \<noteq> ''APPROVED'' then Inr ()
             else (case latest_membership records chosen_worker of
                     None \<Rightarrow> Inr ()
                   | Some m \<Rightarrow>
                       tryE (in_strset (dget m ''membership_status'') [''ENROLLED'']) (\<lambda>active.
                         if \<not> active then Inr ()
                         else tryE (dsub request ''public_key_identity'') (\<lambda>key.
                           if dget m ''public_key_identity'' \<noteq> key
                           then Inl (ProtocolError ''active worker identity cannot be rebound to new key material'')
                           else Inl (ProtocolError ''worker identity is already enrolled''))))) (\<lambda>_.
       tryE (if decision \<noteq> ''EXPIRED'' then Inr ()
             else tryE (dsub request ''authorization_id'') (\<lambda>authorization_id.
                  tryE (record_status records authorization_id current) (\<lambda>state.
                    if state \<notin> {''EXPIRED'', ''REVOKED''}
                    then Inl (ProtocolError ''enrollment authorization has not expired'') else Inr ()))) (\<lambda>_.
         Inr chosen_worker)))))"

definition decision_additions ::
  "json \<Rightarrow> string \<Rightarrow> string \<Rightarrow> json \<Rightarrow> string \<Rightarrow> dict \<Rightarrow> (string \<times> dict) list result" where
  "decision_additions request_id chosen_worker decision reason current request =
     tryE (dsub request ''public_key_identity'') (\<lambda>key.
     tryE (if reason = JNull then Inr JNull
           else tryE (bounded_text ''reason'' 512 reason) (\<lambda>r. Inr (JStr r))) (\<lambda>checked_reason.
       let d = decision_record request_id chosen_worker decision key current checked_reason in
       if decision \<noteq> ''APPROVED'' then Inr [(''enrollment.decision'', d)]
       else
         tryE (dsub request ''requested_at'') (\<lambda>requested_at.
         tryE (as_dict (dget_default request ''metadata'' (JObj fmempty))) (\<lambda>labels.
           Inr [(''enrollment.decision'', d),
                (''fleet.membership'', membership_record d request_id chosen_worker key current requested_at labels)]))))"

definition prepare_decision ::
  "json \<Rightarrow> string \<Rightarrow> json \<Rightarrow> json \<Rightarrow> string \<Rightarrow> dict list \<Rightarrow> (dict \<times> string \<times> (string \<times> dict) list) result" where
  "prepare_decision request_id decision worker reason current records =
     (case find_request records request_id of
        None \<Rightarrow> Inl (ProtocolError ''enrollment request is unknown'')
      | Some request \<Rightarrow>
          tryE (check_decision request_id decision worker current records request) (\<lambda>chosen_worker.
          tryE (decision_additions request_id chosen_worker decision reason current request) (\<lambda>additions.
            Inr (request, chosen_worker, additions))))"

definition decision_precondition :: "json \<Rightarrow> string \<Rightarrow> dict \<Rightarrow> string \<Rightarrow> string \<Rightarrow> dict list \<Rightarrow> unit result" where
  "decision_precondition request_id decision request chosen_worker current latest =
     tryE (request_status latest request_id current) (\<lambda>status.
     if status \<noteq> (if decision = ''EXPIRED'' then ''EXPIRED'' else ''PENDING'')
       then Inl (ProtocolError ''enrollment request decision changed concurrently'')
     else
       tryE (if decision \<noteq> ''APPROVED'' then Inr ()
             else (case latest_membership latest chosen_worker of
                     None \<Rightarrow> Inr ()
                   | Some m \<Rightarrow>
                       if enrolled m \<and> dget m ''public_key_identity'' \<noteq> dget request ''public_key_identity''
                       then Inl (ProtocolError ''active worker identity cannot be rebound to new key material'')
                       else Inr ())) (\<lambda>_.
       tryE (dsub request ''authorization_id'') (\<lambda>authorization_id.
       tryE (record_status latest authorization_id current) (\<lambda>state.
         if state \<notin> {''ACTIVE'', ''CONSUMED''} \<and> decision = ''APPROVED''
         then Inl (ProtocolError ''enrollment authorization is no longer active'') else Inr ()))))"

definition decide :: "json \<Rightarrow> string \<Rightarrow> json \<Rightarrow> json \<Rightarrow> string \<Rightarrow> (dict, ledger_file) act" where
  "decide request_id decision worker reason now =
     act_bind (act_lift
       (if decision \<notin> set DECISIONS then Inl (ValidationError ''enrollment decision is invalid'')
        else timestamp ''decided_at'' (JStr now))) (\<lambda>current.
     act_bind (act_read (\<lambda>F. tryE (lifecycle_records F) (prepare_decision request_id decision worker reason current)))
       (\<lambda>(request, chosen_worker, additions).
     act_bind (act_op (append_many_if additions
                (decision_precondition request_id decision request chosen_worker current))) (\<lambda>entries.
     act_return (snd (hd additions)))))"

definition approve_request :: "json \<Rightarrow> json \<Rightarrow> string \<Rightarrow> (dict, ledger_file) act" where
  "approve_request request_id worker now = decide request_id ''APPROVED'' worker JNull now"

definition deny_request :: "json \<Rightarrow> json \<Rightarrow> string \<Rightarrow> (dict, ledger_file) act" where
  "deny_request request_id reason now = decide request_id ''DENIED'' JNull reason now"

definition expire_request :: "json \<Rightarrow> string \<Rightarrow> (dict, ledger_file) act" where
  "expire_request request_id now =
     decide request_id ''EXPIRED'' JNull (JStr ''enrollment authorization expired'') now"

section \<open>Revocation and sessions\<close>

definition revocation_record :: "string \<Rightarrow> json \<Rightarrow> string \<Rightarrow> string \<Rightarrow> dict" where
  "revocation_record worker_id key revoked_at reason = attach_identity (dict_of
     [(''schema_version'', JStr MEMBERSHIP_SCHEMA), (''worker_id'', JStr worker_id), (''public_key_identity'', key),
      (''membership_status'', JStr ''REVOKED''), (''current_lifecycle'', JStr ''REVOKED''),
      (''revoked_at'', JStr revoked_at), (''reason'', JStr reason), (''event'', JStr ''revoked'')]) ''membership_id''"

definition prepare_revocation :: "string \<Rightarrow> string \<Rightarrow> string \<Rightarrow> dict list \<Rightarrow> dict result" where
  "prepare_revocation worker_id reason now records =
     (case latest_membership records worker_id of
        None \<Rightarrow> Inl (ProtocolError ''worker membership is unknown'')
      | Some current \<Rightarrow>
          if \<not> enrolled current then Inl (ProtocolError ''worker membership is not enrolled'')
          else
            tryE (dsub current ''public_key_identity'') (\<lambda>key.
            tryE (timestamp ''revoked_at'' (JStr now)) (\<lambda>revoked_at.
              Inr (revocation_record worker_id key revoked_at reason))))"

definition still_enrolled :: "string \<Rightarrow> dict list \<Rightarrow> unit result" where
  "still_enrolled worker_id latest =
     (case latest_membership latest worker_id of
        None \<Rightarrow> Inl (ProtocolError ''worker membership changed concurrently'')
      | Some m \<Rightarrow> if enrolled m then Inr () else Inl (ProtocolError ''worker membership changed concurrently''))"

definition revoke_worker :: "json \<Rightarrow> json \<Rightarrow> string \<Rightarrow> string \<Rightarrow> (dict, ledger_file) act" where
  "revoke_worker worker reason now1 now2 =
     act_bind (act_lift (identity_field ''worker_id'' worker)) (\<lambda>worker_id.
     act_bind (act_lift (bounded_text ''reason'' 512 reason)) (\<lambda>reason.
     act_bind (act_read (\<lambda>F. tryE (lifecycle_records F) (prepare_revocation worker_id reason now1))) (\<lambda>record'.
     act_bind (act_op (append_if ''fleet.revocation'' record' (still_enrolled worker_id))) (\<lambda>entry.
     act_read (membership (JStr worker_id) now2)))))"

definition presence_event :: "string \<Rightarrow> string \<Rightarrow> string \<Rightarrow> int \<Rightarrow> string \<Rightarrow> string \<Rightarrow> (string \<times> json) list \<Rightarrow> dict" where
  "presence_event worker_id key session_id generation observed_at event extra = attach_identity (dict_of
     ([(''schema_version'', JStr PRESENCE_SCHEMA), (''worker_id'', JStr worker_id), (''public_key_identity'', JStr key),
       (''session_id'', JStr session_id), (''generation'', JInt generation), (''observed_at'', JStr observed_at),
       (''event'', JStr event)] @ extra)) ''presence_event_id''"

text \<open>
  \<^verbatim>\<open>admit\<close>: the event, with its extra fields, by which a session joins the current one; and the session
  record that the history admits.
\<close>

definition session_event :: "string \<Rightarrow> int \<Rightarrow> string \<Rightarrow> dict option \<Rightarrow> (string \<times> (string \<times> json) list) result" where
  "session_event session_id generation current_time session =
     (case session of
        None \<Rightarrow> Inr (''authenticated'', [])
      | Some current \<Rightarrow>
          tryE (dsub current ''generation'') (\<lambda>g.
          case as_int g of
            None \<Rightarrow> Inl PyTypeError
          | Some n \<Rightarrow>
              if generation < n then Inl (ProtocolError ''session generation regressed'')
              else
                tryE (dsub current ''session_id'') (\<lambda>sid.
                if sid = JStr session_id then Inr (if generation = n then ''heartbeat'' else ''reconnected'', [])
                else
                  tryE (instant (JStr current_time)) (\<lambda>t.
                  tryE (dsub current ''observed_at'') (\<lambda>x.
                  tryE (instant x) (\<lambda>u.
                    Inr (if n < generation \<and> SESSION_MAX_AGE_MICROS < t - u
                         then (''reconnected'', [(''replaces_session_id'', sid), (''replaces_generation'', g)])
                         else (''duplicate-identity'',
                               [(''conflicts_with_session_id'', sid), (''conflicts_with_generation'', g)]))))))))"

definition admit :: "string \<Rightarrow> string \<Rightarrow> string \<Rightarrow> int \<Rightarrow> string \<Rightarrow> dict list \<Rightarrow> dict result" where
  "admit worker_id key session_id generation current_time records =
     (case latest_membership records worker_id of
        None \<Rightarrow> Inl (ProtocolError ''worker is not enrolled'')
      | Some member \<Rightarrow>
          if \<not> enrolled member then Inl (ProtocolError ''worker is not enrolled'')
          else if dget member ''public_key_identity'' \<noteq> JStr key
            then Inl (ProtocolError ''session credential does not match enrolled worker'')
          else
            tryE (current_session records worker_id) (\<lambda>session.
            tryE (session_event session_id generation current_time session) (\<lambda>(event, extra).
              Inr (presence_event worker_id key session_id generation current_time event extra))))"

definition authenticate_session ::
  "json \<Rightarrow> string \<Rightarrow> json \<Rightarrow> int \<Rightarrow> string \<Rightarrow> (dict, ledger_file) act" where
  "authenticate_session worker key session generation now =
     act_bind (act_lift (identity_field ''worker_id'' worker)) (\<lambda>worker_id.
     act_bind (act_lift (if \<not> is_sha256_identity (JStr key)
         then Inl (ProtocolError ''session credential identity is malformed'') else session_id_field session)) (\<lambda>session_id.
     act_bind (act_lift (if generation < 1 \<or> 2 ^ 31 < generation
         then Inl (ValidationError ''session generation is outside the bounded range'')
         else timestamp ''authenticated_at'' (JStr now))) (\<lambda>current_time.
     act_bind (act_op (append_computed ''presence.session'' (admit worker_id key session_id generation current_time))) (\<lambda>entry.
     act_read (worker_status (JStr worker_id) current_time SESSION_MAX_AGE_MICROS)))))"

definition ended_event :: "string \<Rightarrow> string \<Rightarrow> int \<Rightarrow> string \<Rightarrow> dict" where
  "ended_event worker_id session_id generation observed_at = attach_identity (dict_of
     [(''schema_version'', JStr PRESENCE_SCHEMA), (''worker_id'', JStr worker_id), (''session_id'', JStr session_id),
      (''generation'', JInt generation), (''observed_at'', JStr observed_at), (''event'', JStr ''ended'')]) ''presence_event_id''"

definition is_current_session :: "string \<Rightarrow> string \<Rightarrow> int \<Rightarrow> dict list \<Rightarrow> unit result" where
  "is_current_session worker_id session_id generation records =
     tryE (current_session records worker_id) (\<lambda>session.
       case session of
         None \<Rightarrow> Inl (ProtocolError ''session is not current'')
       | Some current \<Rightarrow>
           tryE (dsub current ''session_id'') (\<lambda>sid.
             if sid \<noteq> JStr session_id then Inl (ProtocolError ''session is not current'')
             else tryE (dsub current ''generation'') (\<lambda>g.
               if g \<noteq> JInt generation then Inl (ProtocolError ''session is not current'') else Inr ())))"

definition disconnect_session :: "json \<Rightarrow> json \<Rightarrow> int \<Rightarrow> string \<Rightarrow> string \<Rightarrow> (dict, ledger_file) act" where
  "disconnect_session worker session generation now1 now2 =
     act_bind (act_lift (identity_field ''worker_id'' worker)) (\<lambda>worker_id.
     act_bind (act_lift (session_id_field session)) (\<lambda>session_id.
     act_bind (act_lift (timestamp ''disconnected_at'' (JStr now1))) (\<lambda>observed_at.
     act_bind (act_op (append_if ''presence.session-ended'' (ended_event worker_id session_id generation observed_at)
                (is_current_session worker_id session_id generation))) (\<lambda>entry.
     act_read (worker_status (JStr worker_id) now2 SESSION_MAX_AGE_MICROS)))))"

end
