(* ===== verification/Lifecycle_History.thy ===== *)
theory Lifecycle_History
  imports Fleet_Presence
begin

text \<open>
  What the lifecycle store guarantees, whatever the order in which controllers use it. Every operation
  of \<open>Lifecycle\<close> and \<open>Fleet_Presence\<close> changes the ledger by at most one commit, an append whose
  preconditions are evaluated on the very history it extends (\<open>commit\<close>); an interleaving of operations of several
  processes is therefore a sequence of commits. The abstract machine \<open>history_step\<close> says which
  records may follow a history; every commit refines one of its steps, and the invariants are proved on it:
  an authorization is consumed at most once, an enrolled worker is not bound to another key
  without a revocation, and a session record is written only for an enrolled worker with its key.
\<close>

section \<open>Commits\<close>

inductive commit :: "ledger_file \<Rightarrow> ledger_file \<Rightarrow> bool" where
  created:
    "ledger_append ''enrollment.authorization'' (authorization_record i x tok w m) F = Inr (e, F') \<Longrightarrow> commit F F'"
| auth_revoked:
    "ledger_append ''enrollment.authorization-revoked'' (revoked_event a t r) F = Inr (e, F') \<Longrightarrow> commit F F'"
| consumed:
    "append_if ''enrollment.authorization-consumed'' (consumed_event aid w t) (\<lambda>l. consume_locked l aid w t) F = Inr (e, F')
     \<Longrightarrow> commit F F'"
| submitted:
    "dget checked ''worker_identity'' = JStr w \<Longrightarrow> fmlookup checked ''event'' = None \<Longrightarrow>
     append_many_if [(''enrollment.authorization-consumed'', consumption checked t), (''enrollment.request'', checked)]
       (submit_precondition checked w t) F = Inr (es, F') \<Longrightarrow> commit F F'"
| decided:
    "d \<in> {''DENIED'', ''EXPIRED''} \<Longrightarrow>
     append_many_if [(''enrollment.decision'', decision_record rid w d key t reason)]
       (decision_precondition rid d request w t) F = Inr (es, F') \<Longrightarrow> commit F F'"
| approved:
    "dget request ''public_key_identity'' = key \<Longrightarrow> dr = decision_record rid w ''APPROVED'' key t reason \<Longrightarrow>
     append_many_if [(''enrollment.decision'', dr), (''fleet.membership'', membership_record dr rid w key t t' labels)]
       (decision_precondition rid ''APPROVED'' request w t) F = Inr (es, F') \<Longrightarrow> commit F F'"
| worker_revoked:
    "append_if ''fleet.revocation'' (revocation_record w key t r) (still_enrolled w) F = Inr (e, F') \<Longrightarrow> commit F F'"
| session:
    "append_computed ''presence.session'' (admit w k sid gen t) F = Inr (e, F') \<Longrightarrow> commit F F'"
| session_ended:
    "append_if ''presence.session-ended'' (ended_event w sid gen t) (is_current_session w sid gen) F = Inr (e, F')
     \<Longrightarrow> commit F F'"

inductive_cases commitE: "commit F F'"

definition at_most_one_commit :: "('a, ledger_file) act \<Rightarrow> bool" where
  "at_most_one_commit = act_steps (\<lambda>F F'. F' = F \<or> commit F F')"

lemmas one_commit_lift = act_steps_lift [where R = "\<lambda>F F'. F' = F \<or> commit F F'", folded at_most_one_commit_def]
lemmas one_commit_op = act_steps_op [where R = "\<lambda>F F'. F' = F \<or> commit F F'", folded at_most_one_commit_def]

lemma one_commit_read:
  assumes "\<And>F a. f F = Inr a \<Longrightarrow> at_most_one_commit (k a)"
  shows "at_most_one_commit (act_bind (act_read f) k)"
  using assms unfolding at_most_one_commit_def by (intro act_steps_read) (auto simp: act_steps_def)

lemma create_one_commit: "at_most_one_commit (create_authorization tok ttl w m t)"
  unfolding create_authorization_def
  by (intro one_commit_lift one_commit_op)
    (auto simp: tryE_eq_Inr simp del: Let_def intro: commit.intros split: if_splits)

lemma revoke_authorization_one_commit: "at_most_one_commit (revoke_authorization a r t1 t2 t3)"
  unfolding revoke_authorization_def
  by (intro one_commit_lift one_commit_read one_commit_op) (auto intro: commit.intros)

lemma consume_one_commit: "at_most_one_commit (consume_authorization tok w t)"
  unfolding consume_authorization_def
  by (intro one_commit_lift one_commit_read one_commit_op) (auto intro: commit.intros)

lemma check_request_InrD:
  assumes "check_request clock v = Inr checked"
  shows "v = JObj checked" "keys_are checked request_fields"
  using assms by (auto simp: check_request_def tryE_eq_Inr split: json.splits if_splits)

lemma keys_are_absent: "keys_are m ks \<Longrightarrow> k \<notin> set ks \<Longrightarrow> fmlookup m k = None"
  unfolding keys_are_def by (metis fmdom_notD fset_of_list_elem)

lemma check_request_no_event: "check_request clock v = Inr checked \<Longrightarrow> fmlookup checked ''event'' = None"
  by (rule keys_are_absent [OF check_request_InrD(2)]) (simp_all add: request_fields_def)

lemma submit_one_commit: "at_most_one_commit (submit_request q tok c t)"
  unfolding submit_request_def
  by (intro one_commit_lift one_commit_op)
    (auto simp: identity_field_eq_Inr dest: check_request_no_event intro: commit.submitted)

lemma prepare_decision_InrD:
  assumes "prepare_decision rid d worker reason t records = Inr (request, w, additions)"
  obtains r where "d \<noteq> ''APPROVED''"
      "additions = [(''enrollment.decision'', decision_record rid w d (dget request ''public_key_identity'') t r)]"
  | dr r t' labels where "d = ''APPROVED''" "dr = decision_record rid w d (dget request ''public_key_identity'') t r"
      "additions = [(''enrollment.decision'', dr),
        (''fleet.membership'', membership_record dr rid w (dget request ''public_key_identity'') t t' labels)]"
proof -
  from assms have adds: "decision_additions rid w d reason t request = Inr additions"
    by (auto simp: prepare_decision_def tryE_eq_Inr split: option.splits)
  have "dget request ''public_key_identity'' = key" if "fmlookup request ''public_key_identity'' = Some key" for key
    using that by (rule dget_eq)
  with adds that show thesis
    unfolding decision_additions_def by (cases "d = ''APPROVED''") (auto simp: tryE_eq_Inr dsub_eq_Inr)
qed

lemma decide_one_commit: "at_most_one_commit (decide rid d worker reason t)"
  unfolding decide_def
proof (intro one_commit_lift one_commit_read)
  fix current F p
  assume d: "(if d \<notin> set DECISIONS then Inl (ValidationError ''enrollment decision is invalid'')
      else timestamp ''decided_at'' (JStr t)) = Inr current"
    and p: "tryE (lifecycle_records F) (prepare_decision rid d worker reason current) = Inr p"
  obtain request w additions where eq: "p = (request, w, additions)" by (cases p)
  from p eq obtain records where "prepare_decision rid d worker reason current records = Inr (request, w, additions)"
    by (auto simp: tryE_eq_Inr)
  then have "commit F F'" if "append_many_if additions (decision_precondition rid d request w current) F = Inr (es, F')" for F F' es
    using that d by (cases rule: prepare_decision_InrD) (auto simp: DECISIONS_def intro: commit.intros split: if_splits)
  then show "at_most_one_commit (case p of (request, w, additions) \<Rightarrow>
      act_bind (act_op (append_many_if additions (decision_precondition rid d request w current)))
        (\<lambda>entries. act_return (snd (hd additions))))"
    unfolding eq by (auto intro!: one_commit_op)
qed auto

lemma revoke_worker_one_commit: "at_most_one_commit (revoke_worker w r t1 t2)"
  unfolding revoke_worker_def
  by (intro one_commit_lift one_commit_read one_commit_op)
    (auto simp: tryE_eq_Inr prepare_revocation_def split: option.splits if_splits intro: commit.intros)

lemma authenticate_one_commit: "at_most_one_commit (authenticate_session w k s g t)"
  unfolding authenticate_session_def
  by (intro one_commit_lift one_commit_op) (auto intro: commit.intros)

lemma disconnect_one_commit: "at_most_one_commit (disconnect_session w s g t1 t2)"
  unfolding disconnect_session_def
  by (intro one_commit_lift one_commit_op) (auto intro: commit.intros)


section \<open>The abstract machine\<close>

inductive history_step :: "dict list \<Rightarrow> dict list \<Rightarrow> bool" where
  h_created:
    "entry_holds ''enrollment.authorization'' (authorization_record i x tok w m) e \<Longrightarrow> history_step h (h @ [e])"
| h_auth_revoked:
    "entry_holds ''enrollment.authorization-revoked'' (revoked_event a t r) e \<Longrightarrow> history_step h (h @ [e])"
| h_consumed:
    "consume_locked h aid w t = Inr () \<Longrightarrow>
     entry_holds ''enrollment.authorization-consumed'' (consumed_event aid w t) e \<Longrightarrow> history_step h (h @ [e])"
| h_submitted:
    "dget checked ''worker_identity'' = JStr w \<Longrightarrow> fmlookup checked ''event'' = None \<Longrightarrow>
     submit_precondition checked w t h = Inr () \<Longrightarrow>
     entry_holds ''enrollment.authorization-consumed'' (consumption checked t) e \<Longrightarrow>
     entry_holds ''enrollment.request'' checked e' \<Longrightarrow> history_step h (h @ [e, e'])"
| h_decided:
    "d \<in> set DECISIONS \<Longrightarrow> decision_precondition rid d request w t h = Inr () \<Longrightarrow>
     entry_holds ''enrollment.decision'' (decision_record rid w d key t reason) e \<Longrightarrow> history_step h (h @ [e])"
| h_approved:
    "decision_precondition rid ''APPROVED'' request w t h = Inr () \<Longrightarrow> dget request ''public_key_identity'' = key \<Longrightarrow>
     dr = decision_record rid w ''APPROVED'' key t reason \<Longrightarrow> entry_holds ''enrollment.decision'' dr e \<Longrightarrow>
     entry_holds ''fleet.membership'' (membership_record dr rid w key t t' labels) e' \<Longrightarrow> history_step h (h @ [e, e'])"
| h_worker_revoked:
    "still_enrolled w h = Inr () \<Longrightarrow> entry_holds ''fleet.revocation'' (revocation_record w key t r) e \<Longrightarrow>
     history_step h (h @ [e])"
| h_session:
    "admit w k sid gen t h = Inr r \<Longrightarrow> entry_holds ''presence.session'' r e \<Longrightarrow> history_step h (h @ [e])"
| h_session_ended:
    "is_current_session w sid gen h = Inr () \<Longrightarrow>
     entry_holds ''presence.session-ended'' (ended_event w sid gen t) e \<Longrightarrow> history_step h (h @ [e])"

inductive_cases history_stepE: "history_step h h'"

lemma holds_entry: "entry_holds rt r e \<Longrightarrow> dget e ''record_type'' = JStr rt \<and> entry_record e = r"
  by (simp add: entry_record_holds) (simp add: entry_holds_def)

lemma holds_type: "entry_holds rt r e \<Longrightarrow> has_type t e \<longleftrightarrow> t = rt"
  using holds_entry [of rt r e] by (auto simp: has_type_def)

lemma holds_rget: "entry_holds rt r e \<Longrightarrow> rget e k = dget r k"
  using holds_entry [of rt r e] by (simp add: rget_def)

section \<open>Invariants of the history\<close>

definition consumed_by :: "json \<Rightarrow> dict \<Rightarrow> bool" where
  "consumed_by aid e = (rget e ''authorization_id'' = aid \<and> rget e ''event'' = JStr ''consumed'')"

definition decisions_ok :: "dict list \<Rightarrow> bool" where
  "decisions_ok h = (\<forall>e \<in> set h. has_type ''enrollment.decision'' e \<longrightarrow> rget e ''decision'' \<in> JStr ` set DECISIONS)"

lemma record_status_active:
  assumes "record_status h aid t = Inr ''ACTIVE''" and "e \<in> set h"
  shows "\<not> consumed_by aid e"
proof
  assume c: "consumed_by aid e"
  from assms(1) obtain events where ev: "filterE (authorization_event aid) h = Inr events"
    and no: "JStr ''consumed'' \<notin> set (map (\<lambda>e. rget e ''event'') events)"
    by (auto simp: record_status_def tryE_eq_Inr split: option.splits if_splits)
  from c assms(2) ev have "e \<in> set events"
    by (simp add: filterE_eq_Inr authorization_event_def consumed_by_def)
  with no c show False by (auto simp: consumed_by_def image_iff)
qed

lemma consume_locked_fresh:
  assumes "consume_locked h aid w t = Inr ()" and "e \<in> set h"
  shows "\<not> consumed_by aid e"
  using assms by (auto simp: consume_locked_def tryE_eq_Inr split: if_splits dest: record_status_active)

lemma submit_precondition_consume:
  "submit_precondition checked w t h = Inr () \<Longrightarrow> consume_locked h (dget checked ''authorization_id'') w t = Inr ()"
  by (auto simp: submit_precondition_def tryE_eq_Inr split: if_splits)

lemma request_status_undecided:
  assumes "request_status h rid t = Inr st" "st \<notin> set DECISIONS" "decisions_ok h"
    and "e \<in> set h" "has_type ''enrollment.decision'' e"
  shows "rget e ''request_id'' \<noteq> rid"
proof
  let ?P = "\<lambda>e. has_type ''enrollment.decision'' e \<and> rget e ''request_id'' = rid"
  assume "rget e ''request_id'' = rid"
  with assms(4,5) obtain d where d: "find_last ?P h = Some d"
    using find_last_None [of ?P h] by (cases "find_last ?P h") auto
  have "rget d ''decision'' \<in> JStr ` set DECISIONS"
    using find_last_Some [OF d] assms(3) by (simp add: decisions_ok_def)
  moreover from assms(1) d have "tryE (dsub (entry_record d) ''decision'') py_str = Inr st"
    by (auto simp: request_status_def split: option.splits)
  ultimately have "st \<in> set DECISIONS" by (auto simp: rget_def tryE_eq_Inr dsub_eq_Inr dest: dget_eq)
  with assms(2) show False by simp
qed

lemma decision_record_fields [simp]:
  "dget (decision_record rid w d key t reason) ''request_id'' = rid"
  "dget (decision_record rid w d key t reason) ''decision'' = JStr d"
  "dget (decision_record rid w d key t reason) ''event'' = JStr ''decision''"
  by (simp_all add: decision_record_def)

lemma decisions_ok_step: "history_step h h' \<Longrightarrow> decisions_ok h \<Longrightarrow> decisions_ok h'"
  by (cases rule: history_step.cases)
    (auto simp: decisions_ok_def holds_type holds_rget DECISIONS_def)

section \<open>Refinement\<close>

lemma plain_append_step:
  assumes "ledger_append rt r F = Inr (e, F')" and "\<And>e. entry_holds rt r e \<Longrightarrow> history_step (stream_unlocked F) (stream_unlocked F @ [e])"
  shows "ledger_ok F' \<and> (F' = F \<or> history_step (stream_unlocked F) (stream_unlocked F'))"
  using ledger_append_InrD [OF assms(1)] assms(2) by (auto intro: ok_write_next)

lemma guarded_append_step:
  assumes "append_computed rt p F = Inr (e, F')"
    and "\<And>r e. p (stream_unlocked F) = Inr r \<Longrightarrow> entry_holds rt r e \<Longrightarrow> history_step (stream_unlocked F) (stream_unlocked F @ [e])"
  shows "ledger_ok F' \<and> (F' = F \<or> history_step (stream_unlocked F) (stream_unlocked F'))"
  using assms(1)
proof (rule append_computed_InrD)
  fix r
  assume r: "ledger_ok F" "p (stream_unlocked F) = Inr r" "entry_holds rt r e"
    "(e \<in> set (stream_unlocked F) \<and> F' = F) \<or>
     (fresh_record r (stream_unlocked F) \<and> e = next_entry rt r (stream_unlocked F) \<and> F' = write_entries [e] F)"
  then show ?thesis using assms(2) [OF r(2,3)] by (auto intro: ok_write_next)
qed

lemma if_append_step:
  assumes "append_if rt r p F = Inr (e, F')"
    and "\<And>e. p (stream_unlocked F) = Inr () \<Longrightarrow> entry_holds rt r e \<Longrightarrow> history_step (stream_unlocked F) (stream_unlocked F @ [e])"
  shows "ledger_ok F' \<and> (F' = F \<or> history_step (stream_unlocked F) (stream_unlocked F'))"
  using assms(1) unfolding append_if_def
  by (rule guarded_append_step) (auto simp: tryE_eq_Inr intro: assms(2))

lemma consumption_fields [simp]:
  "dget (consumption checked t) ''authorization_id'' = dget checked ''authorization_id''"
  "dget (consumption checked t) ''event'' = JStr ''consumed''"
  by (simp_all add: consumption_def)

lemma submitted_step:
  assumes w: "dget checked ''worker_identity'' = JStr w" "fmlookup checked ''event'' = None"
    and res: "append_many_if [(''enrollment.authorization-consumed'', consumption checked t), (''enrollment.request'', checked)]
       (submit_precondition checked w t) F = Inr (es, F')"
  shows "ledger_ok F' \<and> (F' = F \<or> history_step (stream_unlocked F) (stream_unlocked F'))"
proof -
  let ?h = "stream_unlocked F"
  have pre: "submit_precondition checked w t ?h = Inr ()" by (rule append_many_if_InrD(2) [OF res])
  have new: "\<not> entry_holds ''enrollment.authorization-consumed'' (consumption checked t) x" if "x \<in> set ?h" for x
    using consume_locked_fresh [OF submit_precondition_consume [OF pre] that] by (auto simp: consumed_by_def holds_rget)
  have no: "\<not> entry_holds ''enrollment.request'' checked x" if "x \<in> set ?h" for x
    using pre that by (auto simp: submit_precondition_def list_ex_iff holds_type holds_rget split: if_splits)
  have "ledger_ok F' \<and> (\<exists>e e'. entry_holds ''enrollment.authorization-consumed'' (consumption checked t) e
      \<and> entry_holds ''enrollment.request'' checked e' \<and> stream_unlocked F' = ?h @ [e, e'])"
    using append_pair_InrD [OF res _ new] no by auto
  then show ?thesis using h_submitted [OF w pre] by metis
qed

lemma decided_step:
  assumes "d \<in> {''DENIED'', ''EXPIRED''}"
    and "append_many_if [(''enrollment.decision'', decision_record rid w d key t reason)]
       (decision_precondition rid d request w t) F = Inr (es, F')"
  shows "ledger_ok F' \<and> (F' = F \<or> history_step (stream_unlocked F) (stream_unlocked F'))"
proof -
  have "d \<in> set DECISIONS" using assms(1) by (auto simp: DECISIONS_def)
  then show ?thesis using append_one_InrD [OF assms(2)] h_decided by metis
qed

lemma approved_step:
  assumes k: "dget request ''public_key_identity'' = key" and dr: "dr = decision_record rid w ''APPROVED'' key t reason"
    and res: "append_many_if [(''enrollment.decision'', dr), (''fleet.membership'', membership_record dr rid w key t t' labels)]
       (decision_precondition rid ''APPROVED'' request w t) F = Inr (es, F')"
    and ok: "decisions_ok (stream_unlocked F)"
  shows "ledger_ok F' \<and> (F' = F \<or> history_step (stream_unlocked F) (stream_unlocked F'))"
proof -
  let ?h = "stream_unlocked F"
  have pre: "decision_precondition rid ''APPROVED'' request w t ?h = Inr ()" by (rule append_many_if_InrD(2) [OF res])
  then have "request_status ?h rid t = Inr ''PENDING''"
    by (auto simp: decision_precondition_def tryE_eq_Inr split: if_splits)
  then have "rget x ''request_id'' \<noteq> rid" if "x \<in> set ?h" "has_type ''enrollment.decision'' x" for x
    by (rule request_status_undecided [OF _ _ ok that]) (simp add: DECISIONS_def)
  then have new: "\<not> entry_holds ''enrollment.decision'' dr x" if "x \<in> set ?h" for x
    using that holds_type [of "''enrollment.decision''" dr x] holds_rget [of "''enrollment.decision''" dr x "''request_id''"]
    by (auto simp: dr)
  have "''APPROVED'' \<in> set DECISIONS" by (simp add: DECISIONS_def)
  from h_decided [OF this pre] h_approved [OF pre k dr] append_pair_InrD [OF res _ new]
  show ?thesis unfolding dr by (auto simp del: append_Cons)
qed

lemma commit_refines:
  assumes "commit F F'" and "decisions_ok (stream_unlocked F)"
  shows "ledger_ok F' \<and> (F' = F \<or> history_step (stream_unlocked F) (stream_unlocked F'))"
  using assms(1)
proof cases
  case created
  then show ?thesis by (rule plain_append_step) (rule h_created)
next
  case auth_revoked
  then show ?thesis by (rule plain_append_step) (rule h_auth_revoked)
next
  case consumed
  then show ?thesis by (rule if_append_step) (rule h_consumed)
next
  case submitted
  then show ?thesis by (rule submitted_step)
next
  case decided
  then show ?thesis by (rule decided_step)
next
  case approved
  then show ?thesis using assms(2) by (rule approved_step)
next
  case worker_revoked
  then show ?thesis by (rule if_append_step) (rule h_worker_revoked)
next
  case session
  then show ?thesis by (rule guarded_append_step) (rule h_session)
next
  case session_ended
  then show ?thesis by (rule if_append_step) (rule h_session_ended)
qed

section \<open>Runs\<close>

text \<open>The ledgers that the operations, in any order and with any arguments, can leave behind.\<close>

inductive lifecycle_run :: "ledger_file \<Rightarrow> bool" where
  run_empty: "lifecycle_run empty_ledger"
| run_create: "lifecycle_run F \<Longrightarrow> lifecycle_run (snd (create_authorization tok ttl w m t F))"
| run_revoke_authorization: "lifecycle_run F \<Longrightarrow> lifecycle_run (snd (revoke_authorization a r t1 t2 t3 F))"
| run_consume: "lifecycle_run F \<Longrightarrow> lifecycle_run (snd (consume_authorization tk wk t F))"
| run_submit: "lifecycle_run F \<Longrightarrow> lifecycle_run (snd (submit_request q tk c t F))"
| run_decide: "lifecycle_run F \<Longrightarrow> lifecycle_run (snd (decide rid d wk reason t F))"
| run_revoke_worker: "lifecycle_run F \<Longrightarrow> lifecycle_run (snd (revoke_worker wk reason t1 t2 F))"
| run_authenticate: "lifecycle_run F \<Longrightarrow> lifecycle_run (snd (authenticate_session wk k sid g t F))"
| run_disconnect: "lifecycle_run F \<Longrightarrow> lifecycle_run (snd (disconnect_session wk sid g t1 t2 F))"

lemma one_commitD: "at_most_one_commit m \<Longrightarrow> snd (m F) = F \<or> commit F (snd (m F))"
  by (simp add: at_most_one_commit_def act_steps_def)

lemmas operations_one_commit = create_one_commit revoke_authorization_one_commit consume_one_commit submit_one_commit
  decide_one_commit revoke_worker_one_commit authenticate_one_commit disconnect_one_commit

lemma run_commits: "lifecycle_run F \<Longrightarrow> commit\<^sup>*\<^sup>* empty_ledger F"
proof (induction rule: lifecycle_run.induct)
  case run_empty
  then show ?case by simp
qed (metis operations_one_commit one_commitD rtranclp.rtrancl_into_rtrancl)+

lemma commits_refine:
  "commit\<^sup>*\<^sup>* empty_ledger F \<Longrightarrow>
     ledger_ok F \<and> decisions_ok (stream_unlocked F) \<and> history_step\<^sup>*\<^sup>* [] (stream_unlocked F)"
proof (induction rule: rtranclp_induct)
  case base
  then show ?case by (simp add: decisions_ok_def)
next
  case (step F F')
  from commit_refines [OF step.hyps(2)] step.IH show ?case
    by (auto dest: decisions_ok_step intro: rtranclp.rtrancl_into_rtrancl)
qed

section \<open>Single use of authorizations\<close>

definition consumptions :: "json \<Rightarrow> dict list \<Rightarrow> nat" where
  "consumptions aid h = length (filter (consumed_by aid) h)"

lemma consumptions_append [simp]: "consumptions aid (h @ h') = consumptions aid h + consumptions aid h'"
  by (simp add: consumptions_def)

lemma consumptions_Nil [simp]: "consumptions aid [] = 0"
  by (simp add: consumptions_def)

lemma consumptions_Cons [simp]:
  "consumptions aid (e # h) = (if consumed_by aid e then 1 else 0) + consumptions aid h"
  by (simp add: consumptions_def)

lemma consumptions_0: "consumptions aid h = 0 \<longleftrightarrow> (\<forall>e \<in> set h. \<not> consumed_by aid e)"
  by (simp add: consumptions_def filter_empty_conv)

lemma holds_not_consumed: "entry_holds rt r e \<Longrightarrow> dget r ''event'' \<noteq> JStr ''consumed'' \<Longrightarrow> \<not> consumed_by aid e"
  by (simp add: consumed_by_def holds_rget)

lemma admit_InrD:
  assumes "admit w k sid gen t h = Inr r"
  obtains m cur ev extra where "latest_membership h w = Some m" "enrolled m" "dget m ''public_key_identity'' = JStr k"
    "current_session h w = Inr cur" "session_event sid gen t cur = Inr (ev, extra)"
    "r = presence_event w k sid gen t ev extra"
  using assms unfolding admit_def by (auto simp: tryE_eq_Inr split: option.splits if_splits)

lemma session_event_InrD:
  assumes "session_event sid gen t cur = Inr (ev, extra)"
  obtains "ev = ''authenticated''" "cur = None"
  | c n where "cur = Some c" "as_int (dget c ''generation'') = Some n" "n \<le> gen" "dget c ''session_id'' = JStr sid"
      "ev = (if gen = n then ''heartbeat'' else ''reconnected'')"
  | c n now then' where "cur = Some c" "as_int (dget c ''generation'') = Some n" "n \<le> gen" "dget c ''session_id'' \<noteq> JStr sid"
      "instant (JStr t) = Inr now" "instant (dget c ''observed_at'') = Inr then'"
      "ev = (if n < gen \<and> SESSION_MAX_AGE_MICROS < now - then' then ''reconnected'' else ''duplicate-identity'')"
proof (cases cur)
  case None
  with assms that(1) show thesis by (simp add: session_event_def)
next
  case (Some c)
  from assms Some obtain g where g: "dsub c ''generation'' = Inr g"
    by (cases "dsub c ''generation''") (simp_all add: session_event_def)
  from assms Some g obtain n where n: "as_int g = Some n"
    by (cases "as_int g") (simp_all add: session_event_def)
  from assms Some g n have le: "n \<le> gen" by (simp add: session_event_def split: if_splits)
  from assms Some g n le obtain s where s: "dsub c ''session_id'' = Inr s"
    by (cases "dsub c ''session_id''") (simp_all add: session_event_def)
  have c: "dget c ''generation'' = g" "dget c ''session_id'' = s" using g s by (simp_all add: dsub_eq_Inr dget_eq)
  show thesis
  proof (cases "s = JStr sid")
    case True
    with assms Some g n le s have "ev = (if gen = n then ''heartbeat'' else ''reconnected'')"
      by (simp add: session_event_def split: if_splits)
    with that(2) Some n le c True show thesis by blast
  next
    case False
    with assms Some g n le s obtain now x then' where "instant (JStr t) = Inr now" "dsub c ''observed_at'' = Inr x"
      "instant x = Inr then'"
      "ev = (if n < gen \<and> SESSION_MAX_AGE_MICROS < now - then' then ''reconnected'' else ''duplicate-identity'')"
      unfolding session_event_def by (auto simp: tryE_eq_Inr [of "instant v" for v] tryE_eq_Inr [of "dsub c ''observed_at''"] split: if_splits)
    moreover from this(2) have "dget c ''observed_at'' = x" by (simp add: dsub_eq_Inr dget_eq)
    ultimately show thesis using that(3) Some n le c False by blast
  qed
qed

lemma admit_event:
  assumes "admit w k sid gen t h = Inr r"
  shows "\<exists>ev extra. r = presence_event w k sid gen t ev extra \<and> ev \<noteq> ''consumed''"
  using assms
proof (rule admit_InrD)
  fix cur ev extra
  assume "session_event sid gen t cur = Inr (ev, extra)" "r = presence_event w k sid gen t ev extra"
  moreover from this(1) have "ev \<noteq> ''consumed''" by (rule session_event_InrD) auto
  ultimately show ?thesis by blast
qed

lemma presence_event_dget:
  "k \<in> {''worker_id'', ''public_key_identity'', ''session_id'', ''generation'', ''observed_at'', ''event''} \<Longrightarrow>
   dget (presence_event w key sid gen t ev extra) k =
     dget (dict_of [(''worker_id'', JStr w), (''public_key_identity'', JStr key), (''session_id'', JStr sid),
       (''generation'', JInt gen), (''observed_at'', JStr t), (''event'', JStr ev)]) k"
  by (auto simp: presence_event_def)

lemma event_fields [simp]:
  "dget (authorization_record i x tok ex m) ''event'' = JStr ''created''"
  "dget (revoked_event a t r) ''event'' = JStr ''revoked''"
  "dget (membership_record dr rid w key t t' labels) ''event'' = JStr ''enrolled''"
  "dget (revocation_record w key t r) ''event'' = JStr ''revoked''"
  "dget (ended_event w sid gen t) ''event'' = JStr ''ended''"
  by (simp_all add: authorization_record_def revoked_event_def membership_record_def revocation_record_def ended_event_def)

lemma consumed_event_fields [simp]:
  "dget (consumed_event aid w t) ''authorization_id'' = aid" "dget (consumed_event aid w t) ''event'' = JStr ''consumed''"
  by (simp_all add: consumed_event_def)

lemma consume_locked_unused: "consume_locked h aid w t = Inr () \<Longrightarrow> consumptions aid h = 0"
  by (simp add: consumptions_0 consume_locked_fresh)

lemma consumptions_step:
  assumes "history_step h h'" and le: "consumptions aid h \<le> 1"
  shows "consumptions aid h' \<le> 1"
  using assms(1)
proof cases
  case (h_consumed aid' w t e)
  then show ?thesis using le consume_locked_unused [OF h_consumed(2)] by (auto simp: consumed_by_def holds_rget)
next
  case (h_submitted checked w t e e')
  moreover have "dget checked ''event'' = JNull" using h_submitted by (simp add: dget_def)
  ultimately show ?thesis
    using le consume_locked_unused [OF submit_precondition_consume [OF h_submitted(4)]] by (auto simp: consumed_by_def holds_rget)
next
  case (h_session w k sid gen t r e)
  from admit_event [OF h_session(2)] have "dget r ''event'' \<noteq> JStr ''consumed''" by (auto simp: presence_event_dget)
  then show ?thesis using h_session le holds_not_consumed by simp
qed (use le in \<open>simp_all add: holds_not_consumed\<close>)

text \<open>
  C14: Whatever the operations did, in whatever order, the ledger verifies, its history is one of the abstract
  machine, and no authorization has been consumed twice, by token or by request.
\<close>

theorem lifecycle_authorization_single_use:
  assumes "lifecycle_run F"
  shows "ledger_ok F \<and> history_step\<^sup>*\<^sup>* [] (stream_unlocked F) \<and> consumptions aid (stream_unlocked F) \<le> 1"
proof -
  have "consumptions aid h \<le> 1" if "history_step\<^sup>*\<^sup>* [] h" for h
    using that by (induction rule: rtranclp_induct) (simp, blast intro: consumptions_step)
  then show ?thesis using commits_refine [OF run_commits [OF assms]] by blast
qed

theorem lifecycle_authorization_single_use_witness:
  "\<exists>F. F = snd (submit_request JNull (JStr ''x'') ''c'' ''2026-01-01T00:00:00Z''
        (snd (consume_authorization (JStr ''secret'') (JStr ''w'') ''2026-01-01T00:00:00Z''
          (snd (create_authorization ''secret'' 600000000 JNull JNull ''2026-01-01T00:00:00Z'' empty_ledger)))))
     \<and> ledger_ok F \<and> history_step\<^sup>*\<^sup>* [] (stream_unlocked F) \<and> consumptions (JStr ''a'') (stream_unlocked F) \<le> 1"
  by (rule exI, rule conjI [OF refl])
    (rule lifecycle_authorization_single_use [OF run_submit [OF run_consume [OF run_create [OF run_empty]]]])

end
