(* ===== verification/Lifecycle_Safety.thy ===== *)
theory Lifecycle_Safety
  imports Lifecycle_History
begin

text \<open>
  The safety properties of the lifecycle store: keys of enrolled workers, sessions, the derived
  availability, revocation, and what a submitted enrollment request is checked against.
\<close>

section \<open>Membership\<close>

lemma latest_membership_snoc:
  "latest_membership (h @ [e]) w = (if membership_entry w e then Some (entry_record e) else latest_membership h w)"
  by (simp add: latest_membership_def find_last_snoc)

lemma latest_membership_snoc2:
  "latest_membership (h @ [e, e']) w = (if membership_entry w e' then Some (entry_record e') else latest_membership (h @ [e]) w)"
  using latest_membership_snoc [of "h @ [e]" e' w] by simp

lemma not_membership:
  "entry_holds rt r e \<Longrightarrow> rt \<notin> {''fleet.membership'', ''fleet.revocation''} \<Longrightarrow> \<not> membership_entry w e"
  by (auto simp: membership_entry_def holds_type)

lemma membership_holds:
  "entry_holds ''fleet.membership'' (membership_record dr rid w key t t' labels) e \<Longrightarrow>
     membership_entry w' e \<longleftrightarrow> w' = w"
  "entry_holds ''fleet.revocation'' (revocation_record w key t r) e \<Longrightarrow> membership_entry w' e \<longleftrightarrow> w' = w"
  by (auto simp: membership_entry_def holds_type holds_rget membership_record_def revocation_record_def)

lemma enrolled_records [simp]:
  "enrolled (membership_record dr rid w key t t' labels)" "\<not> enrolled (revocation_record w key t r)"
  "dget (membership_record dr rid w key t t' labels) ''public_key_identity'' = key"
  by (simp_all add: enrolled_def membership_record_def revocation_record_def)

lemma enrolled_key_step:
  assumes "history_step h h'" and m: "latest_membership h w = Some m" "enrolled m"
    and m': "latest_membership h' w = Some m'" "enrolled m'"
  shows "dget m' ''public_key_identity'' = dget m ''public_key_identity''"
  using assms(1)
proof cases
  case (h_approved rid request w0 t key dr reason e t' labels e')
  show ?thesis
  proof (cases "w0 = w")
    case True
    with h_approved(2) m have "dget m ''public_key_identity'' = dget request ''public_key_identity''"
      by (auto simp: decision_precondition_def tryE_eq_Inr split: if_splits)
    moreover have "m' = membership_record dr rid w key t t' labels"
      using m'(1) h_approved True holds_entry [OF h_approved(6)] membership_holds(1) [OF h_approved(6)]
      by (simp add: latest_membership_snoc2)
    ultimately show ?thesis using h_approved(3) by simp
  next
    case False
    then have "m' = m"
      using m'(1) m(1) h_approved membership_holds(1) [OF h_approved(6)] not_membership [OF h_approved(5)]
      by (simp add: latest_membership_snoc2 latest_membership_snoc)
    then show ?thesis by simp
  qed
next
  case (h_worker_revoked w0 key t r e)
  have e: "entry_record e = revocation_record w0 key t r" using holds_entry [OF h_worker_revoked(3)] by simp
  have "m' \<noteq> revocation_record w0 key t r" using m'(2) by auto
  then have "m' = m"
    using m(1) m'(1) h_worker_revoked(1) e membership_holds(2) [OF h_worker_revoked(3), of w]
    by (auto simp: latest_membership_snoc)
  then show ?thesis by simp
next
  case (h_submitted checked w0 t e e')
  then have "m' = m"
    using m'(1) m(1) not_membership [OF h_submitted(5)] not_membership [OF h_submitted(6)]
    by (simp add: latest_membership_snoc2 latest_membership_snoc)
  then show ?thesis by simp
qed (use m m' in \<open>simp_all add: latest_membership_snoc not_membership\<close>)

section \<open>Sessions\<close>

lemma current_session_snoc:
  "current_session (h @ [e]) w =
     (if session_entry w e then tryE (current_session h w) (session_step (entry_record e)) else current_session h w)"
  by (simp add: current_session_def foldE_snoc)

lemma session_step_conflict: "dget r ''event'' = JStr ''duplicate-identity'' \<Longrightarrow> session_step r a = Inr a"
  by (simp add: session_step_def)

lemma all_records_InrD: "all_records None F = Inr es \<Longrightarrow> ledger_ok F \<and> es = stream_unlocked F"
  by (auto simp: all_records_def tryE_eq_Inr of_type_def dest: require_clean_InrD)

lemma lifecycle_records_InrD: "lifecycle_records F = Inr es \<Longrightarrow> ledger_ok F \<and> es = stream_unlocked F"
  by (auto simp: lifecycle_records_def tryE_eq_Inr dest: all_records_InrD)

lemma worker_status_InrD:
  assumes "worker_status (JStr w) now max_age F = Inr st"
  obtains current_time m session conflict age where "timestamp ''now'' (JStr now) = Inr current_time"
    "latest_membership (stream_unlocked F) w = Some m" "current_session (stream_unlocked F) w = Inr session"
    "conflict_after_session (find_conflict (stream_unlocked F) w) session = Inr conflict"
    "session_age current_time session = Inr age"
    "dget st ''session_id'' = session_get session ''session_id''"
    "dget st ''presence'' = JStr (fst (presence_of m conflict session (is_fresh max_age age)))"
    "dget st ''availability'' = JStr (snd (presence_of m conflict session (is_fresh max_age age)))"
proof -
  from assms obtain current_time records where ct: "timestamp ''now'' (JStr now) = Inr current_time"
    and records: "lifecycle_records F = Inr records" and st: "status_of w current_time max_age records = Inr st"
    by (auto simp: worker_status_def result_simps)
  have "records = stream_unlocked F" using lifecycle_records_InrD [OF records] by simp
  with ct st that show thesis
    by (auto simp: status_of_def tryE_eq_Inr status_record_def split: option.splits)
qed

lemma authenticate_InrD:
  assumes "authenticate_session (JStr w) k (JStr s) g t F = (Inr st, F')"
  obtains t' e where "timestamp ''authenticated_at'' (JStr t) = Inr t'"
    "append_computed ''presence.session'' (admit w k s g t') F = Inr (e, F')"
    "worker_status (JStr w) t' SESSION_MAX_AGE_MICROS F' = Inr st"
  using assms unfolding authenticate_session_def
  by (auto simp: result_simps split: if_splits)

lemma authenticate_admitted:
  assumes "authenticate_session (JStr w) k (JStr s) g t F = (Inr st, F')"
  obtains m where "latest_membership (stream_unlocked F) w = Some m" "enrolled m" "dget m ''public_key_identity'' = JStr k"
  using assms
proof (rule authenticate_InrD)
  fix t' e
  assume "append_computed ''presence.session'' (admit w k s g t') F = Inr (e, F')"
  then obtain r where "admit w k s g t' (stream_unlocked F) = Inr r" by (rule append_computed_InrD)
  then show thesis by (rule admit_InrD) (rule that)
qed

section \<open>Example ledgers\<close>

definition demo_ledger :: "(string \<times> dict) list \<Rightarrow> ledger_file" where
  "demo_ledger rs = write_entries (run_entries rs) empty_ledger"

lemma demo_ledger_simps [simp]: "ledger_ok (demo_ledger rs)" "stream_unlocked (demo_ledger rs) = run_entries rs"
  by (simp_all add: demo_ledger_def run_entries_ok)

lemma next_entry_simps [simp]:
  "has_type t (next_entry rt r es) \<longleftrightarrow> t = rt" "rget (next_entry rt r es) k = dget r k"
  by (auto simp: holds_type [OF next_entry_holds] holds_rget [OF next_entry_holds])

lemma supported_schemas [simp]:
  "AUTHORIZATION_SCHEMA \<in> set SUPPORTED_RECORD_SCHEMAS" "MEMBERSHIP_SCHEMA \<in> set SUPPORTED_RECORD_SCHEMAS"
  "PRESENCE_SCHEMA \<in> set SUPPORTED_RECORD_SCHEMAS" "REQUEST_SCHEMA \<in> set SUPPORTED_RECORD_SCHEMAS"
  by (simp_all add: SUPPORTED_RECORD_SCHEMAS_def)

definition supported :: "dict \<Rightarrow> bool" where
  "supported r = (\<exists>sc \<in> set SUPPORTED_RECORD_SCHEMAS. dget r ''schema_version'' = JStr sc)"

lemma supported_next: "supported r \<Longrightarrow> supported_entry (next_entry rt r es) u = Inr ()"
  by (auto simp: supported_entry_def supported_def next_entry_def)

lemma lifecycle_records_write:
  assumes "ledger_ok F" and "foldE supported_entry (stream_unlocked F) () = Inr ()" and "supported r"
  shows "lifecycle_records (write_entries [next_entry rt r (stream_unlocked F)] F) =
    Inr (stream_unlocked F @ [next_entry rt r (stream_unlocked F)])"
  using assms ok_write_next [OF assms(1)]
  by (simp add: lifecycle_records_def all_records_def require_clean_ok of_type_def foldE_snoc supported_next)

lemma run_entries_supported: "\<forall>x \<in> set rs. supported (snd x) \<Longrightarrow> foldE supported_entry (run_entries rs) () = Inr ()"
proof (induction rs rule: rev_induct)
  case (snoc x rs)
  then show ?case by (cases x) (simp add: foldE_snoc supported_next)
qed simp

lemma lifecycle_records_demo:
  "\<forall>x \<in> set rs. supported (snd x) \<Longrightarrow> lifecycle_records (demo_ledger rs) = Inr (run_entries rs)"
  using run_entries_supported [of rs] by (simp add: lifecycle_records_def all_records_def require_clean_ok of_type_def)

definition demo_key :: string where
  "demo_key = ''sha256:'' @ replicate 64 (CHR ''0'')"

definition demo_member :: dict where
  "demo_member = dict_of [(''schema_version'', JStr MEMBERSHIP_SCHEMA), (''worker_id'', JStr ''w''),
     (''membership_status'', JStr ''ENROLLED''), (''public_key_identity'', JStr demo_key)]"

definition demo_session :: dict where
  "demo_session = dict_of [(''schema_version'', JStr PRESENCE_SCHEMA), (''worker_id'', JStr ''w''),
     (''session_id'', JStr ''s1''), (''generation'', JInt 1), (''observed_at'', JStr ''2026-01-01T00:00:00Z''),
     (''event'', JStr ''authenticated'')]"

lemma demo_member_fields [simp]:
  "dget demo_member ''worker_id'' = JStr ''w''" "dget demo_member ''membership_status'' = JStr ''ENROLLED''"
  "dget demo_member ''public_key_identity'' = JStr demo_key" "dget demo_member ''event'' = JNull" "enrolled demo_member"
  "dget demo_session ''worker_id'' = JStr ''w''" "dget demo_session ''session_id'' = JStr ''s1''"
  "dget demo_session ''generation'' = JInt 1" "dget demo_session ''observed_at'' = JStr ''2026-01-01T00:00:00Z''"
  "dget demo_session ''event'' = JStr ''authenticated''" "supported demo_member" "supported demo_session"
  "dsub demo_session ''generation'' = Inr (JInt 1)" "dsub demo_session ''session_id'' = Inr (JStr ''s1'')"
  "dsub demo_session ''observed_at'' = Inr (JStr ''2026-01-01T00:00:00Z'')"
  "dget_default demo_session ''observed_at'' d = JStr ''2026-01-01T00:00:00Z''"
  "dsub demo_member ''public_key_identity'' = Inr (JStr demo_key)"
  by (simp_all add: demo_member_def demo_session_def enrolled_def supported_def dsub_def fmlookup_of_list)

lemma demo_one: "run_entries [(rt, r)] = [next_entry rt r []]"
  using run_entries_snoc(2) [of "[]" rt r] by simp

lemma demo_two: "run_entries [(rt, r), (rt', r')] = [next_entry rt r [], next_entry rt' r' [next_entry rt r []]]"
  using run_entries_snoc(2) [of "[(rt, r)]" rt' r'] by (simp add: demo_one)

lemma demo_identity: "identity_ok ''w''" "identity_ok ''s2''" "bounded_ok 512 ''lost''" "is_sha256_identity (JStr demo_key)"
  by (simp_all add: identity_ok_def bounded_ok_def matches_identity_def is_alnum_def is_ascii_digit_def demo_key_def
      is_sha256_identity_def IDENTITY_PREFIX_def startswith_def list_all_iff)

lemmas history_eval = latest_membership_def current_session_def find_conflict_def find_last_rev find_first_Cons
  membership_entry_def session_entry_def session_step_def

section \<open>Properties\<close>

text \<open>
  C15: An enrolled worker keeps its key: no step of any process replaces the key of an enrolled worker by
  another; the worker has to be revoked first.
\<close>

theorem enrolled_worker_keeps_its_key:
  assumes "commit F F'" and "decisions_ok (stream_unlocked F)"
    and m: "latest_membership (stream_unlocked F) w = Some m" "enrolled m"
    and m': "latest_membership (stream_unlocked F') w = Some m'" "enrolled m'"
  shows "dget m' ''public_key_identity'' = dget m ''public_key_identity''"
  using commit_refines [OF assms(1,2)] enrolled_key_step [OF _ m m'] m(1) m'(1) by auto

theorem enrolled_worker_keeps_its_key_witness:
  "sha256_identity (JObj (presence_event ''w'' demo_key ''s2'' 1 ''2026-01-01T00:00:00Z'' ''authenticated'' []))
      = sha256_identity (JObj demo_member) \<or>
   (\<exists>F F' m m'. commit F F' \<and> F' \<noteq> F \<and> latest_membership (stream_unlocked F') ''w'' = Some m' \<and> enrolled m'
     \<and> latest_membership (stream_unlocked F) ''w'' = Some m \<and> dget m' ''public_key_identity'' = dget m ''public_key_identity'')"
proof (rule unlessI)
  let ?r = "presence_event ''w'' demo_key ''s2'' 1 ''2026-01-01T00:00:00Z'' ''authenticated'' []"
  let ?F = "demo_ledger [(''fleet.membership'', demo_member)]"
  assume "sha256_identity (JObj ?r) \<noteq> sha256_identity (JObj demo_member)"
  then have fresh: "fresh_record ?r (stream_unlocked ?F)" by (simp add: demo_one fresh_record_def)
  have m: "latest_membership (stream_unlocked ?F) ''w'' = Some demo_member"
    by (simp add: demo_one history_eval)
  have a: "admit ''w'' demo_key ''s2'' 1 ''2026-01-01T00:00:00Z'' (stream_unlocked ?F) = Inr ?r"
    using m by (simp add: admit_def demo_one session_event_def) (simp add: current_session_def session_entry_def)
  from append_computed_fresh [of ?F "''presence.session''" "admit ''w'' demo_key ''s2'' 1 ''2026-01-01T00:00:00Z''", OF _ _ a fresh]
  obtain e F'
    where app: "append_computed ''presence.session'' (admit ''w'' demo_key ''s2'' 1 ''2026-01-01T00:00:00Z'') ?F = Inr (e, F')"
      and F': "stream_unlocked F' = stream_unlocked ?F @ [next_entry ''presence.session'' ?r (stream_unlocked ?F)]"
    by (auto simp del: append_eq_Cons_conv)
  have c: "commit ?F F'" using app by (rule commit.session)
  have d: "decisions_ok (stream_unlocked ?F)" by (simp add: decisions_ok_def demo_one)
  have m': "latest_membership (stream_unlocked F') ''w'' = Some demo_member"
    unfolding F' latest_membership_snoc using m by (simp add: membership_entry_def)
  have "F' \<noteq> ?F" using F' by (metis append_self_conv list.distinct(1))
  with c m m' enrolled_worker_keeps_its_key [OF c d m _ m'] show "\<exists>F F' m m'. commit F F' \<and> F' \<noteq> F
     \<and> latest_membership (stream_unlocked F') ''w'' = Some m' \<and> enrolled m'
     \<and> latest_membership (stream_unlocked F) ''w'' = Some m \<and> dget m' ''public_key_identity'' = dget m ''public_key_identity''"
    by (intro exI [of _ ?F] exI [of _ F'] exI [of _ demo_member]) simp
qed

text \<open>
  C16: A second session cannot take over a live one: while the current session of a worker was seen within the last
  five minutes, authenticating another session with the worker's own key leaves the current
  session in place, and the status reports it.
\<close>

theorem live_session_is_not_taken_over:
  assumes run: "authenticate_session (JStr w) k (JStr s) g t F = (Inr st, F')"
    and cur: "current_session (stream_unlocked F) w = Inr (Some c)" and other: "dget c ''session_id'' \<noteq> JStr s"
    and t: "timestamp ''authenticated_at'' (JStr t) = Inr t'" "instant (JStr t') = Inr now"
    and live: "instant (dget c ''observed_at'') = Inr seen" "now - seen \<le> 300000000"
  shows "current_session (stream_unlocked F') w = Inr (Some c) \<and> dget st ''session_id'' = dget c ''session_id''"
  using run
proof (rule authenticate_InrD)
  fix t'' e
  assume "timestamp ''authenticated_at'' (JStr t) = Inr t''"
    and app: "append_computed ''presence.session'' (admit w k s g t'') F = Inr (e, F')"
    and st: "worker_status (JStr w) t'' SESSION_MAX_AGE_MICROS F' = Inr st"
  with t(1) have t'': "t'' = t'" by simp
  from app obtain r where adm: "admit w k s g t' (stream_unlocked F) = Inr r"
    and e: "entry_holds ''presence.session'' r e"
    and F': "F' = F \<or> stream_unlocked F' = stream_unlocked F @ [e]"
    unfolding t'' by (rule append_computed_InrD) auto
  from adm have r: "dget r ''event'' = JStr ''duplicate-identity''"
  proof (rule admit_InrD)
    fix cur' ev extra
    assume "current_session (stream_unlocked F) w = Inr cur'" and ev: "session_event s g t' cur' = Inr (ev, extra)"
      and r: "r = presence_event w k s g t' ev extra"
    with cur have "cur' = Some c" by simp
    with ev have "ev = ''duplicate-identity''"
      using other t live by (elim session_event_InrD) (auto simp: SESSION_MAX_AGE_MICROS_def)
    with r show ?thesis by (simp add: presence_event_dget)
  qed
  have "entry_record e = r" using holds_entry [OF e] by simp
  with F' cur r have c: "current_session (stream_unlocked F') w = Inr (Some c)"
    by (auto simp: current_session_snoc session_step_conflict)
  with st show ?thesis by (elim worker_status_InrD) (auto simp: session_get_def)
qed

lemma demo_session_current:
  "current_session (run_entries [(''fleet.membership'', demo_member), (''presence.session'', demo_session)]) ''w''
     = Inr (Some demo_session)"
  "latest_membership (run_entries [(''fleet.membership'', demo_member), (''presence.session'', demo_session)]) ''w''
     = Some demo_member"
  "find_conflict (run_entries [(''fleet.membership'', demo_member), (''presence.session'', demo_session)]) ''w'' = None"
  by (simp_all add: demo_two history_eval)

definition demo_conflict :: dict where
  "demo_conflict = presence_event ''w'' demo_key ''s2'' 2 ''2026-01-01T00:00:00Z'' ''duplicate-identity''
     [(''conflicts_with_session_id'', JStr ''s1''), (''conflicts_with_generation'', JInt 1)]"

lemma demo_conflict_fields [simp]:
  "dget demo_conflict ''worker_id'' = JStr ''w''" "dget demo_conflict ''event'' = JStr ''duplicate-identity''"
  "dget_default demo_conflict ''observed_at'' d = JStr ''2026-01-01T00:00:00Z''" "supported demo_conflict"
  by (simp_all add: demo_conflict_def presence_event_def supported_def dget_default_def)

theorem live_session_is_not_taken_over_witness:
  "sha256_identity (JObj demo_conflict) \<in> {sha256_identity (JObj demo_member), sha256_identity (JObj demo_session)} \<or>
   (\<exists>F F' st. authenticate_session (JStr ''w'') demo_key (JStr ''s2'') 2 ''2026-01-01T00:00:00Z'' F = (Inr st, F')
     \<and> F' \<noteq> F \<and> current_session (stream_unlocked F') ''w'' = Inr (Some demo_session)
     \<and> dget st ''session_id'' = JStr ''s1'')"
proof (rule unlessI)
  let ?rs = "[(''fleet.membership'', demo_member), (''presence.session'', demo_session)]"
  let ?F = "demo_ledger ?rs" and ?t = "''2026-01-01T00:00:00Z''"
  let ?e = "next_entry ''presence.session'' demo_conflict (stream_unlocked ?F)"
  let ?F' = "write_entries [?e] ?F"
  assume "sha256_identity (JObj demo_conflict) \<notin> {sha256_identity (JObj demo_member), sha256_identity (JObj demo_session)}"
  then have fresh: "fresh_record demo_conflict (stream_unlocked ?F)" by (simp add: demo_two fresh_record_def)
  have a: "admit ''w'' demo_key ''s2'' 2 ?t (stream_unlocked ?F) = Inr demo_conflict"
    by (simp add: admit_def demo_session_current session_event_def timestamp_examples demo_conflict_def SESSION_MAX_AGE_MICROS_def)
  have app: "append_computed ''presence.session'' (admit ''w'' demo_key ''s2'' 2 ?t) ?F = Inr (?e, ?F')"
    using append_computed_fresh [of ?F "''presence.session''" "admit ''w'' demo_key ''s2'' 2 ?t", OF _ _ a fresh] by simp
  have rec: "lifecycle_records ?F' = Inr (stream_unlocked ?F @ [?e])"
    by (rule lifecycle_records_write) (simp_all add: run_entries_supported)
  have "current_session (stream_unlocked ?F @ [?e]) ''w'' = Inr (Some demo_session)"
    unfolding current_session_snoc by (simp add: demo_session_current session_step_conflict)
  moreover have "latest_membership (stream_unlocked ?F @ [?e]) ''w'' = Some demo_member"
    unfolding latest_membership_snoc by (simp add: demo_session_current membership_entry_def)
  moreover have "find_conflict (stream_unlocked ?F @ [?e]) ''w'' = Some demo_conflict"
    by (simp add: find_conflict_def find_last_snoc)
  ultimately obtain st where "worker_status (JStr ''w'') ?t SESSION_MAX_AGE_MICROS ?F' = Inr st"
    using demo_identity rec
    by (simp add: worker_status_def MAX_TTL_MICROS_def SESSION_MAX_AGE_MICROS_def timestamp_examples status_of_def
        conflict_after_session_def text_ge_def session_age_def)
  then have run: "authenticate_session (JStr ''w'') demo_key (JStr ''s2'') 2 ?t ?F = (Inr st, ?F')"
    using demo_identity app by (simp add: authenticate_session_def timestamp_examples session_id_field_eq_Inr result_simps)
  have ne: "?F' \<noteq> ?F" by (metis append_self_conv list.distinct(1) stream_write)
  have cur: "current_session (stream_unlocked ?F) ''w'' = Inr (Some demo_session)" by (simp add: demo_session_current)
  have "current_session (stream_unlocked ?F') ''w'' = Inr (Some demo_session) \<and> dget st ''session_id'' = dget demo_session ''session_id''"
    by (rule live_session_is_not_taken_over [where t' = ?t and now = 1767225600000000 and seen = 1767225600000000, OF run cur])
      (simp_all add: timestamp_examples)
  with run ne show "\<exists>F F' st. authenticate_session (JStr ''w'') demo_key (JStr ''s2'') 2 ?t F = (Inr st, F')
     \<and> F' \<noteq> F \<and> current_session (stream_unlocked F') ''w'' = Inr (Some demo_session)
     \<and> dget st ''session_id'' = JStr ''s1''"
    by (intro exI [of _ ?F] exI [of _ ?F'] exI [of _ st]) simp
qed


lemma demo_status:
  "worker_status (JStr ''w'') ''2026-01-01T00:00:00Z'' 300000000
     (demo_ledger [(''fleet.membership'', demo_member), (''presence.session'', demo_session)]) =
   Inr (status_record ''w'' demo_member (Some demo_session) False (Some 0) True)"
  using demo_identity
  by (simp add: worker_status_def MAX_TTL_MICROS_def timestamp_examples lifecycle_records_demo status_of_def
      demo_session_current conflict_after_session_def session_age_def is_fresh_def)


text \<open>
  Revocation is effective: once a worker is revoked by a record the ledger did not hold, no session of it is
  authenticated, whatever key and generation it presents, and the reported membership is unavailable.
\<close>

theorem revoked_worker_cannot_authenticate:
  assumes run: "revoke_worker (JStr w) (JStr reason) t1 t2 F = (Inr r, F')"
    and rec: "prepare_revocation w reason t1 (stream_unlocked F) = Inr rec" "fresh_record rec (stream_unlocked F)"
  shows "fst (authenticate_session (JStr w) k (JStr s) g t F') \<noteq> Inr st \<and> dget r ''availability'' = JStr ''UNAVAILABLE''"
proof -
  from run obtain e where app: "append_if ''fleet.revocation'' rec (still_enrolled w) F = Inr (e, F')"
    and mem: "membership (JStr w) t2 F' = Inr r"
    using rec(1) unfolding revoke_worker_def by (auto simp: result_simps dest!: lifecycle_records_InrD)
  obtain key t' where rec': "rec = revocation_record w key t' reason"
    using rec(1) by (auto simp: prepare_revocation_def tryE_eq_Inr split: option.splits if_splits)
  have "stream_unlocked F' = stream_unlocked F @ [next_entry ''fleet.revocation'' rec (stream_unlocked F)]"
  proof -
    from app obtain "ledger_ok F" "still_enrolled w (stream_unlocked F) = Inr ()"
      unfolding append_if_def by (elim append_computed_InrD) (auto simp: tryE_eq_Inr)
    with app append_if_fresh [OF _ _ _ rec(2)] show ?thesis by auto
  qed
  then have m: "latest_membership (stream_unlocked F') w = Some rec"
    using membership_holds(2) [of w key t' reason "next_entry ''fleet.revocation'' rec (stream_unlocked F)" w]
    unfolding rec' by (simp add: latest_membership_snoc)
  have no: "\<not> enrolled rec" by (simp add: rec')
  have "fst (authenticate_session (JStr w) k (JStr s) g t F') \<noteq> Inr st"
  proof
    assume "fst (authenticate_session (JStr w) k (JStr s) g t F') = Inr st"
    then have "authenticate_session (JStr w) k (JStr s) g t F' = (Inr st, snd (authenticate_session (JStr w) k (JStr s) g t F'))"
      by (simp add: prod_eq_iff)
    then show False using m no by (elim authenticate_admitted) auto
  qed
  moreover from mem obtain v st' where st': "worker_status (JStr w) t2 SESSION_MAX_AGE_MICROS F' = Inr st'" "r = v ++\<^sub>f st'"
    by (auto simp: membership_def result_simps split: option.splits)
  moreover from st'(1) have "dget st' ''availability'' = JStr ''UNAVAILABLE''"
    using m no by (elim worker_status_InrD) (auto simp: presence_of_def)
  ultimately show ?thesis by (simp add: dget_merge)
qed

theorem revoked_worker_cannot_authenticate_witness:
  "sha256_identity (JObj (revocation_record ''w'' (JStr demo_key) ''2026-01-01T00:00:00Z'' ''lost''))
      = sha256_identity (JObj demo_member) \<or>
   (\<exists>F F' r. revoke_worker (JStr ''w'') (JStr ''lost'') ''2026-01-01T00:00:00Z'' ''2026-01-01T00:00:00Z'' F = (Inr r, F')
     \<and> dget r ''availability'' = JStr ''UNAVAILABLE''
     \<and> (\<forall>st. fst (authenticate_session (JStr ''w'') demo_key (JStr ''s2'') 1 ''2026-01-01T00:00:00Z'' F') \<noteq> Inr st))"
proof (rule unlessI)
  let ?t = "''2026-01-01T00:00:00Z''" and ?rs = "[(''fleet.membership'', demo_member)]"
  let ?F = "demo_ledger ?rs" and ?r = "revocation_record ''w'' (JStr demo_key) ?t ''lost''"
  let ?e = "next_entry ''fleet.revocation'' ?r (stream_unlocked ?F)"
  let ?F' = "write_entries [?e] ?F"
  assume "sha256_identity (JObj ?r) \<noteq> sha256_identity (JObj demo_member)"
  then have fresh: "fresh_record ?r (stream_unlocked ?F)" by (simp add: demo_one fresh_record_def)
  have m: "latest_membership (stream_unlocked ?F) ''w'' = Some demo_member" by (simp add: demo_one history_eval)
  have prep: "prepare_revocation ''w'' ''lost'' ?t (stream_unlocked ?F) = Inr ?r"
    using m by (simp add: prepare_revocation_def timestamp_examples)
  have app: "append_if ''fleet.revocation'' ?r (still_enrolled ''w'') ?F = Inr (?e, ?F')"
    by (rule append_if_fresh [OF _ _ _ fresh]) (use m in \<open>simp_all add: still_enrolled_def\<close>)
  have rec: "lifecycle_records ?F = Inr (stream_unlocked ?F)" by (simp add: lifecycle_records_demo)
  have r: "supported ?r" by (simp add: supported_def revocation_record_def)
  have rec': "lifecycle_records ?F' = Inr (stream_unlocked ?F @ [?e])"
    by (rule lifecycle_records_write [OF _ _ r]) (simp_all add: run_entries_supported)
  have "latest_membership (stream_unlocked ?F @ [?e]) ''w'' = Some ?r"
    using membership_holds(2) [of "''w''" "JStr demo_key" ?t "''lost''" ?e "''w''"] by (simp add: latest_membership_snoc)
  moreover have "current_session (stream_unlocked ?F @ [?e]) ''w'' = Inr None"
    "find_conflict (stream_unlocked ?F @ [?e]) ''w'' = None"
    by (simp_all add: demo_one current_session_def session_entry_def find_conflict_def find_last_rev find_first_Cons)
  ultimately obtain r where "membership (JStr ''w'') ?t ?F' = Inr r"
    using demo_identity rec'
    by (simp add: membership_def worker_status_def MAX_TTL_MICROS_def SESSION_MAX_AGE_MICROS_def timestamp_examples
        status_of_def conflict_after_session_def session_age_def)
  then have run: "revoke_worker (JStr ''w'') (JStr ''lost'') ?t ?t ?F = (Inr r, ?F')"
    using demo_identity rec prep app by (simp add: revoke_worker_def result_simps)
  from run revoked_worker_cannot_authenticate [OF run prep fresh]
  show "\<exists>F F' r. revoke_worker (JStr ''w'') (JStr ''lost'') ?t ?t F = (Inr r, F')
     \<and> dget r ''availability'' = JStr ''UNAVAILABLE''
     \<and> (\<forall>st. fst (authenticate_session (JStr ''w'') demo_key (JStr ''s2'') 1 ?t F') \<noteq> Inr st)"
    by blast
qed

section \<open>Submission\<close>

lemma create_authorization_InrD:
  assumes "create_authorization tok ttl JNull JNull issued F = (Inr auth, F')"
  obtains i x e where "ledger_append ''enrollment.authorization'' (authorization_record i x tok JNull fmempty) F = Inr (e, F')"
    "dget auth ''authorization_id'' = dget (authorization_record i x tok JNull fmempty) ''authorization_id''"
    "dget auth ''expires_at'' = JStr x"
proof -
  from assms obtain r e where r: "\<exists>i x. r = authorization_record i x tok JNull fmempty"
    and app: "ledger_append ''enrollment.authorization'' r F = Inr (e, F')"
    and shown: "tryE (redact_authorization r ''ACTIVE'') (\<lambda>shown. Inr (fmupd ''token'' (JStr tok) shown)) = Inr auth"
    unfolding create_authorization_def
    by (auto simp: act_bind_eq_Inr act_lift_eq_Inr act_op_eq_Inr tryE_eq_Inr metadata_field_def split: if_splits)
  from r obtain i x where r': "r = authorization_record i x tok JNull fmempty" by blast
  have "dget auth ''authorization_id'' = dget r ''authorization_id''" "dget auth ''expires_at'' = JStr x"
    using shown unfolding r' by (auto simp: redact_authorization_def tryE_eq_Inr dsub_eq_Inr dget_eq authorization_record_def)
  with app that show thesis unfolding r' by blast
qed

lemma new_authorization_active:
  assumes "h = [next_entry ''enrollment.authorization'' (authorization_record i x tok JNull m) []]"
    and "instant (JStr t) = Inr n" "instant (JStr x) = Inr u" "n < u"
  shows "consume_locked h (dget (authorization_record i x tok JNull m) ''authorization_id'') w t = Inr ()"
proof -
  let ?r = "authorization_record i x tok JNull m"
  let ?a = "dget ?r ''authorization_id''" and ?e = "next_entry ''enrollment.authorization'' ?r []"
  have x: "dsub ?r ''expires_at'' = Inr (JStr x)" by (simp add: authorization_record_def dsub_def)
  have f: "find_authorization [?e] ?a = Some ?r" by (simp add: find_authorization_def find_first_Cons)
  have n: "filterE (authorization_event ?a) [?e] = Inr []" by (simp add: authorization_event_def)
  have "record_status [?e] ?a t = Inr ''ACTIVE''"
    unfolding record_status_def f n using assms(2-4) by (simp add: x)
  moreover have "dget ?r ''expected_worker_identity'' = JNull" by (simp add: authorization_record_def)
  ultimately show ?thesis unfolding assms(1) by (simp add: consume_locked_def find_first_Cons)
qed


definition demo_pem :: string where
  "demo_pem = ''-----BEGIN PUBLIC KEY-----'' @ [CHR 0x0A] @ ''MCowBQYDK2VwAyEAdGVzdGtl'' @ [CHR 0x0A]
     @ ''-----END PUBLIC KEY-----'' @ [CHR 0x0A]"

lemma demo_pem_ok: "public_key_field (JStr demo_pem) = Inr demo_pem"
  by code_simp

definition demo_request :: "json \<Rightarrow> dict" where
  "demo_request authorization_id = attach_identity (dict_of
     [(''schema_version'', JStr REQUEST_SCHEMA), (''worker_identity'', JStr ''w''),
      (''public_key_pem'', JStr demo_pem), (''public_key_identity'', JStr (public_key_identity demo_pem)),
      (''hostname_hint'', JStr ''h''), (''operating_system'', JStr ''o''), (''architecture'', JStr ''a''),
      (''requested_at'', JStr ''2026-01-01T00:00:00Z''), (''authorization_id'', authorization_id),
      (''metadata'', JObj fmempty)]) ''request_id''"

lemma bounded_identity: "bounded_ok 80 (sha256_identity v)"
proof -
  have "CHR 0x00 \<notin> set (sha256_hex (canonical_json_bytes v))" using sha256_hex_chars by fastforce
  then show ?thesis
    by (simp add: bounded_ok_def sha256_identity_def sha256_identity_bytes_def IDENTITY_PREFIX_def sha256_hex_length)
qed

lemma demo_request_checks: "check_request ''c'' (JObj (demo_request (JStr (sha256_identity v)))) = Inr (demo_request (JStr (sha256_identity v)))"
proof -
  let ?q = "demo_request (JStr (sha256_identity v))"
  have keys: "keys_are ?q request_fields"
    by (auto simp: keys_are_def demo_request_def request_fields_def)
  have b: "bounded_ok 255 ''h''" "bounded_ok 64 ''o''" "bounded_ok 64 ''a''" by (simp_all add: bounded_ok_def)
  have md: "metadata_field (JObj fmempty) = Inr fmempty" by (rule metadata_field_idem [of JNull]) (simp add: metadata_field_def)
  have "build_request (JStr ''w'') (JStr demo_pem) (JStr ''h'') (JStr ''o'') (JStr ''a'') (JStr (sha256_identity v))
      (JStr ''2026-01-01T00:00:00Z'') (JObj fmempty) = Inr ?q"
    using demo_identity b by (simp add: build_request_def demo_pem_ok timestamp_examples bounded_identity md demo_request_def)
  moreover have "dget ?q ''schema_version'' = JStr REQUEST_SCHEMA" "dget ?q ''worker_identity'' = JStr ''w''"
    "dget ?q ''public_key_pem'' = JStr demo_pem" "dget ?q ''hostname_hint'' = JStr ''h''"
    "dget ?q ''operating_system'' = JStr ''o''" "dget ?q ''architecture'' = JStr ''a''"
    "dget ?q ''requested_at'' = JStr ''2026-01-01T00:00:00Z''" "dget ?q ''authorization_id'' = JStr (sha256_identity v)"
    "dget ?q ''metadata'' = JObj fmempty"
    by (simp_all add: demo_request_def)
  ultimately show ?thesis using keys by (simp add: check_request_def py_or_def)
qed

lemma demo_expiry: "show_instant 1767226200000000 = ''2026-01-01T00:10:00Z''" "instant (JStr ''2026-01-01T00:10:00Z'') = Inr 1767226200000000"
proof -
  have "fixed_digits 4 2026 = ''2026''" "fixed_digits 2 1 = ''01''" "fixed_digits 2 0 = ''00''" "fixed_digits 2 10 = ''10''"
    by (simp_all add: fixed_digits_numeral fixed_digits_Suc digit_chars)
  then show "show_instant 1767226200000000 = ''2026-01-01T00:10:00Z''"
    unfolding show_instant_def Let_def by (simp add: civil_example utc_isoformat_def)
  show "instant (JStr ''2026-01-01T00:10:00Z'') = Inr 1767226200000000"
    by (simp add: instant_def parse_eval instant_of_offset_def instant_range)
qed


end
