(* ===== verification/Trust_Store.thy ===== *)
theory Trust_Store
  imports Ledger
begin

text \<open>
  \<^verbatim>\<open>src/src/mncs_fabric/enrollment.py\<close>: the operator-managed trust ledger that says which certificate
  fingerprint is authorised for a controller or worker identity. The state is the ledger file, the
  cache of the latest record per identity, and the file the cache was computed from (the stat token,
  taken to be exact). The identity, its type and the event of a trust record are strings, as this store
  writes them.

  Shown here: an enrolled fingerprint is the only one that authorises, until it is revoked; an active
  identity cannot be rebound; the cache agrees with the ledger as long as every record appended was
  new to it; and it does not otherwise: a revocation record equal to an earlier one is not written,
  so that a revoked certificate is authorised again by the next process that reads the ledger.
\<close>

section \<open>State and projection\<close>

type_synonym trust_cache = "(string \<times> string, dict) fmap"

record trust_store =
  ts_ledger :: ledger_file
  ts_cache :: trust_cache
  ts_token :: "ledger_file option"

definition trust_open :: "ledger_file \<Rightarrow> trust_store" where
  "trust_open F = \<lparr>ts_ledger = F, ts_cache = fmempty, ts_token = None\<rparr>"

definition trust_key :: "dict \<Rightarrow> (string \<times> string) option" where
  "trust_key rec =
     (case (dget rec ''identity_type'', dget rec ''identity'', dget rec ''event'') of
        (JStr itype, JStr ident, JStr event) \<Rightarrow>
          if itype \<noteq> [] \<and> ident \<noteq> [] \<and> event \<in> {''enrolled'', ''revoked''} then Some (itype, ident) else None
      | _ \<Rightarrow> None)"

definition trust_step :: "dict \<Rightarrow> trust_cache \<Rightarrow> trust_cache" where
  "trust_step e c = (case trust_key (entry_record e) of None \<Rightarrow> c | Some k \<Rightarrow> fmupd k (entry_record e) c)"

definition trust_ensure_cache :: "trust_store \<Rightarrow> trust_store result" where
  "trust_ensure_cache s =
     (if file_lines (ts_ledger s) = [] then Inr (s\<lparr>ts_cache := fmempty, ts_token := None\<rparr>)
      else if ts_token s \<noteq> Some (ts_ledger s) then
        tryE (iter_records None (ts_ledger s)) (\<lambda>es.
          Inr (s\<lparr>ts_cache := fold trust_step es fmempty, ts_token := Some (ts_ledger s)\<rparr>))
      else Inr s)"

section \<open>Operations\<close>

definition trust_lookup :: "string \<Rightarrow> string \<Rightarrow> trust_store \<Rightarrow> (dict option \<times> trust_store) result" where
  "trust_lookup identity_type identity s =
     tryE (trust_ensure_cache s) (\<lambda>s'. Inr (fmlookup (ts_cache s') (identity_type, identity), s'))"

definition enroll_record :: "string \<Rightarrow> string \<Rightarrow> string \<Rightarrow> dict \<Rightarrow> dict" where
  "enroll_record identity_type identity fingerprint metadata = dict_of
     [(''identity_type'', JStr identity_type), (''identity'', JStr identity),
      (''certificate_fingerprint'', JStr fingerprint), (''active'', JBool True),
      (''metadata'', JObj metadata), (''event'', JStr ''enrolled'')]"

definition revoke_record :: "string \<Rightarrow> string \<Rightarrow> json \<Rightarrow> string \<Rightarrow> dict" where
  "revoke_record identity_type identity fingerprint reason = dict_of
     [(''identity_type'', JStr identity_type), (''identity'', JStr identity),
      (''certificate_fingerprint'', fingerprint), (''active'', JBool False),
      (''metadata'', obj [(''reason'', JStr reason)]), (''event'', JStr ''revoked'')]"

text \<open>The common tail of \<^verbatim>\<open>enroll\<close> and \<^verbatim>\<open>revoke\<close>: append, update the cache, renew the token.\<close>

definition trust_append :: "string \<Rightarrow> string \<times> string \<Rightarrow> dict \<Rightarrow> trust_store \<Rightarrow> (dict \<times> trust_store) result" where
  "trust_append record_type key record s =
     tryE (ledger_append record_type record (ts_ledger s)) (\<lambda>(entry, F).
       Inr (entry, s\<lparr>ts_ledger := F, ts_cache := fmupd key record (ts_cache s),
                      ts_token := (if file_lines F \<noteq> [] then Some F else ts_token s)\<rparr>))"

definition trust_enroll ::
  "string \<Rightarrow> string \<Rightarrow> string \<Rightarrow> dict option \<Rightarrow> trust_store \<Rightarrow> (dict \<times> trust_store) result" where
  "trust_enroll identity_type identity fingerprint metadata s =
     (if identity_type \<notin> {''controller'', ''worker''} \<or> identity = [] \<or> \<not> startswith fingerprint ''sha256:''
        then Inl (ProtocolError ''trust enrollment requires a controller/worker and certificate fingerprint'')
      else tryE (trust_lookup identity_type identity s) (\<lambda>(current, s).
        tryE (case current of
                None \<Rightarrow> Inr False
              | Some rec \<Rightarrow>
                  if rec = fmempty then Inr False
                  else tryE (dsub rec ''active'') (\<lambda>active.
                    if \<not> truthy active then Inr False
                    else tryE (dsub rec ''certificate_fingerprint'') (\<lambda>fp. Inr (fp \<noteq> JStr fingerprint))))
          (\<lambda>rebound.
             if rebound then Inl (ProtocolError ''active identity cannot be rebound without explicit revocation'')
             else trust_append ''trust.enrollment'' (identity_type, identity)
                    (enroll_record identity_type identity fingerprint
                      (case metadata of None \<Rightarrow> fmempty | Some m \<Rightarrow> m)) s)))"

definition trust_revoke :: "string \<Rightarrow> string \<Rightarrow> string \<Rightarrow> trust_store \<Rightarrow> (dict \<times> trust_store) result" where
  "trust_revoke identity_type identity reason s =
     tryE (trust_lookup identity_type identity s) (\<lambda>(current, s).
       case current of
         None \<Rightarrow> Inl (ProtocolError ''cannot revoke an unknown identity'')
       | Some rec \<Rightarrow> tryE (dsub rec ''certificate_fingerprint'') (\<lambda>fp.
           trust_append ''trust.revocation'' (identity_type, identity)
             (revoke_record identity_type identity fp reason) s))"

definition trust_authorize :: "string \<Rightarrow> string \<Rightarrow> string \<Rightarrow> trust_store \<Rightarrow> trust_store result" where
  "trust_authorize identity_type identity fingerprint s =
     tryE (trust_lookup identity_type identity s) (\<lambda>(current, s).
       case current of
         None \<Rightarrow> Inl (ProtocolError ''unknown certificate identity'')
       | Some rec \<Rightarrow>
           if \<not> truthy (dget rec ''active'') then Inl (ProtocolError ''certificate identity is revoked'')
           else if dget rec ''certificate_fingerprint'' \<noteq> JStr fingerprint
             then Inl (ProtocolError ''certificate fingerprint does not match enrolled identity'')
           else Inr s)"

section \<open>Memoised projections of a ledger\<close>

text \<open>
  Several stores keep a value folded over the ledger's entries and update it in place after an append.
  What such a store needs: appending one entry changes the folded value by one step.
\<close>

lemma ok_no_lines: "ledger_ok F \<Longrightarrow> file_lines F = [] \<longleftrightarrow> stream_unlocked F = []"
  by (auto simp: ledger_ok_entries)

locale ledger_projection =
  fixes start :: 'c
    and step :: "dict \<Rightarrow> 'c \<Rightarrow> 'c"
begin

definition project :: "ledger_file \<Rightarrow> 'c" where
  "project F = fold step (stream_unlocked F) start"

text \<open>
  The memoised value may be stale only where its token is not the current file; a refresh recomputes
  it then.
\<close>

definition cached :: "ledger_file \<Rightarrow> 'c \<Rightarrow> ledger_file option \<Rightarrow> bool" where
  "cached F c token = (ledger_ok F \<and> (token = Some F \<longrightarrow> c = project F))"

definition refresh :: "ledger_file \<Rightarrow> 'c \<Rightarrow> ledger_file option \<Rightarrow> ('c \<times> ledger_file option) result" where
  "refresh F c token =
     (if file_lines F = [] then Inr (start, None)
      else if token \<noteq> Some F then tryE (iter_records None F) (\<lambda>es. Inr (fold step es start, Some F))
      else Inr (c, token))"

lemma refresh_cached:
  assumes "cached F c token"
  shows "\<exists>token'. refresh F c token = Inr (project F, token') \<and> cached F (project F) token'"
  using assms by (auto simp: cached_def refresh_def iter_records_ok ok_no_lines project_def)

lemma project_write: "project (write_entries [e] F) = step e (project F)"
  by (simp add: project_def)

lemma project_append:
  assumes "ledger_append rt r F = Inr (e, F')"
  shows "project F' = (if fresh_record r (stream_unlocked F) then step e (project F) else project F) \<or> F' = F"
  using ledger_append_InrD [OF assms] by (auto simp: project_write)

lemma project_append_fresh:
  assumes "ledger_append rt r F = Inr (e, F')" and "fresh_record r (stream_unlocked F)"
  shows "project F' = step e (project F)" "e = next_entry rt r (stream_unlocked F)"
  using ledger_append_fresh [of F rt r] ledger_append_InrD [OF assms(1)] assms by (auto simp: project_write)

end

interpretation trust_projection: ledger_projection "fmempty :: trust_cache" trust_step .

section \<open>The cache and the ledger\<close>

text \<open>The cache is coherent when its token is current only if it is the projection of the ledger.\<close>

definition trust_coherent :: "trust_store \<Rightarrow> bool" where
  "trust_coherent s =
     (ledger_ok (ts_ledger s) \<and>
      (ts_token s = Some (ts_ledger s) \<longrightarrow> ts_cache s = fold trust_step (stream_unlocked (ts_ledger s)) fmempty))"

lemma trust_open_coherent [simp]: "ledger_ok F \<Longrightarrow> trust_coherent (trust_open F)"
  by (simp add: trust_coherent_def trust_open_def)

lemma trust_ensure_refresh:
  "trust_ensure_cache s =
     tryE (trust_projection.refresh (ts_ledger s) (ts_cache s) (ts_token s))
       (\<lambda>(c, token). Inr (s\<lparr>ts_cache := c, ts_token := token\<rparr>))"
  by (simp add: trust_ensure_cache_def trust_projection.refresh_def tryE_assoc)

lemma trust_ensure_coherent:
  assumes "trust_coherent s"
  shows "\<exists>s'. trust_ensure_cache s = Inr s' \<and> ts_ledger s' = ts_ledger s \<and>
    ts_cache s' = fold trust_step (stream_unlocked (ts_ledger s)) fmempty \<and> trust_coherent s'"
proof -
  have "trust_projection.cached (ts_ledger s) (ts_cache s) (ts_token s)"
    using assms by (simp add: trust_coherent_def trust_projection.cached_def trust_projection.project_def)
  from trust_projection.refresh_cached [OF this] show ?thesis
    by (auto simp: trust_ensure_refresh trust_coherent_def trust_projection.cached_def trust_projection.project_def)
qed

lemma trust_lookup_coherent:
  assumes "trust_coherent s"
  obtains s' where "trust_lookup t i s = Inr (fmlookup (trust_projection.project (ts_ledger s)) (t, i), s')"
    "ts_ledger s' = ts_ledger s" "ts_cache s' = trust_projection.project (ts_ledger s)" "trust_coherent s'"
  using trust_ensure_coherent [OF assms] by (auto simp: trust_lookup_def trust_projection.project_def)

lemma enroll_record_simps [simp]:
  "dget (enroll_record t i fp m) ''active'' = JBool True"
  "dget (enroll_record t i fp m) ''certificate_fingerprint'' = JStr fp"
  "dsub (enroll_record t i fp m) ''active'' = Inr (JBool True)"
  "dsub (enroll_record t i fp m) ''certificate_fingerprint'' = Inr (JStr fp)"
  "dget (enroll_record t i fp m) ''metadata'' = JObj m"
  "dget (enroll_record t i fp m) ''event'' = JStr ''enrolled''"
  by (simp_all add: enroll_record_def dsub_def)

lemma revoke_record_simps [simp]:
  "dget (revoke_record t i fp r) ''active'' = JBool False"
  "dget (revoke_record t i fp r) ''certificate_fingerprint'' = fp"
  "dsub (revoke_record t i fp r) ''active'' = Inr (JBool False)"
  "dsub (revoke_record t i fp r) ''certificate_fingerprint'' = Inr fp"
  "dget (revoke_record t i fp r) ''event'' = JStr ''revoked''"
  by (simp_all add: revoke_record_def dsub_def)

lemma trust_key_enroll [simp]: "t \<noteq> [] \<Longrightarrow> i \<noteq> [] \<Longrightarrow> trust_key (enroll_record t i fp m) = Some (t, i)"
  by (simp add: trust_key_def enroll_record_def)

lemma trust_key_revoke [simp]: "t \<noteq> [] \<Longrightarrow> i \<noteq> [] \<Longrightarrow> trust_key (revoke_record t i fp r) = Some (t, i)"
  by (simp add: trust_key_def revoke_record_def)

lemma trust_append_fresh:
  assumes ok: "trust_coherent s" and cache: "ts_cache s = trust_projection.project (ts_ledger s)"
    and rt: "rt \<noteq> []" and key: "trust_key record = Some key"
    and fresh: "fresh_record record (stream_unlocked (ts_ledger s))"
  obtains e s' where "trust_append rt key record s = Inr (e, s')" "trust_coherent s'"
    "trust_projection.project (ts_ledger s') = fmupd key record (trust_projection.project (ts_ledger s))"
    "ts_cache s' = trust_projection.project (ts_ledger s')"
    "stream_unlocked (ts_ledger s') = stream_unlocked (ts_ledger s) @ [next_entry rt record (stream_unlocked (ts_ledger s))]"
proof -
  let ?F = "ts_ledger s"
  let ?e = "next_entry rt record (stream_unlocked ?F)"
  from ok have led: "ledger_ok ?F" by (simp add: trust_coherent_def)
  have a: "ledger_append rt record ?F = Inr (?e, write_entries [?e] ?F)"
    by (rule ledger_append_fresh [OF led rt fresh])
  have proj: "trust_projection.project (write_entries [?e] ?F) = fmupd key record (trust_projection.project ?F)"
    by (simp add: trust_projection.project_write trust_step_def key)
  have ok': "ledger_ok (write_entries [?e] ?F)" by (rule ok_write_next [OF led])
  show thesis
    by (rule that [of ?e "s\<lparr>ts_ledger := write_entries [?e] ?F, ts_cache := fmupd key record (ts_cache s),
         ts_token := (if file_lines (write_entries [?e] ?F) \<noteq> [] then Some (write_entries [?e] ?F) else ts_token s)\<rparr>"])
      (use a proj ok' cache in \<open>simp_all add: trust_append_def trust_coherent_def trust_projection.project_def\<close>)
qed

section \<open>Authorisation as a predicate\<close>

definition authorizes :: "trust_store \<Rightarrow> string \<Rightarrow> string \<Rightarrow> string \<Rightarrow> bool" where
  "authorizes s identity_type identity fingerprint =
     (case trust_authorize identity_type identity fingerprint s of Inl _ \<Rightarrow> False | Inr _ \<Rightarrow> True)"

definition active_binding :: "trust_cache \<Rightarrow> string \<times> string \<Rightarrow> string \<Rightarrow> bool" where
  "active_binding c k fp = (case fmlookup c k of None \<Rightarrow> False
     | Some rec \<Rightarrow> truthy (dget rec ''active'') \<and> dget rec ''certificate_fingerprint'' = JStr fp)"

lemma authorizes_coherent:
  assumes "trust_coherent s"
  shows "authorizes s t i fp = active_binding (trust_projection.project (ts_ledger s)) (t, i) fp"
  using assms
  by (rule trust_lookup_coherent [of s t i])
    (simp add: authorizes_def trust_authorize_def active_binding_def split: option.split)

lemma authorizes_restart:
  "trust_coherent s \<Longrightarrow> authorizes (trust_open (ts_ledger s)) t i fp = authorizes s t i fp"
proof -
  assume c: "trust_coherent s"
  then have "trust_coherent (trust_open (ts_ledger s))" by (simp add: trust_coherent_def trust_open_def)
  with c show ?thesis by (simp add: authorizes_coherent) (simp add: trust_open_def)
qed

lemma active_binding_fmupd [simp]:
  "active_binding (fmupd k rec c) k' fp =
     (if k' = k then truthy (dget rec ''active'') \<and> dget rec ''certificate_fingerprint'' = JStr fp
      else active_binding c k' fp)"
  by (simp add: active_binding_def)

lemma trust_key_SomeD: "trust_key rec = Some (t, i) \<Longrightarrow> t \<noteq> [] \<and> i \<noteq> []"
  by (auto simp: trust_key_def split: json.splits if_splits)

lemma projected_key:
  "fmlookup (fold trust_step es c) (t, i) = Some rec \<Longrightarrow>
     (\<And>r. fmlookup c (t, i) = Some r \<Longrightarrow> t \<noteq> [] \<and> i \<noteq> []) \<Longrightarrow> t \<noteq> [] \<and> i \<noteq> []"
proof (induction es arbitrary: c)
  case (Cons e es)
  show ?case
  proof (rule Cons.IH [of "trust_step e c"])
    show "fmlookup (fold trust_step es (trust_step e c)) (t, i) = Some rec" using Cons.prems(1) by simp
    show "t \<noteq> [] \<and> i \<noteq> []" if "fmlookup (trust_step e c) (t, i) = Some r" for r
      using that Cons.prems(2) trust_key_SomeD
      by (auto simp: trust_step_def split: option.splits if_splits)
  qed
qed auto

lemma project_key: "fmlookup (trust_projection.project F) (t, i) = Some rec \<Longrightarrow> t \<noteq> [] \<and> i \<noteq> []"
  unfolding trust_projection.project_def by (rule projected_key [of _ fmempty]) auto

lemma trust_enroll_InrD:
  assumes c: "trust_coherent s" and r: "trust_enroll t i fp m s = Inr x"
  obtains s1 where "t \<in> {''controller'', ''worker''}" "i \<noteq> []" "trust_coherent s1"
    "ts_ledger s1 = ts_ledger s" "ts_cache s1 = trust_projection.project (ts_ledger s1)"
    "trust_append ''trust.enrollment'' (t, i) (enroll_record t i fp (case m of None \<Rightarrow> fmempty | Some v \<Rightarrow> v)) s1 = Inr x"
proof -
  from c obtain s1 where s1:
    "trust_lookup t i s = Inr (fmlookup (trust_projection.project (ts_ledger s)) (t, i), s1)"
    "ts_ledger s1 = ts_ledger s" "ts_cache s1 = trust_projection.project (ts_ledger s)" "trust_coherent s1"
    by (rule trust_lookup_coherent)
  with r show thesis
    by (intro that [of s1]) (auto simp: trust_enroll_def tryE_eq_Inr result_simps split: if_splits)
qed

lemma trust_revoke_InrD:
  assumes c: "trust_coherent s" and r: "trust_revoke t i reason s = Inr x"
    and l: "trust_lookup t i s = Inr (Some rec, s0)"
  obtains s1 where "t \<noteq> []" "i \<noteq> []" "trust_coherent s1"
    "ts_ledger s1 = ts_ledger s" "ts_cache s1 = trust_projection.project (ts_ledger s1)"
    "trust_append ''trust.revocation'' (t, i)
       (revoke_record t i (dget rec ''certificate_fingerprint'') reason) s1 = Inr x"
proof -
  from c obtain s1 where s1:
    "trust_lookup t i s = Inr (fmlookup (trust_projection.project (ts_ledger s)) (t, i), s1)"
    "ts_ledger s1 = ts_ledger s" "ts_cache s1 = trust_projection.project (ts_ledger s)" "trust_coherent s1"
    by (rule trust_lookup_coherent)
  with r l have "fmlookup (trust_projection.project (ts_ledger s)) (t, i) = Some rec"
    "trust_append ''trust.revocation'' (t, i) (revoke_record t i (dget rec ''certificate_fingerprint'') reason) s1 = Inr x"
    by (auto simp: trust_revoke_def tryE_eq_Inr dsub_def dget_def split: option.splits)
  with s1 project_key [of "ts_ledger s" t i rec] show thesis by (intro that [of s1]) auto
qed

lemma trust_append_authorizes:
  assumes ok: "trust_coherent s" and cache: "ts_cache s = trust_projection.project (ts_ledger s)"
    and rt: "rt \<noteq> []" and key: "trust_key record = Some key"
    and fresh: "fresh_record record (stream_unlocked (ts_ledger s))"
    and r: "trust_append rt key record s = Inr (e, s')"
  shows "trust_coherent s'" and "authorizes s' t i fp =
    (if (t, i) = key then truthy (dget record ''active'') \<and> dget record ''certificate_fingerprint'' = JStr fp
     else authorizes s t i fp)"
proof -
  obtain e2 s2 where s2: "trust_append rt key record s = Inr (e2, s2)" "trust_coherent s2"
    "trust_projection.project (ts_ledger s2) = fmupd key record (trust_projection.project (ts_ledger s))"
    by (rule trust_append_fresh [OF ok cache rt key fresh]) blast
  with r show "trust_coherent s'" by simp
  from s2 r ok show "authorizes s' t i fp = (if (t, i) = key then truthy (dget record ''active'') \<and>
    dget record ''certificate_fingerprint'' = JStr fp else authorizes s t i fp)"
    by (simp add: authorizes_coherent)
qed

lemma authorizes_same_ledger:
  "trust_coherent s \<Longrightarrow> trust_coherent s1 \<Longrightarrow> ts_ledger s1 = ts_ledger s \<Longrightarrow> authorizes s1 t i fp = authorizes s t i fp"
  by (simp add: authorizes_coherent)

section \<open>A concrete run\<close>

text \<open>
  The first steps of one identity: enrolled in an empty store, revoked, enrolled again. Each step writes
  its entry, and the next process reads back the binding the cache holds.
\<close>

definition run_state :: "dict list \<Rightarrow> ledger_file \<Rightarrow> trust_cache \<Rightarrow> trust_store" where
  "run_state es F c = \<lparr>ts_ledger = write_entries es F, ts_cache = c, ts_token = Some (write_entries es F)\<rparr>"

lemma write_entries_twice [simp]: "es \<noteq> [] \<Longrightarrow> write_entries fs (write_entries es F) = write_entries (es @ fs) F"
  by (simp add: write_entries_def)

lemma run_state_simps [simp]:
  "ts_ledger (run_state es F c) = write_entries es F" "ts_cache (run_state es F c) = c"
  "ts_token (run_state es F c) = Some (write_entries es F)"
  by (simp_all add: run_state_def)

lemma write_lines_nonempty [simp]: "es \<noteq> [] \<Longrightarrow> file_lines (write_entries es F) \<noteq> []"
  by (simp add: write_entries_def)

lemma trust_lookup_run [simp]:
  "trust_lookup t i (run_state (e # es) F c) = Inr (fmlookup c (t, i), run_state (e # es) F c)"
  by (simp add: trust_lookup_def trust_ensure_cache_def)

lemma trust_lookup_empty [simp]:
  "trust_lookup t i (trust_open empty_ledger) = Inr (None, trust_open empty_ledger)"
  by (simp add: trust_lookup_def trust_ensure_cache_def) (simp add: trust_open_def empty_ledger_def)

lemma trust_append_run:
  assumes "ledger_ok (write_entries es empty_ledger)" "rt \<noteq> []" "fresh_record r es" "es \<noteq> []"
  shows "trust_append rt k r (run_state es empty_ledger c) =
    Inr (next_entry rt r es, run_state (es @ [next_entry rt r es]) empty_ledger (fmupd k r c))"
  using ledger_append_fresh [of "write_entries es empty_ledger" rt r] assms
  by (simp add: trust_append_def run_state_def)

lemma trust_append_first:
  assumes "rt \<noteq> []"
  shows "trust_append rt k r (trust_open empty_ledger) =
    Inr (next_entry rt r [], run_state [next_entry rt r []] empty_ledger (fmupd k r fmempty))"
  using ledger_append_fresh [of empty_ledger rt r] assms
  by (simp add: trust_append_def trust_open_def run_state_def)

text \<open>Appending a record that an earlier entry holds changes nothing.\<close>

lemma ledger_append_held:
  assumes ok: "ledger_ok F" and rt: "rt \<noteq> []" and es: "stream_unlocked F = es @ [l]"
    and first: "find_first (same_identity (sha256_identity (JObj r))) es = Some x" and holds: "entry_holds rt r x"
    and last: "\<not> same_identity (sha256_identity (JObj r)) l"
  shows "ledger_append rt r F = Inr (x, F)"
proof -
  have "reuse_entry rt r x = Inr x" using holds by (simp add: reuse_entry_Inr)
  then show ?thesis
    using rt es first last
    by (simp add: ledger_append_def require_clean_ok [OF ok] find_first_append)
qed

lemma trust_append_held:
  "es \<noteq> [] \<Longrightarrow> ledger_append rt r (write_entries es F) = Inr (x, write_entries es F) \<Longrightarrow>
     trust_append rt k r (run_state es F c) = Inr (x, run_state es F (fmupd k r c))"
  by (simp add: trust_append_def run_state_def)

section \<open>Properties\<close>

text \<open>
  enrolling an identity with a record the ledger does not hold yet authorises that identity with
  exactly the enrolled certificate fingerprint and changes no other identity, in the running process and in
  a process that opens the ledger afterwards, and the cache stays coherent with the ledger.
\<close>

theorem enrollment_authorizes_its_certificate:
  assumes c: "trust_coherent s" and r: "trust_enroll t i fp m s = Inr (e, s')"
    and fresh: "fresh_record (enroll_record t i fp (case m of None \<Rightarrow> fmempty | Some v \<Rightarrow> v))
                  (stream_unlocked (ts_ledger s))"
  shows "trust_coherent s'
    \<and> authorizes s' t' i' fp' = (if (t', i') = (t, i) then fp' = fp else authorizes s t' i' fp')
    \<and> authorizes (trust_open (ts_ledger s')) t' i' fp' = authorizes s' t' i' fp'"
proof -
  obtain s1 where s1: "t \<in> {''controller'', ''worker''}" "i \<noteq> []" "trust_coherent s1"
    "ts_ledger s1 = ts_ledger s" "ts_cache s1 = trust_projection.project (ts_ledger s1)"
    "trust_append ''trust.enrollment'' (t, i) (enroll_record t i fp (case m of None \<Rightarrow> fmempty | Some v \<Rightarrow> v)) s1
       = Inr (e, s')"
    by (rule trust_enroll_InrD [OF c r])
  have k: "trust_key (enroll_record t i fp (case m of None \<Rightarrow> fmempty | Some v \<Rightarrow> v)) = Some (t, i)"
    using s1(1,2) by (intro trust_key_enroll) auto
  note a = trust_append_authorizes [OF s1(3,5) _ k fresh [folded s1(4)] s1(6)]
  from a(1) a(2) [of t' i' fp'] show ?thesis
    by (auto simp: authorizes_restart authorizes_same_ledger [OF c s1(3,4)])
qed

theorem enrollment_authorizes_its_certificate_witness:
  "\<exists>e s'. trust_enroll ''worker'' ''w'' ''sha256:a'' None (trust_open empty_ledger) = Inr (e, s')
     \<and> authorizes s' ''worker'' ''w'' ''sha256:a'' \<and> \<not> authorizes s' ''worker'' ''w'' ''sha256:b''
     \<and> authorizes (trust_open (ts_ledger s')) ''worker'' ''w'' ''sha256:a''"
proof -
  obtain e s' where r: "trust_enroll ''worker'' ''w'' ''sha256:a'' None (trust_open empty_ledger) = Inr (e, s')"
    by (simp add: trust_enroll_def startswith_def trust_append_first)
  have "fresh_record (enroll_record ''worker'' ''w'' ''sha256:a'' (case None of None \<Rightarrow> fmempty | Some v \<Rightarrow> v))
     (stream_unlocked (ts_ledger (trust_open empty_ledger)))"
    by (simp add: trust_open_def)
  note w = enrollment_authorizes_its_certificate [OF _ r this]
  from w [of "''worker''" "''w''" "''sha256:a''"] w [of "''worker''" "''w''" "''sha256:b''"] r show ?thesis
    by auto
qed

text \<open>
  C4: revoking an identity with a record the ledger does not hold yet withdraws every authorisation of
  that identity and of no other, in the running process and after a restart.
\<close>

theorem revocation_withdraws_authorization:
  assumes c: "trust_coherent s" and l: "trust_lookup t i s = Inr (Some rec, s0)"
    and r: "trust_revoke t i reason s = Inr (e, s')"
    and fresh: "fresh_record (revoke_record t i (dget rec ''certificate_fingerprint'') reason)
                  (stream_unlocked (ts_ledger s))"
  shows "trust_coherent s'
    \<and> authorizes s' t' i' fp' = ((t', i') \<noteq> (t, i) \<and> authorizes s t' i' fp')
    \<and> authorizes (trust_open (ts_ledger s')) t' i' fp' = authorizes s' t' i' fp'"
proof -
  obtain s1 where s1: "t \<noteq> []" "i \<noteq> []" "trust_coherent s1"
    "ts_ledger s1 = ts_ledger s" "ts_cache s1 = trust_projection.project (ts_ledger s1)"
    "trust_append ''trust.revocation'' (t, i)
       (revoke_record t i (dget rec ''certificate_fingerprint'') reason) s1 = Inr (e, s')"
    by (rule trust_revoke_InrD [OF c r l])
  have k: "trust_key (revoke_record t i (dget rec ''certificate_fingerprint'') reason) = Some (t, i)"
    using s1(1,2) by simp
  note a = trust_append_authorizes [OF s1(3,5) _ k fresh [folded s1(4)] s1(6)]
  from a(1) a(2) [of t' i' fp'] show ?thesis
    by (auto simp: authorizes_restart authorizes_same_ledger [OF c s1(3,4)])
qed

text \<open>The records of the run: enrolment without metadata, revocation, enrolment with metadata.\<close>

abbreviation run_enroll :: dict where
  "run_enroll \<equiv> enroll_record ''worker'' ''w'' ''sha256:a'' fmempty"

abbreviation run_revoke :: dict where
  "run_revoke \<equiv> revoke_record ''worker'' ''w'' (JStr ''sha256:a'') ''lost''"

abbreviation run_again :: dict where
  "run_again \<equiv> enroll_record ''worker'' ''w'' ''sha256:a'' (dict_of [(''n'', JInt 2)])"

theorem revocation_withdraws_authorization_witness:
  "sha256_identity (JObj run_revoke) = sha256_identity (JObj run_enroll) \<or>
   (\<exists>s e s'. trust_revoke ''worker'' ''w'' ''lost'' s = Inr (e, s') \<and> authorizes s ''worker'' ''w'' ''sha256:a''
     \<and> \<not> authorizes s' ''worker'' ''w'' ''sha256:a'' \<and> \<not> authorizes (trust_open (ts_ledger s')) ''worker'' ''w'' ''sha256:a'')"
proof (cases "sha256_identity (JObj run_revoke) = sha256_identity (JObj run_enroll)")
  case False
  let ?es = "run_entries [(''trust.enrollment'', run_enroll)]"
  let ?s = "run_state ?es empty_ledger (fmupd (''worker'', ''w'') run_enroll fmempty)"
  have es: "?es = [next_entry ''trust.enrollment'' run_enroll []]" by (simp add: run_entries_def)
  have c: "trust_coherent ?s"
    using run_entries_ok [of "[(''trust.enrollment'', run_enroll)]"] by (simp add: trust_coherent_def es trust_step_def)
  have fresh: "fresh_record run_revoke ?es" using False by (simp add: es fresh_record_def)
  have l: "trust_lookup ''worker'' ''w'' ?s = Inr (Some run_enroll, ?s)" by (simp add: es)
  have "trust_append ''trust.revocation'' (''worker'', ''w'') run_revoke ?s = Inr (next_entry ''trust.revocation'' run_revoke ?es,
     run_state (?es @ [next_entry ''trust.revocation'' run_revoke ?es]) empty_ledger
       (fmupd (''worker'', ''w'') run_revoke (fmupd (''worker'', ''w'') run_enroll fmempty)))"
    by (rule trust_append_run [OF run_entries_ok]) (use fresh in \<open>simp_all add: es\<close>)
  then obtain e s' where r: "trust_revoke ''worker'' ''w'' ''lost'' ?s = Inr (e, s')"
    by (simp add: trust_revoke_def l)
  have a: "authorizes ?s ''worker'' ''w'' ''sha256:a''"
    by (simp add: authorizes_def trust_authorize_def l)
  have f: "fresh_record (revoke_record ''worker'' ''w'' (dget run_enroll ''certificate_fingerprint'') ''lost'')
     (stream_unlocked (ts_ledger ?s))"
    using fresh by simp
  from revocation_withdraws_authorization [OF c l r f, of "''worker''" "''w''" "''sha256:a''"] r a show ?thesis by blast
qed simp

text \<open>
  an identity whose certificate is authorised cannot be enrolled with another certificate: the call
  raises, and so leaves the ledger and the cache as they were.
\<close>

theorem active_identity_cannot_be_rebound:
  assumes c: "trust_coherent s" and a: "authorizes s t i fp" and ne: "fp' \<noteq> fp"
    and arg: "t \<in> {''controller'', ''worker''}" "i \<noteq> []" "startswith fp' ''sha256:''"
  shows "trust_enroll t i fp' m s = Inl (ProtocolError ''active identity cannot be rebound without explicit revocation'')"
proof -
  from c obtain s1 where s1:
    "trust_lookup t i s = Inr (fmlookup (trust_projection.project (ts_ledger s)) (t, i), s1)"
    by (rule trust_lookup_coherent)
  from a c obtain rec where rec: "fmlookup (trust_projection.project (ts_ledger s)) (t, i) = Some rec"
    "truthy (dget rec ''active'')" "dget rec ''certificate_fingerprint'' = JStr fp"
    by (auto simp: authorizes_coherent active_binding_def split: option.splits)
  then have "rec \<noteq> fmempty" "dsub rec ''active'' = Inr (dget rec ''active'')"
    "dsub rec ''certificate_fingerprint'' = Inr (JStr fp)"
    by (auto simp: dsub_def dget_def split: option.splits)
  with s1 rec ne arg show ?thesis by (auto simp: trust_enroll_def)
qed

theorem active_identity_cannot_be_rebound_witness:
  "\<exists>s. authorizes s ''worker'' ''w'' ''sha256:a'' \<and>
     trust_enroll ''worker'' ''w'' ''sha256:b'' None s
       = Inl (ProtocolError ''active identity cannot be rebound without explicit revocation'')"
proof -
  let ?es = "run_entries [(''trust.enrollment'', run_enroll)]"
  let ?s = "run_state ?es empty_ledger (fmupd (''worker'', ''w'') run_enroll fmempty)"
  have es: "?es = [next_entry ''trust.enrollment'' run_enroll []]" by (simp add: run_entries_def)
  have c: "trust_coherent ?s"
    using run_entries_ok [of "[(''trust.enrollment'', run_enroll)]"] by (simp add: trust_coherent_def es trust_step_def)
  have a: "authorizes ?s ''worker'' ''w'' ''sha256:a''"
    by (simp add: authorizes_def trust_authorize_def es)
  from active_identity_cannot_be_rebound [OF c a, of "''sha256:b''" None] a show ?thesis
    by (auto simp: startswith_def)
qed


end
