(* ===== verification/Management.thy ===== *)
theory Management
  imports Record_Fields Trust_Store
begin

text \<open>
  \<^verbatim>\<open>src/src/mncs_fabric/management.py\<close>: the controller-owned management state of a worker, its
  transition relation and scheduling gate, and the append-only store of management records with its
  caches. The clock is the argument \<open>now\<close> of the operations that read it.
\<close>

section \<open>States and transitions\<close>

definition MANAGEMENT_STATE_SCHEMA :: string where
  "MANAGEMENT_STATE_SCHEMA = ''mncs-fabric.management-state.v0.1''"

definition MANAGEMENT_STATES :: "string list" where
  "MANAGEMENT_STATES =
     [''READY'', ''BUSY'', ''DRAINING'', ''MAINTENANCE'', ''VERIFYING'', ''DEGRADED'', ''QUARANTINED'']"

definition SCHEDULABLE_STATES :: "string list" where
  "SCHEDULABLE_STATES = [''READY'', ''BUSY'']"

definition CERTIFICATION_STATUSES :: "string list" where
  "CERTIFICATION_STATUSES = [''CERTIFIED'', ''FAILED'', ''UNKNOWN'', ''NOT_RUN'']"

definition management_transitions :: "(string \<times> string list) list" where
  "management_transitions =
     [(''READY'', [''BUSY'', ''DRAINING'', ''MAINTENANCE'', ''VERIFYING'', ''QUARANTINED'', ''DEGRADED'']),
      (''BUSY'', [''READY'', ''DRAINING'', ''QUARANTINED'']),
      (''DRAINING'', [''MAINTENANCE'', ''READY'', ''QUARANTINED'', ''DEGRADED'']),
      (''MAINTENANCE'', [''VERIFYING'', ''DEGRADED'', ''QUARANTINED'', ''READY'']),
      (''VERIFYING'', [''READY'', ''DEGRADED'', ''QUARANTINED'', ''MAINTENANCE'']),
      (''DEGRADED'', [''DRAINING'', ''MAINTENANCE'', ''QUARANTINED'', ''READY'']),
      (''QUARANTINED'', [''DRAINING'', ''MAINTENANCE'', ''VERIFYING'', ''READY''])]"

definition management_allows_work :: "string option \<Rightarrow> bool" where
  "management_allows_work state = (case state of None \<Rightarrow> True | Some s \<Rightarrow> s \<in> set SCHEDULABLE_STATES)"

definition can_transition :: "string \<Rightarrow> string \<Rightarrow> bool" where
  "can_transition current target =
     (if current = target then True
      else target \<in> set (case map_of management_transitions current of None \<Rightarrow> [] | Some ts \<Rightarrow> ts))"

section \<open>Records\<close>

definition management_fields :: "string list" where
  "management_fields =
     [''schema_version'', ''worker_identity'', ''state'', ''reason'', ''updated_at'', ''active_jobs'',
      ''certification_status'', ''last_inventory_identity'', ''last_plan_identity'',
      ''last_receipt_identity'', ''last_certification_identity'', ''claim_boundary'',
      ''management_state_identity'']"

record management_args =
  ma_worker_id :: json
  ma_state :: string
  ma_reason :: json
  ma_active_jobs :: json
  ma_certification_status :: json
  ma_last_inventory :: json
  ma_last_plan :: json
  ma_last_receipt :: json
  ma_last_certification :: json
  ma_updated_at :: json

text \<open>The keyword defaults of \<^verbatim>\<open>build_management_state\<close>.\<close>

definition management_defaults :: "string \<Rightarrow> string \<Rightarrow> string \<Rightarrow> management_args" where
  "management_defaults worker_id state reason =
     \<lparr>ma_worker_id = JStr worker_id, ma_state = state, ma_reason = JStr reason, ma_active_jobs = JInt 0,
      ma_certification_status = JStr ''NOT_RUN'', ma_last_inventory = JNull, ma_last_plan = JNull,
      ma_last_receipt = JNull, ma_last_certification = JNull, ma_updated_at = JNull\<rparr>"

definition active_jobs_ok :: "json \<Rightarrow> bool" where
  "active_jobs_ok v = (case v of JInt n \<Rightarrow> 0 \<le> n \<and> n \<le> 1024 | _ \<Rightarrow> False)"

definition build_management_state :: "string \<Rightarrow> management_args \<Rightarrow> dict result" where
  "build_management_state now a =
     (if ma_state a \<notin> set MANAGEMENT_STATES then Inl (ValidationError ''management state is unsupported'')
      else tryE (in_strset (ma_certification_status a) CERTIFICATION_STATUSES) (\<lambda>known.
        if \<not> known then Inl (ValidationError ''certification status is unsupported'')
        else if \<not> active_jobs_ok (ma_active_jobs a) then Inl (ValidationError ''active_jobs is invalid'')
        else if ma_state a = ''READY'' \<and> ma_certification_status a = JStr ''FAILED''
          then Inl (ValidationError ''a worker that failed certification cannot be READY'')
        else
          tryE (text_field ''worker_identity'' 256 (ma_worker_id a)) (\<lambda>worker.
          tryE (text_field ''reason'' 512 (ma_reason a)) (\<lambda>reason.
            Inr (attach_identity (dict_of
              [(''schema_version'', JStr MANAGEMENT_STATE_SCHEMA), (''worker_identity'', JStr worker),
               (''state'', JStr (ma_state a)), (''reason'', JStr reason),
               (''updated_at'', py_or (ma_updated_at a) (JStr now)), (''active_jobs'', ma_active_jobs a),
               (''certification_status'', ma_certification_status a),
               (''last_inventory_identity'', ma_last_inventory a), (''last_plan_identity'', ma_last_plan a),
               (''last_receipt_identity'', ma_last_receipt a),
               (''last_certification_identity'', ma_last_certification a),
               (''claim_boundary'', JStr ''controller-owned management lifecycle; not liveness, honesty, or attestation'')])
              ''management_state_identity'')))))"

definition validate_management_state :: "json \<Rightarrow> string option \<Rightarrow> dict result" where
  "validate_management_state v expected_worker_id =
     (case v of
        JObj value \<Rightarrow>
          if dget value ''schema_version'' \<noteq> JStr MANAGEMENT_STATE_SCHEMA
            then Inl (ValidationError ''unsupported management-state schema'')
          else if \<not> keys_are value management_fields \<or> \<not> verify_identity value ''management_state_identity''
            then Inl (ValidationError ''management-state fields or identity are invalid'')
          else tryE (text_field ''worker_identity'' 256 (dget value ''worker_identity'')) (\<lambda>worker_id.
            if expected_worker_id \<noteq> None \<and> expected_worker_id \<noteq> Some worker_id
              then Inl (ValidationError ''management state is bound to another worker'')
            else tryE (in_strset (dget value ''state'') MANAGEMENT_STATES) (\<lambda>known.
              if \<not> known then Inl (ValidationError ''management state is unsupported'')
              else tryE (in_strset (dget value ''certification_status'') CERTIFICATION_STATUSES) (\<lambda>status.
                if \<not> status then Inl (ValidationError ''certification status is unsupported'')
                else if dget value ''state'' = JStr ''READY'' \<and> dget value ''certification_status'' = JStr ''FAILED''
                  then Inl (ValidationError ''a worker that failed certification cannot be READY'')
                else
                  tryE (optional_identity ''last_inventory_identity'' (dget value ''last_inventory_identity'')) (\<lambda>_.
                  tryE (optional_identity ''last_plan_identity'' (dget value ''last_plan_identity'')) (\<lambda>_.
                  tryE (optional_identity ''last_receipt_identity'' (dget value ''last_receipt_identity'')) (\<lambda>_.
                  tryE (optional_identity ''last_certification_identity'' (dget value ''last_certification_identity'')) (\<lambda>_.
                    Inr value)))))))
      | _ \<Rightarrow> Inl (ValidationError ''unsupported management-state schema''))"

text \<open>\<^verbatim>\<open>**updates\<close> is the dict of keyword arguments.\<close>

definition transition_management_state :: "string \<Rightarrow> dict \<Rightarrow> string \<Rightarrow> string \<Rightarrow> dict \<Rightarrow> dict result" where
  "transition_management_state now current state reason updates =
     tryE (validate_management_state (JObj current) None) (\<lambda>checked.
       if \<not> (case dget checked ''state'' of JStr s \<Rightarrow> can_transition s state | _ \<Rightarrow> False)
         then Inl (ProtocolError ''management transition is not allowed'')
       else
         (let pick = (\<lambda>k. dget_default updates k (dget checked k)) in
          build_management_state now
            \<lparr>ma_worker_id = dget checked ''worker_identity'', ma_state = state, ma_reason = JStr reason,
             ma_active_jobs = pick ''active_jobs'', ma_certification_status = pick ''certification_status'',
             ma_last_inventory = pick ''last_inventory_identity'', ma_last_plan = pick ''last_plan_identity'',
             ma_last_receipt = pick ''last_receipt_identity'',
             ma_last_certification = pick ''last_certification_identity'',
             ma_updated_at = dget updates ''updated_at''\<rparr>))"

section \<open>The store\<close>

record management_cache =
  mc_state :: "(string, dict) fmap"
  mc_desired :: "(string, dict) fmap"
  mc_latest :: "(string \<times> string \<times> string, dict) fmap"
  mc_unscoped :: "(string, dict) fmap"
  mc_workers :: "string list"

record management_store =
  ms_ledger :: ledger_file
  ms_cache :: management_cache
  ms_token :: "ledger_file option"

definition empty_management_cache :: management_cache where
  "empty_management_cache =
     \<lparr>mc_state = fmempty, mc_desired = fmempty, mc_latest = fmempty, mc_unscoped = fmempty, mc_workers = []\<rparr>"

definition management_open :: "ledger_file \<Rightarrow> management_store" where
  "management_open F = \<lparr>ms_ledger = F, ms_cache = empty_management_cache, ms_token = None\<rparr>"

definition add_worker_id :: "string \<Rightarrow> string list \<Rightarrow> string list" where
  "add_worker_id w ws = (if w \<in> set ws then ws else sort (w # ws))"

definition record_worker :: "dict \<Rightarrow> json" where
  "record_worker record = py_or (dget record ''worker_identity'') (dget record ''worker_id'')"

text \<open>One turn of the loop of \<^verbatim>\<open>_ensure_cache\<close>; record types are strings, as the store writes them.\<close>

definition management_step :: "dict \<Rightarrow> management_cache \<Rightarrow> management_cache" where
  "management_step e c =
     (let record = entry_record e; rtype = dget e ''record_type'' in
      case rtype of
        JStr rt \<Rightarrow>
          (let unscope = (\<lambda>c. if rt = [] then c else c\<lparr>mc_unscoped := fmupd rt record (mc_unscoped c)\<rparr>) in
           case record_worker record of
             JStr wid \<Rightarrow>
               (let c1 = (if wid = [] then c else c\<lparr>mc_workers := add_worker_id wid (mc_workers c)\<rparr>);
                    c2 = (if rt = ''management.state'' then c1\<lparr>mc_state := fmupd wid record (mc_state c1)\<rparr>
                          else if rt = ''management.desired-state''
                            then c1\<lparr>mc_desired := fmupd wid record (mc_desired c1)\<rparr>
                          else c1);
                    latest = (\<lambda>f c. if dget record f = JStr wid
                                    then c\<lparr>mc_latest := fmupd (rt, wid, f) record (mc_latest c)\<rparr> else c);
                    c3 = (if rt = [] then c2 else latest ''worker_id'' (latest ''worker_identity'' c2))
                in unscope c3)
           | _ \<Rightarrow> unscope c)
      | _ \<Rightarrow> c)"

definition management_ensure_cache :: "management_store \<Rightarrow> management_store result" where
  "management_ensure_cache s =
     (if file_lines (ms_ledger s) = [] then Inr (s\<lparr>ms_cache := empty_management_cache, ms_token := None\<rparr>)
      else if ms_token s \<noteq> Some (ms_ledger s) then
        tryE (iter_records None (ms_ledger s)) (\<lambda>es.
          Inr (s\<lparr>ms_cache := fold management_step es empty_management_cache, ms_token := Some (ms_ledger s)\<rparr>))
      else Inr s)"

definition management_state_of :: "string \<Rightarrow> management_store \<Rightarrow> (dict option \<times> management_store) result" where
  "management_state_of worker_id s =
     tryE (management_ensure_cache s) (\<lambda>s.
       case fmlookup (mc_state (ms_cache s)) worker_id of
         None \<Rightarrow> Inr (None, s)
       | Some latest \<Rightarrow>
           if latest = fmempty then Inr (None, s)
           else tryE (validate_management_state (JObj latest) (Some worker_id)) (\<lambda>v. Inr (Some v, s)))"

definition cache_state :: "string \<Rightarrow> dict \<Rightarrow> management_store \<Rightarrow> management_store" where
  "cache_state worker_id record s =
     s\<lparr>ms_cache := (ms_cache s)\<lparr>mc_state := fmupd worker_id record (mc_state (ms_cache s))\<rparr>\<rparr>"

definition cache_worker :: "string \<Rightarrow> management_store \<Rightarrow> management_store" where
  "cache_worker worker_id s =
     s\<lparr>ms_cache := (ms_cache s)\<lparr>mc_workers := add_worker_id worker_id (mc_workers (ms_cache s))\<rparr>\<rparr>"

definition management_append :: "string \<Rightarrow> dict \<Rightarrow> management_store \<Rightarrow> management_store result" where
  "management_append record_type record s =
     tryE (ledger_append record_type record (ms_ledger s)) (\<lambda>(e, F).
       management_ensure_cache (s\<lparr>ms_ledger := F\<rparr>))"

definition management_ensure ::
  "string \<Rightarrow> string \<Rightarrow> string \<Rightarrow> management_store \<Rightarrow> (dict \<times> management_store) result" where
  "management_ensure now worker_id reason s =
     tryE (management_state_of worker_id s) (\<lambda>(current, s).
       case current of
         Some c \<Rightarrow> Inr (c, s)
       | None \<Rightarrow>
           tryE (build_management_state now
                  ((management_defaults worker_id ''READY'' reason)\<lparr>ma_certification_status := JStr ''UNKNOWN''\<rparr>)) (\<lambda>created.
           tryE (management_append ''management.state'' created s) (\<lambda>s.
             Inr (created, cache_worker worker_id (cache_state worker_id created s)))))"

text \<open>
  \<^verbatim>\<open>set_state\<close> may raise after \<^verbatim>\<open>ensure\<close> has already written the initial record, so its result is the
  returned record or exception together with the store it leaves behind.
\<close>

definition management_set_state ::
  "string \<Rightarrow> string \<Rightarrow> string \<Rightarrow> string \<Rightarrow> string \<Rightarrow> dict \<Rightarrow> management_store \<Rightarrow> dict result \<times> management_store" where
  "management_set_state now0 now1 worker_id state reason updates s =
     (case management_ensure now0 worker_id ''initialized'' s of
        Inl e \<Rightarrow> (Inl e, s)
      | Inr (current, s1) \<Rightarrow>
          (case transition_management_state now1 current state reason updates of
             Inl e \<Rightarrow> (Inl e, s1)
           | Inr nxt \<Rightarrow>
               (case management_append ''management.state'' nxt s1 of
                  Inl e \<Rightarrow> (Inl e, s1)
                | Inr s2 \<Rightarrow> (Inr nxt, cache_state worker_id nxt s2))))"

text \<open>The validator of desired-state records, of another module, is an argument.\<close>

definition assign_desired_state ::
  "(dict \<Rightarrow> dict result) \<Rightarrow> dict \<Rightarrow> management_store \<Rightarrow> (dict \<times> management_store) result" where
  "assign_desired_state validate_desired_state desired s =
     tryE (validate_desired_state desired) (\<lambda>checked.
     tryE (management_append ''management.desired-state'' checked s) (\<lambda>s.
       Inr (checked,
            case dget checked ''worker_identity'' of
              JStr wid \<Rightarrow>
                cache_worker wid
                  (s\<lparr>ms_cache := (ms_cache s)\<lparr>mc_desired := fmupd wid checked (mc_desired (ms_cache s))\<rparr>\<rparr>)
            | _ \<Rightarrow> s)))"

definition management_desired_state :: "string \<Rightarrow> management_store \<Rightarrow> (dict option \<times> management_store) result" where
  "management_desired_state worker_id s =
     tryE (management_ensure_cache s) (\<lambda>s. Inr (fmlookup (mc_desired (ms_cache s)) worker_id, s))"

definition management_record :: "string \<Rightarrow> dict \<Rightarrow> management_store \<Rightarrow> (dict \<times> management_store) result" where
  "management_record record_type value s =
     tryE (ledger_append record_type value (ms_ledger s)) (\<lambda>(e, F).
       Inr (value, s\<lparr>ms_ledger := F, ms_token := None\<rparr>))"

definition management_worker_ids :: "management_store \<Rightarrow> (string list \<times> management_store) result" where
  "management_worker_ids s = tryE (management_ensure_cache s) (\<lambda>s. Inr (mc_workers (ms_cache s), s))"

definition management_latest ::
  "string \<Rightarrow> string \<Rightarrow> string \<Rightarrow> management_store \<Rightarrow> (dict option \<times> management_store) result" where
  "management_latest record_type worker_id identity_field s =
     tryE (management_ensure_cache s) (\<lambda>s.
       case fmlookup (mc_latest (ms_cache s)) (record_type, worker_id, identity_field) of
         Some latest \<Rightarrow> Inr (Some latest, s)
       | None \<Rightarrow>
           tryE (all_records None (ms_ledger s)) (\<lambda>es.
             Inr (map_option entry_record (find_last (\<lambda>e. dget e ''record_type'' = JStr record_type
                    \<and> dget (entry_record e) identity_field = JStr worker_id) es), s)))"

definition management_latest_unscoped :: "string \<Rightarrow> management_store \<Rightarrow> (dict option \<times> management_store) result" where
  "management_latest_unscoped record_type s =
     tryE (management_ensure_cache s) (\<lambda>s. Inr (fmlookup (mc_unscoped (ms_cache s)) record_type, s))"

section \<open>Records: lemmas\<close>

definition management_valid :: "dict \<Rightarrow> bool" where
  "management_valid r = (validate_management_state (JObj r) None = Inr r)"

lemma validate_management_eq_Inr:
  "validate_management_state (JObj r) w = Inr v \<longleftrightarrow>
     v = r \<and> dget r ''schema_version'' = JStr MANAGEMENT_STATE_SCHEMA \<and> keys_are r management_fields
     \<and> verify_identity r ''management_state_identity''
     \<and> (\<exists>worker. dget r ''worker_identity'' = JStr worker \<and> text_ok 256 worker \<and> (w = None \<or> w = Some worker))
     \<and> (\<exists>st. dget r ''state'' = JStr st \<and> st \<in> set MANAGEMENT_STATES)
     \<and> (\<exists>c. dget r ''certification_status'' = JStr c \<and> c \<in> set CERTIFICATION_STATUSES)
     \<and> \<not> (dget r ''state'' = JStr ''READY'' \<and> dget r ''certification_status'' = JStr ''FAILED'')
     \<and> (\<forall>k \<in> {''last_inventory_identity'', ''last_plan_identity'', ''last_receipt_identity'',
               ''last_certification_identity''}. identity_or_null (dget r k))"
proof -
  have b: "(\<exists>b. in_strset x xs = Inr b \<and> b \<and> P) \<longleftrightarrow> in_strset x xs = Inr True \<and> P" for x xs P by auto
  show ?thesis
    by (simp add: validate_management_state_def result_simps in_strset_eq_Inr_True b) blast
qed

lemma validate_managementD:
  assumes "validate_management_state (JObj r) w = Inr v"
  shows "v = r" "management_valid r"
  using assms by (auto simp: validate_management_eq_Inr management_valid_def)

lemma build_management_eq_Inr:
  "build_management_state now a = Inr r \<longleftrightarrow>
     ma_state a \<in> set MANAGEMENT_STATES
     \<and> (\<exists>c. ma_certification_status a = JStr c \<and> c \<in> set CERTIFICATION_STATUSES)
     \<and> active_jobs_ok (ma_active_jobs a)
     \<and> \<not> (ma_state a = ''READY'' \<and> ma_certification_status a = JStr ''FAILED'')
     \<and> (\<exists>worker reason. ma_worker_id a = JStr worker \<and> text_ok 256 worker \<and> ma_reason a = JStr reason
          \<and> text_ok 512 reason \<and>
          r = attach_identity (dict_of
              [(''schema_version'', JStr MANAGEMENT_STATE_SCHEMA), (''worker_identity'', JStr worker),
               (''state'', JStr (ma_state a)), (''reason'', JStr reason),
               (''updated_at'', py_or (ma_updated_at a) (JStr now)), (''active_jobs'', ma_active_jobs a),
               (''certification_status'', ma_certification_status a),
               (''last_inventory_identity'', ma_last_inventory a), (''last_plan_identity'', ma_last_plan a),
               (''last_receipt_identity'', ma_last_receipt a),
               (''last_certification_identity'', ma_last_certification a),
               (''claim_boundary'', JStr ''controller-owned management lifecycle; not liveness, honesty, or attestation'')])
              ''management_state_identity'')"
proof -
  have b: "(\<exists>b. in_strset x xs = Inr b \<and> b \<and> P) \<longleftrightarrow> in_strset x xs = Inr True \<and> P" for x xs P by auto
  show ?thesis
    unfolding build_management_state_def
    by (simp only: result_simps b not_not in_strset_eq_Inr_True sum.inject) auto
qed

text \<open>Every built record is valid, given that the identities handed in are identities or null.\<close>

lemma build_management_valid:
  assumes "build_management_state now a = Inr r"
    and "identity_or_null (ma_last_inventory a)" "identity_or_null (ma_last_plan a)"
        "identity_or_null (ma_last_receipt a)" "identity_or_null (ma_last_certification a)"
  shows "management_valid r"
  using assms
  by (auto simp: build_management_eq_Inr management_valid_def validate_management_eq_Inr keys_are_def
      management_fields_def)

lemma build_management_fields:
  assumes "build_management_state now a = Inr r"
  shows "dget r ''worker_identity'' = ma_worker_id a" "dget r ''state'' = JStr (ma_state a)"
    "dget r ''certification_status'' = ma_certification_status a" "dget r ''active_jobs'' = ma_active_jobs a"
    "\<not> (dget r ''state'' = JStr ''READY'' \<and> dget r ''certification_status'' = JStr ''FAILED'')"
    "dget r ''last_plan_identity'' = ma_last_plan a" "r \<noteq> fmempty"
  using assms by (auto simp: build_management_eq_Inr)

section \<open>The store and its ledger\<close>

interpretation management_projection: ledger_projection empty_management_cache management_step .

abbreviation management_view :: "management_store \<Rightarrow> management_cache" where
  "management_view s \<equiv> management_projection.project (ms_ledger s)"

text \<open>The token is that of the current file or of a shorter earlier one.\<close>

definition management_coherent :: "management_store \<Rightarrow> bool" where
  "management_coherent s =
     (management_projection.cached (ms_ledger s) (ms_cache s) (ms_token s)
      \<and> (\<forall>G. ms_token s = Some G \<longrightarrow> length (file_lines G) \<le> length (file_lines (ms_ledger s))))"

lemma management_open_coherent [simp]: "ledger_ok F \<Longrightarrow> management_coherent (management_open F)"
  by (simp add: management_coherent_def management_projection.cached_def management_open_def)

lemma management_ensure_refresh:
  "management_ensure_cache s =
     tryE (management_projection.refresh (ms_ledger s) (ms_cache s) (ms_token s))
       (\<lambda>(c, token). Inr (s\<lparr>ms_cache := c, ms_token := token\<rparr>))"
  by (simp add: management_ensure_cache_def management_projection.refresh_def tryE_assoc)

lemma management_ensure_coherent:
  assumes "management_coherent s"
  obtains s' where "management_ensure_cache s = Inr s'" "ms_ledger s' = ms_ledger s"
    "ms_cache s' = management_view s" "management_coherent s'"
proof -
  from assms obtain token where t:
    "management_projection.refresh (ms_ledger s) (ms_cache s) (ms_token s) = Inr (management_view s, token)"
    "management_projection.cached (ms_ledger s) (management_view s) token"
    using management_projection.refresh_cached [of "ms_ledger s" "ms_cache s" "ms_token s"]
    by (auto simp: management_coherent_def)
  then have "token = None \<or> token = Some (ms_ledger s) \<or> token = ms_token s"
    by (auto simp: management_projection.refresh_def result_simps split: if_splits)
  with t assms show thesis
    by (intro that [of "s\<lparr>ms_cache := management_view s, ms_token := token\<rparr>"])
      (auto simp: management_coherent_def management_ensure_refresh)
qed

text \<open>What \<^verbatim>\<open>state\<close> returns, as a function of the cached record alone.\<close>

definition read_state :: "management_cache \<Rightarrow> string \<Rightarrow> dict option result" where
  "read_state c worker_id =
     (case fmlookup (mc_state c) worker_id of
        None \<Rightarrow> Inr None
      | Some latest \<Rightarrow>
          if latest = fmempty then Inr None
          else tryE (validate_management_state (JObj latest) (Some worker_id)) (\<lambda>v. Inr (Some v)))"

lemma management_state_coherent:
  assumes "management_coherent s"
  obtains s' where
    "management_state_of w s = tryE (read_state (management_view s) w) (\<lambda>r. Inr (r, s'))"
    "ms_ledger s' = ms_ledger s" "ms_cache s' = management_view s" "management_coherent s'"
proof -
  from assms obtain s' where s': "management_ensure_cache s = Inr s'" "ms_ledger s' = ms_ledger s"
    "ms_cache s' = management_view s" "management_coherent s'"
    by (rule management_ensure_coherent)
  then have "management_state_of w s = tryE (read_state (management_view s) w) (\<lambda>r. Inr (r, s'))"
    by (simp add: management_state_of_def read_state_def tryE_assoc split: option.split)
  with s' show thesis by (intro that)
qed

lemma management_step_state:
  assumes "w \<noteq> []" and "dget record ''worker_identity'' = JStr w"
  shows "mc_state (management_step (next_entry ''management.state'' record es) c) = fmupd w record (mc_state c)"
proof -
  have "record_worker record = JStr w" using assms by (simp add: record_worker_def py_or_def)
  moreover have "dget (next_entry ''management.state'' record es) ''record_type'' = JStr ''management.state''"
    by (simp add: next_entry_def)
  ultimately show ?thesis by (simp add: management_step_def)
qed

text \<open>
  Appending a state record the ledger does not hold: the file gains one entry, and the state cache of
  every later reader, after a restart too, is the old one with this worker's record replaced.
\<close>

lemma management_append_fresh:
  assumes c: "management_coherent s" and fresh: "fresh_record record (stream_unlocked (ms_ledger s))"
    and w: "w \<noteq> []" "dget record ''worker_identity'' = JStr w"
  obtains s' where "management_append ''management.state'' record s = Inr s'" "management_coherent s'"
    "ms_cache s' = management_view s'" "mc_state (management_view s') = fmupd w record (mc_state (management_view s))"
    "management_coherent (cache_state w record s')"
proof -
  let ?e = "next_entry ''management.state'' record (stream_unlocked (ms_ledger s))"
  let ?F = "write_entries [?e] (ms_ledger s)"
  let ?s = "s\<lparr>ms_ledger := ?F\<rparr>"
  have ok: "ledger_ok (ms_ledger s)"
    using c by (simp add: management_coherent_def management_projection.cached_def)
  have a: "ledger_append ''management.state'' record (ms_ledger s) = Inr (?e, ?F)"
    by (rule ledger_append_fresh [OF ok _ fresh]) simp
  have state: "mc_state (management_projection.project ?F) = fmupd w record (mc_state (management_view s))"
    by (simp add: management_projection.project_write management_step_state [OF w])
  have "ms_token s \<noteq> Some ?F" using c by (auto simp: management_coherent_def write_entries_def)
  then have "management_coherent ?s"
    using ok_write_next [OF ok] c
    by (auto simp: management_coherent_def management_projection.cached_def write_entries_def)
  then obtain s' where s': "management_ensure_cache ?s = Inr s'" "ms_ledger s' = ms_ledger ?s"
    "ms_cache s' = management_view ?s" "management_coherent s'"
    by (rule management_ensure_coherent)
  have "cache_state w record s' = s'"
    using s' state by (simp add: cache_state_def fmupd_idem)
  with a state s' show thesis
    by (intro that [of s']) (simp_all add: management_append_def)
qed

section \<open>Transitions\<close>

lemma transition_management_eq_Inr:
  "transition_management_state now cur st reason upd = Inr nxt \<longleftrightarrow>
     management_valid cur \<and> (\<exists>s0. dget cur ''state'' = JStr s0 \<and> can_transition s0 st)
     \<and> build_management_state now
         \<lparr>ma_worker_id = dget cur ''worker_identity'', ma_state = st, ma_reason = JStr reason,
          ma_active_jobs = dget_default upd ''active_jobs'' (dget cur ''active_jobs''),
          ma_certification_status = dget_default upd ''certification_status'' (dget cur ''certification_status''),
          ma_last_inventory = dget_default upd ''last_inventory_identity'' (dget cur ''last_inventory_identity''),
          ma_last_plan = dget_default upd ''last_plan_identity'' (dget cur ''last_plan_identity''),
          ma_last_receipt = dget_default upd ''last_receipt_identity'' (dget cur ''last_receipt_identity''),
          ma_last_certification =
            dget_default upd ''last_certification_identity'' (dget cur ''last_certification_identity''),
          ma_updated_at = dget upd ''updated_at''\<rparr> = Inr nxt"
proof (cases "validate_management_state (JObj cur) None")
  case (Inl e)
  then show ?thesis by (simp add: transition_management_state_def management_valid_def)
next
  case (Inr v)
  note v = validate_managementD [OF this]
  obtain s0 where "dget cur ''state'' = JStr s0" using Inr by (auto simp: validate_management_eq_Inr)
  with Inr v show ?thesis by (simp add: transition_management_state_def)
qed

lemma transition_management_fields:
  assumes "transition_management_state now cur st reason upd = Inr nxt"
  shows "dget nxt ''state'' = JStr st" "dget nxt ''worker_identity'' = dget cur ''worker_identity''" "nxt \<noteq> fmempty"
    "\<not> (dget nxt ''state'' = JStr ''READY'' \<and> dget nxt ''certification_status'' = JStr ''FAILED'')"
proof -
  from assms obtain a where a: "build_management_state now a = Inr nxt"
    "ma_worker_id a = dget cur ''worker_identity''" "ma_state a = st"
    unfolding transition_management_eq_Inr by fastforce
  from build_management_fields [OF a(1)] a(2,3)
  show "dget nxt ''state'' = JStr st" "dget nxt ''worker_identity'' = dget cur ''worker_identity''" "nxt \<noteq> fmempty"
    "\<not> (dget nxt ''state'' = JStr ''READY'' \<and> dget nxt ''certification_status'' = JStr ''FAILED'')"
    by auto
qed

definition identity_updates_ok :: "dict \<Rightarrow> bool" where
  "identity_updates_ok upd = list_all (\<lambda>k. identity_or_null (dget upd k))
     [''last_inventory_identity'', ''last_plan_identity'', ''last_receipt_identity'', ''last_certification_identity'']"

lemma identity_update_valid:
  "identity_or_null (dget upd k) \<Longrightarrow> identity_or_null (dget cur k) \<Longrightarrow>
     identity_or_null (dget_default upd k (dget cur k))"
  by (auto simp: dget_default_def dget_def split: option.splits)

lemma management_valid_identities:
  assumes "management_valid r"
  shows "identity_or_null (dget r ''last_inventory_identity'')" "identity_or_null (dget r ''last_plan_identity'')"
    "identity_or_null (dget r ''last_receipt_identity'')" "identity_or_null (dget r ''last_certification_identity'')"
  using assms by (auto simp: management_valid_def validate_management_eq_Inr)

lemma transition_keeps_valid:
  assumes t: "transition_management_state now cur st reason upd = Inr nxt" and u: "identity_updates_ok upd"
  shows "management_valid nxt"
  using t u management_valid_identities [of cur] unfolding transition_management_eq_Inr identity_updates_ok_def
  by (elim conjE) (erule build_management_valid; simp add: identity_update_valid)

text \<open>The states a worker's record passes through: any number of transitions with any arguments.\<close>

inductive management_history :: "dict \<Rightarrow> dict \<Rightarrow> bool" where
  history_start: "management_history r r"
| history_step: "management_history r cur \<Longrightarrow> transition_management_state now cur st reason upd = Inr nxt \<Longrightarrow>
     management_history r nxt"

inductive_cases management_historyE: "management_history r nxt"

section \<open>A concrete worker\<close>

definition demo_args :: "string \<Rightarrow> management_args" where
  "demo_args st = (management_defaults ''w'' st ''test'')\<lparr>ma_updated_at := JStr ''t''\<rparr>"

definition demo_state :: "string \<Rightarrow> dict" where
  "demo_state st = (case build_management_state ''t'' (demo_args st) of Inl _ \<Rightarrow> fmempty | Inr r \<Rightarrow> r)"

definition demo_store :: "string \<Rightarrow> management_store" where
  "demo_store st = management_open (write_entries [next_entry ''management.state'' (demo_state st) []] empty_ledger)"

lemma demo_build: "st \<in> set MANAGEMENT_STATES \<Longrightarrow> build_management_state ''t'' (demo_args st) = Inr (demo_state st)"
proof -
  assume st: "st \<in> set MANAGEMENT_STATES"
  then obtain r where "build_management_state ''t'' (demo_args st) = Inr r"
    by (auto simp: build_management_state_def demo_args_def management_defaults_def CERTIFICATION_STATUSES_def
        active_jobs_ok_def text_ok_def)
  then show ?thesis by (simp add: demo_state_def)
qed

lemma demo_fields [simp]:
  assumes "st \<in> set MANAGEMENT_STATES"
  shows "dget (demo_state st) ''worker_identity'' = JStr ''w''" "dget (demo_state st) ''state'' = JStr st"
    "demo_state st \<noteq> fmempty"
  using build_management_fields [OF demo_build [OF assms]] by (simp_all add: demo_args_def management_defaults_def)

lemma demo_valid [simp]: "st \<in> set MANAGEMENT_STATES \<Longrightarrow> management_valid (demo_state st)"
  by (rule build_management_valid [OF demo_build]) (simp_all add: demo_args_def management_defaults_def)

lemma demo_coherent [simp]: "management_coherent (demo_store st)"
  unfolding demo_store_def
  by (rule management_open_coherent) (use ok_write_next [of empty_ledger "''management.state''"] in simp)

lemma demo_stream [simp]:
  "stream_unlocked (ms_ledger (demo_store st)) = [next_entry ''management.state'' (demo_state st) []]"
  by (simp add: demo_store_def management_open_def)

lemma demo_read [simp]:
  assumes "st \<in> set MANAGEMENT_STATES"
  shows "read_state (management_view (demo_store st)) ''w'' = Inr (Some (demo_state st))"
proof -
  have "mc_state (management_view (demo_store st)) = fmupd ''w'' (demo_state st) (mc_state empty_management_cache)"
    using assms by (simp add: management_projection.project_def management_step_state)
  moreover have "validate_management_state (JObj (demo_state st)) (Some ''w'') = Inr (demo_state st)"
    using demo_valid [OF assms] assms by (auto simp: management_valid_def validate_management_eq_Inr)
  ultimately show ?thesis using assms by (simp add: read_state_def)
qed

lemma demo_transition:
  "\<exists>nxt. transition_management_state ''u'' (demo_state ''READY'') ''DRAINING'' ''drain'' fmempty = Inr nxt
     \<and> dget nxt ''state'' = JStr ''DRAINING''"
proof -
  let ?r = "demo_state ''READY''"
  have m: "''READY'' \<in> set MANAGEMENT_STATES" by (simp add: MANAGEMENT_STATES_def)
  have f: "dget ?r ''active_jobs'' = JInt 0" "dget ?r ''certification_status'' = JStr ''NOT_RUN''"
    using build_management_fields [OF demo_build [OF m]] by (simp_all add: demo_args_def management_defaults_def)
  have "dget_default fmempty k v = v" for k v by (simp add: dget_default_def)
  then have "\<exists>nxt. transition_management_state ''u'' ?r ''DRAINING'' ''drain'' fmempty = Inr nxt"
    using m f unfolding transition_management_eq_Inr
    by (simp add: can_transition_def management_transitions_def build_management_eq_Inr MANAGEMENT_STATES_def
        CERTIFICATION_STATUSES_def active_jobs_ok_def text_ok_def)
  then show ?thesis using transition_management_fields(1) by blast
qed

section \<open>Properties\<close>

text \<open>
  a management transition that is accepted follows the transition table, keeps the worker the record
  is bound to, stores the requested state and yields a record that validates for that worker, provided
  the identities passed as updates are identities or null.
\<close>

theorem management_transition_sound:
  assumes t: "transition_management_state now cur st reason upd = Inr nxt" and u: "identity_updates_ok upd"
  shows "\<exists>s0 w. dget cur ''state'' = JStr s0 \<and> can_transition s0 st \<and> dget cur ''worker_identity'' = JStr w
    \<and> validate_management_state (JObj nxt) (Some w) = Inr nxt \<and> dget nxt ''state'' = JStr st"
proof -
  from t obtain s0 w where a: "dget cur ''state'' = JStr s0" "can_transition s0 st"
    and w: "dget cur ''worker_identity'' = JStr w"
    unfolding transition_management_eq_Inr by (auto simp: management_valid_def validate_management_eq_Inr)
  have "management_valid nxt" by (rule transition_keeps_valid [OF t u])
  moreover have "dget nxt ''worker_identity'' = JStr w" "dget nxt ''state'' = JStr st"
    using transition_management_fields [OF t] w by simp_all
  ultimately have "validate_management_state (JObj nxt) (Some w) = Inr nxt"
    by (auto simp: management_valid_def validate_management_eq_Inr)
  with a(1,2) w \<open>dget nxt ''state'' = JStr st\<close> show ?thesis by blast
qed

theorem management_transition_sound_witness:
  "\<exists>nxt. transition_management_state ''u'' (demo_state ''READY'') ''DRAINING'' ''drain'' fmempty = Inr nxt
     \<and> validate_management_state (JObj nxt) (Some ''w'') = Inr nxt"
proof -
  obtain nxt where n: "transition_management_state ''u'' (demo_state ''READY'') ''DRAINING'' ''drain'' fmempty = Inr nxt"
    using demo_transition by blast
  have "identity_updates_ok fmempty" by (simp add: identity_updates_ok_def dget_def)
  from management_transition_sound [OF n this] n show ?thesis by (auto simp: MANAGEMENT_STATES_def)
qed

text \<open>
  C8: along every sequence of accepted transitions the record stays bound to the same worker, and a
  worker whose certification failed is never READY.
\<close>

theorem management_never_ready_after_failed_certification:
  assumes "management_history r nxt" and "management_valid r"
  shows "dget nxt ''worker_identity'' = dget r ''worker_identity''
    \<and> \<not> (dget nxt ''state'' = JStr ''READY'' \<and> dget nxt ''certification_status'' = JStr ''FAILED'')"
  using assms
proof (induction rule: management_history.induct)
  case (history_start r)
  then show ?case by (auto simp: management_valid_def validate_management_eq_Inr)
next
  case (history_step r cur now st reason upd nxt)
  then show ?case using transition_management_fields [OF history_step.hyps(2)] by simp
qed

theorem management_never_ready_after_failed_certification_witness:
  "\<exists>nxt. management_history (demo_state ''READY'') nxt \<and> dget nxt ''state'' = JStr ''DRAINING''
     \<and> dget nxt ''worker_identity'' = JStr ''w''"
proof -
  obtain nxt where n: "transition_management_state ''u'' (demo_state ''READY'') ''DRAINING'' ''drain'' fmempty = Inr nxt"
    "dget nxt ''state'' = JStr ''DRAINING''"
    using demo_transition by blast
  have h: "management_history (demo_state ''READY'') nxt"
    by (rule history_step [OF history_start n(1)])
  have m: "''READY'' \<in> set MANAGEMENT_STATES" by (simp add: MANAGEMENT_STATES_def)
  from management_never_ready_after_failed_certification [OF h demo_valid [OF m]] h n(2) m show ?thesis by auto
qed

text \<open>
  setting the state of a worker with a record the ledger does not hold yet makes that record the
  worker's state, in this process and after a restart, and leaves every other worker's state as it was.
\<close>

theorem management_set_state_reads_back:
  assumes c: "management_coherent s" and cur: "read_state (management_view s) w = Inr (Some cur)"
    and t: "transition_management_state now1 cur st reason upd = Inr nxt" and u: "identity_updates_ok upd"
    and fresh: "fresh_record nxt (stream_unlocked (ms_ledger s))"
  shows "\<exists>s'. management_set_state now0 now1 w st reason upd s = (Inr nxt, s') \<and> management_coherent s'
    \<and> read_state (ms_cache s') w = Inr (Some nxt)
    \<and> read_state (management_view s') w' = (if w' = w then Inr (Some nxt) else read_state (management_view s) w')"
proof -
  from c obtain s1 where s1: "management_state_of w s = tryE (read_state (management_view s) w) (\<lambda>r. Inr (r, s1))"
    "ms_ledger s1 = ms_ledger s" "ms_cache s1 = management_view s" "management_coherent s1"
    by (rule management_state_coherent)
  have e: "management_ensure now0 w ''initialized'' s = Inr (cur, s1)"
    using s1(1) cur by (simp add: management_ensure_def)
  from cur have v: "validate_management_state (JObj cur) (Some w) = Inr cur"
    by (auto simp: read_state_def result_simps split: option.splits if_splits) (metis validate_managementD(1))
  then have w: "dget cur ''worker_identity'' = JStr w" "w \<noteq> []"
    by (auto simp: validate_management_eq_Inr text_ok_def)
  have nw: "dget nxt ''worker_identity'' = JStr w" "nxt \<noteq> fmempty"
    using transition_management_fields [OF t] w by simp_all
  have valid: "validate_management_state (JObj nxt) (Some w) = Inr nxt"
    using transition_keeps_valid [OF t u] nw by (auto simp: management_valid_def validate_management_eq_Inr)
  from s1(2) fresh have f1: "fresh_record nxt (stream_unlocked (ms_ledger s1))" by simp
  obtain s2 where s2: "management_append ''management.state'' nxt s1 = Inr s2" "management_coherent s2"
    "ms_cache s2 = management_view s2" "mc_state (management_view s2) = fmupd w nxt (mc_state (management_view s1))"
    "management_coherent (cache_state w nxt s2)"
    by (rule management_append_fresh [OF s1(4) f1 w(2) nw(1)])
  have set: "management_set_state now0 now1 w st reason upd s = (Inr nxt, cache_state w nxt s2)"
    by (simp add: management_set_state_def e t s2(1))
  show ?thesis
    by (rule exI [of _ "cache_state w nxt s2"])
      (use set s2 s1(2) valid nw(2) in \<open>auto simp: read_state_def cache_state_def\<close>)
qed

theorem management_set_state_reads_back_witness:
  "\<exists>nxt. transition_management_state ''u'' (demo_state ''READY'') ''DRAINING'' ''drain'' fmempty = Inr nxt \<and>
     (sha256_identity (JObj nxt) = sha256_identity (JObj (demo_state ''READY'')) \<or>
      (\<exists>s'. management_set_state ''u'' ''u'' ''w'' ''DRAINING'' ''drain'' fmempty (demo_store ''READY'') = (Inr nxt, s')
         \<and> read_state (management_view s') ''w'' = Inr (Some nxt)))"
proof -
  obtain nxt where n: "transition_management_state ''u'' (demo_state ''READY'') ''DRAINING'' ''drain'' fmempty = Inr nxt"
    using demo_transition by blast
  have u: "identity_updates_ok fmempty" by (simp add: identity_updates_ok_def dget_def)
  have m: "''READY'' \<in> set MANAGEMENT_STATES" by (simp add: MANAGEMENT_STATES_def)
  show ?thesis
  proof (cases "sha256_identity (JObj nxt) = sha256_identity (JObj (demo_state ''READY''))")
    case False
    then have "fresh_record nxt (stream_unlocked (ms_ledger (demo_store ''READY'')))"
      by (simp add: fresh_record_def)
    from management_set_state_reads_back [OF demo_coherent demo_read [OF m] n u this, of "''u''" "''w''"] n
    show ?thesis by auto
  qed (use n in blast)
qed

text \<open>
  a transition the table does not allow is refused: setting the state raises the protocol error, and
  the ledger, hence every later reading of the state, is what it was.
\<close>

theorem management_refused_transition_keeps_ledger:
  assumes c: "management_coherent s" and cur: "read_state (management_view s) w = Inr (Some cur)"
    and no: "dget cur ''state'' = JStr s0" "\<not> can_transition s0 st"
  shows "\<exists>s'. management_set_state now0 now1 w st reason upd s
      = (Inl (ProtocolError ''management transition is not allowed''), s')
    \<and> ms_ledger s' = ms_ledger s \<and> management_coherent s'"
proof -
  from c obtain s1 where s1: "management_state_of w s = tryE (read_state (management_view s) w) (\<lambda>r. Inr (r, s1))"
    "ms_ledger s1 = ms_ledger s" "ms_cache s1 = management_view s" "management_coherent s1"
    by (rule management_state_coherent)
  have e: "management_ensure now0 w ''initialized'' s = Inr (cur, s1)"
    using s1(1) cur by (simp add: management_ensure_def)
  from cur obtain r where "validate_management_state (JObj r) (Some w) = Inr cur"
    by (auto simp: read_state_def result_simps split: option.splits if_splits)
  from validate_managementD [OF this] have "validate_management_state (JObj cur) None = Inr cur"
    by (simp add: management_valid_def)
  with no have "transition_management_state now1 cur st reason upd
      = Inl (ProtocolError ''management transition is not allowed'')"
    by (simp add: transition_management_state_def)
  with e s1 show ?thesis by (auto simp: management_set_state_def)
qed

theorem management_refused_transition_keeps_ledger_witness:
  "\<exists>s'. management_set_state ''u'' ''u'' ''w'' ''MAINTENANCE'' ''x'' fmempty (demo_store ''BUSY'')
      = (Inl (ProtocolError ''management transition is not allowed''), s')
    \<and> ms_ledger s' = ms_ledger (demo_store ''BUSY'')"
proof -
  have m: "''BUSY'' \<in> set MANAGEMENT_STATES" by (simp add: MANAGEMENT_STATES_def)
  have "\<not> can_transition ''BUSY'' ''MAINTENANCE''" by (simp add: can_transition_def management_transitions_def)
  from management_refused_transition_keeps_ledger [OF demo_coherent demo_read [OF m] demo_fields(2) [OF m] this]
  show ?thesis by blast
qed

end
