(* ===== verification/Versioning.thy ===== *)
theory Versioning
  imports Canonical "HOL-Library.Product_Lexorder"
begin

text \<open>
  \<^verbatim>\<open>src/src/mncs_fabric/versioning.py\<close>: parsing and comparison of Fabric package versions. The
  dataclass is ordered by its fields from left to right, here an instance of the class of linear
  orders; parsing raises where \<^verbatim>\<open>int\<close> refuses a string that \<^verbatim>\<open>str.isdigit\<close> accepts.

  Shown here: parsing reads back every printed version, releases sort after the alphas of the same
  release up to the sentinel's value and not beyond it, and parsing is not total.
\<close>

section \<open>Versions and their order\<close>

definition RELEASE_PRERELEASE :: nat where
  "RELEASE_PRERELEASE = 10 ^ 9"

datatype fabric_version = FabricVersion (major: nat) (minor: nat) (patch: nat) (prerelease: nat)

definition as_tuple :: "fabric_version \<Rightarrow> nat \<times> nat \<times> nat \<times> nat" where
  "as_tuple v = (major v, minor v, patch v, prerelease v)"

definition is_prerelease :: "fabric_version \<Rightarrow> bool" where
  "is_prerelease v = (prerelease v < RELEASE_PRERELEASE)"

lemma as_tuple_inject [simp]: "as_tuple v = as_tuple w \<longleftrightarrow> v = w"
  by (cases v; cases w) (simp add: as_tuple_def)

instantiation fabric_version :: linorder
begin

definition less_eq_fabric_version :: "fabric_version \<Rightarrow> fabric_version \<Rightarrow> bool" where
  "less_eq_fabric_version v w = (as_tuple v \<le> as_tuple w)"

definition less_fabric_version :: "fabric_version \<Rightarrow> fabric_version \<Rightarrow> bool" where
  "less_fabric_version v w = (as_tuple v < as_tuple w)"

instance
  by standard (auto simp: less_eq_fabric_version_def less_fabric_version_def dest: order_antisym)

end

section \<open>Parsing and classification\<close>

definition parse_part :: "string \<Rightarrow> nat list option \<Rightarrow> nat list option result" where
  "parse_part item acc =
     (case acc of
        None \<Rightarrow> Inr None
      | Some numbers \<Rightarrow>
          if \<not> isdigit item then Inr None
          else tryE (int_of_digits item) (\<lambda>n. Inr (Some (numbers @ [n]))))"

definition pad_numbers :: "nat list \<Rightarrow> nat list" where
  "pad_numbers ns = ns @ replicate (3 - length ns) 0"

definition parse_fabric_version :: "json \<Rightarrow> fabric_version option result" where
  "parse_fabric_version v =
     (case v of
        JStr value \<Rightarrow>
          if value = [] \<or> 32 < length value \<or> CHR 0x00 \<in> set value then Inr None
          else
            (case partition_on (CHR ''a'') value of
               (core, sep, pre) \<Rightarrow>
                 if sep \<and> (pre = [] \<or> \<not> isdigit pre) then Inr None
                 else
                   (let parts = split_on (CHR ''.'') core in
                    if \<not> (1 \<le> length parts \<and> length parts \<le> 3) then Inr None
                    else tryE (foldE parse_part parts (Some [])) (\<lambda>acc.
                      case acc of
                        None \<Rightarrow> Inr None
                      | Some ns \<Rightarrow>
                          tryE (if sep then int_of_digits pre else Inr RELEASE_PRERELEASE) (\<lambda>prerelease.
                            let numbers = pad_numbers ns in
                            Inr (Some (FabricVersion (numbers ! 0) (numbers ! 1) (numbers ! 2) prerelease))))))
      | _ \<Rightarrow> Inr None)"

definition classify_worker_version :: "json \<Rightarrow> fabric_version \<Rightarrow> string result" where
  "classify_worker_version version minimum =
     tryE (parse_fabric_version version) (\<lambda>parsed.
       case parsed of
         None \<Rightarrow> Inr ''unsupported''
       | Some v \<Rightarrow>
           if minimum \<le> v then Inr ''current''
           else if FabricVersion 0 2 0 6 \<le> v then Inr ''upgradeable''
           else if FabricVersion 0 0 0 0 < v then Inr ''bootstrap-required''
           else Inr ''unsupported'')"

section \<open>Printing\<close>

definition show_version :: "fabric_version \<Rightarrow> string" where
  "show_version v = join_with (CHR ''.'') [show_nat (major v), show_nat (minor v), show_nat (patch v)]
     @ (if prerelease v = RELEASE_PRERELEASE then [] else CHR ''a'' # show_nat (prerelease v))"

lemma digit_not_separator: "is_ascii_digit c \<Longrightarrow> c \<noteq> CHR ''.'' \<and> c \<noteq> CHR ''a'' \<and> c \<noteq> CHR 0x00"
  by (auto simp: is_ascii_digit_def)

lemma show_nat_no_separator [simp]:
  "CHR ''.'' \<notin> set (show_nat n)" "CHR ''a'' \<notin> set (show_nat n)" "CHR 0x00 \<notin> set (show_nat n)"
  using show_nat_digits [of n] digit_not_separator by (auto simp: list_all_iff)

lemma isdigit_show_nat [simp]: "isdigit (show_nat n)"
  using show_nat_digits [of n] by (auto simp: isdigit_def isdigit_char_def list_all_iff)

lemma int_of_digits_show_nat [simp]: "int_of_digits (show_nat n) = Inr n"
  by (simp add: int_of_digits_def show_nat_digits digits_val_show_nat)

lemma partition_on_absent: "c \<notin> set s \<Longrightarrow> partition_on c s = (s, False, [])"
  by (induction s) auto

lemma partition_on_present: "c \<notin> set s \<Longrightarrow> partition_on c (s @ c # t) = (s, True, t)"
  by (induction s) auto

lemma split_on_absent: "c \<notin> set s \<Longrightarrow> split_on c s = [s]"
  by (induction s) auto

lemma split_on_present: "c \<notin> set s \<Longrightarrow> split_on c (s @ c # t) = s # split_on c t"
  by (induction s) auto

subsection \<open>ASCII input\<close>

abbreviation ascii :: "string \<Rightarrow> bool" where
  "ascii s \<equiv> list_all (\<lambda>c. (of_char c :: nat) < 128) s"

lemma ascii_int_of_digits: "ascii s \<Longrightarrow> isdigit s \<Longrightarrow> \<exists>n. int_of_digits s = Inr n"
  by (fastforce simp: isdigit_def isdigit_char_def int_of_digits_def list_all_iff)

lemma partition_on_set: "partition_on c s = (a, f, b) \<Longrightarrow> set a \<subseteq> set s \<and> set b \<subseteq> set s"
  by (induction s arbitrary: a f b) (fastforce split: if_splits prod.splits)+

lemma split_on_set: "p \<in> set (split_on c s) \<Longrightarrow> set p \<subseteq> set s"
proof (induction s arbitrary: p)
  case (Cons x xs)
  then show ?case by (cases "split_on c xs") (fastforce split: if_splits)+
qed simp

lemma foldE_parse_part_total:
  "(\<And>p. p \<in> set parts \<Longrightarrow> ascii p) \<Longrightarrow> \<exists>r. foldE parse_part parts acc = Inr r"
proof (induction parts arbitrary: acc)
  case (Cons p parts)
  obtain a where "parse_part p acc = Inr a"
    using ascii_int_of_digits [of p] Cons.prems [of p]
    by (cases acc; cases "isdigit p") (auto simp: parse_part_def)
  with Cons.IH [of a] Cons.prems show ?case by auto
qed simp

lemma parse_fabric_version_ascii: "ascii s \<Longrightarrow> \<exists>r. parse_fabric_version (JStr s) = Inr r"
proof -
  assume s: "ascii s"
  obtain core sep pre where p: "partition_on (CHR ''a'') s = (core, sep, pre)" by (metis prod.exhaust)
  have sub: "ascii core" "ascii pre" using partition_on_set [OF p] s by (auto simp: list_all_iff)
  have "\<And>x. x \<in> set (split_on (CHR ''.'') core) \<Longrightarrow> ascii x"
    using split_on_set sub(1) by (fastforce simp: list_all_iff)
  then obtain r where r: "foldE parse_part (split_on (CHR ''.'') core) (Some []) = Inr r"
    using foldE_parse_part_total by blast
  show ?thesis
  proof (cases "sep \<and> (pre = [] \<or> \<not> isdigit pre)")
    case False
    with ascii_int_of_digits [OF sub(2)] obtain n where "sep \<longrightarrow> int_of_digits pre = Inr n" by auto
    with False show ?thesis by (auto simp: parse_fabric_version_def p r split: option.splits)
  qed (simp add: parse_fabric_version_def p)
qed

section \<open>Properties\<close>

text \<open>
  parsing reads back every printed version: three numbers, and the alpha number or the release
  sentinel, as long as the text fits the 32 characters the parser accepts.
\<close>

theorem parse_show_version:
  assumes "length (show_version v) \<le> 32"
  shows "parse_fabric_version (JStr (show_version v)) = Inr (Some v)"
proof -
  obtain x y z p where v: "v = FabricVersion x y z p" by (cases v)
  let ?core = "show_nat x @ CHR ''.'' # show_nat y @ CHR ''.'' # show_nat z"
  have core: "CHR ''a'' \<notin> set ?core" by simp
  have split: "split_on (CHR ''.'') ?core = [show_nat x, show_nat y, show_nat z]"
    by (simp add: split_on_present split_on_absent)
  have nums: "foldE parse_part [show_nat x, show_nat y, show_nat z] (Some []) = Inr (Some [x, y, z])"
    by (simp add: parse_part_def)
  show ?thesis
  proof (cases "p = RELEASE_PRERELEASE")
    case True
    then have "show_version v = ?core" by (simp add: v show_version_def)
    with assms core split nums True show ?thesis
      by (simp add: parse_fabric_version_def partition_on_absent pad_numbers_def v del: foldE.simps)
  next
    case False
    then have s: "show_version v = ?core @ CHR ''a'' # show_nat p" by (simp add: v show_version_def)
    have "partition_on (CHR ''a'') (?core @ CHR ''a'' # show_nat p) = (?core, True, show_nat p)"
      by (rule partition_on_present [OF core])
    with assms split nums s show ?thesis
      by (simp add: parse_fabric_version_def pad_numbers_def v del: foldE.simps)
  qed
qed

theorem parse_show_version_witness:
  "parse_fabric_version (JStr ''0.2.0a6'') = Inr (Some (FabricVersion 0 2 0 6))"
proof -
  have "show_version (FabricVersion 0 2 0 6) = ''0.2.0a6''"
    by (simp add: show_version_def show_nat.simps RELEASE_PRERELEASE_def char_of_def bit_iff_odd)
  with parse_show_version [of "FabricVersion 0 2 0 6"] show ?thesis by simp
qed

text \<open>
  a release sorts after an alpha of the same three numbers exactly when the alpha number is below the
  sentinel 1000000000, and the parser accepts alpha numbers above it: the alpha
  \<^verbatim>\<open>0.2.0a1000000001\<close> compares greater than the release \<^verbatim>\<open>0.2.0\<close>.
\<close>

theorem release_sorts_after_small_alphas:
  "(FabricVersion x y z n < FabricVersion x y z RELEASE_PRERELEASE \<longleftrightarrow> n < 1000000000)
   \<and> (\<exists>alpha release. parse_fabric_version (JStr ''0.2.0a1000000001'') = Inr (Some alpha)
        \<and> parse_fabric_version (JStr ''0.2.0'') = Inr (Some release) \<and> release < alpha)"
proof -
  have "parse_fabric_version (JStr ''0.2.0a1000000001'') = Inr (Some (FabricVersion 0 2 0 1000000001))"
    "parse_fabric_version (JStr ''0.2.0'') = Inr (Some (FabricVersion 0 2 0 1000000000))"
    by (simp_all add: parse_fabric_version_def parse_part_def isdigit_def isdigit_char_def is_ascii_digit_def
        int_of_digits_def digits_val_def digit_val_def pad_numbers_def RELEASE_PRERELEASE_def)
  then show ?thesis
    by (simp add: less_fabric_version_def as_tuple_def RELEASE_PRERELEASE_def)
qed

text \<open>
  the parser is not total. On a version with a superscript digit it raises \<^verbatim>\<open>ValueError\<close>, since
  \<^verbatim>\<open>str.isdigit\<close> accepts the digit and \<^verbatim>\<open>int\<close> refuses it; on every string of ASCII characters it
  returns.
\<close>

theorem parse_raises_on_superscript:
  "parse_fabric_version (JStr [CHR ''1'', CHR ''.'', CHR 0xB2]) = Inl PyValueError
   \<and> (ascii s \<longrightarrow> (\<exists>r. parse_fabric_version (JStr s) = Inr r))"
  using parse_fabric_version_ascii [of s]
  by (simp add: parse_fabric_version_def parse_part_def isdigit_def isdigit_char_def is_ascii_digit_def
      int_of_digits_def)

theorem parse_raises_on_superscript_witness:
  "ascii ''1.0a'' \<and> (\<exists>r. parse_fabric_version (JStr ''1.0a'') = Inr r)"
  using parse_raises_on_superscript [of "''1.0a''"] by simp

end
