(* ===== verification/Update_Lifecycle.thy ===== *)
theory Update_Lifecycle
  imports Timestamps Versioning
begin

text \<open>
  \<^verbatim>\<open>src/src/mncs_fabric/update_lifecycle.py\<close>: update/restart transactions of a worker, their transition
  table, the expected-disconnect window and the classification of reconnect evidence. The clock reading
  \<^verbatim>\<open>utc_now()\<close> is the argument \<open>clock\<close>; values interpolated into a reason are left out of it.
\<close>

section \<open>States\<close>

definition UPDATE_TRANSACTION_SCHEMA :: string where
  "UPDATE_TRANSACTION_SCHEMA = ''mncs-fabric.update-transaction.v0.1''"

definition UPDATE_STATES :: "string list" where
  "UPDATE_STATES =
     [''UPDATE_PLANNED'', ''DRAINING'', ''UPDATE_APPLYING'', ''UPDATE_APPLIED'', ''RESTART_PENDING'',
      ''DISCONNECT_EXPECTED'', ''RECONNECTING'', ''VERSION_VERIFYING'', ''CERTIFYING'',
      ''ROLLBACK_APPLYING'', ''READY'', ''ROLLED_BACK'', ''FAILED'', ''QUARANTINED'']"

definition update_transitions :: "(string \<times> string list) list" where
  "update_transitions =
     [(''UPDATE_PLANNED'', [''DRAINING'', ''UPDATE_APPLYING'', ''FAILED'']),
      (''DRAINING'', [''UPDATE_APPLYING'', ''FAILED'']),
      (''UPDATE_APPLYING'', [''UPDATE_APPLIED'', ''FAILED'', ''QUARANTINED'']),
      (''UPDATE_APPLIED'', [''RESTART_PENDING'', ''FAILED'']),
      (''RESTART_PENDING'', [''DISCONNECT_EXPECTED'', ''FAILED'']),
      (''DISCONNECT_EXPECTED'', [''RECONNECTING'', ''VERSION_VERIFYING'', ''FAILED'', ''QUARANTINED'']),
      (''RECONNECTING'', [''VERSION_VERIFYING'', ''FAILED'', ''QUARANTINED'']),
      (''VERSION_VERIFYING'', [''CERTIFYING'', ''ROLLBACK_APPLYING'', ''ROLLED_BACK'', ''FAILED'', ''QUARANTINED'']),
      (''CERTIFYING'', [''READY'', ''ROLLBACK_APPLYING'', ''ROLLED_BACK'', ''FAILED'', ''QUARANTINED'']),
      (''ROLLBACK_APPLYING'', [''RESTART_PENDING'', ''CERTIFYING'', ''FAILED'', ''QUARANTINED'']),
      (''READY'', []),
      (''ROLLED_BACK'', [''READY'', ''QUARANTINED'']),
      (''FAILED'', [''QUARANTINED'', ''UPDATE_PLANNED'', ''CERTIFYING'']),
      (''QUARANTINED'', [''UPDATE_PLANNED''])]"

definition RECONNECT_OBSERVATIONS :: "string list" where
  "RECONNECT_OBSERVATIONS =
     [''AWAITING_DISCONNECT'', ''EXPECTED_DISCONNECT'', ''AWAITING_RECONNECT'', ''RECONNECTED'',
      ''DEADLINE_EXPIRED'', ''WRONG_IDENTITY'', ''WRONG_VERSION'', ''STILL_CONNECTED'', ''MALFORMED_VERSION'']"

definition can_transition_update :: "string \<Rightarrow> string \<Rightarrow> bool" where
  "can_transition_update current target =
     (if current = target then True
      else target \<in> set (case map_of update_transitions current of None \<Rightarrow> [] | Some ts \<Rightarrow> ts))"

section \<open>Transactions\<close>

definition update_fields :: "string list" where
  "update_fields =
     [''schema_version'', ''worker_identity'', ''state'', ''expected_version'', ''previous_version'',
      ''observed_version'', ''artifact_identity'', ''previous_artifact_identity'', ''receipt_identity'',
      ''deadline'', ''reason'', ''updated_at'', ''claim_boundary'', ''transaction_identity'']"

record update_args =
  ua_worker_id :: json
  ua_state :: string
  ua_expected_version :: json
  ua_previous_version :: json
  ua_artifact_identity :: json
  ua_previous_artifact :: json
  ua_deadline :: json
  ua_reason :: json
  ua_receipt_identity :: json
  ua_observed_version :: json

definition check_version :: "string \<Rightarrow> json \<Rightarrow> unit result" where
  "check_version field v =
     tryE (parse_fabric_version v) (\<lambda>p.
       case p of None \<Rightarrow> Inl (ValidationError (field @ '' is malformed'')) | Some _ \<Rightarrow> Inr ())"

definition check_optional_version :: "string \<Rightarrow> json \<Rightarrow> unit result" where
  "check_optional_version field v = (if v = JNull then Inr () else check_version field v)"

definition build_update_transaction :: "string \<Rightarrow> update_args \<Rightarrow> dict result" where
  "build_update_transaction clock a =
     (if ua_state a \<notin> set UPDATE_STATES then Inl (ValidationError ''update transaction state is unsupported'')
      else
        tryE (check_version ''expected_version'' (ua_expected_version a)) (\<lambda>_.
        tryE (check_optional_version ''previous_version'' (ua_previous_version a)) (\<lambda>_.
        tryE (check_optional_version ''observed_version'' (ua_observed_version a)) (\<lambda>_.
        tryE (text_field ''worker_identity'' 256 (ua_worker_id a)) (\<lambda>worker.
        tryE (text_field ''reason'' 512 (ua_reason a)) (\<lambda>reason.
          Inr (attach_identity (dict_of
            [(''schema_version'', JStr UPDATE_TRANSACTION_SCHEMA), (''worker_identity'', JStr worker),
             (''state'', JStr (ua_state a)), (''expected_version'', ua_expected_version a),
             (''previous_version'', ua_previous_version a), (''observed_version'', ua_observed_version a),
             (''artifact_identity'', ua_artifact_identity a),
             (''previous_artifact_identity'', ua_previous_artifact a),
             (''receipt_identity'', ua_receipt_identity a), (''deadline'', ua_deadline a),
             (''reason'', JStr reason), (''updated_at'', JStr clock),
             (''claim_boundary'', JStr ''authorized update/restart transaction; not liveness or host honesty'')])
            ''transaction_identity'')))))))"

definition validate_update_transaction :: "json \<Rightarrow> string option \<Rightarrow> dict result" where
  "validate_update_transaction v expected_worker_id =
     (case v of
        JObj value \<Rightarrow>
          if dget value ''schema_version'' \<noteq> JStr UPDATE_TRANSACTION_SCHEMA
            then Inl (ValidationError ''unsupported update transaction schema'')
          else if \<not> keys_are value update_fields \<or> \<not> verify_identity value ''transaction_identity''
            then Inl (ValidationError ''update transaction fields or identity are invalid'')
          else if expected_worker_id \<noteq> None \<and> dget value ''worker_identity'' \<noteq> opt_str expected_worker_id
            then Inl (ValidationError ''update transaction is bound to another worker'')
          else if \<not> (case dget value ''state'' of JStr s \<Rightarrow> s \<in> set UPDATE_STATES | _ \<Rightarrow> False)
            then Inl (ValidationError ''update transaction state is unsupported'')
          else
            tryE (optional_identity ''artifact_identity'' (dget value ''artifact_identity'')) (\<lambda>_.
            tryE (optional_identity ''previous_artifact_identity'' (dget value ''previous_artifact_identity'')) (\<lambda>_.
            tryE (optional_identity ''receipt_identity'' (dget value ''receipt_identity'')) (\<lambda>_.
              Inr value)))
      | _ \<Rightarrow> Inl (ValidationError ''unsupported update transaction schema''))"

definition transition_update_transaction :: "string \<Rightarrow> dict \<Rightarrow> string \<Rightarrow> string \<Rightarrow> dict \<Rightarrow> dict result" where
  "transition_update_transaction clock current state reason updates =
     tryE (validate_update_transaction (JObj current) None) (\<lambda>checked.
       if \<not> (case dget checked ''state'' of JStr s \<Rightarrow> can_transition_update s state | _ \<Rightarrow> False)
         then Inl (ValidationError ''update transaction transition is not allowed'')
       else
         (let pick = (\<lambda>k. dget_default updates k (dget checked k)) in
          build_update_transaction clock
            \<lparr>ua_worker_id = dget checked ''worker_identity'', ua_state = state,
             ua_expected_version = pick ''expected_version'', ua_previous_version = pick ''previous_version'',
             ua_artifact_identity = pick ''artifact_identity'',
             ua_previous_artifact = pick ''previous_artifact_identity'', ua_deadline = pick ''deadline'',
             ua_reason = JStr reason, ua_receipt_identity = pick ''receipt_identity'',
             ua_observed_version = pick ''observed_version''\<rparr>))"

section \<open>Deadlines and versions\<close>

text \<open>
  \<^verbatim>\<open>reconnect_deadline\<close> checks its bound and prints the clock plus the given seconds; \<open>later\<close> is
  that clock.
\<close>

definition reconnect_deadline :: "(json \<Rightarrow> string) \<Rightarrow> json \<Rightarrow> string result" where
  "reconnect_deadline later seconds =
     (if \<not> (num_le (JInt 1) seconds \<and> num_le seconds (JInt 600))
        then Inl (ValidationError ''reconnect deadline is outside the bounded range'')
      else Inr (later seconds))"

definition stamp_or :: "string option \<Rightarrow> string \<Rightarrow> string" where
  "stamp_or now clock = (case now of None \<Rightarrow> clock | Some s \<Rightarrow> if s = [] then clock else s)"

definition disconnect_is_expected :: "string \<Rightarrow> string option \<Rightarrow> dict option \<Rightarrow> bool result" where
  "disconnect_is_expected clock now transaction =
     (case transaction of
        None \<Rightarrow> Inr False
      | Some t \<Rightarrow>
          tryE (validate_update_transaction (JObj t) None) (\<lambda>checked.
          tryE (in_strset (dget checked ''state'') [''RESTART_PENDING'', ''DISCONNECT_EXPECTED'', ''RECONNECTING'']) (\<lambda>pending.
            if \<not> pending then Inr False
            else str_le (stamp_or now clock) (dget checked ''deadline''))))"

definition version_matches_expected :: "json \<Rightarrow> json \<Rightarrow> bool result" where
  "version_matches_expected observed expected =
     tryE (parse_fabric_version observed) (\<lambda>left.
     tryE (parse_fabric_version expected) (\<lambda>right.
       Inr (left \<noteq> None \<and> right \<noteq> None \<and> left = right)))"

definition deadline_expired :: "string \<Rightarrow> string option \<Rightarrow> dict \<Rightarrow> bool result" where
  "deadline_expired clock now transaction =
     tryE (validate_update_transaction (JObj transaction) None) (\<lambda>checked.
       str_gt (stamp_or now clock) (dget checked ''deadline''))"

section \<open>Reconnect observation\<close>

text \<open>\<^verbatim>\<open>observed_worker_id in {None, worker}\<close>: an unhashable worker identity raises.\<close>

definition same_worker :: "string option \<Rightarrow> json \<Rightarrow> bool result" where
  "same_worker observed worker =
     (if is_list worker \<or> is_dict worker then Inl PyTypeError
      else Inr (observed = None \<or> opt_str observed = worker))"

definition wrong_worker :: "string option \<Rightarrow> json \<Rightarrow> bool" where
  "wrong_worker observed worker = (case observed of None \<Rightarrow> False | Some o' \<Rightarrow> o' \<noteq> [] \<and> JStr o' \<noteq> worker)"

type_synonym verdict = "string \<times> string \<times> string"

text \<open>The verdicts: observation, next state and reason.\<close>

definition verdict_wrong_identity :: verdict where
  "verdict_wrong_identity =
     (''WRONG_IDENTITY'', ''QUARANTINED'', ''reconnected worker identity does not match the enrolled worker'')"

definition verdict_deadline :: verdict where
  "verdict_deadline =
     (''DEADLINE_EXPIRED'', ''FAILED'', ''worker did not reconnect before the authorized restart deadline'')"

definition disconnect_verdict :: "bool \<Rightarrow> bool \<Rightarrow> bool \<Rightarrow> verdict" where
  "disconnect_verdict expired connected seen_disconnect =
     (if expired \<and> connected \<and> \<not> seen_disconnect then
        (''STILL_CONNECTED'', ''FAILED'', ''worker remained connected after an authorized restart deadline'')
      else if expired \<and> \<not> connected then verdict_deadline
      else if \<not> connected then
        (''EXPECTED_DISCONNECT'', ''RECONNECTING'', ''authorized disconnect observed'')
      else if seen_disconnect \<and> connected then
        (''RECONNECTED'', ''RECONNECTING'', ''worker reconnected after the authorized disconnect'')
      else
        (''AWAITING_DISCONNECT'', ''DISCONNECT_EXPECTED'',
         ''authorized restart is pending; worker has not yet disconnected''))"

definition reconnecting_verdict :: "bool \<Rightarrow> bool \<Rightarrow> string option \<Rightarrow> json \<Rightarrow> verdict" where
  "reconnecting_verdict expired connected observed_worker_id worker =
     (if expired \<and> \<not> connected then verdict_deadline
      else if \<not> connected then
        (''AWAITING_RECONNECT'', ''RECONNECTING'', ''authorized disconnect observed; waiting for reconnect'')
      else if wrong_worker observed_worker_id worker then verdict_wrong_identity
      else (''RECONNECTED'', ''VERSION_VERIFYING'', ''worker reconnected; version verification is required''))"

definition verifying_verdict :: "dict \<Rightarrow> string option \<Rightarrow> json \<Rightarrow> json \<Rightarrow> verdict result" where
  "verifying_verdict checked observed_worker_id observed_version observed_artifact =
     (if wrong_worker observed_worker_id (dget checked ''worker_identity'') then Inr verdict_wrong_identity
      else
        tryE (if observed_version = JNull then Inr False
              else tryE (parse_fabric_version observed_version) (\<lambda>p. Inr (p = None))) (\<lambda>malformed.
        if malformed then
          Inr (''MALFORMED_VERSION'', ''FAILED'', ''reconnected worker version is malformed'')
        else tryE (version_matches_expected observed_version (dget checked ''expected_version'')) (\<lambda>matched.
          if \<not> matched then
            Inr (''WRONG_VERSION'', ''ROLLBACK_APPLYING'', ''reconnected version does not match expected'')
          else if truthy (dget checked ''artifact_identity'') \<and> truthy observed_artifact
                  \<and> observed_artifact \<noteq> dget checked ''artifact_identity'' then
            Inr (''WRONG_VERSION'', ''ROLLBACK_APPLYING'',
                 ''reconnected artifact identity does not match the update transaction'')
          else
            Inr (''RECONNECTED'', ''CERTIFYING'', ''observed version matches the update transaction''))))"

definition observe_verdict ::
  "dict \<Rightarrow> string \<Rightarrow> bool \<Rightarrow> bool \<Rightarrow> bool \<Rightarrow> string option \<Rightarrow> json \<Rightarrow> json \<Rightarrow> bool \<Rightarrow> bool \<Rightarrow> verdict result" where
  "observe_verdict checked state expired connected seen_disconnect observed_worker_id observed_version
      observed_artifact recovery present_at_expected =
     (if recovery \<and> state \<in> {''DISCONNECT_EXPECTED'', ''RECONNECTING''} \<and> present_at_expected then
        Inr (''RECONNECTED'', ''VERSION_VERIFYING'',
             ''controller reconstructed; worker is present at the expected version'')
      else if state = ''DISCONNECT_EXPECTED'' then Inr (disconnect_verdict expired connected seen_disconnect)
      else if state = ''RECONNECTING'' then
        Inr (reconnecting_verdict expired connected observed_worker_id (dget checked ''worker_identity''))
      else if state = ''VERSION_VERIFYING'' then
        verifying_verdict checked observed_worker_id observed_version observed_artifact
      else Inr (''AWAITING_DISCONNECT'', state, ''reconnect observation is not applicable in '' @ state))"

definition observe_reconnect ::
  "string \<Rightarrow> string option \<Rightarrow> dict \<Rightarrow> bool \<Rightarrow> bool \<Rightarrow> string option \<Rightarrow> json \<Rightarrow> json \<Rightarrow> bool \<Rightarrow> dict result" where
  "observe_reconnect clock now transaction connected seen_disconnect observed_worker_id observed_version
      observed_artifact recovery =
     tryE (validate_update_transaction (JObj transaction) None) (\<lambda>checked.
     tryE (deadline_expired clock now checked) (\<lambda>expired.
     tryE (if \<not> connected then Inr False
           else tryE (same_worker observed_worker_id (dget checked ''worker_identity'')) (\<lambda>same.
             if \<not> same then Inr False
             else version_matches_expected observed_version (dget checked ''expected_version''))) (\<lambda>present_at_expected.
     tryE (case dget checked ''state'' of
             JStr state \<Rightarrow>
               observe_verdict checked state expired connected seen_disconnect observed_worker_id
                 observed_version observed_artifact recovery present_at_expected
           | _ \<Rightarrow> Inl PyTypeError) (\<lambda>(observation, next_state, reason).
     tryE (same_worker observed_worker_id (dget checked ''worker_identity'')) (\<lambda>same_identity.
     tryE (version_matches_expected observed_version (dget checked ''expected_version'')) (\<lambda>version_matched.
       Inr (dict_of
         [(''observation'', JStr observation), (''next_state'', JStr next_state), (''reason'', JStr reason),
          (''expired'', JBool expired), (''connected'', JBool connected),
          (''seen_disconnect'', JBool seen_disconnect), (''observed_version'', observed_version),
          (''observed_worker_id'', opt_str observed_worker_id),
          (''observed_artifact_identity'', observed_artifact),
          (''expected_version'', dget checked ''expected_version''),
          (''expected_worker_id'', dget checked ''worker_identity''),
          (''same_identity'', JBool same_identity), (''version_matched'', JBool version_matched),
          (''recovery'', JBool recovery)])))))))"

definition planned_update_sequence :: "string list" where
  "planned_update_sequence =
     [''UPDATE_PLANNED'', ''DRAINING'', ''UPDATE_APPLYING'', ''UPDATE_APPLIED'', ''RESTART_PENDING'',
      ''DISCONNECT_EXPECTED'', ''RECONNECTING'', ''VERSION_VERIFYING'', ''CERTIFYING'', ''READY'']"

section \<open>Transactions: lemmas\<close>

definition update_valid :: "dict \<Rightarrow> bool" where
  "update_valid t = (validate_update_transaction (JObj t) None = Inr t)"

lemma validate_update_eq_Inr:
  "validate_update_transaction (JObj t) w = Inr v \<longleftrightarrow>
     v = t \<and> dget t ''schema_version'' = JStr UPDATE_TRANSACTION_SCHEMA \<and> keys_are t update_fields
     \<and> verify_identity t ''transaction_identity''
     \<and> (w = None \<or> dget t ''worker_identity'' = opt_str w)
     \<and> (\<exists>st. dget t ''state'' = JStr st \<and> st \<in> set UPDATE_STATES)
     \<and> identity_or_null (dget t ''artifact_identity'') \<and> identity_or_null (dget t ''previous_artifact_identity'')
     \<and> identity_or_null (dget t ''receipt_identity'')"
  by (cases "dget t ''state''") (auto simp: validate_update_transaction_def result_simps)

lemma validate_updateD:
  assumes "validate_update_transaction (JObj t) w = Inr v"
  shows "v = t" "update_valid t"
  using assms by (auto simp: validate_update_eq_Inr update_valid_def)

lemma update_validE:
  assumes "update_valid t"
  obtains st where "dget t ''state'' = JStr st" "st \<in> set UPDATE_STATES"
    "validate_update_transaction (JObj t) None = Inr t"
  using assms by (auto simp: update_valid_def validate_update_eq_Inr)

lemma build_update_eq_Inr:
  "build_update_transaction clock a = Inr r \<longleftrightarrow>
     ua_state a \<in> set UPDATE_STATES
     \<and> check_version ''expected_version'' (ua_expected_version a) = Inr ()
     \<and> check_optional_version ''previous_version'' (ua_previous_version a) = Inr ()
     \<and> check_optional_version ''observed_version'' (ua_observed_version a) = Inr ()
     \<and> (\<exists>worker reason. ua_worker_id a = JStr worker \<and> text_ok 256 worker \<and> ua_reason a = JStr reason
          \<and> text_ok 512 reason \<and>
          r = attach_identity (dict_of
            [(''schema_version'', JStr UPDATE_TRANSACTION_SCHEMA), (''worker_identity'', JStr worker),
             (''state'', JStr (ua_state a)), (''expected_version'', ua_expected_version a),
             (''previous_version'', ua_previous_version a), (''observed_version'', ua_observed_version a),
             (''artifact_identity'', ua_artifact_identity a),
             (''previous_artifact_identity'', ua_previous_artifact a),
             (''receipt_identity'', ua_receipt_identity a), (''deadline'', ua_deadline a),
             (''reason'', JStr reason), (''updated_at'', JStr clock),
             (''claim_boundary'', JStr ''authorized update/restart transaction; not liveness or host honesty'')])
            ''transaction_identity'')"
  unfolding build_update_transaction_def by (simp only: result_simps not_not sum.inject) auto

lemma build_update_fields:
  assumes "build_update_transaction clock a = Inr r"
  shows "dget r ''worker_identity'' = ua_worker_id a" "dget r ''state'' = JStr (ua_state a)"
    "dget r ''expected_version'' = ua_expected_version a" "dget r ''deadline'' = ua_deadline a"
  using assms by (auto simp: build_update_eq_Inr)

lemma build_update_valid:
  assumes "build_update_transaction clock a = Inr r"
    and "identity_or_null (ua_artifact_identity a)" "identity_or_null (ua_previous_artifact a)"
        "identity_or_null (ua_receipt_identity a)"
  shows "update_valid r"
  using assms
  by (auto simp: build_update_eq_Inr update_valid_def validate_update_eq_Inr keys_are_def update_fields_def)

lemma transition_update_InrD:
  assumes "transition_update_transaction clock cur st reason upd = Inr nxt"
  obtains s0 where "update_valid cur" "dget cur ''state'' = JStr s0" "can_transition_update s0 st"
    "dget nxt ''state'' = JStr st" "dget nxt ''worker_identity'' = dget cur ''worker_identity''"
    "check_version ''expected_version'' (dget nxt ''expected_version'') = Inr ()"
proof (cases "validate_update_transaction (JObj cur) None")
  case (Inl e)
  with assms show thesis by (simp add: transition_update_transaction_def)
next
  case (Inr v)
  note v = validate_updateD [OF this]
  from v(2) obtain s0 where s0: "dget cur ''state'' = JStr s0" by (rule update_validE)
  from assms Inr v(1) s0 obtain a where a: "can_transition_update s0 st" "build_update_transaction clock a = Inr nxt"
    "ua_state a = st" "ua_worker_id a = dget cur ''worker_identity''"
    by (auto simp: transition_update_transaction_def split: if_splits)
  from a(2) have "check_version ''expected_version'' (dget nxt ''expected_version'') = Inr ()"
    by (auto simp: build_update_eq_Inr)
  with that [OF v(2) s0 a(1)] build_update_fields [OF a(2)] a(3,4) show thesis by simp
qed

section \<open>Runs\<close>

text \<open>The states a transaction passes through: any number of accepted transitions with any arguments.\<close>

inductive update_run :: "dict \<Rightarrow> dict \<Rightarrow> bool" where
  run_start: "update_run t t"
| run_step: "update_run t cur \<Longrightarrow> transition_update_transaction clock cur st reason upd = Inr nxt \<Longrightarrow>
     update_run t nxt"

inductive_cases update_runE: "update_run t nxt"

lemma into_READY: "can_transition_update s0 ''READY'' \<longleftrightarrow> s0 \<in> {''READY'', ''CERTIFYING'', ''ROLLED_BACK''}"
  by (auto simp: can_transition_update_def update_transitions_def split: if_splits option.splits)

lemma out_of_READY: "can_transition_update ''READY'' st \<longleftrightarrow> st = ''READY''"
  by (auto simp: can_transition_update_def update_transitions_def)

lemma into_ROLLED_BACK: "can_transition_update s0 ''ROLLED_BACK'' \<longleftrightarrow>
    s0 \<in> {''ROLLED_BACK'', ''VERSION_VERIFYING'', ''CERTIFYING''}"
  by (auto simp: can_transition_update_def update_transitions_def split: if_splits option.splits)

lemma update_run_worker: "update_run t nxt \<Longrightarrow> dget nxt ''worker_identity'' = dget t ''worker_identity''"
  by (induction rule: update_run.induct) (auto elim: transition_update_InrD)

section \<open>Observation: lemmas\<close>

lemma observe_InrD:
  assumes "observe_reconnect clock now t connected seen oid over oart recovery = Inr r"
  obtains st expired present o' n re same matched where
    "update_valid t" "dget t ''state'' = JStr st" "deadline_expired clock now t = Inr expired"
    "observe_verdict t st expired connected seen oid over oart recovery present = Inr (o', n, re)"
    "present \<longrightarrow> connected \<and> same_worker oid (dget t ''worker_identity'') = Inr True
       \<and> version_matches_expected over (dget t ''expected_version'') = Inr True"
    "same_worker oid (dget t ''worker_identity'') = Inr same"
    "version_matches_expected over (dget t ''expected_version'') = Inr matched"
    "dget r ''observation'' = JStr o'" "dget r ''next_state'' = JStr n" "dget r ''expired'' = JBool expired"
    "dget r ''version_matched'' = JBool matched" "dget r ''same_identity'' = JBool same"
proof (cases "validate_update_transaction (JObj t) None")
  case (Inl e)
  with assms show thesis by (simp add: observe_reconnect_def)
next
  case (Inr v)
  note v = validate_updateD [OF this]
  from v(2) obtain st where st: "dget t ''state'' = JStr st" by (rule update_validE)
  from assms Inr v(1) st show thesis
    by (auto simp: observe_reconnect_def tryE_eq_Inr dget_dict_of intro!: that [OF v(2) st] split: if_splits)
qed

lemma disconnect_verdictD:
  "disconnect_verdict expired connected seen = (o', n, re) \<Longrightarrow>
     (o', n) \<in> {(''STILL_CONNECTED'', ''FAILED''), (''DEADLINE_EXPIRED'', ''FAILED''),
        (''EXPECTED_DISCONNECT'', ''RECONNECTING''), (''RECONNECTED'', ''RECONNECTING''),
        (''AWAITING_DISCONNECT'', ''DISCONNECT_EXPECTED'')} \<and> (n = ''FAILED'' \<longrightarrow> expired)"
  by (simp add: disconnect_verdict_def verdict_deadline_def split: if_splits; clarsimp)

lemma reconnecting_verdictD:
  "reconnecting_verdict expired connected oid worker = (o', n, re) \<Longrightarrow>
     (o', n) \<in> {(''DEADLINE_EXPIRED'', ''FAILED''), (''AWAITING_RECONNECT'', ''RECONNECTING''),
        (''WRONG_IDENTITY'', ''QUARANTINED''), (''RECONNECTED'', ''VERSION_VERIFYING'')}
     \<and> (n = ''FAILED'' \<longrightarrow> expired)"
  by (simp add: reconnecting_verdict_def verdict_deadline_def verdict_wrong_identity_def split: if_splits; clarsimp)

lemma verifying_verdictD:
  "verifying_verdict t oid over oart = Inr (o', n, re) \<Longrightarrow>
     (o', n) \<in> {(''WRONG_IDENTITY'', ''QUARANTINED''), (''MALFORMED_VERSION'', ''FAILED''),
        (''WRONG_VERSION'', ''ROLLBACK_APPLYING''), (''RECONNECTED'', ''CERTIFYING'')}"
  unfolding verifying_verdict_def verdict_wrong_identity_def
  by (auto simp: tryE_eq_Inr split: if_splits)

lemma observe_verdict_cases:
  assumes "observe_verdict t st expired connected seen oid over oart recovery present = Inr (o', n, re)"
  obtains (recovered) "st \<in> {''DISCONNECT_EXPECTED'', ''RECONNECTING''}" "o' = ''RECONNECTED''" "n = ''VERSION_VERIFYING''"
  | (disconnect) "st = ''DISCONNECT_EXPECTED''" "disconnect_verdict expired connected seen = (o', n, re)"
  | (reconnecting) "st = ''RECONNECTING''"
      "reconnecting_verdict expired connected oid (dget t ''worker_identity'') = (o', n, re)"
  | (verifying) "st = ''VERSION_VERIFYING''" "verifying_verdict t oid over oart = Inr (o', n, re)"
  | (other) "o' = ''AWAITING_DISCONNECT''" "n = st"
  using assms unfolding observe_verdict_def by (simp split: if_splits)

lemma observe_verdict_allowed:
  assumes "observe_verdict t st expired connected seen oid over oart recovery present = Inr (o', n, re)"
  shows "can_transition_update st n \<and> o' \<in> set RECONNECT_OBSERVATIONS"
  using assms
proof (cases rule: observe_verdict_cases)
  case recovered
  then show ?thesis by (auto simp: can_transition_update_def update_transitions_def RECONNECT_OBSERVATIONS_def)
next
  case disconnect
  with disconnect_verdictD [OF disconnect(2)] show ?thesis
    by (auto simp: can_transition_update_def update_transitions_def RECONNECT_OBSERVATIONS_def)
next
  case reconnecting
  with reconnecting_verdictD [OF reconnecting(2)] show ?thesis
    by (auto simp: can_transition_update_def update_transitions_def RECONNECT_OBSERVATIONS_def)
next
  case verifying
  with verifying_verdictD [OF verifying(2)] show ?thesis
    by (auto simp: can_transition_update_def update_transitions_def RECONNECT_OBSERVATIONS_def)
next
  case other
  then show ?thesis by (simp add: can_transition_update_def RECONNECT_OBSERVATIONS_def)
qed

lemma observe_verdict_failed:
  assumes "observe_verdict t st False connected seen oid over oart recovery present = Inr (o', ''FAILED'', re)"
  shows "o' = ''MALFORMED_VERSION'' \<or> st = ''FAILED''"
  using assms
proof (cases rule: observe_verdict_cases)
  case disconnect
  then show ?thesis using disconnect_verdictD [OF disconnect(2)] by simp
next
  case reconnecting
  then show ?thesis using reconnecting_verdictD [OF reconnecting(2)] by simp
next
  case verifying
  then show ?thesis using verifying_verdictD [OF verifying(2)] by simp
qed auto

lemma observe_verdict_certifying:
  assumes "observe_verdict t st expired connected seen oid over oart recovery present = Inr (o', ''CERTIFYING'', re)"
  shows "st = ''CERTIFYING'' \<or> st = ''VERSION_VERIFYING'' \<and> verifying_verdict t oid over oart = Inr (o', ''CERTIFYING'', re)"
  using assms
proof (cases rule: observe_verdict_cases)
  case disconnect
  then show ?thesis using disconnect_verdictD [OF disconnect(2)] by simp
next
  case reconnecting
  then show ?thesis using reconnecting_verdictD [OF reconnecting(2)] by simp
qed auto

section \<open>A concrete transaction\<close>

definition demo_update :: "string \<Rightarrow> string \<Rightarrow> dict" where
  "demo_update st deadline =
     (case build_update_transaction ''t''
        \<lparr>ua_worker_id = JStr ''w'', ua_state = st, ua_expected_version = JStr ''0.2.0a6'',
         ua_previous_version = JNull, ua_artifact_identity = JNull, ua_previous_artifact = JNull,
         ua_deadline = JStr deadline, ua_reason = JStr ''test'', ua_receipt_identity = JNull,
         ua_observed_version = JNull\<rparr> of Inl _ \<Rightarrow> fmempty | Inr r \<Rightarrow> r)"

lemma demo_version: "parse_fabric_version (JStr ''0.2.0a6'') = Inr (Some (FabricVersion 0 2 0 6))"
  by (simp add: parse_fabric_version_def parse_part_def isdigit_def isdigit_char_def is_ascii_digit_def
      int_of_digits_def digits_val_def digit_val_def pad_numbers_def)

lemma demo_update:
  assumes "st \<in> set UPDATE_STATES"
  shows "update_valid (demo_update st d)" "dget (demo_update st d) ''state'' = JStr st"
    "dget (demo_update st d) ''deadline'' = JStr d" "dget (demo_update st d) ''worker_identity'' = JStr ''w''"
    "dget (demo_update st d) ''expected_version'' = JStr ''0.2.0a6''"
proof -
  let ?a = "\<lparr>ua_worker_id = JStr ''w'', ua_state = st, ua_expected_version = JStr ''0.2.0a6'',
         ua_previous_version = JNull, ua_artifact_identity = JNull, ua_previous_artifact = JNull,
         ua_deadline = JStr d, ua_reason = JStr ''test'', ua_receipt_identity = JNull,
         ua_observed_version = JNull\<rparr>"
  have "\<exists>r. build_update_transaction ''t'' ?a = Inr r"
    unfolding build_update_eq_Inr using assms
    by (simp add: check_version_def check_optional_version_def demo_version text_ok_def)
  then have b: "build_update_transaction ''t'' ?a = Inr (demo_update st d)" by (auto simp: demo_update_def)
  show "update_valid (demo_update st d)" by (rule build_update_valid [OF b]) simp_all
  show "dget (demo_update st d) ''state'' = JStr st" "dget (demo_update st d) ''deadline'' = JStr d"
    "dget (demo_update st d) ''worker_identity'' = JStr ''w''"
    "dget (demo_update st d) ''expected_version'' = JStr ''0.2.0a6''"
    using build_update_fields [OF b] by simp_all
qed

section \<open>Properties\<close>

text \<open>
  whatever the evidence, the state that a reconnect observation proposes is one the transition table
  allows from the transaction's state, and the observation is one of the documented ones.
\<close>

theorem observe_reconnect_follows_table:
  assumes "observe_reconnect clock now t connected seen oid over oart recovery = Inr r"
  shows "\<exists>st n o'. dget t ''state'' = JStr st \<and> dget r ''next_state'' = JStr n \<and> can_transition_update st n
    \<and> dget r ''observation'' = JStr o' \<and> o' \<in> set RECONNECT_OBSERVATIONS"
  using assms
proof (rule observe_InrD)
  fix st expired present o' n re same matched
  assume st: "dget t ''state'' = JStr st" and r: "dget r ''observation'' = JStr o'" "dget r ''next_state'' = JStr n"
    and v: "observe_verdict t st expired connected seen oid over oart recovery present = Inr (o', n, re)"
  from observe_verdict_allowed [OF v] st r show ?thesis by blast
qed

text \<open>The evidence of the concrete runs: the worker is back at the expected version.\<close>

lemma demo_observe:
  assumes "st \<in> {''VERSION_VERIFYING'', ''RECONNECTING''}"
  shows "\<exists>r. observe_reconnect ''2026'' None (demo_update st ''2027'') True True (Some ''w'') (JStr ''0.2.0a6'') JNull False = Inr r
    \<and> dget r ''next_state'' = JStr (if st = ''RECONNECTING'' then ''VERSION_VERIFYING'' else ''CERTIFYING'')
    \<and> dget r ''expired'' = JBool False"
proof -
  have m: "st \<in> set UPDATE_STATES" using assms by (auto simp: UPDATE_STATES_def)
  note d = demo_update [OF m, of "''2027''"]
  have v: "validate_update_transaction (JObj (demo_update st ''2027'')) None = Inr (demo_update st ''2027'')"
    using d(1) by (simp add: update_valid_def)
  have x: "deadline_expired ''2026'' None (demo_update st ''2027'') = Inr False"
    by (simp add: deadline_expired_def v d stamp_or_def less_char_def)
  have sw: "same_worker (Some ''w'') (JStr ''w'') = Inr True" "wrong_worker (Some ''w'') (JStr ''w'') = False"
    by (simp_all add: same_worker_def wrong_worker_def)
  have vm: "version_matches_expected (JStr ''0.2.0a6'') (JStr ''0.2.0a6'') = Inr True"
    by (simp add: version_matches_expected_def demo_version)
  have "\<exists>re. observe_verdict (demo_update st ''2027'') st False True True (Some ''w'') (JStr ''0.2.0a6'') JNull False True
     = Inr (''RECONNECTED'', if st = ''RECONNECTING'' then ''VERSION_VERIFYING'' else ''CERTIFYING'', re)"
    using assms
  proof (elim insertE emptyE)
    assume "st = ''VERSION_VERIFYING''"
    with d vm sw show ?thesis by (simp add: observe_verdict_def verifying_verdict_def demo_version)
  next
    assume "st = ''RECONNECTING''"
    with d sw show ?thesis by (simp add: observe_verdict_def reconnecting_verdict_def)
  qed
  then obtain re where "observe_verdict (demo_update st ''2027'') st False True True (Some ''w'') (JStr ''0.2.0a6'') JNull False True
     = Inr (''RECONNECTED'', if st = ''RECONNECTING'' then ''VERSION_VERIFYING'' else ''CERTIFYING'', re)"
    by blast
  then show ?thesis by (simp add: observe_reconnect_def v x d sw vm)
qed

theorem observe_reconnect_follows_table_witness:
  "\<exists>r. observe_reconnect ''2026'' None (demo_update ''RECONNECTING'' ''2027'') True True (Some ''w'') (JStr ''0.2.0a6'') JNull False = Inr r
    \<and> dget r ''next_state'' = JStr ''VERSION_VERIFYING'' \<and> can_transition_update ''RECONNECTING'' ''VERSION_VERIFYING''"
proof -
  obtain r where r: "observe_reconnect ''2026'' None (demo_update ''RECONNECTING'' ''2027'') True True (Some ''w'')
      (JStr ''0.2.0a6'') JNull False = Inr r" "dget r ''next_state'' = JStr ''VERSION_VERIFYING''"
    using demo_observe [of "''RECONNECTING''"] by auto
  have m: "''RECONNECTING'' \<in> set UPDATE_STATES" by (simp add: UPDATE_STATES_def)
  from observe_reconnect_follows_table [OF r(1)] r demo_update(2) [OF m, of "''2027''"] show ?thesis by auto
qed



text \<open>
  before the deadline an authorised restart is never reported as failed: an observation proposes FAILED
  for a transaction that has not expired only for a malformed version, and the disconnect of a transaction
  that waits for it is expected exactly until the deadline.
\<close>

theorem disconnect_before_deadline_is_no_failure:
  assumes r: "observe_reconnect clock now t connected seen oid over oart recovery = Inr r"
    and e: "dget r ''expired'' = JBool False" and t: "dget t ''state'' \<noteq> JStr ''FAILED''"
  shows "(dget r ''next_state'' = JStr ''FAILED'' \<longrightarrow> dget r ''observation'' = JStr ''MALFORMED_VERSION'')
    \<and> (dget t ''state'' \<in> {JStr ''RESTART_PENDING'', JStr ''DISCONNECT_EXPECTED'', JStr ''RECONNECTING''} \<longrightarrow>
         disconnect_is_expected clock now (Some t) = Inr True)"
  using r
proof (rule observe_InrD)
  fix st expired present o' n' re same matched
  assume st: "dget t ''state'' = JStr st" and valid: "update_valid t" and d: "deadline_expired clock now t = Inr expired"
    and v: "observe_verdict t st expired connected seen oid over oart recovery present = Inr (o', n', re)"
    and f: "dget r ''observation'' = JStr o'" "dget r ''next_state'' = JStr n'" "dget r ''expired'' = JBool expired"
  from e f(3) have "expired = False" by simp
  then have "n' = ''FAILED'' \<longrightarrow> o' = ''MALFORMED_VERSION''"
    using observe_verdict_failed [of t st connected seen oid over oart recovery present o' re] v st t by auto
  moreover have "disconnect_is_expected clock now (Some t) = Inr True"
    if "dget t ''state'' \<in> {JStr ''RESTART_PENDING'', JStr ''DISCONNECT_EXPECTED'', JStr ''RECONNECTING''}"
  proof -
    from valid have c: "validate_update_transaction (JObj t) None = Inr t" by (simp add: update_valid_def)
    with d \<open>expired = False\<close> obtain dl where "dget t ''deadline'' = JStr dl" "stamp_or now clock \<le> dl"
      by (auto simp: deadline_expired_def str_gt_eq_Inr)
    moreover have "in_strset (dget t ''state'') [''RESTART_PENDING'', ''DISCONNECT_EXPECTED'', ''RECONNECTING''] = Inr True"
      using that by (simp add: in_strset_eq_Inr_True) blast
    ultimately show ?thesis by (simp add: disconnect_is_expected_def c)
  qed
  ultimately show ?thesis using f by auto
qed

theorem disconnect_before_deadline_is_no_failure_witness:
  "disconnect_is_expected ''2026'' None (Some (demo_update ''RECONNECTING'' ''2027'')) = Inr True"
proof -
  obtain r where r: "observe_reconnect ''2026'' None (demo_update ''RECONNECTING'' ''2027'') True True (Some ''w'')
      (JStr ''0.2.0a6'') JNull False = Inr r" "dget r ''expired'' = JBool False"
    using demo_observe [of "''RECONNECTING''"] by auto
  have m: "''RECONNECTING'' \<in> set UPDATE_STATES" by (simp add: UPDATE_STATES_def)
  have st: "dget (demo_update ''RECONNECTING'' ''2027'') ''state'' = JStr ''RECONNECTING''"
    using demo_update(2) [OF m, of "''2027''"] .
  from disconnect_before_deadline_is_no_failure [OF r] st show ?thesis by simp
qed

text \<open>
  a run of accepted transitions keeps the worker of the transaction, ends in READY only if it passed
  through CERTIFYING or was rolled back, and never leaves READY.
\<close>

theorem update_run_ready_is_certified:
  assumes "update_run t nxt"
  shows "dget nxt ''worker_identity'' = dget t ''worker_identity''
    \<and> (dget t ''state'' = JStr ''READY'' \<longrightarrow> dget nxt ''state'' = JStr ''READY'')
    \<and> (dget nxt ''state'' = JStr ''READY'' \<and> dget t ''state'' \<noteq> JStr ''READY'' \<longrightarrow>
         (\<exists>mid. update_run t mid \<and> dget mid ''state'' \<in> {JStr ''CERTIFYING'', JStr ''ROLLED_BACK''} \<and> update_run mid nxt))"
  using assms
proof (induction rule: update_run.induct)
  case (run_start t)
  then show ?case by simp
next
  case (run_step t cur clock st reason upd nxt)
  from run_step.hyps(2) obtain s0 where s0: "dget cur ''state'' = JStr s0" "can_transition_update s0 st"
    "dget nxt ''state'' = JStr st"
    by (rule transition_update_InrD)
  have w: "dget nxt ''worker_identity'' = dget t ''worker_identity''"
    by (rule update_run_worker [OF update_run.run_step [OF run_step.hyps]])
  show ?case
  proof (cases "st = ''READY'' \<and> s0 \<noteq> ''READY''")
    case True
    with s0 have "dget cur ''state'' \<in> {JStr ''CERTIFYING'', JStr ''ROLLED_BACK''}" by (auto simp: into_READY)
    moreover have "update_run cur nxt" by (rule update_run.run_step [OF update_run.run_start run_step.hyps(2)])
    ultimately show ?thesis using run_step s0 True w by auto
  next
    case False
    then show ?thesis
      using run_step s0 w out_of_READY by (auto intro: update_run.run_step)
  qed
qed

lemma demo_ready:
  "\<exists>nxt. transition_update_transaction ''t'' (demo_update ''CERTIFYING'' ''2027'') ''READY'' ''done'' fmempty = Inr nxt"
proof -
  have m: "''CERTIFYING'' \<in> set UPDATE_STATES" by (simp add: UPDATE_STATES_def)
  note d = demo_update [OF m, of "''2027''"]
  have f: "dget (demo_update ''CERTIFYING'' ''2027'') ''previous_version'' = JNull"
    "dget (demo_update ''CERTIFYING'' ''2027'') ''observed_version'' = JNull"
    by (simp_all add: demo_update_def build_update_transaction_def UPDATE_STATES_def check_version_def
        check_optional_version_def demo_version text_ok_def)
  have "dget_default fmempty k v = v" for k v by (simp add: dget_default_def)
  then show ?thesis
    using d f
    by (simp add: transition_update_transaction_def update_valid_def into_READY build_update_eq_Inr UPDATE_STATES_def
        check_version_def check_optional_version_def demo_version text_ok_def)
qed

theorem update_run_ready_is_certified_witness:
  "\<exists>nxt. update_run (demo_update ''CERTIFYING'' ''2027'') nxt \<and> dget nxt ''state'' = JStr ''READY''
     \<and> dget nxt ''worker_identity'' = JStr ''w''"
proof -
  obtain nxt where n: "transition_update_transaction ''t'' (demo_update ''CERTIFYING'' ''2027'') ''READY'' ''done'' fmempty = Inr nxt"
    using demo_ready by blast
  then have st: "dget nxt ''state'' = JStr ''READY''" by (rule transition_update_InrD)
  have run: "update_run (demo_update ''CERTIFYING'' ''2027'') nxt" by (rule run_step [OF run_start n])
  have m: "''CERTIFYING'' \<in> set UPDATE_STATES" by (simp add: UPDATE_STATES_def)
  from update_run_ready_is_certified [OF run] run st demo_update(4) [OF m, of "''2027''"] show ?thesis by auto
qed

text \<open>
  deadlines are compared as text. Within one second the comparison is right when both times or
  neither carry microseconds, and wrong otherwise: a clock on the full second counts as later than every
  deadline with microseconds in that second, so that the deadline is reported as expired too early, and a
  clock with microseconds counts as earlier than a deadline on the full second.
\<close>

theorem deadline_compared_as_text:
  assumes "update_valid t" and "dget t ''deadline'' = JStr (utc_isoformat base m)" and "m < 10 ^ 6" "n < 10 ^ 6"
  shows "deadline_expired (utc_isoformat base n) None t = Inr (if (m = 0) = (n = 0) then m < n else n = 0)"
  using assms by (simp add: deadline_expired_def update_valid_def stamp_or_def utc_isoformat_less)

theorem deadline_compared_as_text_witness:
  "deadline_expired (utc_isoformat ''2026-01-01T00:00:00'' 0) None
     (demo_update ''DISCONNECT_EXPECTED'' (utc_isoformat ''2026-01-01T00:00:00'' 500000)) = Inr True"
  using deadline_compared_as_text [of "demo_update ''DISCONNECT_EXPECTED'' (utc_isoformat ''2026-01-01T00:00:00'' 500000)"
    "''2026-01-01T00:00:00''" 500000 0] demo_update(1,3) [of "''DISCONNECT_EXPECTED''"]
  by (simp add: UPDATE_STATES_def)

end
