(* ===== verification/Rollout.thy ===== *)
theory Rollout
  imports Record_Fields Effects
begin

text \<open>
  \<^verbatim>\<open>src/src/mncs_fabric/rollout.py\<close>: the sequential canary rollout. The callbacks \<^verbatim>\<open>reconcile\<close> and
  \<^verbatim>\<open>persist\<close> are actions on an environment the rollout does not look into; the canaries, the remainder and
  the results of a plan are lists, as \<^verbatim>\<open>build_rollout_plan\<close> makes them (another iterable is refused here).
\<close>

section \<open>Plans\<close>

definition ROLLOUT_SCHEMA :: string where
  "ROLLOUT_SCHEMA = ''mncs-fabric.fleet-rollout.v0.1''"

definition ROLLOUT_STATES :: "string list" where
  "ROLLOUT_STATES = [''PLANNED'', ''IN_PROGRESS'', ''STOPPED'', ''COMPLETED'', ''FAILED'']"

definition CANARY_STATUSES :: "string list" where
  "CANARY_STATUSES =
     [''CANARY_PENDING'', ''CANARY_SUCCEEDED'', ''CANARY_FAILED'', ''ROLLOUT_CONTINUING'', ''ROLLOUT_STOPPED'']"

definition INTERMEDIATE_CANARY_STATES :: "string list" where
  "INTERMEDIATE_CANARY_STATES =
     [''MAINTENANCE'', ''RESTART_PENDING'', ''DISCONNECT_EXPECTED'', ''RECONNECTING'', ''VERSION_VERIFYING'',
      ''CERTIFYING'', ''DEGRADED'', ''QUARANTINED'', ''VERIFYING'', ''DRAINING'', ''ROLLBACK_APPLYING'']"

definition nonempty_str :: "json \<Rightarrow> bool" where
  "nonempty_str v = (case v of JStr s \<Rightarrow> s \<noteq> [] | _ \<Rightarrow> False)"

definition select_canaries :: "json list \<Rightarrow> int \<Rightarrow> json list result" where
  "select_canaries worker_ids canary_count =
     (let ordered = filter nonempty_str worker_ids in
      if canary_count < 1 \<or> 16 < canary_count
        then Inl (ValidationError ''canary_count is outside the bounded range'')
      else Inr (take (nat canary_count) ordered))"

definition build_rollout_plan :: "string \<Rightarrow> json list \<Rightarrow> int \<Rightarrow> bool \<Rightarrow> json \<Rightarrow> json \<Rightarrow> dict result" where
  "build_rollout_plan now worker_ids canary_count stop_on_failure update_class reason =
     (let workers = filter nonempty_str worker_ids in
      if workers = [] \<or> 64 < length workers
        then Inl (ValidationError ''rollout worker set is empty or exceeds the bound'')
      else
        tryE (select_canaries workers canary_count) (\<lambda>canaries.
        let remainder = filter (\<lambda>w. w \<notin> set canaries) workers in
        tryE (text_field ''update_class'' 1 update_class) (\<lambda>update_class.
        tryE (text_field ''reason'' 512 reason) (\<lambda>reason.
          Inr (attach_identity (dict_of
            [(''schema_version'', JStr ROLLOUT_SCHEMA), (''state'', JStr ''PLANNED''),
             (''canary_count'', JInt (int (length canaries))), (''stop_on_failure'', JBool stop_on_failure),
             (''update_class'', JStr update_class), (''canaries'', JList canaries),
             (''remainder'', JList remainder), (''results'', JList []),
             (''canary_status'', JStr ''CANARY_PENDING''), (''reason'', JStr reason),
             (''created_at'', JStr now),
             (''claim_boundary'', JStr ''sequential operator-authorized rollout plan; canary success requires post-restart READY'')])
            ''rollout_identity'')))))"

definition rollout_fields :: "string list" where
  "rollout_fields =
     [''schema_version'', ''state'', ''canary_count'', ''stop_on_failure'', ''update_class'', ''canaries'',
      ''remainder'', ''results'', ''canary_status'', ''reason'', ''created_at'', ''claim_boundary'',
      ''rollout_identity'']"

definition validate_rollout :: "json \<Rightarrow> dict result" where
  "validate_rollout v =
     (case v of
        JObj value \<Rightarrow>
          if dget value ''schema_version'' \<noteq> JStr ROLLOUT_SCHEMA
            then Inl (ValidationError ''unsupported rollout schema'')
          else if \<not> keys_are value rollout_fields \<or> \<not> verify_identity value ''rollout_identity''
            then Inl (ValidationError ''rollout fields or identity are invalid'')
          else tryE (in_strset (dget value ''state'') ROLLOUT_STATES) (\<lambda>known.
            if \<not> known then Inl (ValidationError ''rollout state is unsupported'')
            else tryE (in_strset (dget value ''canary_status'') CANARY_STATUSES) (\<lambda>known.
              if \<not> known then Inl (ValidationError ''rollout canary status is unsupported'')
              else Inr value))
      | _ \<Rightarrow> Inl (ValidationError ''unsupported rollout schema''))"

section \<open>Outcomes\<close>

text \<open>\<^verbatim>\<open>outcome.get(field) or {}\<close>, and \<^verbatim>\<open>.get(key)\<close> on it.\<close>

definition sub_part :: "dict \<Rightarrow> string \<Rightarrow> json" where
  "sub_part outcome field = py_or (dget outcome field) (JObj fmempty)"

definition sub_get :: "dict \<Rightarrow> string \<Rightarrow> string \<Rightarrow> json result" where
  "sub_get outcome field key = jget (sub_part outcome field) key"

definition deployment_succeeded :: "dict \<Rightarrow> bool result" where
  "deployment_succeeded outcome =
     (if truthy (dget outcome ''restart_required'') then Inr False
      else tryE (sub_get outcome ''receipt'' ''disposition'') (\<lambda>disposition.
        if disposition = JStr ''FAIL'' then Inr False
        else tryE (if \<not> truthy (sub_part outcome ''certification'') then Inr False
                   else tryE (sub_get outcome ''certification'' ''disposition'') (\<lambda>d.
                     if d = JNull then Inr False
                     else tryE (in_strset d [''CERTIFIED'']) (\<lambda>ok. Inr (\<not> ok)))) (\<lambda>uncertified.
          if uncertified then Inr False
          else tryE (sub_get outcome ''update_transaction'' ''state'') (\<lambda>txn_state.
            if \<not> truthy txn_state then Inr True
            else in_strset txn_state [''READY'', ''ROLLED_BACK'']))))"

definition canary_succeeded :: "dict \<Rightarrow> bool result" where
  "canary_succeeded outcome =
     tryE (sub_get outcome ''update_transaction'' ''state'') (\<lambda>txn_state.
       if truthy (dget outcome ''restart_required'') then Inr False
       else tryE (sub_get outcome ''receipt'' ''disposition'') (\<lambda>disposition.
         if disposition = JStr ''FAIL'' then Inr False
         else tryE (sub_get outcome ''management'' ''state'') (\<lambda>mstate.
           if mstate \<noteq> JStr ''READY'' then Inr False
           else tryE (in_strset mstate INTERMEDIATE_CANARY_STATES) (\<lambda>intermediate.
             if intermediate then Inr False
             else tryE (if \<not> truthy txn_state then Inr True else in_strset txn_state [''READY'', ''ROLLED_BACK'']) (\<lambda>settled.
               if \<not> settled then Inr False
               else tryE (if \<not> truthy (sub_part outcome ''certification'') then Inr False
                          else tryE (sub_get outcome ''certification'' ''disposition'') (\<lambda>d. Inr (d \<noteq> JStr ''CERTIFIED''))) (\<lambda>uncertified.
                 if uncertified then Inr False
                 else tryE (if \<not> truthy (sub_part outcome ''conformance'') then Inr False
                            else tryE (sub_get outcome ''conformance'' ''blocking_failures'') (\<lambda>b. Inr (truthy b))) (\<lambda>blocked.
                   Inr (\<not> blocked))))))))"

definition canary_failed :: "dict \<Rightarrow> bool result" where
  "canary_failed outcome =
     tryE (sub_get outcome ''management'' ''state'') (\<lambda>management.
     tryE (sub_get outcome ''receipt'' ''disposition'') (\<lambda>receipt.
       let observation = (case dget outcome ''observation'' of JObj o' \<Rightarrow> dget o' ''observation'' | _ \<Rightarrow> JNull) in
       if receipt = JStr ''FAIL'' then Inr True
       else if management = JStr ''QUARANTINED'' then Inr True
       else tryE (in_strset (dget outcome ''disposition'') [''FAIL'', ''FAILED'']) (\<lambda>failed.
         if failed then Inr True
         else tryE (in_strset observation
                [''DEADLINE_EXPIRED'', ''WRONG_VERSION'', ''WRONG_IDENTITY'', ''STILL_CONNECTED'', ''MALFORMED_VERSION'']) (\<lambda>bad.
           if bad then Inr True
           else tryE (sub_get outcome ''update_transaction'' ''state'') (\<lambda>txn_state.
             in_strset txn_state [''FAILED'', ''QUARANTINED''])))))"

definition record_outcome :: "json \<Rightarrow> dict \<Rightarrow> string \<Rightarrow> dict result" where
  "record_outcome worker_id outcome role =
     tryE (canary_succeeded outcome) (\<lambda>succeeded.
     tryE (canary_failed outcome) (\<lambda>failed.
     tryE (deployment_succeeded outcome) (\<lambda>deployed.
     tryE (sub_get outcome ''management'' ''state'') (\<lambda>mstate.
     tryE (sub_get outcome ''update_transaction'' ''state'') (\<lambda>tstate.
     tryE (sub_get outcome ''receipt'' ''receipt_identity'') (\<lambda>receipt.
     tryE (sub_get outcome ''certification'' ''certification_identity'') (\<lambda>certification.
     tryE (sub_get outcome ''conformance'' ''conformance_identity'') (\<lambda>conformance.
       Inr (dict_of
         [(''worker_id'', worker_id), (''role'', JStr role), (''failed'', JBool failed),
          (''succeeded'', JBool succeeded), (''deployment_succeeded'', JBool deployed),
          (''scheduler_ready'', JBool (mstate = JStr ''READY'')),
          (''canary_status'', JStr (if succeeded then ''CANARY_SUCCEEDED'' else if failed then ''CANARY_FAILED''
                                    else ''CANARY_PENDING'')),
          (''management_state'', mstate), (''transaction_state'', tstate), (''receipt_identity'', receipt),
          (''certification_identity'', certification), (''conformance_identity'', conformance),
          (''restart_required'', JBool (truthy (dget outcome ''restart_required'')))])))))))))"

section \<open>Execution\<close>

record 'e rollout_env =
  ro_checked :: dict
  ro_prior :: "dict list"
  ro_reconcile :: "json \<Rightarrow> (dict, 'e) act"
  ro_persist :: "(dict \<Rightarrow> (unit, 'e) act) option"
  ro_artifact :: "string option"

definition as_list :: "json \<Rightarrow> json list result" where
  "as_list v = (case v of JList xs \<Rightarrow> Inr xs | _ \<Rightarrow> Inl PyTypeError)"

text \<open>The prior results: dict items with a worker; the last one of a worker counts.\<close>

definition prior_results :: "dict \<Rightarrow> dict list result" where
  "prior_results checked =
     tryE (as_list (py_or (dget checked ''results'') (JList []))) (\<lambda>items.
       let ds = filter (\<lambda>d. truthy (dget d ''worker_id'')) (List.map_filter (\<lambda>v. case v of JObj d \<Rightarrow> Some d | _ \<Rightarrow> None) items)
       in if list_all (\<lambda>d. hashable (dget d ''worker_id'')) ds then Inr ds else Inl PyTypeError)"

definition prior_success :: "dict list \<Rightarrow> json \<Rightarrow> dict option result" where
  "prior_success prior worker_id =
     (if \<not> hashable worker_id then Inl PyTypeError
      else Inr (case find_last (\<lambda>d. dget d ''worker_id'' = worker_id) prior of
                  None \<Rightarrow> None
                | Some d \<Rightarrow> if truthy (dget d ''succeeded'') then Some d else None))"

definition do_persist :: "'e rollout_env \<Rightarrow> dict \<Rightarrow> (unit, 'e) act" where
  "do_persist E payload =
     (case ro_persist E of
        None \<Rightarrow> act_return ()
      | Some persist \<Rightarrow>
          persist (case ro_artifact E of
                     None \<Rightarrow> payload
                   | Some a \<Rightarrow> if a = [] then payload else fmupd ''artifact_identity'' (JStr a) payload))"

definition with_progress :: "dict \<Rightarrow> string \<Rightarrow> string \<Rightarrow> dict list \<Rightarrow> dict" where
  "with_progress checked state canary_status results =
     attach_identity
       (fmdrop ''rollout_identity''
         (fmupd ''results'' (JList (map JObj results))
           (fmupd ''canary_status'' (JStr canary_status) (fmupd ''state'' (JStr state) checked))))
       ''rollout_identity''"

text \<open>Reconcile one worker, record the outcome and persist the snapshot.\<close>

definition reconcile_one :: "'e rollout_env \<Rightarrow> string \<Rightarrow> string \<Rightarrow> json \<Rightarrow> dict list \<Rightarrow> (dict, 'e) act" where
  "reconcile_one E role canary_status worker_id results =
     act_bind (ro_reconcile E worker_id) (\<lambda>outcome.
     act_bind (act_lift (record_outcome worker_id outcome role)) (\<lambda>recorded.
     let recorded = (case ro_artifact E of
                       None \<Rightarrow> recorded
                     | Some a \<Rightarrow> if a = [] then recorded else fmupd ''artifact_identity'' (JStr a) recorded)
     in act_bind (do_persist E (with_progress (ro_checked E) ''IN_PROGRESS'' canary_status (results @ [recorded]))) (\<lambda>_.
          act_return recorded)))"

text \<open>A phase ends with the results, the state, the canary status, and whether the loop ran to its end.\<close>

type_synonym phase = "dict list \<times> string \<times> string \<times> bool"

primrec rollout_canaries :: "'e rollout_env \<Rightarrow> json list \<Rightarrow> dict list \<Rightarrow> string \<Rightarrow> (phase, 'e) act" where
  "rollout_canaries E [] results canary_status = act_return (results, ''IN_PROGRESS'', canary_status, True)"
| "rollout_canaries E (w # ws) results canary_status =
     act_bind (act_lift (prior_success (ro_prior E) w)) (\<lambda>prior.
     case prior of
       Some item \<Rightarrow> rollout_canaries E ws (results @ [item]) ''CANARY_SUCCEEDED''
     | None \<Rightarrow>
         act_bind (reconcile_one E ''canary'' canary_status w results) (\<lambda>recorded.
         let results = results @ [recorded]; stop = truthy (dget (ro_checked E) ''stop_on_failure'') in
         if truthy (dget recorded ''succeeded'') then rollout_canaries E ws results ''CANARY_SUCCEEDED''
         else if truthy (dget recorded ''failed'') then
           (if stop then act_return (results, ''STOPPED'', ''ROLLOUT_STOPPED'', False)
            else rollout_canaries E ws results ''CANARY_FAILED'')
         else if stop then act_return (results, ''IN_PROGRESS'', ''CANARY_PENDING'', False)
         else rollout_canaries E ws results ''CANARY_PENDING''))"

primrec rollout_remainder :: "'e rollout_env \<Rightarrow> json list \<Rightarrow> dict list \<Rightarrow> string \<Rightarrow> (phase, 'e) act" where
  "rollout_remainder E [] results canary_status = act_return (results, ''IN_PROGRESS'', canary_status, True)"
| "rollout_remainder E (w # ws) results canary_status =
     act_bind (act_lift (prior_success (ro_prior E) w)) (\<lambda>prior.
     case prior of
       Some item \<Rightarrow> rollout_remainder E ws (results @ [item]) canary_status
     | None \<Rightarrow>
         act_bind (reconcile_one E ''remainder'' canary_status w results) (\<lambda>recorded.
         if truthy (dget recorded ''failed'') \<and> truthy (dget (ro_checked E) ''stop_on_failure'')
         then act_return (results @ [recorded], ''STOPPED'', ''ROLLOUT_STOPPED'', False)
         else rollout_remainder E ws (results @ [recorded]) canary_status))"

definition is_canary :: "dict \<Rightarrow> bool result" where
  "is_canary item = tryE (dsub item ''role'') (\<lambda>r. Inr (r = JStr ''canary''))"

text \<open>\<^verbatim>\<open>any(...)\<close> over the results, left to right, stopping at the first that holds.\<close>

fun anyE :: "('a \<Rightarrow> bool result) \<Rightarrow> 'a list \<Rightarrow> bool result" where
  "anyE p [] = Inr False"
| "anyE p (x # xs) = tryE (p x) (\<lambda>b. if b then Inr True else anyE p xs)"

definition failed_item :: "dict \<Rightarrow> bool result" where
  "failed_item item = tryE (dsub item ''failed'') (\<lambda>f. Inr (truthy f))"

definition canary_failed_any :: "dict list \<Rightarrow> bool result" where
  "canary_failed_any results = anyE (\<lambda>item. tryE (is_canary item) (\<lambda>c. if c then failed_item item else Inr False)) results"

definition canary_pending_any :: "dict list \<Rightarrow> bool result" where
  "canary_pending_any results =
     anyE (\<lambda>item. tryE (is_canary item) (\<lambda>c.
       if \<not> c then Inr False
       else tryE (dsub item ''succeeded'') (\<lambda>s.
         if truthy s then Inr False else tryE (failed_item item) (\<lambda>f. Inr (\<not> f))))) results"

definition rollout_phases :: "'e rollout_env \<Rightarrow> json list \<Rightarrow> json list result \<Rightarrow> (dict list \<times> string \<times> string, 'e) act" where
  "rollout_phases E canaries remainder =
     act_bind (rollout_canaries E canaries [] ''CANARY_PENDING'') (\<lambda>(results, state, canary_status, finished).
     if \<not> finished then act_return (results, state, canary_status)
     else
       act_bind (act_lift (canary_failed_any results)) (\<lambda>failed_any.
       act_bind (act_lift (canary_pending_any results)) (\<lambda>pending_any.
       if pending_any then act_return (results, ''IN_PROGRESS'', ''CANARY_PENDING'')
       else if failed_any \<and> truthy (dget (ro_checked E) ''stop_on_failure'')
         then act_return (results, ''STOPPED'', ''ROLLOUT_STOPPED'')
       else
         act_bind (act_lift remainder) (\<lambda>workers.
         act_bind (rollout_remainder E workers results (if failed_any then ''CANARY_FAILED'' else ''ROLLOUT_CONTINUING''))
           (\<lambda>(results, state, canary_status, finished).
              if \<not> finished then act_return (results, state, canary_status)
              else
                act_bind (act_lift (anyE failed_item results)) (\<lambda>any_failed.
                if any_failed
                then act_return (results, ''FAILED'', if failed_any then ''CANARY_FAILED'' else canary_status)
                else act_return (results, ''COMPLETED'', ''CANARY_SUCCEEDED'')))))))"

definition execute_rollout ::
  "dict \<Rightarrow> (json \<Rightarrow> (dict, 'e) act) \<Rightarrow> bool \<Rightarrow> (dict \<Rightarrow> (unit, 'e) act) option \<Rightarrow> string option \<Rightarrow> (dict, 'e) act" where
  "execute_rollout plan reconcile apply' persist artifact_identity =
     act_bind (act_lift (validate_rollout (JObj plan))) (\<lambda>checked.
     if \<not> apply' then act_return checked
     else
       act_bind (act_lift (prior_results checked)) (\<lambda>prior.
       let E = \<lparr>ro_checked = checked, ro_prior = prior, ro_reconcile = reconcile, ro_persist = persist,
                ro_artifact = artifact_identity\<rparr> in
       act_bind (act_lift (as_list (dget checked ''canaries''))) (\<lambda>canaries.
       act_bind (rollout_phases E canaries (as_list (dget checked ''remainder''))) (\<lambda>(results, state, canary_status).
         let finished = with_progress checked state canary_status results in
         act_bind (do_persist E finished) (\<lambda>_. act_return finished)))))"

section \<open>Lemmas\<close>

lemma anyE_False: "anyE p xs = Inr False \<Longrightarrow> x \<in> set xs \<Longrightarrow> p x = Inr False"
  by (induction xs) (auto simp: tryE_eq_Inr split: if_splits)

lemma record_outcome_fields:
  assumes "record_outcome w outcome role = Inr r"
  shows "dget r ''worker_id'' = w" "dget r ''role'' = JStr role"
    "\<exists>b. canary_succeeded outcome = Inr b \<and> dget r ''succeeded'' = JBool b"
    "\<exists>b. canary_failed outcome = Inr b \<and> dget r ''failed'' = JBool b"
    "dsub r ''role'' = Inr (JStr role)" "dsub r ''succeeded'' = Inr (dget r ''succeeded'')"
    "dsub r ''failed'' = Inr (dget r ''failed'')"
  using assms by (auto simp: record_outcome_def tryE_eq_Inr dsub_def)

text \<open>What stands in the results for a worker: a prior success, or the record of a new outcome.\<close>

definition item_for :: "'e rollout_env \<Rightarrow> string \<Rightarrow> json \<Rightarrow> dict \<Rightarrow> bool" where
  "item_for E role w item =
     (dget item ''worker_id'' = w \<and>
      (truthy (dget item ''succeeded'') \<and> item \<in> set (ro_prior E) \<or>
       dsub item ''role'' = Inr (JStr role) \<and> dsub item ''succeeded'' = Inr (dget item ''succeeded'')
       \<and> dsub item ''failed'' = Inr (dget item ''failed'')))"

lemma prior_success_item: "prior_success (ro_prior E) w = Inr (Some item) \<Longrightarrow> item_for E role w item \<and> truthy (dget item ''succeeded'')"
  using find_last_Some [of "\<lambda>d. dget d ''worker_id'' = w" "ro_prior E"]
  by (auto simp: prior_success_def item_for_def split: if_splits option.splits)

lemma reconcile_one_item:
  assumes "reconcile_one E role cs w res env = (Inr r, env')"
  shows "item_for E role w r"
proof -
  from assms obtain outcome rec where rec: "record_outcome w outcome role = Inr rec"
    "r = (case ro_artifact E of None \<Rightarrow> rec | Some a \<Rightarrow> if a = [] then rec else fmupd ''artifact_identity'' (JStr a) rec)"
    by (auto simp: reconcile_one_def act_bind_eq_Inr act_lift_eq_Inr)
  with record_outcome_fields [OF rec(1)] show ?thesis
    by (auto simp: item_for_def dsub_def split: option.split)
qed

lemma rollout_canaries_items:
  assumes "rollout_canaries E ws res cs env = (Inr (res', st, cst, True), env')"
  shows "\<exists>items. res' = res @ items \<and> list_all2 (item_for E ''canary'') ws items
    \<and> (truthy (dget (ro_checked E) ''stop_on_failure'') \<longrightarrow> list_all (\<lambda>i. truthy (dget i ''succeeded'')) items)"
  using assms
proof (induction ws arbitrary: res cs env)
  case Nil
  then show ?case by simp
next
  case (Cons w ws)
  from Cons.prems obtain prior where pr: "prior_success (ro_prior E) w = Inr prior"
    by (auto simp: act_bind_eq_Inr act_lift_eq_Inr)
  show ?case
  proof (cases prior)
    case (Some item)
    with Cons.prems pr have "rollout_canaries E ws (res @ [item]) ''CANARY_SUCCEEDED'' env = (Inr (res', st, cst, True), env')"
      by simp
    from Cons.IH [OF this] prior_success_item [OF pr [unfolded Some], of "''canary''"] show ?thesis by auto
  next
    case None
    with Cons.prems pr obtain r cs' env1 where
      r: "reconcile_one E ''canary'' cs w res env = (Inr r, env1)"
        "rollout_canaries E ws (res @ [r]) cs' env1 = (Inr (res', st, cst, True), env')"
        "truthy (dget (ro_checked E) ''stop_on_failure'') \<longrightarrow> truthy (dget r ''succeeded'')"
      by (auto simp: act_bind_eq_Inr split: if_splits)
    from Cons.IH [OF r(2)] reconcile_one_item [OF r(1)] r(3) show ?thesis by auto
  qed
qed

lemma rollout_canaries_unfinished:
  "rollout_canaries E ws res cs env = (Inr (res', st, cst, False), env') \<Longrightarrow> st \<in> {''STOPPED'', ''IN_PROGRESS''}"
proof (induction ws arbitrary: res cs env)
  case (Cons w ws)
  then show ?case by (auto simp: act_bind_eq_Inr act_lift_eq_Inr split: if_splits option.splits)
qed simp

lemma list_all2_item: "list_all2 (item_for E role) ws items \<Longrightarrow> w \<in> set ws \<Longrightarrow> \<exists>i \<in> set items. item_for E role w i"
  by (metis in_set_conv_nth list_all2_conv_all_nth)

lemma rollout_remainder_items:
  assumes "rollout_remainder E ws res cs env = (Inr (res', st, cst, fin), env')"
  shows "\<exists>items. res' = res @ items \<and> (fin \<longrightarrow> list_all2 (item_for E ''remainder'') ws items)
    \<and> (\<not> fin \<longrightarrow> st = ''STOPPED'')"
  using assms
proof (induction ws arbitrary: res cs env)
  case Nil
  then show ?case by simp
next
  case (Cons w ws)
  from Cons.prems obtain prior where pr: "prior_success (ro_prior E) w = Inr prior"
    by (auto simp: act_bind_eq_Inr act_lift_eq_Inr)
  show ?case
  proof (cases prior)
    case (Some item)
    with Cons.prems pr have "rollout_remainder E ws (res @ [item]) cs env = (Inr (res', st, cst, fin), env')"
      by simp
    from Cons.IH [OF this] prior_success_item [OF pr [unfolded Some], of "''remainder''"] show ?thesis by auto
  next
    case None
    with Cons.prems pr obtain r env1 where
      r: "reconcile_one E ''remainder'' cs w res env = (Inr r, env1)"
        "rollout_remainder E ws (res @ [r]) cs env1 = (Inr (res', st, cst, fin), env') \<or>
         (res' = res @ [r] \<and> st = ''STOPPED'' \<and> \<not> fin)"
      by (auto simp: act_bind_eq_Inr split: if_splits)
    from Cons.IH [of "res @ [r]" cs env1] reconcile_one_item [OF r(1)] r(2) show ?thesis by auto
  qed
qed

section \<open>The log of reconciled workers\<close>

definition logged :: "(json \<Rightarrow> (dict, 'e) act) \<Rightarrow> json \<Rightarrow> (dict, 'e \<times> json list) act" where
  "logged reconcile w env = (case reconcile w (fst env) of (r, e') \<Rightarrow> (r, (e', snd env @ [w])))"

definition unlogged :: "(dict \<Rightarrow> (unit, 'e) act) \<Rightarrow> dict \<Rightarrow> (unit, 'e \<times> json list) act" where
  "unlogged persist d env = (case persist d (fst env) of (r, e') \<Rightarrow> (r, (e', snd env)))"

definition logging :: "('e \<times> json list) rollout_env \<Rightarrow> bool" where
  "logging E = ((\<exists>rc. ro_reconcile E = logged rc) \<and> (\<exists>p. ro_persist E = map_option unlogged p))"

lemma do_persist_log:
  assumes "logging E" and "do_persist E d env = (r, env')"
  shows "snd env' = snd env"
  using assms by (auto simp: logging_def do_persist_def unlogged_def split: option.splits prod.splits)

lemma reconcile_one_log:
  assumes l: "logging E" and r: "reconcile_one E role cs w res env = (Inr x, env')"
  shows "snd env' = snd env @ [w]"
proof -
  from r obtain o' env1 d env2 where "ro_reconcile E w env = (Inr o', env1)" "do_persist E d env1 = (Inr (), env2)" "env' = env2"
    by (auto simp: reconcile_one_def act_bind_eq_Inr act_lift_eq_Inr)
  with do_persist_log [OF l] l show ?thesis by (auto simp: logging_def logged_def split: prod.splits)
qed

lemma rollout_canaries_log:
  assumes "logging E" and "rollout_canaries E ws res cs env = (Inr x, env')"
  shows "\<exists>xs. snd env' = snd env @ xs \<and> set xs \<subseteq> set ws"
  using assms(2)
proof (induction ws arbitrary: res cs env)
  case (Cons w ws)
  from Cons.prems obtain prior where pr: "prior_success (ro_prior E) w = Inr prior"
    by (auto simp: act_bind_eq_Inr act_lift_eq_Inr)
  show ?case
  proof (cases prior)
    case (Some item)
    with Cons.prems pr Cons.IH [of "res @ [item]"] show ?thesis by fastforce
  next
    case None
    with Cons.prems pr obtain r env1 where r: "reconcile_one E ''canary'' cs w res env = (Inr r, env1)"
      and rest: "env' = env1 \<or> (\<exists>cs'. rollout_canaries E ws (res @ [r]) cs' env1 = (Inr x, env'))"
      by (auto simp: act_bind_eq_Inr split: if_splits)
    from reconcile_one_log [OF assms(1) r] rest Cons.IH [of "res @ [r]" _ env1] show ?thesis by fastforce
  qed
qed simp

section \<open>The whole rollout\<close>

lemma validate_rollout_eq_Inr:
  "validate_rollout (JObj t) = Inr v \<longleftrightarrow>
     v = t \<and> dget t ''schema_version'' = JStr ROLLOUT_SCHEMA \<and> keys_are t rollout_fields
     \<and> verify_identity t ''rollout_identity''
     \<and> (\<exists>st. dget t ''state'' = JStr st \<and> st \<in> set ROLLOUT_STATES)
     \<and> (\<exists>c. dget t ''canary_status'' = JStr c \<and> c \<in> set CANARY_STATUSES)"
proof -
  have b: "(\<exists>b. in_strset x xs = Inr b \<and> b \<and> P) \<longleftrightarrow> in_strset x xs = Inr True \<and> P" for x xs P by auto
  show ?thesis by (simp add: validate_rollout_def result_simps in_strset_eq_Inr_True b) blast
qed

definition plan_env ::
  "dict \<Rightarrow> dict list \<Rightarrow> (json \<Rightarrow> (dict, 'e) act) \<Rightarrow> (dict \<Rightarrow> (unit, 'e) act) option \<Rightarrow> string option \<Rightarrow> 'e rollout_env" where
  "plan_env plan prior reconcile persist art =
     \<lparr>ro_checked = plan, ro_prior = prior, ro_reconcile = reconcile, ro_persist = persist, ro_artifact = art\<rparr>"

lemma plan_env_simps [simp]:
  "ro_checked (plan_env plan prior rc p art) = plan" "ro_prior (plan_env plan prior rc p art) = prior"
  "ro_reconcile (plan_env plan prior rc p art) = rc" "ro_persist (plan_env plan prior rc p art) = p"
  by (simp_all add: plan_env_def)

lemma with_progress_fields [simp]:
  "dget (with_progress c st cs rs) ''state'' = JStr st"
  "dget (with_progress c st cs rs) ''canary_status'' = JStr cs"
  "dget (with_progress c st cs rs) ''results'' = JList (map JObj rs)"
  "dget (with_progress c st cs rs) ''canaries'' = dget c ''canaries''"
  "dget (with_progress c st cs rs) ''remainder'' = dget c ''remainder''"
  by (simp_all add: with_progress_def)

lemma execute_rollout_InrD:
  assumes "execute_rollout plan rc True p art env = (Inr fin, env')"
  obtains prior cs results st cst env1 where
    "dget plan ''canaries'' = JList cs" "fin = with_progress plan st cst results"
    "rollout_phases (plan_env plan prior rc p art) cs (as_list (dget plan ''remainder'')) env = (Inr (results, st, cst), env1)"
    "do_persist (plan_env plan prior rc p art) fin env1 = (Inr (), env')"
  using assms
  by (auto simp: execute_rollout_def act_bind_eq_Inr act_lift_eq_Inr validate_rollout_eq_Inr as_list_def
      plan_env_def split: json.splits)

text \<open>
  How the phases end: before the remainder was touched, or after it, with every canary settled.
\<close>

lemma rollout_phases_InrD:
  assumes "rollout_phases E cs rem env = (Inr (results, st, cst), env')"
  obtains (canaries_only) fin st' cst' where
      "rollout_canaries E cs [] ''CANARY_PENDING'' env = (Inr (results, st', cst', fin), env')"
      "\<not> fin \<or> st = ''IN_PROGRESS'' \<or> st = ''STOPPED''" "\<not> fin \<Longrightarrow> st = st'"
  | (both) cres st1 cst1 env1 failed ws st2 cst2 fin where
      "rollout_canaries E cs [] ''CANARY_PENDING'' env = (Inr (cres, st1, cst1, True), env1)"
      "canary_failed_any cres = Inr failed" "canary_pending_any cres = Inr False"
      "\<not> (failed \<and> truthy (dget (ro_checked E) ''stop_on_failure''))"
      "rem = Inr ws" "rollout_remainder E ws cres (if failed then ''CANARY_FAILED'' else ''ROLLOUT_CONTINUING'') env1
          = (Inr (results, st2, cst2, fin), env')"
      "\<not> fin \<Longrightarrow> st = st2" "st = ''COMPLETED'' \<Longrightarrow> fin \<Longrightarrow> anyE failed_item results = Inr False"
proof -
  from assms obtain cres st1 cst1 fin1 env1 where
    c: "rollout_canaries E cs [] ''CANARY_PENDING'' env = (Inr (cres, st1, cst1, fin1), env1)"
    by (auto simp: rollout_phases_def act_bind_eq_Inr)
  show thesis
  proof (cases fin1)
    case False
    with assms c have "results = cres" "st = st1" "env' = env1"
      by (auto simp: rollout_phases_def act_bind_eq_Inr)
    with c False show thesis by (intro canaries_only [of st1 cst1 fin1]) auto
  next
    case True
    with assms c obtain failed pending where fp: "canary_failed_any cres = Inr failed" "canary_pending_any cres = Inr pending"
      by (auto simp: rollout_phases_def act_bind_eq_Inr act_lift_eq_Inr)
    show thesis
    proof (cases "pending \<or> failed \<and> truthy (dget (ro_checked E) ''stop_on_failure'')")
      case stop: True
      with assms c True fp have "results = cres" "st = ''IN_PROGRESS'' \<or> st = ''STOPPED''" "env' = env1"
        by (auto simp: rollout_phases_def act_bind_eq_Inr act_lift_eq_Inr split: if_splits)
      with c True show thesis by (intro canaries_only [of st1 cst1 fin1]) auto
    next
      case go: False
      with assms c True fp obtain ws res2 st2 cst2 fin2 where
        r: "rem = Inr ws" "rollout_remainder E ws cres (if failed then ''CANARY_FAILED'' else ''ROLLOUT_CONTINUING'') env1
          = (Inr (res2, st2, cst2, fin2), env')" "res2 = results" "\<not> fin2 \<longrightarrow> st = st2"
          "st = ''COMPLETED'' \<longrightarrow> fin2 \<longrightarrow> anyE failed_item results = Inr False"
        by (auto simp: rollout_phases_def act_bind_eq_Inr act_lift_eq_Inr split: if_splits)
      from c True fp go r show thesis
        by (intro both [of cres st1 cst1 env1 failed ws st2 cst2 fin2]) auto
    qed
  qed
qed

lemma canary_item_settled:
  assumes "item_for E ''canary'' w i" and "i \<in> set cres" and "canary_pending_any cres = Inr False"
  shows "truthy (dget i ''succeeded'') \<or> failed_item i = Inr True"
proof -
  note p = anyE_False [OF assms(3) [unfolded canary_pending_any_def] assms(2)]
  show ?thesis using assms(1) p by (auto simp: item_for_def is_canary_def failed_item_def split: if_splits)
qed

lemma rollout_plan_split:
  assumes "build_rollout_plan now workers n stop update_class reason = Inr plan"
  shows "\<exists>cs rs. dget plan ''canaries'' = JList cs \<and> dget plan ''remainder'' = JList rs
    \<and> cs = take (nat n) (filter nonempty_str workers) \<and> cs \<noteq> []
    \<and> set cs \<inter> set rs = {} \<and> set cs \<union> set rs = set (filter nonempty_str workers)
    \<and> validate_rollout (JObj plan) = Inr plan"
proof -
  let ?ws = "filter nonempty_str workers"
  let ?cs = "take (nat n) ?ws"
  from assms obtain uc re where n: "1 \<le> n" "n \<le> 16" and ne: "?ws \<noteq> []" and plan: "plan = attach_identity (dict_of
            [(''schema_version'', JStr ROLLOUT_SCHEMA), (''state'', JStr ''PLANNED''),
             (''canary_count'', JInt (int (length ?cs))), (''stop_on_failure'', JBool stop),
             (''update_class'', JStr uc), (''canaries'', JList ?cs),
             (''remainder'', JList (filter (\<lambda>w. w \<notin> set ?cs) ?ws)), (''results'', JList []),
             (''canary_status'', JStr ''CANARY_PENDING''), (''reason'', JStr re),
             (''created_at'', JStr now),
             (''claim_boundary'', JStr ''sequential operator-authorized rollout plan; canary success requires post-restart READY'')])
            ''rollout_identity''"
    by (auto simp: build_rollout_plan_def select_canaries_def result_simps simp del: fmap_of_list_simps split: if_splits)
  have "validate_rollout (JObj plan) = Inr plan"
    unfolding plan by (auto simp: validate_rollout_eq_Inr keys_are_def rollout_fields_def ROLLOUT_STATES_def CANARY_STATUSES_def)
  moreover have "?cs \<noteq> []" using n ne by (simp add: take_eq_Nil)
  moreover have "set ?cs \<subseteq> set ?ws" by (rule set_take_subset)
  ultimately show ?thesis
    by (intro exI [of _ ?cs] exI [of _ "filter (\<lambda>w. w \<notin> set ?cs) ?ws"]) (auto simp: plan)
qed

section \<open>A concrete rollout\<close>

definition demo_plan :: dict where
  "demo_plan =
     (case build_rollout_plan ''t'' [JStr ''a'', JStr ''b''] 1 True (JStr ''A'') (JStr ''r'') of
        Inl _ \<Rightarrow> fmempty | Inr plan \<Rightarrow> plan)"

definition demo_reconcile :: "json \<Rightarrow> (dict, unit) act" where
  "demo_reconcile w = act_return (dict_of
     (if w = JStr ''a'' then [(''management'', obj [(''state'', JStr ''READY'')])]
      else [(''restart_required'', JBool True), (''management'', obj [(''state'', JStr ''MAINTENANCE'')])]))"

lemma demo_plan_valid: "validate_rollout (JObj demo_plan) = Inr demo_plan"
proof -
  have p: "build_rollout_plan ''t'' [JStr ''a'', JStr ''b''] 1 True (JStr ''A'') (JStr ''r'') = Inr demo_plan"
    by (simp add: demo_plan_def build_rollout_plan_def nonempty_str_def select_canaries_def text_ok_def)
  from rollout_plan_split [OF p] show ?thesis by blast
qed

lemma demo_plan_fields:
  "dget demo_plan ''canaries'' = JList [JStr ''a'']" "dget demo_plan ''remainder'' = JList [JStr ''b'']"
  "dget demo_plan ''results'' = JList []" "dget demo_plan ''stop_on_failure'' = JBool True"
  by (simp_all add: demo_plan_def build_rollout_plan_def nonempty_str_def select_canaries_def text_ok_def)

lemma demo_run:
  "\<exists>ra rb. execute_rollout demo_plan demo_reconcile True None None () =
      (Inr (with_progress demo_plan ''COMPLETED'' ''CANARY_SUCCEEDED'' [ra, rb]), ())
    \<and> execute_rollout demo_plan (logged demo_reconcile) True (map_option unlogged None) None ((), []) =
      (Inr (with_progress demo_plan ''COMPLETED'' ''CANARY_SUCCEEDED'' [ra, rb]), ((), [JStr ''a'', JStr ''b'']))
    \<and> dget rb ''worker_id'' = JStr ''b'' \<and> dget rb ''succeeded'' = JBool False
    \<and> dget rb ''canary_status'' = JStr ''CANARY_PENDING''"
proof -
  let ?oa = "dict_of [(''management'', obj [(''state'', JStr ''READY'')])]"
  let ?ob = "dict_of [(''restart_required'', JBool True), (''management'', obj [(''state'', JStr ''MAINTENANCE'')])]"
  have o: "canary_succeeded ?oa = Inr True" "canary_failed ?oa = Inr False" "canary_succeeded ?ob = Inr False"
    "canary_failed ?ob = Inr False"
    by (simp_all add: canary_succeeded_def canary_failed_def sub_get_def sub_part_def py_or_def dget_def
        INTERMEDIATE_CANARY_STATES_def)
  have "\<exists>ra. record_outcome (JStr ''a'') ?oa ''canary'' = Inr ra" "\<exists>rb. record_outcome (JStr ''b'') ?ob ''remainder'' = Inr rb
     \<and> dget rb ''canary_status'' = JStr ''CANARY_PENDING''"
    using o by (simp_all add: record_outcome_def deployment_succeeded_def sub_get_def sub_part_def py_or_def dget_def)
  then obtain ra rb where r: "record_outcome (JStr ''a'') ?oa ''canary'' = Inr ra" "record_outcome (JStr ''b'') ?ob ''remainder'' = Inr rb"
    "dget rb ''canary_status'' = JStr ''CANARY_PENDING''" by blast
  have fa: "dget ra ''succeeded'' = JBool True" "dsub ra ''role'' = Inr (JStr ''canary'')" "dsub ra ''failed'' = Inr (JBool False)"
    "dsub ra ''succeeded'' = Inr (JBool True)"
    using record_outcome_fields [OF r(1)] o by auto
  have fb: "dget rb ''succeeded'' = JBool False" "dget rb ''failed'' = JBool False" "dsub rb ''failed'' = Inr (JBool False)"
    "dget rb ''worker_id'' = JStr ''b''"
    using record_outcome_fields [OF r(2)] o by auto
  note run = execute_rollout_def demo_plan_valid demo_plan_fields prior_results_def py_or_def as_list_def
    rollout_phases_def prior_success_def hashable_def reconcile_one_def demo_reconcile_def do_persist_def
    canary_failed_any_def canary_pending_any_def is_canary_def failed_item_def List.map_filter_simps
    act_bind_def act_lift_def logged_def
  have "execute_rollout demo_plan demo_reconcile True None None () =
     (Inr (with_progress demo_plan ''COMPLETED'' ''CANARY_SUCCEEDED'' [ra, rb]), ())"
    using fa fb r by (simp add: run)
  moreover have "execute_rollout demo_plan (logged demo_reconcile) True (map_option unlogged None) None ((), []) =
      (Inr (with_progress demo_plan ''COMPLETED'' ''CANARY_SUCCEEDED'' [ra, rb]), ((), [JStr ''a'', JStr ''b'']))"
    using fa fb r by (simp add: run)
  ultimately show ?thesis using fb r(3) by blast
qed

section \<open>Properties\<close>

text \<open>
  C10: the canary gate. With stop-on-failure set, a worker outside the canaries is reconciled only if every
  canary has a result that succeeded; whatever the reconcile callback does, and whether or not
  progress is persisted.
\<close>

theorem rollout_canary_gate:
  assumes run: "execute_rollout plan (logged reconcile) True (map_option unlogged persist) art (e, []) = (Inr fin, (e', log))"
    and stop: "truthy (dget plan ''stop_on_failure'')" and cs: "dget plan ''canaries'' = JList cs"
    and w: "w \<in> set log" "w \<notin> set cs"
  shows "\<exists>results. dget fin ''results'' = JList (map JObj results)
    \<and> (\<forall>c \<in> set cs. \<exists>item \<in> set results. dget item ''worker_id'' = c \<and> truthy (dget item ''succeeded''))"
  using run
proof (rule execute_rollout_InrD)
  fix prior cs' results st cst env1
  let ?E = "plan_env plan prior (logged reconcile) (map_option unlogged persist) art"
  assume "dget plan ''canaries'' = JList cs'" and fin: "fin = with_progress plan st cst results"
    and ph: "rollout_phases ?E cs' (as_list (dget plan ''remainder'')) (e, []) = (Inr (results, st, cst), env1)"
    and pe: "do_persist ?E fin env1 = (Inr (), (e', log))"
  have l: "logging ?E" by (auto simp: logging_def)
  have log: "snd env1 = log" using do_persist_log [OF l pe] by simp
  have cs': "cs' = cs" using cs \<open>dget plan ''canaries'' = JList cs'\<close> by simp
  from ph show ?thesis
  proof (cases rule: rollout_phases_InrD)
    case canaries_only
    with rollout_canaries_log [OF l canaries_only(1)] w log cs' show ?thesis by auto
  next
    case (both cres st1 cst1 env2)
    from rollout_canaries_items [OF both(1)] obtain items where
      i: "cres = items" "list_all2 (item_for ?E ''canary'') cs items" "list_all (\<lambda>i. truthy (dget i ''succeeded'')) items"
      using stop cs' by auto
    from rollout_remainder_items [OF both(6)] obtain more where "results = cres @ more" by auto
    moreover have "\<exists>item \<in> set items. dget item ''worker_id'' = c \<and> truthy (dget item ''succeeded'')" if "c \<in> set cs" for c
      using list_all2_item [OF i(2) that] i(3) by (auto simp: list_all_iff item_for_def)
    ultimately show ?thesis using i(1) fin by (intro exI [of _ results]) auto
  qed
qed

theorem rollout_canary_gate_witness:
  "\<exists>fin log. execute_rollout demo_plan (logged demo_reconcile) True (map_option unlogged None) None ((), []) = (Inr fin, ((), log))
     \<and> JStr ''b'' \<in> set log \<and> (\<exists>results. dget fin ''results'' = JList (map JObj results)
     \<and> (\<exists>item \<in> set results. dget item ''worker_id'' = JStr ''a'' \<and> truthy (dget item ''succeeded'')))"
proof -
  obtain fin where r: "execute_rollout demo_plan (logged demo_reconcile) True (map_option unlogged None) None ((), [])
      = (Inr fin, ((), [JStr ''a'', JStr ''b'']))"
    using demo_run by blast
  have "truthy (dget demo_plan ''stop_on_failure'')" by (simp add: demo_plan_fields)
  from rollout_canary_gate [OF r this demo_plan_fields(1), of "JStr ''b''"] r show ?thesis by auto
qed

text \<open>
  a rollout that reports COMPLETED has a result for every canary and every remainder worker; every
  canary succeeded and no result failed.
\<close>

theorem rollout_completed_sound:
  assumes run: "execute_rollout plan reconcile True persist art env = (Inr fin, env')"
    and st: "dget fin ''state'' = JStr ''COMPLETED''"
    and lists: "dget plan ''canaries'' = JList cs" "dget plan ''remainder'' = JList rs"
  shows "\<exists>results. dget fin ''results'' = JList (map JObj results)
    \<and> (\<forall>w \<in> set cs \<union> set rs. \<exists>item \<in> set results. dget item ''worker_id'' = w)
    \<and> (\<forall>w \<in> set cs. \<exists>item \<in> set results. dget item ''worker_id'' = w \<and> truthy (dget item ''succeeded''))
    \<and> (\<forall>item \<in> set results. failed_item item = Inr False)"
  using run
proof (rule execute_rollout_InrD)
  fix prior cs' results st' cst env1
  let ?E = "plan_env plan prior reconcile persist art"
  assume c: "dget plan ''canaries'' = JList cs'" and fin: "fin = with_progress plan st' cst results"
    and ph: "rollout_phases ?E cs' (as_list (dget plan ''remainder'')) env = (Inr (results, st', cst), env1)"
  have st': "st' = ''COMPLETED''" using st fin by simp
  have cs': "cs' = cs" using c lists(1) by simp
  from ph show ?thesis
  proof (cases rule: rollout_phases_InrD)
    case (canaries_only f st2 cst2)
    then have "\<not> f" "st2 = ''COMPLETED''" using st' by auto
    with rollout_canaries_unfinished [of ?E] canaries_only(1) show ?thesis by fastforce
  next
    case (both cres st1 cst1 env2 failed ws st2 cst2 f)
    from rollout_canaries_items [OF both(1)] cs' have i: "list_all2 (item_for ?E ''canary'') cs cres" by auto
    from rollout_remainder_items [OF both(6)] st' both(7) obtain more where
      m: "results = cres @ more" "f" "list_all2 (item_for ?E ''remainder'') ws more" by auto
    have "ws = rs" using both(5) lists(2) by (simp add: as_list_def)
    have nf: "\<forall>item \<in> set results. failed_item item = Inr False"
      by (intro ballI) (rule anyE_False [OF both(8) [OF st' m(2)]])
    have suc: "\<exists>item \<in> set results. dget item ''worker_id'' = w \<and> truthy (dget item ''succeeded'')" if "w \<in> set cs" for w
    proof -
      from i that obtain item where it: "item \<in> set cres" "item_for ?E ''canary'' w item"
        using list_all2_item by blast
      from canary_item_settled [OF it(2,1) both(3)] nf m(1) it have "truthy (dget item ''succeeded'')" by auto
      with it m(1) show ?thesis by (auto simp: item_for_def)
    qed
    have "\<exists>item \<in> set results. dget item ''worker_id'' = w" if "w \<in> set rs" for w
      using list_all2_item [OF m(3), of w] m(1) \<open>ws = rs\<close> that by (auto simp: item_for_def)
    with suc have "\<forall>w \<in> set cs \<union> set rs. \<exists>item \<in> set results. dget item ''worker_id'' = w" by blast
    with suc nf show ?thesis unfolding fin by (intro exI [of _ results]) simp
  qed
qed

theorem rollout_completed_sound_witness:
  "\<exists>fin. execute_rollout demo_plan demo_reconcile True None None () = (Inr fin, ())
     \<and> (\<exists>results. dget fin ''results'' = JList (map JObj results)
     \<and> (\<exists>item \<in> set results. dget item ''worker_id'' = JStr ''b''))"
proof -
  obtain fin where r: "execute_rollout demo_plan demo_reconcile True None None () = (Inr fin, ())"
    "dget fin ''state'' = JStr ''COMPLETED''"
    using demo_run with_progress_fields(1) by blast
  from rollout_completed_sound [OF r demo_plan_fields(1,2)] r(1) show ?thesis by auto
qed

text \<open>
  a plan splits the given workers: the canaries are the first of them, as many as asked for, canaries and
  remainder are disjoint and together are the given workers, and the plan validates.
\<close>

theorem rollout_plan_partitions_workers:
  assumes "build_rollout_plan now workers n stop update_class reason = Inr plan"
  shows "\<exists>cs rs. dget plan ''canaries'' = JList cs \<and> dget plan ''remainder'' = JList rs
    \<and> cs = take (nat n) (filter nonempty_str workers) \<and> cs \<noteq> []
    \<and> set cs \<inter> set rs = {} \<and> set cs \<union> set rs = set (filter nonempty_str workers)
    \<and> validate_rollout (JObj plan) = Inr plan"
  by (rule rollout_plan_split [OF assms])

theorem rollout_plan_partitions_workers_witness:
  "\<exists>plan. build_rollout_plan ''t'' [JStr ''a'', JStr ''b''] 1 True (JStr ''A'') (JStr ''r'') = Inr plan
     \<and> validate_rollout (JObj plan) = Inr plan"
proof -
  obtain plan where p: "build_rollout_plan ''t'' [JStr ''a'', JStr ''b''] 1 True (JStr ''A'') (JStr ''r'') = Inr plan"
    by (simp add: build_rollout_plan_def nonempty_str_def select_canaries_def text_ok_def)
  from rollout_plan_partitions_workers [OF p] p show ?thesis by auto
qed

text \<open>
  COMPLETED does not mean that the remainder is done. A remainder worker whose restart is still pending
  neither succeeded nor failed, and the rollout goes on and reports COMPLETED with every canary
  succeeded.
\<close>

theorem rollout_completes_with_pending_remainder:
  "\<exists>fin results item. execute_rollout demo_plan demo_reconcile True None None () = (Inr fin, ())
     \<and> dget fin ''state'' = JStr ''COMPLETED'' \<and> dget fin ''results'' = JList (map JObj results)
     \<and> item \<in> set results \<and> dget item ''worker_id'' = JStr ''b''
     \<and> dget item ''succeeded'' = JBool False \<and> dget item ''canary_status'' = JStr ''CANARY_PENDING''"
proof -
  obtain ra rb where r: "execute_rollout demo_plan demo_reconcile True None None () =
      (Inr (with_progress demo_plan ''COMPLETED'' ''CANARY_SUCCEEDED'' [ra, rb]), ())"
    "dget rb ''worker_id'' = JStr ''b''" "dget rb ''succeeded'' = JBool False"
    "dget rb ''canary_status'' = JStr ''CANARY_PENDING''"
    using demo_run by blast
  then show ?thesis
    by (intro exI [of _ "with_progress demo_plan ''COMPLETED'' ''CANARY_SUCCEEDED'' [ra, rb]"] exI [of _ "[ra, rb]"] exI [of _ rb])
      simp
qed

end
