(* ===== verification/Availability.thy ===== *)
theory Availability
  imports Record_Fields
begin

text \<open>
  \<^verbatim>\<open>src/src/mncs_fabric/availability.py\<close>: operator-declared availability windows. The time zone database
  is a parameter: which zone names it knows, and the local weekday, hour, minute and printed time of the
  instant the caller asks about. Workers of a policy are visited in the order of their names, so where
  several entries are invalid the error is that of the first name.
\<close>

section \<open>Integers in text\<close>

text \<open>
  \<^verbatim>\<open>int(s)\<close>: white space around the number, one optional sign, digits with single underscores between
  them. \<open>None\<close> is the \<^verbatim>\<open>ValueError\<close>.
\<close>

definition is_space :: "char \<Rightarrow> bool" where
  "is_space c = ((of_char c :: nat) \<in> {9, 10, 11, 12, 13, 28, 29, 30, 31, 32, 133, 160})"

definition strip :: "string \<Rightarrow> string" where
  "strip s = rev (dropWhile is_space (rev (dropWhile is_space s)))"

definition py_digits :: "string \<Rightarrow> nat option" where
  "py_digits s =
     (let parts = split_on (CHR ''_'') s in
      if list_all (\<lambda>p. p \<noteq> [] \<and> list_all is_ascii_digit p) parts then Some (digits_val (concat parts)) else None)"

definition py_int :: "string \<Rightarrow> int option" where
  "py_int s =
     (case strip s of
        [] \<Rightarrow> None
      | c # r \<Rightarrow>
          if c = CHR ''-'' then map_option (\<lambda>n. - int n) (py_digits r)
          else if c = CHR ''+'' then map_option int (py_digits r)
          else map_option int (py_digits (c # r)))"

section \<open>Clocks\<close>

record clock_time =
  hour :: nat
  minute :: nat

definition parse_clock :: "string \<Rightarrow> json \<Rightarrow> clock_time result" where
  "parse_clock field v =
     (let bad = Inl (ValidationError (field @ '' must be HH:MM'')) in
      case v of
        JStr value \<Rightarrow>
          if 8 < length value then bad
          else
            (case partition_on (CHR '':'') value of
               (h, found, m) \<Rightarrow>
                 if \<not> found then bad
                 else
                   (case (py_int h, py_int m) of
                      (Some hh, Some mm) \<Rightarrow>
                        if 0 \<le> hh \<and> hh < 24 \<and> 0 \<le> mm \<and> mm < 60
                        then Inr \<lparr>hour = nat hh, minute = nat mm\<rparr> else bad
                    | _ \<Rightarrow> bad))
      | _ \<Rightarrow> bad)"

definition show_clock :: "clock_time \<Rightarrow> string" where
  "show_clock t =
     [char_of (48 + hour t div 10), char_of (48 + hour t mod 10), CHR '':'',
      char_of (48 + minute t div 10), char_of (48 + minute t mod 10)]"

definition clock_minutes :: "clock_time \<Rightarrow> nat" where
  "clock_minutes t = hour t * 60 + minute t"

definition window_contains :: "clock_time \<Rightarrow> clock_time \<Rightarrow> clock_time \<Rightarrow> bool" where
  "window_contains start finish current =
     (let now = clock_minutes current; begin' = clock_minutes start; finish' = clock_minutes finish in
      if begin' = finish' then True
      else if begin' < finish' then begin' \<le> now \<and> now < finish'
      else begin' \<le> now \<or> now < finish')"

section \<open>Policies\<close>

definition AVAILABILITY_POLICY_SCHEMA :: string where
  "AVAILABILITY_POLICY_SCHEMA = ''mncs-fabric.availability-policy.v0.1''"

definition DAYS :: "string list" where
  "DAYS = [''mon'', ''tue'', ''wed'', ''thu'', ''fri'', ''sat'', ''sun'']"

record zone_db =
  known_zone :: "string \<Rightarrow> bool"
  local_weekday :: "string \<Rightarrow> nat"
  local_clock :: "string \<Rightarrow> clock_time"
  local_text :: "string \<Rightarrow> string"

definition ascii_upper :: "char \<Rightarrow> char" where
  "ascii_upper c = (if 97 \<le> (of_char c :: nat) \<and> (of_char c :: nat) \<le> 122 then char_of (of_char c - 32 :: nat) else c)"

text \<open>\<^verbatim>\<open>_timezone\<close>: the zone as the name under which the database is asked for it.\<close>

definition resolve_timezone :: "zone_db \<Rightarrow> string \<Rightarrow> string result" where
  "resolve_timezone db name =
     (if map ascii_upper name = ''UTC'' then Inr ''UTC''
      else if known_zone db name then Inr name
      else Inl (ValidationError ''availability timezone is unknown''))"

fun anyE_str :: "string list \<Rightarrow> json list \<Rightarrow> bool result" where
  "anyE_str known [] = Inr False"
| "anyE_str known (d # ds) = tryE (in_strset d known) (\<lambda>k. if \<not> k then Inr True else anyE_str known ds)"

definition check_window :: "string \<Rightarrow> json \<Rightarrow> json result" where
  "check_window worker_id v =
     (case v of
        JObj window \<Rightarrow>
          tryE (case dget window ''days'' of
                  JList days \<Rightarrow> if days = [] then Inr None else tryE (anyE_str DAYS days) (\<lambda>bad. Inr (if bad then None else Some days))
                | _ \<Rightarrow> Inr None) (\<lambda>days.
          case days of
            None \<Rightarrow> Inl (ValidationError (worker_id @ '' window days are invalid''))
          | Some days \<Rightarrow>
              tryE (parse_clock (worker_id @ ''.start'') (dget window ''start'')) (\<lambda>start.
              tryE (parse_clock (worker_id @ ''.end'') (dget window ''end'')) (\<lambda>finish.
                Inr (obj [(''days'', JList days), (''start'', JStr (show_clock start)), (''end'', JStr (show_clock finish))]))))
      | _ \<Rightarrow> Inl (ValidationError (worker_id @ '' window is invalid'')))"

definition check_worker :: "string \<Rightarrow> json \<Rightarrow> json result" where
  "check_worker worker_id v =
     (case v of
        JObj spec \<Rightarrow>
          if worker_id = [] then Inl (ValidationError ''availability worker entry is invalid'')
          else
            (case dget_default spec ''windows'' (JList []) of
               JList windows \<Rightarrow>
                 tryE (mapE (check_window worker_id) windows) (\<lambda>normalized.
                 case (case dget_default spec ''allowed_workload_classes'' (JList []) of JNull \<Rightarrow> JList [] | c \<Rightarrow> c) of
                   JList classes \<Rightarrow>
                     if list_all is_str classes then
                       Inr (obj [(''windows'', JList normalized),
                                 (''paused'', JBool (truthy (dget_default spec ''paused'' (JBool False)))),
                                 (''allowed_workload_classes'', JList classes)])
                     else Inl (ValidationError (worker_id @ '' allowed_workload_classes are invalid''))
                 | _ \<Rightarrow> Inl (ValidationError (worker_id @ '' allowed_workload_classes are invalid'')))
             | _ \<Rightarrow> Inl (ValidationError (worker_id @ '' windows must be an array'')))
      | _ \<Rightarrow> Inl (ValidationError ''availability worker entry is invalid''))"

definition check_workers :: "dict \<Rightarrow> dict result" where
  "check_workers workers =
     tryE (mapE (\<lambda>w. tryE (check_worker w (dget workers w)) (\<lambda>c. Inr (w, c))) (dict_keys workers)) (\<lambda>kvs.
       Inr (dict_of kvs))"

definition validate_availability_policy :: "zone_db \<Rightarrow> json \<Rightarrow> dict result" where
  "validate_availability_policy db v =
     (case v of
        JObj value \<Rightarrow>
          if dget value ''schema_version'' \<noteq> JStr AVAILABILITY_POLICY_SCHEMA
            then Inl (ValidationError ''availability policy schema is unsupported'')
          else
            (case dget_default value ''timezone'' (JStr ''UTC'') of
               JStr timezone_name \<Rightarrow>
                 if timezone_name = [] then Inl (ValidationError ''availability timezone is invalid'')
                 else tryE (resolve_timezone db timezone_name) (\<lambda>_.
                   case dget value ''workers'' of
                     JObj workers \<Rightarrow>
                       tryE (check_workers workers) (\<lambda>checked.
                         Inr (dict_of
                           [(''schema_version'', JStr AVAILABILITY_POLICY_SCHEMA), (''timezone'', JStr timezone_name),
                            (''paused'', JBool (truthy (dget_default value ''paused'' (JBool False)))),
                            (''workers'', JObj checked)]))
                   | _ \<Rightarrow> Inl (ValidationError ''availability policy workers must be an object''))
             | _ \<Rightarrow> Inl (ValidationError ''availability timezone is invalid''))
      | _ \<Rightarrow> Inl (ValidationError ''availability policy schema is unsupported''))"

section \<open>Evaluation\<close>

definition window_open :: "string \<Rightarrow> clock_time \<Rightarrow> json \<Rightarrow> bool result" where
  "window_open weekday clock v =
     (case v of
        JObj window \<Rightarrow>
          (case dget window ''days'' of
             JList days \<Rightarrow>
               if JStr weekday \<notin> set days then Inr False
               else
                 tryE (parse_clock ''start'' (dget window ''start'')) (\<lambda>start.
                 tryE (parse_clock ''end'' (dget window ''end'')) (\<lambda>finish.
                   Inr (window_contains start finish clock)))
           | _ \<Rightarrow> Inl PyTypeError)
      | _ \<Rightarrow> Inl PyTypeError)"

fun any_window :: "string \<Rightarrow> clock_time \<Rightarrow> json list \<Rightarrow> bool result" where
  "any_window weekday clock [] = Inr False"
| "any_window weekday clock (w # ws) =
     tryE (window_open weekday clock w) (\<lambda>b. if b then Inr True else any_window weekday clock ws)"

definition denial :: "string \<Rightarrow> string \<Rightarrow> dict" where
  "denial reason worker_id =
     dict_of [(''eligible'', JBool False), (''reason'', JStr reason), (''worker_id'', JStr worker_id)]"

definition evaluate_availability :: "zone_db \<Rightarrow> dict \<Rightarrow> string \<Rightarrow> string option \<Rightarrow> dict result" where
  "evaluate_availability db policy worker_id workload_class =
     tryE (validate_availability_policy db (JObj policy)) (\<lambda>checked.
       if truthy (dget checked ''paused'') then Inr (denial ''OPERATOR_PAUSE'' worker_id)
       else
         (case dget checked ''workers'' of
            JObj workers \<Rightarrow>
              (case dget workers worker_id of
                 JObj spec \<Rightarrow>
                   if truthy (dget spec ''paused'') then Inr (denial ''WORKER_PAUSE'' worker_id)
                   else
                     (case dget spec ''allowed_workload_classes'' of
                        JList allowed \<Rightarrow>
                          if (case workload_class of None \<Rightarrow> False
                              | Some c \<Rightarrow> c \<noteq> [] \<and> allowed \<noteq> [] \<and> JStr c \<notin> set allowed)
                          then Inr (denial ''WORKLOAD_CLASS_DENIED'' worker_id)
                          else
                            (case (dget checked ''timezone'', dget spec ''windows'') of
                               (JStr timezone_name, JList windows) \<Rightarrow>
                                 tryE (resolve_timezone db timezone_name) (\<lambda>zone.
                                 tryE (any_window (DAYS ! (local_weekday db zone mod 7)) (local_clock db zone) windows) (\<lambda>inside.
                                   Inr (dict_of
                                     [(''eligible'', JBool inside),
                                      (''reason'', JStr (if inside then ''INSIDE_WINDOW'' else ''OUTSIDE_WINDOW'')),
                                      (''worker_id'', JStr worker_id), (''timezone'', JStr timezone_name),
                                      (''local_time'', JStr (local_text db zone))])))
                             | _ \<Rightarrow> Inl PyTypeError)
                      | _ \<Rightarrow> Inl PyTypeError)
               | _ \<Rightarrow> Inr (denial ''NO_AVAILABILITY_POLICY'' worker_id))
          | _ \<Rightarrow> Inl PyTypeError))"

section \<open>Lemmas\<close>

definition clock_ok :: "clock_time \<Rightarrow> bool" where
  "clock_ok t = (hour t < 24 \<and> minute t < 60)"

lemma digit_char_plain:
  assumes "d < 10"
  shows "is_space (char_of (48 + d :: nat)) = False" "char_of (48 + d :: nat) \<noteq> CHR ''-''"
    "char_of (48 + d :: nat) \<noteq> CHR ''+''" "char_of (48 + d :: nat) \<noteq> CHR ''_''" "char_of (48 + d :: nat) \<noteq> CHR '':''"
proof -
  have v: "of_char (char_of (48 + d :: nat) :: char) = (48 + d :: nat)" using assms by simp
  show "is_space (char_of (48 + d :: nat)) = False" using v assms by (auto simp: is_space_def)
  have "char_of (48 + d :: nat) \<noteq> c" if "(of_char c :: nat) < 48 \<or> 58 \<le> (of_char c :: nat)" for c :: char
    using v assms that by auto
  from this [of "CHR ''-''"] this [of "CHR ''+''"] this [of "CHR ''_''"] this [of "CHR '':''"]
  show "char_of (48 + d :: nat) \<noteq> CHR ''-''" "char_of (48 + d :: nat) \<noteq> CHR ''+''"
    "char_of (48 + d :: nat) \<noteq> CHR ''_''" "char_of (48 + d :: nat) \<noteq> CHR '':''"
    by simp_all
qed

lemma py_int_two_digits:
  "a < 10 \<Longrightarrow> b < 10 \<Longrightarrow> py_int [char_of (48 + a :: nat), char_of (48 + b :: nat)] = Some (int (10 * a + b))"
  by (simp add: py_int_def strip_def py_digits_def digit_char_plain digits_val_def)

lemma parse_clock_ok: "parse_clock f v = Inr t \<Longrightarrow> clock_ok t"
  by (auto simp: parse_clock_def clock_ok_def split: json.splits if_splits prod.splits option.splits)

lemma clock_digits: "clock_ok t \<Longrightarrow> hour t div 10 < 10 \<and> minute t div 10 < 10"
  by (auto simp: clock_ok_def)

lemma parse_show_clock [simp]:
  assumes t: "clock_ok t"
  shows "parse_clock f (JStr (show_clock t)) = Inr t"
proof -
  note d = clock_digits [OF t]
  have p: "partition_on (CHR '':'') (show_clock t) =
     ([char_of (48 + hour t div 10), char_of (48 + hour t mod 10)], True,
      [char_of (48 + minute t div 10), char_of (48 + minute t mod 10)])"
    using d digit_char_plain(5) [of "hour t div 10"] digit_char_plain(5) [of "hour t mod 10"] by (simp add: show_clock_def)
  have "py_int [char_of (48 + hour t div 10), char_of (48 + hour t mod 10)] = Some (int (hour t))"
    "py_int [char_of (48 + minute t div 10), char_of (48 + minute t mod 10)] = Some (int (minute t))"
    using d by (simp_all add: py_int_two_digits del: of_nat_add of_nat_mult)
  with p t show ?thesis
    by (cases t) (simp add: parse_clock_def clock_ok_def, simp add: show_clock_def)
qed

lemma check_window_idem: "check_window w v = Inr n \<Longrightarrow> check_window w n = Inr n"
proof -
  assume "check_window w v = Inr n"
  then obtain days start finish f g x y where d: "days \<noteq> []" "anyE_str DAYS days = Inr False"
    "parse_clock f x = Inr start" "parse_clock g y = Inr finish"
    "n = obj [(''days'', JList days), (''start'', JStr (show_clock start)), (''end'', JStr (show_clock finish))]"
    by (auto simp: check_window_def result_simps split: json.splits option.splits if_splits)
  then show ?thesis by (simp add: check_window_def parse_clock_ok)
qed

lemma check_worker_idem:
  assumes "check_worker w v = Inr n"
  shows "check_worker w n = Inr n"
proof -
  from assms obtain ws ns p cl where n: "n = obj [(''windows'', JList ns), (''paused'', JBool p), (''allowed_workload_classes'', JList cl)]"
    and w: "mapE (check_window w) ws = Inr ns" "w \<noteq> []" "list_all is_str cl"
    by (auto simp: check_worker_def result_simps split: json.splits if_splits)
  have "mapE (check_window w) ns = Inr (map (\<lambda>x. x) ns)"
    by (rule mapE_total) (use mapE_set [OF w(1)] check_window_idem in blast)
  with n w(2,3) show ?thesis by (simp add: check_worker_def dget_default_def)
qed

lemma check_workers_lookup:
  assumes "check_workers ws = Inr cs"
  shows "fmdom cs = fmdom ws" "fmlookup ws w = Some v \<Longrightarrow> check_worker w v = Inr (dget cs w) \<and> fmlookup cs w = Some (dget cs w)"
proof -
  from assms obtain kvs where kvs: "mapE (\<lambda>w. tryE (check_worker w (dget ws w)) (\<lambda>c. Inr (w, c))) (dict_keys ws) = Inr kvs"
    "cs = dict_of kvs"
    by (auto simp: check_workers_def result_simps)
  have l: "list_all2 (\<lambda>w kv. fst kv = w \<and> check_worker w (dget ws w) = Inr (snd kv)) (dict_keys ws) kvs"
    using kvs(1) unfolding mapE_eq_Inr by (rule list_all2_mono) (auto simp: tryE_eq_Inr)
  then have keys: "map fst kvs = dict_keys ws" by (induction rule: list_all2_induct) auto
  show dom: "fmdom cs = fmdom ws"
  proof -
    have "fset (fmdom cs) = set (map fst kvs)" by (auto simp: kvs(2) fset_of_list.rep_eq)
    then show ?thesis unfolding keys by (simp add: fset_inject)
  qed
  assume v: "fmlookup ws w = Some v"
  then have "w \<in> set (map fst kvs)" unfolding keys by (simp add: fmdomI)
  then obtain c where c: "(w, c) \<in> set kvs" by auto
  have "distinct (map fst kvs)" unfolding keys by simp
  with c have "fmlookup cs w = Some c" by (simp add: kvs(2) fmlookup_of_list)
  moreover have "check_worker w (dget ws w) = Inr c"
    using l c by (auto simp: list_all2_conv_all_nth in_set_conv_nth)
  ultimately show "check_worker w v = Inr (dget cs w) \<and> fmlookup cs w = Some (dget cs w)"
    using v by (simp add: dget_def)
qed

lemma check_workers_idem:
  assumes "check_workers ws = Inr cs"
  shows "check_workers cs = Inr cs"
proof -
  note dom = check_workers_lookup(1) [OF assms]
  have keys: "dict_keys cs = dict_keys ws" by (simp add: dict_keys_def dom)
  have c: "check_worker w (dget cs w) = Inr (dget cs w) \<and> fmlookup cs w = Some (dget cs w)" if w: "w \<in> set (dict_keys ws)" for w
  proof -
    from w obtain v where "fmlookup ws w = Some v" by (auto dest: fmdomE)
    from check_workers_lookup(2) [OF assms this] show ?thesis using check_worker_idem by blast
  qed
  then have "mapE (\<lambda>w. tryE (check_worker w (dget cs w)) (\<lambda>c. Inr (w, c))) (dict_keys ws)
      = Inr (map (\<lambda>w. (w, dget cs w)) (dict_keys ws))"
    by (intro mapE_total) simp
  moreover have "dict_of (map (\<lambda>w. (w, dget cs w)) (dict_keys ws)) = cs"
  proof (rule fmap_ext)
    fix k
    have "map_of (map (\<lambda>w. (w, dget cs w)) xs) k = (if k \<in> set xs then Some (dget cs k) else None)" for xs
      by (induction xs) auto
    then show "fmlookup (dict_of (map (\<lambda>w. (w, dget cs w)) (dict_keys ws))) k = fmlookup cs k"
      using c [of k] dom by (auto simp: fmlookup_of_list fmdom_notD)
  qed
  ultimately show ?thesis by (simp add: check_workers_def keys)
qed

lemma validate_policy_InrD:
  assumes "validate_availability_policy db (JObj p) = Inr q"
  obtains tz ws cs zone where "dget p ''schema_version'' = JStr AVAILABILITY_POLICY_SCHEMA"
    "dget_default p ''timezone'' (JStr ''UTC'') = JStr tz" "tz \<noteq> []" "resolve_timezone db tz = Inr zone"
    "dget p ''workers'' = JObj ws" "check_workers ws = Inr cs"
    "q = dict_of [(''schema_version'', JStr AVAILABILITY_POLICY_SCHEMA), (''timezone'', JStr tz),
           (''paused'', JBool (truthy (dget_default p ''paused'' (JBool False)))), (''workers'', JObj cs)]"
  using assms
  by (auto simp: validate_availability_policy_def result_simps split: json.splits if_splits)

section \<open>A concrete policy\<close>

definition demo_policy :: dict where
  "demo_policy = dict_of
     [(''schema_version'', JStr AVAILABILITY_POLICY_SCHEMA),
      (''workers'', obj [(''w'', obj [(''windows'', JList
         [obj [(''days'', JList [JStr ''mon'']), (''start'', JStr ''22:00''), (''end'', JStr ''6:00'')]])])])]"

definition demo_zones :: zone_db where
  "demo_zones = \<lparr>known_zone = (\<lambda>_. False), local_weekday = (\<lambda>_. 0),
     local_clock = (\<lambda>_. \<lparr>hour = 3, minute = 30\<rparr>), local_text = (\<lambda>_. ''2026-01-05T03:30:00+00:00'')\<rparr>"

lemma demo_clocks:
  "parse_clock f (JStr ''22:00'') = Inr \<lparr>hour = 22, minute = 0\<rparr>"
  "parse_clock f (JStr ''6:00'') = Inr \<lparr>hour = 6, minute = 0\<rparr>"
  by (simp_all add: parse_clock_def py_int_def strip_def is_space_def py_digits_def is_ascii_digit_def
      digits_val_def digit_val_def)

lemma demo_zone: "resolve_timezone demo_zones ''UTC'' = Inr ''UTC''"
  by (simp add: resolve_timezone_def ascii_upper_def)

lemma demo_validated:
  "validate_availability_policy demo_zones (JObj demo_policy) = Inr (dict_of
     [(''schema_version'', JStr AVAILABILITY_POLICY_SCHEMA), (''timezone'', JStr ''UTC''), (''paused'', JBool False),
      (''workers'', obj [(''w'', obj [(''windows'', JList [obj [(''days'', JList [JStr ''mon'']),
          (''start'', JStr (show_clock \<lparr>hour = 22, minute = 0\<rparr>)), (''end'', JStr (show_clock \<lparr>hour = 6, minute = 0\<rparr>))]]),
        (''paused'', JBool False), (''allowed_workload_classes'', JList [])])])])"
  by (simp add: demo_policy_def validate_availability_policy_def demo_zone check_workers_def dict_keys_def
      sorted_list_of_fset.rep_eq check_worker_def check_window_def demo_clocks DAYS_def dget_default_def)

lemma demo_eligible:
  "\<exists>r. evaluate_availability demo_zones demo_policy ''w'' (Some ''python'') = Inr r \<and> truthy (dget r ''eligible'')"
  by (simp add: evaluate_availability_def demo_validated demo_zone window_open_def clock_ok_def)
    (simp add: demo_zones_def DAYS_def window_contains_def clock_minutes_def)

section \<open>Properties\<close>

text \<open>
  a window that wraps midnight is the circular interval from its start to its end: the time belongs
  to it when its distance from the start, counted forward around the day, is less than the window's
  length; equal start and end mean the whole day.
\<close>

theorem window_is_circular_interval:
  assumes "clock_ok s" "clock_ok f" "clock_ok c"
  shows "window_contains s f c \<longleftrightarrow>
    s = f \<or> (clock_minutes c + 1440 - clock_minutes s) mod 1440 < (clock_minutes f + 1440 - clock_minutes s) mod 1440"
proof -
  have m: "clock_minutes t < 1440" if "clock_ok t" for t
    using that by (auto simp: clock_minutes_def clock_ok_def)
  have inj: "clock_minutes s = clock_minutes f \<longleftrightarrow> s = f"
  proof
    assume "clock_minutes s = clock_minutes f"
    moreover have "hour t = clock_minutes t div 60 \<and> minute t = clock_minutes t mod 60" if "clock_ok t" for t
      using that by (simp add: clock_minutes_def clock_ok_def)
    ultimately show "s = f" using assms(1,2) by (intro clock_time.equality) simp_all
  qed simp
  have d: "(x + 1440 - y) mod 1440 = (if y \<le> x then x - y else x + 1440 - y)" if "x < 1440" "y < 1440" for x y :: nat
  proof (cases "y \<le> x")
    case True
    then have "(x + 1440 - y) mod 1440 = ((x - y) + 1440) mod 1440" by (simp only: Nat.add_diff_assoc2)
    also have "\<dots> = (x - y) mod 1440" by (rule mod_add_self2)
    also have "\<dots> = x - y" using that(1) by (intro mod_less) (rule le_less_trans [OF diff_le_self])
    finally show ?thesis using True by (simp only: if_True)
  qed (use that in simp)
  show ?thesis
    using m [OF assms(1)] m [OF assms(2)] m [OF assms(3)] inj
    by (auto simp: window_contains_def d)
qed

theorem window_is_circular_interval_witness:
  "window_contains \<lparr>hour = 22, minute = 0\<rparr> \<lparr>hour = 6, minute = 0\<rparr> \<lparr>hour = 3, minute = 30\<rparr>"
  using window_is_circular_interval [of "\<lparr>hour = 22, minute = 0\<rparr>" "\<lparr>hour = 6, minute = 0\<rparr>" "\<lparr>hour = 3, minute = 30\<rparr>"]
  by (simp add: clock_ok_def clock_minutes_def)

text \<open>
  validation normalises: a validated policy validates to itself, the clock texts it prints parse back
  to the times it read.
\<close>

theorem availability_policy_normal_form:
  assumes "validate_availability_policy db (JObj p) = Inr q"
  shows "validate_availability_policy db (JObj q) = Inr q"
  using assms
proof (rule validate_policy_InrD)
  fix tz ws cs zone
  assume a: "tz \<noteq> []" "resolve_timezone db tz = Inr zone" and c: "check_workers ws = Inr cs"
    and q: "q = dict_of [(''schema_version'', JStr AVAILABILITY_POLICY_SCHEMA), (''timezone'', JStr tz),
           (''paused'', JBool (truthy (dget_default p ''paused'' (JBool False)))), (''workers'', JObj cs)]"
  show ?thesis
    unfolding q using a check_workers_idem [OF c] by (simp add: validate_availability_policy_def)
qed

theorem availability_policy_normal_form_witness:
  "\<exists>q. validate_availability_policy demo_zones (JObj demo_policy) = Inr q
     \<and> validate_availability_policy demo_zones (JObj q) = Inr q"
  using availability_policy_normal_form [OF demo_validated] demo_validated by blast

text \<open>
  C11: a worker is eligible only inside one of its windows of the local weekday, and only if neither the
  policy nor the worker is paused and the workload class, if the worker restricts classes, is allowed.
\<close>

theorem eligible_only_inside_window:
  assumes r: "evaluate_availability db p w wc = Inr r" and e: "truthy (dget r ''eligible'')"
  shows "\<exists>q ws spec windows zone.
      validate_availability_policy db (JObj p) = Inr q \<and> \<not> truthy (dget q ''paused'')
    \<and> dget q ''workers'' = JObj ws \<and> dget ws w = JObj spec \<and> \<not> truthy (dget spec ''paused'')
    \<and> (\<exists>allowed. dget spec ''allowed_workload_classes'' = JList allowed
         \<and> (allowed = [] \<or> wc = None \<or> wc = Some [] \<or> opt_str wc \<in> set allowed))
    \<and> dget spec ''windows'' = JList windows
    \<and> (\<exists>tz. dget q ''timezone'' = JStr tz \<and> resolve_timezone db tz = Inr zone)
    \<and> (\<exists>window \<in> set windows. window_open (DAYS ! (local_weekday db zone mod 7)) (local_clock db zone) window = Inr True)"
proof -
  have any: "any_window d c ws = Inr True \<Longrightarrow> \<exists>window \<in> set ws. window_open d c window = Inr True" for d c ws
    by (induction ws) (auto simp: tryE_eq_Inr split: if_splits)
  from r obtain q where q: "validate_availability_policy db (JObj p) = Inr q"
    by (auto simp: evaluate_availability_def tryE_eq_Inr)
  from r e q obtain ws spec allowed tz windows zone where
    "dget q ''workers'' = JObj ws" "dget ws w = JObj spec" "\<not> truthy (dget spec ''paused'')" "\<not> truthy (dget q ''paused'')"
    "dget spec ''allowed_workload_classes'' = JList allowed"
    "\<not> (case wc of None \<Rightarrow> False | Some c \<Rightarrow> c \<noteq> [] \<and> allowed \<noteq> [] \<and> JStr c \<notin> set allowed)"
    "dget spec ''windows'' = JList windows" "dget q ''timezone'' = JStr tz" "resolve_timezone db tz = Inr zone"
    "any_window (DAYS ! (local_weekday db zone mod 7)) (local_clock db zone) windows = Inr True"
    by (auto simp: evaluate_availability_def denial_def tryE_eq_Inr split: if_splits json.splits)
  with q any show ?thesis
    by (intro exI [of _ q] exI [of _ ws] exI [of _ spec] exI [of _ windows] exI [of _ zone])
      (cases wc; auto)
qed

theorem eligible_only_inside_window_witness:
  "\<exists>r windows zone. evaluate_availability demo_zones demo_policy ''w'' (Some ''python'') = Inr r \<and> truthy (dget r ''eligible'')
     \<and> (\<exists>window \<in> set windows. window_open (DAYS ! (local_weekday demo_zones zone mod 7)) (local_clock demo_zones zone) window = Inr True)"
proof -
  obtain r where r: "evaluate_availability demo_zones demo_policy ''w'' (Some ''python'') = Inr r" "truthy (dget r ''eligible'')"
    using demo_eligible by blast
  from eligible_only_inside_window [OF r] r show ?thesis by blast
qed

end
