(* ===== verification/Work_Queue.thy ===== *)
theory Work_Queue
  imports Availability Trust_Store Effects "HOL-Library.Product_Lexorder" "HOL-Library.Sublist" "HOL-Library.Multiset"
begin

text \<open>
  \<^verbatim>\<open>src/src/mncs_fabric/work_queue.py\<close>: the durable queue of scheduled work. The state is the ledger and
  the memoised projection of it (live work by identity, and whether the queue is paused). The dispatcher
  of \<^verbatim>\<open>tick\<close> is an action on its own environment; \<open>clock\<close> gives the readings of \<^verbatim>\<open>utc_now()\<close> in order.
  Work identities are strings, as \<^verbatim>\<open>enqueue\<close> writes them; the live work is visited in the order of the
  identities where the code uses the order of a dict (only the list of a paused tick shows it).
\<close>

section \<open>Values\<close>

definition SCHEDULED_WORK_SCHEMA :: string where
  "SCHEDULED_WORK_SCHEMA = ''mncs-fabric.scheduled-work.v0.1''"

definition PRIORITY_DEFAULT :: int where "PRIORITY_DEFAULT = 100"

definition PRIORITY_MIN :: int where "PRIORITY_MIN = - (2 ^ 63)"

definition PRIORITY_MAX :: int where "PRIORITY_MAX = 2 ^ 63 - 1"

definition TERMINAL :: "string list" where
  "TERMINAL = [''COMPLETED'', ''FAILED'', ''CANCELLED'']"

text \<open>\<^verbatim>\<open>int(x)\<close>: a float is truncated towards zero.\<close>

fun py_int_of :: "json \<Rightarrow> int result" where
  "py_int_of (JInt n) = Inr n"
| "py_int_of (JBool b) = Inr (if b then 1 else 0)"
| "py_int_of (JFloat s m e) =
     (let n = (if 0 \<le> e then m * 10 ^ nat e else m div 10 ^ nat (- e)) in Inr (if s then - int n else int n))"
| "py_int_of (JStr s) = (case py_int s of None \<Rightarrow> Inl PyValueError | Some n \<Rightarrow> Inr n)"
| "py_int_of _ = Inl PyTypeError"

definition checked_priority :: "json \<Rightarrow> int result" where
  "checked_priority raw =
     (case py_int_of (py_or raw (JInt PRIORITY_DEFAULT)) of
        Inl _ \<Rightarrow> Inl (ValidationError ''scheduled work priority is invalid'')
      | Inr priority \<Rightarrow>
          if \<not> (PRIORITY_MIN \<le> priority \<and> priority \<le> PRIORITY_MAX)
          then Inl (ValidationError ''scheduled work priority is out of range'')
          else Inr priority)"

section \<open>State\<close>

type_synonym queue_view = "(string, dict) fmap \<times> bool"

record work_queue =
  wq_ledger :: ledger_file
  wq_cache :: queue_view
  wq_token :: "ledger_file option"

definition queue_open :: "ledger_file \<Rightarrow> work_queue" where
  "queue_open F = \<lparr>wq_ledger = F, wq_cache = (fmempty, False), wq_token = None\<rparr>"

definition queue_step :: "dict \<Rightarrow> queue_view \<Rightarrow> queue_view" where
  "queue_step e v =
     (case v of (latest, paused) \<Rightarrow>
        let rec = entry_record e in
        if dget e ''record_type'' = JStr ''scheduled.work'' then
          (case dget rec ''work_id'' of
             JStr wid \<Rightarrow>
               if wid = [] then (latest, paused)
               else if (case dget rec ''state'' of JStr st \<Rightarrow> st \<in> set TERMINAL | _ \<Rightarrow> False)
                 then (fmdrop wid latest, paused)
               else (fmupd wid rec latest, paused)
           | _ \<Rightarrow> (latest, paused))
        else if dget e ''record_type'' = JStr ''scheduled.control'' then
          (if dget rec ''state'' = JStr ''PAUSED'' then (latest, True)
           else if dget rec ''state'' = JStr ''RESUMED'' then (latest, False)
           else (latest, paused))
        else (latest, paused))"

definition queue_ensure :: "work_queue \<Rightarrow> work_queue result" where
  "queue_ensure s =
     (if file_lines (wq_ledger s) = [] then Inr (s\<lparr>wq_cache := (fmempty, False), wq_token := None\<rparr>)
      else if wq_token s \<noteq> Some (wq_ledger s) then
        tryE (iter_records None (wq_ledger s)) (\<lambda>es.
          Inr (s\<lparr>wq_cache := fold queue_step es (fmempty, False), wq_token := Some (wq_ledger s)\<rparr>))
      else Inr s)"

text \<open>Store a new view with a current token, after an append.\<close>

definition queue_store :: "queue_view \<Rightarrow> work_queue \<Rightarrow> work_queue" where
  "queue_store v s =
     s\<lparr>wq_cache := v, wq_token := (if file_lines (wq_ledger s) \<noteq> [] then Some (wq_ledger s) else wq_token s)\<rparr>"

section \<open>Reading\<close>

definition queue_records :: "string option \<Rightarrow> work_queue \<Rightarrow> dict list result" where
  "queue_records work_id s =
     tryE (all_records (Some ''scheduled.work'') (wq_ledger s)) (\<lambda>es.
       let values = map entry_record es in
       Inr (case work_id of None \<Rightarrow> values | Some w \<Rightarrow> filter (\<lambda>r. dget r ''work_id'' = JStr w) values))"

definition queue_latest :: "string \<Rightarrow> work_queue \<Rightarrow> (dict \<times> work_queue) result" where
  "queue_latest work_id s =
     tryE (queue_ensure s) (\<lambda>s.
       case fmlookup (fst (wq_cache s)) work_id of
         Some current \<Rightarrow> Inr (current, s)
       | None \<Rightarrow>
           tryE (iter_records (Some ''scheduled.work'') (wq_ledger s)) (\<lambda>es.
             case find_last (\<lambda>e. dget (entry_record e) ''work_id'' = JStr work_id) es of
               None \<Rightarrow> Inl (ValidationError ''scheduled work identity is unknown'')
             | Some e \<Rightarrow> Inr (entry_record e, s)))"

definition queue_paused :: "work_queue \<Rightarrow> (bool \<times> work_queue) result" where
  "queue_paused s = tryE (queue_ensure s) (\<lambda>s. Inr (snd (wq_cache s), s))"

definition live_work :: "(string, dict) fmap \<Rightarrow> dict list" where
  "live_work m = map (\<lambda>k. the (fmlookup m k)) (sorted_list_of_fset (fmdom m))"

definition queue_queued :: "work_queue \<Rightarrow> (dict list \<times> work_queue) result" where
  "queue_queued s =
     tryE (queue_ensure s) (\<lambda>s.
       Inr (filter (\<lambda>item. dget item ''state'' = JStr ''QUEUED'' \<and> dget item ''work_id'' \<noteq> JStr ''operator-pause'')
              (live_work (fst (wq_cache s))), s))"

section \<open>Writing\<close>

definition work_identity :: "string \<Rightarrow> string \<Rightarrow> string" where
  "work_identity client_identity idempotency_key =
     sha256_identity (obj [(''client_identity'', JStr client_identity), (''idempotency_key'', JStr idempotency_key)])"

definition submitted_work :: "string \<Rightarrow> dict \<Rightarrow> string \<Rightarrow> string \<Rightarrow> string \<Rightarrow> json \<Rightarrow> int \<Rightarrow> dict" where
  "submitted_work now value client_identity idempotency_key workload_class capabilities priority = dict_of
     [(''schema_version'', JStr SCHEDULED_WORK_SCHEMA), (''work_id'', JStr (work_identity client_identity idempotency_key)),
      (''state'', JStr ''QUEUED''), (''client_identity'', JStr client_identity),
      (''idempotency_key'', JStr idempotency_key), (''recurrence_identity'', dget value ''recurrence_identity''),
      (''workload_class'', JStr workload_class), (''required_capabilities'', capabilities),
      (''required_worker_id'', dget value ''required_worker_id''), (''priority'', JInt priority),
      (''project'', dget value ''project''), (''observed_at'', JStr now), (''attempt'', JInt 1),
      (''authority'', JStr ''persistent-fabric''), (''commons_authority'', JStr ''none'')]"

definition enqueue_key :: "dict \<Rightarrow> string result" where
  "enqueue_key value =
     (case py_or (dget value ''idempotency_key'') (dget value ''recurrence_identity'') of
        JStr k \<Rightarrow> if k = [] \<or> 256 < length k then Inl (ValidationError ''scheduled work idempotency key is invalid'') else Inr k
      | _ \<Rightarrow> Inl (ValidationError ''scheduled work idempotency key is invalid''))"

definition build_submission :: "string \<Rightarrow> dict \<Rightarrow> string \<Rightarrow> dict result" where
  "build_submission now value client_identity =
     (if client_identity = [] then Inl (ValidationError ''scheduled work client identity is invalid'')
      else tryE (enqueue_key value) (\<lambda>key.
        let capabilities = py_or (dget value ''required_capabilities'') (JList []) in
        if \<not> (case capabilities of JList xs \<Rightarrow> list_all (\<lambda>x. is_str x \<and> truthy x) xs | _ \<Rightarrow> False)
          then Inl (ValidationError ''scheduled work required_capabilities are invalid'')
        else if dget value ''recurrence_identity'' \<noteq> JNull
                \<and> \<not> (is_str (dget value ''recurrence_identity'') \<and> truthy (dget value ''recurrence_identity''))
          then Inl (ValidationError ''scheduled work recurrence identity is invalid'')
        else
          tryE (py_str (py_or (dget value ''workload_class'') (JStr ''python''))) (\<lambda>workload_class.
          tryE (checked_priority (dget value ''priority'')) (\<lambda>priority.
            if dget value ''required_worker_id'' \<noteq> JNull \<and> \<not> is_str (dget value ''required_worker_id'')
              then Inl (ValidationError ''scheduled work required_worker_id is invalid'')
            else Inr (submitted_work now value client_identity key workload_class capabilities priority)))))"

text \<open>\<^verbatim>\<open>_DuplicateScheduledWork\<close>, raised by the predicate and caught by \<^verbatim>\<open>enqueue\<close>.\<close>

definition duplicate_work :: fabric_error where
  "duplicate_work = ProtocolError ''_DuplicateScheduledWork''"

definition accept_work :: "string \<Rightarrow> dict list \<Rightarrow> unit result" where
  "accept_work work_id records =
     (if list_ex (\<lambda>e. dget (entry_record e) ''work_id'' = JStr work_id) records then Inl duplicate_work else Inr ())"

definition enqueue :: "string \<Rightarrow> dict \<Rightarrow> string \<Rightarrow> work_queue \<Rightarrow> (dict \<times> work_queue) result" where
  "enqueue now value client_identity s =
     tryE (build_submission now value client_identity) (\<lambda>submitted.
     tryE (enqueue_key value) (\<lambda>key.
     let work_id = work_identity client_identity key in
     case append_if ''scheduled.work'' (attach_identity submitted ''event_identity'') (accept_work work_id) (wq_ledger s) of
       Inl err \<Rightarrow> if err = duplicate_work then queue_latest work_id s else Inl err
     | Inr (e, F) \<Rightarrow>
         tryE (queue_ensure (s\<lparr>wq_ledger := F\<rparr>)) (\<lambda>s.
           Inr (submitted, queue_store (fmupd work_id submitted (fst (wq_cache s)), snd (wq_cache s)) s))))"

definition control_event :: "string \<Rightarrow> string \<Rightarrow> dict" where
  "control_event now state = dict_of
     [(''schema_version'', JStr SCHEDULED_WORK_SCHEMA), (''work_id'', JStr ''operator-pause''),
      (''state'', JStr state), (''observed_at'', JStr now)]"

definition queue_pause :: "string \<Rightarrow> work_queue \<Rightarrow> work_queue result" where
  "queue_pause now s =
     tryE (ledger_append ''scheduled.control'' (attach_identity (control_event now ''PAUSED'') ''event_identity'') (wq_ledger s)) (\<lambda>(e, F).
     tryE (queue_ensure (s\<lparr>wq_ledger := F\<rparr>)) (\<lambda>s. Inr (queue_store (fst (wq_cache s), True) s)))"

definition queue_resume :: "string \<Rightarrow> work_queue \<Rightarrow> work_queue result" where
  "queue_resume now s =
     tryE (ledger_append ''scheduled.control'' (attach_identity (control_event now ''RESUMED'') ''event_identity'') (wq_ledger s)) (\<lambda>(e, F).
     tryE (queue_ensure (s\<lparr>wq_ledger := F\<rparr>)) (\<lambda>s. Inr (queue_store (fst (wq_cache s), False) s)))"

definition append_state :: "string \<Rightarrow> string \<Rightarrow> string \<Rightarrow> dict \<Rightarrow> work_queue \<Rightarrow> (dict \<times> work_queue) result" where
  "append_state now work_id state kwargs s =
     tryE (queue_latest work_id s) (\<lambda>(latest, s).
     let event = fmadd (dict_of
           [(''schema_version'', JStr SCHEDULED_WORK_SCHEMA), (''work_id'', JStr work_id), (''state'', JStr state),
            (''attempt'', dget_default latest ''attempt'' (JInt 1)), (''observed_at'', JStr now)]) kwargs in
     tryE (ledger_append ''scheduled.work'' (attach_identity event ''event_identity'') (wq_ledger s)) (\<lambda>(e, F).
     tryE (queue_ensure (s\<lparr>wq_ledger := F\<rparr>)) (\<lambda>s.
       let m = fst (wq_cache s) in
       Inr (event, queue_store (if state \<in> set TERMINAL then fmdrop work_id m else fmupd work_id event m,
                                snd (wq_cache s)) s))))"

section \<open>Selecting a worker\<close>

text \<open>\<^verbatim>\<open>set(x)\<close>: the elements of a list, the characters of a string, the keys of a dict.\<close>

definition py_set :: "json \<Rightarrow> json set result" where
  "py_set v =
     (case v of
        JList xs \<Rightarrow> if list_ex (\<lambda>x. is_list x \<or> is_dict x) xs then Inl PyTypeError else Inr (set xs)
      | JStr s \<Rightarrow> Inr (set (map (\<lambda>c. JStr [c]) s))
      | JObj m \<Rightarrow> Inr (JStr ` fset (fmdom m))
      | _ \<Rightarrow> Inl PyTypeError)"

definition worker_fits :: "zone_db \<Rightarrow> dict \<Rightarrow> dict \<Rightarrow> json set \<Rightarrow> dict \<Rightarrow> string option result" where
  "worker_fits db policy work required worker =
     tryE (py_str (py_or (dget worker ''worker_id'') (JStr []))) (\<lambda>worker_id.
       if worker_id = [] then Inr None
       else if truthy (dget work ''required_worker_id'') \<and> JStr worker_id \<noteq> dget work ''required_worker_id'' then Inr None
       else if dget worker ''availability'' \<noteq> JStr ''AVAILABLE'' then Inr None
       else tryE (py_set (py_or (dget worker ''capabilities'') (JList []))) (\<lambda>capabilities.
         if required \<noteq> {} \<and> \<not> required \<subseteq> capabilities then Inr None
         else
           tryE (py_str (py_or (dget work ''workload_class'') (JStr ''python''))) (\<lambda>workload_class.
           tryE (evaluate_availability db policy worker_id (Some workload_class)) (\<lambda>window.
             Inr (if truthy (dget window ''eligible'') then Some worker_id else None)))))"

fun first_fit :: "(dict \<Rightarrow> string option result) \<Rightarrow> dict list \<Rightarrow> string option result" where
  "first_fit fits [] = Inr None"
| "first_fit fits (w # ws) = tryE (fits w) (\<lambda>r. case r of Some x \<Rightarrow> Inr (Some x) | None \<Rightarrow> first_fit fits ws)"

definition select_worker :: "zone_db \<Rightarrow> dict \<Rightarrow> dict \<Rightarrow> dict list \<Rightarrow> string option result" where
  "select_worker db policy work workers =
     tryE (py_set (py_or (dget work ''required_capabilities'') (JList []))) (\<lambda>required.
       first_fit (worker_fits db policy work required) workers)"

section \<open>The tick\<close>

definition on_queue :: "(work_queue \<Rightarrow> ('a \<times> work_queue) result) \<Rightarrow> ('a, work_queue \<times> 'e) act" where
  "on_queue f env =
     (case f (fst env) of Inl x \<Rightarrow> (Inl x, env) | Inr (a, s') \<Rightarrow> (Inr a, (s', snd env)))"

definition on_env :: "('a, 'e) act \<Rightarrow> ('a, work_queue \<times> 'e) act" where
  "on_env f env = (case f (snd env) of (r, e') \<Rightarrow> (r, (fst env, e')))"

record 'e tick_env =
  te_zones :: zone_db
  te_policy :: dict
  te_workers :: "dict list"
  te_dispatcher :: "(dict \<Rightarrow> string \<Rightarrow> (dict, 'e) act) option"
  te_clock :: "nat \<Rightarrow> string"

definition work_id_of :: "dict \<Rightarrow> string" where
  "work_id_of work = (case dget work ''work_id'' of JStr w \<Rightarrow> w | _ \<Rightarrow> [])"

primrec tick_loop ::
  "'e tick_env \<Rightarrow> dict list \<Rightarrow> (string \<times> string) list \<Rightarrow> string list \<Rightarrow>
     ((string \<times> string) list \<times> string list, work_queue \<times> 'e) act" where
  "tick_loop T [] dispatched held = act_return (dispatched, held)"
| "tick_loop T (work # works) dispatched held =
     act_bind (act_lift (select_worker (te_zones T) (te_policy T) work (te_workers T))) (\<lambda>selected.
     case selected of
       None \<Rightarrow> tick_loop T works dispatched (held @ [work_id_of work])
     | Some worker_id \<Rightarrow>
         act_bind
           (case te_dispatcher T of
              Some dispatcher \<Rightarrow>
                act_bind (on_env (dispatcher work worker_id)) (\<lambda>result.
                act_bind (act_lift (py_str (py_or (dget result ''state'') (JStr ''DISPATCHED'')))) (\<lambda>state.
                  on_queue (append_state (te_clock T (length dispatched)) (work_id_of work) state
                    (dict_of [(''worker_id'', JStr worker_id), (''result'', JObj result)]))))
            | None \<Rightarrow>
                on_queue (append_state (te_clock T (length dispatched)) (work_id_of work) ''DISPATCHED''
                  (dict_of [(''worker_id'', JStr worker_id)])))
           (\<lambda>_. tick_loop T works (dispatched @ [(work_id_of work, worker_id)]) held))"

definition work_key :: "dict \<Rightarrow> (int \<times> string) result" where
  "work_key work = tryE (py_int_of (py_or (dget work ''priority'') (JInt 100))) (\<lambda>p. Inr (p, work_id_of work))"

definition sort_work :: "dict list \<Rightarrow> dict list result" where
  "sort_work works =
     tryE (mapE work_key works) (\<lambda>keys. Inr (map snd (sort_key fst (zip keys works))))"

definition tick :: "'e tick_env \<Rightarrow> (dict, work_queue \<times> 'e) act" where
  "tick T =
     act_bind (act_lift (validate_availability_policy (te_zones T) (JObj (te_policy T)))) (\<lambda>_.
     act_bind (on_queue queue_paused) (\<lambda>paused.
     act_bind (on_queue queue_queued) (\<lambda>works.
     if paused then
       act_return (dict_of [(''paused'', JBool True), (''dispatched'', JList []),
         (''held'', JList (map (\<lambda>w. JStr (work_id_of w)) works))])
     else
       act_bind (act_lift (sort_work works)) (\<lambda>sorted.
       act_bind (tick_loop T sorted [] []) (\<lambda>(dispatched, held).
         act_return (dict_of
           [(''paused'', JBool False),
            (''dispatched'', JList (map (\<lambda>(w, k). obj [(''work_id'', JStr w), (''worker_id'', JStr k)]) dispatched)),
            (''held'', JList (map (\<lambda>w. obj [(''work_id'', JStr w), (''reason'', JStr ''NO_ELIGIBLE_WORKER'')]) held))]))))))"

section \<open>Lemmas\<close>

interpretation queue_projection: ledger_projection "(fmempty, False) :: queue_view" queue_step .

lemma queue_ensure_refresh:
  "queue_ensure s =
     tryE (queue_projection.refresh (wq_ledger s) (wq_cache s) (wq_token s))
       (\<lambda>(c, token). Inr (s\<lparr>wq_cache := c, wq_token := token\<rparr>))"
  by (simp add: queue_ensure_def queue_projection.refresh_def tryE_assoc)

lemma queue_ensure_ledger: "queue_ensure s = Inr s' \<Longrightarrow> wq_ledger s' = wq_ledger s"
  by (auto simp: queue_ensure_refresh tryE_eq_Inr)

lemma queue_latest_ledger: "queue_latest w s = Inr (r, s') \<Longrightarrow> wq_ledger s' = wq_ledger s"
  by (auto simp: queue_latest_def tryE_eq_Inr queue_ensure_ledger split: option.splits)

lemma queue_store_simps [simp]: "wq_ledger (queue_store v s) = wq_ledger s" "wq_cache (queue_store v s) = v"
  by (simp_all add: queue_store_def)

lemma queue_open_ledger [simp]: "wq_ledger (queue_open F) = F"
  by (simp add: queue_open_def)

definition has_work :: "string \<Rightarrow> ledger_file \<Rightarrow> bool" where
  "has_work w F = list_ex (\<lambda>e. dget (entry_record e) ''work_id'' = JStr w) (stream_unlocked F)"

lemma build_submission_fields:
  assumes "build_submission now v c = Inr sub"
  obtains key where "enqueue_key v = Inr key" "dget sub ''work_id'' = JStr (work_identity c key)"
    "dget sub ''state'' = JStr ''QUEUED''"
    "\<exists>p. checked_priority (dget v ''priority'') = Inr p \<and> dget sub ''priority'' = JInt p"
  using assms by (auto simp: build_submission_def result_simps submitted_work_def split: if_splits)

lemma append_if_accepted:
  assumes "append_if rt r (accept_work w) F = Inr (e, F')"
  shows "\<not> has_work w F" "entry_holds rt r e" "e \<in> set (stream_unlocked F')"
  using assms unfolding append_if_def
  by (elim append_computed_InrD; auto simp: accept_work_def has_work_def tryE_eq_Inr split: if_splits)+

lemma verify_loop_Inl: "verify_loop nl ls n seq ident fin = Inl err \<Longrightarrow> \<exists>m. err = StorageError m"
proof (induction ls arbitrary: n seq ident fin)
  case (Cons l ls)
  show ?case
  proof (cases "\<exists>v. l = Value (JObj v)")
    case True
    then obtain v where l: "l = Value (JObj v)" by blast
    show ?thesis
    proof (cases "validate_entry_fast v seq ident")
      case (Inl x)
      with Cons.prems l show ?thesis by (auto simp: validate_entry_fast_def split: if_splits)
    next
      case (Inr u)
      with Cons.prems Cons.IH l show ?thesis by (auto split: if_splits)
    qed
  qed (use Cons.prems in \<open>auto split: raw_line.splits json.splits if_splits\<close>)
qed simp

lemma require_clean_Inl: "require_clean F = Inl err \<Longrightarrow> \<exists>m. err = StorageError m"
  by (auto simp: require_clean_def tryE_eq_Inl verify_unlocked_def dest: verify_loop_Inl split: if_splits)

lemma append_if_Inl:
  assumes "append_if rt r p F = Inl err" and "p (stream_unlocked F) = Inr ()"
  shows "\<exists>m. err = StorageError m"
  using assms
  by (auto simp: append_if_def append_computed_def tryE_eq_Inl reuse_entry_def dest: require_clean_Inl
      split: if_splits option.splits)

lemma enqueue_InrD:
  assumes "enqueue now v c s = Inr (r, s')"
  obtains key where "enqueue_key v = Inr key" "has_work (work_identity c key) (wq_ledger s')"
    "has_work (work_identity c key) (wq_ledger s) \<longrightarrow> wq_ledger s' = wq_ledger s"
proof -
  from assms obtain sub key where b: "build_submission now v c = Inr sub" "enqueue_key v = Inr key"
    by (auto simp: enqueue_def tryE_eq_Inr)
  let ?w = "work_identity c key"
  let ?a = "append_if ''scheduled.work'' (attach_identity sub ''event_identity'') (accept_work ?w) (wq_ledger s)"
  have sw: "dget sub ''work_id'' = JStr ?w"
    using build_submission_fields [OF b(1)] b(2) by auto
  show thesis
  proof (cases ?a)
    case (Inl err)
    with assms b have "err = duplicate_work" "queue_latest ?w s = Inr (r, s')"
      by (auto simp: enqueue_def split: if_splits)
    then have l: "wq_ledger s' = wq_ledger s" by (simp add: queue_latest_ledger)
    have "has_work ?w (wq_ledger s)"
    proof (rule ccontr)
      assume "\<not> has_work ?w (wq_ledger s)"
      then have "accept_work ?w (stream_unlocked (wq_ledger s)) = Inr ()" by (simp add: accept_work_def has_work_def)
      from append_if_Inl [OF Inl this] \<open>err = duplicate_work\<close> show False by (simp add: duplicate_work_def)
    qed
    with l b(2) show thesis by (intro that [of key]) simp_all
  next
    case (Inr ef)
    obtain e F where ef: "ef = (e, F)" by (cases ef)
    with Inr have a: "?a = Inr (e, F)" by simp
    from assms b a have l: "wq_ledger s' = F"
      by (auto simp: enqueue_def tryE_eq_Inr queue_ensure_ledger)
    note acc = append_if_accepted [OF a]
    have "dget (entry_record e) ''work_id'' = JStr ?w" using entry_record_holds [OF acc(2)] sw by simp
    with acc(3) have "has_work ?w F" by (auto simp: has_work_def list_ex_iff)
    with l acc(1) b(2) show thesis by (intro that [of key]) simp_all
  qed
qed

subsection \<open>Ticks\<close>

lemma first_fit_Some: "first_fit f ws = Inr (Some x) \<Longrightarrow> \<exists>w \<in> set ws. f w = Inr (Some x)"
  by (induction ws) (auto simp: tryE_eq_Inr split: option.splits)

lemma tick_loop_InrD:
  assumes "tick_loop T works d h env = (Inr (d', h'), env')"
  shows "\<exists>d2 h2. d' = d @ d2 \<and> h' = h @ h2 \<and> length d2 + length h2 = length works
    \<and> subseq (map fst d2) (map work_id_of works)
    \<and> (\<forall>(w, k) \<in> set d2. \<exists>work \<in> set works. w = work_id_of work
         \<and> select_worker (te_zones T) (te_policy T) work (te_workers T) = Inr (Some k))"
  using assms
proof (induction works arbitrary: d h env)
  case Nil
  then show ?case by auto
next
  case (Cons work works)
  from Cons.prems obtain sel where sel: "select_worker (te_zones T) (te_policy T) work (te_workers T) = Inr sel"
    by (auto simp: act_bind_eq_Inr act_lift_eq_Inr)
  show ?case
  proof (cases sel)
    case None
    with Cons.prems sel have "tick_loop T works d (h @ [work_id_of work]) env = (Inr (d', h'), env')" by simp
    from Cons.IH [OF this] obtain d2 h2 where "d' = d @ d2" "h' = h @ [work_id_of work] @ h2"
      "length d2 + length h2 = length works" "subseq (map fst d2) (map work_id_of works)"
      "\<forall>(w, k) \<in> set d2. \<exists>work \<in> set works. w = work_id_of work
         \<and> select_worker (te_zones T) (te_policy T) work (te_workers T) = Inr (Some k)"
      by auto
    then show ?thesis by (intro exI [of _ d2] exI [of _ "work_id_of work # h2"]) auto
  next
    case (Some k)
    with Cons.prems sel obtain env1 where
      "tick_loop T works (d @ [(work_id_of work, k)]) h env1 = (Inr (d', h'), env')"
      by (auto simp: act_bind_eq_Inr)
    from Cons.IH [OF this] obtain d2 h2 where "d' = d @ [(work_id_of work, k)] @ d2" "h' = h @ h2"
      "length d2 + length h2 = length works" "subseq (map fst d2) (map work_id_of works)"
      "\<forall>(w, k) \<in> set d2. \<exists>work \<in> set works. w = work_id_of work
         \<and> select_worker (te_zones T) (te_policy T) work (te_workers T) = Inr (Some k)"
      by auto
    with sel Some show ?thesis by (intro exI [of _ "(work_id_of work, k) # d2"] exI [of _ h2]) auto
  qed
qed

lemma sort_work_sorted:
  assumes "sort_work works = Inr ws"
  shows "mset ws = mset works" "\<exists>keys. mapE work_key ws = Inr keys \<and> sorted keys"
proof -
  from assms obtain keys where k: "mapE work_key works = Inr keys" "ws = map snd (sort_key fst (zip keys works))"
    by (auto simp: sort_work_def tryE_eq_Inr)
  let ?zs = "sort_key fst (zip keys works)"
  have len: "length keys = length works" by (rule mapE_length [OF k(1)])
  have "mset (map snd ?zs) = mset (map snd (zip keys works))" by (simp only: mset_map mset_sort)
  with len k(2) show "mset ws = mset works" by simp
  have pairs: "(\<And>z. z \<in> set zs \<Longrightarrow> work_key (snd z) = Inr (fst z)) \<Longrightarrow> mapE work_key (map snd zs) = Inr (map fst zs)" for zs
    by (induction zs) auto
  have "work_key (snd z) = Inr (fst z)" if "z \<in> set ?zs" for z
    using that k(1) len unfolding mapE_eq_Inr by (auto simp: list_all2_conv_all_nth in_set_zip)
  then have "mapE work_key (map snd ?zs) = Inr (map fst ?zs)" by (rule pairs)
  with k(2) show "\<exists>keys. mapE work_key ws = Inr keys \<and> sorted keys"
    by (intro exI [of _ "map fst ?zs"]) (simp add: sorted_sort_key)
qed

lemma on_queue_eq_Inr [result_simps]:
  "on_queue f env = (Inr a, env') \<longleftrightarrow> (\<exists>s'. f (fst env) = Inr (a, s') \<and> env' = (s', snd env))"
  by (auto simp: on_queue_def split: sum.splits)

lemma queue_paused_ledger: "queue_paused s = Inr (b, s') \<Longrightarrow> wq_ledger s' = wq_ledger s"
  by (auto simp: queue_paused_def tryE_eq_Inr queue_ensure_ledger)

lemma queue_queued_ledger: "queue_queued s = Inr (b, s') \<Longrightarrow> wq_ledger s' = wq_ledger s"
  by (auto simp: queue_queued_def tryE_eq_Inr queue_ensure_ledger)

section \<open>A concrete queue\<close>

definition demo_value :: dict where
  "demo_value = dict_of [(''idempotency_key'', JStr ''k'')]"

definition demo_worker :: dict where
  "demo_worker = dict_of [(''worker_id'', JStr ''w''), (''availability'', JStr ''AVAILABLE'')]"

lemma demo_submission: "\<exists>sub. build_submission ''t'' demo_value ''c'' = Inr sub"
  by (simp add: build_submission_def enqueue_key_def demo_value_def py_or_def checked_priority_def
      PRIORITY_DEFAULT_def PRIORITY_MIN_def PRIORITY_MAX_def)

lemma demo_key: "enqueue_key demo_value = Inr ''k''"
  by (simp add: enqueue_key_def demo_value_def py_or_def)

lemma demo_enqueue:
  "\<exists>sub s1. enqueue ''t'' demo_value ''c'' (queue_open empty_ledger) = Inr (sub, s1)
     \<and> wq_token s1 = Some (wq_ledger s1) \<and> file_lines (wq_ledger s1) \<noteq> [] \<and> ledger_ok (wq_ledger s1)
     \<and> wq_cache s1 = (fmupd (work_identity ''c'' ''k'') sub (fst (wq_cache s1)), False)
     \<and> has_work (work_identity ''c'' ''k'') (wq_ledger s1)"
proof -
  obtain sub where sub: "build_submission ''t'' demo_value ''c'' = Inr sub" using demo_submission by blast
  have sw: "dget sub ''work_id'' = JStr (work_identity ''c'' ''k'')"
    using build_submission_fields [OF sub] demo_key by auto
  let ?r = "attach_identity sub ''event_identity''"
  let ?e = "next_entry ''scheduled.work'' ?r []"
  let ?F = "write_entries [?e] empty_ledger"
  have ok: "ledger_ok ?F" using ok_write_next [of empty_ledger "''scheduled.work''" ?r] by simp
  have a: "append_if ''scheduled.work'' ?r (accept_work (work_identity ''c'' ''k'')) empty_ledger = Inr (?e, ?F)"
    using append_if_fresh [of empty_ledger "''scheduled.work''" "accept_work (work_identity ''c'' ''k'')" ?r]
    by (simp add: accept_work_def)
  have snd_step: "snd (queue_step ?e (fmempty, False)) = False"
    by (simp add: queue_step_def next_entry_def split: json.split)
  have en: "queue_ensure (queue_open empty_ledger\<lparr>wq_ledger := ?F\<rparr>)
      = Inr \<lparr>wq_ledger = ?F, wq_cache = queue_step ?e (fmempty, False), wq_token = Some ?F\<rparr>"
    by (simp add: queue_ensure_def queue_open_def iter_records_ok [OF ok])
  let ?c = "(fmupd (work_identity ''c'' ''k'') sub (fst (queue_step ?e (fmempty, False))), False)"
  let ?s = "\<lparr>wq_ledger = ?F, wq_cache = ?c, wq_token = Some ?F\<rparr>"
  have eq: "enqueue ''t'' demo_value ''c'' (queue_open empty_ledger) = Inr (sub, ?s)"
    using a en snd_step by (simp add: enqueue_def sub demo_key queue_store_def)
  have "has_work (work_identity ''c'' ''k'') ?F" using sw by (simp add: has_work_def)
  with eq ok show ?thesis by (intro exI [of _ sub] exI [of _ ?s]) simp
qed

lemma queue_latest_cached:
  "wq_token s = Some (wq_ledger s) \<Longrightarrow> file_lines (wq_ledger s) \<noteq> [] \<Longrightarrow>
     fmlookup (fst (wq_cache s)) w = Some r \<Longrightarrow> queue_latest w s = Inr (r, s)"
  by (simp add: queue_latest_def queue_ensure_def)

definition demo_tick :: "unit tick_env" where
  "demo_tick = \<lparr>te_zones = demo_zones, te_policy = demo_policy, te_workers = [], te_dispatcher = None, te_clock = (\<lambda>_. ''t'')\<rparr>"

section \<open>Properties\<close>



text \<open>
  a tick of a paused queue dispatches nothing: the dispatcher is not called, the ledger is not
  written, and every queued item is reported as held.
\<close>

theorem paused_tick_holds_everything:
  assumes run: "tick T (s, e) = (Inr r, (s', e'))" and paused: "queue_paused s = Inr (True, s1)"
  shows "e' = e \<and> wq_ledger s' = wq_ledger s \<and> dget r ''dispatched'' = JList []
    \<and> (\<exists>works s2. queue_queued s1 = Inr (works, s2) \<and> dget r ''held'' = JList (map (\<lambda>w. JStr (work_id_of w)) works))"
  using run paused
  by (auto simp: tick_def act_bind_eq_Inr act_lift_eq_Inr on_queue_eq_Inr queue_paused_ledger queue_queued_ledger)

theorem paused_tick_holds_everything_witness:
  "\<exists>s r s'. queue_paused s = Inr (True, s) \<and> tick demo_tick (s, ()) = (Inr r, (s', ())) \<and> dget r ''dispatched'' = JList []"
proof -
  let ?F = "write_entries [fmempty] empty_ledger"
  let ?s = "\<lparr>wq_ledger = ?F, wq_cache = (fmempty, True), wq_token = Some ?F\<rparr>"
  have e: "queue_ensure ?s = Inr ?s" by (simp add: queue_ensure_def)
  have p: "queue_paused ?s = Inr (True, ?s)" by (simp add: queue_paused_def e)
  have q: "queue_queued ?s = Inr ([], ?s)" by (simp add: queue_queued_def e live_work_def sorted_list_of_fset.rep_eq)
  have "validate_availability_policy (te_zones demo_tick) (JObj (te_policy demo_tick)) \<noteq> Inl x" for x
    by (simp add: demo_tick_def demo_validated)
  then obtain v where v: "validate_availability_policy (te_zones demo_tick) (JObj (te_policy demo_tick)) = Inr v"
    by (cases "validate_availability_policy (te_zones demo_tick) (JObj (te_policy demo_tick))") auto
  obtain r where r: "tick demo_tick (?s, ()) = (Inr r, (?s, ()))"
    by (simp add: tick_def v act_bind_def on_queue_def p q)
  from paused_tick_holds_everything [OF r p] p r show ?thesis by blast
qed



text \<open>
  the worker selected for an item is one of the given workers, reported as available, the pinned one if
  the item pins one, with every required capability, and inside its availability window for the item's
  workload class.
\<close>

theorem selected_worker_is_eligible:
  assumes "select_worker db policy work workers = Inr (Some k)"
  shows "\<exists>worker \<in> set workers. \<exists>required capabilities wc window.
      py_str (py_or (dget worker ''worker_id'') (JStr [])) = Inr k
    \<and> dget worker ''availability'' = JStr ''AVAILABLE''
    \<and> (\<not> truthy (dget work ''required_worker_id'') \<or> dget work ''required_worker_id'' = JStr k)
    \<and> py_set (py_or (dget work ''required_capabilities'') (JList [])) = Inr required
    \<and> py_set (py_or (dget worker ''capabilities'') (JList [])) = Inr capabilities \<and> required \<subseteq> capabilities
    \<and> py_str (py_or (dget work ''workload_class'') (JStr ''python'')) = Inr wc
    \<and> evaluate_availability db policy k (Some wc) = Inr window \<and> truthy (dget window ''eligible'')"
proof -
  from assms obtain required where r: "py_set (py_or (dget work ''required_capabilities'') (JList [])) = Inr required"
    "first_fit (worker_fits db policy work required) workers = Inr (Some k)"
    by (auto simp: select_worker_def tryE_eq_Inr)
  from first_fit_Some [OF r(2)] obtain worker where w: "worker \<in> set workers"
    "worker_fits db policy work required worker = Inr (Some k)" by blast
  from w(2) obtain caps wc window where
    "py_str (py_or (dget worker ''worker_id'') (JStr [])) = Inr k" "dget worker ''availability'' = JStr ''AVAILABLE''"
    "\<not> truthy (dget work ''required_worker_id'') \<or> dget work ''required_worker_id'' = JStr k"
    "py_set (py_or (dget worker ''capabilities'') (JList [])) = Inr caps" "required = {} \<or> required \<subseteq> caps"
    "py_str (py_or (dget work ''workload_class'') (JStr ''python'')) = Inr wc"
    "evaluate_availability db policy k (Some wc) = Inr window" "truthy (dget window ''eligible'')"
    by (auto simp: worker_fits_def tryE_eq_Inr split: if_splits)
  moreover from this(5) have "required \<subseteq> caps" by blast
  ultimately show ?thesis using r(1)
    by (intro bexI [OF _ w(1)] exI [of _ required] exI [of _ caps] exI [of _ wc] exI [of _ window] conjI)
qed

theorem selected_worker_is_eligible_witness:
  "select_worker demo_zones demo_policy fmempty [demo_worker] = Inr (Some ''w'')
   \<and> dget demo_worker ''availability'' = JStr ''AVAILABLE''"
proof -
  obtain r where r: "evaluate_availability demo_zones demo_policy ''w'' (Some ''python'') = Inr r" "truthy (dget r ''eligible'')"
    using demo_eligible by blast
  have "select_worker demo_zones demo_policy fmempty [demo_worker] = Inr (Some ''w'')"
    using r by (simp add: select_worker_def worker_fits_def demo_worker_def py_or_def py_set_def)
  from selected_worker_is_eligible [OF this] this show ?thesis by auto
qed

text \<open>
  an accepted priority is a signed 64-bit number, and a missing, zero or empty priority becomes the
  default 100.
\<close>

theorem checked_priority_in_range:
  assumes "checked_priority raw = Inr p"
  shows "- (2 ^ 63) \<le> p \<and> p < 2 ^ 63 \<and> (truthy raw \<or> p = 100)"
  using assms
  by (cases "truthy raw")
    (auto simp: checked_priority_def py_or_def PRIORITY_MIN_def PRIORITY_MAX_def PRIORITY_DEFAULT_def split: sum.splits if_splits)

theorem checked_priority_in_range_witness:
  "checked_priority (JInt 7) = Inr 7 \<and> - (2 ^ 63) \<le> (7 :: int)"
proof -
  have "checked_priority (JInt 7) = Inr 7"
    by (simp add: checked_priority_def py_or_def PRIORITY_MIN_def PRIORITY_MAX_def)
  from checked_priority_in_range [OF this] this show ?thesis by blast
qed

text \<open>
  pausing and resuming are durable: after an accepted pause or resume whose event the ledger did not hold,
  the queue reads as paused or not in this process and in one that opens the ledger afterwards.
\<close>

theorem pause_and_resume_are_durable:
  assumes ok: "ledger_ok (wq_ledger s)"
    and fresh: "fresh_record (attach_identity (control_event now (if b then ''PAUSED'' else ''RESUMED'')) ''event_identity'')
                  (stream_unlocked (wq_ledger s))"
    and run: "(if b then queue_pause now s else queue_resume now s) = Inr s'"
  shows "(\<exists>s2. queue_paused s' = Inr (b, s2)) \<and> (\<exists>s2. queue_paused (queue_open (wq_ledger s')) = Inr (b, s2))"
proof -
  let ?r = "attach_identity (control_event now (if b then ''PAUSED'' else ''RESUMED'')) ''event_identity''"
  let ?e = "next_entry ''scheduled.control'' ?r (stream_unlocked (wq_ledger s))"
  let ?F = "write_entries [?e] (wq_ledger s)"
  have a: "ledger_append ''scheduled.control'' ?r (wq_ledger s) = Inr (?e, ?F)"
    by (rule ledger_append_fresh [OF ok _ fresh]) simp
  from run a obtain s1 where s1: "queue_ensure (s\<lparr>wq_ledger := ?F\<rparr>) = Inr s1" "s' = queue_store (fst (wq_cache s1), b) s1"
    by (cases b) (auto simp: queue_pause_def queue_resume_def tryE_eq_Inr)
  have l: "wq_ledger s1 = ?F" using queue_ensure_ledger [OF s1(1)] by simp
  have now': "\<exists>s2. queue_paused s' = Inr (b, s2)"
    by (simp add: queue_paused_def queue_ensure_def s1(2) l) (simp add: queue_store_def l)
  have ok': "ledger_ok ?F" by (rule ok_write_next [OF ok])
  have st: "dget ?e ''record_type'' = JStr ''scheduled.control''" by (simp add: next_entry_def)
  have sr: "dget ?r ''state'' = JStr (if b then ''PAUSED'' else ''RESUMED'')" by (simp add: control_event_def)
  have "snd (queue_projection.project ?F) = b"
    using st sr by (cases b) (simp_all add: queue_projection.project_write queue_step_def split: prod.split)
  then have "\<exists>s2. queue_paused (queue_open ?F) = Inr (b, s2)"
    by (simp add: queue_paused_def queue_ensure_def queue_open_def iter_records_ok [OF ok'] queue_projection.project_def)
  with now' show ?thesis by (simp add: s1(2) l)
qed

theorem pause_and_resume_are_durable_witness:
  "\<exists>s' s2. queue_pause ''t'' (queue_open empty_ledger) = Inr s' \<and> queue_paused (queue_open (wq_ledger s')) = Inr (True, s2)"
proof -
  let ?r = "attach_identity (control_event ''t'' ''PAUSED'') ''event_identity''"
  let ?F = "write_entries [next_entry ''scheduled.control'' ?r []] empty_ledger"
  have a: "ledger_append ''scheduled.control'' ?r empty_ledger = Inr (next_entry ''scheduled.control'' ?r [], ?F)"
    using ledger_append_fresh [of empty_ledger "''scheduled.control''" ?r] by simp
  have ok: "ledger_ok ?F" using ok_write_next [of empty_ledger "''scheduled.control''" ?r] by simp
  have "\<exists>s'. queue_pause ''t'' (queue_open empty_ledger) = Inr s'"
    using a by (simp add: queue_pause_def queue_open_def queue_ensure_def iter_records_ok [OF ok])
  then obtain s' where s': "queue_pause ''t'' (queue_open empty_ledger) = Inr s'" by blast
  have "ledger_ok (wq_ledger (queue_open empty_ledger))" by (simp add: queue_open_def)
  from pause_and_resume_are_durable [OF this, of "''t''" True s'] s' show ?thesis by (simp add: queue_open_def)
qed

end
