(* ===== verification/Platform_Facts.thy ===== *)
theory Platform_Facts
  imports Work_Queue
begin

text \<open>
  \<^verbatim>\<open>src/src/mncs_fabric/capability_resolution.py\<close>, the facts a resolution is made of: the finite
  platform vocabulary and the decisions over it (operating system, architecture, libc, accelerator,
  resources), the requirement and environment records, the classification of observed text, the
  declared worker policy, and the capability tokens made from environment and policy.

  Environments, requirements and policies are dicts, as in the code. Sets of tokens are finite sets of
  strings. The text of a list or a dict inside an environment is not modelled (\<open>py_str\<close> refuses it).
\<close>

section \<open>The platform vocabulary\<close>

definition OS_VALUES :: "string list" where
  "OS_VALUES = [''linux'', ''windows'', ''macos'', ''unknown'']"

definition ARCH_VALUES :: "string list" where
  "ARCH_VALUES = [''x86_64'', ''aarch64'', ''riscv64'', ''x86'', ''arm32'', ''unknown'']"

definition LIBC_VALUES :: "string list" where
  "LIBC_VALUES = [''gnu'', ''musl'', ''wasi-c'', ''win-crt'', ''unknown'']"

definition ACCEL_VALUES :: "string list" where
  "ACCEL_VALUES = [''none'', ''cuda'', ''rocm'', ''metal'', ''unknown'']"

definition EXEC_VALUES :: "string list" where
  "EXEC_VALUES = [''native'', ''emulated'']"

definition REQ_OS_VALUES :: "string list" where
  "REQ_OS_VALUES = [''any'', ''linux'', ''windows'', ''macos'']"

definition REQ_ARCH_VALUES :: "string list" where
  "REQ_ARCH_VALUES = [''any'', ''x86_64'', ''aarch64'', ''riscv64'', ''x86'', ''arm32'']"

definition REQ_LIBC_VALUES :: "string list" where
  "REQ_LIBC_VALUES = [''any'', ''gnu'', ''musl'', ''wasi-c'', ''win-crt'']"

text \<open>\<^verbatim>\<open>_enum\<close>: a \<^verbatim>\<open>str\<close> of the given tuple.\<close>

definition enum_value :: "json \<Rightarrow> string list \<Rightarrow> string \<Rightarrow> string result" where
  "enum_value value allowed field =
     (case value of
        JStr s \<Rightarrow> if s \<in> set allowed then Inr s else Inl (ValidationError (field @ '' must be one of''))
      | _ \<Rightarrow> Inl (ValidationError (field @ '' must be one of'')))"

definition os_satisfies :: "json \<Rightarrow> json \<Rightarrow> bool result" where
  "os_satisfies req got =
     tryE (enum_value req REQ_OS_VALUES ''req_os'') (\<lambda>r.
     tryE (enum_value got OS_VALUES ''os'') (\<lambda>g.
       Inr (if r = ''any'' then True else r = g \<and> g \<noteq> ''unknown'')))"

definition arch_matches :: "json \<Rightarrow> json \<Rightarrow> bool result" where
  "arch_matches req got =
     tryE (enum_value req REQ_ARCH_VALUES ''req_arch'') (\<lambda>r.
     tryE (enum_value got ARCH_VALUES ''arch'') (\<lambda>g.
       Inr (if r = ''any'' then True else r = g \<and> g \<noteq> ''unknown'')))"

definition arch_satisfies :: "json \<Rightarrow> json \<Rightarrow> bool \<Rightarrow> bool \<Rightarrow> json \<Rightarrow> bool result" where
  "arch_satisfies req got allow_emulation emulates_req_arch exec_mode =
     tryE (enum_value exec_mode EXEC_VALUES ''exec_mode'') (\<lambda>mode.
     tryE (arch_matches req got) (\<lambda>matches.
       Inr (if matches then (if mode = ''native'' then True else allow_emulation)
            else allow_emulation \<and> emulates_req_arch \<and> mode = ''emulated'')))"

definition libc_satisfies :: "json \<Rightarrow> json \<Rightarrow> bool result" where
  "libc_satisfies req got =
     tryE (enum_value req REQ_LIBC_VALUES ''req_libc'') (\<lambda>r.
     tryE (enum_value got LIBC_VALUES ''libc'') (\<lambda>g.
       Inr (if r = ''any'' then True else r = g \<and> g \<noteq> ''unknown'')))"

text \<open>Versions compare as pairs; every component passes through \<^verbatim>\<open>int\<close>.\<close>

definition cuda_satisfies :: "bool \<Rightarrow> json \<Rightarrow> json \<Rightarrow> json \<Rightarrow> json \<Rightarrow> json \<Rightarrow> bool result" where
  "cuda_satisfies require req_major req_minor got got_major got_minor =
     (if \<not> require then Inr True
      else
        tryE (enum_value got ACCEL_VALUES ''accel'') (\<lambda>g.
          if g \<noteq> ''cuda'' then Inr False
          else
            tryE (py_int_of got_major) (\<lambda>ga. tryE (py_int_of got_minor) (\<lambda>gi.
            tryE (py_int_of req_major) (\<lambda>ra. tryE (py_int_of req_minor) (\<lambda>ri.
              Inr ((ra, ri) \<le> (ga, gi))))))))"

definition resources_satisfy :: "json \<Rightarrow> json \<Rightarrow> json \<Rightarrow> json \<Rightarrow> bool result" where
  "resources_satisfy min_mem_mib min_cpus got_mem_mib got_cpus =
     tryE (py_int_of min_mem_mib) (\<lambda>a. tryE (py_int_of got_mem_mib) (\<lambda>b.
       if \<not> a \<le> b then Inr False
       else tryE (py_int_of min_cpus) (\<lambda>c. tryE (py_int_of got_cpus) (\<lambda>d. Inr (c \<le> d)))))"

definition flag_satisfies :: "bool \<Rightarrow> bool \<Rightarrow> bool" where
  "flag_satisfies require got = (if require then got else True)"

section \<open>Requirement and environment records\<close>

definition default_env :: dict where
  "default_env = dict_of
     [(''os'', JStr ''unknown''), (''arch'', JStr ''unknown''), (''libc'', JStr ''unknown''),
      (''init'', JStr ''unknown''), (''accel'', JStr ''unknown''), (''exec_mode'', JStr ''native''),
      (''cuda_major'', JInt 0), (''cuda_minor'', JInt 0), (''has_ebpf'', JBool False),
      (''has_wasm'', JBool False), (''has_ptx'', JBool False), (''mem_mib'', JInt 0),
      (''cpu_count'', JInt 0), (''emulates_req_arch'', JBool False)]"

text \<open>\<^verbatim>\<open>dict(x or {})\<close> and \<^verbatim>\<open>int(source.get(k, 0))\<close>.\<close>

definition dict_or_empty :: "dict option \<Rightarrow> dict" where
  "dict_or_empty x = (case x of None \<Rightarrow> fmempty | Some m \<Rightarrow> m)"

definition int_field :: "dict \<Rightarrow> string \<Rightarrow> int result" where
  "int_field m k = py_int_of (dget_default m k (JInt 0))"

definition flag_field :: "dict \<Rightarrow> string \<Rightarrow> bool" where
  "flag_field m k = truthy (dget_default m k (JBool False))"

definition normalize_req_env :: "dict option \<Rightarrow> dict result" where
  "normalize_req_env req =
     (let source = dict_or_empty req in
      tryE (int_field source ''cuda_major'') (\<lambda>cuda_major.
      tryE (int_field source ''cuda_minor'') (\<lambda>cuda_minor.
      tryE (int_field source ''min_mem_mib'') (\<lambda>min_mem_mib.
      tryE (int_field source ''min_cpu_count'') (\<lambda>min_cpu_count.
        Inr (dict_of
          [(''os'', dget_default source ''os'' (JStr ''any'')), (''arch'', dget_default source ''arch'' (JStr ''any'')),
           (''libc'', dget_default source ''libc'' (JStr ''any'')),
           (''require_cuda'', JBool (flag_field source ''require_cuda'')),
           (''cuda_major'', JInt cuda_major), (''cuda_minor'', JInt cuda_minor),
           (''require_ebpf'', JBool (flag_field source ''require_ebpf'')),
           (''require_wasm'', JBool (flag_field source ''require_wasm'')),
           (''require_ptx'', JBool (flag_field source ''require_ptx'')),
           (''allow_emulation'', JBool (flag_field source ''allow_emulation'')),
           (''min_mem_mib'', JInt min_mem_mib), (''min_cpu_count'', JInt min_cpu_count)]))))))"

definition normalize_env :: "dict option \<Rightarrow> dict" where
  "normalize_env env = default_env ++\<^sub>f dict_or_empty env"

text \<open>
  \<^verbatim>\<open>env_satisfies\<close>: the list of checks is built in full before \<^verbatim>\<open>all\<close> looks at it, so an exception of
  any of them escapes whatever the others say. \<open>want\<close> and \<open>got\<close> hold every key that is read.
\<close>

definition env_arch_check :: "dict \<Rightarrow> dict \<Rightarrow> bool result" where
  "env_arch_check want got =
     arch_satisfies (dget want ''arch'') (dget got ''arch'') (truthy (dget want ''allow_emulation''))
       (flag_field got ''emulates_req_arch'') (dget_default got ''exec_mode'' (JStr ''native''))"

definition env_cuda_check :: "dict \<Rightarrow> dict \<Rightarrow> bool result" where
  "env_cuda_check want got =
     tryE (int_field got ''cuda_major'') (\<lambda>major. tryE (int_field got ''cuda_minor'') (\<lambda>minor.
       cuda_satisfies (truthy (dget want ''require_cuda'')) (dget want ''cuda_major'') (dget want ''cuda_minor'')
         (dget got ''accel'') (JInt major) (JInt minor)))"

definition env_resource_check :: "dict \<Rightarrow> dict \<Rightarrow> bool result" where
  "env_resource_check want got =
     tryE (int_field got ''mem_mib'') (\<lambda>mem. tryE (int_field got ''cpu_count'') (\<lambda>cpus.
       resources_satisfy (dget want ''min_mem_mib'') (dget want ''min_cpu_count'') (JInt mem) (JInt cpus)))"

definition env_checks :: "dict \<Rightarrow> dict \<Rightarrow> bool list result" where
  "env_checks want got =
     tryE (os_satisfies (dget want ''os'') (dget got ''os'')) (\<lambda>os_ok.
     tryE (env_arch_check want got) (\<lambda>arch_ok.
     tryE (libc_satisfies (dget want ''libc'') (dget got ''libc'')) (\<lambda>libc_ok.
     tryE (env_cuda_check want got) (\<lambda>cuda_ok.
     tryE (env_resource_check want got) (\<lambda>resources_ok.
       Inr [os_ok, arch_ok, libc_ok, cuda_ok,
            flag_satisfies (truthy (dget want ''require_ebpf'')) (flag_field got ''has_ebpf''),
            flag_satisfies (truthy (dget want ''require_wasm'')) (flag_field got ''has_wasm''),
            flag_satisfies (truthy (dget want ''require_ptx'')) (flag_field got ''has_ptx''),
            resources_ok])))))"

definition env_satisfies :: "dict option \<Rightarrow> dict option \<Rightarrow> bool result" where
  "env_satisfies req env =
     tryE (normalize_req_env req) (\<lambda>want.
     tryE (env_checks want (normalize_env env)) (\<lambda>checks. Inr (list_all id checks)))"

section \<open>Classification of observed text\<close>

text \<open>\<^verbatim>\<open>str.lower\<close> and \<^verbatim>\<open>in\<close> on code points below 256.\<close>

definition lower_char :: "char \<Rightarrow> char" where
  "lower_char c = (let n = (of_char c :: nat) in
     if 65 \<le> n \<and> n \<le> 90 \<or> 192 \<le> n \<and> n \<le> 222 \<and> n \<noteq> 215 then char_of (n + 32) else c)"

definition lowered_text :: "string \<Rightarrow> string" where
  "lowered_text s = map lower_char (strip s)"

fun has_substring :: "string \<Rightarrow> string \<Rightarrow> bool" where
  "has_substring p [] = (p = [])"
| "has_substring p (x # xs) = (startswith (x # xs) p \<or> has_substring p xs)"

definition OS_ALIASES :: "(string \<times> string) list" where
  "OS_ALIASES = [(''linux'', ''linux''), (''windows'', ''windows''), (''darwin'', ''macos''), (''macos'', ''macos'')]"

definition ARCH_ALIASES :: "(string \<times> string) list" where
  "ARCH_ALIASES =
     [(''x86_64'', ''x86_64''), (''amd64'', ''x86_64''), (''aarch64'', ''aarch64''), (''arm64'', ''aarch64''),
      (''riscv64'', ''riscv64''), (''i386'', ''x86''), (''i686'', ''x86''), (''x86'', ''x86''),
      (''armv7l'', ''arm32''), (''arm32'', ''arm32'')]"

definition classify_os :: "json \<Rightarrow> string" where
  "classify_os raw =
     (case raw of
        JStr s \<Rightarrow> (case map_of OS_ALIASES (lowered_text s) of Some v \<Rightarrow> v | None \<Rightarrow> ''unknown'')
      | _ \<Rightarrow> ''unknown'')"

definition classify_arch :: "json \<Rightarrow> string" where
  "classify_arch raw =
     (case raw of
        JStr s \<Rightarrow> (case map_of ARCH_ALIASES (lowered_text s) of Some v \<Rightarrow> v | None \<Rightarrow> ''unknown'')
      | _ \<Rightarrow> ''unknown'')"

definition classify_libc :: "json \<Rightarrow> string" where
  "classify_libc raw =
     (case raw of
        JStr s \<Rightarrow>
          (case find_first (\<lambda>token. has_substring token (lowered_text s))
                  [''musl'', ''wasi'', ''msvc'', ''win'', ''crt'', ''glibc'', ''gnu''] of
             None \<Rightarrow> ''unknown''
           | Some token \<Rightarrow>
               if token = ''musl'' then ''musl''
               else if token = ''wasi'' then ''wasi-c''
               else if token \<in> {''msvc'', ''win'', ''crt''} then ''win-crt''
               else ''gnu'')
      | _ \<Rightarrow> ''unknown'')"

definition classify_init :: "json \<Rightarrow> string" where
  "classify_init raw =
     (case raw of
        JStr s \<Rightarrow>
          let lowered = map (\<lambda>c. if c = CHR ''_'' then CHR ''-'' else c) (lowered_text s) in
          if lowered \<in> {''systemd'', ''openrc'', ''sysv'', ''launchd'', ''win-service'', ''windows-service''}
          then (if startswith lowered ''win'' then ''windows-service'' else lowered)
          else ''unknown''
      | _ \<Rightarrow> ''unknown'')"

definition classify_accel :: "json \<Rightarrow> string" where
  "classify_accel raw =
     (case raw of
        JStr s \<Rightarrow> if lowered_text s \<in> set ACCEL_VALUES then lowered_text s else ''unknown''
      | _ \<Rightarrow> ''unknown'')"

section \<open>Declared policy\<close>

definition POLICY_FIELDS :: "string list" where
  "POLICY_FIELDS =
     [''experimental'', ''disposable'', ''allow_root_mutation'', ''allow_reboot'', ''allow_toolchain_install'',
      ''resource_constrained'']"

definition default_policy :: dict where
  "default_policy = dict_of (map (\<lambda>k. (k, JBool False)) POLICY_FIELDS)"

definition policy_field :: "dict \<Rightarrow> string \<Rightarrow> dict \<Rightarrow> dict result" where
  "policy_field policy key checked =
     (let value = dget_default policy key (JBool False) in
      if \<not> is_bool value then Inl (ValidationError ''worker policy field must be a boolean'')
      else Inr (fmupd key value checked))"

definition validate_policy :: "json \<Rightarrow> dict result" where
  "validate_policy v =
     (case v of
        JObj policy \<Rightarrow>
          if \<not> fmdom policy |\<subseteq>| fset_of_list POLICY_FIELDS
            then Inl (ValidationError ''worker policy carries unsupported fields'')
          else
            tryE (foldE (policy_field policy) POLICY_FIELDS default_policy) (\<lambda>checked.
              if truthy (dget checked ''allow_root_mutation'') \<and> \<not> truthy (dget checked ''experimental'')
                then Inl (ValidationError
                  ''root mutation requires the experimental role; stable workers cannot hold it'')
              else if truthy (dget checked ''disposable'') \<and> \<not> truthy (dget checked ''experimental'')
                then Inl (ValidationError ''disposable workers must be experimental'')
              else Inr checked)
      | _ \<Rightarrow> Inl (ValidationError ''worker policy must be an object''))"

section \<open>Tokens\<close>

type_synonym tokens = "string fset"

definition tagged :: "string \<Rightarrow> json \<Rightarrow> string result" where
  "tagged tag v = tryE (py_str v) (\<lambda>t. Inr (tag @ t))"

definition when_token :: "bool \<Rightarrow> string \<Rightarrow> string list" where
  "when_token c t = (if c then [t] else [])"

definition cuda_token :: "dict \<Rightarrow> string list result" where
  "cuda_token env =
     (if dget env ''accel'' = JStr ''cuda'' then
        tryE (py_str (dget_default env ''cuda_major'' (JInt 0))) (\<lambda>major.
        tryE (py_str (dget_default env ''cuda_minor'' (JInt 0))) (\<lambda>minor.
          Inr [''cuda:compute-'' @ major @ ''-'' @ minor, ''accelerator:cuda'']))
      else Inr [])"

definition env_tokens :: "dict \<Rightarrow> tokens result" where
  "env_tokens env =
     tryE (mapE (\<lambda>(tag, key, d). tagged tag (dget_default env key (JStr d)))
       [(''os:'', ''os'', ''unknown''), (''arch:'', ''arch'', ''unknown''), (''libc:'', ''libc'', ''unknown''),
        (''init:'', ''init'', ''unknown''), (''accel:'', ''accel'', ''unknown''), (''exec:'', ''exec_mode'', ''native'')]) (\<lambda>facts.
     tryE (cuda_token env) (\<lambda>cuda.
     tryE (py_iter (py_or (dget_default env ''shells'' (JList [])) (JList []))) (\<lambda>shells.
     tryE (mapE (tagged ''shell:'') shells) (\<lambda>shell_tokens.
       Inr (fset_of_list (facts @ cuda @ when_token (truthy (dget env ''has_ebpf'')) ''kernel:ebpf''
         @ when_token (truthy (dget env ''has_wasm'')) ''runtime:wasm''
         @ when_token (truthy (dget env ''has_ptx'')) ''compiler:ptx''
         @ when_token (truthy (dget env ''emulates_req_arch'')) ''exec:emulated-capable'' @ shell_tokens))))))"

definition policy_tokens :: "json \<Rightarrow> tokens result" where
  "policy_tokens policy =
     tryE (validate_policy policy) (\<lambda>checked.
       Inr (fset_of_list
         ((if \<not> truthy (dget checked ''experimental'') then [''policy:stable''] else [''policy:experimental''])
          @ when_token (truthy (dget checked ''disposable'')) ''policy:disposable''
          @ when_token (truthy (dget checked ''resource_constrained'')) ''policy:resource-constrained''
          @ when_token (truthy (dget checked ''allow_root_mutation'')) ''policy:root-mutation''
          @ when_token (truthy (dget checked ''allow_reboot'')) ''policy:reboot''
          @ when_token (truthy (dget checked ''allow_toolchain_install'')) ''policy:toolchain-install'')))"

end
