(* ===== verification/Capability_Resolution.thy ===== *)
theory Capability_Resolution
  imports Platform_Facts
begin

text \<open>
  \<^verbatim>\<open>src/src/mncs_fabric/capability_resolution.py\<close>, the resolution: which workers of a fleet may run a
  workload, decided before anything is dispatched. \<open>worker_base_inputs\<close> computes the five scalars of
  one worker and the texts of what it misses, \<open>resolve_code\<close> orders the five scalars into a reason
  code, \<open>finish_worker_resolution\<close> refines the code by the texts, \<open>resolve_fleet\<close> ranks the eligible
  workers. The compiled authority that may answer the base codes instead of \<open>resolve_code\<close> is a
  parameter.
\<close>

section \<open>The ordered relation\<close>

definition PROVENANCE_VALUES :: "string list" where
  "PROVENANCE_VALUES = [''worker-observed'', ''operator-asserted'', ''consumer-declared'']"

definition INTENT_VALUES :: "string list" where
  "INTENT_VALUES = [''normal'', ''mutating'', ''privileged'']"

definition LIVENESS_VALUES :: "string list" where
  "LIVENESS_VALUES = [''AVAILABLE'', ''UNAVAILABLE'', ''DISCONNECTED'']"

definition FRESHNESS_VALUES :: "string list" where
  "FRESHNESS_VALUES = [''fresh'', ''stale'']"

definition RESOLUTION_CODES :: "string list" where
  "RESOLUTION_CODES =
     [''ELIGIBLE'', ''CAPABILITY_UNSATISFIED'', ''POLICY_DENIED'', ''PROVENANCE_UNVERIFIED'', ''WORKER_STALE'',
      ''WORKER_UNAVAILABLE'', ''WORKER_DISCONNECTED'', ''TOOLCHAIN_MISSING'', ''RUNTIME_MISSING'']"

definition NO_ELIGIBLE_WORKER :: string where
  "NO_ELIGIBLE_WORKER = ''NO_ELIGIBLE_WORKER''"

definition provenance_trusted :: "string \<Rightarrow> bool result" where
  "provenance_trusted provenance =
     tryE (enum_value (JStr provenance) PROVENANCE_VALUES ''provenance'') (\<lambda>p.
       Inr (p \<in> set [''worker-observed'', ''operator-asserted'']))"

text \<open>
  The age of an observation: absent, an integer or a float of any kind, or an object \<^verbatim>\<open>float\<close> refuses.
  A string that \<^verbatim>\<open>float\<close> reads stands for its number. An integer beyond the largest float raises
  \<^verbatim>\<open>OverflowError\<close>, which the code does not catch; a NaN is neither below nor above anything.
\<close>

datatype observation_age =
    NoAge
  | AgeInt int
  | AgeFloat bool nat int
  | AgeInf bool
  | AgeNan
  | AgeNotNumeric

definition MAX_CAPABILITY_AGE :: "int \<times> int" where
  "MAX_CAPABILITY_AGE = (3000, -1)"

definition FLOAT_INT_LIMIT :: int where
  "FLOAT_INT_LIMIT = 2 ^ 1024 - 2 ^ 970"

definition number_freshness :: "int \<times> int \<Rightarrow> string" where
  "number_freshness age =
     (if \<not> parts_le (0, 0) age \<or> \<not> parts_le age MAX_CAPABILITY_AGE then ''stale'' else ''fresh'')"

definition freshness_of :: "observation_age \<Rightarrow> string result" where
  "freshness_of age =
     (case age of
        NoAge \<Rightarrow> Inr ''fresh''
      | AgeNotNumeric \<Rightarrow> Inl (ValidationError ''capability age must be numeric or null'')
      | AgeInt n \<Rightarrow> if FLOAT_INT_LIMIT \<le> \<bar>n\<bar> then Inl PyOverflowError else Inr (number_freshness (n, 0))
      | AgeFloat s m e \<Rightarrow> Inr (number_freshness (if s then - int m else int m, e))
      | AgeInf _ \<Rightarrow> Inr ''stale''
      | AgeNan \<Rightarrow> Inr ''fresh'')"

definition intent_allowed :: "dict \<Rightarrow> string \<Rightarrow> bool result" where
  "intent_allowed policy intent =
     tryE (enum_value (JStr intent) INTENT_VALUES ''intent'') (\<lambda>intent.
       let experimental = flag_field policy ''experimental'' in
       Inr (if intent = ''normal'' then True
            else if intent = ''mutating'' then experimental \<and> flag_field policy ''allow_toolchain_install''
            else experimental \<and> flag_field policy ''allow_root_mutation''))"

record resolve_inputs =
  ri_liveness :: string
  ri_freshness :: string
  ri_provenance_ok :: bool
  ri_env_ok :: bool
  ri_intent_ok :: bool

definition resolve_code :: "resolve_inputs \<Rightarrow> string result" where
  "resolve_code i =
     tryE (enum_value (JStr (ri_liveness i)) LIVENESS_VALUES ''liveness'') (\<lambda>liveness.
     tryE (enum_value (JStr (ri_freshness i)) FRESHNESS_VALUES ''freshness'') (\<lambda>freshness.
       Inr (if liveness = ''UNAVAILABLE'' then ''WORKER_UNAVAILABLE''
            else if liveness = ''DISCONNECTED'' then ''WORKER_DISCONNECTED''
            else if freshness = ''stale'' then ''WORKER_STALE''
            else if \<not> ri_provenance_ok i then ''PROVENANCE_UNVERIFIED''
            else if \<not> ri_env_ok i then ''CAPABILITY_UNSATISFIED''
            else if \<not> ri_intent_ok i then ''POLICY_DENIED''
            else ''ELIGIBLE'')))"

definition is_eligible :: "string \<Rightarrow> bool result" where
  "is_eligible code =
     (if code \<notin> set RESOLUTION_CODES then Inl (ValidationError ''resolution code is unsupported'')
      else Inr (code = ''ELIGIBLE''))"

section \<open>Queries and snapshots\<close>

definition TOOLCHAIN_PREFIXES :: "string list" where
  "TOOLCHAIN_PREFIXES = [''tool:'', ''toolchain:'', ''compiler:'']"

definition RUNTIME_PREFIXES :: "string list" where
  "RUNTIME_PREFIXES = [''runtime:'']"

record capability_query =
  cq_require_all :: tokens
  cq_require_any :: "tokens list"
  cq_forbid :: tokens
  cq_prefer :: tokens
  cq_req_env :: "dict option"
  cq_intent :: string

text \<open>\<^verbatim>\<open>__post_init__\<close>: the checks a query passes before it exists.\<close>

definition init_query :: "capability_query \<Rightarrow> capability_query result" where
  "init_query q =
     tryE (enum_value (JStr (cq_intent q)) INTENT_VALUES ''intent'') (\<lambda>_.
       if list_ex (\<lambda>group. [] |\<in>| group) [cq_require_all q, cq_forbid q, cq_prefer q]
         then Inl (ValidationError ''capability token sets must hold non-empty strings'')
       else if list_ex (\<lambda>group. group = {||}) (cq_require_any q)
         then Inl (ValidationError ''require_any groups must be non-empty token sets'')
       else Inr q)"

record worker_snapshot =
  ws_worker_id :: string
  ws_capabilities :: tokens
  ws_env :: "dict option"
  ws_policy :: "dict option"
  ws_liveness :: string
  ws_age :: observation_age
  ws_provenance :: string
  ws_available :: bool
  ws_active :: int
  ws_concurrency_limit :: int
  ws_management_state :: "string option"

record worker_resolution =
  wr_worker_id :: string
  wr_eligible :: bool
  wr_code :: string
  wr_missing :: "string list"
  wr_preferred_hits :: "string list"
  wr_detail :: string

definition strs :: "string list \<Rightarrow> json" where
  "strs xs = JList (map JStr xs)"

definition worker_resolution_dict :: "worker_resolution \<Rightarrow> json" where
  "worker_resolution_dict r = obj
     [(''worker_id'', JStr (wr_worker_id r)), (''eligible'', JBool (wr_eligible r)), (''code'', JStr (wr_code r)),
      (''missing'', strs (wr_missing r)), (''preferred_hits'', strs (wr_preferred_hits r)),
      (''detail'', JStr (wr_detail r))]"

record fleet_resolution =
  fl_verdict :: string
  fl_eligible :: "string list"
  fl_selected :: "string list"
  fl_per_worker :: "worker_resolution list"
  fl_detail :: string
  fl_authority :: "dict option"

definition with_authority :: "dict \<Rightarrow> dict option \<Rightarrow> dict" where
  "with_authority value authority =
     (case authority of None \<Rightarrow> value | Some a \<Rightarrow> fmupd ''authority'' (JObj a) value)"

definition fleet_resolution_dict :: "fleet_resolution \<Rightarrow> dict" where
  "fleet_resolution_dict f = with_authority (dict_of
     [(''verdict'', JStr (fl_verdict f)), (''eligible'', strs (fl_eligible f)), (''selected'', strs (fl_selected f)),
      (''per_worker'', JList (map worker_resolution_dict (fl_per_worker f))), (''detail'', JStr (fl_detail f))])
     (fl_authority f)"

definition starts_with_any :: "string list \<Rightarrow> string \<Rightarrow> bool" where
  "starts_with_any ps s = list_ex (startswith s) ps"

definition missing_detail :: "string list \<Rightarrow> string" where
  "missing_detail missing =
     (let items = sorted_list_of_fset (fset_of_list missing) in
      if items = [] then []
      else if list_all (starts_with_any TOOLCHAIN_PREFIXES) items then ''toolchain-missing''
      else if list_all (starts_with_any RUNTIME_PREFIXES) items then ''runtime-missing''
      else ''capability-unsatisfied'')"

section \<open>The inputs of one worker\<close>

record worker_base_inputs =
  wb_inputs :: resolve_inputs
  wb_policy :: dict
  wb_tokens :: tokens
  wb_missing :: "string list"
  wb_forbidden_hit :: "string option"

definition effective_liveness :: "worker_snapshot \<Rightarrow> string" where
  "effective_liveness w =
     (let liveness = (if ws_liveness w \<in> set LIVENESS_VALUES then ws_liveness w else ''DISCONNECTED'') in
      if \<not> ws_available w \<and> liveness = ''AVAILABLE'' then ''UNAVAILABLE'' else liveness)"

definition effective_provenance :: "worker_snapshot \<Rightarrow> bool result" where
  "effective_provenance w =
     (if ws_provenance w \<in> set PROVENANCE_VALUES then provenance_trusted (ws_provenance w) else Inr False)"

definition snapshot_policy :: "worker_snapshot \<Rightarrow> dict result" where
  "snapshot_policy w = validate_policy (JObj (dict_or_empty (ws_policy w)))"

definition snapshot_env :: "worker_snapshot \<Rightarrow> dict" where
  "snapshot_env w = (case ws_env w of None \<Rightarrow> default_env | Some e \<Rightarrow> if e = fmempty then default_env else e)"

definition snapshot_tokens :: "worker_snapshot \<Rightarrow> dict \<Rightarrow> tokens result" where
  "snapshot_tokens w policy =
     tryE (env_tokens (snapshot_env w)) (\<lambda>e.
     tryE (policy_tokens (JObj policy)) (\<lambda>p. Inr (ws_capabilities w |\<union>| e |\<union>| p)))"

definition missing_required :: "capability_query \<Rightarrow> tokens \<Rightarrow> string list" where
  "missing_required q toks = map (\<lambda>item. ''missing '' @ item) (sorted_list_of_fset (cq_require_all q |-| toks))"

definition missing_groups :: "capability_query \<Rightarrow> tokens \<Rightarrow> string list" where
  "missing_groups q toks =
     map (\<lambda>group. ''missing one_of ['' @ join_text '', '' (sorted_list_of_fset group) @ '']'')
       (filter (\<lambda>group. group |\<inter>| toks = {||}) (cq_require_any q))"

definition forbidden_hits :: "capability_query \<Rightarrow> tokens \<Rightarrow> string list" where
  "forbidden_hits q toks = sorted_list_of_fset (cq_forbid q |\<inter>| toks)"

definition missing_if :: "bool \<Rightarrow> string \<Rightarrow> string list" where
  "missing_if c t = (if c then [''missing '' @ t] else [])"

text \<open>\<^verbatim>\<open>str(env.get(k, d))\<close>, as a value again.\<close>

definition env_text :: "dict \<Rightarrow> string \<Rightarrow> string \<Rightarrow> json result" where
  "env_text env k d = tryE (py_str (dget_default env k (JStr d))) (\<lambda>s. Inr (JStr s))"

definition shown_int :: "dict \<Rightarrow> string \<Rightarrow> string result" where
  "shown_int m k = py_str (dget m k)"

definition missing_cuda :: "dict \<Rightarrow> dict \<Rightarrow> string list result" where
  "missing_cuda want env =
     (if \<not> truthy (dget want ''require_cuda'') then Inr []
      else
        tryE (env_text env ''accel'' ''unknown'') (\<lambda>accel.
        tryE (int_field env ''cuda_major'') (\<lambda>major. tryE (int_field env ''cuda_minor'') (\<lambda>minor.
        tryE (cuda_satisfies True (dget want ''cuda_major'') (dget want ''cuda_minor'') accel (JInt major) (JInt minor)) (\<lambda>ok.
        tryE (shown_int want ''cuda_major'') (\<lambda>a. tryE (shown_int want ''cuda_minor'') (\<lambda>b.
          Inr (missing_if (\<not> ok) (''cuda.compute >= '' @ a @ ''.'' @ b))))))))) "

definition missing_arch :: "dict \<Rightarrow> dict \<Rightarrow> string list result" where
  "missing_arch want env =
     (if dget want ''arch'' = JStr ''any'' then Inr []
      else
        tryE (env_text env ''arch'' ''unknown'') (\<lambda>arch. tryE (env_text env ''exec_mode'' ''native'') (\<lambda>mode.
        tryE (arch_satisfies (dget want ''arch'') arch (truthy (dget want ''allow_emulation''))
               (flag_field env ''emulates_req_arch'') mode) (\<lambda>ok.
        tryE (py_str (dget want ''arch'')) (\<lambda>t. Inr (missing_if (\<not> ok) (''arch.'' @ t)))))))"

definition missing_os :: "dict \<Rightarrow> dict \<Rightarrow> string list result" where
  "missing_os want env =
     tryE (env_text env ''os'' ''unknown'') (\<lambda>os. tryE (os_satisfies (dget want ''os'') os) (\<lambda>ok.
     tryE (py_str (dget want ''os'')) (\<lambda>t. Inr (missing_if (\<not> ok) (''os.'' @ t)))))"

definition missing_libc :: "dict \<Rightarrow> dict \<Rightarrow> string list result" where
  "missing_libc want env =
     tryE (env_text env ''libc'' ''unknown'') (\<lambda>libc. tryE (libc_satisfies (dget want ''libc'') libc) (\<lambda>ok.
     tryE (py_str (dget want ''libc'')) (\<lambda>t. Inr (missing_if (\<not> ok) (''libc.'' @ t)))))"

definition missing_flags :: "dict \<Rightarrow> dict \<Rightarrow> string list" where
  "missing_flags want env =
     concat (map (\<lambda>(flag, label, key).
         missing_if (truthy (dget want flag) \<and> \<not> flag_satisfies True (flag_field env key)) label)
       [(''require_ebpf'', ''kernel.ebpf'', ''has_ebpf''), (''require_wasm'', ''runtime.wasm'', ''has_wasm''),
        (''require_ptx'', ''compiler.ptx'', ''has_ptx'')])"

definition missing_resources :: "dict \<Rightarrow> dict \<Rightarrow> string list result" where
  "missing_resources want env =
     tryE (env_resource_check want env) (\<lambda>ok.
     tryE (shown_int want ''min_mem_mib'') (\<lambda>a. tryE (shown_int want ''min_cpu_count'') (\<lambda>b.
       Inr (missing_if (\<not> ok) (''resources >= '' @ a @ ''MiB/'' @ b @ ''cpu'')))))"

definition missing_env_details :: "dict \<Rightarrow> dict \<Rightarrow> string list result" where
  "missing_env_details want env =
     tryE (missing_cuda want env) (\<lambda>cuda. tryE (missing_arch want env) (\<lambda>arch.
     tryE (missing_os want env) (\<lambda>os. tryE (missing_libc want env) (\<lambda>libc.
     tryE (missing_resources want env) (\<lambda>resources.
       Inr (cuda @ arch @ os @ libc @ missing_flags want env @ resources))))))"

definition missing_env :: "capability_query \<Rightarrow> worker_snapshot \<Rightarrow> string list result" where
  "missing_env q w =
     tryE (normalize_req_env (cq_req_env q)) (\<lambda>want.
       if cq_req_env q = None \<or> cq_req_env q = Some fmempty then Inr []
       else
         let env = normalize_env (ws_env w) in
         tryE (env_satisfies (Some want) (Some env)) (\<lambda>ok.
           if ok then Inr [] else missing_env_details want env))"

definition base_missing :: "capability_query \<Rightarrow> worker_snapshot \<Rightarrow> tokens \<Rightarrow> string list result" where
  "base_missing q w toks =
     tryE (missing_env q w) (\<lambda>env_missing.
       Inr (missing_required q toks @ missing_groups q toks
         @ map (\<lambda>t. ''forbidden '' @ t @ '' present'') (forbidden_hits q toks) @ env_missing))"

definition reachable_inputs :: "string \<Rightarrow> string \<Rightarrow> bool \<Rightarrow> bool" where
  "reachable_inputs liveness freshness provenance_ok =
     (\<not> (liveness \<noteq> ''AVAILABLE'' \<or> freshness \<noteq> ''fresh'' \<or> \<not> provenance_ok))"

definition compute_base_inputs :: "capability_query \<Rightarrow> worker_snapshot \<Rightarrow> worker_base_inputs result" where
  "compute_base_inputs q w =
     (let liveness = effective_liveness w in
      tryE (freshness_of (ws_age w)) (\<lambda>freshness.
      tryE (effective_provenance w) (\<lambda>provenance_ok.
      tryE (snapshot_policy w) (\<lambda>policy.
      tryE (snapshot_tokens w policy) (\<lambda>toks.
      tryE (if reachable_inputs liveness freshness provenance_ok then base_missing q w toks else Inr []) (\<lambda>missing.
      tryE (intent_allowed policy (cq_intent q)) (\<lambda>intent_ok.
        Inr \<lparr>wb_inputs = \<lparr>ri_liveness = liveness, ri_freshness = freshness, ri_provenance_ok = provenance_ok,
                ri_env_ok = (missing = []), ri_intent_ok = intent_ok\<rparr>,
              wb_policy = policy, wb_tokens = toks, wb_missing = missing,
              wb_forbidden_hit =
                (if reachable_inputs liveness freshness provenance_ok
                 then find_first (\<lambda>_. True) (forbidden_hits q toks) else None)\<rparr>)))))))"

section \<open>The verdict on one worker\<close>

text \<open>\<^verbatim>\<open>item.split(" ", 1)[1] for item in missing if " " in item\<close>\<close>

definition missing_subjects :: "string list \<Rightarrow> string list" where
  "missing_subjects missing =
     concat (map (\<lambda>item. case partition_on (CHR '' '') item of (a, found, b) \<Rightarrow> if found then [b] else []) missing)"

definition refine_forbidden :: "worker_base_inputs \<Rightarrow> string \<Rightarrow> string" where
  "refine_forbidden base code =
     (if code = ''ELIGIBLE'' \<and> wb_forbidden_hit base \<noteq> None then ''POLICY_DENIED''
      else if code = ''CAPABILITY_UNSATISFIED'' \<and> wb_forbidden_hit base \<noteq> None
              \<and> filter (\<lambda>item. startswith item ''missing'') (wb_missing base) = [] then ''POLICY_DENIED''
      else code)"

definition refine_missing :: "worker_base_inputs \<Rightarrow> string \<Rightarrow> string" where
  "refine_missing base code =
     (if code = ''CAPABILITY_UNSATISFIED'' \<and> wb_missing base \<noteq> [] then
        let detail = missing_detail (missing_subjects (wb_missing base)) in
        if detail = ''toolchain-missing'' then ''TOOLCHAIN_MISSING''
        else if detail = ''runtime-missing'' then ''RUNTIME_MISSING''
        else code
      else code)"

definition finish_worker_resolution ::
    "capability_query \<Rightarrow> worker_snapshot \<Rightarrow> worker_base_inputs \<Rightarrow> string \<Rightarrow> worker_resolution result" where
  "finish_worker_resolution q w base code =
     (if code \<notin> set RESOLUTION_CODES then Inl (ValidationError ''resolution code is unsupported'')
      else
        let code = refine_missing base (refine_forbidden base code);
            preferred = sorted_list_of_fset (cq_prefer q |\<inter>| wb_tokens base);
            denied = (code = ''POLICY_DENIED'' \<and> wb_missing base = []) in
        Inr \<lparr>wr_worker_id = ws_worker_id w, wr_eligible = (code = ''ELIGIBLE''), wr_code = code,
             wr_missing = (if denied then [''missing policy for intent '' @ cq_intent q] else wb_missing base),
             wr_preferred_hits = preferred,
             wr_detail = (if denied then ''intent '' @ cq_intent q @ '' denied by worker policy''
                          else join_text ''; '' (wb_missing base))\<rparr>)"

definition resolve_worker :: "capability_query \<Rightarrow> worker_snapshot \<Rightarrow> worker_resolution result" where
  "resolve_worker q w =
     tryE (compute_base_inputs q w) (\<lambda>base.
     tryE (resolve_code (wb_inputs base)) (\<lambda>code. finish_worker_resolution q w base code))"

section \<open>The fleet\<close>

text \<open>The compiled authority: its answer to a batch of inputs, and its evidence.\<close>

record authority =
  au_resolve_codes :: "resolve_inputs list \<Rightarrow> string list result"
  au_evidence :: dict

definition resolve_all :: "capability_query \<Rightarrow> worker_snapshot list \<Rightarrow> authority option \<Rightarrow> worker_resolution list result" where
  "resolve_all q ws auth =
     (case auth of
        None \<Rightarrow> mapE (resolve_worker q) ws
      | Some a \<Rightarrow>
          tryE (mapE (compute_base_inputs q) ws) (\<lambda>bases.
          tryE (au_resolve_codes a (map wb_inputs bases)) (\<lambda>codes.
            mapE (\<lambda>(w, base, code). finish_worker_resolution q w base code) (zip ws (zip bases codes)))))"

definition constrained_ids :: "worker_snapshot list \<Rightarrow> tokens result" where
  "constrained_ids ws =
     tryE (filterE (\<lambda>w. tryE (snapshot_policy w) (\<lambda>p. Inr (truthy (dget p ''resource_constrained'')))) ws) (\<lambda>cs.
       Inr (fset_of_list (map ws_worker_id cs)))"

definition fleet_rank :: "tokens \<Rightarrow> worker_resolution \<Rightarrow> int \<times> int \<times> string" where
  "fleet_rank constrained r =
     (- int (length (wr_preferred_hits r)), if wr_worker_id r |\<in>| constrained then 1 else 0, wr_worker_id r)"

definition resolution_line :: "worker_resolution \<Rightarrow> string" where
  "resolution_line r =
     wr_worker_id r @ '': '' @ wr_code r @ (if wr_detail r \<noteq> [] then '' ('' @ wr_detail r @ '')'' else [])"

definition fleet_verdict ::
    "nat \<Rightarrow> worker_resolution list \<Rightarrow> tokens \<Rightarrow> dict option \<Rightarrow> fleet_resolution" where
  "fleet_verdict replicas resolutions constrained evidence =
     (let eligible = sort_key (fleet_rank constrained) (filter wr_eligible resolutions);
          per_worker = sort_key wr_worker_id resolutions;
          ids = map wr_worker_id eligible in
      if length eligible < replicas then
        \<lparr>fl_verdict = NO_ELIGIBLE_WORKER, fl_eligible = ids, fl_selected = [], fl_per_worker = per_worker,
         fl_detail = join_text ''; '' (map resolution_line per_worker), fl_authority = evidence\<rparr>
      else
        \<lparr>fl_verdict = ''ELIGIBLE'', fl_eligible = ids, fl_selected = take replicas ids, fl_per_worker = per_worker,
         fl_detail = ''selected '' @ join_text '', '' (take replicas ids) @ '' by capability match and preference rank'',
         fl_authority = evidence\<rparr>)"

definition resolve_fleet ::
    "capability_query \<Rightarrow> worker_snapshot list \<Rightarrow> int \<Rightarrow> authority option \<Rightarrow> fleet_resolution result" where
  "resolve_fleet q ws replicas auth =
     (if replicas < 1 \<or> 64 < replicas then Inl (ValidationError ''replicas must be between 1 and 64'')
      else
        tryE (resolve_all q ws auth) (\<lambda>resolutions.
        tryE (constrained_ids ws) (\<lambda>constrained.
          Inr (fleet_verdict (nat replicas) resolutions constrained (map_option au_evidence auth)))))"

definition explain_selection :: "fleet_resolution \<Rightarrow> dict" where
  "explain_selection f = with_authority (dict_of
     [(''verdict'', JStr (fl_verdict f)), (''selected'', strs (fl_selected f)), (''eligible'', strs (fl_eligible f)),
      (''per_worker'', JList (map worker_resolution_dict (fl_per_worker f))), (''detail'', JStr (fl_detail f))])
     (fl_authority f)"

end
