(* ===== verification/Eligibility.thy ===== *)
theory Eligibility
  imports Capability_Resolution
begin

text \<open>
  What a resolution promises. \<open>meets_query\<close> is the declarative reading of eligibility: the worker is
  reachable, freshly observed by a trusted party, holds every required token, one token of every
  alternative, no forbidden one, has an environment that satisfies the structured requirement and a
  policy that grants the intent.
\<close>

section \<open>Values and defaults\<close>

lemma enum_value_eq_Inr [result_simps]: "enum_value v xs f = Inr s \<longleftrightarrow> v = JStr s \<and> s \<in> set xs"
  by (cases v) (auto simp: enum_value_def)

lemma enum_value_ok [simp]: "s \<in> set xs \<Longrightarrow> enum_value (JStr s) xs f = Inr s"
  by (simp add: enum_value_eq_Inr)

lemma normalize_req_env_keeps:
  assumes "normalize_req_env r = Inr want"
  shows "normalize_req_env (Some want) = Inr want"
  using assms unfolding normalize_req_env_def Let_def
  by (auto simp: tryE_eq_Inr int_field_def flag_field_def dict_or_empty_def)

lemma normalize_req_env_present:
  assumes "normalize_req_env r = Inr want"
  shows "fmlookup want ''os'' \<noteq> None" "fmlookup want ''arch'' \<noteq> None" "fmlookup want ''libc'' \<noteq> None"
  using assms by (auto simp: normalize_req_env_def tryE_eq_Inr fmlookup_of_list)

lemma normalize_env_keeps [simp]: "normalize_env (Some (normalize_env e)) = normalize_env e"
proof -
  have "a ++\<^sub>f (a ++\<^sub>f b) = a ++\<^sub>f (b :: dict)" for a b
    by (rule fmap_ext) (simp add: fmlookup_add)
  then show ?thesis by (simp add: normalize_env_def dict_or_empty_def)
qed

lemma normalize_env_present:
  "k \<in> {''os'', ''arch'', ''libc'', ''accel'', ''exec_mode''} \<Longrightarrow> fmlookup (normalize_env e) k \<noteq> None"
proof -
  assume "k \<in> {''os'', ''arch'', ''libc'', ''accel'', ''exec_mode''}"
  then have "k |\<in>| fmdom default_env" by (auto simp: default_env_def fset_of_list_elem)
  then have "k |\<in>| fmdom (normalize_env e)" by (simp add: normalize_env_def)
  then show ?thesis by auto
qed

lemma env_satisfies_normal:
  assumes "normalize_req_env r = Inr want"
  shows "env_satisfies (Some want) (Some (normalize_env e)) = env_satisfies r e"
  using assms by (simp add: env_satisfies_def normalize_req_env_keeps)

section \<open>Every failed check of the environment leaves a text\<close>

lemma env_text_str:
  assumes "fmlookup env k \<noteq> None" and "dget env k = JStr s"
  shows "env_text env k d = Inr (JStr s)"
  using assms by (simp add: env_text_def dget_default_present)

lemma missing_if_empty [simp]: "missing_if c t = [] \<longleftrightarrow> \<not> c"
  by (simp add: missing_if_def)

lemma missing_os_empty:
  assumes "fmlookup env ''os'' \<noteq> None" and "os_satisfies (dget want ''os'') (dget env ''os'') = Inr ok"
    and "missing_os want env = Inr ms"
  shows "ms = [] \<longleftrightarrow> ok"
proof -
  from assms(2) obtain g where "dget env ''os'' = JStr g"
    by (auto simp: os_satisfies_def tryE_eq_Inr enum_value_eq_Inr)
  with assms show ?thesis by (auto simp: missing_os_def env_text_str tryE_eq_Inr)
qed

lemma missing_libc_empty:
  assumes "fmlookup env ''libc'' \<noteq> None" and "libc_satisfies (dget want ''libc'') (dget env ''libc'') = Inr ok"
    and "missing_libc want env = Inr ms"
  shows "ms = [] \<longleftrightarrow> ok"
proof -
  from assms(2) obtain g where "dget env ''libc'' = JStr g"
    by (auto simp: libc_satisfies_def tryE_eq_Inr enum_value_eq_Inr)
  with assms show ?thesis by (auto simp: missing_libc_def env_text_str tryE_eq_Inr)
qed

lemma missing_arch_empty:
  assumes "fmlookup env ''arch'' \<noteq> None" and "fmlookup env ''exec_mode'' \<noteq> None"
    and "env_arch_check want env = Inr ok" and "missing_arch want env = Inr ms"
  shows "ms = [] \<longleftrightarrow> ok \<or> dget want ''arch'' = JStr ''any''"
proof (cases "dget want ''arch'' = JStr ''any''")
  case True
  with assms(4) show ?thesis by (simp add: missing_arch_def)
next
  case False
  from assms(3) obtain g m where "dget env ''arch'' = JStr g" "dget env ''exec_mode'' = JStr m"
    using dget_default_present [OF assms(2)]
    by (auto simp: env_arch_check_def arch_satisfies_def arch_matches_def tryE_eq_Inr enum_value_eq_Inr)
  with assms False show ?thesis
    by (auto simp: missing_arch_def env_arch_check_def dget_default_present env_text_str tryE_eq_Inr)
qed

lemma missing_cuda_empty:
  assumes "fmlookup env ''accel'' \<noteq> None"
    and "env_cuda_check want env = Inr ok" and "missing_cuda want env = Inr ms"
  shows "ms = [] \<longleftrightarrow> ok"
proof (cases "truthy (dget want ''require_cuda'')")
  case False
  with assms(2,3) show ?thesis by (auto simp: missing_cuda_def env_cuda_check_def cuda_satisfies_def tryE_eq_Inr)
next
  case True
  with assms(2) obtain g where "dget env ''accel'' = JStr g"
    by (auto simp: env_cuda_check_def cuda_satisfies_def tryE_eq_Inr enum_value_eq_Inr)
  with assms True show ?thesis by (auto simp: missing_cuda_def env_cuda_check_def env_text_str tryE_eq_Inr)
qed

lemma missing_resources_empty:
  assumes "env_resource_check want env = Inr ok" and "missing_resources want env = Inr ms"
  shows "ms = [] \<longleftrightarrow> ok"
  using assms by (auto simp: missing_resources_def tryE_eq_Inr)

lemma missing_flags_empty:
  "missing_flags want env = [] \<longleftrightarrow>
     flag_satisfies (truthy (dget want ''require_ebpf'')) (flag_field env ''has_ebpf'')
   \<and> flag_satisfies (truthy (dget want ''require_wasm'')) (flag_field env ''has_wasm'')
   \<and> flag_satisfies (truthy (dget want ''require_ptx'')) (flag_field env ''has_ptx'')"
  by (auto simp: missing_flags_def flag_satisfies_def)

text \<open>
  The one check without a text: an emulated environment refused by a requirement that names no
  architecture and does not allow emulation.
\<close>

definition emulation_gap :: "capability_query \<Rightarrow> worker_snapshot \<Rightarrow> bool" where
  "emulation_gap q w =
     (cq_req_env q \<noteq> None \<and> cq_req_env q \<noteq> Some fmempty \<and>
      (case normalize_req_env (cq_req_env q) of
        Inl _ \<Rightarrow> False
      | Inr want \<Rightarrow>
          dget want ''arch'' = JStr ''any'' \<and> \<not> truthy (dget want ''allow_emulation'')
          \<and> dget (normalize_env (ws_env w)) ''exec_mode'' = JStr ''emulated''))"

lemma arch_any_check:
  assumes "env_arch_check want env = Inr ok" and "dget want ''arch'' = JStr ''any''"
    and "fmlookup env ''exec_mode'' \<noteq> None"
  shows "ok \<longleftrightarrow> truthy (dget want ''allow_emulation'') \<or> dget env ''exec_mode'' \<noteq> JStr ''emulated''"
  using assms(1,2) dget_default_present [OF assms(3)]
  by (auto simp: env_arch_check_def arch_satisfies_def arch_matches_def tryE_eq_Inr enum_value_eq_Inr
      EXEC_VALUES_def)

lemma missing_details_empty:
  assumes "normalize_env e = env" and "env_checks want env = Inr checks" and "missing_env_details want env = Inr ms"
    and "dget want ''arch'' \<noteq> JStr ''any'' \<or> truthy (dget want ''allow_emulation'')
         \<or> dget env ''exec_mode'' \<noteq> JStr ''emulated''"
  shows "ms = [] \<longleftrightarrow> list_all id checks"
proof -
  from assms(2) obtain a b c d f where
    ok: "os_satisfies (dget want ''os'') (dget env ''os'') = Inr a" "env_arch_check want env = Inr b"
      "libc_satisfies (dget want ''libc'') (dget env ''libc'') = Inr c" "env_cuda_check want env = Inr d"
      "env_resource_check want env = Inr f"
    and checks: "checks = [a, b, c, d,
            flag_satisfies (truthy (dget want ''require_ebpf'')) (flag_field env ''has_ebpf''),
            flag_satisfies (truthy (dget want ''require_wasm'')) (flag_field env ''has_wasm''),
            flag_satisfies (truthy (dget want ''require_ptx'')) (flag_field env ''has_ptx''), f]"
    by (auto simp: env_checks_def tryE_eq_Inr)
  from assms(3) obtain x y z u v where
    miss: "missing_cuda want env = Inr x" "missing_arch want env = Inr y" "missing_os want env = Inr z"
      "missing_libc want env = Inr u" "missing_resources want env = Inr v"
    and ms: "ms = x @ y @ z @ u @ missing_flags want env @ v"
    by (auto simp: missing_env_details_def tryE_eq_Inr)
  note present = normalize_env_present [of _ e, unfolded assms(1)]
  have "y = [] \<longleftrightarrow> b"
    using missing_arch_empty [OF present present ok(2) miss(2)] arch_any_check [OF ok(2) _ present] assms(4)
    by auto
  moreover have "x = [] \<longleftrightarrow> d" by (rule missing_cuda_empty [OF present ok(4) miss(1)]) simp
  moreover have "z = [] \<longleftrightarrow> a" by (rule missing_os_empty [OF present ok(1) miss(3)]) simp
  moreover have "u = [] \<longleftrightarrow> c" by (rule missing_libc_empty [OF present ok(3) miss(4)]) simp
  moreover have "v = [] \<longleftrightarrow> f" by (rule missing_resources_empty [OF ok(5) miss(5)])
  ultimately show ?thesis unfolding ms checks
    by (simp add: missing_flags_empty) blast
qed

definition env_meets :: "capability_query \<Rightarrow> worker_snapshot \<Rightarrow> bool" where
  "env_meets q w =
     (cq_req_env q = None \<or> cq_req_env q = Some fmempty \<or> env_satisfies (cq_req_env q) (ws_env w) = Inr True)"

lemma missing_env_empty:
  assumes "missing_env q w = Inr ms" and "\<not> emulation_gap q w"
  shows "ms = [] \<longleftrightarrow> env_meets q w"
proof -
  from assms(1) obtain want where want: "normalize_req_env (cq_req_env q) = Inr want"
    by (auto simp: missing_env_def tryE_eq_Inr)
  let ?env = "normalize_env (ws_env w)"
  show ?thesis
  proof (cases "cq_req_env q = None \<or> cq_req_env q = Some fmempty")
    case True
    with assms(1) want show ?thesis by (auto simp: missing_env_def env_meets_def)
  next
    case False
    note given = this
    from False assms(1) want obtain ok where
      ok: "env_satisfies (cq_req_env q) (ws_env w) = Inr ok"
      and ms: "(if ok then Inr [] else missing_env_details want ?env) = Inr ms"
      by (auto simp: missing_env_def tryE_eq_Inr env_satisfies_normal [OF want])
    from ok want obtain checks where checks: "env_checks want ?env = Inr checks" "ok = list_all id checks"
      by (auto simp: env_satisfies_def tryE_eq_Inr)
    have "ms = [] \<longleftrightarrow> ok"
    proof (cases ok)
      case True with ms show ?thesis by simp
    next
      case False
      with ms have "missing_env_details want ?env = Inr ms" by simp
      from missing_details_empty [OF refl checks(1) this] assms(2) want checks(2) given show ?thesis
        by (auto simp: emulation_gap_def)
    qed
    with False ok show ?thesis by (auto simp: env_meets_def)
  qed
qed

section \<open>Eligibility of one worker\<close>

definition tokens_suffice :: "capability_query \<Rightarrow> tokens \<Rightarrow> bool" where
  "tokens_suffice q toks =
     (cq_require_all q |\<subseteq>| toks
      \<and> list_all (\<lambda>group. group |\<inter>| toks \<noteq> {||}) (cq_require_any q)
      \<and> cq_forbid q |\<inter>| toks = {||})"

definition intent_granted :: "dict \<Rightarrow> string \<Rightarrow> bool" where
  "intent_granted policy i =
     (i = ''normal''
      \<or> i = ''mutating'' \<and> flag_field policy ''experimental'' \<and> flag_field policy ''allow_toolchain_install''
      \<or> i = ''privileged'' \<and> flag_field policy ''experimental'' \<and> flag_field policy ''allow_root_mutation'')"

definition policy_and_tokens_meet :: "capability_query \<Rightarrow> worker_snapshot \<Rightarrow> bool" where
  "policy_and_tokens_meet q w =
     (case snapshot_policy w of
        Inl _ \<Rightarrow> False
      | Inr policy \<Rightarrow>
          intent_granted policy (cq_intent q)
          \<and> (case snapshot_tokens w policy of Inl _ \<Rightarrow> False | Inr toks \<Rightarrow> tokens_suffice q toks))"

definition trusted_and_reachable :: "worker_snapshot \<Rightarrow> bool" where
  "trusted_and_reachable w =
     (ws_available w \<and> ws_liveness w = ''AVAILABLE'' \<and> freshness_of (ws_age w) = Inr ''fresh''
      \<and> ws_provenance w \<in> {''worker-observed'', ''operator-asserted''})"

definition meets_query :: "capability_query \<Rightarrow> worker_snapshot \<Rightarrow> bool" where
  "meets_query q w = (trusted_and_reachable w \<and> policy_and_tokens_meet q w \<and> env_meets q w)"

lemma missing_tokens_empty:
  "missing_required q toks @ missing_groups q toks @ map f (forbidden_hits q toks) = [] \<longleftrightarrow> tokens_suffice q toks"
proof -
  have "missing_required q toks = [] \<longleftrightarrow> cq_require_all q |\<subseteq>| toks"
    by (simp add: missing_required_def)
  moreover have "missing_groups q toks = [] \<longleftrightarrow> list_all (\<lambda>group. group |\<inter>| toks \<noteq> {||}) (cq_require_any q)"
    by (simp add: missing_groups_def filter_empty_conv list_all_iff)
  ultimately show ?thesis by (simp add: tokens_suffice_def forbidden_hits_def)
qed

lemma effective_liveness_available:
  "effective_liveness w = ''AVAILABLE'' \<longleftrightarrow> ws_available w \<and> ws_liveness w = ''AVAILABLE''"
  by (simp add: effective_liveness_def LIVENESS_VALUES_def)

lemma effective_liveness_values: "effective_liveness w \<in> set LIVENESS_VALUES"
  by (simp add: effective_liveness_def LIVENESS_VALUES_def)

lemma effective_provenance_eq:
  "effective_provenance w = Inr (ws_provenance w \<in> {''worker-observed'', ''operator-asserted''})"
  by (auto simp: effective_provenance_def provenance_trusted_def PROVENANCE_VALUES_def enum_value_def)

lemma freshness_values: "freshness_of a = Inr f \<Longrightarrow> f = ''fresh'' \<or> f = ''stale''"
  by (cases a) (auto simp: freshness_of_def number_freshness_def split: if_splits)

lemma intent_allowed_eq_Inr:
  "intent_allowed policy i = Inr b \<longleftrightarrow> i \<in> set INTENT_VALUES \<and> b = intent_granted policy i"
  by (auto simp: intent_allowed_def tryE_eq_Inr enum_value_eq_Inr intent_granted_def INTENT_VALUES_def)

lemma compute_base_inputsE:
  assumes "compute_base_inputs q w = Inr base"
  obtains freshness policy toks missing where
    "freshness_of (ws_age w) = Inr freshness" "snapshot_policy w = Inr policy" "snapshot_tokens w policy = Inr toks"
    "(if reachable_inputs (effective_liveness w) freshness (ws_provenance w \<in> {''worker-observed'', ''operator-asserted''})
      then base_missing q w toks else Inr []) = Inr missing"
    "base = \<lparr>wb_inputs = \<lparr>ri_liveness = effective_liveness w, ri_freshness = freshness,
                ri_provenance_ok = ws_provenance w \<in> {''worker-observed'', ''operator-asserted''},
                ri_env_ok = (missing = []), ri_intent_ok = intent_granted policy (cq_intent q)\<rparr>,
              wb_policy = policy, wb_tokens = toks, wb_missing = missing,
              wb_forbidden_hit =
                (if reachable_inputs (effective_liveness w) freshness
                      (ws_provenance w \<in> {''worker-observed'', ''operator-asserted''})
                 then find_first (\<lambda>_. True) (forbidden_hits q toks) else None)\<rparr>"
  using assms unfolding compute_base_inputs_def effective_provenance_eq Let_def tryE_eq_Inr intent_allowed_eq_Inr
  by blast

lemma resolve_code_total:
  assumes "ri_liveness i \<in> set LIVENESS_VALUES" and "ri_freshness i = ''fresh'' \<or> ri_freshness i = ''stale''"
  shows "\<exists>c. resolve_code i = Inr c"
proof -
  from assms(2) have "ri_freshness i \<in> set FRESHNESS_VALUES" by (auto simp: FRESHNESS_VALUES_def)
  with assms(1) show ?thesis by (simp add: resolve_code_def)
qed

lemma resolve_code_InrD:
  assumes "resolve_code i = Inr c"
  shows "c \<in> set RESOLUTION_CODES"
    and "c = ''ELIGIBLE'' \<longleftrightarrow> ri_liveness i = ''AVAILABLE'' \<and> ri_freshness i = ''fresh'' \<and> ri_provenance_ok i
       \<and> ri_env_ok i \<and> ri_intent_ok i"
proof -
  from assms have "ri_liveness i \<in> set LIVENESS_VALUES" "ri_freshness i \<in> set FRESHNESS_VALUES"
    and c: "c = (if ri_liveness i = ''UNAVAILABLE'' then ''WORKER_UNAVAILABLE''
            else if ri_liveness i = ''DISCONNECTED'' then ''WORKER_DISCONNECTED''
            else if ri_freshness i = ''stale'' then ''WORKER_STALE''
            else if \<not> ri_provenance_ok i then ''PROVENANCE_UNVERIFIED''
            else if \<not> ri_env_ok i then ''CAPABILITY_UNSATISFIED''
            else if \<not> ri_intent_ok i then ''POLICY_DENIED''
            else ''ELIGIBLE'')"
    by (auto simp only: resolve_code_def tryE_eq_Inr enum_value_eq_Inr json.inject sum.inject)
  moreover from this(1) have "ri_liveness i \<noteq> ''UNAVAILABLE'' \<Longrightarrow> ri_liveness i \<noteq> ''DISCONNECTED''
      \<Longrightarrow> ri_liveness i = ''AVAILABLE''"
    by (auto simp: LIVENESS_VALUES_def)
  moreover from \<open>ri_freshness i \<in> set FRESHNESS_VALUES\<close> have "ri_freshness i \<noteq> ''stale'' \<Longrightarrow> ri_freshness i = ''fresh''"
    by (auto simp: FRESHNESS_VALUES_def)
  ultimately show "c = ''ELIGIBLE'' \<longleftrightarrow> ri_liveness i = ''AVAILABLE'' \<and> ri_freshness i = ''fresh''
      \<and> ri_provenance_ok i \<and> ri_env_ok i \<and> ri_intent_ok i"
    by (simp split: if_split)
  show "c \<in> set RESOLUTION_CODES" unfolding c by (simp add: RESOLUTION_CODES_def)
qed

lemma refine_missing_eligible [simp]: "refine_missing base code = ''ELIGIBLE'' \<longleftrightarrow> code = ''ELIGIBLE''"
  by (simp add: refine_missing_def)

lemma refine_forbidden_eligible [simp]:
  "refine_forbidden base code = ''ELIGIBLE'' \<longleftrightarrow> code = ''ELIGIBLE'' \<and> wb_forbidden_hit base = None"
  by (simp add: refine_forbidden_def) blast

lemma finish_eligible:
  assumes "finish_worker_resolution q w base code = Inr r"
  shows "wr_eligible r \<longleftrightarrow> code = ''ELIGIBLE'' \<and> wb_forbidden_hit base = None"
proof -
  from assms have "wr_eligible r \<longleftrightarrow> refine_missing base (refine_forbidden base code) = ''ELIGIBLE''"
    unfolding finish_worker_resolution_def by (simp add: if_Inl_eq_Inr) auto
  then show ?thesis by simp
qed

lemma finish_total:
  "code \<in> set RESOLUTION_CODES \<Longrightarrow> \<exists>r. finish_worker_resolution q w base code = Inr r"
  by (simp add: finish_worker_resolution_def)

lemma finish_fields:
  assumes "finish_worker_resolution q w base code = Inr r"
  shows "wr_worker_id r = ws_worker_id w"
    "wr_preferred_hits r = sorted_list_of_fset (cq_prefer q |\<inter>| wb_tokens base)"
  using assms by (auto simp: finish_worker_resolution_def split: if_splits)

lemma base_missing_empty:
  assumes "base_missing q w toks = Inr ms"
  shows "ms = [] \<longleftrightarrow> tokens_suffice q toks \<and> missing_env q w = Inr []"
proof -
  from assms obtain es where "missing_env q w = Inr es" and
    ms: "ms = (missing_required q toks @ missing_groups q toks
      @ map (\<lambda>t. ''forbidden '' @ t @ '' present'') (forbidden_hits q toks)) @ es"
    by (auto simp: base_missing_def tryE_eq_Inr)
  then show ?thesis
    unfolding ms append_is_Nil_conv [of _ es] by (simp only: missing_tokens_empty sum.inject)
qed

lemma forbidden_hit_none:
  "find_first (\<lambda>_. True) (forbidden_hits q toks) = None \<longleftrightarrow> cq_forbid q |\<inter>| toks = {||}"
  by (cases "forbidden_hits q toks") (auto simp: find_first_Cons forbidden_hits_def)

lemma eligible_parts:
  assumes "resolve_worker q w = Inr r"
  shows "wr_eligible r \<longleftrightarrow> trusted_and_reachable w \<and> policy_and_tokens_meet q w \<and> missing_env q w = Inr []"
    and "trusted_and_reachable w \<Longrightarrow> \<exists>es. missing_env q w = Inr es"
proof -
  from assms obtain base code where base: "compute_base_inputs q w = Inr base"
    and code: "resolve_code (wb_inputs base) = Inr code" and fin: "finish_worker_resolution q w base code = Inr r"
    by (auto simp: resolve_worker_def tryE_eq_Inr)
  let ?prov = "ws_provenance w \<in> {''worker-observed'', ''operator-asserted''}"
  from base obtain freshness policy toks missing where
    f: "freshness_of (ws_age w) = Inr freshness" and p: "snapshot_policy w = Inr policy"
    and t: "snapshot_tokens w policy = Inr toks"
    and m: "(if reachable_inputs (effective_liveness w) freshness ?prov then base_missing q w toks else Inr []) = Inr missing"
    and b: "base = \<lparr>wb_inputs = \<lparr>ri_liveness = effective_liveness w, ri_freshness = freshness, ri_provenance_ok = ?prov,
                ri_env_ok = (missing = []), ri_intent_ok = intent_granted policy (cq_intent q)\<rparr>,
              wb_policy = policy, wb_tokens = toks, wb_missing = missing,
              wb_forbidden_hit = (if reachable_inputs (effective_liveness w) freshness ?prov
                 then find_first (\<lambda>_. True) (forbidden_hits q toks) else None)\<rparr>"
    by (rule compute_base_inputsE)
  have reach: "reachable_inputs (effective_liveness w) freshness ?prov \<longleftrightarrow> trusted_and_reachable w"
    using f effective_liveness_available [of w] by (auto simp: reachable_inputs_def trusted_and_reachable_def)
  have c: "code = ''ELIGIBLE'' \<longleftrightarrow> effective_liveness w = ''AVAILABLE'' \<and> freshness = ''fresh'' \<and> ?prov
      \<and> missing = [] \<and> intent_granted policy (cq_intent q)"
    using resolve_code_InrD(2) [OF code] by (simp add: b)
  have elig: "wr_eligible r \<longleftrightarrow> trusted_and_reachable w \<and> missing = [] \<and> intent_granted policy (cq_intent q)
     \<and> wb_forbidden_hit base = None"
    unfolding finish_eligible [OF fin] c reach [symmetric] by (auto simp: reachable_inputs_def)
  have miss: "base_missing q w toks = Inr missing" if "trusted_and_reachable w"
    using reach m that by simp
  then show "trusted_and_reachable w \<Longrightarrow> \<exists>es. missing_env q w = Inr es"
    by (auto simp: base_missing_def tryE_eq_Inr)
  show "wr_eligible r \<longleftrightarrow> trusted_and_reachable w \<and> policy_and_tokens_meet q w \<and> missing_env q w = Inr []"
  proof (cases "trusted_and_reachable w")
    case True
    from base_missing_empty [OF miss [OF True]]
    have "missing = [] \<longleftrightarrow> tokens_suffice q toks \<and> missing_env q w = Inr []" .
    moreover have "wb_forbidden_hit base = None \<longleftrightarrow> cq_forbid q |\<inter>| toks = {||}"
      using True reach by (simp add: b forbidden_hit_none)
    ultimately show ?thesis
      unfolding elig using True p t by (auto simp: policy_and_tokens_meet_def tokens_suffice_def)
  next
    case False
    with elig show ?thesis by simp
  qed
qed

lemma eligible_iff:
  assumes "resolve_worker q w = Inr r" and "\<not> emulation_gap q w"
  shows "wr_eligible r \<longleftrightarrow> meets_query q w"
proof (cases "trusted_and_reachable w")
  case True
  with eligible_parts(2) [OF assms(1)] obtain es where es: "missing_env q w = Inr es" by blast
  from missing_env_empty [OF es assms(2)] es eligible_parts(1) [OF assms(1)] show ?thesis
    by (simp add: meets_query_def)
next
  case False
  with eligible_parts(1) [OF assms(1)] show ?thesis by (simp add: meets_query_def)
qed

lemma eligible_sound:
  assumes "resolve_worker q w = Inr r" and "wr_eligible r"
  shows "trusted_and_reachable w \<and> policy_and_tokens_meet q w \<and> (emulation_gap q w \<or> env_meets q w)"
  using eligible_parts(1) [OF assms(1)] missing_env_empty [of q w "[]"] assms(2) by auto

end
