(* ===== verification/Worker_Policy.thy ===== *)
theory Worker_Policy
  imports Platform_Facts
begin

text \<open>
  What \<open>validate_policy\<close> accepts and returns: the accepted policies, the normal form, and that the roles
  are coherent.
\<close>

section \<open>Validated policies\<close>

definition policy_value :: "dict \<Rightarrow> string \<Rightarrow> json" where
  "policy_value p k = dget_default p k (JBool False)"

lemma policy_fields_fold:
  "foldE (policy_field p) ks acc = Inr c \<longleftrightarrow>
     (\<forall>k \<in> set ks. is_bool (policy_value p k)) \<and> c = fold (\<lambda>k. fmupd k (policy_value p k)) ks acc"
  by (induction ks arbitrary: acc) (auto simp: policy_field_def policy_value_def tryE_eq_Inr)

lemma fmlookup_policy_fold:
  "fmlookup (fold (\<lambda>k. fmupd k (f k)) ks acc) k = (if k \<in> set ks then Some (f k) else fmlookup acc k)"
  by (induction ks arbitrary: acc) auto

definition policy_ok :: "dict \<Rightarrow> bool" where
  "policy_ok p =
     (fmdom p |\<subseteq>| fset_of_list POLICY_FIELDS
      \<and> list_all (\<lambda>k. is_bool (policy_value p k)) POLICY_FIELDS
      \<and> (truthy (policy_value p ''allow_root_mutation'') \<or> truthy (policy_value p ''disposable'')
         \<longrightarrow> truthy (policy_value p ''experimental'')))"

lemma validate_policy_lookup:
  assumes "validate_policy (JObj p) = Inr c"
  shows "fmlookup c k = (if k \<in> set POLICY_FIELDS then Some (policy_value p k) else None)"
proof -
  from assms have "c = fold (\<lambda>k. fmupd k (policy_value p k)) POLICY_FIELDS default_policy"
    by (auto simp: validate_policy_def tryE_eq_Inr policy_fields_fold split: if_splits)
  then show ?thesis
    by (auto simp: fmlookup_policy_fold default_policy_def fmlookup_of_list map_of_eq_None_iff)
qed

lemma validate_policy_iff: "(\<exists>c. validate_policy (JObj p) = Inr c) \<longleftrightarrow> policy_ok p"
proof -
  let ?c = "fold (\<lambda>k. fmupd k (policy_value p k)) POLICY_FIELDS default_policy"
  have get: "dget ?c k = policy_value p k" if "k \<in> set POLICY_FIELDS" for k
    using that by (simp add: dget_def fmlookup_policy_fold)
  have mem: "''allow_root_mutation'' \<in> set POLICY_FIELDS" "''disposable'' \<in> set POLICY_FIELDS"
    "''experimental'' \<in> set POLICY_FIELDS"
    by (simp_all add: POLICY_FIELDS_def)
  show ?thesis
    unfolding validate_policy_def policy_ok_def json.case list_all_iff
    by (auto simp: tryE_eq_Inr policy_fields_fold get [OF mem(1)] get [OF mem(2)] get [OF mem(3)] split: if_splits)
qed

lemma validate_policy_value:
  "validate_policy (JObj p) = Inr c \<Longrightarrow> k \<in> set POLICY_FIELDS \<Longrightarrow> policy_value c k = policy_value p k"
  by (simp add: policy_value_def dget_default_def validate_policy_lookup)

lemma validate_policy_again:
  assumes "validate_policy (JObj p) = Inr c"
  shows "validate_policy (JObj c) = Inr c"
proof -
  note same = validate_policy_value [OF assms]
  have "policy_ok p" using assms validate_policy_iff by blast
  moreover have "fmdom c |\<subseteq>| fset_of_list POLICY_FIELDS"
    using validate_policy_lookup [OF assms] by (auto simp: fset_of_list_elem split: if_splits)
  ultimately have "policy_ok c"
    using same by (simp add: policy_ok_def list_all_iff POLICY_FIELDS_def)
  then obtain d where d: "validate_policy (JObj c) = Inr d" using validate_policy_iff by blast
  have "d = c"
    by (rule fmap_ext) (simp add: validate_policy_lookup [OF d] validate_policy_lookup [OF assms] same)
  with d show ?thesis by simp
qed

lemma validate_default_policy [simp]: "validate_policy (JObj fmempty) = Inr default_policy"
proof -
  have "policy_ok fmempty"
    by (simp add: policy_ok_def policy_value_def dget_default_def POLICY_FIELDS_def)
  then obtain c where c: "validate_policy (JObj fmempty) = Inr c" using validate_policy_iff by blast
  have "c = default_policy"
  proof (rule fmap_ext)
    fix k :: string
    have "map_of (map (\<lambda>k. (k, JBool False)) ks) k = (if k \<in> set ks then Some (JBool False) else None)" for ks
      by (induction ks) auto
    then show "fmlookup c k = fmlookup default_policy k"
      by (simp add: validate_policy_lookup [OF c] default_policy_def fmlookup_of_list policy_value_def dget_default_def)
  qed
  with c show ?thesis by simp
qed

lemma default_policy_tokens [simp]: "policy_tokens (JObj default_policy) = Inr {|''policy:stable''|}"
proof -
  have "dget default_policy k = JBool False" if "k \<in> set POLICY_FIELDS" for k
    using that validate_policy_lookup [OF validate_default_policy, of k]
    by (simp add: dget_def policy_value_def dget_default_def)
  then have "\<forall>k \<in> set POLICY_FIELDS. dget default_policy k = JBool False" by blast
  then show ?thesis
    by (simp add: policy_tokens_def validate_policy_again [OF validate_default_policy] POLICY_FIELDS_def when_token_def)
qed

text \<open>
  C35: A declared policy that validates yields a policy with exactly the declared fields, which validates to
  itself and names the experimental role whenever it allows root mutation or disposal.
\<close>

theorem policy_normal_form:
  assumes "validate_policy (JObj p) = Inr c"
  shows "validate_policy (JObj c) = Inr c \<and> keys_are c POLICY_FIELDS
       \<and> (dget c ''allow_root_mutation'' = JBool True \<or> dget c ''disposable'' = JBool True
          \<longrightarrow> dget c ''experimental'' = JBool True)"
proof (intro conjI impI)
  show "validate_policy (JObj c) = Inr c" by (rule validate_policy_again [OF assms])
  note look = validate_policy_lookup [OF assms]
  show "keys_are c POLICY_FIELDS"
    unfolding keys_are_def by (rule fset_eqI) (auto simp: look fset_of_list_elem fmlookup_dom_iff)
  assume "dget c ''allow_root_mutation'' = JBool True \<or> dget c ''disposable'' = JBool True"
  moreover have "policy_ok p" using assms validate_policy_iff by blast
  moreover have "dget c k = policy_value p k" if "k \<in> set POLICY_FIELDS" for k
    using that by (simp add: dget_def look)
  moreover have "''allow_root_mutation'' \<in> set POLICY_FIELDS" "''disposable'' \<in> set POLICY_FIELDS"
    "''experimental'' \<in> set POLICY_FIELDS"
    by (simp_all add: POLICY_FIELDS_def)
  ultimately have "truthy (policy_value p ''experimental'')" "is_bool (policy_value p ''experimental'')"
    "dget c ''experimental'' = policy_value p ''experimental''"
    unfolding policy_ok_def list_all_iff by (metis truthy.simps(2), blast, blast)
  then show "dget c ''experimental'' = JBool True"
    by (cases "policy_value p ''experimental''") auto
qed

theorem policy_normal_form_witness:
  "\<exists>c. validate_policy (obj [(''experimental'', JBool True), (''disposable'', JBool True)]) = Inr c
     \<and> validate_policy (JObj c) = Inr c \<and> keys_are c POLICY_FIELDS \<and> dget c ''experimental'' = JBool True"
proof -
  let ?p = "dict_of [(''experimental'', JBool True), (''disposable'', JBool True)]"
  have "policy_ok ?p"
    by (simp add: policy_ok_def policy_value_def POLICY_FIELDS_def dget_default_def)
  then obtain c where c: "validate_policy (JObj ?p) = Inr c" using validate_policy_iff by blast
  have "dget c ''disposable'' = JBool True"
    by (simp add: dget_def validate_policy_lookup [OF c] POLICY_FIELDS_def policy_value_def)
  with policy_normal_form [OF c] c show ?thesis by blast
qed

end
