(* ===== verification/Fleet_Selection.thy ===== *)
theory Fleet_Selection
  imports Eligibility Worker_Policy
begin

text \<open>
  The fleet resolution: its ranking is the sort of the workers that meet the query by a rank read off the
  snapshots, and the compiled authority changes nothing as long as it answers the ordered relation.
\<close>

section \<open>Sorting related lists\<close>

lemma list_all2_insort_key:
  assumes "list_all2 R xs ys" and "R x y" and "\<And>a b. R a b \<Longrightarrow> f a = g b"
  shows "list_all2 R (insort_key f x xs) (insort_key g y ys)"
  using assms(1,2)
proof (induction rule: list_all2_induct)
  case (Cons a as b bs)
  then show ?case using assms(3) [of x y] assms(3) [of a b] by simp
qed simp

lemma list_all2_sort_key:
  assumes "list_all2 R xs ys" and "\<And>a b. R a b \<Longrightarrow> f a = g b"
  shows "list_all2 R (sort_key f xs) (sort_key g ys)"
  using assms(1) by (induction rule: list_all2_induct) (simp_all add: list_all2_insort_key assms(2))

lemma list_all2_filter:
  assumes "list_all2 R xs ys" and "\<And>a b. R a b \<Longrightarrow> P a = Q b"
  shows "list_all2 R (filter P xs) (filter Q ys)"
  using assms(1) by (induction rule: list_all2_induct) (auto dest: assms(2))

lemma list_all2_map_eq:
  assumes "list_all2 R xs ys" and "\<And>a b. R a b \<Longrightarrow> f a = g b"
  shows "map f xs = map g ys"
  using assms(1) by (induction rule: list_all2_induct) (auto dest: assms(2))

section \<open>The rank of a snapshot\<close>

definition snapshot_hits :: "capability_query \<Rightarrow> worker_snapshot \<Rightarrow> nat" where
  "snapshot_hits q w =
     (case tryE (snapshot_policy w) (snapshot_tokens w) of
        Inl _ \<Rightarrow> 0 | Inr toks \<Rightarrow> fcard (cq_prefer q |\<inter>| toks))"

definition is_constrained :: "worker_snapshot \<Rightarrow> bool" where
  "is_constrained w = (case snapshot_policy w of Inl _ \<Rightarrow> False | Inr p \<Rightarrow> truthy (dget p ''resource_constrained''))"

definition snapshot_rank :: "capability_query \<Rightarrow> worker_snapshot \<Rightarrow> int \<times> int \<times> string" where
  "snapshot_rank q w = (- int (snapshot_hits q w), if is_constrained w then 1 else 0, ws_worker_id w)"

lemma length_sorted_list_of_fset [simp]: "length (sorted_list_of_fset X) = fcard X"
  by (simp add: sorted_list_of_fset.rep_eq fcard.rep_eq)

lemma resolve_worker_fields:
  assumes "resolve_worker q w = Inr r"
  shows "wr_worker_id r = ws_worker_id w" "length (wr_preferred_hits r) = snapshot_hits q w"
proof -
  from assms obtain base code where base: "compute_base_inputs q w = Inr base"
    and fin: "finish_worker_resolution q w base code = Inr r"
    by (auto simp: resolve_worker_def tryE_eq_Inr)
  from base have "tryE (snapshot_policy w) (snapshot_tokens w) = Inr (wb_tokens base)"
    by (rule compute_base_inputsE) simp
  with finish_fields [OF fin] show "wr_worker_id r = ws_worker_id w"
    "length (wr_preferred_hits r) = snapshot_hits q w"
    by (simp_all add: snapshot_hits_def)
qed

lemma constrained_ids_member:
  assumes "constrained_ids ws = Inr C" and "distinct (map ws_worker_id ws)" and "w \<in> set ws"
  shows "ws_worker_id w |\<in>| C \<longleftrightarrow> is_constrained w"
proof -
  let ?p = "\<lambda>w. tryE (snapshot_policy w) (\<lambda>p. Inr (truthy (dget p ''resource_constrained'')))"
  from assms(1) have C: "C = fset_of_list (map ws_worker_id (filter (\<lambda>w. ?p w = Inr True) ws))"
    by (auto simp: constrained_ids_def tryE_eq_Inr [of "filterE _ _"] filterE_eq_Inr)
  have "ws_worker_id w |\<in>| C \<longleftrightarrow> (\<exists>v \<in> set ws. ?p v = Inr True \<and> ws_worker_id v = ws_worker_id w)"
    unfolding C fset_of_list_elem by (auto intro: rev_image_eqI)
  also have "\<dots> \<longleftrightarrow> ?p w = Inr True"
    using assms(2,3) by (auto simp: distinct_map dest: inj_onD)
  also have "\<dots> \<longleftrightarrow> is_constrained w"
    by (cases "snapshot_policy w") (simp_all add: is_constrained_def)
  finally show ?thesis .
qed

lemma ranked_ids:
  assumes rs: "mapE (resolve_worker q) ws = Inr rs" and C: "constrained_ids ws = Inr C"
    and dist: "distinct (map ws_worker_id ws)" and gap: "\<And>w. w \<in> set ws \<Longrightarrow> \<not> emulation_gap q w"
  shows "map wr_worker_id (sort_key (fleet_rank C) (filter wr_eligible rs))
       = map ws_worker_id (sort_key (snapshot_rank q) (filter (meets_query q) ws))"
proof -
  let ?R = "\<lambda>r w. w \<in> set ws \<and> resolve_worker q w = Inr r"
  have "list_all2 (\<lambda>w r. resolve_worker q w = Inr r) ws rs" using rs by (simp add: mapE_eq_Inr)
  then have R: "list_all2 ?R rs ws"
    by (auto simp: list_all2_conv_all_nth)
  have rank: "fleet_rank C r = snapshot_rank q w" if "?R r w" for r w
    using that resolve_worker_fields [of q w r] constrained_ids_member [OF C dist, of w]
    by (simp add: fleet_rank_def snapshot_rank_def)
  have "wr_eligible r = meets_query q w" if "?R r w" for r w
    using that gap by (auto intro!: eligible_iff)
  from list_all2_filter [OF R, of wr_eligible "meets_query q", OF this]
  have "list_all2 ?R (filter wr_eligible rs) (filter (meets_query q) ws)" .
  from list_all2_sort_key [OF this, of "fleet_rank C" "snapshot_rank q", OF rank]
  have "list_all2 ?R (sort_key (fleet_rank C) (filter wr_eligible rs))
      (sort_key (snapshot_rank q) (filter (meets_query q) ws))" .
  then show ?thesis
    by (rule list_all2_map_eq) (blast intro: resolve_worker_fields)
qed

section \<open>The authority\<close>

lemma authority_rows:
  assumes "length ws = length bs"
    and "\<And>b. b \<in> set bs \<Longrightarrow> \<exists>c. resolve_code (wb_inputs b) = Inr c"
  shows "mapE (\<lambda>(w, b). tryE (resolve_code (wb_inputs b)) (finish_worker_resolution q w b)) (zip ws bs)
       = tryE (mapE resolve_code (map wb_inputs bs)) (\<lambda>codes.
           mapE (\<lambda>(w, b, c). finish_worker_resolution q w b c) (zip ws (zip bs codes)))"
  using assms
proof (induction ws bs rule: list_induct2)
  case (Cons w ws b bs)
  from Cons.prems obtain c where c: "resolve_code (wb_inputs b) = Inr c" by auto
  obtain r where "finish_worker_resolution q w b c = Inr r"
    using finish_total resolve_code_InrD(1) [OF c] by blast
  with c Cons.IH Cons.prems show ?case
    by (cases "mapE resolve_code (map wb_inputs bs)") simp_all
qed simp

lemma base_has_code:
  assumes "compute_base_inputs q w = Inr base"
  shows "\<exists>c. resolve_code (wb_inputs base) = Inr c"
  using assms
  by (rule compute_base_inputsE) (rule resolve_code_total, simp_all add: effective_liveness_values freshness_values)

lemma resolve_all_authority:
  assumes "\<And>rows. au_resolve_codes a rows = mapE resolve_code rows"
  shows "resolve_all q ws (Some a) = resolve_all q ws None"
proof -
  let ?g = "\<lambda>w b. tryE (resolve_code (wb_inputs b)) (finish_worker_resolution q w b)"
  have "\<exists>r. ?g w b = Inr r" if b: "compute_base_inputs q w = Inr b" for w b
  proof -
    from base_has_code [OF b] obtain c where c: "resolve_code (wb_inputs b) = Inr c" ..
    with finish_total resolve_code_InrD(1) [OF c] show ?thesis by simp
  qed
  then have "resolve_all q ws None
      = tryE (mapE (compute_base_inputs q) ws) (\<lambda>bs. mapE (\<lambda>(w, b). ?g w b) (zip ws bs))"
    using mapE_two_stages [of "compute_base_inputs q" ?g ws]
    by (simp add: resolve_all_def resolve_worker_def [abs_def])
  also have "\<dots> = resolve_all q ws (Some a)"
  proof (cases "mapE (compute_base_inputs q) ws")
    case (Inr bs)
    have "\<exists>c. resolve_code (wb_inputs b) = Inr c" if "b \<in> set bs" for b
      using mapE_set [OF Inr that] base_has_code by blast
    from authority_rows [OF mapE_length [OF Inr, symmetric] this] Inr show ?thesis
      by (simp add: resolve_all_def assms)
  qed (simp add: resolve_all_def)
  finally show ?thesis by simp
qed

section \<open>Concrete fleets\<close>

definition sample_query :: capability_query where
  "sample_query = \<lparr>cq_require_all = {|''os:linux''|}, cq_require_any = [{|''tool:gcc'', ''tool:clang''|}],
     cq_forbid = {|''policy:disposable''|}, cq_prefer = {|''tool:clang''|},
     cq_req_env = Some (dict_of [(''os'', JStr ''linux'')]), cq_intent = ''normal''\<rparr>"

definition sample_facts :: "string \<Rightarrow> dict" where
  "sample_facts mode = dict_of [(''os'', JStr ''linux''), (''exec_mode'', JStr mode)]"

definition sample_worker :: "string \<Rightarrow> string \<Rightarrow> string \<Rightarrow> worker_snapshot" where
  "sample_worker wid mode tool = \<lparr>ws_worker_id = wid, ws_capabilities = {|tool|}, ws_env = Some (sample_facts mode),
     ws_policy = None, ws_liveness = ''AVAILABLE'', ws_age = NoAge, ws_provenance = ''worker-observed'',
     ws_available = True, ws_active = 0, ws_concurrency_limit = 1, ws_management_state = None\<rparr>"

lemma sample_selectors [simp]:
  "ws_worker_id (sample_worker wid mode tool) = wid" "cq_prefer sample_query = {|''tool:clang''|}"
  by (simp_all add: sample_worker_def sample_query_def)

lemma sample_policy [simp]: "snapshot_policy (sample_worker wid mode tool) = Inr default_policy"
  by (simp add: snapshot_policy_def sample_worker_def dict_or_empty_def)

lemma sample_env [simp]: "snapshot_env (sample_worker wid mode tool) = sample_facts mode"
  by (simp add: snapshot_env_def sample_worker_def sample_facts_def)

lemma sample_env_tokens [simp]:
  "env_tokens (sample_facts mode)
     = Inr (fset_of_list [''os:linux'', ''arch:unknown'', ''libc:unknown'', ''init:unknown'', ''accel:unknown'',
         ''exec:'' @ mode])"
  by (simp add: sample_facts_def env_tokens_def tagged_def cuda_token_def when_token_def py_iter_def py_or_def)

lemma sample_tokens [simp]:
  "snapshot_tokens (sample_worker wid mode tool) default_policy
     = Inr (fset_of_list [tool, ''os:linux'', ''arch:unknown'', ''libc:unknown'', ''init:unknown'',
         ''accel:unknown'', ''exec:'' @ mode, ''policy:stable''])"
  unfolding snapshot_tokens_def sample_env
  by (simp add: sample_worker_def) auto

lemma sample_want:
  "normalize_req_env (cq_req_env sample_query) = Inr (dict_of
     [(''os'', JStr ''linux''), (''arch'', JStr ''any''), (''libc'', JStr ''any''), (''require_cuda'', JBool False),
      (''cuda_major'', JInt 0), (''cuda_minor'', JInt 0), (''require_ebpf'', JBool False),
      (''require_wasm'', JBool False), (''require_ptx'', JBool False), (''allow_emulation'', JBool False),
      (''min_mem_mib'', JInt 0), (''min_cpu_count'', JInt 0)])"
  by (simp add: sample_query_def normalize_req_env_def dict_or_empty_def int_field_def flag_field_def)

lemma sample_env_satisfies:
  assumes "mode \<in> set EXEC_VALUES"
  shows "env_satisfies (cq_req_env sample_query) (Some (sample_facts mode)) = Inr (mode = ''native'')"
  unfolding env_satisfies_def sample_want tryE_Inr using assms
  by (simp add: env_checks_def normalize_env_def dict_or_empty_def sample_facts_def default_env_def os_satisfies_def
      dget_as_default env_arch_check_def arch_satisfies_def arch_matches_def libc_satisfies_def env_cuda_check_def
      cuda_satisfies_def int_field_def flag_field_def env_resource_check_def resources_satisfy_def flag_satisfies_def
      REQ_OS_VALUES_def OS_VALUES_def REQ_ARCH_VALUES_def ARCH_VALUES_def REQ_LIBC_VALUES_def LIBC_VALUES_def)

lemma sample_missing_env:
  assumes "mode \<in> set EXEC_VALUES"
  shows "missing_env sample_query (sample_worker wid mode tool) = Inr []"
proof -
  obtain want where want: "normalize_req_env (cq_req_env sample_query) = Inr want"
    and w: "dget want ''os'' = JStr ''linux''" "dget want ''arch'' = JStr ''any''" "dget want ''libc'' = JStr ''any''"
      "dget want ''require_cuda'' = JBool False" "dget want ''require_ebpf'' = JBool False"
      "dget want ''require_wasm'' = JBool False" "dget want ''require_ptx'' = JBool False"
      "dget want ''min_mem_mib'' = JInt 0" "dget want ''min_cpu_count'' = JInt 0"
    unfolding sample_want by (simp add: dget_as_default)
  let ?env = "normalize_env (Some (sample_facts mode))"
  have env: "dget_default ?env ''os'' d = JStr ''linux''" "dget_default ?env ''libc'' d = JStr ''unknown''"
    "dget_default ?env ''mem_mib'' d = JInt 0" "dget_default ?env ''cpu_count'' d = JInt 0" for d
    by (simp_all add: normalize_env_def dict_or_empty_def sample_facts_def default_env_def)
  have "missing_env_details want ?env = Inr []"
    by (simp add: missing_env_details_def missing_cuda_def missing_arch_def missing_os_def missing_libc_def
        missing_resources_def missing_flags_def w env env_text_def os_satisfies_def libc_satisfies_def
        env_resource_check_def resources_satisfy_def int_field_def shown_int_def missing_if_def
        REQ_OS_VALUES_def OS_VALUES_def REQ_LIBC_VALUES_def LIBC_VALUES_def)
  moreover have "ws_env (sample_worker wid mode tool) = Some (sample_facts mode)" by (simp add: sample_worker_def)
  moreover have "cq_req_env sample_query \<noteq> None" "cq_req_env sample_query \<noteq> Some fmempty"
    by (simp_all add: sample_query_def)
  ultimately show ?thesis
    using env_satisfies_normal [OF want, of "Some (sample_facts mode)"] sample_env_satisfies [OF assms]
    by (simp add: missing_env_def want)
qed

lemma sample_base:
  assumes "mode \<in> set EXEC_VALUES" and "tool \<in> {''tool:gcc'', ''tool:clang''}"
  shows "\<exists>base. compute_base_inputs sample_query (sample_worker wid mode tool) = Inr base
    \<and> wb_inputs base = \<lparr>ri_liveness = ''AVAILABLE'', ri_freshness = ''fresh'', ri_provenance_ok = True,
         ri_env_ok = True, ri_intent_ok = True\<rparr> \<and> wb_forbidden_hit base = None"
proof -
  let ?w = "sample_worker wid mode tool"
  let ?toks = "fset_of_list [tool, ''os:linux'', ''arch:unknown'', ''libc:unknown'', ''init:unknown'',
         ''accel:unknown'', ''exec:'' @ mode, ''policy:stable'']"
  have w: "effective_liveness ?w = ''AVAILABLE''" "freshness_of (ws_age ?w) = Inr ''fresh''"
    "effective_provenance ?w = Inr True"
    by (simp_all add: effective_liveness_available effective_provenance_eq freshness_of_def sample_worker_def)
  have "cq_require_any sample_query = [{|''tool:gcc'', ''tool:clang''|}]" "cq_require_all sample_query = {|''os:linux''|}"
    "cq_forbid sample_query = {|''policy:disposable''|}" by (simp_all add: sample_query_def)
  then have suffice: "tokens_suffice sample_query ?toks"
    using assms unfolding tokens_suffice_def by (auto simp: EXEC_VALUES_def)
  then have forb: "forbidden_hits sample_query ?toks = []" by (simp only: tokens_suffice_def forbidden_hits_def sorted_list_of_fset_empty)
  have "missing_required sample_query ?toks @ missing_groups sample_query ?toks
      @ map (\<lambda>t. ''forbidden '' @ t @ '' present'') (forbidden_hits sample_query ?toks) = []"
    unfolding missing_tokens_empty by (rule suffice)
  then have miss: "base_missing sample_query ?w ?toks = Inr []"
    unfolding base_missing_def sample_missing_env [OF assms(1)] tryE_Inr by simp
  have intent: "intent_allowed default_policy (cq_intent sample_query) = Inr True"
    by (simp add: intent_allowed_eq_Inr sample_query_def INTENT_VALUES_def intent_granted_def)
  show ?thesis
    unfolding compute_base_inputs_def Let_def w tryE_Inr sample_policy sample_tokens
    by (simp add: reachable_inputs_def miss [simplified] intent forb [simplified])
qed

lemma sample_resolution:
  assumes "mode \<in> set EXEC_VALUES" and "tool \<in> {''tool:gcc'', ''tool:clang''}"
  shows "\<exists>r. resolve_worker sample_query (sample_worker wid mode tool) = Inr r \<and> wr_eligible r"
proof -
  from sample_base [OF assms] obtain base where base: "compute_base_inputs sample_query (sample_worker wid mode tool) = Inr base"
    and b: "wb_inputs base = \<lparr>ri_liveness = ''AVAILABLE'', ri_freshness = ''fresh'', ri_provenance_ok = True,
         ri_env_ok = True, ri_intent_ok = True\<rparr>" "wb_forbidden_hit base = None" by blast
  have code: "resolve_code (wb_inputs base) = Inr ''ELIGIBLE''"
    by (simp add: b resolve_code_def LIVENESS_VALUES_def FRESHNESS_VALUES_def)
  moreover obtain r where "finish_worker_resolution sample_query (sample_worker wid mode tool) base ''ELIGIBLE'' = Inr r"
    using finish_total resolve_code_InrD(1) [OF code] by blast
  moreover from finish_eligible [OF this] b(2) have "wr_eligible r" by simp
  ultimately show ?thesis using base by (simp add: resolve_worker_def)
qed

lemma sample_no_gap: "\<not> emulation_gap sample_query (sample_worker wid ''native'' tool)"
  by (simp add: emulation_gap_def sample_worker_def sample_want normalize_env_def dict_or_empty_def sample_facts_def
      dget_as_default default_env_def)

lemma resolve_fleet_exists:
  assumes "\<And>w. w \<in> set ws \<Longrightarrow> \<exists>r. resolve_worker q w = Inr r" and "\<And>w. w \<in> set ws \<Longrightarrow> \<exists>p. snapshot_policy w = Inr p"
    and "1 \<le> n" and "n \<le> 64"
  shows "\<exists>f. resolve_fleet q ws n None = Inr f"
proof -
  obtain rs where "mapE (resolve_worker q) ws = Inr rs" using mapE_exists [of ws "resolve_worker q", OF assms(1)] by blast
  moreover have "\<exists>C. constrained_ids ws = Inr C"
    using assms(2) unfolding constrained_ids_def tryE_eq_Inr filterE_eq_Inr by (fastforce simp: tryE_eq_Inr)
  ultimately show ?thesis using assms(3,4) by (auto simp: resolve_fleet_def resolve_all_def)
qed

section \<open>Properties\<close>

text \<open>
  C28: A resolved worker is eligible exactly if it is reachable, freshly observed by a trusted party, holds
  every required token, one of every alternative and none that is forbidden, grants the intent, and has an
  environment that satisfies the requirement; left out are emulated environments under a requirement that
  names no architecture and does not allow emulation.
\<close>

theorem eligible_worker_meets_query:
  assumes "resolve_worker q w = Inr r" and "\<not> emulation_gap q w"
  shows "wr_eligible r \<longleftrightarrow>
     ws_available w \<and> ws_liveness w = ''AVAILABLE'' \<and> freshness_of (ws_age w) = Inr ''fresh''
     \<and> ws_provenance w \<in> {''worker-observed'', ''operator-asserted''}
     \<and> policy_and_tokens_meet q w \<and> env_meets q w"
  using eligible_iff [OF assms] by (simp add: meets_query_def trusted_and_reachable_def conj_assoc)

theorem eligible_worker_meets_query_witness:
  "\<exists>r. resolve_worker sample_query (sample_worker ''w1'' ''native'' ''tool:gcc'') = Inr r \<and> wr_eligible r
     \<and> policy_and_tokens_meet sample_query (sample_worker ''w1'' ''native'' ''tool:gcc'')
     \<and> env_meets sample_query (sample_worker ''w1'' ''native'' ''tool:gcc'')"
proof -
  obtain r where r: "resolve_worker sample_query (sample_worker ''w1'' ''native'' ''tool:gcc'') = Inr r" "wr_eligible r"
    using sample_resolution [of "''native''" "''tool:gcc''" "''w1''"] by (auto simp: EXEC_VALUES_def)
  from eligible_worker_meets_query [OF r(1) sample_no_gap] r show ?thesis by blast
qed

text \<open>
  The gap: a worker whose environment is emulated is eligible for a requirement that its environment does
  not satisfy, because the failed check leaves no text in the list the verdict is read from.
\<close>

theorem emulated_worker_is_eligible_unsatisfied:
  "\<exists>r. resolve_worker sample_query (sample_worker wid ''emulated'' ''tool:gcc'') = Inr r \<and> wr_eligible r
     \<and> env_satisfies (cq_req_env sample_query) (ws_env (sample_worker wid ''emulated'' ''tool:gcc'')) = Inr False"
proof -
  have "ws_env (sample_worker wid ''emulated'' ''tool:gcc'') = Some (sample_facts ''emulated'')"
    by (simp add: sample_worker_def)
  with sample_env_satisfies [of "''emulated''"] sample_resolution [of "''emulated''" "''tool:gcc''" wid]
  show ?thesis by (auto simp: EXEC_VALUES_def)
qed



text \<open>
  An authority that answers every batch as the ordered relation does changes nothing of a fleet
  resolution, errors included, but the evidence it attaches.
\<close>

theorem authority_answers_like_python:
  assumes "\<And>rows. au_resolve_codes a rows = mapE resolve_code rows"
  shows "resolve_fleet q ws n (Some a) =
    tryE (resolve_fleet q ws n None) (\<lambda>f. Inr (f\<lparr>fl_authority := Some (au_evidence a)\<rparr>))"
proof -
  have "fleet_verdict k rs C (Some e) = (fleet_verdict k rs C None)\<lparr>fl_authority := Some e\<rparr>" for k rs C e
    by (simp add: fleet_verdict_def)
  then show ?thesis
    unfolding resolve_fleet_def resolve_all_authority [OF assms]
    by (cases "resolve_all q ws None"; cases "constrained_ids ws") simp_all
qed

theorem authority_answers_like_python_witness:
  "resolve_fleet sample_query [] 1 (Some \<lparr>au_resolve_codes = mapE resolve_code, au_evidence = fmempty\<rparr>) =
    tryE (resolve_fleet sample_query [] 1 None) (\<lambda>f. Inr (f\<lparr>fl_authority := Some fmempty\<rparr>))"
  using authority_answers_like_python [of "\<lparr>au_resolve_codes = mapE resolve_code, au_evidence = fmempty\<rparr>" sample_query "[]" 1]
  by simp

text \<open>
  An environment of which nothing is known satisfies no concrete requirement: it satisfies only requirements
  without operating system, architecture, libc, accelerator, feature or positive resource floor.
\<close>

theorem unknown_environment_satisfies_nothing:
  assumes "env_satisfies (Some req) None = Inr True"
  shows "dget_default req ''os'' (JStr ''any'') = JStr ''any'' \<and> dget_default req ''arch'' (JStr ''any'') = JStr ''any''
    \<and> dget_default req ''libc'' (JStr ''any'') = JStr ''any''
    \<and> \<not> flag_field req ''require_cuda'' \<and> \<not> flag_field req ''require_ebpf'' \<and> \<not> flag_field req ''require_wasm''
    \<and> \<not> flag_field req ''require_ptx''
    \<and> (\<exists>m c. int_field req ''min_mem_mib'' = Inr m \<and> m \<le> 0 \<and> int_field req ''min_cpu_count'' = Inr c \<and> c \<le> 0)"
proof -
  from assms obtain want checks where want: "normalize_req_env (Some req) = Inr want"
    and checks: "env_checks want (normalize_env None) = Inr checks" "list_all id checks"
    by (auto simp: env_satisfies_def tryE_eq_Inr)
  from want obtain m c where w: "dget want ''os'' = dget_default req ''os'' (JStr ''any'')"
    "dget want ''arch'' = dget_default req ''arch'' (JStr ''any'')" "dget want ''libc'' = dget_default req ''libc'' (JStr ''any'')"
    "dget want ''require_cuda'' = JBool (flag_field req ''require_cuda'')"
    "dget want ''require_ebpf'' = JBool (flag_field req ''require_ebpf'')"
    "dget want ''require_wasm'' = JBool (flag_field req ''require_wasm'')"
    "dget want ''require_ptx'' = JBool (flag_field req ''require_ptx'')"
    and mc: "int_field req ''min_mem_mib'' = Inr m" "int_field req ''min_cpu_count'' = Inr c"
      "dget want ''min_mem_mib'' = JInt m" "dget want ''min_cpu_count'' = JInt c"
    by (auto simp: normalize_req_env_def dict_or_empty_def tryE_eq_Inr)
  let ?env = "normalize_env None"
  have get: "dget ?env k = dget default_env k" "dget_default ?env k d = dget_default default_env k d" for k d
    by (simp_all add: normalize_env_def dict_or_empty_def)
  have d: "dget default_env ''os'' = JStr ''unknown''" "dget default_env ''arch'' = JStr ''unknown''"
    "dget default_env ''libc'' = JStr ''unknown''" "dget default_env ''accel'' = JStr ''unknown''"
    "flag_field ?env ''has_ebpf'' = False" "flag_field ?env ''has_wasm'' = False" "flag_field ?env ''has_ptx'' = False"
    "flag_field ?env ''emulates_req_arch'' = False" "int_field ?env ''mem_mib'' = Inr 0" "int_field ?env ''cpu_count'' = Inr 0"
    by (simp_all add: flag_field_def int_field_def get default_env_def)
  from checks have ok: "os_satisfies (dget want ''os'') (JStr ''unknown'') = Inr True" "env_arch_check want ?env = Inr True"
    "libc_satisfies (dget want ''libc'') (JStr ''unknown'') = Inr True" "env_cuda_check want ?env = Inr True"
    "env_resource_check want ?env = Inr True" "\<not> flag_field req ''require_ebpf''" "\<not> flag_field req ''require_wasm''"
    "\<not> flag_field req ''require_ptx''"
    by (auto simp: env_checks_def tryE_eq_Inr get d w flag_satisfies_def split: if_splits)
  have "dget want ''os'' = JStr ''any''" "dget want ''libc'' = JStr ''any''"
    using ok(1,3) by (auto simp: os_satisfies_def libc_satisfies_def tryE_eq_Inr enum_value_eq_Inr split: if_splits)
  moreover have "dget want ''arch'' = JStr ''any''"
    using ok(2) by (auto simp: env_arch_check_def arch_satisfies_def arch_matches_def tryE_eq_Inr enum_value_eq_Inr get d
        split: if_splits)
  moreover have "\<not> flag_field req ''require_cuda''"
    using ok(4) by (auto simp: env_cuda_check_def cuda_satisfies_def tryE_eq_Inr enum_value_eq_Inr get d w split: if_splits)
  moreover have "m \<le> 0 \<and> c \<le> 0"
    using ok(5) by (auto simp: env_resource_check_def resources_satisfy_def d mc split: if_splits)
  ultimately show ?thesis using ok(6-) w mc by auto
qed

theorem unknown_environment_satisfies_nothing_witness:
  "env_satisfies (Some (dict_of [(''cuda_major'', JInt 8)])) None = Inr True
    \<and> \<not> flag_field (dict_of [(''cuda_major'', JInt 8)]) ''require_cuda''"
proof -
  have "env_satisfies (Some (dict_of [(''cuda_major'', JInt 8)])) None = Inr True"
    by (simp add: env_satisfies_def normalize_req_env_def env_checks_def normalize_env_def dict_or_empty_def default_env_def os_satisfies_def
      dget_as_default env_arch_check_def arch_satisfies_def arch_matches_def libc_satisfies_def env_cuda_check_def
      cuda_satisfies_def int_field_def flag_field_def env_resource_check_def resources_satisfy_def flag_satisfies_def EXEC_VALUES_def
      REQ_OS_VALUES_def OS_VALUES_def REQ_ARCH_VALUES_def ARCH_VALUES_def REQ_LIBC_VALUES_def LIBC_VALUES_def)
  with unknown_environment_satisfies_nothing [OF this] show ?thesis by blast
qed

text \<open>An integral age is fresh exactly from zero to three hundred seconds; a NaN age is always fresh.\<close>

theorem freshness_bounds:
  "(freshness_of (AgeInt n) = Inr ''fresh'' \<longleftrightarrow> 0 \<le> n \<and> n \<le> 300) \<and> freshness_of AgeNan = Inr ''fresh''"
  by (auto simp: freshness_of_def number_freshness_def MAX_CAPABILITY_AGE_def FLOAT_INT_LIMIT_def)

end
