(* ===== verification/Job_Plan.thy ===== *)
theory Job_Plan
  imports Record_Fields
begin

text \<open>
  \<^verbatim>\<open>src/src/mncs_fabric/models.py\<close>: job plans and the relative paths they name. The environment of a plan
  is visited in the order of its keys, so where several entries are invalid the error is that of the first
  key. A \<^verbatim>\<open>PurePosixPath\<close> is the list of its components: the text split at the slashes without the empty and
  the dot components, under a root if the text starts with a slash.
\<close>

section \<open>Names\<close>

definition JOB_SCHEMA :: string where "JOB_SCHEMA = ''mncs-fabric.job-plan.v0.1''"

definition EXECUTION_SCHEMA :: string where "EXECUTION_SCHEMA = ''mncs-fabric.execution-record.v0.1''"

definition COHORT_SCHEMA :: string where "COHORT_SCHEMA = ''mncs-fabric.cohort-result.v0.1''"

definition is_ascii_letter :: "char \<Rightarrow> bool" where
  "is_ascii_letter c = (let n = (of_char c :: nat) in 65 \<le> n \<and> n \<le> 90 \<or> 97 \<le> n \<and> n \<le> 122)"

definition matches_id :: "string \<Rightarrow> bool" where
  "matches_id s =
     (case s of
        [] \<Rightarrow> False
      | c # r \<Rightarrow> (is_ascii_letter c \<or> is_ascii_digit c) \<and> length r \<le> 199
          \<and> list_all (\<lambda>x. is_ascii_letter x \<or> is_ascii_digit x \<or> x \<in> set ''._:/-'') r)"

definition matches_env :: "string \<Rightarrow> bool" where
  "matches_env s =
     (case s of
        [] \<Rightarrow> False
      | c # r \<Rightarrow> (is_ascii_letter c \<or> c = CHR ''_'') \<and> length r \<le> 127
          \<and> list_all (\<lambda>x. is_ascii_letter x \<or> is_ascii_digit x \<or> x = CHR ''_'') r)"

definition matches_windows_abs :: "string \<Rightarrow> bool" where
  "matches_windows_abs s =
     (case s of
        a # b # c # _ \<Rightarrow> is_ascii_letter a \<and> b = CHR '':'' \<and> (c = CHR 0x5C \<or> c = CHR ''/'')
      | _ \<Rightarrow> False)"

section \<open>Relative paths\<close>

definition posix_parts :: "string \<Rightarrow> string list" where
  "posix_parts s = filter (\<lambda>p. p \<noteq> [] \<and> p \<noteq> ''.'') (split_on (CHR ''/'') s)"

text \<open>\<^verbatim>\<open>as_posix\<close> of a path without root: the empty path is the dot.\<close>

definition as_posix :: "string list \<Rightarrow> string" where
  "as_posix parts = (if parts = [] then ''.'' else join_with (CHR ''/'') parts)"

definition forward_slashes :: "string \<Rightarrow> string" where
  "forward_slashes s = map (\<lambda>c. if c = CHR 0x5C then CHR ''/'' else c) s"

definition safe_path :: "json \<Rightarrow> string \<Rightarrow> bool \<Rightarrow> string result" where
  "safe_path value field allow_dot =
     (case value of
        JStr s \<Rightarrow>
          if s = [] then Inl (ValidationError (field @ '' must be a non-empty string''))
          else
            let normalized = forward_slashes s; parts = posix_parts normalized in
            if normalized = ''.'' \<and> allow_dot then Inr normalized
            else if startswith normalized ''/'' \<or> ''..'' \<in> set parts
              then Inl (ValidationError (field @ '' must stay within the declared bundle root''))
            else if list_ex (\<lambda>part. part = [] \<or> part = ''.'') parts
              then Inl (ValidationError (field @ '' must be normalized''))
            else Inr (as_posix parts)
      | _ \<Rightarrow> Inl (ValidationError (field @ '' must be a non-empty string'')))"

definition safe_relative_path :: "json \<Rightarrow> string \<Rightarrow> string result" where
  "safe_relative_path value field = safe_path value field False"

section \<open>Job plans\<close>

definition JOB_FIELDS :: "string list" where
  "JOB_FIELDS =
     [''schema_version'', ''job_id'', ''candidate_identity'', ''artifact_manifest_identity'', ''argv'',
      ''working_directory'', ''timeout_seconds'', ''output_limit_bytes'', ''environment'',
      ''required_capabilities'', ''result_paths'', ''network_policy'']"

definition is_text :: "json \<Rightarrow> bool" where
  "is_text v = (case v of JStr s \<Rightarrow> s \<noteq> [] | _ \<Rightarrow> False)"

definition check_identities :: "dict \<Rightarrow> unit result" where
  "check_identities plan =
     (if dget plan ''schema_version'' \<noteq> JStr JOB_SCHEMA then Inl (ValidationError ''schema_version must be'')
      else if \<not> (case dget plan ''job_id'' of JStr s \<Rightarrow> matches_id s | _ \<Rightarrow> False)
        then Inl (ValidationError ''job_id contains unsupported characters or is too long'')
      else if \<not> is_sha256_identity (dget plan ''candidate_identity'')
        then Inl (ValidationError ''candidate_identity must be a lowercase sha256 identity'')
      else if \<not> is_sha256_identity (dget plan ''artifact_manifest_identity'')
        then Inl (ValidationError ''artifact_manifest_identity must be a lowercase sha256 identity'')
      else if dget plan ''evaluator_identity'' \<noteq> JNull \<and> \<not> is_sha256_identity (dget plan ''evaluator_identity'')
        then Inl (ValidationError ''evaluator_identity must be null or a lowercase sha256 identity'')
      else Inr ())"

definition check_argv :: "json \<Rightarrow> unit result" where
  "check_argv argv =
     (case argv of
        JList (JStr executable # rest) \<Rightarrow>
          if \<not> list_all is_text (JStr executable # rest)
            then Inl (ValidationError ''argv must be a non-empty array of non-empty strings'')
          else if executable \<noteq> ''@python'' \<and> \<not> startswith executable ''/'' \<and> \<not> matches_windows_abs executable
            then Inl (ValidationError ''argv[0] must be @python or an absolute executable path'')
          else Inr ()
      | _ \<Rightarrow> Inl (ValidationError ''argv must be a non-empty array of non-empty strings''))"

definition check_limits :: "dict \<Rightarrow> unit result" where
  "check_limits plan =
     (let timeout = dget plan ''timeout_seconds''; limit = dget plan ''output_limit_bytes'' in
      if \<not> (is_number timeout \<and> \<not> is_bool timeout \<and> num_le (JFloat False 5 (-2)) timeout \<and> num_le timeout (JInt 86400))
        then Inl (ValidationError ''timeout_seconds must be between 0.05 and 86400'')
      else if \<not> (case limit of JInt n \<Rightarrow> 1 \<le> n \<and> n \<le> 64 * 1024 * 1024 | _ \<Rightarrow> False)
        then Inl (ValidationError ''output_limit_bytes must be an integer between 1 and 67108864'')
      else Inr ())"

definition check_env_entry :: "dict \<Rightarrow> string \<Rightarrow> unit \<Rightarrow> unit result" where
  "check_env_entry env key u =
     (if \<not> matches_env key then Inl (ValidationError ''invalid environment key'')
      else case dget env key of
        JStr s \<Rightarrow> if 8192 < length s then Inl (ValidationError ''environment value must be a bounded string'') else Inr ()
      | _ \<Rightarrow> Inl (ValidationError ''environment value must be a bounded string''))"

definition check_environment :: "json \<Rightarrow> unit result" where
  "check_environment v =
     (case v of
        JObj env \<Rightarrow>
          if 64 < fcard (fmdom env)
            then Inl (ValidationError ''environment must be an object with at most 64 entries'')
          else foldE (check_env_entry env) (dict_keys env) ()
      | _ \<Rightarrow> Inl (ValidationError ''environment must be an object with at most 64 entries''))"

definition check_capabilities :: "json \<Rightarrow> unit result" where
  "check_capabilities v =
     (case v of
        JList xs \<Rightarrow>
          if \<not> list_all is_text xs then Inl (ValidationError ''required_capabilities must be an array of strings'')
          else if \<not> distinct xs then Inl (ValidationError ''required_capabilities must not contain duplicates'')
          else Inr ()
      | _ \<Rightarrow> Inl (ValidationError ''required_capabilities must be an array of strings''))"

definition check_results :: "json \<Rightarrow> string list result" where
  "check_results v =
     (case v of
        JList xs \<Rightarrow>
          tryE (mapE (\<lambda>x. safe_path x ''result_paths[]'' False) xs) (\<lambda>paths.
            if \<not> distinct paths then Inl (ValidationError ''result_paths must not contain duplicates'')
            else Inr paths)
      | _ \<Rightarrow> Inl (ValidationError ''result_paths must be an array''))"

definition check_network :: "json \<Rightarrow> unit result" where
  "check_network v =
     tryE (in_strset v [''UNSPECIFIED'', ''DECLARED_OFFLINE'', ''UNRESTRICTED'']) (\<lambda>known.
       if \<not> known then Inl (ValidationError ''network_policy has an unsupported value'') else Inr ())"

definition normalized_plan :: "dict \<Rightarrow> string \<Rightarrow> string list \<Rightarrow> dict" where
  "normalized_plan plan directory results =
     (let n = fmupd ''result_paths'' (JList (map JStr results)) (fmupd ''working_directory'' (JStr directory) plan) in
      fmupd ''job_identity'' (JStr (sha256_identity (JObj (fmdrop ''job_identity'' n)))) n)"

definition validate_job_plan :: "json \<Rightarrow> dict result" where
  "validate_job_plan v =
     (case v of
        JObj plan \<Rightarrow>
          if \<not> fset_of_list JOB_FIELDS |\<subseteq>| fmdom plan then Inl (ValidationError ''job plan missing required fields'')
          else
            tryE (check_identities plan) (\<lambda>_.
            tryE (check_argv (dget plan ''argv'')) (\<lambda>_.
            tryE (safe_path (dget plan ''working_directory'') ''working_directory'' True) (\<lambda>_.
            tryE (check_limits plan) (\<lambda>_.
            tryE (check_environment (dget plan ''environment'')) (\<lambda>_.
            tryE (check_capabilities (dget plan ''required_capabilities'')) (\<lambda>_.
            tryE (check_results (dget plan ''result_paths'')) (\<lambda>results.
            tryE (check_network (dget plan ''network_policy'')) (\<lambda>_.
            tryE (safe_path (dget plan ''working_directory'') ''working_directory'' True) (\<lambda>directory.
              Inr (normalized_plan plan directory results))))))))))
      | _ \<Rightarrow> Inl (ValidationError ''job plan must be a JSON object''))"

section \<open>Paths stay inside the root\<close>

lemma split_on_sep: "c \<notin> set p \<Longrightarrow> split_on c (p @ c # s) = p # split_on c s"
  by (induction p) auto

lemma split_on_plain: "c \<notin> set p \<Longrightarrow> split_on c p = [p]"
  by (induction p) auto

lemma join_with_split:
  "list_all (\<lambda>p. c \<notin> set p) ps \<Longrightarrow> ps \<noteq> [] \<Longrightarrow> split_on c (join_with c ps) = ps"
  by (induction c ps rule: join_with.induct) (simp_all add: split_on_sep split_on_plain)

lemma posix_parts_plain: "p \<in> set (posix_parts s) \<Longrightarrow> p \<noteq> [] \<and> p \<noteq> ''.'' \<and> CHR ''/'' \<notin> set p"
  by (auto simp: posix_parts_def dest: split_on_no_sep)

lemma posix_parts_of_posix:
  assumes "\<And>p. p \<in> set ps \<Longrightarrow> p \<noteq> [] \<and> p \<noteq> ''.'' \<and> CHR ''/'' \<notin> set p"
  shows "posix_parts (as_posix ps) = ps"
proof (cases "ps = []")
  case True
  then show ?thesis by (simp add: posix_parts_def as_posix_def)
next
  case False
  have "list_all (\<lambda>p. CHR ''/'' \<notin> set p) ps" using assms by (simp add: list_all_iff)
  from join_with_split [OF this False] False assms show ?thesis
    by (simp add: posix_parts_def as_posix_def)
qed

lemma set_join_with: "set (join_with c ps) \<subseteq> insert c (\<Union> (set ` set ps))"
  by (induction c ps rule: join_with.induct) auto

lemma split_on_chars: "p \<in> set (split_on c s) \<Longrightarrow> set p \<subseteq> set s"
proof (induction s arbitrary: p)
  case (Cons x xs)
  then show ?case by (cases "split_on c xs") (fastforce split: if_splits)+
qed simp

lemma forward_slashes_plain [simp]: "CHR 0x5C \<notin> set (forward_slashes s)"
  by (auto simp: forward_slashes_def)

lemma forward_slashes_id: "CHR 0x5C \<notin> set s \<Longrightarrow> forward_slashes s = s"
  unfolding forward_slashes_def by (rule map_idI) auto

lemma safe_path_cases:
  assumes "safe_path v f d = Inr p"
  obtains s where "v = JStr s" "s \<noteq> []" "p = as_posix (posix_parts (forward_slashes s))"
    "''..'' \<notin> set (posix_parts (forward_slashes s))"
proof (cases v)
  case (JStr s)
  have "posix_parts ''.'' = []" by (simp add: posix_parts_def)
  then have "p = as_posix (posix_parts (forward_slashes s)) \<and> ''..'' \<notin> set (posix_parts (forward_slashes s))"
    using assms JStr by (auto simp: safe_path_def as_posix_def split: if_splits)
  with assms JStr that show ?thesis by (auto simp: safe_path_def split: if_splits)
qed (use assms in \<open>simp_all add: safe_path_def\<close>)

lemma safe_path_shape:
  assumes "safe_path v f d = Inr p"
  shows "p \<noteq> []" "CHR 0x5C \<notin> set p" "\<not> startswith p ''/''" "''..'' \<notin> set (posix_parts p)"
    "as_posix (posix_parts p) = p"
proof -
  from assms obtain s where p: "p = as_posix (posix_parts (forward_slashes s))"
    and dots: "''..'' \<notin> set (posix_parts (forward_slashes s))" by (rule safe_path_cases)
  let ?ps = "posix_parts (forward_slashes s)"
  have plain: "q \<noteq> [] \<and> q \<noteq> ''.'' \<and> CHR ''/'' \<notin> set q" if "q \<in> set ?ps" for q
    using that by (rule posix_parts_plain)
  have parts: "posix_parts p = ?ps" unfolding p by (rule posix_parts_of_posix) (rule plain)
  then show "as_posix (posix_parts p) = p" "''..'' \<notin> set (posix_parts p)" using p dots by simp_all
  have head: "\<exists>x r. join_with (CHR ''/'') ?ps = x # r \<and> x \<noteq> CHR ''/''" if "?ps \<noteq> []"
  proof -
    from that obtain q qs where q: "?ps = q # qs" by (cases ?ps) auto
    with plain [of q] obtain x r where "q = x # r" "x \<noteq> CHR ''/''" by (cases q) auto
    with q show ?thesis by (cases qs) auto
  qed
  then show "p \<noteq> []" "\<not> startswith p ''/''" unfolding p as_posix_def startswith_def by (force split: if_splits)+
  have "set q \<subseteq> set (forward_slashes s)" if "q \<in> set ?ps" for q
    using that split_on_chars by (force simp: posix_parts_def)
  then have "CHR 0x5C \<notin> set (join_with (CHR ''/'') ?ps)"
    using subsetD [OF set_join_with] forward_slashes_plain [of s] by fastforce
  then show "CHR 0x5C \<notin> set p" unfolding p as_posix_def by (simp split: if_splits)
qed

lemma safe_path_again:
  assumes "safe_path v f d = Inr p"
  shows "safe_path (JStr p) g e = Inr p"
proof -
  note sh = safe_path_shape [OF assms]
  have "\<not> list_ex (\<lambda>part. part = [] \<or> part = ''.'') (posix_parts p)"
    using posix_parts_plain [of _ p] by (auto simp: list_ex_iff)
  then show ?thesis
    using sh by (simp add: safe_path_def forward_slashes_id)
qed



text \<open>
  The option that allows the dot has no effect: the dot is accepted with and without it, since the empty
  path prints as the dot.
\<close>

theorem allow_dot_has_no_effect: "safe_path v f True = safe_path v f False"
proof (cases v)
  case (JStr s)
  have "posix_parts ''.'' = []" by (simp add: posix_parts_def)
  then show ?thesis using JStr by (simp add: safe_path_def as_posix_def startswith_def)
qed (simp_all add: safe_path_def)

section \<open>Validated plans\<close>

lemma dget_normalized_plan:
  "k \<notin> {''result_paths'', ''working_directory'', ''job_identity''} \<Longrightarrow> dget (normalized_plan plan d rs) k = dget plan k"
  "dget (normalized_plan plan d rs) ''result_paths'' = JList (map JStr rs)"
  "dget (normalized_plan plan d rs) ''working_directory'' = JStr d"
  by (auto simp: normalized_plan_def)

lemma normalized_plan_again: "normalized_plan (normalized_plan plan d rs) d rs = normalized_plan plan d rs"
proof -
  let ?n = "fmupd ''result_paths'' (JList (map JStr rs)) (fmupd ''working_directory'' (JStr d) plan)"
  have "fmdrop ''job_identity'' (fmupd ''result_paths'' (JList (map JStr rs))
      (fmupd ''working_directory'' (JStr d) (fmupd ''job_identity'' v ?n))) = fmdrop ''job_identity'' ?n" for v
    by (rule fmap_ext) simp
  then show ?thesis unfolding normalized_plan_def Let_def by (intro fmap_ext) simp
qed

lemma check_results_again:
  assumes "check_results v = Inr rs"
  shows "check_results (JList (map JStr rs)) = Inr rs"
proof -
  from assms obtain xs where xs: "mapE (\<lambda>x. safe_path x ''result_paths[]'' False) xs = Inr rs" and d: "distinct rs"
    by (cases v) (auto simp: check_results_def tryE_eq_Inr split: if_splits)
  have "safe_path (JStr r) ''result_paths[]'' False = Inr r" if "r \<in> set rs" for r
    using mapE_set [OF xs that] safe_path_again by blast
  then have "mapE (\<lambda>x. safe_path x ''result_paths[]'' False) (map JStr rs) = Inr rs"
    by (simp add: mapE_eq_Inr list_all2_conv_all_nth)
  with d show ?thesis by (simp add: check_results_def)
qed

lemma validate_job_planE:
  assumes "validate_job_plan v = Inr n"
  obtains plan d rs where "v = JObj plan" "fset_of_list JOB_FIELDS |\<subseteq>| fmdom plan"
    "check_identities plan = Inr ()" "check_argv (dget plan ''argv'') = Inr ()"
    "safe_path (dget plan ''working_directory'') ''working_directory'' True = Inr d" "check_limits plan = Inr ()"
    "check_environment (dget plan ''environment'') = Inr ()"
    "check_capabilities (dget plan ''required_capabilities'') = Inr ()"
    "check_results (dget plan ''result_paths'') = Inr rs" "check_network (dget plan ''network_policy'') = Inr ()"
    "n = normalized_plan plan d rs"
proof (cases v)
  case (JObj plan)
  from assms that [OF JObj] show ?thesis
    unfolding validate_job_plan_def JObj json.case if_Inl_eq_Inr tryE_eq_Inr by auto
qed (use assms in \<open>simp_all add: validate_job_plan_def\<close>)

lemma job_plan_again:
  assumes "validate_job_plan v = Inr n"
  shows "validate_job_plan (JObj n) = Inr n"
proof -
  from assms obtain plan d rs where p: "fset_of_list JOB_FIELDS |\<subseteq>| fmdom plan"
    "check_identities plan = Inr ()" "check_argv (dget plan ''argv'') = Inr ()"
    "safe_path (dget plan ''working_directory'') ''working_directory'' True = Inr d" "check_limits plan = Inr ()"
    "check_environment (dget plan ''environment'') = Inr ()"
    "check_capabilities (dget plan ''required_capabilities'') = Inr ()"
    "check_results (dget plan ''result_paths'') = Inr rs" "check_network (dget plan ''network_policy'') = Inr ()"
    and n: "n = normalized_plan plan d rs"
    by (rule validate_job_planE)
  have dom: "fset_of_list JOB_FIELDS |\<subseteq>| fmdom n"
    using p(1) by (auto simp: n normalized_plan_def)
  have same: "dget n k = dget plan k" if "k \<notin> {''result_paths'', ''working_directory'', ''job_identity''}" for k
    using that by (simp add: n dget_normalized_plan(1))
  have keys: "dget n ''schema_version'' = dget plan ''schema_version''" "dget n ''job_id'' = dget plan ''job_id''"
    "dget n ''candidate_identity'' = dget plan ''candidate_identity''"
    "dget n ''artifact_manifest_identity'' = dget plan ''artifact_manifest_identity''"
    "dget n ''evaluator_identity'' = dget plan ''evaluator_identity''"
    "dget n ''timeout_seconds'' = dget plan ''timeout_seconds''" "dget n ''output_limit_bytes'' = dget plan ''output_limit_bytes''"
    by (simp_all add: same)
  have ids: "check_identities n = Inr ()" "check_limits n = Inr ()"
    using p(2,5) unfolding check_identities_def check_limits_def by (simp_all only: keys)
  show ?thesis
    unfolding validate_job_plan_def json.case
    using p safe_path_again [OF p(4), of "''working_directory''" True] check_results_again [OF p(8)]
    by (simp add: dom ids same) (simp add: n dget_normalized_plan normalized_plan_again)
qed

definition sample_plan :: dict where
  "sample_plan = dict_of
     [(''schema_version'', JStr JOB_SCHEMA), (''job_id'', JStr ''job-1''),
      (''candidate_identity'', JStr (IDENTITY_PREFIX @ replicate 64 (CHR ''0''))),
      (''artifact_manifest_identity'', JStr (IDENTITY_PREFIX @ replicate 64 (CHR ''1''))),
      (''argv'', JList [JStr ''@python'', JStr ''run.py'']), (''working_directory'', JStr ''./work''),
      (''timeout_seconds'', JInt 60), (''output_limit_bytes'', JInt 1024), (''environment'', JObj fmempty),
      (''required_capabilities'', JList [JStr ''os:linux'']), (''result_paths'', JList [JStr ''out.json'']),
      (''network_policy'', JStr ''UNSPECIFIED'')]"

lemma sample_plan_valid: "validate_job_plan (JObj sample_plan) = Inr (normalized_plan sample_plan ''work'' [''out.json''])"
proof -
  have keys: "fset_of_list JOB_FIELDS |\<subseteq>| fmdom sample_plan"
    by (simp add: sample_plan_def JOB_FIELDS_def)
  have "check_identities sample_plan = Inr ()"
    by (simp add: check_identities_def sample_plan_def matches_id_def is_ascii_letter_def is_ascii_digit_def is_sha256_identity_def
        startswith_def IDENTITY_PREFIX_def list_all_iff)
  moreover have "check_argv (dget sample_plan ''argv'') = Inr ()"
    by (simp add: sample_plan_def check_argv_def is_text_def)
  moreover have "safe_path (dget sample_plan ''working_directory'') ''working_directory'' True = Inr ''work''"
    by (simp add: sample_plan_def safe_path_def forward_slashes_def posix_parts_def as_posix_def startswith_def)
  moreover have "check_limits sample_plan = Inr ()"
    by (simp add: sample_plan_def check_limits_def num_le_def)
  moreover have "check_environment (dget sample_plan ''environment'') = Inr ()"
    by (simp add: sample_plan_def check_environment_def dict_keys_def fcard.rep_eq sorted_list_of_fset.rep_eq)
  moreover have "check_capabilities (dget sample_plan ''required_capabilities'') = Inr ()"
    by (simp add: sample_plan_def check_capabilities_def is_text_def)
  moreover have "check_results (dget sample_plan ''result_paths'') = Inr [''out.json'']"
    by (simp add: sample_plan_def check_results_def safe_path_def forward_slashes_def posix_parts_def as_posix_def startswith_def)
  moreover have "check_network (dget sample_plan ''network_policy'') = Inr ()"
    by (simp add: sample_plan_def check_network_def)
  ultimately show ?thesis unfolding validate_job_plan_def json.case using keys by simp
qed

text \<open>
  C36: A validated plan is a normal form: it validates to itself, carries the identity of its own content, and
  keeps every field of the plan but the working directory, the result paths and the identity.
\<close>

theorem job_plan_normal_form:
  assumes "validate_job_plan (JObj plan) = Inr n"
  shows "validate_job_plan (JObj n) = Inr n \<and> verify_identity n ''job_identity''
    \<and> (\<forall>k. k \<notin> {''result_paths'', ''working_directory'', ''job_identity''} \<longrightarrow> fmlookup n k = fmlookup plan k)"
proof -
  from assms obtain d rs where n: "n = normalized_plan plan d rs" by (rule validate_job_planE) simp
  let ?m = "fmupd ''result_paths'' (JList (map JStr rs)) (fmupd ''working_directory'' (JStr d) plan)"
  have "fmdrop ''job_identity'' (fmupd ''job_identity'' v ?m) = fmdrop ''job_identity'' ?m" for v
    by (rule fmap_ext) simp
  then have "verify_identity n ''job_identity''"
    by (simp add: n normalized_plan_def verify_identity_def identity_payload_def)
  moreover have "fmlookup n k = fmlookup plan k" if "k \<notin> {''result_paths'', ''working_directory'', ''job_identity''}" for k
    using that by (auto simp: n normalized_plan_def)
  ultimately show ?thesis using job_plan_again [OF assms] by blast
qed

theorem job_plan_normal_form_witness:
  "\<exists>n. validate_job_plan (JObj sample_plan) = Inr n \<and> validate_job_plan (JObj n) = Inr n
     \<and> verify_identity n ''job_identity'' \<and> dget n ''working_directory'' = JStr ''work''"
proof -
  from job_plan_normal_form [OF sample_plan_valid] sample_plan_valid show ?thesis
    by (auto simp: dget_normalized_plan(3))
qed

end
