(* ===== verification/Scheduler.thy ===== *)
theory Scheduler
  imports Fleet_Selection Job_Plan Management
begin

text \<open>
  \<^verbatim>\<open>src/src/mncs_fabric/scheduler.py\<close>: the admission decision for one job plan. It validates the plan,
  resolves the fleet against the plan's capabilities, keeps the eligible workers with a free slot in a
  schedulable state, and takes as many as there are replicas. \<^verbatim>\<open>evaluate_placement\<close> of \<^verbatim>\<open>resources.py\<close> is an
  argument: it gets the placement request, the resource snapshot, the capabilities and the two runtime
  observations of a slot.
\<close>

section \<open>Slots and decisions\<close>

record worker_slot =
  sl_worker_id :: string
  sl_capabilities :: tokens
  sl_active :: int
  sl_concurrency_limit :: int
  sl_available :: bool
  sl_resource_snapshot :: "dict option"
  sl_runtime_observation :: "dict option"
  sl_runtime_capability_observation :: "dict option"
  sl_management_state :: "string option"
  sl_liveness :: string
  sl_age :: observation_age
  sl_provenance :: string
  sl_worker_env :: "dict option"
  sl_worker_policy :: "dict option"

record schedule_decision =
  sd_disposition :: string
  sd_worker_ids :: "string list"
  sd_reason :: string
  sd_admissions :: "dict list"
  sd_resolution :: "dict option"

definition schedule_decision_dict :: "schedule_decision \<Rightarrow> dict" where
  "schedule_decision_dict d =
     (let value = dict_of
        [(''disposition'', JStr (sd_disposition d)), (''worker_ids'', strs (sd_worker_ids d)),
         (''reason'', JStr (sd_reason d)), (''admissions'', JList (map JObj (sd_admissions d)))] in
      case sd_resolution d of None \<Rightarrow> value | Some r \<Rightarrow> fmupd ''resolution'' (JObj r) value)"

definition snapshot_for_slot :: "worker_slot \<Rightarrow> worker_snapshot" where
  "snapshot_for_slot s =
     \<lparr>ws_worker_id = sl_worker_id s, ws_capabilities = sl_capabilities s, ws_env = sl_worker_env s,
      ws_policy = sl_worker_policy s, ws_liveness = sl_liveness s, ws_age = sl_age s,
      ws_provenance = sl_provenance s, ws_available = sl_available s, ws_active = sl_active s,
      ws_concurrency_limit = sl_concurrency_limit s, ws_management_state = sl_management_state s\<rparr>"

definition token_query :: "tokens \<Rightarrow> tokens \<Rightarrow> string \<Rightarrow> capability_query" where
  "token_query required preferred intent =
     \<lparr>cq_require_all = required, cq_require_any = [], cq_forbid = {||}, cq_prefer = preferred,
      cq_req_env = None, cq_intent = intent\<rparr>"

definition explain_eligibility ::
    "tokens \<Rightarrow> worker_slot list \<Rightarrow> string \<Rightarrow> tokens \<Rightarrow> authority option \<Rightarrow> fleet_resolution result" where
  "explain_eligibility required slots intent preferred auth =
     tryE (init_query (token_query required preferred intent)) (\<lambda>q.
       resolve_fleet q (map snapshot_for_slot slots) 1 auth)"

section \<open>Texts\<close>

definition eligibility_line :: "worker_resolution \<Rightarrow> string" where
  "eligibility_line r = wr_worker_id r @ ''='' @ wr_code r @ (if wr_detail r \<noteq> [] then ''('' @ wr_detail r @ '')'' else [])"

definition admission_line :: "dict \<Rightarrow> string result" where
  "admission_line item =
     tryE (dsub item ''worker_id'') (\<lambda>w. tryE (py_str w) (\<lambda>wid.
     tryE (py_str (dget_default item ''reason_code'' (JStr ''UNKNOWN''))) (\<lambda>code. Inr (wid @ ''='' @ code))))"

section \<open>Scheduling\<close>

definition schedule_query ::
    "tokens \<Rightarrow> tokens \<Rightarrow> string \<Rightarrow> capability_query option \<Rightarrow> capability_query result" where
  "schedule_query required preferred intent query =
     init_query
       (case query of
          None \<Rightarrow> token_query required preferred intent
        | Some q \<Rightarrow> q\<lparr>cq_require_all := cq_require_all q |\<union>| required, cq_prefer := cq_prefer q |\<union>| preferred\<rparr>)"

text \<open>\<^verbatim>\<open>frozenset(checked["required_capabilities"])\<close>, whose elements are texts in a validated plan.\<close>

definition plan_capabilities :: "dict \<Rightarrow> tokens" where
  "plan_capabilities plan =
     (case dget plan ''required_capabilities'' of
        JList xs \<Rightarrow> fset_of_list (concat (map (\<lambda>x. case x of JStr s \<Rightarrow> [s] | _ \<Rightarrow> []) xs))
      | _ \<Rightarrow> {||})"

definition resolution_by_id :: "worker_resolution list \<Rightarrow> string \<Rightarrow> worker_resolution option" where
  "resolution_by_id per_worker = map_of (rev (map (\<lambda>r. (wr_worker_id r, r)) per_worker))"

definition slot_admissible :: "worker_resolution list \<Rightarrow> worker_slot \<Rightarrow> bool" where
  "slot_admissible per_worker s =
     ((case resolution_by_id per_worker (sl_worker_id s) of None \<Rightarrow> False | Some r \<Rightarrow> wr_eligible r)
      \<and> sl_active s < sl_concurrency_limit s \<and> management_allows_work (sl_management_state s))"

definition slot_rank :: "worker_resolution list \<Rightarrow> worker_slot \<Rightarrow> int \<times> string" where
  "slot_rank per_worker s =
     (case resolution_by_id per_worker (sl_worker_id s) of
        None \<Rightarrow> (0, sl_worker_id s)
      | Some r \<Rightarrow> (- int (length (wr_preferred_hits r)), sl_worker_id s))"

type_synonym placement_check = "json \<Rightarrow> dict \<Rightarrow> tokens \<Rightarrow> dict option \<Rightarrow> dict option \<Rightarrow> dict result"

definition unknown_admission :: "worker_slot \<Rightarrow> dict" where
  "unknown_admission s = dict_of
     [(''worker_identity'', JStr (sl_worker_id s)), (''disposition'', JStr ''UNKNOWN''),
      (''reason_code'', JStr ''RESOURCE_OBSERVATION_UNKNOWN''), (''reason'', JStr ''worker has no resource snapshot'')]"

definition slot_admission :: "placement_check \<Rightarrow> json \<Rightarrow> worker_slot \<Rightarrow> dict result" where
  "slot_admission evaluate placement s =
     (case sl_resource_snapshot s of
        None \<Rightarrow> Inr (unknown_admission s)
      | Some snapshot \<Rightarrow>
          evaluate placement snapshot (sl_capabilities s) (sl_runtime_observation s) (sl_runtime_capability_observation s))"

definition admit_slot ::
    "placement_check \<Rightarrow> json \<Rightarrow> worker_slot \<Rightarrow> dict list \<times> worker_slot list \<Rightarrow> (dict list \<times> worker_slot list) result" where
  "admit_slot evaluate placement s acc =
     tryE (slot_admission evaluate placement s) (\<lambda>admission.
       Inr (fst acc @ [dict_of [(''worker_id'', JStr (sl_worker_id s))] ++\<^sub>f admission],
            if dget admission ''disposition'' = JStr ''PASS'' then snd acc @ [s] else snd acc))"

definition admit_slots ::
    "placement_check \<Rightarrow> json option \<Rightarrow> worker_slot list \<Rightarrow> (dict list \<times> worker_slot list) result" where
  "admit_slots evaluate placement eligible =
     (case placement of
        None \<Rightarrow> Inr ([], eligible)
      | Some p \<Rightarrow> foldE (admit_slot evaluate p) eligible ([], []))"

definition missing_capabilities :: "tokens \<Rightarrow> worker_slot list \<Rightarrow> string list" where
  "missing_capabilities required slots =
     sorted_list_of_fset
       (if slots \<noteq> [] then required |-| fold (\<lambda>s acc. acc |\<union>| sl_capabilities s) slots {||} else required)"

definition refusal_reason ::
    "fleet_resolution \<Rightarrow> string list \<Rightarrow> bool \<Rightarrow> dict list \<Rightarrow> string result" where
  "refusal_reason fleet missing placed admissions =
     (if fl_verdict fleet = ''NO_ELIGIBLE_WORKER'' then
        Inr (''NO_ELIGIBLE_WORKER'' @
          (if missing \<noteq> [] then '': CAPABILITY_UNAVAILABLE '' @ repr_strs missing
           else '': '' @ join_text '', '' (sorted_list_of_fset (fset_of_list (map wr_code (fl_per_worker fleet))))))
      else if missing \<noteq> [] then Inr (''CAPABILITY_UNAVAILABLE '' @ repr_strs missing)
      else if placed \<and> admissions \<noteq> [] then
        tryE (mapE admission_line admissions) (\<lambda>ls. Inr (''RESOURCE_ADMISSION_UNAVAILABLE: '' @ join_text ''; '' ls))
      else Inr ''ADMISSION_EXHAUSTED'')"

definition refusal ::
    "fleet_resolution \<Rightarrow> string list \<Rightarrow> bool \<Rightarrow> dict list \<Rightarrow> schedule_decision result" where
  "refusal fleet missing placed admissions =
     (let per_worker = join_text ''; '' (map eligibility_line (sort_key wr_worker_id (fl_per_worker fleet))) in
      tryE (refusal_reason fleet missing placed admissions) (\<lambda>reason.
        Inr \<lparr>sd_disposition = ''UNKNOWN'', sd_worker_ids = [],
             sd_reason = (if per_worker \<noteq> [] then reason @ '' | eligibility: '' @ per_worker else reason),
             sd_admissions = admissions, sd_resolution = Some (explain_selection fleet)\<rparr>))"

definition schedule ::
    "placement_check \<Rightarrow> json \<Rightarrow> worker_slot list \<Rightarrow> int \<Rightarrow> json option \<Rightarrow> string \<Rightarrow> tokens \<Rightarrow> capability_query option
     \<Rightarrow> authority option \<Rightarrow> schedule_decision result" where
  "schedule evaluate plan slots replicas placement intent preferred query auth =
     tryE (validate_job_plan plan) (\<lambda>checked.
       if replicas < 1 \<or> 64 < replicas then Inl (ValidationError ''replicas must be between 1 and 64'')
       else
         let required = plan_capabilities checked in
         tryE (schedule_query required preferred intent query) (\<lambda>q.
         tryE (resolve_fleet q (map snapshot_for_slot slots) 1 auth) (\<lambda>fleet.
         let per_worker = fl_per_worker fleet;
             eligible = sort_key (slot_rank per_worker) (filter (slot_admissible per_worker) slots) in
         tryE (admit_slots evaluate placement eligible) (\<lambda>(admissions, admitted).
           if length admitted < nat replicas
             then refusal fleet (missing_capabilities required slots) (placement \<noteq> None) admissions
           else Inr \<lparr>sd_disposition = ''PASS'', sd_worker_ids = map sl_worker_id (take (nat replicas) admitted),
                  sd_reason = (if placement \<noteq> None then ''exact capability and resource admission match''
                               else ''exact capability match and admission available''),
                  sd_admissions = admissions, sd_resolution = Some (explain_selection fleet)\<rparr>))))"

end
