(* ===== verification/Schedule_Safety.thy ===== *)
theory Schedule_Safety
  imports Scheduler
begin

text \<open>
  What a schedule decision promises about the workers it names, and where it departs from the fleet
  resolution it reports.
\<close>

section \<open>Resolutions by worker\<close>

lemma snapshot_for_slot_id [simp]: "ws_worker_id (snapshot_for_slot s) = sl_worker_id s"
  by (simp add: snapshot_for_slot_def)

lemma by_id_member:
  assumes "distinct (map wr_worker_id per_worker)" and "r \<in> set per_worker"
  shows "resolution_by_id per_worker (wr_worker_id r) = Some r"
proof -
  have "distinct (map fst (rev (map (\<lambda>r. (wr_worker_id r, r)) per_worker)))"
    using assms(1) by (simp add: rev_map comp_def distinct_map)
  moreover have "(wr_worker_id r, r) \<in> set (rev (map (\<lambda>r. (wr_worker_id r, r)) per_worker))"
    using assms(2) by simp
  ultimately show ?thesis unfolding resolution_by_id_def by (rule map_of_is_SomeI)
qed

lemma fleet_per_worker:
  assumes "resolve_fleet q ws n None = Inr fleet"
  obtains rs where "mapE (resolve_worker q) ws = Inr rs" "fl_per_worker fleet = sort_key wr_worker_id rs"
proof -
  from assms obtain rs C where "mapE (resolve_worker q) ws = Inr rs" "fleet = fleet_verdict (nat n) rs C None"
    by (auto simp: resolve_fleet_def resolve_all_def tryE_eq_Inr split: if_splits)
  then show ?thesis by (intro that [of rs]) (auto simp: fleet_verdict_def)
qed

lemma resolution_of_worker:
  assumes "resolve_fleet q ws n None = Inr fleet" and "distinct (map ws_worker_id ws)" and "w \<in> set ws"
  obtains r where "resolve_worker q w = Inr r" "resolution_by_id (fl_per_worker fleet) (ws_worker_id w) = Some r"
proof -
  from assms(1) obtain rs where rs: "mapE (resolve_worker q) ws = Inr rs"
    and pw: "fl_per_worker fleet = sort_key wr_worker_id rs" by (rule fleet_per_worker)
  have ids: "map wr_worker_id rs = map ws_worker_id ws"
  proof -
    have "list_all2 (\<lambda>r w. resolve_worker q w = Inr r) rs ws"
      using rs by (auto simp: mapE_eq_Inr list_all2_conv_all_nth)
    then show ?thesis by (rule list_all2_map_eq) (rule resolve_worker_fields)
  qed
  from rs assms(3) obtain r where r: "r \<in> set rs" "resolve_worker q w = Inr r" using mapE_set2 by metis
  have "distinct (map wr_worker_id rs)" using ids assms(2) by simp
  then have "distinct (map wr_worker_id (fl_per_worker fleet))" by (simp add: pw distinct_map)
  from by_id_member [OF this, of r] r resolve_worker_fields(1) [OF r(2)] that [OF r(2)] show ?thesis
    by (simp add: pw)
qed

section \<open>Admission\<close>

definition slot_passes :: "placement_check \<Rightarrow> json \<Rightarrow> worker_slot \<Rightarrow> bool" where
  "slot_passes evaluate placement s =
     (case slot_admission evaluate placement s of Inl _ \<Rightarrow> False | Inr a \<Rightarrow> dget a ''disposition'' = JStr ''PASS'')"

lemma admit_slot_fold:
  assumes "foldE (admit_slot evaluate p) xs (as, acc) = Inr (bs, out)"
  shows "out = acc @ filter (slot_passes evaluate p) xs \<and> length bs = length as + length xs"
  using assms
proof (induction xs arbitrary: as acc)
  case (Cons x xs)
  from Cons.prems obtain a where a: "slot_admission evaluate p x = Inr a"
    by (auto simp: admit_slot_def tryE_eq_Inr)
  define as' where "as' = as @ [dict_of [(''worker_id'', JStr (sl_worker_id x))] ++\<^sub>f a]"
  have "admit_slot evaluate p x (as, acc) = Inr (as', if slot_passes evaluate p x then acc @ [x] else acc)"
    using a by (simp add: admit_slot_def slot_passes_def as'_def)
  with Cons.prems have "foldE (admit_slot evaluate p) xs (as', if slot_passes evaluate p x then acc @ [x] else acc)
      = Inr (bs, out)" by simp
  from Cons.IH [OF this] show ?case by (simp add: as'_def)
qed simp

lemma admit_slots_eq:
  assumes "admit_slots evaluate placement xs = Inr (bs, out)"
  shows "out = filter (\<lambda>s. case placement of None \<Rightarrow> True | Some p \<Rightarrow> slot_passes evaluate p s) xs"
  using assms by (cases placement) (auto simp: admit_slots_def dest: admit_slot_fold)

section \<open>Decisions\<close>

lemma scheduleE:
  assumes "schedule evaluate plan slots n placement i preferred query auth = Inr d"
  obtains checked q fleet admissions admitted where
    "validate_job_plan plan = Inr checked" "1 \<le> n" "n \<le> 64"
    "schedule_query (plan_capabilities checked) preferred i query = Inr q"
    "resolve_fleet q (map snapshot_for_slot slots) 1 auth = Inr fleet"
    "admit_slots evaluate placement (sort_key (slot_rank (fl_per_worker fleet))
       (filter (slot_admissible (fl_per_worker fleet)) slots)) = Inr (admissions, admitted)"
    "(if length admitted < nat n
      then refusal fleet (missing_capabilities (plan_capabilities checked) slots) (placement \<noteq> None) admissions
      else Inr \<lparr>sd_disposition = ''PASS'', sd_worker_ids = map sl_worker_id (take (nat n) admitted),
             sd_reason = (if placement \<noteq> None then ''exact capability and resource admission match''
                          else ''exact capability match and admission available''),
             sd_admissions = admissions, sd_resolution = Some (explain_selection fleet)\<rparr>) = Inr d"
  using assms unfolding schedule_def Let_def tryE_eq_Inr if_Inl_eq_Inr
  by (auto simp: not_less)

lemma refusal_names_none:
  assumes "refusal fleet missing placed admissions = Inr d"
  shows "sd_disposition d = ''UNKNOWN'' \<and> sd_worker_ids d = []"
proof -
  from assms obtain reason where "refusal_reason fleet missing placed admissions = Inr reason"
    unfolding refusal_def Let_def tryE_eq_Inr by blast
  with assms show ?thesis unfolding refusal_def Let_def by auto
qed

lemma schedule_query_requires:
  assumes "schedule_query required preferred i query = Inr q"
  shows "required |\<subseteq>| cq_require_all q"
  using assms
  by (cases query) (auto simp: schedule_query_def init_query_def token_query_def tryE_eq_Inr split: if_splits)

definition chosen_soundly ::
    "placement_check \<Rightarrow> json option \<Rightarrow> capability_query \<Rightarrow> worker_slot \<Rightarrow> bool" where
  "chosen_soundly evaluate placement q s =
     (let w = snapshot_for_slot s in
      trusted_and_reachable w \<and> policy_and_tokens_meet q w \<and> (emulation_gap q w \<or> env_meets q w)
      \<and> sl_active s < sl_concurrency_limit s \<and> management_allows_work (sl_management_state s)
      \<and> (case placement of None \<Rightarrow> True | Some p \<Rightarrow> slot_passes evaluate p s))"

lemma admitted_sound:
  assumes fleet: "resolve_fleet q (map snapshot_for_slot slots) 1 None = Inr fleet"
    and dist: "distinct (map sl_worker_id slots)"
    and admit: "admit_slots evaluate placement (sort_key (slot_rank (fl_per_worker fleet))
       (filter (slot_admissible (fl_per_worker fleet)) slots)) = Inr (admissions, admitted)"
    and s: "s \<in> set admitted"
  shows "s \<in> set slots \<and> chosen_soundly evaluate placement q s"
proof -
  let ?w = "snapshot_for_slot s"
  from admit_slots_eq [OF admit] s have slot: "s \<in> set slots" "slot_admissible (fl_per_worker fleet) s"
    and pass: "case placement of None \<Rightarrow> True | Some p \<Rightarrow> slot_passes evaluate p s"
    by auto
  have ids: "distinct (map ws_worker_id (map snapshot_for_slot slots))"
    using dist by (simp add: comp_def)
  from slot(1) have "?w \<in> set (map snapshot_for_slot slots)" by simp
  from resolution_of_worker [OF fleet ids this] obtain r where r: "resolve_worker q ?w = Inr r"
    "resolution_by_id (fl_per_worker fleet) (ws_worker_id ?w) = Some r" .
  from r(2) slot(2) have "wr_eligible r" "sl_active s < sl_concurrency_limit s"
    "management_allows_work (sl_management_state s)"
    by (simp_all add: slot_admissible_def)
  with eligible_sound [OF r(1)] slot(1) pass show ?thesis by (simp add: chosen_soundly_def)
qed

lemma admitted_distinct:
  assumes "admit_slots evaluate placement (sort_key k (filter P slots)) = Inr (admissions, admitted)"
    and "distinct (map sl_worker_id slots)"
  shows "distinct (map sl_worker_id admitted)"
proof -
  have "distinct (map sl_worker_id (sort_key k (filter P slots)))"
    using assms(2) by (simp add: distinct_map inj_on_filter_key_eq inj_on_subset [of _ "set slots"])
  then show ?thesis using admit_slots_eq [OF assms(1)] distinct_map_filter by metis
qed

section \<open>A fleet of two\<close>

lemma resolve_worker_exists:
  assumes "freshness_of (ws_age w) = Inr f" and "snapshot_policy w = Inr p" and "snapshot_tokens w p = Inr t"
    and "missing_env q w = Inr es" and "cq_intent q \<in> set INTENT_VALUES"
  shows "\<exists>r. resolve_worker q w = Inr r"
proof -
  obtain ms where ms: "base_missing q w t = Inr ms" using assms(4) by (simp add: base_missing_def)
  have "\<exists>base. compute_base_inputs q w = Inr base"
    using assms ms by (simp add: compute_base_inputs_def effective_provenance_eq intent_allowed_eq_Inr tryE_eq_Inr
        del: split_paired_Ex)
  then obtain base where base: "compute_base_inputs q w = Inr base" ..
  from base_has_code [OF base] obtain c where c: "resolve_code (wb_inputs base) = Inr c" ..
  with base finish_total resolve_code_InrD(1) [OF c] show ?thesis by (simp add: resolve_worker_def)
qed

definition sample_slot :: "string \<Rightarrow> bool \<Rightarrow> worker_slot" where
  "sample_slot wid constrained =
     \<lparr>sl_worker_id = wid, sl_capabilities = {||}, sl_active = 0, sl_concurrency_limit = 1, sl_available = True,
      sl_resource_snapshot = None, sl_runtime_observation = None, sl_runtime_capability_observation = None,
      sl_management_state = None, sl_liveness = ''AVAILABLE'', sl_age = NoAge, sl_provenance = ''worker-observed'',
      sl_worker_env = Some (sample_facts ''native''),
      sl_worker_policy = Some (dict_of [(''resource_constrained'', JBool constrained)])\<rparr>"

lemma sample_slot_id [simp]: "sl_worker_id (sample_slot wid c) = wid"
  by (simp add: sample_slot_def)

abbreviation sample_snapshot :: "string \<Rightarrow> bool \<Rightarrow> worker_snapshot" where
  "sample_snapshot wid c \<equiv> snapshot_for_slot (sample_slot wid c)"

abbreviation linux_query :: capability_query where
  "linux_query \<equiv> token_query {|''os:linux''|} {||} ''normal''"

lemma sample_slot_policy:
  "snapshot_policy (sample_snapshot wid c) = Inr (fmupd ''resource_constrained'' (JBool c) default_policy)"
proof -
  let ?p = "dict_of [(''resource_constrained'', JBool c)]"
  have "policy_ok ?p"
    by (simp add: policy_ok_def policy_value_def POLICY_FIELDS_def)
  then obtain d where d: "validate_policy (JObj ?p) = Inr d" using validate_policy_iff by blast
  have "d = fmupd ''resource_constrained'' (JBool c) default_policy"
  proof (rule fmap_ext)
    fix k :: string
    show "fmlookup d k = fmlookup (fmupd ''resource_constrained'' (JBool c) default_policy) k"
      using validate_policy_lookup [OF validate_default_policy, of k]
      by (simp add: validate_policy_lookup [OF d] policy_value_def POLICY_FIELDS_def)
  qed
  with d show ?thesis
    by (simp add: snapshot_policy_def snapshot_for_slot_def sample_slot_def dict_or_empty_def)
qed

lemma sample_slot_tokens:
  "\<exists>t. snapshot_tokens (sample_snapshot wid c) (fmupd ''resource_constrained'' (JBool c) default_policy) = Inr t
     \<and> ''os:linux'' |\<in>| t"
proof -
  have "snapshot_env (sample_snapshot wid c) = sample_facts ''native''"
    by (simp add: snapshot_env_def snapshot_for_slot_def sample_slot_def sample_facts_def)
  moreover have "\<exists>p. policy_tokens (JObj (fmupd ''resource_constrained'' (JBool c) default_policy)) = Inr p"
    using validate_policy_again sample_slot_policy [of wid c]
    by (simp add: policy_tokens_def snapshot_policy_def)
  ultimately show ?thesis by (auto simp: snapshot_tokens_def)
qed

lemma linux_query_fields:
  "cq_req_env linux_query = None" "cq_intent linux_query = ''normal''" "cq_prefer linux_query = {||}"
  by (simp_all add: token_query_def)

lemma sample_slot_meets:
  "\<exists>r. resolve_worker linux_query (sample_snapshot wid c) = Inr r"
  "meets_query linux_query (sample_snapshot wid c)"
  "\<not> emulation_gap linux_query w"
proof -
  have want: "\<exists>want. normalize_req_env None = Inr want"
    by (simp add: normalize_req_env_def dict_or_empty_def int_field_def)
  then have env: "missing_env linux_query w = Inr []" for w
    by (auto simp: missing_env_def linux_query_fields)
  have trusted: "trusted_and_reachable (sample_snapshot wid c)"
    by (simp add: trusted_and_reachable_def snapshot_for_slot_def sample_slot_def freshness_of_def)
  obtain t where t: "snapshot_tokens (sample_snapshot wid c) (fmupd ''resource_constrained'' (JBool c) default_policy) = Inr t"
    "''os:linux'' |\<in>| t" using sample_slot_tokens by blast
  have fresh: "freshness_of (ws_age (sample_snapshot wid c)) = Inr ''fresh''" using trusted by (simp add: trusted_and_reachable_def)
  show "\<exists>r. resolve_worker linux_query (sample_snapshot wid c) = Inr r"
    by (rule resolve_worker_exists [OF fresh sample_slot_policy t(1) env]) (simp add: linux_query_fields INTENT_VALUES_def)
  have "policy_and_tokens_meet linux_query (sample_snapshot wid c)"
    using t by (simp add: policy_and_tokens_meet_def sample_slot_policy intent_granted_def tokens_suffice_def token_query_def)
  with trusted show "meets_query linux_query (sample_snapshot wid c)"
    by (simp add: meets_query_def env_meets_def linux_query_fields)
  show "\<not> emulation_gap linux_query w" by (simp add: emulation_gap_def linux_query_fields)
qed

lemma sample_ranks:
  "snapshot_rank linux_query (sample_snapshot wid c) = (0, if c then 1 else 0, wid)"
proof -
  obtain t where "snapshot_tokens (sample_snapshot wid c) (fmupd ''resource_constrained'' (JBool c) default_policy) = Inr t"
    using sample_slot_tokens by blast
  then show ?thesis
    by (simp add: snapshot_rank_def snapshot_hits_def is_constrained_def sample_slot_policy linux_query_fields fcard.rep_eq)
qed

abbreviation two_slots :: "worker_slot list" where
  "two_slots \<equiv> [sample_slot ''a'' True, sample_slot ''b'' False]"

lemma two_slots_fleet:
  "\<exists>fleet. resolve_fleet linux_query (map snapshot_for_slot two_slots) 1 None = Inr fleet \<and> fl_selected fleet = [''b'']"
proof -
  let ?ws = "map snapshot_for_slot two_slots"
  have res: "\<exists>r. resolve_worker linux_query w = Inr r" "\<exists>p. snapshot_policy w = Inr p" if "w \<in> set ?ws" for w
    using that sample_slot_meets(1) sample_slot_policy by auto
  obtain fleet where fleet: "resolve_fleet linux_query ?ws 1 None = Inr fleet"
    using resolve_fleet_exists [OF res, of ?ws 1] by auto
  then obtain rs C where rs: "mapE (resolve_worker linux_query) ?ws = Inr rs" and C: "constrained_ids ?ws = Inr C"
    and f: "fleet = fleet_verdict 1 rs C None"
    by (auto simp: resolve_fleet_def resolve_all_def tryE_eq_Inr split: if_splits)
  have "map wr_worker_id (sort_key (fleet_rank C) (filter wr_eligible rs)) = [''b'', ''a'']"
    using ranked_ids [OF rs C] sample_slot_meets(2,3)
    by (simp add: sample_ranks)
  moreover from this have "sort_key (fleet_rank C) (filter wr_eligible rs) \<noteq> []" by auto
  ultimately show ?thesis using fleet unfolding f fleet_verdict_def by simp
qed

lemma two_slots_admissible:
  assumes "resolve_fleet linux_query (map snapshot_for_slot two_slots) 1 None = Inr fleet" and "s \<in> set two_slots"
  shows "slot_admissible (fl_per_worker fleet) s" "slot_rank (fl_per_worker fleet) s = (0, sl_worker_id s)"
proof -
  let ?w = "snapshot_for_slot s"
  have "distinct (map ws_worker_id (map snapshot_for_slot two_slots))" "?w \<in> set (map snapshot_for_slot two_slots)"
    using assms(2) by auto
  from resolution_of_worker [OF assms(1) this] obtain r where r: "resolve_worker linux_query ?w = Inr r"
    "resolution_by_id (fl_per_worker fleet) (ws_worker_id ?w) = Some r" .
  have "meets_query linux_query ?w" using assms(2) sample_slot_meets(2) by auto
  with eligible_iff [OF r(1) sample_slot_meets(3)] have "wr_eligible r" by simp
  moreover have "sl_active s < sl_concurrency_limit s" "management_allows_work (sl_management_state s)"
    using assms(2) by (auto simp: sample_slot_def management_allows_work_def)
  ultimately show "slot_admissible (fl_per_worker fleet) s" using r(2) by (simp add: slot_admissible_def)
  have "snapshot_hits linux_query ?w = 0"
    by (simp add: snapshot_hits_def linux_query_fields fcard.rep_eq split: sum.split)
  with resolve_worker_fields(2) [OF r(1)] r(2) show "slot_rank (fl_per_worker fleet) s = (0, sl_worker_id s)"
    by (simp add: slot_rank_def)
qed

lemma two_slots_schedule:
  "\<exists>d fleet. schedule evaluate (JObj sample_plan) two_slots 1 None ''normal'' {||} None None = Inr d
     \<and> sd_disposition d = ''PASS'' \<and> sd_worker_ids d = [''a''] \<and> sd_resolution d = Some (explain_selection fleet)
     \<and> fl_selected fleet = [''b'']"
proof -
  let ?n = "normalized_plan sample_plan ''work'' [''out.json'']"
  have "dget ?n ''required_capabilities'' = JList [JStr ''os:linux'']"
    by (simp add: dget_normalized_plan(1)) (simp add: sample_plan_def)
  then have caps: "plan_capabilities ?n = {|''os:linux''|}" by (simp add: plan_capabilities_def)
  have q: "schedule_query {|''os:linux''|} {||} ''normal'' None = Inr linux_query"
    by (simp add: schedule_query_def init_query_def linux_query_fields) (simp add: token_query_def INTENT_VALUES_def)
  from two_slots_fleet obtain fleet where fleet: "resolve_fleet linux_query (map snapshot_for_slot two_slots) 1 None = Inr fleet"
    and sel: "fl_selected fleet = [''b'']" by blast
  note slot = two_slots_admissible [OF fleet]
  have order: "sort_key (slot_rank (fl_per_worker fleet)) (filter (slot_admissible (fl_per_worker fleet)) two_slots) = two_slots"
    using slot [of "sample_slot ''a'' True"] slot [of "sample_slot ''b'' False"] by simp
  show ?thesis
    unfolding schedule_def sample_plan_valid tryE_Inr Let_def caps q fleet order
    using sel by (auto simp: admit_slots_def)
qed



text \<open>
  The decision and the resolution it reports can name different workers: of two workers that match a plan
  equally well the fleet resolution selects the one that is not resource constrained, the schedule the one whose
  name comes first.
\<close>

theorem schedule_departs_from_resolution:
  "\<exists>d r. schedule evaluate (JObj sample_plan) two_slots 1 None ''normal'' {||} None None = Inr d
     \<and> sd_worker_ids d = [''a''] \<and> sd_resolution d = Some r \<and> dget r ''selected'' = JList [JStr ''b'']"
proof -
  have "dget (explain_selection f) ''selected'' = JList (map JStr (fl_selected f))" for f
    by (simp add: explain_selection_def with_authority_def strs_def split: option.split)
  with two_slots_schedule [of evaluate] show ?thesis by fastforce
qed

end
