(* ===== verification/Runtime_Observation.thy ===== *)
theory Runtime_Observation
  imports Lifecycle_Fields
begin

text \<open>
  The observations of \<^verbatim>\<open>src/src/mncs_fabric/runtime.py\<close> that placement relies on: what a worker's interpreter
  executed, and which runtime capability it proved. Entries of a dict are visited in the order of their keys.
  The clock reading \<open>now\<close> is an instant in microseconds; ages compare exactly, as their decimal text does.
\<close>

section \<open>Field checks\<close>

definition RUNTIME_OBSERVATION_SCHEMA :: string where
  "RUNTIME_OBSERVATION_SCHEMA = ''mncs-fabric.runtime-observation.v0.1''"

definition RUNTIME_CAPABILITY_OBSERVATION_SCHEMA :: string where
  "RUNTIME_CAPABILITY_OBSERVATION_SCHEMA = ''mncs-fabric.runtime-capability-observation.v0.1''"

definition STATUSES :: "string list" where "STATUSES = [''PASS'', ''FAIL'', ''UNKNOWN'']"

definition RUNTIME_CAPABILITIES :: "string list" where
  "RUNTIME_CAPABILITIES = [''cuda-execution'', ''sequential-cpu-offload'']"

definition CAPABILITY_EVIDENCE_FIELDS :: "string list" where
  "CAPABILITY_EVIDENCE_FIELDS =
     [''actual_mode'', ''mechanism'', ''cuda_execution'', ''precision'', ''offload_hook_count'',
      ''persistent_accelerator_parameter_bytes'', ''cpu_or_meta_parameter_bytes'', ''peak_allocated_bytes'',
      ''peak_reserved_bytes'', ''host_memory_bytes'', ''duration_seconds'', ''result_digest'', ''tolerance'']"

definition PRECISION_KEYS :: "string list" where "PRECISION_KEYS = [''float32'', ''float16'', ''bfloat16'']"

definition check_text :: "string \<Rightarrow> nat \<Rightarrow> json \<Rightarrow> unit result" where
  "check_text field maximum v = tryE (text_field field maximum v) (\<lambda>_. Inr ())"

definition check_optional_text :: "string \<Rightarrow> nat \<Rightarrow> json \<Rightarrow> unit result" where
  "check_optional_text field maximum v = (if v = JNull then Inr () else check_text field maximum v)"

definition check_status :: "string \<Rightarrow> json \<Rightarrow> unit result" where
  "check_status field v =
     tryE (in_strset v STATUSES) (\<lambda>known. ensure known (field @ '' must be PASS, FAIL, or UNKNOWN''))"

definition runtime_stamp :: "string \<Rightarrow> json \<Rightarrow> string result" where
  "runtime_stamp field v =
     tryE (text_field field 64 v) (\<lambda>raw.
       case fromisoformat (replace_Z raw) of
         None \<Rightarrow> Inl (ValidationError (field @ '' must be RFC 3339''))
       | Some (local', None) \<Rightarrow> Inl (ValidationError (field @ '' must include a timezone''))
       | Some (local', Some off) \<Rightarrow> tryE (instant_of_offset (local', off)) (\<lambda>us. Inr (show_instant us)))"

definition check_probes :: "string \<Rightarrow> json \<Rightarrow> unit result" where
  "check_probes msg v =
     (case v of
        JObj probes \<Rightarrow>
          if \<not> fmdom probes |\<subseteq>| fset_of_list PRECISION_KEYS then Inl (ValidationError msg)
          else all_checks (map (\<lambda>k. check_status (''precision_probes.'' @ k) (dget probes k)) (dict_keys probes))
      | _ \<Rightarrow> Inl (ValidationError msg))"

text \<open>\<^verbatim>\<open>expected is not None and actual != expected\<close>\<close>

definition matches_expected :: "string option \<Rightarrow> json \<Rightarrow> bool" where
  "matches_expected expected v = (case expected of None \<Rightarrow> True | Some e \<Rightarrow> v = JStr e)"

section \<open>Observations\<close>

definition runtime_observation_fields :: "string list" where
  "runtime_observation_fields =
     [''schema_version'', ''worker_identity'', ''runtime_profile_identity'', ''runtime_kind'', ''python_version'',
      ''python_executable_identity'', ''accelerator_backend'', ''accelerator'', ''driver_identity'', ''runtime_version'',
      ''runtime_execution_probe'', ''precision_probes'', ''probe_identity'', ''captured_at'', ''observation_source'',
      ''claim_boundary'', ''runtime_observation_identity'']"

definition runtime_observation_checks :: "dict \<Rightarrow> string option \<Rightarrow> string option \<Rightarrow> unit result list" where
  "runtime_observation_checks v expected_worker expected_profile =
     [ensure (dget v ''schema_version'' = JStr RUNTIME_OBSERVATION_SCHEMA) ''unsupported runtime observation schema'',
      ensure (keys_are v runtime_observation_fields \<and> verify_identity v ''runtime_observation_identity'')
        ''runtime observation fields or identity are invalid'',
      check_text ''worker_identity'' 256 (dget v ''worker_identity''),
      ensure (matches_expected expected_worker (dget v ''worker_identity'')) ''runtime observation is bound to another worker'',
      ensure (matches_expected expected_profile (dget v ''runtime_profile_identity''))
        ''runtime observation profile identity does not match'',
      ensure (is_sha256_identity (dget v ''runtime_profile_identity'')) ''runtime profile identity is invalid'',
      ensure (dget v ''runtime_kind'' = JStr ''python'') ''runtime observation kind is unsupported'',
      check_text ''python_version'' 64 (dget v ''python_version''),
      ensure (dget v ''python_executable_identity'' = JNull \<or> is_sha256_identity (dget v ''python_executable_identity''))
        ''runtime executable identity is invalid'',
      check_optional_text ''accelerator_backend'' 64 (dget v ''accelerator_backend''),
      check_optional_text ''accelerator'' 256 (dget v ''accelerator''),
      check_optional_text ''driver_identity'' 256 (dget v ''driver_identity''),
      check_optional_text ''runtime_version'' 128 (dget v ''runtime_version''),
      check_status ''runtime_execution_probe'' (dget v ''runtime_execution_probe''),
      check_probes ''runtime precision probes are invalid'' (dget v ''precision_probes''),
      check_optional_text ''probe_identity'' 256 (dget v ''probe_identity''),
      tryE (runtime_stamp ''captured_at'' (dget v ''captured_at'')) (\<lambda>_. Inr ()),
      check_text ''observation_source'' 256 (dget v ''observation_source''),
      check_text ''claim_boundary'' 512 (dget v ''claim_boundary'')]"

definition validate_runtime_observation :: "json \<Rightarrow> string option \<Rightarrow> string option \<Rightarrow> dict result" where
  "validate_runtime_observation v expected_worker expected_profile =
     (case v of
        JObj m \<Rightarrow> tryE (all_checks (runtime_observation_checks m expected_worker expected_profile)) (\<lambda>_. Inr m)
      | _ \<Rightarrow> Inl (ValidationError ''unsupported runtime observation schema''))"

definition runtime_capability_fields :: "string list" where
  "runtime_capability_fields =
     [''schema_version'', ''worker_identity'', ''runtime_profile_identity'', ''runtime_environment_identity'', ''capability'',
      ''status'', ''evidence'', ''captured_at'', ''observation_source'', ''claim_boundary'',
      ''runtime_capability_observation_identity'']"

text \<open>A check of an evidence entry that runs only when the entry is there.\<close>

definition if_present :: "dict \<Rightarrow> (string \<Rightarrow> json \<Rightarrow> unit result) \<Rightarrow> string \<Rightarrow> unit result" where
  "if_present m check k = (case fmlookup m k of None \<Rightarrow> Inr () | Some v \<Rightarrow> check k v)"

definition is_nonnegative_int :: "json \<Rightarrow> bool" where
  "is_nonnegative_int v = (case v of JInt n \<Rightarrow> 0 \<le> n | _ \<Rightarrow> False)"

definition check_evidence :: "json \<Rightarrow> unit result" where
  "check_evidence v =
     (case v of
        JObj e \<Rightarrow>
          if \<not> fmdom e |\<subseteq>| fset_of_list CAPABILITY_EVIDENCE_FIELDS
            then Inl (ValidationError ''runtime capability evidence fields are invalid'')
          else all_checks (
            map (if_present e (\<lambda>k. check_text (''evidence.'' @ k) 128)) [''actual_mode'', ''mechanism'', ''precision'', ''tolerance'']
            @ [if_present e (\<lambda>k. check_status (''evidence.'' @ k)) ''cuda_execution'']
            @ map (if_present e (\<lambda>k x. ensure (is_nonnegative_int x) (''evidence.'' @ k @ '' must be a non-negative integer'')))
                [''offload_hook_count'', ''persistent_accelerator_parameter_bytes'', ''cpu_or_meta_parameter_bytes'',
                 ''peak_allocated_bytes'', ''peak_reserved_bytes'', ''host_memory_bytes'']
            @ [if_present e (\<lambda>k x. ensure (is_number x \<and> num_le (JInt 0) x) (''evidence.'' @ k @ '' must be non-negative''))
                 ''duration_seconds'',
               if_present e (\<lambda>k x. ensure (is_sha256_identity x) (''evidence.'' @ k @ '' must be a sha256 identity''))
                 ''result_digest''])
      | _ \<Rightarrow> Inl (ValidationError ''runtime capability evidence fields are invalid''))"

definition runtime_capability_checks ::
    "dict \<Rightarrow> string option \<Rightarrow> string option \<Rightarrow> string option \<Rightarrow> string option \<Rightarrow> unit result list" where
  "runtime_capability_checks v expected_worker expected_profile expected_environment expected_capability =
     [ensure (dget v ''schema_version'' = JStr RUNTIME_CAPABILITY_OBSERVATION_SCHEMA)
        ''unsupported runtime capability observation schema'',
      ensure (keys_are v runtime_capability_fields \<and> verify_identity v ''runtime_capability_observation_identity'')
        ''runtime capability observation fields or identity are invalid'',
      check_text ''worker_identity'' 256 (dget v ''worker_identity''),
      ensure (matches_expected expected_worker (dget v ''worker_identity''))
        ''runtime capability observation is bound to another worker'',
      ensure (matches_expected expected_profile (dget v ''runtime_profile_identity''))
        ''runtime capability observation profile identity does not match'',
      ensure (matches_expected expected_environment (dget v ''runtime_environment_identity''))
        ''runtime capability observation environment identity does not match'',
      ensure (is_sha256_identity (dget v ''runtime_profile_identity'') \<and> is_sha256_identity (dget v ''runtime_environment_identity''))
        ''runtime capability observation identities are invalid'',
      tryE (in_strset (dget v ''capability'') RUNTIME_CAPABILITIES) (\<lambda>known. ensure known ''unsupported runtime capability''),
      check_status ''status'' (dget v ''status''),
      check_evidence (dget v ''evidence''),
      tryE (runtime_stamp ''captured_at'' (dget v ''captured_at'')) (\<lambda>_. Inr ()),
      check_text ''observation_source'' 256 (dget v ''observation_source''),
      check_text ''claim_boundary'' 512 (dget v ''claim_boundary''),
      ensure (matches_expected expected_capability (dget v ''capability''))
        ''runtime capability observation does not match the requested capability'']"

definition validate_runtime_capability_observation ::
    "json \<Rightarrow> string option \<Rightarrow> string option \<Rightarrow> string option \<Rightarrow> string option \<Rightarrow> dict result" where
  "validate_runtime_capability_observation v worker profile environment capability =
     (case v of
        JObj m \<Rightarrow> tryE (all_checks (runtime_capability_checks m worker profile environment capability)) (\<lambda>_. Inr m)
      | _ \<Rightarrow> Inl (ValidationError ''unsupported runtime capability observation schema''))"

section \<open>Ages\<close>

text \<open>\<^verbatim>\<open>x < 0\<close> and \<^verbatim>\<open>age <= x\<close> for a number \<^verbatim>\<open>x\<close>; anything else raises.\<close>

definition is_negative :: "json \<Rightarrow> bool result" where
  "is_negative v = (case num_parts v of None \<Rightarrow> Inl PyTypeError | Some p \<Rightarrow> Inr (\<not> parts_le (0, 0) p))"

definition within_age :: "int \<Rightarrow> json \<Rightarrow> bool result" where
  "within_age us v = (case num_parts v of None \<Rightarrow> Inl PyTypeError | Some p \<Rightarrow> Inr (parts_le (us, -6) p))"

definition observation_fresh :: "string \<Rightarrow> int \<Rightarrow> dict \<Rightarrow> json \<Rightarrow> bool result" where
  "observation_fresh msg now v max_age =
     tryE (is_negative max_age) (\<lambda>negative.
       if negative then Inl (ValidationError msg)
       else tryE (instant (dget v ''captured_at'')) (\<lambda>captured. within_age (now - captured) max_age))"

definition runtime_observation_is_fresh :: "int \<Rightarrow> dict \<Rightarrow> json \<Rightarrow> bool result" where
  "runtime_observation_is_fresh now v max_age =
     tryE (validate_runtime_observation (JObj v) None None) (\<lambda>checked.
       observation_fresh ''runtime observation freshness bound cannot be negative'' now checked max_age)"

definition runtime_capability_observation_is_fresh :: "int \<Rightarrow> dict \<Rightarrow> json \<Rightarrow> bool result" where
  "runtime_capability_observation_is_fresh now v max_age =
     tryE (validate_runtime_capability_observation (JObj v) None None None None) (\<lambda>checked.
       observation_fresh ''runtime capability freshness bound cannot be negative'' now checked max_age)"

end
