(* ===== verification/Placement.thy ===== *)
theory Placement
  imports Runtime_Observation
begin

text \<open>
  The admission part of \<^verbatim>\<open>src/src/mncs_fabric/resources.py\<close>: resource snapshots, placement requests, and the decision
  whether a snapshot can hold a request on the CPU, wholly on an accelerator, or with sequential offload. The readings
  of the clock are arguments, in microseconds. Byte counts of a request are integers; a float there, which the code
  lets through, is refused by the model. A request is given as its dict.
\<close>

section \<open>Resource snapshots\<close>

definition RESOURCE_SCHEMA :: string where "RESOURCE_SCHEMA = ''mncs-fabric.node-resources.v0.1''"

definition PLACEMENT_REQUEST_SCHEMA :: string where
  "PLACEMENT_REQUEST_SCHEMA = ''mncs-fabric.execution-placement-request.v0.1''"

definition ADMISSION_SCHEMA :: string where "ADMISSION_SCHEMA = ''mncs-fabric.placement-admission.v0.1''"

definition REFERENCE_SCHEMA :: string where "REFERENCE_SCHEMA = ''mncs-fabric.placement-reference.v0.1''"

definition MODES :: "string list" where
  "MODES = [''cpu'', ''full-accelerator'', ''sequential-cpu-offload'', ''unknown'']"

definition DISPOSITIONS :: "string list" where "DISPOSITIONS = [''PASS'', ''UNKNOWN'']"

definition REASONS :: "string list" where
  "REASONS =
     [''CPU_ELIGIBLE'', ''FULL_ACCELERATOR_ELIGIBLE'', ''SEQUENTIAL_CPU_OFFLOAD_ELIGIBLE'', ''ACCELERATOR_UNAVAILABLE'',
      ''ACCELERATOR_EXECUTION_UNVERIFIED'', ''PRECISION_UNAVAILABLE'', ''INSUFFICIENT_VRAM'', ''INSUFFICIENT_HOST_RAM'',
      ''SEQUENTIAL_OFFLOAD_RUNTIME_UNSUPPORTED'', ''SEQUENTIAL_OFFLOAD_EXECUTION_UNVERIFIED'',
      ''RESOURCE_OBSERVATION_STALE'', ''RESOURCE_OBSERVATION_UNKNOWN'', ''CAPABILITY_UNAVAILABLE'']"

definition PRECISIONS :: "string list" where "PRECISIONS = [''auto'', ''float32'', ''float16'', ''bfloat16'']"

definition check_nonnegative :: "string \<Rightarrow> json \<Rightarrow> unit result" where
  "check_nonnegative field v =
     ensure (v = JNull \<or> is_nonnegative_int v) (field @ '' must be a non-negative integer or null'')"

definition resource_stamp :: "string \<Rightarrow> json \<Rightarrow> string result" where
  "resource_stamp field v =
     (case v of
        JStr raw \<Rightarrow>
          (case fromisoformat (replace_Z raw) of
             None \<Rightarrow> Inl (ValidationError (field @ '' must be an RFC 3339 timestamp''))
           | Some (local', None) \<Rightarrow> Inl (ValidationError (field @ '' must include a timezone''))
           | Some (local', Some off) \<Rightarrow> tryE (instant_of_offset (local', off)) (\<lambda>us. Inr (show_instant us)))
      | _ \<Rightarrow> Inl (ValidationError (field @ '' must be an RFC 3339 timestamp'')))"

definition ACCELERATOR_FIELDS :: "string list" where
  "ACCELERATOR_FIELDS =
     [''index'', ''vendor'', ''backend'', ''device_name'', ''hardware_identity'', ''total_memory_bytes'', ''free_memory_bytes'',
      ''driver_version'', ''runtime_version'', ''execution_probe'', ''precision_probes'', ''observation_source'']"

definition validate_accelerator :: "json \<Rightarrow> dict result" where
  "validate_accelerator v =
     (case v of
        JObj a \<Rightarrow>
          if \<not> keys_are a ACCELERATOR_FIELDS then Inl (ValidationError ''accelerator observation fields are invalid'')
          else
            tryE (all_checks (
              [ensure (is_nonnegative_int (dget a ''index'')) ''accelerator index is invalid'']
              @ map (\<lambda>k. check_optional_text k 256 (dget a k))
                  [''vendor'', ''observation_source'', ''backend'', ''device_name'', ''hardware_identity'', ''driver_version'',
                   ''runtime_version'']
              @ map (\<lambda>k. check_nonnegative k (dget a k)) [''total_memory_bytes'', ''free_memory_bytes'']
              @ [check_status ''execution_probe'' (dget a ''execution_probe''),
                 check_probes ''accelerator precision probes are invalid'' (dget a ''precision_probes'')])) (\<lambda>_. Inr a)
      | _ \<Rightarrow> Inl (ValidationError ''accelerator observation fields are invalid''))"

definition snapshot_fields :: "string list" where
  "snapshot_fields =
     [''schema_version'', ''worker_identity'', ''captured_at'', ''host_memory_total_bytes'', ''host_memory_available_bytes'',
      ''cpu_logical_count'', ''architecture'', ''accelerators'', ''observation_source'', ''node_fingerprint'',
      ''resource_snapshot_identity'']"

definition check_accelerators :: "json \<Rightarrow> unit result" where
  "check_accelerators v =
     (case v of
        JList xs \<Rightarrow>
          if 16 < length xs then Inl (ValidationError ''accelerators must be a bounded array'')
          else
            tryE (mapE validate_accelerator xs) (\<lambda>accelerators.
              ensure (distinct (map (\<lambda>a. dget a ''index'') accelerators)) ''accelerator indices must be unique'')
      | _ \<Rightarrow> Inl (ValidationError ''accelerators must be a bounded array''))"

definition snapshot_checks :: "dict \<Rightarrow> unit result list" where
  "snapshot_checks v =
     [ensure (dget v ''schema_version'' = JStr RESOURCE_SCHEMA) ''unsupported resource snapshot schema'',
      ensure (keys_are v snapshot_fields) ''resource snapshot fields are invalid'',
      check_text ''worker_identity'' 256 (dget v ''worker_identity''),
      tryE (resource_stamp ''captured_at'' (dget v ''captured_at'')) (\<lambda>_. Inr ()),
      check_nonnegative ''host_memory_total_bytes'' (dget v ''host_memory_total_bytes''),
      check_nonnegative ''host_memory_available_bytes'' (dget v ''host_memory_available_bytes''),
      ensure (case dget v ''cpu_logical_count'' of JNull \<Rightarrow> True | JInt n \<Rightarrow> 1 \<le> n | _ \<Rightarrow> False) ''cpu_logical_count is invalid'',
      check_optional_text ''architecture'' 256 (dget v ''architecture''),
      ensure (dget v ''node_fingerprint'' = JNull \<or> is_sha256_identity (dget v ''node_fingerprint'')) ''node_fingerprint is invalid'',
      check_accelerators (dget v ''accelerators''),
      check_text ''observation_source'' 256 (dget v ''observation_source''),
      ensure (verify_identity v ''resource_snapshot_identity'') ''resource snapshot identity does not verify'']"

definition validate_resource_snapshot :: "json \<Rightarrow> dict result" where
  "validate_resource_snapshot v =
     (case v of
        JObj m \<Rightarrow> tryE (all_checks (snapshot_checks m)) (\<lambda>_. Inr m)
      | _ \<Rightarrow> Inl (ValidationError ''unsupported resource snapshot schema''))"

definition resource_snapshot_age :: "int \<Rightarrow> dict \<Rightarrow> int result" where
  "resource_snapshot_age now v =
     tryE (validate_resource_snapshot (JObj v)) (\<lambda>checked.
     tryE (instant (dget checked ''captured_at'')) (\<lambda>captured. Inr (max 0 (now - captured))))"

definition resource_snapshot_is_fresh :: "int \<Rightarrow> dict \<Rightarrow> json \<Rightarrow> bool result" where
  "resource_snapshot_is_fresh now v max_age =
     tryE (is_negative max_age) (\<lambda>negative.
       if negative then Inl (ValidationError ''resource freshness bound cannot be negative'')
       else tryE (resource_snapshot_age now v) (\<lambda>age. within_age age max_age))"

section \<open>Placement requests\<close>

record placement_request =
  pr_execution_device :: json
  pr_accelerator_backend :: json
  pr_offload :: json
  pr_precision :: json
  pr_model_storage_bytes :: json
  pr_estimated_workspace_bytes :: json
  pr_minimum_host_memory_bytes :: json
  pr_gpu_reserve_bytes :: json
  pr_maximum_vram_bytes :: json
  pr_minimum_accelerator_working_bytes :: json
  pr_runtime_supports_offload :: json
  pr_required_capabilities :: "json list"
  pr_resource_max_age_seconds :: json

definition int_at_least :: "int \<Rightarrow> string \<Rightarrow> json \<Rightarrow> unit result" where
  "int_at_least n msg v = (case as_int v of None \<Rightarrow> Inl PyTypeError | Some k \<Rightarrow> ensure (n \<le> k) msg)"

text \<open>\<^verbatim>\<open>x in {None, True, False}\<close>, which also holds of the numbers zero and one.\<close>

definition is_flag_or_null :: "json \<Rightarrow> bool result" where
  "is_flag_or_null v =
     (case v of
        JNull \<Rightarrow> Inr True
      | JList _ \<Rightarrow> Inl PyTypeError
      | JObj _ \<Rightarrow> Inl PyTypeError
      | JStr _ \<Rightarrow> Inr False
      | _ \<Rightarrow> Inr (num_le v (JInt 0) \<and> num_le (JInt 0) v \<or> num_le v (JInt 1) \<and> num_le (JInt 1) v))"

definition check_required :: "json list \<Rightarrow> unit result" where
  "check_required caps =
     (let msg = ''required placement capabilities must be unique and bounded'' in
      if 64 < length caps then Inl (ValidationError msg)
      else if list_ex (\<lambda>c. is_list c \<or> is_dict c) caps then Inl PyTypeError
      else all_checks (ensure (distinct caps) msg # map (check_text ''required_capabilities[]'' 128) caps))"

definition request_checks :: "placement_request \<Rightarrow> unit result list" where
  "request_checks r =
     [tryE (in_strset (pr_execution_device r) [''auto'', ''cpu'', ''accelerator'']) (\<lambda>k. ensure k ''execution_device is unsupported''),
      tryE (in_strset (pr_offload r) [''auto'', ''none'', ''sequential-cpu'']) (\<lambda>k. ensure k ''offload is unsupported''),
      tryE (in_strset (pr_precision r) PRECISIONS) (\<lambda>k. ensure k ''precision is unsupported''),
      ensure (\<not> (pr_execution_device r = JStr ''cpu'' \<and> pr_offload r = JStr ''sequential-cpu''))
        ''sequential CPU offload requires auto or accelerator execution'',
      check_optional_text ''accelerator_backend'' 64 (pr_accelerator_backend r),
      int_at_least 0 ''model_storage_bytes cannot be negative'' (pr_model_storage_bytes r),
      int_at_least 0 ''estimated_workspace_bytes cannot be negative'' (pr_estimated_workspace_bytes r),
      int_at_least 0 ''gpu_reserve_bytes cannot be negative'' (pr_gpu_reserve_bytes r),
      (if pr_minimum_host_memory_bytes r = JNull then Inr ()
       else int_at_least 1 ''minimum_host_memory_bytes must be positive when supplied'' (pr_minimum_host_memory_bytes r)),
      (if pr_maximum_vram_bytes r = JNull then Inr ()
       else int_at_least 1 ''maximum_vram_bytes must be positive when supplied'' (pr_maximum_vram_bytes r)),
      (if pr_minimum_accelerator_working_bytes r = JNull then Inr ()
       else int_at_least 1 ''minimum_accelerator_working_bytes must be positive when supplied''
              (pr_minimum_accelerator_working_bytes r)),
      tryE (is_flag_or_null (pr_runtime_supports_offload r)) (\<lambda>k.
        ensure k ''runtime_supports_sequential_cpu_offload must be boolean or null''),
      check_required (pr_required_capabilities r),
      tryE (is_negative (pr_resource_max_age_seconds r)) (\<lambda>negative.
        ensure (\<not> negative \<and> num_le (pr_resource_max_age_seconds r) (JInt 86400)) ''resource_max_age_seconds is outside its bound'')]"

definition validate_request :: "placement_request \<Rightarrow> unit result" where
  "validate_request r = all_checks (request_checks r)"

definition placement_request_fields :: "string list" where
  "placement_request_fields =
     [''schema_version'', ''execution_device'', ''accelerator_backend'', ''offload'', ''precision'', ''model_storage_bytes'',
      ''estimated_workspace_bytes'', ''minimum_host_memory_bytes'', ''gpu_reserve_bytes'', ''maximum_vram_bytes'',
      ''minimum_accelerator_working_bytes'', ''runtime_supports_sequential_cpu_offload'', ''required_capabilities'',
      ''resource_max_age_seconds'', ''placement_request_identity'']"

definition request_payload :: "placement_request \<Rightarrow> dict" where
  "request_payload r = dict_of
     [(''schema_version'', JStr PLACEMENT_REQUEST_SCHEMA), (''execution_device'', pr_execution_device r),
      (''accelerator_backend'', pr_accelerator_backend r), (''offload'', pr_offload r), (''precision'', pr_precision r),
      (''model_storage_bytes'', pr_model_storage_bytes r), (''estimated_workspace_bytes'', pr_estimated_workspace_bytes r),
      (''minimum_host_memory_bytes'', pr_minimum_host_memory_bytes r), (''gpu_reserve_bytes'', pr_gpu_reserve_bytes r),
      (''maximum_vram_bytes'', pr_maximum_vram_bytes r),
      (''minimum_accelerator_working_bytes'', pr_minimum_accelerator_working_bytes r),
      (''runtime_supports_sequential_cpu_offload'', pr_runtime_supports_offload r),
      (''required_capabilities'', JList (pr_required_capabilities r)),
      (''resource_max_age_seconds'', pr_resource_max_age_seconds r)]"

definition request_dict :: "placement_request \<Rightarrow> dict result" where
  "request_dict r =
     tryE (validate_request r) (\<lambda>_.
       Inr (fmupd ''placement_request_identity'' (JStr (sha256_identity (JObj (request_payload r)))) (request_payload r)))"

definition request_of_dict :: "dict \<Rightarrow> placement_request result" where
  "request_of_dict v =
     tryE (py_iter (dget v ''required_capabilities'')) (\<lambda>caps.
       Inr \<lparr>pr_execution_device = dget v ''execution_device'', pr_accelerator_backend = dget v ''accelerator_backend'',
            pr_offload = dget v ''offload'', pr_precision = dget v ''precision'',
            pr_model_storage_bytes = dget v ''model_storage_bytes'',
            pr_estimated_workspace_bytes = dget v ''estimated_workspace_bytes'',
            pr_minimum_host_memory_bytes = dget v ''minimum_host_memory_bytes'',
            pr_gpu_reserve_bytes = dget v ''gpu_reserve_bytes'', pr_maximum_vram_bytes = dget v ''maximum_vram_bytes'',
            pr_minimum_accelerator_working_bytes = dget v ''minimum_accelerator_working_bytes'',
            pr_runtime_supports_offload = dget v ''runtime_supports_sequential_cpu_offload'',
            pr_required_capabilities = caps, pr_resource_max_age_seconds = dget v ''resource_max_age_seconds''\<rparr>)"

text \<open>\<^verbatim>\<open>except (ValidationError, TypeError, ValueError)\<close>: the text of a caught built-in error is not modelled.\<close>

definition as_validation_error :: "'a result \<Rightarrow> 'a result" where
  "as_validation_error r =
     (case r of
        Inl PyTypeError \<Rightarrow> Inl (ValidationError ''placement request is invalid'')
      | Inl PyValueError \<Rightarrow> Inl (ValidationError ''placement request is invalid'')
      | _ \<Rightarrow> r)"

definition placement_request_from :: "json \<Rightarrow> placement_request result" where
  "placement_request_from v =
     as_validation_error
       (case v of
          JObj m \<Rightarrow>
            if dget m ''schema_version'' \<noteq> JStr PLACEMENT_REQUEST_SCHEMA
              then Inl (ValidationError ''unsupported placement request schema'')
            else if \<not> keys_are m placement_request_fields then Inl (ValidationError ''placement request fields are invalid'')
            else
              tryE (request_of_dict m) (\<lambda>r. tryE (validate_request r) (\<lambda>_.
                if \<not> verify_identity m ''placement_request_identity''
                  then Inl (ValidationError ''placement request identity does not verify'')
                else Inr r))
        | _ \<Rightarrow> Inl (ValidationError ''unsupported placement request schema''))"

end
