(* ===== verification/Placement_Decision.thy ===== *)
theory Placement_Decision
  imports Placement
begin

text \<open>
  \<^verbatim>\<open>evaluate_placement\<close> of \<^verbatim>\<open>src/src/mncs_fabric/resources.py\<close>: the decision tree over a validated request and snapshot,
  the record it returns, and the checks of that record and of references to it. A \<open>placement_outcome\<close> holds the keyword arguments
  of \<^verbatim>\<open>_decision\<close>.
\<close>

section \<open>Verdicts\<close>

record placement_outcome =
  vd_disposition :: string
  vd_mode :: string
  vd_code :: string
  vd_reason :: string
  vd_precision :: string
  vd_accelerator :: "dict option"
  vd_effective :: "int option"
  vd_required_gpu :: int
  vd_required_host :: int
  vd_runtime :: "dict option"
  vd_capability :: "dict option"

definition verdict_of :: "string \<Rightarrow> string \<Rightarrow> string \<Rightarrow> string \<Rightarrow> dict option \<Rightarrow> placement_outcome" where
  "verdict_of disposition mode code reason runtime =
     \<lparr>vd_disposition = disposition, vd_mode = mode, vd_code = code, vd_reason = reason, vd_precision = ''unknown'',
      vd_accelerator = None, vd_effective = None, vd_required_gpu = 0, vd_required_host = 0, vd_runtime = runtime,
      vd_capability = None\<rparr>"

abbreviation refused :: "string \<Rightarrow> string \<Rightarrow> dict option \<Rightarrow> placement_outcome" where
  "refused code reason runtime \<equiv> verdict_of ''UNKNOWN'' ''unknown'' code reason runtime"

definition opt_int :: "int option \<Rightarrow> json" where
  "opt_int x = (case x of None \<Rightarrow> JNull | Some n \<Rightarrow> JInt n)"

definition linked :: "dict option \<Rightarrow> string list \<Rightarrow> dict \<Rightarrow> dict" where
  "linked source keys value =
     (case source of None \<Rightarrow> value | Some m \<Rightarrow> fold (\<lambda>k acc. fmupd k (dget m k) acc) keys value)"

definition admission_record :: "dict \<Rightarrow> string \<Rightarrow> placement_outcome \<Rightarrow> dict" where
  "admission_record snapshot request_identity v =
     attach_identity
       (linked (vd_capability v) [''runtime_environment_identity'', ''runtime_capability_observation_identity'']
       (linked (vd_runtime v) [''runtime_profile_identity'', ''runtime_observation_identity'']
       (dict_of
         [(''schema_version'', JStr ADMISSION_SCHEMA), (''worker_identity'', dget snapshot ''worker_identity''),
          (''placement_request_identity'', JStr request_identity),
          (''resource_snapshot_identity'', dget snapshot ''resource_snapshot_identity''),
          (''disposition'', JStr (vd_disposition v)), (''admission_mode'', JStr (vd_mode v)),
          (''precision'', JStr (vd_precision v)), (''reason_code'', JStr (vd_code v)), (''reason'', JStr (vd_reason v)),
          (''selected_accelerator_identity'',
             (case vd_accelerator v of None \<Rightarrow> JNull | Some a \<Rightarrow> dget a ''hardware_identity'')),
          (''effective_accelerator_budget_bytes'', opt_int (vd_effective v)),
          (''required_accelerator_bytes'', JInt (vd_required_gpu v)),
          (''required_host_memory_bytes'', JInt (vd_required_host v)),
          (''claim_boundary'', JStr ''resource admission observation; not runtime execution proof, attestation, correctness, or assurance'')])))
       ''decision_identity''"

section \<open>Requirements and accelerators\<close>

definition int_val :: "json \<Rightarrow> int" where
  "int_val v = (case as_int v of None \<Rightarrow> 0 | Some n \<Rightarrow> n)"

definition str_val :: "json \<Rightarrow> string" where
  "str_val v = (case v of JStr s \<Rightarrow> s | _ \<Rightarrow> [])"

definition precision_bytes :: "int \<Rightarrow> string \<Rightarrow> int" where
  "precision_bytes model_bytes precision =
     (if precision \<in> {''float16'', ''bfloat16''} then (model_bytes + 1) div 2 else model_bytes)"

definition host_requirement :: "placement_request \<Rightarrow> string \<Rightarrow> int" where
  "host_requirement r mode =
     (let minimum = int_val (py_or (pr_minimum_host_memory_bytes r) (JInt 0)) in
      if mode = ''sequential-cpu-offload'' then max minimum (int_val (pr_model_storage_bytes r)) else minimum)"

definition snapshot_accelerators :: "dict \<Rightarrow> dict list" where
  "snapshot_accelerators snapshot =
     (case dget snapshot ''accelerators'' of
        JList xs \<Rightarrow> concat (map (\<lambda>x. case x of JObj a \<Rightarrow> [a] | _ \<Rightarrow> []) xs)
      | _ \<Rightarrow> [])"

definition select_accelerator :: "dict \<Rightarrow> placement_request \<Rightarrow> dict option" where
  "select_accelerator snapshot r =
     (let candidates = sort_key (\<lambda>a. int_val (dget a ''index'')) (snapshot_accelerators snapshot) in
      find_first (\<lambda>_. True)
        (if pr_accelerator_backend r \<noteq> JNull
         then filter (\<lambda>a. dget a ''backend'' = pr_accelerator_backend r) candidates else candidates))"

definition probe_passed :: "dict \<Rightarrow> string \<Rightarrow> bool" where
  "probe_passed accelerator precision =
     (case dget accelerator ''precision_probes'' of JObj p \<Rightarrow> dget p precision = JStr ''PASS'' | _ \<Rightarrow> False)"

definition precision_status :: "dict \<Rightarrow> string \<Rightarrow> string" where
  "precision_status accelerator precision =
     (if precision = ''auto'' then
        (case find_first (probe_passed accelerator) [''float32'', ''float16'', ''bfloat16''] of
           None \<Rightarrow> ''unknown'' | Some p \<Rightarrow> p)
      else if probe_passed accelerator precision then precision else ''unknown'')"

section \<open>The decision tree\<close>

text \<open>What the tree reads: the request, the available host memory, the capabilities and the two runtime observations.\<close>

record placement_view =
  vw_request :: placement_request
  vw_host :: "int option"
  vw_capabilities :: "string fset"
  vw_runtime :: "dict option"
  vw_capability :: "dict option"

abbreviation device_is :: "placement_view \<Rightarrow> string \<Rightarrow> bool" where
  "device_is w s \<equiv> pr_execution_device (vw_request w) = JStr s"

abbreviation offload_is :: "placement_view \<Rightarrow> string \<Rightarrow> bool" where
  "offload_is w s \<equiv> pr_offload (vw_request w) = JStr s"

definition host_lacks :: "placement_view \<Rightarrow> int \<Rightarrow> bool" where
  "host_lacks w required = (required \<noteq> 0 \<and> (case vw_host w of None \<Rightarrow> 0 | Some n \<Rightarrow> n) < required)"

definition cpu_decision :: "placement_view \<Rightarrow> placement_outcome" where
  "cpu_decision w =
     (let r = vw_request w;
          precision = (if pr_precision r = JStr ''auto'' then ''float32'' else str_val (pr_precision r));
          required = host_requirement r ''cpu'' in
      if precision \<noteq> ''float32'' \<and> ''placement:cpu-precision:'' @ precision |\<notin>| vw_capabilities w
        then (refused ''PRECISION_UNAVAILABLE'' ''CPU precision is not observed'' (vw_runtime w))\<lparr>vd_precision := precision\<rparr>
      else if required \<noteq> 0 \<and> vw_host w = None
        then (refused ''RESOURCE_OBSERVATION_UNKNOWN'' ''host memory is unknown'' (vw_runtime w))
               \<lparr>vd_precision := precision, vd_required_host := required\<rparr>
      else if host_lacks w required
        then (refused ''INSUFFICIENT_HOST_RAM'' ''available host memory is below the request'' (vw_runtime w))
               \<lparr>vd_precision := precision, vd_required_host := required\<rparr>
      else (verdict_of ''PASS'' ''cpu'' ''CPU_ELIGIBLE'' ''CPU resource requirements are satisfied'' (vw_runtime w))
             \<lparr>vd_precision := precision, vd_required_host := required\<rparr>)"

text \<open>The accelerator as the worker's interpreter probed it: the probe facts replace those of the snapshot.\<close>

definition overlay_runtime :: "dict option \<Rightarrow> dict option \<Rightarrow> placement_outcome + dict option" where
  "overlay_runtime accelerator runtime =
     (case (accelerator, runtime) of
        (Some a, Some o') \<Rightarrow>
          if dget o' ''accelerator_backend'' \<noteq> JNull \<and> dget o' ''accelerator_backend'' \<noteq> dget a ''backend''
            then Inl ((refused ''ACCELERATOR_UNAVAILABLE''
              ''runtime accelerator backend does not match the observed worker accelerator'' runtime)\<lparr>vd_accelerator := accelerator\<rparr>)
          else Inr (Some (fmupd ''precision_probes'' (dget o' ''precision_probes'')
                 (fmupd ''execution_probe'' (dget o' ''runtime_execution_probe'') a)))
      | _ \<Rightarrow> Inr accelerator)"

definition effective_budget :: "placement_request \<Rightarrow> int \<Rightarrow> int" where
  "effective_budget r free =
     (let effective = (if pr_maximum_vram_bytes r \<noteq> JNull then min free (int_val (pr_maximum_vram_bytes r)) else free) in
      max 0 (effective - int_val (pr_gpu_reserve_bytes r)))"

definition offload_proven :: "placement_view \<Rightarrow> bool" where
  "offload_proven w =
     (case vw_capability w of
        None \<Rightarrow> False
      | Some c \<Rightarrow> dget c ''capability'' = JStr ''sequential-cpu-offload'' \<and> dget c ''status'' = JStr ''PASS'')"

definition with_budget :: "placement_outcome \<Rightarrow> string \<Rightarrow> dict \<Rightarrow> int \<Rightarrow> int \<Rightarrow> int \<Rightarrow> placement_outcome" where
  "with_budget v precision accelerator effective gpu host =
     v\<lparr>vd_precision := precision, vd_accelerator := Some accelerator, vd_effective := Some effective,
       vd_required_gpu := gpu, vd_required_host := host\<rparr>"

definition offload_decision :: "placement_view \<Rightarrow> dict \<Rightarrow> string \<Rightarrow> int \<Rightarrow> int \<Rightarrow> placement_outcome" where
  "offload_decision w accelerator precision effective required =
     (let r = vw_request w in
      if pr_runtime_supports_offload r \<noteq> JBool True then
        (if offload_is w ''sequential-cpu'' \<or> device_is w ''accelerator'' then
           (with_budget (refused ''SEQUENTIAL_OFFLOAD_RUNTIME_UNSUPPORTED''
              ''consumer runtime did not declare sequential offload support'' (vw_runtime w)) precision accelerator effective required 0)
             \<lparr>vd_capability := vw_capability w\<rparr>
         else cpu_decision w)
      else if \<not> offload_proven w then
        with_budget (refused ''SEQUENTIAL_OFFLOAD_EXECUTION_UNVERIFIED''
          ''the exact worker runtime has no fresh sequential-offload execution proof'' (vw_runtime w)) precision accelerator effective required 0
      else
        let working = int_val (py_or (pr_minimum_accelerator_working_bytes r) (pr_estimated_workspace_bytes r));
            host = host_requirement r ''sequential-cpu-offload'' in
        if vw_host w = None \<and> host \<noteq> 0 then
          with_budget (refused ''RESOURCE_OBSERVATION_UNKNOWN'' ''host memory is unknown for sequential offload'' (vw_runtime w))
            precision accelerator effective working host
        else if host_lacks w host then
          with_budget (refused ''INSUFFICIENT_HOST_RAM'' ''host memory is insufficient for sequential offload'' (vw_runtime w))
            precision accelerator effective working host
        else if effective < working then
          with_budget (refused ''INSUFFICIENT_VRAM'' ''minimum accelerator working memory exceeds the effective budget'' (vw_runtime w))
            precision accelerator effective working host
        else
          (with_budget (verdict_of ''PASS'' ''sequential-cpu-offload'' ''SEQUENTIAL_CPU_OFFLOAD_ELIGIBLE''
             ''sequential offload resources and exact runtime proof are sufficient'' (vw_runtime w)) precision accelerator effective working host)
            \<lparr>vd_capability := vw_capability w\<rparr>)"

definition accelerator_decision :: "placement_view \<Rightarrow> dict \<Rightarrow> string \<Rightarrow> int \<Rightarrow> placement_outcome" where
  "accelerator_decision w accelerator precision free =
     (let r = vw_request w;
          effective = effective_budget r free;
          required = precision_bytes (int_val (pr_model_storage_bytes r)) precision + int_val (pr_estimated_workspace_bytes r);
          full_fits = (required \<le> effective) in
      if (offload_is w ''none'' \<or> offload_is w ''auto'' \<and> full_fits) \<and> full_fits then
        with_budget (verdict_of ''PASS'' ''full-accelerator'' ''FULL_ACCELERATOR_ELIGIBLE''
          ''full accelerator fits the effective observed budget'' (vw_runtime w)) precision accelerator effective required
          (host_requirement r ''full-accelerator'')
      else if (offload_is w ''none'' \<or> offload_is w ''auto'' \<and> full_fits) \<and> device_is w ''accelerator'' then
        with_budget (refused ''INSUFFICIENT_VRAM'' ''full accelerator exceeds the effective observed budget'' (vw_runtime w))
          precision accelerator effective required 0
      else if offload_is w ''sequential-cpu'' \<or> offload_is w ''auto'' \<and> \<not> full_fits then
        offload_decision w accelerator precision effective required
      else if device_is w ''auto'' then cpu_decision w
      else with_budget (refused ''INSUFFICIENT_VRAM'' ''requested accelerator placement is unavailable'' (vw_runtime w))
             precision accelerator effective required 0)"

definition probed_decision :: "placement_view \<Rightarrow> dict \<Rightarrow> placement_outcome" where
  "probed_decision w accelerator =
     (let precision = precision_status accelerator (str_val (pr_precision (vw_request w))) in
      if precision = ''unknown'' then
        (refused ''PRECISION_UNAVAILABLE'' ''requested accelerator precision was not probed'' (vw_runtime w))
          \<lparr>vd_accelerator := Some accelerator\<rparr>
      else
        (case dget accelerator ''free_memory_bytes'' of
           JInt free \<Rightarrow> accelerator_decision w accelerator precision free
         | _ \<Rightarrow> (refused ''RESOURCE_OBSERVATION_UNKNOWN'' ''accelerator free memory is unknown'' (vw_runtime w))
                  \<lparr>vd_precision := precision, vd_accelerator := Some accelerator\<rparr>))"

definition placement_verdict :: "placement_view \<Rightarrow> dict option \<Rightarrow> placement_outcome" where
  "placement_verdict w accelerator =
     (let must_accelerate = (device_is w ''accelerator'' \<or> offload_is w ''sequential-cpu'') in
      case overlay_runtime accelerator (vw_runtime w) of
        Inl v \<Rightarrow> v
      | Inr chosen \<Rightarrow>
          if device_is w ''cpu'' then cpu_decision w
          else
            (case chosen of
               None \<Rightarrow>
                 if must_accelerate
                 then refused ''ACCELERATOR_UNAVAILABLE'' ''requested accelerator backend is not observed'' (vw_runtime w)
                 else cpu_decision w
             | Some a \<Rightarrow>
                 if dget a ''execution_probe'' \<noteq> JStr ''PASS'' then
                   (if must_accelerate
                    then (refused ''ACCELERATOR_EXECUTION_UNVERIFIED''
                            ''accelerator was discovered but executable probe did not pass'' (vw_runtime w))\<lparr>vd_accelerator := Some a\<rparr>
                    else cpu_decision w)
                 else probed_decision w a))"

section \<open>evaluate_placement\<close>

text \<open>Validation and freshness of an observation that may be absent; the first value is stale.\<close>

definition check_runtime :: "int \<Rightarrow> json \<Rightarrow> string \<Rightarrow> dict option \<Rightarrow> (bool \<times> dict option) result" where
  "check_runtime now max_age worker x =
     (case x of
        None \<Rightarrow> Inr (False, None)
      | Some m \<Rightarrow>
          tryE (validate_runtime_observation (JObj m) (Some worker) None) (\<lambda>m.
          tryE (runtime_observation_is_fresh now m max_age) (\<lambda>fresh. Inr (\<not> fresh, Some m))))"

definition check_capability :: "int \<Rightarrow> json \<Rightarrow> string \<Rightarrow> dict option \<Rightarrow> (bool \<times> dict option) result" where
  "check_capability now max_age worker x =
     (case x of
        None \<Rightarrow> Inr (False, None)
      | Some m \<Rightarrow>
          tryE (validate_runtime_capability_observation (JObj m) (Some worker) None None None) (\<lambda>m.
          tryE (runtime_capability_observation_is_fresh now m max_age) (\<lambda>fresh. Inr (\<not> fresh, Some m))))"

definition request_capabilities :: "placement_request \<Rightarrow> string fset" where
  "request_capabilities r = fset_of_list (map str_val (pr_required_capabilities r))"

definition host_available :: "dict \<Rightarrow> int option" where
  "host_available snapshot = (case dget snapshot ''host_memory_available_bytes'' of JInt n \<Rightarrow> Some n | _ \<Rightarrow> None)"

definition snapshot_verdict ::
    "int \<Rightarrow> placement_request \<Rightarrow> dict \<Rightarrow> string fset \<Rightarrow> dict option \<Rightarrow> dict option \<Rightarrow> placement_outcome result" where
  "snapshot_verdict now r snapshot capabilities runtime capability =
     (let missing = sorted_list_of_fset (request_capabilities r |-| capabilities) in
      if missing \<noteq> [] then Inr (refused ''CAPABILITY_UNAVAILABLE'' (repr_strs missing) runtime)
      else
        tryE (resource_snapshot_is_fresh now snapshot (pr_resource_max_age_seconds r)) (\<lambda>fresh.
          if \<not> fresh then Inr (refused ''RESOURCE_OBSERVATION_STALE'' ''resource snapshot exceeds freshness bound'' runtime)
          else Inr (placement_verdict
            \<lparr>vw_request = r, vw_host = host_available snapshot, vw_capabilities = capabilities, vw_runtime = runtime,
             vw_capability = capability\<rparr> (select_accelerator snapshot r))))"

definition evaluate_placement ::
    "int \<times> int \<times> int \<Rightarrow> json \<Rightarrow> dict \<Rightarrow> string fset \<Rightarrow> dict option \<Rightarrow> dict option \<Rightarrow> dict result" where
  "evaluate_placement clock request snapshot capabilities runtime capability =
     (case clock of (now1, now2, now3) \<Rightarrow>
      tryE (placement_request_from request) (\<lambda>r.
      tryE (validate_resource_snapshot (JObj snapshot)) (\<lambda>snapshot.
      let max_age = pr_resource_max_age_seconds r;
          worker = str_val (dget snapshot ''worker_identity'');
          done = (\<lambda>v. tryE (request_dict r) (\<lambda>d.
             Inr (admission_record snapshot (str_val (dget d ''placement_request_identity'')) v))) in
      tryE (check_runtime now1 max_age worker runtime) (\<lambda>(stale, runtime).
        if stale then done (refused ''RESOURCE_OBSERVATION_STALE''
            ''runtime observation exceeds the placement freshness bound'' runtime)
        else
          tryE (check_capability now2 max_age worker capability) (\<lambda>(stale, capability).
            if stale then done ((refused ''RESOURCE_OBSERVATION_STALE''
                ''runtime capability observation exceeds the placement freshness bound'' runtime)\<lparr>vd_capability := capability\<rparr>)
            else tryE (snapshot_verdict now3 r snapshot capabilities runtime capability) done)))))"

section \<open>Admissions and references\<close>

definition validate_admission :: "json \<Rightarrow> dict result" where
  "validate_admission v =
     (case v of
        JObj m \<Rightarrow>
          if dget m ''schema_version'' \<noteq> JStr ADMISSION_SCHEMA
            then Inl (ValidationError ''unsupported placement admission schema'')
          else if \<not> verify_identity m ''decision_identity''
            then Inl (ValidationError ''placement admission identity does not verify'')
          else
            tryE (in_strset (dget m ''disposition'') DISPOSITIONS) (\<lambda>d.
            tryE (if d then in_strset (dget m ''admission_mode'') MODES else Inr False) (\<lambda>a.
            tryE (if a then in_strset (dget m ''reason_code'') REASONS else Inr False) (\<lambda>c.
              tryE (all_checks (
                [ensure c ''placement admission disposition or reason is invalid'',
                 ensure (is_sha256_identity (dget m ''placement_request_identity'')
                         \<and> is_sha256_identity (dget m ''resource_snapshot_identity''))
                   ''placement admission identities are invalid'']
                @ map (if_present m (\<lambda>k x. ensure (is_sha256_identity x) (''placement admission '' @ k @ '' is invalid'')))
                    [''runtime_profile_identity'', ''runtime_observation_identity'', ''runtime_environment_identity'',
                     ''runtime_capability_observation_identity''])) (\<lambda>_. Inr m))))
      | _ \<Rightarrow> Inl (ValidationError ''unsupported placement admission schema''))"

definition build_placement_reference :: "dict \<Rightarrow> json \<Rightarrow> dict result" where
  "build_placement_reference admission observation_identity =
     tryE (validate_admission (JObj admission)) (\<lambda>checked.
       if observation_identity \<noteq> JNull \<and> \<not> is_sha256_identity observation_identity
         then Inl (ValidationError ''placement observation identity is invalid'')
       else Inr (attach_identity (dict_of
         [(''schema_version'', JStr REFERENCE_SCHEMA),
          (''placement_request_identity'', dget checked ''placement_request_identity''),
          (''resource_snapshot_identity'', dget checked ''resource_snapshot_identity''),
          (''admission_decision_identity'', dget checked ''decision_identity''),
          (''admission_mode'', dget checked ''admission_mode''),
          (''placement_observation_identity'', observation_identity)]) ''reference_identity''))"

definition reference_fields :: "string list" where
  "reference_fields =
     [''schema_version'', ''placement_request_identity'', ''resource_snapshot_identity'', ''admission_decision_identity'',
      ''admission_mode'', ''placement_observation_identity'', ''reference_identity'']"

definition validate_placement_reference :: "json \<Rightarrow> dict result" where
  "validate_placement_reference v =
     (case v of
        JObj m \<Rightarrow>
          if dget m ''schema_version'' \<noteq> JStr REFERENCE_SCHEMA
            then Inl (ValidationError ''unsupported placement reference schema'')
          else
            tryE (if keys_are m reference_fields then in_strset (dget m ''admission_mode'') MODES else Inr False) (\<lambda>known.
            tryE (all_checks (
              [ensure known ''placement reference fields are invalid'']
              @ map (\<lambda>k. ensure (is_sha256_identity (dget m k)) (k @ '' is invalid''))
                  [''placement_request_identity'', ''resource_snapshot_identity'', ''admission_decision_identity'']
              @ [ensure (dget m ''placement_observation_identity'' = JNull
                         \<or> is_sha256_identity (dget m ''placement_observation_identity''))
                   ''placement observation identity is invalid'',
                 ensure (verify_identity m ''reference_identity'') ''placement reference identity does not verify''])) (\<lambda>_. Inr m))
      | _ \<Rightarrow> Inl (ValidationError ''unsupported placement reference schema''))"

end
