(* ===== verification/Placement_Safety.thy ===== *)
theory Placement_Safety
  imports Placement_Decision
begin

text \<open>
  What an admission promises: the memory a mode needs is there, the accelerator was probed at the precision that is
  announced, sequential offload was proven, and a request for an accelerator is never moved to the CPU. The host memory
  floor of a request is not looked at when the whole model fits an accelerator.
\<close>

section \<open>Verdicts\<close>

lemma verdict_of_fields [simp]:
  "vd_disposition (verdict_of d m c t r) = d" "vd_mode (verdict_of d m c t r) = m" "vd_runtime (verdict_of d m c t r) = r"
  "vd_code (verdict_of d m c t r) = c" "vd_precision (verdict_of d m c t r) = ''unknown''"
  by (simp_all add: verdict_of_def)

lemma with_budget_fields [simp]:
  "vd_disposition (with_budget v p a e g h) = vd_disposition v" "vd_mode (with_budget v p a e g h) = vd_mode v"
  "vd_precision (with_budget v p a e g h) = p" "vd_accelerator (with_budget v p a e g h) = Some a"
  "vd_effective (with_budget v p a e g h) = Some e" "vd_required_gpu (with_budget v p a e g h) = g"
  "vd_required_host (with_budget v p a e g h) = h"
  by (simp_all add: with_budget_def)

definition host_suffices :: "placement_view \<Rightarrow> int \<Rightarrow> bool" where
  "host_suffices w required = (required = 0 \<or> (case vw_host w of None \<Rightarrow> False | Some h \<Rightarrow> required \<le> h))"

definition cpu_admissible :: "placement_view \<Rightarrow> placement_outcome \<Rightarrow> bool" where
  "cpu_admissible w v =
     (vd_mode v = ''cpu'' \<and> \<not> device_is w ''accelerator'' \<and> vd_required_host v = host_requirement (vw_request w) ''cpu''
      \<and> host_suffices w (vd_required_host v)
      \<and> (vd_precision v = ''float32'' \<or> ''placement:cpu-precision:'' @ vd_precision v |\<in>| vw_capabilities w))"

text \<open>
  The accelerator \<open>a\<close> is the selected one as the interpreter of the worker probed it; its execution and the precision
  were proven, the precision is the one asked for, and its free memory is known.
\<close>

definition accelerator_ready :: "placement_view \<Rightarrow> dict option \<Rightarrow> dict \<Rightarrow> string \<Rightarrow> bool" where
  "accelerator_ready w selected a precision =
     (overlay_runtime selected (vw_runtime w) = Inr (Some a) \<and> \<not> device_is w ''cpu''
      \<and> dget a ''execution_probe'' = JStr ''PASS'' \<and> probe_passed a precision
      \<and> str_val (pr_precision (vw_request w)) \<in> {''auto'', precision} \<and> (\<exists>n. dget a ''free_memory_bytes'' = JInt n))"

definition accelerator_probed :: "placement_view \<Rightarrow> dict option \<Rightarrow> placement_outcome \<Rightarrow> bool" where
  "accelerator_probed w selected v =
     (case vd_accelerator v of None \<Rightarrow> False | Some a \<Rightarrow> accelerator_ready w selected a (vd_precision v))"

text \<open>Needed bytes and the reserve fit what the accelerator has free and the request may use.\<close>

definition budget_holds :: "placement_request \<Rightarrow> placement_outcome \<Rightarrow> bool" where
  "budget_holds r v =
     (case vd_accelerator v of
        None \<Rightarrow> False
      | Some a \<Rightarrow>
          vd_required_gpu v \<le> 0
          \<or> vd_required_gpu v + int_val (pr_gpu_reserve_bytes r) \<le> int_val (dget a ''free_memory_bytes'')
            \<and> (pr_maximum_vram_bytes r = JNull
               \<or> vd_required_gpu v + int_val (pr_gpu_reserve_bytes r) \<le> int_val (pr_maximum_vram_bytes r)))"

definition full_admissible :: "placement_view \<Rightarrow> dict option \<Rightarrow> placement_outcome \<Rightarrow> bool" where
  "full_admissible w selected v =
     (vd_mode v = ''full-accelerator'' \<and> accelerator_probed w selected v \<and> budget_holds (vw_request w) v
      \<and> vd_required_gpu v = precision_bytes (int_val (pr_model_storage_bytes (vw_request w))) (vd_precision v)
          + int_val (pr_estimated_workspace_bytes (vw_request w)))"

definition offload_admissible :: "placement_view \<Rightarrow> dict option \<Rightarrow> placement_outcome \<Rightarrow> bool" where
  "offload_admissible w selected v =
     (vd_mode v = ''sequential-cpu-offload'' \<and> accelerator_probed w selected v \<and> budget_holds (vw_request w) v
      \<and> offload_proven w \<and> pr_runtime_supports_offload (vw_request w) = JBool True
      \<and> host_suffices w (vd_required_host v) \<and> int_val (pr_model_storage_bytes (vw_request w)) \<le> vd_required_host v)"

definition admissible :: "placement_view \<Rightarrow> dict option \<Rightarrow> placement_outcome \<Rightarrow> bool" where
  "admissible w selected v = (cpu_admissible w v \<or> full_admissible w selected v \<or> offload_admissible w selected v)"

lemma host_lacks_suffices: "\<not> host_lacks w n \<Longrightarrow> vw_host w \<noteq> None \<or> n = 0 \<Longrightarrow> host_suffices w n"
  by (auto simp: host_lacks_def host_suffices_def)

lemma cpu_decision_passes:
  assumes "vd_disposition (cpu_decision w) = ''PASS''" and "\<not> device_is w ''accelerator''"
  shows "cpu_admissible w (cpu_decision w)"
proof -
  let ?n = "host_requirement (vw_request w) ''cpu''"
  have "\<not> (?n \<noteq> 0 \<and> vw_host w = None) \<and> \<not> host_lacks w ?n"
    using assms(1) unfolding cpu_decision_def Let_def by (auto split: if_splits)
  moreover have "vd_mode (cpu_decision w) = ''cpu'' \<and> vd_required_host (cpu_decision w) = ?n
    \<and> (vd_precision (cpu_decision w) = ''float32''
      \<or> ''placement:cpu-precision:'' @ vd_precision (cpu_decision w) |\<in>| vw_capabilities w)"
    using assms(1) unfolding cpu_decision_def Let_def by (auto split: if_splits)
  ultimately show ?thesis using assms(2) host_lacks_suffices [of w ?n] by (auto simp: cpu_admissible_def)
qed

lemma budget_of_effective:
  assumes "dget a ''free_memory_bytes'' = JInt free" and "vd_accelerator v = Some a"
    and "vd_required_gpu v \<le> effective_budget r free"
  shows "budget_holds r v"
  using assms by (simp add: budget_holds_def effective_budget_def int_val_def max_def min_def split: if_splits)

lemma offload_decision_passes:
  assumes "vd_disposition (offload_decision w a p (effective_budget (vw_request w) free) required) = ''PASS''"
    and "dget a ''free_memory_bytes'' = JInt free" and "accelerator_ready w selected a p"
  shows "admissible w selected (offload_decision w a p (effective_budget (vw_request w) free) required)"
proof (cases "pr_runtime_supports_offload (vw_request w) = JBool True")
  case False
  show ?thesis
  proof (cases "offload_is w ''sequential-cpu'' \<or> device_is w ''accelerator''")
    case True
    with False assms(1) show ?thesis by (simp add: offload_decision_def)
  next
    case never: False
    with False have eq: "offload_decision w a p (effective_budget (vw_request w) free) required = cpu_decision w"
      by (simp add: offload_decision_def)
    with assms(1) never cpu_decision_passes show ?thesis by (simp add: admissible_def)
  qed
next
  case True
  let ?e = "effective_budget (vw_request w) free"
  let ?h = "host_requirement (vw_request w) ''sequential-cpu-offload''"
  let ?v = "offload_decision w a p ?e required"
  let ?work = "int_val (py_or (pr_minimum_accelerator_working_bytes (vw_request w)) (pr_estimated_workspace_bytes (vw_request w)))"
  from assms(1) True have ok: "offload_proven w" "\<not> (vw_host w = None \<and> ?h \<noteq> 0)" "\<not> host_lacks w ?h" "?work \<le> ?e"
    by (simp_all add: offload_decision_def split: if_splits)
  have v: "?v = (with_budget (verdict_of ''PASS'' ''sequential-cpu-offload'' ''SEQUENTIAL_CPU_OFFLOAD_ELIGIBLE''
             ''sequential offload resources and exact runtime proof are sufficient'' (vw_runtime w)) p a ?e ?work ?h)
            \<lparr>vd_capability := vw_capability w\<rparr>"
    unfolding offload_decision_def Let_def using True ok by auto
  have "host_suffices w ?h" using host_lacks_suffices [OF ok(3)] ok(2) by auto
  moreover have "int_val (pr_model_storage_bytes (vw_request w)) \<le> ?h" by (simp add: host_requirement_def)
  moreover have "budget_holds (vw_request w) ?v"
    by (rule budget_of_effective [OF assms(2)]) (simp_all add: v ok(4))
  moreover have "accelerator_probed w selected ?v" using assms(3) by (simp add: v accelerator_probed_def)
  ultimately have "offload_admissible w selected ?v" using True ok(1) by (simp add: offload_admissible_def v)
  then show ?thesis by (simp add: admissible_def)
qed

lemma accelerator_decision_passes:
  assumes "vd_disposition (accelerator_decision w a p free) = ''PASS''"
    and "dget a ''free_memory_bytes'' = JInt free" and "accelerator_ready w selected a p"
  shows "admissible w selected (accelerator_decision w a p free)"
proof -
  let ?v = "accelerator_decision w a p free"
  let ?e = "effective_budget (vw_request w) free"
  let ?req = "precision_bytes (int_val (pr_model_storage_bytes (vw_request w))) p
      + int_val (pr_estimated_workspace_bytes (vw_request w))"
  consider (full) "(offload_is w ''none'' \<or> offload_is w ''auto'') \<and> ?req \<le> ?e"
    | (offload) "?v = offload_decision w a p ?e ?req"
    | (cpu) "?v = cpu_decision w" "device_is w ''auto''"
    using assms(1) unfolding accelerator_decision_def Let_def by (auto split: if_splits)
  then show ?thesis
  proof cases
    case full
    then have v: "?v = with_budget (verdict_of ''PASS'' ''full-accelerator'' ''FULL_ACCELERATOR_ELIGIBLE''
          ''full accelerator fits the effective observed budget'' (vw_runtime w)) p a ?e ?req
          (host_requirement (vw_request w) ''full-accelerator'')"
      unfolding accelerator_decision_def Let_def by auto
    have "budget_holds (vw_request w) ?v"
      by (rule budget_of_effective [OF assms(2)]) (simp_all add: v full)
    then have "full_admissible w selected ?v" using assms(3) by (simp add: full_admissible_def v accelerator_probed_def)
    then show ?thesis by (simp add: admissible_def)
  next
    case offload
    with assms offload_decision_passes show ?thesis by simp
  next
    case cpu
    with assms(1) cpu_decision_passes [of w] show ?thesis by (simp add: admissible_def)
  qed
qed

lemma precision_status_probed:
  assumes "precision_status a p \<noteq> ''unknown''"
  shows "probe_passed a (precision_status a p) \<and> p \<in> {''auto'', precision_status a p}"
  using assms by (auto simp: precision_status_def dest: find_first_Some split: option.splits if_splits)

lemma placement_verdict_passes:
  assumes "vd_disposition (placement_verdict w acc) = ''PASS''"
  shows "admissible w acc (placement_verdict w acc)"
proof -
  let ?v = "placement_verdict w acc"
  from assms obtain chosen where o: "overlay_runtime acc (vw_runtime w) = Inr chosen"
    by (auto simp: placement_verdict_def overlay_runtime_def split: option.splits if_splits)
  have cpu: "admissible w acc ?v" if "?v = cpu_decision w" "\<not> device_is w ''accelerator''"
    using that assms cpu_decision_passes [of w] by (simp add: admissible_def)
  show ?thesis
  proof (cases "device_is w ''cpu''")
    case True
    then show ?thesis using o by (intro cpu) (simp_all add: placement_verdict_def)
  next
    case gpu: False
    show ?thesis
    proof (cases chosen)
      case None
      with assms o gpu show ?thesis by (intro cpu) (simp_all add: placement_verdict_def split: if_splits)
    next
      case (Some a)
      show ?thesis
      proof (cases "dget a ''execution_probe'' = JStr ''PASS''")
        case False
        with assms o gpu Some show ?thesis by (intro cpu) (simp_all add: placement_verdict_def split: if_splits)
      next
        case True
        then have v: "?v = probed_decision w a" using o gpu Some by (simp add: placement_verdict_def)
        let ?p = "precision_status a (str_val (pr_precision (vw_request w)))"
        from assms v have p: "?p \<noteq> ''unknown''" by (auto simp: probed_decision_def)
        with assms v obtain free where f: "dget a ''free_memory_bytes'' = JInt free"
          by (cases "dget a ''free_memory_bytes''") (simp_all add: probed_decision_def)
        with p v have v': "?v = accelerator_decision w a ?p free" by (simp add: probed_decision_def)
        from precision_status_probed [OF p] o gpu Some True f have "accelerator_ready w acc a ?p"
          by (simp add: accelerator_ready_def)
        from accelerator_decision_passes [OF assms [unfolded v'] f this]
        show ?thesis unfolding v' .
      qed
    qed
  qed
qed

section \<open>Decisions\<close>

lemma dget_linked: "k \<notin> set ks \<Longrightarrow> dget (linked m ks v) k = dget v k"
proof -
  have "dget (fold (\<lambda>k acc. fmupd k (f k) acc) ks v) k = dget v k" if "k \<notin> set ks" for f :: "string \<Rightarrow> json"
    using that by (induction ks arbitrary: v) auto
  then show "k \<notin> set ks \<Longrightarrow> dget (linked m ks v) k = dget v k" by (simp add: linked_def split: option.split)
qed

lemma admission_record_fields:
  "dget (admission_record snap i v) ''disposition'' = JStr (vd_disposition v)"
  "dget (admission_record snap i v) ''admission_mode'' = JStr (vd_mode v)"
  "dget (admission_record snap i v) ''precision'' = JStr (vd_precision v)"
  "dget (admission_record snap i v) ''required_accelerator_bytes'' = JInt (vd_required_gpu v)"
  "dget (admission_record snap i v) ''required_host_memory_bytes'' = JInt (vd_required_host v)"
  "verify_identity (admission_record snap i v) ''decision_identity''"
  by (simp_all add: admission_record_def dget_linked attach_identity_verifies)

definition runtime_current :: "int \<Rightarrow> json \<Rightarrow> string \<Rightarrow> dict option \<Rightarrow> bool" where
  "runtime_current now max_age worker x =
     (case x of
        None \<Rightarrow> True
      | Some m \<Rightarrow> validate_runtime_observation (JObj m) (Some worker) None = Inr m
          \<and> runtime_observation_is_fresh now m max_age = Inr True)"

definition capability_current :: "int \<Rightarrow> json \<Rightarrow> string \<Rightarrow> dict option \<Rightarrow> bool" where
  "capability_current now max_age worker x =
     (case x of
        None \<Rightarrow> True
      | Some m \<Rightarrow> validate_runtime_capability_observation (JObj m) (Some worker) None None None = Inr m
          \<and> runtime_capability_observation_is_fresh now m max_age = Inr True)"

text \<open>All that a passing decision rests on, read off the snapshot, the request and the observations.\<close>

definition snapshot_admits ::
    "int \<times> int \<times> int \<Rightarrow> placement_request \<Rightarrow> dict \<Rightarrow> string fset \<Rightarrow> dict option \<Rightarrow> dict option \<Rightarrow> placement_outcome \<Rightarrow> bool" where
  "snapshot_admits clock r snapshot caps runtime capability v =
     (case clock of (now1, now2, now3) \<Rightarrow>
        let max_age = pr_resource_max_age_seconds r; worker = str_val (dget snapshot ''worker_identity'') in
        request_capabilities r |\<subseteq>| caps \<and> resource_snapshot_is_fresh now3 snapshot max_age = Inr True
        \<and> runtime_current now1 max_age worker runtime \<and> capability_current now2 max_age worker capability
        \<and> admissible \<lparr>vw_request = r, vw_host = host_available snapshot, vw_capabilities = caps, vw_runtime = runtime,
             vw_capability = capability\<rparr> (select_accelerator snapshot r) v)"

lemma check_runtime_current:
  "check_runtime now max_age worker x = Inr (False, y) \<Longrightarrow> y = x \<and> runtime_current now max_age worker x"
  by (auto simp: check_runtime_def runtime_current_def validate_runtime_observation_def tryE_eq_Inr split: option.splits)

lemma check_capability_current:
  "check_capability now max_age worker x = Inr (False, y) \<Longrightarrow> y = x \<and> capability_current now max_age worker x"
  by (auto simp: check_capability_def capability_current_def validate_runtime_capability_observation_def tryE_eq_Inr
      split: option.splits)

lemma validate_resource_snapshot_same: "validate_resource_snapshot (JObj m) = Inr n \<Longrightarrow> n = m"
  by (auto simp: validate_resource_snapshot_def tryE_eq_Inr)

lemma snapshot_verdict_passes:
  assumes "snapshot_verdict now r snapshot caps runtime capability = Inr v" and "vd_disposition v = ''PASS''"
  shows "request_capabilities r |\<subseteq>| caps \<and> resource_snapshot_is_fresh now snapshot (pr_resource_max_age_seconds r) = Inr True
    \<and> admissible \<lparr>vw_request = r, vw_host = host_available snapshot, vw_capabilities = caps, vw_runtime = runtime,
         vw_capability = capability\<rparr> (select_accelerator snapshot r) v"
proof -
  have missing: "sorted_list_of_fset (request_capabilities r |-| caps) = []"
  proof (rule ccontr)
    assume "sorted_list_of_fset (request_capabilities r |-| caps) \<noteq> []"
    with assms(1) have "vd_disposition v = ''UNKNOWN''" by (auto simp: snapshot_verdict_def)
    with assms(2) show False by simp
  qed
  then have sub: "request_capabilities r |\<subseteq>| caps" by simp
  from assms(1) missing obtain fresh where
    f: "resource_snapshot_is_fresh now snapshot (pr_resource_max_age_seconds r) = Inr fresh"
    unfolding snapshot_verdict_def Let_def by (auto simp: tryE_eq_Inr)
  have fresh: "fresh"
  proof (rule ccontr)
    assume "\<not> fresh"
    with assms(1) missing f have "vd_disposition v = ''UNKNOWN''" unfolding snapshot_verdict_def Let_def by auto
    with assms(2) show False by simp
  qed
  let ?w = "\<lparr>vw_request = r, vw_host = host_available snapshot, vw_capabilities = caps, vw_runtime = runtime,
             vw_capability = capability\<rparr>"
  from assms(1) missing f fresh have "v = placement_verdict ?w (select_accelerator snapshot r)"
    unfolding snapshot_verdict_def Let_def by auto
  with assms(2) placement_verdict_passes [of ?w "select_accelerator snapshot r"]
  have "admissible ?w (select_accelerator snapshot r) v" by simp
  with sub f fresh show ?thesis by simp
qed

lemma evaluate_placementE:
  assumes "evaluate_placement (n1, n2, n3) request snapshot caps runtime capability = Inr d"
    and "dget d ''disposition'' = JStr ''PASS''"
  obtains r v i where "placement_request_from request = Inr r" "d = admission_record snapshot i v"
    "vd_disposition v = ''PASS''" "snapshot_admits (n1, n2, n3) r snapshot caps runtime capability v"
proof -
  from assms(1) obtain r snap where r: "placement_request_from request = Inr r"
    and snap: "validate_resource_snapshot (JObj snapshot) = Inr snap"
    by (auto simp: evaluate_placement_def tryE_eq_Inr)
  have snap_eq: "snap = snapshot" using validate_resource_snapshot_same [OF snap] .
  let ?age = "pr_resource_max_age_seconds r"
  let ?worker = "str_val (dget snapshot ''worker_identity'')"
  from assms(1) r snap obtain s1 rt where c1: "check_runtime n1 ?age ?worker runtime = Inr (s1, rt)"
    unfolding evaluate_placement_def Let_def prod.case r snap snap_eq tryE_Inr by (auto simp: tryE_eq_Inr)
  show ?thesis
  proof (cases s1)
    case True
    from assms(1) obtain dd where "d = admission_record snapshot dd (refused ''RESOURCE_OBSERVATION_STALE''
            ''runtime observation exceeds the placement freshness bound'' rt)"
      unfolding evaluate_placement_def Let_def prod.case r snap snap_eq tryE_Inr c1 if_P [OF True] tryE_eq_Inr by blast
    with assms(2) show ?thesis by (simp add: admission_record_fields)
  next
    case False
    from assms(1) obtain s2 cp where c2: "check_capability n2 ?age ?worker capability = Inr (s2, cp)"
      unfolding evaluate_placement_def Let_def prod.case r snap snap_eq tryE_Inr c1 if_not_P [OF False]
      by (auto simp: tryE_eq_Inr)
    show ?thesis
    proof (cases s2)
      case True
      from assms(1) obtain dd where "d = admission_record snapshot dd ((refused ''RESOURCE_OBSERVATION_STALE''
          ''runtime capability observation exceeds the placement freshness bound'' rt)\<lparr>vd_capability := cp\<rparr>)"
        unfolding evaluate_placement_def Let_def prod.case r snap snap_eq tryE_Inr c1 if_not_P [OF False] c2 if_P [OF True]
          tryE_eq_Inr by blast
      with assms(2) show ?thesis by (simp add: admission_record_fields)
    next
      case fresh: False
      from assms(1) obtain v dd where v: "snapshot_verdict n3 r snapshot caps rt cp = Inr v" "d = admission_record snapshot dd v"
        unfolding evaluate_placement_def Let_def prod.case r snap snap_eq tryE_Inr c1 if_not_P [OF False] c2 if_not_P [OF fresh]
          tryE_eq_Inr by blast
      from assms(2) v(2) have pass: "vd_disposition v = ''PASS''" by (simp add: admission_record_fields)
      have "snapshot_admits (n1, n2, n3) r snapshot caps runtime capability v"
        using check_runtime_current [of n1 ?age ?worker runtime rt] c1 False
          check_capability_current [of n2 ?age ?worker capability cp] c2 fresh snapshot_verdict_passes [OF v(1) pass]
        by (auto simp: snapshot_admits_def)
      then show ?thesis using that [OF r v(2) pass] by blast
    qed
  qed
qed

text \<open>
  C38: A placement that is admitted has what its mode needs: the required capabilities are among the worker's, the snapshot is
  fresh, and the host memory, the probed accelerator with its free memory after the reserve, or the proof of sequential
  offload suffice for the bytes the decision states. The decision carries its own identity.
\<close>

theorem admitted_placement_fits:
  assumes "evaluate_placement (n1, n2, n3) request snapshot caps runtime capability = Inr d"
    and "dget d ''disposition'' = JStr ''PASS''"
  shows "\<exists>r v. placement_request_from request = Inr r \<and> snapshot_admits (n1, n2, n3) r snapshot caps runtime capability v
    \<and> dget d ''admission_mode'' = JStr (vd_mode v) \<and> dget d ''precision'' = JStr (vd_precision v)
    \<and> dget d ''required_accelerator_bytes'' = JInt (vd_required_gpu v)
    \<and> dget d ''required_host_memory_bytes'' = JInt (vd_required_host v) \<and> verify_identity d ''decision_identity''"
proof -
  from assms obtain r v i where r: "placement_request_from request = Inr r" and d: "d = admission_record snapshot i v"
    and v: "snapshot_admits (n1, n2, n3) r snapshot caps runtime capability v"
    by (rule evaluate_placementE)
  then show ?thesis by (intro exI [of _ r] exI [of _ v]) (simp add: admission_record_fields)
qed

section \<open>A request and a machine\<close>

definition sample_request :: "string \<Rightarrow> int \<Rightarrow> placement_request" where
  "sample_request device host =
     \<lparr>pr_execution_device = JStr device, pr_accelerator_backend = JNull, pr_offload = JStr ''auto'',
      pr_precision = JStr ''float32'', pr_model_storage_bytes = JInt 100, pr_estimated_workspace_bytes = JInt 0,
      pr_minimum_host_memory_bytes = JInt host, pr_gpu_reserve_bytes = JInt 0, pr_maximum_vram_bytes = JNull,
      pr_minimum_accelerator_working_bytes = JNull, pr_runtime_supports_offload = JNull, pr_required_capabilities = [],
      pr_resource_max_age_seconds = JInt 300\<rparr>"

definition sample_request_json :: json where
  "sample_request_json = JObj (attach_identity (request_payload (sample_request ''cpu'' 1000)) ''placement_request_identity'')"

definition sample_machine :: dict where
  "sample_machine = attach_identity (dict_of
     [(''schema_version'', JStr RESOURCE_SCHEMA), (''worker_identity'', JStr ''w1''),
      (''captured_at'', JStr ''2026-01-01T00:00:00Z''), (''host_memory_total_bytes'', JInt 4000),
      (''host_memory_available_bytes'', JInt 2000), (''cpu_logical_count'', JInt 4), (''architecture'', JNull),
      (''accelerators'', JList []), (''observation_source'', JStr ''probe''), (''node_fingerprint'', JNull),
      (''resource_snapshot_identity'', JNull)]) ''resource_snapshot_identity''"

definition sample_accelerator :: dict where
  "sample_accelerator = dict_of
     [(''index'', JInt 0), (''execution_probe'', JStr ''PASS''), (''free_memory_bytes'', JInt 1000),
      (''precision_probes'', obj [(''float32'', JStr ''PASS'')])]"

lemma sample_request_valid: "validate_request (sample_request ''cpu'' 1000) = Inr ()"
  unfolding validate_request_def all_checks_eq_Inr
  by (simp add: request_checks_def sample_request_def ensure_def PRECISIONS_def check_optional_text_def int_at_least_def
      is_flag_or_null_def check_required_def is_negative_def num_le_def)

lemma sample_request_from: "placement_request_from sample_request_json = Inr (sample_request ''cpu'' 1000)"
proof -
  let ?r = "sample_request ''cpu'' 1000"
  let ?m = "attach_identity (request_payload ?r) ''placement_request_identity''"
  have keys: "keys_are ?m placement_request_fields"
  proof -
    have "fmdom ?m = finsert ''placement_request_identity'' (fmdom (request_payload ?r))"
      by (rule fset_eqI) (auto simp: fmlookup_dom_iff)
    then show ?thesis by (simp add: keys_are_def request_payload_def placement_request_fields_def) auto
  qed
  have "request_of_dict ?m = Inr ?r"
    by (simp add: request_of_dict_def request_payload_def py_iter_def)
  moreover have "dget ?m ''schema_version'' = JStr PLACEMENT_REQUEST_SCHEMA" by (simp add: request_payload_def)
  ultimately show ?thesis
    using keys sample_request_valid
    by (simp add: sample_request_json_def placement_request_from_def attach_identity_verifies as_validation_error_def)
qed

lemma sample_machine_valid: "validate_resource_snapshot (JObj sample_machine) = Inr sample_machine"
proof -
  have keys: "keys_are sample_machine snapshot_fields"
    unfolding keys_are_def
    by (rule fset_eqI) (auto simp: fmlookup_dom_iff sample_machine_def snapshot_fields_def fmlookup_of_list)
  have "verify_identity sample_machine ''resource_snapshot_identity''"
    by (simp add: sample_machine_def attach_identity_verifies)
  moreover have "dget sample_machine ''schema_version'' = JStr RESOURCE_SCHEMA"
    "dget sample_machine ''worker_identity'' = JStr ''w1''" "dget sample_machine ''captured_at'' = JStr ''2026-01-01T00:00:00Z''"
    "dget sample_machine ''host_memory_total_bytes'' = JInt 4000" "dget sample_machine ''host_memory_available_bytes'' = JInt 2000"
    "dget sample_machine ''cpu_logical_count'' = JInt 4" "dget sample_machine ''architecture'' = JNull"
    "dget sample_machine ''accelerators'' = JList []" "dget sample_machine ''observation_source'' = JStr ''probe''"
    "dget sample_machine ''node_fingerprint'' = JNull"
    by (simp_all add: sample_machine_def)
  ultimately show ?thesis
    using keys unfolding validate_resource_snapshot_def json.case
    by (simp add: snapshot_checks_def ensure_def check_text_def text_field_def resource_stamp_def parse_examples
        instant_of_offset_def instant_range check_nonnegative_def is_nonnegative_int_def check_optional_text_def
        check_accelerators_def)
qed

lemma sample_evaluation:
  "\<exists>d. evaluate_placement (0, 0, 1767225600000000) sample_request_json sample_machine {||} None None = Inr d
     \<and> dget d ''disposition'' = JStr ''PASS'' \<and> dget d ''required_host_memory_bytes'' = JInt 1000"
proof -
  let ?r = "sample_request ''cpu'' 1000"
  have fresh: "resource_snapshot_is_fresh 1767225600000000 sample_machine (pr_resource_max_age_seconds ?r) = Inr True"
  proof -
    have "dget sample_machine ''captured_at'' = JStr ''2026-01-01T00:00:00Z''" by (simp add: sample_machine_def)
    then show ?thesis
      by (simp add: resource_snapshot_is_fresh_def resource_snapshot_age_def sample_machine_valid timestamp_examples
          sample_request_def is_negative_def within_age_def)
  qed
  have host: "host_available sample_machine = Some 2000" by (simp add: host_available_def sample_machine_def)
  have caps: "request_capabilities ?r = {||}" by (simp add: request_capabilities_def sample_request_def)
  let ?w = "\<lparr>vw_request = ?r, vw_host = Some 2000, vw_capabilities = {||}, vw_runtime = None, vw_capability = None\<rparr>"
  have "placement_verdict ?w acc = cpu_decision ?w" for acc
    by (simp add: placement_verdict_def overlay_runtime_def sample_request_def split: option.split)
  moreover have "vd_disposition (cpu_decision ?w) = ''PASS'' \<and> vd_required_host (cpu_decision ?w) = 1000"
    by (simp add: cpu_decision_def sample_request_def host_requirement_def host_lacks_def str_val_def int_val_def py_or_def)
  ultimately obtain v where v: "snapshot_verdict 1767225600000000 ?r sample_machine {||} None None = Inr v"
    "vd_disposition v = ''PASS''" "vd_required_host v = 1000"
    by (simp add: snapshot_verdict_def caps fresh host)
  have "\<exists>dd. request_dict ?r = Inr dd" by (simp add: request_dict_def sample_request_valid)
  then show ?thesis
    using v
    by (auto simp: evaluate_placement_def sample_request_from sample_machine_valid check_runtime_def check_capability_def
        admission_record_fields)
qed

theorem admitted_placement_fits_witness:
  "\<exists>d r v. evaluate_placement (0, 0, 1767225600000000) sample_request_json sample_machine {||} None None = Inr d
     \<and> placement_request_from sample_request_json = Inr r
     \<and> snapshot_admits (0, 0, 1767225600000000) r sample_machine {||} None None v
     \<and> dget d ''required_host_memory_bytes'' = JInt (vd_required_host v) \<and> verify_identity d ''decision_identity''"
proof -
  from sample_evaluation obtain d where d: "evaluate_placement (0, 0, 1767225600000000) sample_request_json sample_machine {||} None None = Inr d"
    "dget d ''disposition'' = JStr ''PASS''" by blast
  from admitted_placement_fits [OF d] d show ?thesis by blast
qed

section \<open>The host memory floor\<close>

lemma cpu_mode: "vd_mode (cpu_decision w) \<noteq> ''full-accelerator''"
  by (simp add: cpu_decision_def)

lemma offload_mode: "vd_mode (offload_decision w a p e n) \<noteq> ''full-accelerator''"
  by (simp add: offload_decision_def cpu_mode)

lemmas other_modes = cpu_mode offload_mode

lemma accelerator_decision_full:
  assumes "vd_mode (accelerator_decision w a p free) = ''full-accelerator''"
  shows "accelerator_decision (w\<lparr>vw_host := h\<rparr>) a p free = accelerator_decision w a p free
    \<and> vd_disposition (accelerator_decision w a p free) = ''PASS''"
proof -
  let ?r = "vw_request w"
  have "(offload_is w ''none'' \<or> offload_is w ''auto'')
    \<and> precision_bytes (int_val (pr_model_storage_bytes ?r)) p + int_val (pr_estimated_workspace_bytes ?r)
        \<le> effective_budget ?r free"
    using assms other_modes unfolding accelerator_decision_def Let_def by (auto split: if_splits)
  then show ?thesis unfolding accelerator_decision_def Let_def by auto
qed

text \<open>
  Where the whole model fits an accelerator the available host memory plays no part: the same placement is admitted
  however little of it there is, although the decision states the host memory the request asks for.
\<close>

theorem full_fit_ignores_host_memory:
  assumes "vd_mode (placement_verdict w acc) = ''full-accelerator''"
  shows "placement_verdict (w\<lparr>vw_host := h\<rparr>) acc = placement_verdict w acc
    \<and> vd_disposition (placement_verdict w acc) = ''PASS''"
proof -
  let ?v = "placement_verdict w acc"
  from assms obtain chosen where o: "overlay_runtime acc (vw_runtime w) = Inr chosen"
    by (auto simp: placement_verdict_def overlay_runtime_def split: option.splits if_splits)
  have gpu: "\<not> device_is w ''cpu''" using assms o other_modes(1) [of w] by (auto simp: placement_verdict_def)
  obtain a where a: "chosen = Some a" "dget a ''execution_probe'' = JStr ''PASS''"
    using assms o gpu other_modes(1) [of w] by (cases chosen) (auto simp: placement_verdict_def split: if_splits)
  have step: "placement_verdict w' acc = probed_decision w' a"
    if "vw_runtime w' = vw_runtime w" "vw_request w' = vw_request w" for w'
    using that o gpu a by (simp add: placement_verdict_def)
  let ?p = "precision_status a (str_val (pr_precision (vw_request w)))"
  have p: "?p \<noteq> ''unknown''" using assms step [of w] by (auto simp: probed_decision_def)
  obtain free where f: "dget a ''free_memory_bytes'' = JInt free"
    using assms step [of w] p by (cases "dget a ''free_memory_bytes''") (simp_all add: probed_decision_def)
  have acc: "placement_verdict w' acc = accelerator_decision w' a ?p free"
    if "vw_runtime w' = vw_runtime w" "vw_request w' = vw_request w" for w'
    using step [OF that] that p f by (simp add: probed_decision_def)
  from accelerator_decision_full [of w a ?p free h] assms acc [of w] acc [of "w\<lparr>vw_host := h\<rparr>"] show ?thesis by simp
qed

theorem full_fit_ignores_host_memory_witness:
  "\<exists>v. placement_verdict \<lparr>vw_request = sample_request ''auto'' 1000, vw_host = Some 1, vw_capabilities = {||},
       vw_runtime = None, vw_capability = None\<rparr> (Some sample_accelerator) = v
     \<and> vd_disposition v = ''PASS'' \<and> vd_required_host v = 1000"
proof -
  let ?w = "\<lparr>vw_request = sample_request ''auto'' 1000, vw_host = Some 5000, vw_capabilities = {||},
       vw_runtime = None, vw_capability = None\<rparr>"
  have v: "vd_mode (placement_verdict ?w (Some sample_accelerator)) = ''full-accelerator''"
    "vd_required_host (placement_verdict ?w (Some sample_accelerator)) = 1000"
    by (simp_all add: placement_verdict_def overlay_runtime_def probed_decision_def accelerator_decision_def
        sample_accelerator_def sample_request_def precision_status_def probe_passed_def str_val_def precision_bytes_def int_val_def
        effective_budget_def host_requirement_def py_or_def)
  from full_fit_ignores_host_memory [OF v(1), of "Some 1"] v(2) show ?thesis by simp
qed

end
