(* ===== verification/Schedule_Placement.thy ===== *)
theory Schedule_Placement
  imports Schedule_Safety Placement_Safety
begin

text \<open>
  The schedule with the placement check of \<^verbatim>\<open>resources.py\<close> in place of its parameter: what a scheduled worker's own resource
  snapshot holds of the request.
\<close>

definition placement_fits :: "int \<times> int \<times> int \<Rightarrow> json \<Rightarrow> worker_slot \<Rightarrow> bool" where
  "placement_fits clock request s =
     (case (placement_request_from request, sl_resource_snapshot s) of
        (Inr r, Some snapshot) \<Rightarrow>
          (\<exists>v. snapshot_admits clock r snapshot (sl_capabilities s) (sl_runtime_observation s)
                 (sl_runtime_capability_observation s) v)
      | _ \<Rightarrow> False)"

lemma slot_passes_fits:
  assumes "slot_passes (evaluate_placement clock) request s"
  shows "placement_fits clock request s"
proof -
  from assms obtain a where a: "slot_admission (evaluate_placement clock) request s = Inr a" "dget a ''disposition'' = JStr ''PASS''"
    by (auto simp: slot_passes_def split: sum.splits)
  then obtain snapshot where snap: "sl_resource_snapshot s = Some snapshot"
    by (cases "sl_resource_snapshot s") (auto simp: slot_admission_def unknown_admission_def)
  obtain n1 n2 n3 where clock: "clock = (n1, n2, n3)" by (cases clock)
  from a snap have "evaluate_placement (n1, n2, n3) request snapshot (sl_capabilities s) (sl_runtime_observation s)
      (sl_runtime_capability_observation s) = Inr a"
    by (simp add: slot_admission_def clock)
  from this a(2) obtain r v where "placement_request_from request = Inr r"
    and "snapshot_admits (n1, n2, n3) r snapshot (sl_capabilities s) (sl_runtime_observation s)
      (sl_runtime_capability_observation s) v"
    by (rule evaluate_placementE) blast
  with snap show ?thesis unfolding placement_fits_def clock by auto
qed

lemma chosen_slots:
  assumes "schedule evaluate plan slots n placement i preferred query None = Inr d" and "distinct (map sl_worker_id slots)"
  obtains q chosen where "sd_worker_ids d = map sl_worker_id chosen"
    "\<And>s. s \<in> set chosen \<Longrightarrow> s \<in> set slots \<and> chosen_soundly evaluate placement q s"
  using assms(1)
proof (rule scheduleE)
  fix checked q fleet admissions admitted
  assume fleet: "resolve_fleet q (map snapshot_for_slot slots) 1 None = Inr fleet"
    and admit: "admit_slots evaluate placement (sort_key (slot_rank (fl_per_worker fleet))
       (filter (slot_admissible (fl_per_worker fleet)) slots)) = Inr (admissions, admitted)"
    and d: "(if length admitted < nat n
      then refusal fleet (missing_capabilities (plan_capabilities checked) slots) (placement \<noteq> None) admissions
      else Inr \<lparr>sd_disposition = ''PASS'', sd_worker_ids = map sl_worker_id (take (nat n) admitted),
             sd_reason = (if placement \<noteq> None then ''exact capability and resource admission match''
                          else ''exact capability match and admission available''),
             sd_admissions = admissions, sd_resolution = Some (explain_selection fleet)\<rparr>) = Inr d"
  show thesis
  proof (cases "length admitted < nat n")
    case True
    with d have "sd_worker_ids d = []" by (auto dest: refusal_names_none)
    then show thesis by (intro that [of "[]"]) simp_all
  next
    case False
    with d have "sd_worker_ids d = map sl_worker_id (take (nat n) admitted)" by auto
    then show thesis using admitted_sound [OF fleet assms(2) admit]
      by (intro that [of "take (nat n) admitted"]) (auto dest: in_set_takeD)
  qed
qed

definition machine_slots :: "worker_slot list" where
  "machine_slots = map (\<lambda>s. s\<lparr>sl_resource_snapshot := Some sample_machine\<rparr>) two_slots"

lemma machine_slots_schedule:
  "\<exists>d. schedule (evaluate_placement (0, 0, 1767225600000000)) (JObj sample_plan) machine_slots 1 (Some sample_request_json)
        ''normal'' {||} None None = Inr d \<and> sd_worker_ids d = [''a'']"
proof -
  let ?eval = "evaluate_placement (0, 0, 1767225600000000)"
  let ?n = "normalized_plan sample_plan ''work'' [''out.json'']"
  have "dget ?n ''required_capabilities'' = JList [JStr ''os:linux'']"
    by (simp add: dget_normalized_plan(1)) (simp add: sample_plan_def)
  then have caps: "plan_capabilities ?n = {|''os:linux''|}" by (simp add: plan_capabilities_def)
  have q: "schedule_query {|''os:linux''|} {||} ''normal'' None = Inr linux_query"
    by (simp add: schedule_query_def init_query_def linux_query_fields) (simp add: token_query_def INTENT_VALUES_def)
  have same: "snapshot_for_slot (s\<lparr>sl_resource_snapshot := x\<rparr>) = snapshot_for_slot s"
    "slot_admissible rs (s\<lparr>sl_resource_snapshot := x\<rparr>) = slot_admissible rs s"
    "slot_rank rs (s\<lparr>sl_resource_snapshot := x\<rparr>) = slot_rank rs s" for s x rs
    by (cases s, simp add: snapshot_for_slot_def slot_admissible_def slot_rank_def cong: option.case_cong)+
  from two_slots_fleet obtain fleet where fleet: "resolve_fleet linux_query (map snapshot_for_slot two_slots) 1 None = Inr fleet"
    by blast
  have snaps: "map snapshot_for_slot machine_slots = map snapshot_for_slot two_slots"
    by (simp add: machine_slots_def same)
  note slot = two_slots_admissible [OF fleet]
  have order: "sort_key (slot_rank (fl_per_worker fleet)) (filter (slot_admissible (fl_per_worker fleet)) machine_slots)
      = machine_slots"
    using slot [of "sample_slot ''a'' True"] slot [of "sample_slot ''b'' False"] by (simp add: machine_slots_def same)
  obtain a where a: "?eval sample_request_json sample_machine {||} None None = Inr a" "dget a ''disposition'' = JStr ''PASS''"
    using sample_evaluation by blast
  have adm: "slot_admission ?eval sample_request_json s = Inr a" if "s \<in> set machine_slots" for s
    using that a by (auto simp: machine_slots_def slot_admission_def sample_slot_def)
  have "\<exists>bs. foldE (admit_slot ?eval sample_request_json) xs (as, acc) = Inr (bs, acc @ xs)"
    if "set xs \<subseteq> set machine_slots" for xs as acc
    using that
  proof (induction xs arbitrary: as acc)
    case (Cons x xs)
    then have "admit_slot ?eval sample_request_json x (as, acc)
        = Inr (as @ [dict_of [(''worker_id'', JStr (sl_worker_id x))] ++\<^sub>f a], acc @ [x])"
      using adm [of x] a(2) by (simp add: admit_slot_def)
    moreover have "\<exists>bs. foldE (admit_slot ?eval sample_request_json) xs (as', acc @ [x]) = Inr (bs, (acc @ [x]) @ xs)" for as'
      using Cons.prems by (intro Cons.IH) simp
    ultimately show ?case by simp
  qed simp
  from this [OF subset_refl, of "[]" "[]"] obtain bs where
    "admit_slots ?eval (Some sample_request_json) machine_slots = Inr (bs, machine_slots)"
    by (auto simp: admit_slots_def)
  then show ?thesis
    unfolding schedule_def sample_plan_valid tryE_Inr Let_def caps q snaps fleet order
    by (simp add: machine_slots_def)
qed

text \<open>
  C39: A worker that is scheduled under a placement request has a resource snapshot of its own that can hold the request in
  some mode, and every capability the request asks for.
\<close>

theorem scheduled_placement_fits:
  assumes "schedule (evaluate_placement clock) plan slots n (Some request) i preferred query None = Inr d"
    and "distinct (map sl_worker_id slots)"
  shows "\<exists>chosen. sd_worker_ids d = map sl_worker_id chosen
    \<and> list_all (\<lambda>s. s \<in> set slots \<and> placement_fits clock request s) chosen"
proof -
  from assms obtain q chosen where ids: "sd_worker_ids d = map sl_worker_id chosen"
    and s: "\<And>s. s \<in> set chosen \<Longrightarrow> s \<in> set slots \<and> chosen_soundly (evaluate_placement clock) (Some request) q s"
    by (rule chosen_slots) blast
  have "s \<in> set slots \<and> placement_fits clock request s" if "s \<in> set chosen" for s
    using s [OF that] slot_passes_fits [of clock request s] by (simp add: chosen_soundly_def)
  with ids show ?thesis by (auto simp: list_all_iff)
qed

theorem scheduled_placement_fits_witness:
  "\<exists>d chosen. schedule (evaluate_placement (0, 0, 1767225600000000)) (JObj sample_plan) machine_slots 1
        (Some sample_request_json) ''normal'' {||} None None = Inr d
     \<and> map sl_worker_id chosen = [''a''] \<and> list_all (\<lambda>s. s \<in> set machine_slots \<and> placement_fits (0, 0, 1767225600000000) sample_request_json s) chosen"
proof -
  from machine_slots_schedule obtain d where d: "schedule (evaluate_placement (0, 0, 1767225600000000)) (JObj sample_plan)
      machine_slots 1 (Some sample_request_json) ''normal'' {||} None None = Inr d" "sd_worker_ids d = [''a'']" by blast
  have "distinct (map sl_worker_id machine_slots)" by (simp add: machine_slots_def)
  from scheduled_placement_fits [OF d(1) this] d show ?thesis by fastforce
qed

end
