(* ===== verification/Reconcile.thy ===== *)
theory Reconcile
  imports Job_Plan
begin

text \<open>
  \<^verbatim>\<open>src/src/mncs_fabric/reconcile.py\<close>: the comparison of the execution records of a cohort. A set of JSON values
  is the set of its elements, and building it raises on a list or a dict, which Python cannot hash.
\<close>

section \<open>Operations\<close>

text \<open>\<^verbatim>\<open>len(set(xs))\<close>\<close>

definition set_size :: "json list \<Rightarrow> nat result" where
  "set_size xs = (if list_all hashable xs then Inr (card (set xs)) else Inl PyTypeError)"

definition record_label :: "dict \<Rightarrow> json" where
  "record_label r =
     (case dget r ''node'' of
        JObj node \<Rightarrow> dget_default node ''machine_label'' (JStr ''<unknown>'')
      | _ \<Rightarrow> JStr ''<unknown>'')"

text \<open>The loop over the records: the reasons of the refused ones, and the accepted ones in order.\<close>

definition check_record :: "nat \<Rightarrow> json \<Rightarrow> string + dict" where
  "check_record index v =
     (case v of
        JObj r \<Rightarrow>
          if dget r ''schema_version'' \<noteq> JStr EXECUTION_SCHEMA
            then Inl (''record['' @ show_nat index @ ''] has an unsupported schema'')
          else if \<not> verify_identity r ''record_id''
            then Inl (''record['' @ show_nat index @ ''] identity does not verify'')
          else Inr r
      | _ \<Rightarrow> Inl (''record['' @ show_nat index @ ''] has an unsupported schema''))"

fun check_records :: "nat \<Rightarrow> json list \<Rightarrow> string list \<times> dict list" where
  "check_records index [] = ([], [])"
| "check_records index (v # vs) =
     (case check_records (Suc index) vs of (reasons, valid) \<Rightarrow>
        (case check_record index v of Inl reason \<Rightarrow> (reason # reasons, valid) | Inr r \<Rightarrow> (reasons, r # valid)))"

definition IDENTITY_FIELDS :: "string list" where
  "IDENTITY_FIELDS = [''job_identity'', ''candidate_identity'', ''evaluator_identity'', ''artifact_manifest_identity'']"

definition disagreement :: "dict list \<Rightarrow> string \<Rightarrow> string list result" where
  "disagreement records field =
     tryE (set_size (map (\<lambda>r. dget r field) records)) (\<lambda>n.
       Inr (if n \<noteq> 1 then [''records disagree on '' @ field] else []))"

definition duplicate_labels :: "bool \<Rightarrow> dict list \<Rightarrow> string list result" where
  "duplicate_labels require_distinct records =
     (if \<not> require_distinct then Inr []
      else
        tryE (set_size (map record_label records)) (\<lambda>n.
          Inr (if n \<noteq> length records then [''cohort contains duplicate machine labels''] else [])))"

text \<open>\<^verbatim>\<open>any(record["outcome"] ... for record in records)\<close>: stops at the first that holds.\<close>

fun any_outcome :: "(json \<Rightarrow> bool) \<Rightarrow> dict list \<Rightarrow> bool result" where
  "any_outcome P [] = Inr False"
| "any_outcome P (r # rs) = tryE (dsub r ''outcome'') (\<lambda>v. if P v then Inr True else any_outcome P rs)"

text \<open>\<^verbatim>\<open>entry[k]\<close> for a string \<^verbatim>\<open>k\<close>, on a value that may not be a dict.\<close>

definition jsub :: "json \<Rightarrow> string \<Rightarrow> json result" where
  "jsub v k = (case v of JObj m \<Rightarrow> dsub m k | _ \<Rightarrow> Inl PyTypeError)"

definition result_entry :: "json \<Rightarrow> (json \<times> json \<times> json) result" where
  "result_entry v =
     tryE (jsub v ''path'') (\<lambda>p. tryE (jsub v ''size'') (\<lambda>n. tryE (jsub v ''sha256'') (\<lambda>h. Inr (p, n, h))))"

definition result_vector :: "dict \<Rightarrow> (json \<times> json \<times> json) list result" where
  "result_vector r = tryE (py_iter (dget_default r ''results'' (JList []))) (mapE result_entry)"

definition vectors_agree :: "(json \<times> json \<times> json) list list \<Rightarrow> bool result" where
  "vectors_agree vs =
     (if list_all (list_all (\<lambda>(p, n, h). hashable p \<and> hashable n \<and> hashable h)) vs then Inr (card (set vs) = 1)
      else Inl PyTypeError)"

definition compare_results :: "dict list \<Rightarrow> (string \<times> string) result" where
  "compare_results records =
     tryE (any_outcome (\<lambda>v. v = JStr ''FAIL'') records) (\<lambda>failed.
       if failed then Inr (''FAIL'', ''one or more executions returned FAIL'')
       else
         tryE (any_outcome (\<lambda>v. v \<noteq> JStr ''PASS'') records) (\<lambda>incomplete.
           if incomplete then Inr (''UNKNOWN'', ''one or more executions did not complete with PASS'')
           else
             tryE (mapE result_vector records) (\<lambda>vectors.
             tryE (vectors_agree vectors) (\<lambda>same.
               Inr (if \<not> same then (''FAIL'', ''declared result artifacts disagree across records'')
                    else (''PASS'', ''all verified records agree on declared result artifacts''))))))"

definition cohort_outcome :: "bool \<Rightarrow> json list \<Rightarrow> string list \<Rightarrow> dict list \<Rightarrow> (string \<times> string list) result" where
  "cohort_outcome require_distinct records reasons valid =
     (if length valid \<noteq> length records then Inr (''FAIL'', reasons)
      else
        tryE (mapE (disagreement valid) IDENTITY_FIELDS) (\<lambda>ds.
        tryE (duplicate_labels require_distinct valid) (\<lambda>ls.
          let reasons = reasons @ concat ds @ ls in
          if reasons \<noteq> [] then Inr (''FAIL'', reasons)
          else tryE (compare_results valid) (\<lambda>(outcome, reason). Inr (outcome, [reason])))))"

definition first_field :: "dict list \<Rightarrow> string \<Rightarrow> json" where
  "first_field valid k = (case valid of [] \<Rightarrow> JNull | r # _ \<Rightarrow> dget r k)"

definition cohort_record :: "json list \<Rightarrow> dict list \<Rightarrow> string \<Rightarrow> string list \<Rightarrow> dict" where
  "cohort_record records valid outcome reasons = dict_of
     [(''schema_version'', JStr COHORT_SCHEMA), (''job_identity'', first_field valid ''job_identity''),
      (''candidate_identity'', first_field valid ''candidate_identity''),
      (''evaluator_identity'', first_field valid ''evaluator_identity''),
      (''artifact_manifest_identity'', first_field valid ''artifact_manifest_identity''),
      (''record_identities'', JList (map (\<lambda>r. dget r ''record_id'') valid)),
      (''machine_labels'', JList (map record_label valid)), (''record_count'', JInt (int (length records))),
      (''outcome'', JStr outcome), (''reasons'', JList (map JStr reasons)),
      (''evidence_class'', JStr (if length records = 1 then ''LOCAL_REPRODUCTION'' else ''OPERATOR_CONTROLLED_CROSS_HOST'')),
      (''independent_evaluation'', JStr ''UNKNOWN''), (''protected_custody'', JStr ''UNKNOWN''),
      (''limitations'', JList
         [JStr ''A shared operator controls the controller and participating machines.'',
          JStr ''A cohort PASS does not establish organizational independence, protected holdout, or formal MNCS conformance.''])]"

definition reconcile_records :: "json list \<Rightarrow> bool \<Rightarrow> dict result" where
  "reconcile_records records require_distinct =
     (if records = [] then Inl (ValidationError ''at least one execution record is required'')
      else
        (case check_records 0 records of (reasons, valid) \<Rightarrow>
           tryE (cohort_outcome require_distinct records reasons valid) (\<lambda>(outcome, reasons).
             Inr (attach_identity (cohort_record records valid outcome reasons) ''cohort_id''))))"

section \<open>Lemmas\<close>

lemma check_records_all_valid:
  assumes "check_records i vs = (reasons, valid)" and "length valid = length vs"
  shows "reasons = []" "vs = map JObj valid"
    "list_all (\<lambda>r. dget r ''schema_version'' = JStr EXECUTION_SCHEMA \<and> verify_identity r ''record_id'') valid"
proof -
  have len: "length (snd (check_records i vs)) \<le> length vs" for i vs
    by (induction i vs rule: check_records.induct) (auto split: prod.splits sum.splits)
  have "reasons = [] \<and> vs = map JObj valid
      \<and> list_all (\<lambda>r. dget r ''schema_version'' = JStr EXECUTION_SCHEMA \<and> verify_identity r ''record_id'') valid"
    using assms
  proof (induction i vs arbitrary: reasons valid rule: check_records.induct)
    case (2 i v vs)
    obtain rs ok where rest: "check_records (Suc i) vs = (rs, ok)" by fastforce
    have "length ok \<le> length vs" using len [of "Suc i" vs] rest by simp
    with 2(2,3) rest obtain r where r: "check_record i v = Inr r" "valid = r # ok" "reasons = rs"
      by (auto split: sum.splits)
    with 2(1) [OF rest] 2(3) show ?case
      by (cases v) (auto simp: check_record_def split: if_splits)
  qed simp
  then show "reasons = []" "vs = map JObj valid"
    "list_all (\<lambda>r. dget r ''schema_version'' = JStr EXECUTION_SCHEMA \<and> verify_identity r ''record_id'') valid"
    by blast+
qed

lemma any_outcome_False:
  "any_outcome P rs = Inr False \<longleftrightarrow> list_all (\<lambda>r. \<exists>v. fmlookup r ''outcome'' = Some v \<and> \<not> P v) rs"
  by (induction rs) (auto simp: tryE_eq_Inr dsub_eq_Inr split: if_splits)

lemma card_set_one: "card (set xs) = 1 \<longleftrightarrow> xs \<noteq> [] \<and> list_all (\<lambda>x. x = hd xs) xs"
proof -
  have "card (set xs) = 1 \<longleftrightarrow> (\<exists>x. set xs = {x})" by (simp add: card_1_singleton_iff)
  then show ?thesis by (cases xs) (auto simp: list_all_iff)
qed

lemma disagreement_empty:
  assumes "disagreement rs k = Inr []"
  shows "list_all (\<lambda>r. dget r k = dget (hd rs) k) rs"
proof (cases rs)
  case (Cons a as)
  from assms have "card (set (map (\<lambda>r. dget r k) rs)) = 1"
    by (auto simp: disagreement_def set_size_def tryE_eq_Inr split: if_splits)
  with Cons show ?thesis unfolding card_set_one by (simp add: list_all_iff)
qed simp

lemma duplicate_labels_empty:
  assumes "duplicate_labels require_distinct rs = Inr []"
  shows "require_distinct \<longrightarrow> distinct (map record_label rs)"
  using assms
  by (auto simp: duplicate_labels_def set_size_def tryE_eq_Inr card_distinct split: if_splits)

lemma compare_results_pass:
  assumes "compare_results rs = Inr (''PASS'', reason)" and "rs \<noteq> []"
  shows "list_all (\<lambda>r. dget r ''outcome'' = JStr ''PASS'') rs"
    "\<exists>vector. list_all (\<lambda>r. result_vector r = Inr vector) rs"
proof -
  from assms(1) obtain vectors where out: "any_outcome (\<lambda>v. v \<noteq> JStr ''PASS'') rs = Inr False"
    and vec: "mapE result_vector rs = Inr vectors" "vectors_agree vectors = Inr True"
    by (auto simp: compare_results_def tryE_eq_Inr split: if_splits)
  show "list_all (\<lambda>r. dget r ''outcome'' = JStr ''PASS'') rs"
    using out by (auto simp: any_outcome_False list_all_iff dget_def)
  have "card (set vectors) = 1" using vec(2) by (auto simp: vectors_agree_def split: if_splits)
  then have "\<forall>v \<in> set vectors. v = hd vectors" unfolding card_set_one list_all_iff by blast
  then have "list_all (\<lambda>r. result_vector r = Inr (hd vectors)) rs"
    using mapE_set2 [OF vec(1)] by (fastforce simp: list_all_iff)
  then show "\<exists>vector. list_all (\<lambda>r. result_vector r = Inr vector) rs" ..
qed

lemma cohort_outcome_pass:
  assumes "cohort_outcome d records reasons valid = Inr (''PASS'', out)"
  shows "length valid = length records" "mapE (disagreement valid) IDENTITY_FIELDS = Inr [[], [], [], []]"
    "duplicate_labels d valid = Inr []" "\<exists>reason. compare_results valid = Inr (''PASS'', reason)"
proof -
  from assms show len: "length valid = length records"
    by (auto simp: cohort_outcome_def split: if_splits)
  with assms obtain ds ls where ds: "mapE (disagreement valid) IDENTITY_FIELDS = Inr ds"
    and ls: "duplicate_labels d valid = Inr ls"
    and rest: "(if reasons @ concat ds @ ls \<noteq> [] then Inr (''FAIL'', reasons @ concat ds @ ls)
        else tryE (compare_results valid) (\<lambda>(outcome, reason). Inr (outcome, [reason]))) = Inr (''PASS'', out)"
    unfolding cohort_outcome_def Let_def
    by (cases "mapE (disagreement valid) IDENTITY_FIELDS"; cases "duplicate_labels d valid") auto
  have none: "reasons @ concat ds @ ls = []"
  proof (rule ccontr)
    assume "reasons @ concat ds @ ls \<noteq> []"
    with rest show False by (simp only: if_True sum.inject prod.inject) simp
  qed
  then have empty: "concat ds = []" "ls = []" by simp_all
  from rest have "tryE (compare_results valid) (\<lambda>(outcome, reason). Inr (outcome, [reason])) = Inr (''PASS'', out)"
    unfolding none by simp
  then show "\<exists>reason. compare_results valid = Inr (''PASS'', reason)"
    by (cases "compare_results valid") (simp_all split: prod.splits)
  from ls empty show "duplicate_labels d valid = Inr []" by simp
  have "length ds = 4" using mapE_length [OF ds] by (simp add: IDENTITY_FIELDS_def)
  moreover have "ds = replicate (length ds) []" using empty(1) by (intro replicate_eqI) auto
  ultimately have "ds = [[], [], [], []]" by (simp add: numeral_eq_Suc)
  with ds show "mapE (disagreement valid) IDENTITY_FIELDS = Inr [[], [], [], []]" by simp
qed

text \<open>
  C40: A cohort is reported as passed only if every record verifies under its own identity, all agree on the job, the
  candidate, the evaluator and the artifacts, come from distinct machines where that is asked for, passed, and
  declare the same results. The report carries its own identity.
\<close>

theorem cohort_pass_is_agreement:
  assumes "reconcile_records records require_distinct = Inr c" and "dget c ''outcome'' = JStr ''PASS''"
  shows "verify_identity c ''cohort_id'' \<and>
    (\<exists>valid vector. records = map JObj valid
      \<and> list_all (\<lambda>r. verify_identity r ''record_id'' \<and> dget r ''outcome'' = JStr ''PASS'' \<and> result_vector r = Inr vector) valid
      \<and> list_all (\<lambda>k. list_all (\<lambda>r. dget r k = dget c k) valid) IDENTITY_FIELDS
      \<and> (require_distinct \<longrightarrow> distinct (map record_label valid)))"
proof -
  from assms(1) obtain reasons valid outcome out where ne: "records \<noteq> []"
    and chk: "check_records 0 records = (reasons, valid)"
    and co: "cohort_outcome require_distinct records reasons valid = Inr (outcome, out)"
    and c: "c = attach_identity (cohort_record records valid outcome out) ''cohort_id''"
    by (auto simp: reconcile_records_def tryE_eq_Inr split: if_splits prod.splits)
  from assms(2) have "outcome = ''PASS''" by (simp add: c cohort_record_def)
  with co have co: "cohort_outcome require_distinct records reasons valid = Inr (''PASS'', out)" by simp
  note parts = cohort_outcome_pass [OF co]
  note valid = check_records_all_valid [OF chk parts(1)]
  have nev: "valid \<noteq> []" using ne valid(2) by auto
  from parts(4) obtain reason where "compare_results valid = Inr (''PASS'', reason)" ..
  note res = compare_results_pass [OF this nev]
  from res(2) obtain vector where vec: "list_all (\<lambda>r. result_vector r = Inr vector) valid" ..
  have "disagreement valid k = Inr []" if "k \<in> set IDENTITY_FIELDS" for k
    using mapE_set2 [OF parts(2) that] by auto
  then have "list_all (\<lambda>r. dget r k = dget (hd valid) k) valid" if "k \<in> set IDENTITY_FIELDS" for k
    using that by (intro disagreement_empty) simp
  moreover have "list_all (\<lambda>k. dget c k = first_field valid k) IDENTITY_FIELDS"
    unfolding IDENTITY_FIELDS_def by (simp add: c cohort_record_def)
  then have "dget c k = dget (hd valid) k" if "k \<in> set IDENTITY_FIELDS" for k
    using that nev by (cases valid) (simp_all add: list_all_iff first_field_def)
  ultimately have "list_all (\<lambda>k. list_all (\<lambda>r. dget r k = dget c k) valid) IDENTITY_FIELDS"
    by (simp add: list_all_iff)
  moreover have "list_all (\<lambda>r. verify_identity r ''record_id'' \<and> dget r ''outcome'' = JStr ''PASS''
      \<and> result_vector r = Inr vector) valid"
    using valid(3) res(1) vec by (simp add: list_all_iff)
  moreover have "verify_identity c ''cohort_id''"
    unfolding c by (simp add: attach_identity_verifies)
  ultimately show ?thesis using valid(2) duplicate_labels_empty [OF parts(3)]
    by (intro conjI exI [of _ valid] exI [of _ vector]) simp_all
qed

definition sample_execution :: "string \<Rightarrow> dict" where
  "sample_execution machine = attach_identity (dict_of
     [(''schema_version'', JStr EXECUTION_SCHEMA), (''outcome'', JStr ''PASS''), (''job_identity'', JStr ''j''),
      (''node'', obj [(''machine_label'', JStr machine)])]) ''record_id''"

theorem cohort_pass_is_agreement_witness:
  "\<exists>c. reconcile_records [JObj (sample_execution ''m1''), JObj (sample_execution ''m2'')] True = Inr c
     \<and> dget c ''outcome'' = JStr ''PASS'' \<and> verify_identity c ''cohort_id''"
proof -
  let ?rs = "[sample_execution ''m1'', sample_execution ''m2'']"
  have v: "verify_identity (sample_execution m) ''record_id''" "dget (sample_execution m) ''schema_version'' = JStr EXECUTION_SCHEMA" for m
    by (simp_all add: sample_execution_def attach_identity_verifies)
  have get: "dget (sample_execution m) k = (if k = ''job_identity'' then JStr ''j'' else JNull)" if "k \<in> set IDENTITY_FIELDS" for m k
    using that by (auto simp: sample_execution_def IDENTITY_FIELDS_def)
  have chk: "check_records 0 (map JObj ?rs) = ([], ?rs)" by (simp add: check_record_def v)
  have "disagreement ?rs k = Inr []" if "k \<in> set IDENTITY_FIELDS" for k
    using that by (simp add: disagreement_def set_size_def get hashable_def)
  then have dis: "mapE (disagreement ?rs) IDENTITY_FIELDS = Inr (map (\<lambda>_. []) IDENTITY_FIELDS)" by (rule mapE_total)
  have lab: "duplicate_labels True ?rs = Inr []"
    by (simp add: duplicate_labels_def set_size_def record_label_def sample_execution_def hashable_def)
  have look: "dsub (sample_execution m) ''outcome'' = Inr (JStr ''PASS'')" "result_vector (sample_execution m) = Inr []" for m
    by (simp_all add: sample_execution_def dsub_def result_vector_def dget_default_def py_iter_def)
  have cmp: "compare_results ?rs = Inr (''PASS'', ''all verified records agree on declared result artifacts'')"
    by (simp add: compare_results_def look vectors_agree_def)
  let ?out = "[''all verified records agree on declared result artifacts'']"
  have co: "cohort_outcome True (map JObj ?rs) [] ?rs = Inr (''PASS'', ?out)"
    unfolding cohort_outcome_def dis lab tryE_Inr Let_def cmp by simp
  have "reconcile_records (map JObj ?rs) True
      = Inr (attach_identity (cohort_record (map JObj ?rs) ?rs ''PASS'' ?out) ''cohort_id'')" (is "_ = Inr ?c")
    unfolding reconcile_records_def chk prod.case co tryE_Inr by simp
  moreover have "dget ?c ''outcome'' = JStr ''PASS''" by (simp add: cohort_record_def)
  ultimately have "\<exists>c. reconcile_records (map JObj ?rs) True = Inr c \<and> dget c ''outcome'' = JStr ''PASS''" by blast
  then obtain c where "reconcile_records (map JObj ?rs) True = Inr c" "dget c ''outcome'' = JStr ''PASS''" by blast
  with cohort_pass_is_agreement [OF this] show ?thesis by auto
qed

end
