(* ===== verification/Calendar.thy ===== *)
theory Calendar
  imports Timestamps
begin

text \<open>
  The calendar of \<open>Timestamps\<close> is inverted by its parser: a printed instant reads back as itself. The civil date of a
  day number is a real date, and its day number is the one started from.
\<close>

section \<open>Days\<close>

definition year_of_era :: "int \<Rightarrow> int" where
  "year_of_era doe = (doe - doe div 1460 + doe div 36524 - doe div 146096) div 365"

definition era_days :: "int \<Rightarrow> int" where
  "era_days y = 365 * y + y div 4 - y div 100 + (if y = 400 then 1 else 0)"

lemma year_of_era_step:
  assumes "0 \<le> d" "d < 146096"
  shows "year_of_era d \<le> year_of_era (d + 1)"
proof -
  have a: "(d + 1) div 1460 \<le> d div 1460 + 1" using zdiv_mono1 [of "d + 1" "d + 1460" 1460] by simp
  have b: "d div 36524 \<le> (d + 1) div 36524" by (rule zdiv_mono1) simp_all
  have "d - d div 1460 + d div 36524 - d div 146096
      \<le> (d + 1) - (d + 1) div 1460 + (d + 1) div 36524 - (d + 1) div 146096"
  proof (cases "d = 146095")
    case True
    then show ?thesis by simp
  next
    case False
    with assms have "d div 146096 = 0" "(d + 1) div 146096 = 0" by simp_all
    with a b show ?thesis by linarith
  qed
  then show ?thesis unfolding year_of_era_def by (rule zdiv_mono1) simp_all
qed

lemma year_of_era_mono:
  assumes "0 \<le> c" "c \<le> d" "d \<le> 146096"
  shows "year_of_era c \<le> year_of_era d"
  using assms(2,1,3)
proof (induction d rule: int_ge_induct)
  case (step d)
  with year_of_era_step [of d] show ?case by simp
qed simp

lemma year_ends:
  "\<forall>y \<in> set (upto 0 399). year_of_era (era_days y) = y \<and> year_of_era (era_days (y + 1) - 1) = y
     \<and> era_days y < era_days (y + 1) \<and> era_days (y + 1) \<le> 146097"
  by code_simp

lemma year_lengths:
  "\<forall>y \<in> set (upto 0 399). era_days (y + 1) - era_days y \<le> (if is_leap (y + 1) then 366 else 365)"
  by code_simp

lemma year_length: "0 \<le> y \<Longrightarrow> y \<le> 399 \<Longrightarrow> era_days (y + 1) - era_days y \<le> (if is_leap (y + 1) then 366 else 365)"
  using year_lengths by (simp del: upto_rec_numeral upto.simps split del: if_split)

lemma era_year:
  assumes "0 \<le> doe" "doe < 146097"
  shows "0 \<le> year_of_era doe \<and> year_of_era doe \<le> 399
    \<and> era_days (year_of_era doe) \<le> doe \<and> doe < era_days (year_of_era doe + 1)"
proof -
  have "\<exists>y. 0 \<le> y \<and> y \<le> 399 \<and> era_days y \<le> doe \<and> doe < era_days (y + 1)"
  proof (rule ccontr)
    assume none: "\<not> ?thesis"
    have "era_days y \<le> doe" if "0 \<le> y" "y \<le> 400" for y
      using that
    proof (induction y rule: int_ge_induct)
      case base
      then show ?case using assms by (simp add: era_days_def)
    next
      case (step i)
      then have "era_days i \<le> doe" by simp
      moreover from step have "0 \<le> i" "i \<le> 399" by simp_all
      ultimately have "\<not> doe < era_days (i + 1)" using none by blast
      then show ?case by simp
    qed
    from this [of 400] assms show False by (simp add: era_days_def)
  qed
  then obtain y where y: "0 \<le> y" "y \<le> 399" "era_days y \<le> doe" "doe < era_days (y + 1)" by blast
  from y(1,2) year_ends have e: "year_of_era (era_days y) = y" "year_of_era (era_days (y + 1) - 1) = y"
    "era_days (y + 1) \<le> 146097" by auto
  have "0 \<le> era_days y" using y(1) by (simp add: era_days_def)
  with year_of_era_mono [of "era_days y" doe] year_of_era_mono [of doe "era_days (y + 1) - 1"] y e assms
  have "year_of_era doe = y" by simp
  with y show ?thesis by simp
qed

lemma month_days:
  "\<forall>doy \<in> set (upto 0 365).
     let mp = (5 * doy + 2) div 153; d = doy - (153 * mp + 2) div 5 + 1; m = (if mp < 10 then mp + 3 else mp - 9) in
     0 \<le> mp \<and> mp \<le> 11 \<and> 1 \<le> m \<and> m \<le> 12 \<and> (m + 9) mod 12 = mp \<and> 1 \<le> d \<and> (m \<le> 2 \<longleftrightarrow> 306 \<le> doy)
     \<and> nat d \<le> days_in_month 2000 (nat m) \<and> (doy = 365 \<or> nat d \<le> days_in_month 2001 (nat m))"
  by code_simp

lemmas month_day = bspec [OF month_days, unfolded Let_def set_upto atLeastAtMost_iff]

lemma days_in_month_leap: "is_leap y = is_leap y' \<Longrightarrow> days_in_month y m = days_in_month y' m"
  by (simp add: days_in_month_def)

lemma days_in_month_2001: "days_in_month 2001 m \<le> days_in_month y m"
  by (simp add: days_in_month_def is_leap_def)

lemma leap_2000: "is_leap 2000"
  by (simp add: is_leap_def)

lemma is_leap_era: "is_leap (y + 400 * era) = is_leap y"
proof -
  have "(y + 400 * era) mod 4 = y mod 4" "(y + 400 * era) mod 100 = y mod 100" "(y + 400 * era) mod 400 = y mod 400"
    using mod_mult_self2 [of y 4 "100 * era"] mod_mult_self2 [of y 100 "4 * era"] by simp_all
  then show ?thesis by (simp only: is_leap_def)
qed

text \<open>The parts of a civil date: year of the era, day of the year counted from March, month and day.\<close>

lemma civil_from_daysE:
  obtains era yoe doy m d where "civil_from_days days = (yoe + 400 * era + (if m \<le> 2 then 1 else 0), m, d)"
    "0 \<le> yoe" "yoe \<le> 399" "0 \<le> doy" "doy \<le> 365" "1 \<le> m" "m \<le> 12" "1 \<le> d" "m \<le> 2 \<longleftrightarrow> 306 \<le> doy"
    "d \<le> days_in_month (yoe + 400 * era + (if m \<le> 2 then 1 else 0)) m"
    "days = 146097 * era + era_days yoe + doy - 719468"
    "doy = (153 * ((int m + 9) mod 12) + 2) div 5 + int d - 1"
proof -
  obtain doe era where z: "doe = (days + 719468) mod 146097" "era = (days + 719468) div 146097" by simp
  obtain yoe where yoe_def: "yoe = year_of_era doe" by simp
  have yoe: "0 \<le> yoe" "yoe \<le> 399" "era_days yoe \<le> doe" "doe < era_days (yoe + 1)"
    using era_year [of doe] by (simp_all add: z yoe_def)
  obtain doy where doy_def: "doy = doe - era_days yoe" by simp
  have leap: "doy = 365 \<Longrightarrow> is_leap (yoe + 1)" and doy: "0 \<le> doy" "doy \<le> 365"
    using yoe year_length [OF yoe(1,2)] by (auto simp: doy_def split: if_splits)
  obtain mp where mp_def: "mp = (5 * doy + 2) div 153" by simp
  obtain d where d_def: "d = doy - (153 * mp + 2) div 5 + 1" by simp
  obtain m where m_def: "m = (if mp < 10 then mp + 3 else mp - 9)" by simp
  note day = month_day [OF conjI [OF doy], folded mp_def, folded d_def m_def]
  have m: "1 \<le> m" "m \<le> 12" "(m + 9) mod 12 = mp" "1 \<le> d" "m \<le> 2 \<longleftrightarrow> 306 \<le> doy"
    and len: "nat d \<le> days_in_month 2000 (nat m)" "doy = 365 \<or> nat d \<le> days_in_month 2001 (nat m)"
    using day by blast+
  let ?y = "yoe + 400 * era + (if nat m \<le> 2 then 1 else 0)"
  have jan: "nat m \<le> 2 \<longleftrightarrow> 306 \<le> doy" using m(1,5) by (simp add: nat_le_iff)
  have dim: "nat d \<le> days_in_month ?y (nat m)"
  proof (cases "doy = 365")
    case True
    with jan have "?y = (yoe + 1) + 400 * era" by simp
    with leap True have "is_leap ?y" by (simp only: is_leap_era)
    then have "days_in_month ?y (nat m) = days_in_month 2000 (nat m)"
      using leap_2000 by (intro days_in_month_leap) simp
    with len(1) show ?thesis by simp
  next
    case False
    have "days_in_month 2001 (nat m) \<le> days_in_month ?y (nat m)"
      by (rule days_in_month_2001)
    with False len(2) show ?thesis by simp
  qed
  have civil: "civil_from_days days = (?y, nat m, nat d)"
  proof -
    have e: "era_days yoe = 365 * yoe + yoe div 4 - yoe div 100" using yoe(2) by (simp add: era_days_def)
    have "m \<le> 2 \<longleftrightarrow> nat m \<le> 2" using m(1) by (simp add: nat_le_iff)
    moreover have "civil_from_days days = (yoe + era * 400 + (if m \<le> 2 then 1 else 0), nat m, nat d)"
      unfolding civil_from_days_def Let_def z(1) [symmetric] z(2) [symmetric] year_of_era_def [symmetric] yoe_def [symmetric]
        e [symmetric] doy_def [symmetric] mp_def [symmetric] d_def [symmetric] m_def [symmetric] ..
    ultimately show ?thesis by simp
  qed
  have days: "days = 146097 * era + era_days yoe + doy - 719468" by (simp add: doy_def z)
  have doy_md: "doy = (153 * ((int (nat m) + 9) mod 12) + 2) div 5 + int (nat d) - 1" using m by (simp add: d_def)
  have pos: "1 \<le> nat m" "nat m \<le> 12" "1 \<le> nat d" using m(1,2,4) by simp_all
  show thesis by (rule that [OF civil yoe(1,2) doy pos jan dim days doy_md])
qed

lemma era_days_before: "0 \<le> y \<Longrightarrow> y \<le> 399 \<Longrightarrow> era_days y = 365 * y + y div 4 - y div 100"
  by (simp add: era_days_def)

lemma days_from_civil_from_days:
  assumes "civil_from_days days = (y, m, d)"
  shows "days_from_civil y m d = days" "1 \<le> m" "m \<le> 12" "1 \<le> d" "d \<le> days_in_month y m"
proof -
  obtain era yoe doy m' d' where c: "civil_from_days days = (yoe + 400 * era + (if m' \<le> 2 then 1 else 0), m', d')"
    "0 \<le> yoe" "yoe \<le> 399" "0 \<le> doy" "doy \<le> 365" "1 \<le> m'" "m' \<le> 12" "1 \<le> d'" "m' \<le> 2 \<longleftrightarrow> 306 \<le> doy"
    "d' \<le> days_in_month (yoe + 400 * era + (if m' \<le> 2 then 1 else 0)) m'"
    "days = 146097 * era + era_days yoe + doy - 719468" "doy = (153 * ((int m' + 9) mod 12) + 2) div 5 + int d' - 1"
    by (rule civil_from_daysE [of days])
  from assms [unfolded c(1)] have [simp]: "m' = m" "d' = d" and y: "y = yoe + 400 * era + (if m \<le> 2 then 1 else 0)" by auto
  have y': "(if m \<le> 2 then y - 1 else y) = yoe + era * 400" by (simp add: y)
  have dm: "(yoe + era * 400) mod 400 = yoe" "(yoe + era * 400) div 400 = era" using c(2,3) by simp_all
  have "days_from_civil y m d = era * 146097 + (yoe * 365 + yoe div 4 - yoe div 100
      + ((153 * ((int m + 9) mod 12) + 2) div 5 + int d - 1)) - 719468"
    unfolding days_from_civil_def Let_def y' dm by (rule refl)
  moreover have "doy = (153 * ((int m + 9) mod 12) + 2) div 5 + int d - 1" using c(12) by simp
  ultimately show "days_from_civil y m d = days" using c(11) era_days_before [OF c(2,3)] by linarith
  show "1 \<le> m" "m \<le> 12" "1 \<le> d" "d \<le> days_in_month y m" using c(6-8,10) by (simp_all add: y)
qed

lemma era_of_days:
  fixes days :: int
  assumes "days = 146097 * era + e + doy - 719468" "0 \<le> e" "e \<le> 145734" "0 \<le> doy" "doy \<le> 365"
    and "-719162 \<le> days" "days < 2932897"
  shows "0 \<le> era" "era \<le> 24"
  using assms by simp_all

lemma civil_year_range:
  assumes "civil_from_days days = (y, m, d)" and "-719162 \<le> days" "days < 2932897"
  shows "1 \<le> y \<and> y \<le> 9999"
proof -
  obtain era yoe doy m' d' where c: "civil_from_days days = (yoe + 400 * era + (if m' \<le> 2 then 1 else 0), m', d')"
    "0 \<le> yoe" "yoe \<le> 399" "0 \<le> doy" "doy \<le> 365" "1 \<le> m'" "m' \<le> 12" "1 \<le> d'" "m' \<le> 2 \<longleftrightarrow> 306 \<le> doy"
    "d' \<le> days_in_month (yoe + 400 * era + (if m' \<le> 2 then 1 else 0)) m'"
    "days = 146097 * era + era_days yoe + doy - 719468" "doy = (153 * ((int m' + 9) mod 12) + 2) div 5 + int d' - 1"
    by (rule civil_from_daysE [of days])
  from assms(1) [unfolded c(1)] have y: "y = yoe + 400 * era + (if m' \<le> 2 then 1 else 0)" by auto
  have e: "era_days yoe = 365 * yoe + yoe div 4 - yoe div 100" by (rule era_days_before [OF c(2,3)])
  have "yoe div 100 \<le> yoe div 4" "yoe div 4 \<le> 99" "0 \<le> yoe div 100"
    using zdiv_mono2 [of yoe 4 100] zdiv_mono1 [of yoe 399 4] c(2,3) by simp_all
  then have ed: "0 \<le> era_days yoe" "era_days yoe \<le> 145734" using c(2,3) e by simp_all
  note era = era_of_days [OF c(11) ed c(4,5) assms(2,3)]
  have "1 \<le> y" if "era = 0"
  proof (cases "yoe = 0")
    case True
    then have "306 \<le> doy" using that assms(2) c(11) e by simp
    with c(9) that True show ?thesis by (simp add: y)
  qed (use c(2) that y in auto)
  moreover have "y \<le> 9999" if "era = 24"
  proof (cases "yoe = 399")
    case True
    then have "doy < 306" using that assms(3) c(11) e by simp
    with c(9) that True show ?thesis by (simp add: y)
  qed (use c(3) that y in auto)
  ultimately show ?thesis using c(2,3) y era by (cases "era = 0"; cases "era = 24") auto
qed

section \<open>Printing and parsing\<close>

lemma digit_char: "k < 10 \<Longrightarrow> is_ascii_digit (char_of (48 + k :: nat)) \<and> digit_val (char_of (48 + k)) = k"
  by (simp add: is_ascii_digit_def digit_val_def)

lemma fixed_digits_shape: "length (fixed_digits w n) = w" "list_all is_ascii_digit (fixed_digits w n)"
  by (auto simp: fixed_digits_def list_all_iff digit_char)

lemma digits_val_fixed:
  "foldl (\<lambda>n c. 10 * n + digit_val c) acc (fixed_digits w n) = acc * 10 ^ w + n mod 10 ^ w"
proof (induction w arbitrary: acc)
  case (Suc w)
  have "n mod 10 ^ Suc w = 10 ^ w * (n div 10 ^ w mod 10) + n mod 10 ^ w"
    using mod_mult2_eq [of n "10 ^ w" 10] by (simp add: mult.commute)
  with Suc show ?case by (simp add: fixed_digits_Suc digit_char algebra_simps)
qed (simp add: fixed_digits_def)

lemma digits_nat_fixed: "n < 10 ^ w \<Longrightarrow> digits_nat w (fixed_digits w n) = Some n"
  using digits_val_fixed [of 0 w n] fixed_digits_shape [of w n] by (simp add: digits_nat_def digits_val_def)

lemma ascii_digit_not: "is_ascii_digit c \<Longrightarrow> c \<noteq> CHR ''+'' \<and> c \<noteq> CHR ''-'' \<and> c \<noteq> CHR ''Z'' \<and> c \<noteq> CHR ''T'' \<and> c \<noteq> CHR '':''"
  by (auto simp: is_ascii_digit_def)

lemma two_digits:
  assumes "n < 100"
  shows "\<exists>a b. fixed_digits 2 n = [a, b] \<and> digits_nat 2 [a, b] = Some n"
proof -
  obtain a b where "fixed_digits 2 n = [a, b]"
    using fixed_digits_shape(1) [of 2 n] by (auto simp: numeral_2_eq_2 length_Suc_conv)
  with digits_nat_fixed [of n 2] assms show ?thesis by simp
qed

lemma four_digits:
  assumes "n < 10000"
  shows "\<exists>a b c d. fixed_digits 4 n = [a, b, c, d] \<and> digits_nat 4 [a, b, c, d] = Some n"
proof -
  obtain a b c d where "fixed_digits 4 n = [a, b, c, d]"
    using fixed_digits_shape(1) [of 4 n] by (auto simp: eval_nat_numeral length_Suc_conv)
  with digits_nat_fixed [of n 4] assms show ?thesis by simp
qed

lemma replace_Z_append: "replace_Z (xs @ ys) = replace_Z xs @ replace_Z ys"
  by (simp add: replace_Z_def)

lemma replace_Z_Cons: "replace_Z (c # ys) = (if c = CHR ''Z'' then ''+00:00'' else [c]) @ replace_Z ys"
  by (simp add: replace_Z_def)

lemma replace_Z_digits: "list_all is_ascii_digit xs \<Longrightarrow> replace_Z xs = xs"
  by (induction xs) (auto simp: replace_Z_def dest: ascii_digit_not)

text \<open>A fraction as it is printed: nothing, or a full stop and six digits.\<close>

definition fraction_text :: "string \<Rightarrow> nat \<Rightarrow> bool" where
  "fraction_text f n = ((f = [] \<and> n = 0) \<or> f = CHR ''.'' # fixed_digits 6 n)"

lemma parse_fraction_text: "fraction_text f n \<Longrightarrow> n < 1000000 \<Longrightarrow> parse_fraction f = Some n"
proof -
  assume "fraction_text f n" "n < 1000000"
  moreover have "fixed_digits 6 n \<noteq> []" using fixed_digits_shape(1) [of 6 n] by auto
  moreover have "digits_val (take 6 (fixed_digits 6 n @ replicate 6 CHR ''0'')) = n" if "n < 1000000"
    using that digits_val_fixed [of 0 6 n] fixed_digits_shape(1) [of 6 n] by (simp add: digits_val_def)
  ultimately show ?thesis
    using fixed_digits_shape(2) [of 6 n] by (auto simp: fraction_text_def parse_fraction_def)
qed

lemma parse_hms_text:
  assumes "h < 24" "mi < 60" "sec < 60" "n < 1000000" "fraction_text f n"
  shows "parse_hms (fixed_digits 2 h @ CHR '':'' # fixed_digits 2 mi @ CHR '':'' # fixed_digits 2 sec @ f)
    = Some (((int h * 60 + int mi) * 60 + int sec) * 1000000 + int n)"
proof -
  from assms obtain a b where h: "fixed_digits 2 h = [a, b]" "digits_nat 2 [a, b] = Some h" using two_digits [of h] by auto
  from assms obtain c d where m: "fixed_digits 2 mi = [c, d]" "digits_nat 2 [c, d] = Some mi" using two_digits [of mi] by auto
  from assms obtain e g where s: "fixed_digits 2 sec = [e, g]" "digits_nat 2 [e, g] = Some sec" using two_digits [of sec] by auto
  show ?thesis
    unfolding h m s parse_hms_def Let_def using assms h(2) m(2) s(2) parse_fraction_text [OF assms(5,4)]
    by (simp add: numeral_2_eq_2 [symmetric])
qed

lemma parse_date_text:
  assumes "1 \<le> y" "y \<le> 9999" "1 \<le> m" "m \<le> 12" "1 \<le> d" "d \<le> days_in_month y m"
  shows "parse_date (fixed_digits 4 (nat y) @ CHR ''-'' # fixed_digits 2 m @ CHR ''-'' # fixed_digits 2 d)
    = Some (days_from_civil y m d)"
proof -
  have d31: "d < 100" using assms(6) by (simp add: days_in_month_def split: if_splits)
  have "nat y < 10000" using assms(2) by simp
  then obtain a b c e where y: "fixed_digits 4 (nat y) = [a, b, c, e]" "digits_nat 4 [a, b, c, e] = Some (nat y)"
    using four_digits [of "nat y"] by auto
  from assms obtain f g where m: "fixed_digits 2 m = [f, g]" "digits_nat 2 [f, g] = Some m" using two_digits [of m] by auto
  from d31 obtain h i where d: "fixed_digits 2 d = [h, i]" "digits_nat 2 [h, i] = Some d" using two_digits [of d] by auto
  show ?thesis unfolding y m d parse_date_def using assms y(2) m(2) d(2) by (simp add: eval_nat_numeral)
qed

text \<open>The text of an instant with its fraction as given: date, time to the second, fraction, \<^verbatim>\<open>Z\<close>.\<close>

definition date_text :: "int \<Rightarrow> string" where
  "date_text days =
     (case civil_from_days days of
        (y, m, d) \<Rightarrow> fixed_digits 4 (nat y) @ CHR ''-'' # fixed_digits 2 m @ CHR ''-'' # fixed_digits 2 d)"

definition clock_text :: "nat \<Rightarrow> string \<Rightarrow> string" where
  "clock_text t f =
     fixed_digits 2 (t div 3600) @ CHR '':'' # fixed_digits 2 (t div 60 mod 60) @ CHR '':'' # fixed_digits 2 (t mod 60) @ f"

definition instant_text :: "int \<Rightarrow> string \<Rightarrow> string" where
  "instant_text us f =
     date_text (us div 1000000 div 86400) @ CHR ''T'' # clock_text (nat (us div 1000000 mod 86400)) f @ ''Z''"

lemma show_instant_text:
  "show_instant us = instant_text us (if us mod 1000000 = 0 then [] else CHR ''.'' # fixed_digits 6 (nat (us mod 1000000)))"
  by (auto simp: show_instant_def utc_isoformat_def instant_text_def date_text_def clock_text_def Let_def split: prod.splits)

lemma parse_date_days:
  assumes "-719162 \<le> days" "days < 2932897"
  shows "parse_date (date_text days) = Some days" "length (date_text days) = 10" "replace_Z (date_text days) = date_text days"
proof -
  obtain y m d where c: "civil_from_days days = (y, m, d)" by (cases "civil_from_days days")
  note r = days_from_civil_from_days [OF c] civil_year_range [OF c assms]
  show "parse_date (date_text days) = Some days"
    using parse_date_text [of y m d] r by (simp add: date_text_def c)
  show "length (date_text days) = 10" by (simp add: date_text_def c fixed_digits_shape)
  show "replace_Z (date_text days) = date_text days"
    by (simp add: date_text_def c replace_Z_append replace_Z_Cons replace_Z_digits fixed_digits_shape)
qed

definition clock_char :: "char \<Rightarrow> bool" where
  "clock_char c = (is_ascii_digit c \<or> c = CHR '':'' \<or> c = CHR ''.'')"

lemma clock_chars:
  assumes "fraction_text f n"
  shows "list_all clock_char (clock_text t f)"
proof -
  have digits: "list_all clock_char (fixed_digits w k)" for w k
    using fixed_digits_shape(2) [of w k] by (auto simp: list_all_iff clock_char_def)
  moreover have "list_all clock_char f" using assms digits by (auto simp: fraction_text_def clock_char_def)
  ultimately show ?thesis by (simp add: clock_text_def clock_char_def)
qed

lemma clock_char_not: "clock_char c \<Longrightarrow> c \<noteq> CHR ''+'' \<and> c \<noteq> CHR ''-'' \<and> c \<noteq> CHR ''Z''"
  by (auto simp: clock_char_def dest: ascii_digit_not)

lemma replace_Z_clock: "list_all clock_char xs \<Longrightarrow> replace_Z xs = xs"
  by (induction xs) (auto simp: replace_Z_def dest: clock_char_not)

lemma instant_days:
  assumes "instant_ok us"
  shows "-719162 \<le> us div 1000000 div 86400" "us div 1000000 div 86400 < 2932897"
proof -
  have us: "-62135596800000000 \<le> us" "us \<le> 253402300799999999" using assms unfolding instant_range by simp_all
  have "us div 1000000 div 86400 = us div 86400000000" by (simp add: zdiv_zmult2_eq [symmetric])
  then show "-719162 \<le> us div 1000000 div 86400" "us div 1000000 div 86400 < 2932897"
    using zdiv_mono1 [OF us(1), of 86400000000] zdiv_mono1 [OF us(2), of 86400000000] by simp_all
qed

lemma recompose: "86400 * d + t = q \<Longrightarrow> 1000000 * q + r = us \<Longrightarrow> d * 86400000000 + (t * 1000000 + r) = (us :: int)"
  by simp

lemma clock_parts: "(int (t div 3600) * 60 + int (t div 60 mod 60)) * 60 + int (t mod 60) = int t"
proof -
  have "t div 3600 = t div 60 div 60" by (simp add: div_mult2_eq [symmetric])
  moreover have "t div 60 div 60 * 60 + t div 60 mod 60 = t div 60" "t div 60 * 60 + t mod 60 = t" by simp_all
  ultimately have "(t div 3600 * 60 + t div 60 mod 60) * 60 + t mod 60 = t" by presburger
  then show ?thesis by (metis of_nat_add of_nat_mult of_nat_numeral)
qed

lemma parse_instant_text:
  assumes "instant_ok us" "fraction_text f (nat (us mod 1000000))"
  shows "fromisoformat (replace_Z (instant_text us f)) = Some (us, Some 0)"
proof -
  let ?days = "us div 1000000 div 86400" and ?t = "nat (us div 1000000 mod 86400)"
  let ?clock = "clock_text ?t f"
  note days = instant_days [OF assms(1)]
  note d = parse_date_days [OF days]
  have cl: "list_all clock_char ?clock" by (rule clock_chars [OF assms(2)])
  have shown: "replace_Z (instant_text us f) = date_text ?days @ CHR ''T'' # ?clock @ ''+00:00''"
    using d(3) replace_Z_clock [OF cl] by (simp add: instant_text_def replace_Z_append replace_Z_Cons replace_Z_def)
  have tw: "takeWhile (\<lambda>c. c \<noteq> CHR ''+'' \<and> c \<noteq> CHR ''-'') (?clock @ ''+00:00'') = ?clock"
    using cl by (subst takeWhile_append2) (auto simp: list_all_iff dest: clock_char_not)
  have t: "?t < 86400" by simp
  then have hms: "parse_hms ?clock = Some (((int (?t div 3600) * 60 + int (?t div 60 mod 60)) * 60 + int (?t mod 60)) * 1000000
      + int (nat (us mod 1000000)))"
    unfolding clock_text_def using assms(2) by (intro parse_hms_text) (auto intro: less_mult_imp_div_less)
  have secs: "(int (?t div 3600) * 60 + int (?t div 60 mod 60)) * 60 + int (?t mod 60) = int ?t"
    by (rule clock_parts)
  have t_int: "int ?t = us div 1000000 mod 86400" by (rule int_nat_eq [THEN trans]) simp
  have total: "?days * 86400000000 + (int ?t * 1000000 + us mod 1000000) = us"
    unfolding t_int
    by (rule recompose [OF mult_div_mod_eq [of 86400 "us div 1000000"] mult_div_mod_eq [of 1000000 us]])
  have micros: "int (nat (us mod 1000000)) = us mod 1000000" by simp
  have zero: "parse_hms ''00:00'' = Some 0" by (simp add: parse_eval)
  note hms' = hms [unfolded secs micros]
  have split: "take 10 (date_text ?days @ CHR ''T'' # ?clock @ ''+00:00'') = date_text ?days"
    "drop 11 (date_text ?days @ CHR ''T'' # ?clock @ ''+00:00'') = ?clock @ ''+00:00''" using d(2) by simp_all
  show ?thesis
    unfolding shown fromisoformat_def split d(1) option.case Let_def tw
    using hms' zero d(2) total by simp
qed

lemma show_instant_reads_back: "instant_ok us \<Longrightarrow> fromisoformat (replace_Z (show_instant us)) = Some (us, Some 0)"
  unfolding show_instant_text by (rule parse_instant_text) (auto simp: fraction_text_def)

lemma stamp_text_ok:
  assumes "instant_ok us"
  shows "length (show_instant us) \<le> 27" "CHR 0x00 \<notin> set (show_instant us)" "show_instant us \<noteq> []"
proof -
  have digits: "CHR 0x00 \<notin> set (fixed_digits w n)" for w n
    using fixed_digits_shape(2) [of w n] by (auto simp: list_all_iff is_ascii_digit_def)
  show "length (show_instant us) \<le> 27"
    using parse_date_days(2) [OF instant_days [OF assms]] by (simp add: show_instant_text instant_text_def clock_text_def fixed_digits_shape)
  show "show_instant us \<noteq> []" by (simp add: show_instant_text instant_text_def)
  show "CHR 0x00 \<notin> set (show_instant us)"
    by (auto simp: show_instant_text instant_text_def clock_text_def date_text_def digits split: prod.splits)
qed

text \<open>
  A printed instant is accepted as a time stamp, which leaves it as it is, and read back as the instant: every instant between
  the years 1 and 9999, to the microsecond.
\<close>

theorem printed_instant_reads_back:
  assumes "instant_ok us"
  shows "timestamp field (JStr (show_instant us)) = Inr (show_instant us) \<and> instant (JStr (show_instant us)) = Inr us"
  using show_instant_reads_back [OF assms] stamp_text_ok [OF assms] assms
  by (simp add: timestamp_def instant_def bounded_text_def instant_of_offset_def)

theorem printed_instant_reads_back_witness:
  "instant (JStr (show_instant 1772323199999999)) = Inr 1772323199999999"
  using printed_instant_reads_back [of 1772323199999999 "''f''"] by (simp add: instant_range)

end
