(* ===== verification/Jcs.thy ===== *)
theory Jcs
  imports Canonical
begin

text \<open>
  \<^verbatim>\<open>src/src/mncs_fabric/jcs.py\<close>: the second serialisation of the program. Where no number is a float it gives the bytes of
  \<open>canonical_json_bytes\<close>; a float is written as an integer when it has an integer value. Keys are sorted by UTF-16 code
  units, which on code points below 256 is the order of code points. Values outside JSON do not occur.
\<close>

section \<open>Numbers\<close>

text \<open>
  \<^verbatim>\<open>int(value)\<close> of a float with an integer value that is \<open>n\<close> in decimal: exact below \<open>2 ^ 53\<close>, otherwise the multiple of
  the spacing of floats nearest to \<open>n\<close>, ties to even.
\<close>

fun bit_length :: "nat \<Rightarrow> nat" where
  "bit_length n = (if n = 0 then 0 else Suc (bit_length (n div 2)))"

declare bit_length.simps [simp del]

definition round_double :: "nat \<Rightarrow> nat" where
  "round_double n =
     (if n < 2 ^ 53 then n
      else
        let k = bit_length n - 53; unit = 2 ^ k; q = n div unit; r = n mod unit in
        unit * (if 2 * r < unit \<or> 2 * r = unit \<and> even q then q else q + 1))"

definition float_integer :: "nat \<Rightarrow> int \<Rightarrow> nat option" where
  "float_integer m e =
     (if 0 \<le> e then Some (round_double (m * 10 ^ nat e))
      else if m mod 10 ^ nat (- e) = 0 then Some (round_double (m div 10 ^ nat (- e)))
      else None)"

text \<open>\<^verbatim>\<open>repr(value)\<close> with the exponent as \<^verbatim>\<open>int\<close> prints it: the sign kept, leading zeros dropped.\<close>

definition plain_exponent :: "string \<Rightarrow> string" where
  "plain_exponent text =
     (case partition_on CHR ''e'' text of
        (mantissa, True, sign # digits) \<Rightarrow>
          mantissa @ CHR ''e'' # (if sign = CHR ''-'' then ''-'' else ''+'') @ show_nat (digits_val digits)
      | _ \<Rightarrow> text)"

definition jcs_float :: "bool \<Rightarrow> nat \<Rightarrow> int \<Rightarrow> string" where
  "jcs_float s m e =
     (if m = 0 then ''0''
      else
        (case float_integer m e of
           Some n \<Rightarrow> show_int (if s then - int n else int n)
         | None \<Rightarrow> plain_exponent (float_repr s m e)))"

section \<open>Encoding\<close>

primrec jcs_encode :: "json \<Rightarrow> string" where
  "jcs_encode JNull = ''null''"
| "jcs_encode (JBool b) = (if b then ''true'' else ''false'')"
| "jcs_encode (JInt n) = show_int n"
| "jcs_encode (JFloat s m e) = jcs_float s m e"
| "jcs_encode (JStr s) = utf8 (json_string s)"
| "jcs_encode (JList xs) = CHR ''['' # join_comma (map jcs_encode xs) @ '']''"
| "jcs_encode (JObj m) =
     CHR 0x7B # join_comma (map (\<lambda>(k, t). utf8 (json_string k) @ CHR '':'' # t)
       (sorted_list_of_fmap (fmmap jcs_encode m))) @ [CHR 0x7D]"

definition canonical_jcs_bytes :: "json \<Rightarrow> string" where
  "canonical_jcs_bytes v = jcs_encode v"

section \<open>Agreement with the canonical bytes\<close>

lemma utf8_append [simp]: "utf8 (xs @ ys) = utf8 xs @ utf8 ys"
  by (simp add: utf8_def)

lemma utf8_Cons: "utf8 (c # xs) = utf8_char c @ utf8 xs"
  by (simp add: utf8_def)

lemma utf8_ascii: "list_all (\<lambda>c. (of_char c :: nat) < 128) xs \<Longrightarrow> utf8 xs = xs"
  by (induction xs) (simp_all add: utf8_def utf8_char_def)

lemma utf8_join: "utf8 (join_comma xs) = join_comma (map utf8 xs)"
  by (induction xs rule: join_comma.induct) (simp_all add: utf8_Cons utf8_char_def, simp add: utf8_def)

lemma show_nat_ascii: "list_all (\<lambda>c. (of_char c :: nat) < 128) (show_nat n)"
proof (induction n rule: show_nat.induct)
  case (1 n)
  have "(of_char (char_of (48 + n mod 10) :: char) :: nat) < 128" by simp
  with 1 show ?case by (cases "n < 10") (simp_all add: show_nat.simps)
qed

lemma utf8_show_int: "utf8 (show_int n) = show_int n"
  by (rule utf8_ascii) (simp add: show_int_def show_nat_ascii)

lemma utf8_Nil [simp]: "utf8 [] = []"
  by (simp add: utf8_def)

lemma sorted_list_of_fmmap: "sorted_list_of_fmap (fmmap f m) = map (\<lambda>(k, v). (k, f v)) (sorted_list_of_fmap m)"
  by (auto simp: sorted_list_of_fmap_def fmlookup_dom_iff)

text \<open>
  The bytes behind the identities of challenges and receipts are the canonical bytes of the records whenever no number
  in them is a float.
\<close>

theorem jcs_bytes_are_canonical: "float_free v \<Longrightarrow> canonical_jcs_bytes v = canonical_json_bytes v"
  unfolding canonical_jcs_bytes_def canonical_json_bytes_def
proof (induction v)
  case (JList xs)
  then show ?case by (simp add: list_all_iff utf8_Cons utf8_char_def utf8_join comp_def) (simp add: utf8_def utf8_char_def cong: map_cong)
next
  case (JObj m)
  have lookup: "jcs_encode x = utf8 (json_dumps x)" if "x \<in> fmran' m" for x
    using JObj that by (auto simp: float_free_JObj fmlookup_ran'_iff)
  then have "fmmap jcs_encode m = fmmap (\<lambda>x. utf8 (json_dumps x)) m"
    by (rule fmap.map_cong0)
  then show ?case
    by (simp add: utf8_Cons utf8_char_def utf8_join comp_def sorted_list_of_fmmap case_prod_beta)
qed (simp_all add: utf8_show_int, auto simp: utf8_def utf8_char_def)

theorem jcs_bytes_are_canonical_witness:
  "canonical_jcs_bytes (obj [(''a'', JList [JInt 1, JStr ''b'', JNull])]) = canonical_json_bytes (obj [(''a'', JList [JInt 1, JStr ''b'', JNull])])"
  by (rule jcs_bytes_are_canonical) (simp add: float_free_JObj)

end
