(* ===== verification/Challenges.thy ===== *)
theory Challenges
  imports Calendar Jcs Ledger Lifecycle_Fields
begin

text \<open>
  \<^verbatim>\<open>src/src/mncs_fabric/challenges.py\<close>: execution challenges, their binding to receipts, and the replay store that lets a
  challenge be consumed once. A report collects the issues found; its \<open>valid\<close> flag falls with the first of them. The
  clock, the random nonce and the time to live in microseconds, which \<^verbatim>\<open>timedelta\<close> rounds, are arguments. The text of a
  parse error of the standard library inside an issue is not modelled.
\<close>

section \<open>Field checks\<close>

definition CHALLENGE_VERSION :: string where "CHALLENGE_VERSION = ''0.1-experimental''"

definition CHALLENGE_TYPE :: string where "CHALLENGE_TYPE = ''mncs-execution-challenge''"

definition REPLAY_TYPE :: string where "REPLAY_TYPE = ''mncs-replay-receipt''"

definition REPLAY_RECORD :: string where "REPLAY_RECORD = ''mncs-fabric.challenge-replay''"

definition matches_hash :: "string \<Rightarrow> bool" where
  "matches_hash s = (length s = 64 \<and> list_all (\<lambda>c. c \<in> set ''0123456789abcdef'') s)"

definition matches_nonce :: "string \<Rightarrow> bool" where
  "matches_nonce s = (43 \<le> length s \<and> length s \<le> 128 \<and> list_all (\<lambda>c. is_alnum c \<or> c \<in> set ''_-'') s)"

text \<open>
  \<^verbatim>\<open>PATTERN.fullmatch(str(value))\<close>: any scalar is matched by its text. The text of a list or a dict starts with a
  bracket, which no pattern admits.
\<close>

definition text_matches :: "(string \<Rightarrow> bool) \<Rightarrow> json \<Rightarrow> bool" where
  "text_matches p v = (case py_str v of Inl _ \<Rightarrow> False | Inr s \<Rightarrow> p s)"

record challenge_report =
  cr_valid :: bool
  cr_supported :: bool
  cr_challenge :: "dict option"
  cr_issues :: "string list"

record replay_report =
  rp_valid :: bool
  rp_supported :: bool
  rp_receipt :: "json option"
  rp_issues :: "string list"

definition cr_category :: "challenge_report \<Rightarrow> string" where
  "cr_category r = (if \<not> cr_supported r then ''UNKNOWN'' else if cr_valid r then ''PASS'' else ''FAIL'')"

definition rp_category :: "replay_report \<Rightarrow> string" where
  "rp_category r = (if \<not> rp_supported r then ''UNKNOWN'' else if rp_valid r then ''PASS'' else ''FAIL'')"

definition challenge_report_of :: "string list \<Rightarrow> dict option \<Rightarrow> challenge_report" where
  "challenge_report_of issues c = \<lparr>cr_valid = (issues = []), cr_supported = True, cr_challenge = c, cr_issues = issues\<rparr>"

definition replay_report_of :: "string list \<Rightarrow> json option \<Rightarrow> replay_report" where
  "replay_report_of issues r = \<lparr>rp_valid = (issues = []), rp_supported = True, rp_receipt = r, rp_issues = issues\<rparr>"

text \<open>A check that adds an issue.\<close>

definition issue_if :: "bool \<Rightarrow> string \<Rightarrow> string list" where
  "issue_if c msg = (if c then [msg] else [])"

definition raw_text :: "json \<Rightarrow> string" where
  "raw_text v = (case v of JStr s \<Rightarrow> if startswith s ''sha256:'' then drop 7 s else s | _ \<Rightarrow> [])"

text \<open>\<^verbatim>\<open>_time\<close>: a \<^verbatim>\<open>ValueError\<close> is the left value with its text, other exceptions escape.\<close>

definition challenge_time :: "json \<Rightarrow> (string + int) result" where
  "challenge_time v =
     (case v of
        JStr s \<Rightarrow>
          (case fromisoformat (replace_Z s) of
             None \<Rightarrow> Inr (Inl ''Invalid isoformat string'')
           | Some (local', None) \<Rightarrow> Inr (Inl ''challenge timestamps must include a UTC offset'')
           | Some (local', Some off) \<Rightarrow> tryE (instant_of_offset (local', off)) (\<lambda>us. Inr (Inr us)))
      | _ \<Rightarrow> Inr (Inl ''challenge timestamps must be strings''))"

definition strict_time :: "json \<Rightarrow> int result" where
  "strict_time v = tryE (challenge_time v) (\<lambda>t. case t of Inl _ \<Rightarrow> Inl PyValueError | Inr us \<Rightarrow> Inr us)"

text \<open>\<^verbatim>\<open>isoformat(timespec="microseconds")\<close>: the fraction is always printed.\<close>

definition iso_micros :: "int \<Rightarrow> string" where
  "iso_micros us = instant_text us (CHR ''.'' # fixed_digits 6 (nat (us mod 1000000)))"

definition raw_identity :: "json \<Rightarrow> string" where
  "raw_identity v = sha256_hex (canonical_jcs_bytes v)"

definition identity_without :: "dict \<Rightarrow> string \<Rightarrow> string" where
  "identity_without v f = raw_identity (JObj (fmdrop f v))"

definition challenge_boundary :: json where
  "challenge_boundary = obj
     [(''freshness'', JStr ''local-replay-scope-only''), (''authority'', JStr ''not-asserted''),
      (''isolation'', JStr ''not-asserted''), (''custody'', JStr ''not-asserted''),
      (''independence'', JStr ''not-asserted''), (''conformance'', JStr ''not-asserted''),
      (''promotion'', JStr ''not-asserted'')]"

definition dict_at :: "dict \<Rightarrow> string \<Rightarrow> dict" where
  "dict_at m k = (case dget m k of JObj d \<Rightarrow> d | _ \<Rightarrow> fmempty)"

definition scope_from_receipt :: "dict \<Rightarrow> dict" where
  "scope_from_receipt r = dict_of
     [(''subject_identity'', JStr (raw_text (dget (dict_at r ''subject'') ''canonical_sha256''))),
      (''candidate_id'', dget (dict_at r ''subject'') ''candidate_id''),
      (''bundle_identity'', JStr (raw_text (dget (dict_at r ''bundle'') ''test_bundle_identity''))),
      (''execution_policy_identity'', JStr (raw_text (dget (dict_at r ''policy'') ''execution_policy_identity''))),
      (''runner_identity'', dget (dict_at r ''runner'') ''runner_identity'')]"

text \<open>
  Equality of Python values: numbers compare by value whatever their type. A float is given by its shortest digits, so
  that floats without an integer value are equal only if they are the same.
\<close>

primrec num_norm :: "json \<Rightarrow> json" where
  "num_norm JNull = JNull"
| "num_norm (JBool b) = JInt (if b then 1 else 0)"
| "num_norm (JInt n) = JInt n"
| "num_norm (JFloat s m e) =
     (case float_integer m e of Some n \<Rightarrow> JInt (if s then - int n else int n) | None \<Rightarrow> JFloat s m e)"
| "num_norm (JStr s) = JStr s"
| "num_norm (JList xs) = JList (map num_norm xs)"
| "num_norm (JObj m) = JObj (fmmap num_norm m)"

definition py_eq :: "json \<Rightarrow> json \<Rightarrow> bool" where
  "py_eq x y = (num_norm x = num_norm y)"

section \<open>Validation\<close>

definition SCOPE_FIELDS :: "string list" where
  "SCOPE_FIELDS =
     [''subject_identity'', ''candidate_id'', ''bundle_identity'', ''execution_policy_identity'', ''runner_identity'']"

definition challenge_fields :: "string list" where
  "challenge_fields =
     [''schema_version'', ''record_type'', ''challenge_id'', ''challenge_identity'', ''issuer_identity'', ''issued_at'',
      ''expires_at'', ''nonce'', ''scope'', ''replay_policy'', ''claim_boundary'', ''extensions'']"

definition header_issues :: "dict \<Rightarrow> string list" where
  "header_issues v = issue_if
     (dget v ''record_type'' \<noteq> JStr CHALLENGE_TYPE \<or> \<not> text_matches matches_identity (dget v ''challenge_id'')
      \<or> \<not> text_matches matches_identity (dget v ''issuer_identity'') \<or> \<not> text_matches matches_hash (dget v ''challenge_identity'')
      \<or> dget v ''replay_policy'' \<noteq> JStr ''single-use'' \<or> \<not> is_dict (dget v ''extensions''))
     ''challenge identity or type fields are invalid''"

definition scope_issues :: "json \<Rightarrow> string list" where
  "scope_issues v =
     (case v of
        JObj scope \<Rightarrow>
          if \<not> keys_are scope SCOPE_FIELDS then [''challenge scope field set is invalid'']
          else
            concat (map (\<lambda>f. issue_if (\<not> text_matches matches_hash (dget scope f)) (''challenge scope hash is invalid: '' @ f))
              [''subject_identity'', ''bundle_identity'', ''execution_policy_identity''])
            @ concat (map (\<lambda>f. issue_if (dget scope f \<noteq> JNull \<and> \<not> text_matches matches_identity (dget scope f))
                (''challenge scope ID is invalid: '' @ f)) [''candidate_id'', ''runner_identity''])
      | _ \<Rightarrow> [''challenge scope field set is invalid''])"

definition time_issues :: "json \<Rightarrow> json \<Rightarrow> int option \<Rightarrow> string list result" where
  "time_issues issued_at expires_at at =
     tryE (challenge_time issued_at) (\<lambda>t.
       case t of
         Inl msg \<Rightarrow> Inr [msg]
       | Inr issued \<Rightarrow>
           tryE (challenge_time expires_at) (\<lambda>t.
             case t of
               Inl msg \<Rightarrow> Inr [msg]
             | Inr expires \<Rightarrow>
                 Inr (issue_if (expires \<le> issued) ''challenge expiry must follow issuance''
                   @ issue_if (case at of None \<Rightarrow> False | Some now \<Rightarrow> now < issued \<or> expires \<le> now)
                       ''challenge is outside its validity window'')))"

definition validate_execution_challenge :: "json \<Rightarrow> int option \<Rightarrow> challenge_report result" where
  "validate_execution_challenge value' at =
     (case value' of
        JObj v \<Rightarrow>
          if dget v ''schema_version'' \<noteq> JStr CHALLENGE_VERSION
            then Inr ((challenge_report_of [''unsupported challenge schema version''] None)\<lparr>cr_supported := False\<rparr>)
          else if \<not> keys_are v challenge_fields then Inr (challenge_report_of [''challenge field set is invalid''] None)
          else
            tryE (time_issues (dget v ''issued_at'') (dget v ''expires_at'') at) (\<lambda>times.
              Inr (challenge_report_of
                (header_issues v
                 @ issue_if (\<not> (case dget v ''nonce'' of JStr n \<Rightarrow> matches_nonce n | _ \<Rightarrow> False)) ''challenge nonce is invalid''
                 @ scope_issues (dget v ''scope'')
                 @ issue_if (dget v ''claim_boundary'' \<noteq> challenge_boundary) ''challenge claim boundary is invalid''
                 @ times
                 @ issue_if (dget v ''challenge_identity'' \<noteq> JStr (identity_without v ''challenge_identity''))
                     ''challenge identity does not reconstruct'') (Some v)))
      | _ \<Rightarrow> Inr (challenge_report_of [''challenge must be an object''] None))"

section \<open>Issuance\<close>

definition scope_rejected :: "dict \<Rightarrow> bool" where
  "scope_rejected scope =
     (\<not> keys_are scope SCOPE_FIELDS \<or> \<not> text_matches matches_hash (dget scope ''subject_identity'')
      \<or> \<not> text_matches matches_hash (dget scope ''bundle_identity'')
      \<or> \<not> text_matches matches_hash (dget scope ''execution_policy_identity''))"

definition id_rejected :: "json \<Rightarrow> bool" where
  "id_rejected v = (v \<noteq> JNull \<and> \<not> text_matches matches_identity v)"

definition build_challenge :: "string \<Rightarrow> dict \<Rightarrow> string \<Rightarrow> int \<Rightarrow> int \<Rightarrow> dict" where
  "build_challenge issuer scope nonce issued expires =
     (let c = dict_of
        [(''schema_version'', JStr CHALLENGE_VERSION), (''record_type'', JStr CHALLENGE_TYPE),
         (''challenge_id'', JStr (''challenge.'' @ take 24 (raw_identity (obj [(''scope'', JObj scope), (''nonce'', JStr nonce)]))
            @ ''.'' @ take 12 nonce)),
         (''challenge_identity'', JStr (replicate 64 CHR ''0'')), (''issuer_identity'', JStr issuer),
         (''issued_at'', JStr (iso_micros issued)), (''expires_at'', JStr (iso_micros expires)), (''nonce'', JStr nonce),
         (''scope'', JObj scope), (''replay_policy'', JStr ''single-use''), (''claim_boundary'', challenge_boundary),
         (''extensions'', obj [(''mncs-fabric:issuer-role'', JStr ''operator-controlled-challenge-adapter'')])]
      in fmupd ''challenge_identity'' (JStr (identity_without c ''challenge_identity'')) c)"

definition issue_execution_challenge ::
    "string \<Rightarrow> dict \<Rightarrow> json \<Rightarrow> int \<Rightarrow> int \<Rightarrow> string \<Rightarrow> challenge_report result" where
  "issue_execution_challenge issuer scope ttl ttl_us now nonce =
     (if \<not> matches_identity issuer \<or> \<not> is_number ttl \<or> num_le ttl (JInt 0) \<or> \<not> num_le ttl (JInt 604800)
        then Inr (challenge_report_of [''issuer identity or TTL is invalid''] None)
      else if scope_rejected scope then Inr (challenge_report_of [''challenge scope is invalid''] None)
      else if id_rejected (dget scope ''candidate_id'') then Inr (challenge_report_of [''candidate_id is invalid''] None)
      else if id_rejected (dget scope ''runner_identity'') then Inr (challenge_report_of [''runner_identity is invalid''] None)
      else if \<not> instant_ok (now + ttl_us) then Inl PyOverflowError
      else validate_execution_challenge (JObj (build_challenge issuer scope nonce now (now + ttl_us))) None)"

definition challenge_for_receipt ::
    "dict \<Rightarrow> string \<Rightarrow> json \<Rightarrow> int \<Rightarrow> int \<Rightarrow> string \<Rightarrow> challenge_report result" where
  "challenge_for_receipt receipt issuer ttl ttl_us now nonce =
     issue_execution_challenge issuer (scope_from_receipt receipt) ttl ttl_us now nonce"

section \<open>Binding to a receipt\<close>

definition bind_challenge_to_receipt :: "dict \<Rightarrow> json \<Rightarrow> replay_report result" where
  "bind_challenge_to_receipt challenge receipt =
     tryE (validate_execution_challenge (JObj challenge) None) (\<lambda>c.
       if \<not> cr_valid c then Inr (replay_report_of [''challenge is invalid''] None)
       else
         (case receipt of
            JObj r \<Rightarrow>
              if \<not> text_matches matches_hash (dget r ''receipt_identity'')
                then Inr (replay_report_of [''receipt identity is invalid''] None)
              else if dget r ''receipt_identity'' \<noteq> JStr (identity_without r ''receipt_identity'')
                then Inr (replay_report_of [''receipt identity does not reconstruct''] None)
              else
                let observed = dict_at r ''challenge'' in
                Inr (replay_report_of
                  (issue_if (\<not> py_eq (JObj (scope_from_receipt r)) (dget challenge ''scope''))
                     ''receipt scope differs from challenge scope''
                   @ concat (map (\<lambda>f. issue_if (dget observed f \<noteq> dget challenge f)
                        (''receipt challenge observation differs: '' @ f)) [''nonce'', ''issued_at'', ''expires_at''])) None)
          | _ \<Rightarrow> Inr (replay_report_of [''receipt identity is invalid''] None)))"

section \<open>The replay store\<close>

definition replay_entries :: "ledger_file \<Rightarrow> dict list result" where
  "replay_entries F = tryE (all_records (Some REPLAY_RECORD) F) (\<lambda>es. Inr (map entry_record es))"

definition nonce_digest :: "dict \<Rightarrow> string" where
  "nonce_digest challenge = (case dget challenge ''nonce'' of JStr n \<Rightarrow> sha256_hex (utf8 n) | _ \<Rightarrow> [])"

definition consumed :: "dict \<Rightarrow> dict list \<Rightarrow> bool" where
  "consumed challenge entries =
     list_ex (\<lambda>e. dget e ''challenge_identity'' = dget challenge ''challenge_identity''
                \<or> dget e ''nonce_digest'' = JStr (nonce_digest challenge)) entries"

definition effective_time :: "int \<Rightarrow> dict list \<Rightarrow> int result" where
  "effective_time now entries =
     tryE (mapE (\<lambda>e. tryE (dsub e ''time_watermark'') strict_time) entries) (\<lambda>marks. Inr (fold max marks now))"

definition replay_entry :: "dict \<Rightarrow> dict \<Rightarrow> int \<Rightarrow> nat \<Rightarrow> json \<Rightarrow> dict" where
  "replay_entry challenge receipt effective n previous =
     (let e = dict_of
        [(''schema_version'', JStr CHALLENGE_VERSION), (''record_type'', JStr ''mncs-replay-entry''), (''sequence'', JInt (int n + 1)),
         (''entry_identity'', JStr (replicate 64 CHR ''0'')), (''challenge_identity'', dget challenge ''challenge_identity''),
         (''nonce_digest'', JStr (nonce_digest challenge)), (''receipt_identity'', dget receipt ''receipt_identity''),
         (''scope'', dget challenge ''scope''), (''consumed_at'', JStr (iso_micros effective)),
         (''previous_entry_identity'', previous), (''time_watermark'', JStr (iso_micros effective))]
      in fmupd ''entry_identity'' (JStr (identity_without e ''entry_identity'')) e)"

definition entry_text :: "dict \<Rightarrow> string" where
  "entry_text e = (case dget e ''entry_identity'' of JStr s \<Rightarrow> s | _ \<Rightarrow> [])"

definition replay_receipt :: "dict \<Rightarrow> dict" where
  "replay_receipt e =
     (let r = dict_of
        [(''schema_version'', JStr CHALLENGE_VERSION), (''record_type'', JStr REPLAY_TYPE),
         (''replay_id'', JStr (''replay.'' @ take 32 (entry_text e))), (''replay_identity'', JStr (replicate 64 CHR ''0'')),
         (''challenge_identity'', dget e ''challenge_identity''), (''receipt_identity'', dget e ''receipt_identity''),
         (''scope'', dget e ''scope''), (''consumed_at'', dget e ''consumed_at''), (''store_sequence'', dget e ''sequence''),
         (''nonce_digest'', dget e ''nonce_digest''), (''store_entry_identity'', dget e ''entry_identity''),
         (''previous_entry_identity'', dget e ''previous_entry_identity''), (''store_head_identity'', dget e ''entry_identity''),
         (''time_watermark'', dget e ''time_watermark''),
         (''limitations'', JList
           [JStr ''Replay detection is limited to this operator-controlled local store.'',
            JStr ''A host administrator can replace or delete the local replay store.'',
            JStr ''Freshness does not establish correctness, isolation, custody, independence, conformance, or promotion.'']),
         (''extensions'', JObj fmempty)]
      in fmupd ''replay_identity'' (JStr (identity_without r ''replay_identity'')) r)"

text \<open>The part of \<^verbatim>\<open>consume\<close> between reading the store and appending: an issue, or the entry to append.\<close>

definition prepare_entry :: "dict \<Rightarrow> dict \<Rightarrow> int \<Rightarrow> dict list \<Rightarrow> (string + dict) result" where
  "prepare_entry challenge receipt now entries =
     (if consumed challenge entries then Inr (Inl ''challenge has already been consumed'')
      else
        tryE (effective_time now entries) (\<lambda>effective.
        tryE (strict_time (dget challenge ''issued_at'')) (\<lambda>issued.
        tryE (strict_time (dget challenge ''expires_at'')) (\<lambda>expires.
          if effective < issued \<or> expires \<le> effective
            then Inr (Inl ''challenge is outside the replay store validity window'')
          else
            tryE (if entries = [] then Inr JNull else dsub (last entries) ''entry_identity'') (\<lambda>previous.
              Inr (Inr (replay_entry challenge receipt effective (length entries) previous)))))))"

definition receipt_dict :: "json \<Rightarrow> dict" where
  "receipt_dict v = (case v of JObj r \<Rightarrow> r | _ \<Rightarrow> fmempty)"

definition consume_challenge :: "dict \<Rightarrow> json \<Rightarrow> int \<Rightarrow> ledger_file \<Rightarrow> (replay_report \<times> ledger_file) result" where
  "consume_challenge challenge receipt now F =
     tryE (bind_challenge_to_receipt challenge receipt) (\<lambda>report.
       if \<not> rp_valid report then Inr (report, F)
       else
         tryE (replay_entries F) (\<lambda>entries.
         tryE (prepare_entry challenge (receipt_dict receipt) now entries) (\<lambda>p.
           case p of
             Inl msg \<Rightarrow> Inr (report\<lparr>rp_valid := False, rp_issues := rp_issues report @ [msg]\<rparr>, F)
           | Inr entry \<Rightarrow>
               tryE (ledger_append REPLAY_RECORD entry F) (\<lambda>(_, F').
                 Inr (report\<lparr>rp_receipt := Some (JObj (replay_receipt entry))\<rparr>, F')))))"

definition verify_replay_receipt :: "json \<Rightarrow> dict \<Rightarrow> json \<Rightarrow> ledger_file option \<Rightarrow> replay_report result" where
  "verify_replay_receipt replay challenge receipt store =
     (let genuine = (case replay of
            JObj r \<Rightarrow> dget r ''schema_version'' = JStr CHALLENGE_VERSION \<and> dget r ''record_type'' = JStr REPLAY_TYPE
              \<and> dget r ''replay_identity'' = JStr (identity_without r ''replay_identity'')
          | _ \<Rightarrow> False);
          r = receipt_dict replay in
      if \<not> genuine then Inr (replay_report_of [''replay receipt identity or version is invalid''] (Some replay))
      else
        tryE (bind_challenge_to_receipt challenge receipt) (\<lambda>bound.
          if \<not> rp_valid bound then Inr ((replay_report_of (rp_issues bound) (Some replay))\<lparr>rp_valid := False\<rparr>)
          else
            let issues = issue_if
              (dget r ''challenge_identity'' \<noteq> dget challenge ''challenge_identity''
               \<or> dget r ''receipt_identity'' \<noteq> dget (receipt_dict receipt) ''receipt_identity''
               \<or> dget r ''nonce_digest'' \<noteq> JStr (nonce_digest challenge))
              ''replay receipt is bound to different challenge evidence'' in
            (case store of
               None \<Rightarrow> Inr (replay_report_of issues (Some replay))
             | Some F \<Rightarrow>
                 if issues \<noteq> [] then Inr (replay_report_of issues (Some replay))
                 else
                   tryE (replay_entries F) (\<lambda>entries.
                     Inr (replay_report_of
                       (issue_if (\<not> list_ex (\<lambda>e. dget e ''entry_identity'' = dget r ''store_entry_identity'') entries)
                          ''replay entry is absent from the supplied store'') (Some replay))))))"

end
