(* ===== verification/Challenge_Safety.thy ===== *)
theory Challenge_Safety
  imports Challenges
begin

text \<open>
  What the replay store promises and what it does not: a consumed challenge and its nonce are refused ever after, the clock
  of the store never runs back, its entries form a chain, a receipt verifies against the store; but reading the store and
  appending to it are two steps, and the issuer of a challenge need not be a text.
\<close>

section \<open>Identities, times and reports\<close>

lemma matches_hash_sha [simp]: "matches_hash (sha256_hex s)"
  using sha256_hex_chars [of s] sha256_hex_length [of s] by (simp add: matches_hash_def list_all_iff subset_iff)

lemma fmdrop_fmupd_same [simp]: "fmdrop f (fmupd f v m) = fmdrop f m"
  by (rule fmap_ext) simp

lemma identity_without_fmupd [simp]: "identity_without (fmupd f v m) f = identity_without m f"
  by (simp add: identity_without_def)

lemma matches_hash_identity [simp]: "matches_hash (identity_without m f)"
  by (simp add: identity_without_def raw_identity_def)

lemma issue_if_False [simp]: "issue_if False msg = []"
  by (simp add: issue_if_def)

lemma issue_if_Nil [simp]: "issue_if c msg = [] \<longleftrightarrow> \<not> c"
  by (simp add: issue_if_def)

lemma report_fields [simp]:
  "cr_valid (challenge_report_of is c) \<longleftrightarrow> is = []" "cr_challenge (challenge_report_of is c) = c"
  "cr_issues (challenge_report_of is c) = is"
  "rp_valid (replay_report_of is r) \<longleftrightarrow> is = []" "rp_receipt (replay_report_of is r) = r" "rp_issues (replay_report_of is r) = is"
  by (simp_all add: challenge_report_of_def replay_report_of_def)

lemma challenge_time_iso: "instant_ok us \<Longrightarrow> challenge_time (JStr (iso_micros us)) = Inr (Inr us)"
  using parse_instant_text [of us "CHR ''.'' # fixed_digits 6 (nat (us mod 1000000))"]
  by (simp add: challenge_time_def iso_micros_def fraction_text_def instant_of_offset_def)

lemma strict_time_iso: "instant_ok us \<Longrightarrow> strict_time (JStr (iso_micros us)) = Inr us"
  by (simp add: strict_time_def challenge_time_iso)

lemma strict_time_eq_Inr: "strict_time v = Inr us \<longleftrightarrow> challenge_time v = Inr (Inr us)"
  by (auto simp: strict_time_def tryE_def split: sum.splits)

lemma challenge_time_ok: "challenge_time v = Inr (Inr us) \<Longrightarrow> instant_ok us"
  by (auto simp: challenge_time_def tryE_eq_Inr instant_of_offset_def Let_def split: json.splits option.splits if_splits)

lemma time_issues_Nil:
  "time_issues i x at = Inr [] \<longleftrightarrow>
     (\<exists>issued expires. challenge_time i = Inr (Inr issued) \<and> challenge_time x = Inr (Inr expires) \<and> issued < expires
        \<and> (case at of None \<Rightarrow> True | Some t \<Rightarrow> issued \<le> t \<and> t < expires))"
  by (auto simp: time_issues_def tryE_def not_le not_less split: sum.splits option.splits)

section \<open>Valid challenges\<close>

lemma validate_eq_Inr:
  "validate_execution_challenge (JObj v) at = Inr rep \<and> cr_valid rep \<longleftrightarrow>
     dget v ''schema_version'' = JStr CHALLENGE_VERSION \<and> keys_are v challenge_fields
     \<and> time_issues (dget v ''issued_at'') (dget v ''expires_at'') at = Inr [] \<and> header_issues v = []
     \<and> (\<exists>n. dget v ''nonce'' = JStr n \<and> matches_nonce n) \<and> scope_issues (dget v ''scope'') = []
     \<and> dget v ''claim_boundary'' = challenge_boundary
     \<and> dget v ''challenge_identity'' = JStr (identity_without v ''challenge_identity'')
     \<and> rep = challenge_report_of [] (Some v)"
  by (auto simp: validate_execution_challenge_def tryE_eq_Inr split: json.splits if_splits)

text \<open>A bound pair: the challenge is valid, the receipt has its own identity and the scope and window of the challenge.\<close>

definition bound :: "dict \<Rightarrow> dict \<Rightarrow> bool" where
  "bound c r =
     (validate_execution_challenge (JObj c) None = Inr (challenge_report_of [] (Some c))
      \<and> dget r ''receipt_identity'' = JStr (identity_without r ''receipt_identity'')
      \<and> py_eq (JObj (scope_from_receipt r)) (dget c ''scope'')
      \<and> (\<forall>f \<in> {''nonce'', ''issued_at'', ''expires_at''}. dget (dict_at r ''challenge'') f = dget c f))"

lemma bind_valid:
  assumes "bind_challenge_to_receipt c receipt = Inr rep" "rp_valid rep"
  obtains r where "receipt = JObj r" "bound c r" "rep = replay_report_of [] None"
proof -
  from assms(1) obtain crep where v: "validate_execution_challenge (JObj c) None = Inr crep"
    by (auto simp: bind_challenge_to_receipt_def tryE_eq_Inr)
  have cv: "cr_valid crep"
  proof (rule ccontr)
    assume "\<not> cr_valid crep"
    with assms v show False by (auto simp: bind_challenge_to_receipt_def)
  qed
  with v have "validate_execution_challenge (JObj c) None = Inr crep \<and> cr_valid crep" by simp
  then have crep: "crep = challenge_report_of [] (Some c)" unfolding validate_eq_Inr by blast
  obtain r where r: "receipt = JObj r"
    using assms v cv by (cases receipt) (auto simp: bind_challenge_to_receipt_def)
  from assms v cv r have "bound c r \<and> rep = replay_report_of [] None"
    unfolding bound_def crep [symmetric]
    by (auto simp: bind_challenge_to_receipt_def Let_def split: if_splits)
  with r that show thesis by blast
qed

lemma bind_bound:
  assumes "bound c r"
  shows "bind_challenge_to_receipt c (JObj r) = Inr (replay_report_of [] None)"
proof -
  have "text_matches matches_hash (dget r ''receipt_identity'')"
    using assms by (simp add: bound_def text_matches_def)
  with assms show ?thesis by (simp add: bound_def bind_challenge_to_receipt_def)
qed

lemma boundD:
  assumes "bound c r"
  obtains issued expires n where "strict_time (dget c ''issued_at'') = Inr issued" "strict_time (dget c ''expires_at'') = Inr expires"
    "issued < expires" "instant_ok issued" "instant_ok expires" "dget c ''nonce'' = JStr n"
    "dget c ''challenge_identity'' = JStr (identity_without c ''challenge_identity'')"
proof -
  have "validate_execution_challenge (JObj c) None = Inr (challenge_report_of [] (Some c)) \<and> cr_valid (challenge_report_of [] (Some c))"
    using assms by (simp add: bound_def)
  then show thesis
    unfolding validate_eq_Inr time_issues_Nil using that challenge_time_ok by (auto simp: strict_time_eq_Inr)
qed

section \<open>The history of the store\<close>

definition replay_history :: "ledger_file \<Rightarrow> dict list" where
  "replay_history F = map entry_record (filter (of_type (Some REPLAY_RECORD)) (stream_unlocked F))"

lemma replay_entries_ok: "ledger_ok F \<Longrightarrow> replay_entries F = Inr (replay_history F)"
  by (simp add: replay_entries_def all_records_def require_clean_ok replay_history_def)

lemma replay_entries_InrD: "replay_entries F = Inr es \<Longrightarrow> ledger_ok F \<and> es = replay_history F"
  by (auto simp: replay_entries_def all_records_def tryE_eq_Inr replay_history_def dest: require_clean_InrD)

lemma of_type_holds: "entry_holds rt r e \<Longrightarrow> of_type (Some t) e \<longleftrightarrow> rt = t"
  by (auto simp: of_type_def entry_holds_def)

lemma replay_history_extends:
  "stream_unlocked F' = stream_unlocked F @ zs \<Longrightarrow> set (replay_history F) \<subseteq> set (replay_history F')"
  by (auto simp: replay_history_def)

lemma replay_entry_fields [simp]:
  "dget (replay_entry c r t n p) ''challenge_identity'' = dget c ''challenge_identity''"
  "dget (replay_entry c r t n p) ''nonce_digest'' = JStr (nonce_digest c)"
  "dget (replay_entry c r t n p) ''receipt_identity'' = dget r ''receipt_identity''"
  "dget (replay_entry c r t n p) ''sequence'' = JInt (int n + 1)"
  "dget (replay_entry c r t n p) ''previous_entry_identity'' = p"
  "dget (replay_entry c r t n p) ''time_watermark'' = JStr (iso_micros t)"
  "fmlookup (replay_entry c r t n p) ''time_watermark'' = Some (JStr (iso_micros t))"
  "dget (replay_entry c r t n p) ''entry_identity'' = JStr (identity_without (replay_entry c r t n p) ''entry_identity'')"
  "fmlookup (replay_entry c r t n p) ''entry_identity'' \<noteq> None"
  by (simp_all add: replay_entry_def Let_def)

lemma prepare_eq_Inr:
  "prepare_entry c r now es = Inr (Inr e) \<longleftrightarrow>
     (\<exists>effective issued expires previous. \<not> consumed c es \<and> effective_time now es = Inr effective
        \<and> strict_time (dget c ''issued_at'') = Inr issued \<and> strict_time (dget c ''expires_at'') = Inr expires
        \<and> issued \<le> effective \<and> effective < expires
        \<and> (if es = [] then Inr JNull else dsub (last es) ''entry_identity'') = Inr previous
        \<and> e = replay_entry c r effective (length es) previous)"
  by (auto simp: prepare_entry_def tryE_eq_Inr not_le not_less)

lemma consume_invalid:
  assumes "consume_challenge c receipt now F = Inr (rep, F')" "\<not> rp_valid rep"
  shows "F' = F"
proof (rule ccontr)
  assume "F' \<noteq> F"
  with assms(1) obtain b p where "rp_valid b" and p: "(case p of
               Inl msg \<Rightarrow> Inr (b\<lparr>rp_valid := False, rp_issues := rp_issues b @ [msg]\<rparr>, F)
             | Inr entry \<Rightarrow>
               tryE (ledger_append REPLAY_RECORD entry F) (\<lambda>(_, F').
                 Inr (b\<lparr>rp_receipt := Some (JObj (replay_receipt entry))\<rparr>, F'))) = Inr (rep, F')"
    by (auto simp: consume_challenge_def tryE_eq_Inr split: if_splits)
  with assms(2) \<open>F' \<noteq> F\<close> show False by (cases p) (auto simp: tryE_eq_Inr)
qed

lemma consume_validE:
  assumes "consume_challenge c receipt now F = Inr (rep, F')" "rp_valid rep"
  obtains r entry x where "receipt = JObj r" "bound c r" "ledger_ok F" "ledger_ok F'"
    "prepare_entry c r now (replay_history F) = Inr (Inr entry)" "stream_unlocked F' = stream_unlocked F @ [x]"
    "replay_history F' = replay_history F @ [entry]" "rp_receipt rep = Some (JObj (replay_receipt entry))"
proof -
  from assms(1) obtain b where b: "bind_challenge_to_receipt c receipt = Inr b"
    by (auto simp: consume_challenge_def tryE_eq_Inr)
  have bv: "rp_valid b"
  proof (rule ccontr)
    assume "\<not> rp_valid b"
    with assms b show False by (auto simp: consume_challenge_def)
  qed
  from bind_valid [OF b bv] obtain r where r: "receipt = JObj r" "bound c r" and brep: "b = replay_report_of [] None" .
  from assms(1) b bv obtain es where es: "replay_entries F = Inr es"
    by (auto simp: consume_challenge_def tryE_eq_Inr)
  with replay_entries_InrD have ok: "ledger_ok F" and hist: "es = replay_history F" by blast+
  from assms(1) b bv es obtain p where p: "prepare_entry c r now es = Inr p"
    by (auto simp: consume_challenge_def tryE_eq_Inr r receipt_dict_def)
  have "\<exists>entry. p = Inr entry"
  proof (cases p)
    case (Inl msg)
    with assms b bv es p show ?thesis by (auto simp: consume_challenge_def r receipt_dict_def)
  qed simp
  then obtain entry where entry: "prepare_entry c r now es = Inr (Inr entry)" using p by blast
  with assms(1) b bv es obtain x where x: "ledger_append REPLAY_RECORD entry F = Inr (x, F')"
    and rep: "rep = b\<lparr>rp_receipt := Some (JObj (replay_receipt entry))\<rparr>"
    by (auto simp: consume_challenge_def tryE_eq_Inr r receipt_dict_def)
  note a = ledger_append_InrD [OF x]
  have rec: "of_type (Some REPLAY_RECORD) x" "entry_record x = entry"
  proof -
    from a have "entry_holds REPLAY_RECORD entry x" by simp
    then show "of_type (Some REPLAY_RECORD) x" "entry_record x = entry" by (simp_all add: of_type_holds entry_record_holds)
  qed
  have "x \<notin> set (stream_unlocked F)"
  proof
    assume "x \<in> set (stream_unlocked F)"
    with rec have "entry \<in> set (replay_history F)" by (auto simp: replay_history_def)
    moreover from entry have "\<not> consumed c (replay_history F)" "dget entry ''challenge_identity'' = dget c ''challenge_identity''"
      unfolding prepare_eq_Inr hist by auto
    ultimately show False by (auto simp: consumed_def list_ex_iff)
  qed
  with a have F': "F' = write_entries [x] F" "x = next_entry REPLAY_RECORD entry (stream_unlocked F)" by auto
  then have "ledger_ok F'" using ok_write_next [OF ok] by simp
  moreover have "replay_history F' = replay_history F @ [entry]" using rec by (simp add: F'(1) replay_history_def)
  ultimately show thesis
    using that [OF r ok _ entry [unfolded hist]] rep by (simp add: F'(1))
qed

section \<open>Single use\<close>

lemma consumed_once:
  assumes first: "consume_challenge c receipt now F = Inr (rep, F')" "rp_valid rep"
    and later: "stream_unlocked G = stream_unlocked F' @ zs"
    and second: "consume_challenge c2 receipt2 now2 G = Inr (rep2, G')"
    and same: "dget c2 ''challenge_identity'' = dget c ''challenge_identity'' \<or> dget c2 ''nonce'' = dget c ''nonce''"
  shows "\<not> rp_valid rep2 \<and> G' = G"
proof -
  from first obtain r entry where p: "prepare_entry c r now (replay_history F) = Inr (Inr entry)"
    and h: "replay_history F' = replay_history F @ [entry]" by (rule consume_validE) blast
  have "entry \<in> set (replay_history G)" using replay_history_extends [OF later] h by auto
  moreover have "dget entry ''challenge_identity'' = dget c ''challenge_identity''" "dget entry ''nonce_digest'' = JStr (nonce_digest c)"
    using p unfolding prepare_eq_Inr by auto
  moreover have "nonce_digest c2 = nonce_digest c" if "dget c2 ''nonce'' = dget c ''nonce''"
    using that by (simp add: nonce_digest_def)
  ultimately have "consumed c2 (replay_history G)" using same by (auto simp: consumed_def list_ex_iff)
  then have "\<not> rp_valid rep2"
    using consume_validE [OF second] by (metis prepare_eq_Inr)
  with consume_invalid [OF second] show ?thesis by blast
qed

section \<open>The clock of the store\<close>

lemma fold_max_bounds:
  fixes t :: int
  shows "t \<le> fold max ws t \<and> (\<forall>w \<in> set ws. w \<le> fold max ws t) \<and> fold max ws t \<in> insert t (set ws)"
proof (induction ws arbitrary: t)
  case (Cons w ws)
  from Cons [of "max w t"] show ?case by (auto simp: max_def split: if_splits)
qed simp

lemma effective_timeD:
  assumes "effective_time now es = Inr t"
  shows "now \<le> t" "\<And>e. e \<in> set es \<Longrightarrow> \<exists>w. strict_time (dget e ''time_watermark'') = Inr w \<and> w \<le> t"
proof -
  from assms obtain ws where ws: "mapE (\<lambda>e. tryE (dsub e ''time_watermark'') strict_time) es = Inr ws" and t: "t = fold max ws now"
    by (auto simp: effective_time_def tryE_eq_Inr)
  show "now \<le> t" using fold_max_bounds [of now ws] t by simp
  fix e assume "e \<in> set es"
  with mapE_set2 [OF ws] obtain w where w: "w \<in> set ws" "tryE (dsub e ''time_watermark'') strict_time = Inr w" by blast
  then have "strict_time (dget e ''time_watermark'') = Inr w" by (auto simp: tryE_eq_Inr dsub_eq_Inr dget_eq)
  moreover have "w \<le> t" using fold_max_bounds [of now ws] t w(1) by simp
  ultimately show "\<exists>w. strict_time (dget e ''time_watermark'') = Inr w \<and> w \<le> t" by blast
qed

lemma clock_forward:
  assumes "consume_challenge c receipt now F = Inr (rep, F')" "rp_valid rep"
  shows "\<exists>issued t expires entry. strict_time (dget c ''issued_at'') = Inr issued \<and> strict_time (dget c ''expires_at'') = Inr expires
    \<and> issued \<le> t \<and> t < expires \<and> now \<le> t
    \<and> (\<forall>e \<in> set (replay_history F). \<exists>w. strict_time (dget e ''time_watermark'') = Inr w \<and> w \<le> t)
    \<and> replay_history F' = replay_history F @ [entry] \<and> strict_time (dget entry ''time_watermark'') = Inr t"
proof -
  from assms obtain r entry where p: "prepare_entry c r now (replay_history F) = Inr (Inr entry)"
    and h: "replay_history F' = replay_history F @ [entry]" and b: "bound c r" by (rule consume_validE) blast
  from p obtain t issued expires where e: "effective_time now (replay_history F) = Inr t"
    and w: "strict_time (dget c ''issued_at'') = Inr issued" "strict_time (dget c ''expires_at'') = Inr expires" "issued \<le> t" "t < expires"
    and entry: "dget entry ''time_watermark'' = JStr (iso_micros t)"
    unfolding prepare_eq_Inr by auto
  have "instant_ok issued" "instant_ok expires" using w(1,2) challenge_time_ok by (auto simp: strict_time_eq_Inr)
  with w(3,4) have "instant_ok t" by (simp add: instant_range)
  then have "strict_time (dget entry ''time_watermark'') = Inr t" by (simp add: entry strict_time_iso)
  with effective_timeD [OF e] w h show ?thesis by blast
qed

end
