(* ===== verification/Challenge_Issue.thy ===== *)
theory Challenge_Issue
  imports Challenge_Safety
begin

text \<open>
  Issued challenges: they validate, and at an instant exactly inside their window. The checks of the identities run on the
  text of a value, so that an issuer that is missing passes them. At the end a challenge and receipts bound to it.
\<close>

section \<open>Issued challenges are valid\<close>

lemma hex_alnum: "c \<in> set ''0123456789abcdef'' \<Longrightarrow> is_alnum c"
  by (auto simp: is_alnum_def is_ascii_digit_def)

lemma hex_chars: "list_all is_alnum (take n (raw_identity v))"
proof -
  have "matches_hash (raw_identity v)" by (simp add: raw_identity_def)
  then have "list_all (\<lambda>c. c \<in> set ''0123456789abcdef'') (raw_identity v)" by (simp only: matches_hash_def)
  then have "list_all is_alnum (raw_identity v)" by (rule list.pred_mono_strong) (rule hex_alnum)
  then show ?thesis by (metis append_take_drop_id list_all_append)
qed

lemma challenge_id_matches:
  assumes "matches_nonce nonce"
  shows "matches_identity (''challenge.'' @ take 24 (raw_identity v) @ ''.'' @ take 12 nonce)"
proof -
  have "list_all is_alnum (take 24 (raw_identity v))"
    by (rule hex_chars)
  moreover have "list_all (\<lambda>c. is_alnum c \<or> c \<in> set ''_-'') (take 12 nonce)"
    using assms by (auto simp: matches_nonce_def list_all_iff dest: in_set_takeD)
  moreover have "is_alnum CHR ''c''" "is_alnum CHR ''h''" "is_alnum CHR ''a''" "is_alnum CHR ''l''" "is_alnum CHR ''e''"
    "is_alnum CHR ''n''" "is_alnum CHR ''g''" by (simp_all add: is_alnum_def is_ascii_digit_def)
  ultimately show ?thesis by (auto simp: matches_identity_def list_all_iff)
qed

lemma build_challenge_fields [simp]:
  "dget (build_challenge i s n t x) ''schema_version'' = JStr CHALLENGE_VERSION"
  "dget (build_challenge i s n t x) ''record_type'' = JStr CHALLENGE_TYPE"
  "dget (build_challenge i s n t x) ''challenge_id''
     = JStr (''challenge.'' @ take 24 (raw_identity (obj [(''scope'', JObj s), (''nonce'', JStr n)])) @ ''.'' @ take 12 n)"
  "dget (build_challenge i s n t x) ''challenge_identity'' = JStr (identity_without (build_challenge i s n t x) ''challenge_identity'')"
  "dget (build_challenge i s n t x) ''issuer_identity'' = JStr i" "dget (build_challenge i s n t x) ''issued_at'' = JStr (iso_micros t)"
  "dget (build_challenge i s n t x) ''expires_at'' = JStr (iso_micros x)" "dget (build_challenge i s n t x) ''nonce'' = JStr n"
  "dget (build_challenge i s n t x) ''scope'' = JObj s" "dget (build_challenge i s n t x) ''replay_policy'' = JStr ''single-use''"
  "dget (build_challenge i s n t x) ''claim_boundary'' = challenge_boundary"
  "is_dict (dget (build_challenge i s n t x) ''extensions'')"
  by (simp_all add: build_challenge_def Let_def)

lemma build_challenge_keys: "keys_are (build_challenge i s n t x) challenge_fields"
  unfolding keys_are_def
  by (rule fset_eqI) (auto simp: fmlookup_dom_iff build_challenge_def challenge_fields_def fmlookup_of_list Let_def)

lemma scope_accepted:
  assumes "\<not> scope_rejected s" "\<not> id_rejected (dget s ''candidate_id'')" "\<not> id_rejected (dget s ''runner_identity'')"
  shows "scope_issues (JObj s) = []"
  using assms by (simp add: scope_rejected_def id_rejected_def scope_issues_def issue_if_def)

lemma build_challenge_valid:
  assumes "matches_identity i" "\<not> scope_rejected s" "\<not> id_rejected (dget s ''candidate_id'')"
    "\<not> id_rejected (dget s ''runner_identity'')" "matches_nonce n" "instant_ok t" "instant_ok x" "t < x"
  shows "validate_execution_challenge (JObj (build_challenge i s n t x)) at = Inr rep \<and> cr_valid rep \<longleftrightarrow>
    rep = challenge_report_of [] (Some (build_challenge i s n t x)) \<and> (case at of None \<Rightarrow> True | Some now \<Rightarrow> t \<le> now \<and> now < x)"
proof -
  have "header_issues (build_challenge i s n t x) = []"
    using assms(1) challenge_id_matches [OF assms(5)] by (simp add: header_issues_def text_matches_def)
  then show ?thesis
    unfolding validate_eq_Inr time_issues_Nil
    using assms(5-8) scope_accepted [OF assms(2-4)] build_challenge_keys [of i s n t x]
    by (auto simp: challenge_time_iso)
qed

lemma build_challenge_validates:
  assumes "matches_identity i" "\<not> scope_rejected s" "\<not> id_rejected (dget s ''candidate_id'')"
    "\<not> id_rejected (dget s ''runner_identity'')" "matches_nonce n" "instant_ok t" "instant_ok x" "t < x"
  shows "validate_execution_challenge (JObj (build_challenge i s n t x)) None
    = Inr (challenge_report_of [] (Some (build_challenge i s n t x)))"
  using build_challenge_valid [OF assms, of None "challenge_report_of [] (Some (build_challenge i s n t x))"] by simp

lemma validate_total_at:
  assumes "validate_execution_challenge (JObj c) None = Inr rep" "cr_valid rep"
  shows "\<exists>rep'. validate_execution_challenge (JObj c) at = Inr rep'"
proof -
  from assms have "time_issues (dget c ''issued_at'') (dget c ''expires_at'') None = Inr []"
    using validate_eq_Inr by blast
  then obtain issues where "time_issues (dget c ''issued_at'') (dget c ''expires_at'') at = Inr issues"
    unfolding time_issues_Nil by (auto simp: time_issues_def)
  then show ?thesis by (auto simp: validate_execution_challenge_def)
qed

text \<open>
  Issuing returns a valid challenge whenever it returns one, and that challenge is inside its window exactly from the instant of
  issue until the time to live has passed.
\<close>

theorem issued_challenge_is_valid_in_window:
  assumes issue: "issue_execution_challenge issuer scope ttl ttl_us now nonce = Inr rep" and c: "cr_challenge rep = Some c"
    and nonce: "matches_nonce nonce" and now: "instant_ok now" and ttl: "0 < ttl_us"
  shows "cr_valid rep \<and> (\<exists>rep'. validate_execution_challenge (JObj c) (Some t) = Inr rep'
    \<and> (cr_valid rep' \<longleftrightarrow> now \<le> t \<and> t < now + ttl_us))"
proof -
  let ?c = "build_challenge issuer scope nonce now (now + ttl_us)"
  from issue c have g: "matches_identity issuer" "\<not> scope_rejected scope" "\<not> id_rejected (dget scope ''candidate_id'')"
    "\<not> id_rejected (dget scope ''runner_identity'')" "instant_ok (now + ttl_us)"
    and v: "validate_execution_challenge (JObj ?c) None = Inr rep"
    by (auto simp: issue_execution_challenge_def split: if_splits)
  have lt: "now < now + ttl_us" using ttl by simp
  note valid = build_challenge_valid [OF g(1-4) nonce now g(5) lt]
  have rep: "rep = challenge_report_of [] (Some ?c)"
    using build_challenge_validates [OF g(1-4) nonce now g(5) lt] v by simp
  with c have "c = ?c" by simp
  obtain rep' where "validate_execution_challenge (JObj ?c) (Some t) = Inr rep'"
    using validate_total_at [OF v] rep by auto
  with valid [of "Some t" rep'] valid [of "Some t" "challenge_report_of [] (Some ?c)"] rep \<open>c = ?c\<close> show ?thesis by auto
qed

section \<open>The issuer\<close>

lemma text_matches_null: "text_matches matches_identity JNull"
  by (simp add: text_matches_def matches_identity_def is_alnum_def is_upper_def is_ascii_digit_def)

text \<open>
  A valid challenge stays valid when its issuer is replaced by null and its identity recomputed: the pattern is matched against
  the text \<^verbatim>\<open>None\<close>.
\<close>

theorem issuer_may_be_missing:
  assumes "validate_execution_challenge (JObj c) at = Inr rep" "cr_valid rep"
    and c': "c' = fmupd ''issuer_identity'' JNull c"
  shows "\<exists>rep'. validate_execution_challenge
      (JObj (fmupd ''challenge_identity'' (JStr (identity_without c' ''challenge_identity'')) c')) at = Inr rep' \<and> cr_valid rep'"
proof -
  let ?d = "fmupd ''challenge_identity'' (JStr (identity_without c' ''challenge_identity'')) c'"
  from assms(1,2) have v: "validate_execution_challenge (JObj c) at = Inr rep \<and> cr_valid rep" by simp
  then have v: "dget c ''schema_version'' = JStr CHALLENGE_VERSION" "keys_are c challenge_fields"
    "time_issues (dget c ''issued_at'') (dget c ''expires_at'') at = Inr []" "header_issues c = []"
    "\<exists>n. dget c ''nonce'' = JStr n \<and> matches_nonce n" "scope_issues (dget c ''scope'') = []"
    "dget c ''claim_boundary'' = challenge_boundary"
    unfolding validate_eq_Inr by blast+
  have "''issuer_identity'' |\<in>| fmdom c" "''challenge_identity'' |\<in>| fmdom c"
    using v(2) by (simp_all add: keys_are_def challenge_fields_def)
  then have "keys_are ?d challenge_fields" using v(2) by (simp add: keys_are_def c' finsert_absorb)
  moreover have "header_issues ?d = []"
    using v(4) text_matches_null by (simp add: header_issues_def c' text_matches_def)
  ultimately have "validate_execution_challenge (JObj ?d) at = Inr (challenge_report_of [] (Some ?d))
      \<and> cr_valid (challenge_report_of [] (Some ?d))"
    unfolding validate_eq_Inr using v by (simp add: c')
  then show ?thesis by blast
qed

section \<open>A challenge and its receipts\<close>

definition sample_nonce :: string where "sample_nonce = replicate 43 CHR ''n''"

definition sample_bare :: "string \<Rightarrow> dict" where
  "sample_bare run = dict_of
     [(''run'', JStr run), (''subject'', obj [(''canonical_sha256'', JStr (replicate 64 CHR ''a''))]),
      (''bundle'', obj [(''test_bundle_identity'', JStr (replicate 64 CHR ''b''))]),
      (''policy'', obj [(''execution_policy_identity'', JStr (replicate 64 CHR ''c''))]),
      (''challenge'', obj [(''nonce'', JStr sample_nonce), (''issued_at'', JStr (iso_micros 1767225600000000)),
         (''expires_at'', JStr (iso_micros 1767225900000000))]),
      (''receipt_identity'', JNull)]"

definition sample_receipt :: "string \<Rightarrow> dict" where
  "sample_receipt run =
     fmupd ''receipt_identity'' (JStr (identity_without (sample_bare run) ''receipt_identity'')) (sample_bare run)"

definition sample_scope :: dict where
  "sample_scope = dict_of
     [(''subject_identity'', JStr (replicate 64 CHR ''a'')), (''candidate_id'', JNull), (''bundle_identity'', JStr (replicate 64 CHR ''b'')),
      (''execution_policy_identity'', JStr (replicate 64 CHR ''c'')), (''runner_identity'', JNull)]"

definition sample_challenge :: dict where
  "sample_challenge = build_challenge ''issuer'' sample_scope sample_nonce 1767225600000000 1767225900000000"

lemma sample_guards:
  "matches_identity ''issuer''" "matches_nonce sample_nonce" "\<not> scope_rejected sample_scope"
  "\<not> id_rejected (dget sample_scope ''candidate_id'')" "\<not> id_rejected (dget sample_scope ''runner_identity'')"
proof -
  have "keys_are sample_scope SCOPE_FIELDS"
    unfolding keys_are_def by (rule fset_eqI) (auto simp: fmlookup_dom_iff sample_scope_def SCOPE_FIELDS_def fmlookup_of_list)
  then show "\<not> scope_rejected sample_scope"
    by (simp add: scope_rejected_def) (simp add: sample_scope_def text_matches_def matches_hash_def list_all_iff)
qed (simp_all add: matches_identity_def matches_nonce_def sample_nonce_def is_alnum_def is_upper_def is_ascii_digit_def
      list_all_iff id_rejected_def sample_scope_def)

lemma sample_instants: "instant_ok 1767225600000000" "instant_ok 1767225900000000"
  by (simp_all add: instant_range)

lemma sample_valid: "validate_execution_challenge (JObj sample_challenge) None = Inr (challenge_report_of [] (Some sample_challenge))"
  unfolding sample_challenge_def
  by (rule build_challenge_validates) (simp_all add: sample_guards sample_instants)

lemma sample_bound: "bound sample_challenge (sample_receipt run)"
proof -
  have at: "dict_at (sample_receipt run) k = dict_at (sample_bare run) k" if "k \<noteq> ''receipt_identity''" for k
    using that by (simp add: dict_at_def sample_receipt_def)
  have parts: "dict_at (sample_bare run) ''subject'' = dict_of [(''canonical_sha256'', JStr (replicate 64 CHR ''a''))]"
    "dict_at (sample_bare run) ''bundle'' = dict_of [(''test_bundle_identity'', JStr (replicate 64 CHR ''b''))]"
    "dict_at (sample_bare run) ''policy'' = dict_of [(''execution_policy_identity'', JStr (replicate 64 CHR ''c''))]"
    "dict_at (sample_bare run) ''runner'' = fmempty"
    "dict_at (sample_bare run) ''challenge'' = dict_of [(''nonce'', JStr sample_nonce), (''issued_at'', JStr (iso_micros 1767225600000000)),
         (''expires_at'', JStr (iso_micros 1767225900000000))]"
    by (simp_all add: dict_at_def sample_bare_def)
  have raw: "raw_text (JStr (replicate 64 x)) = replicate 64 x" if "x \<noteq> CHR ''s''" for x
    using that by (simp add: raw_text_def startswith_def eval_nat_numeral)
  have "scope_from_receipt (sample_receipt run) = sample_scope"
    by (simp add: scope_from_receipt_def sample_scope_def at parts raw)
  then show ?thesis
    by (simp add: bound_def sample_valid py_eq_def at parts) (simp add: sample_receipt_def sample_challenge_def)
qed

lemma sample_issue:
  "issue_execution_challenge ''issuer'' sample_scope (JInt 300) 300000000 1767225600000000 sample_nonce
    = Inr (challenge_report_of [] (Some sample_challenge))"
  using sample_valid by (simp add: issue_execution_challenge_def sample_guards sample_instants num_le_def sample_challenge_def)

theorem issued_challenge_is_valid_in_window_witness:
  "\<exists>rep rep'. issue_execution_challenge ''issuer'' sample_scope (JInt 300) 300000000 1767225600000000 sample_nonce = Inr rep
    \<and> cr_valid rep \<and> validate_execution_challenge (JObj sample_challenge) (Some 1767225900000000) = Inr rep' \<and> \<not> cr_valid rep'"
  using issued_challenge_is_valid_in_window [OF sample_issue _ sample_guards(2) sample_instants(1), of sample_challenge 1767225900000000]
    sample_issue by simp

theorem issuer_may_be_missing_witness:
  "\<exists>d rep. dget d ''issuer_identity'' = JNull \<and> validate_execution_challenge (JObj d) None = Inr rep \<and> cr_valid rep"
proof -
  from issuer_may_be_missing [OF sample_valid _ refl] obtain rep where
    "validate_execution_challenge (JObj (fmupd ''challenge_identity''
       (JStr (identity_without (fmupd ''issuer_identity'' JNull sample_challenge) ''challenge_identity''))
       (fmupd ''issuer_identity'' JNull sample_challenge))) None = Inr rep \<and> cr_valid rep" by auto
  then show ?thesis by (intro exI conjI) (auto intro: dget_fmupd)
qed

end
