(* ===== verification/Challenge_Runs.thy ===== *)
theory Challenge_Runs
  imports Challenge_Issue
begin

text \<open>
  The reachable replay stores: a ledger without replay entries, then consumptions and appends of other records in any order.
  The invariant of these runs, and what follows from it for a fresh challenge, for the receipt of a consumption, and for two
  consumers that read the store at the same time.
\<close>

section \<open>Runs\<close>

inductive replay_run :: "ledger_file \<Rightarrow> bool" where
  run_start: "ledger_ok F \<Longrightarrow> replay_history F = [] \<Longrightarrow> replay_run F"
| run_consume: "replay_run F \<Longrightarrow> consume_challenge c receipt now F = Inr (rep, F') \<Longrightarrow> replay_run F'"
| run_other: "replay_run F \<Longrightarrow> ledger_append rt r F = Inr (e, F') \<Longrightarrow> rt \<noteq> REPLAY_RECORD \<Longrightarrow> replay_run F'"

text \<open>Entries that number themselves, name the entry before them and carry their own identity.\<close>

fun linked_entries :: "int \<Rightarrow> json \<Rightarrow> dict list \<Rightarrow> bool" where
  "linked_entries n previous [] = True"
| "linked_entries n previous (e # es) =
     (dget e ''sequence'' = JInt (n + 1) \<and> dget e ''previous_entry_identity'' = previous
      \<and> dget e ''entry_identity'' = JStr (identity_without e ''entry_identity'')
      \<and> linked_entries (n + 1) (dget e ''entry_identity'') es)"

definition watermark :: "dict \<Rightarrow> int" where
  "watermark e = (case strict_time (dget e ''time_watermark'') of Inr w \<Rightarrow> w | Inl _ \<Rightarrow> 0)"

definition replay_inv :: "dict list \<Rightarrow> bool" where
  "replay_inv es =
     (linked_entries 0 JNull es \<and> distinct (map (\<lambda>e. dget e ''challenge_identity'') es)
      \<and> distinct (map (\<lambda>e. dget e ''nonce_digest'') es) \<and> sorted (map watermark es)
      \<and> list_all (\<lambda>e. fmlookup e ''time_watermark'' \<noteq> None \<and> fmlookup e ''entry_identity'' \<noteq> None
           \<and> strict_time (dget e ''time_watermark'') = Inr (watermark e)) es)"

lemma linked_snoc:
  "linked_entries n p (es @ [e]) \<longleftrightarrow>
     linked_entries n p es \<and> dget e ''sequence'' = JInt (n + int (length es) + 1)
     \<and> dget e ''previous_entry_identity'' = (if es = [] then p else dget (last es) ''entry_identity'')
     \<and> dget e ''entry_identity'' = JStr (identity_without e ''entry_identity'')"
  by (induction es arbitrary: n p) (auto simp: add_ac)

lemma consume_step:
  assumes "replay_inv (replay_history F)" and "consume_challenge c receipt now F = Inr (rep, F')"
  shows "replay_inv (replay_history F') \<and> (rp_valid rep \<or> F' = F)"
proof (cases "rp_valid rep")
  case False
  with consume_invalid [OF assms(2)] assms(1) show ?thesis by simp
next
  case True
  let ?es = "replay_history F"
  from assms(2) True obtain r entry where p: "prepare_entry c r now ?es = Inr (Inr entry)"
    and h: "replay_history F' = ?es @ [entry]" by (rule consume_validE) blast
  from p obtain t issued expires previous where "\<not> consumed c ?es" and t: "effective_time now ?es = Inr t"
    and w: "strict_time (dget c ''issued_at'') = Inr issued" "strict_time (dget c ''expires_at'') = Inr expires" "issued \<le> t" "t < expires"
    and prev: "(if ?es = [] then Inr JNull else dsub (last ?es) ''entry_identity'') = Inr previous"
    and entry: "entry = replay_entry c r t (length ?es) previous"
    unfolding prepare_eq_Inr by blast
  have fresh: "dget entry ''challenge_identity'' \<noteq> dget e ''challenge_identity'' \<and> dget entry ''nonce_digest'' \<noteq> dget e ''nonce_digest''"
    if "e \<in> set ?es" for e
    using \<open>\<not> consumed c ?es\<close> that by (auto simp: entry consumed_def list_ex_iff)
  have "instant_ok issued" "instant_ok expires" using w(1,2) challenge_time_ok by (auto simp: strict_time_eq_Inr)
  with w(3,4) have "instant_ok t" by (simp add: instant_range)
  then have tm: "strict_time (dget entry ''time_watermark'') = Inr t" by (simp add: entry strict_time_iso)
  then have mark: "watermark entry = t" by (simp add: watermark_def)
  have "watermark e \<le> t" if "e \<in> set ?es" for e
    using effective_timeD(2) [OF t that] by (auto simp: watermark_def)
  moreover have "previous = (if ?es = [] then JNull else dget (last ?es) ''entry_identity'')"
    using prev by (auto simp: dsub_eq_Inr dget_eq split: if_splits)
  moreover have "fmlookup entry ''time_watermark'' \<noteq> None" "fmlookup entry ''entry_identity'' \<noteq> None" by (simp_all add: entry)
  moreover have "dget entry ''sequence'' = JInt (int (length ?es) + 1)" "dget entry ''previous_entry_identity'' = previous"
    "dget entry ''entry_identity'' = JStr (identity_without entry ''entry_identity'')" by (simp_all add: entry)
  ultimately show ?thesis
    using assms(1) fresh tm mark True
    by (auto simp: h replay_inv_def linked_snoc sorted_append simp del: replay_entry_fields)
qed

lemma other_step:
  assumes "ledger_append rt r F = Inr (e, F')" "rt \<noteq> REPLAY_RECORD"
  shows "replay_history F' = replay_history F \<and> ledger_ok F'"
  using ledger_append_InrD [OF assms(1)] assms(2) ok_write_next [of F rt r] of_type_holds [OF next_entry_holds [of rt r]]
  by (auto simp: replay_history_def of_type_holds)

lemma run_invariant:
  assumes "replay_run F"
  shows "ledger_ok F \<and> replay_inv (replay_history F)"
  using assms
proof induction
  case (run_start F)
  then show ?case by (simp add: replay_inv_def)
next
  case (run_consume F c receipt now rep F')
  show ?case
  proof (cases "rp_valid rep")
    case True
    with run_consume consume_step show ?thesis by (metis consume_validE)
  next
    case False
    with run_consume consume_invalid show ?thesis by metis
  qed
next
  case (run_other F rt r e F')
  with other_step show ?case by simp
qed


section \<open>Fresh challenges and receipts\<close>

lemma run_effective_time:
  assumes "replay_run F" and "\<forall>e \<in> set (replay_history F). watermark e \<le> now"
  shows "effective_time now (replay_history F) = Inr now"
proof -
  have marks: "tryE (dsub e ''time_watermark'') strict_time = Inr (watermark e)" if "e \<in> set (replay_history F)" for e
    using run_invariant [OF assms(1)] that by (auto simp: replay_inv_def list_all_iff dsub_dget)
  have "fold max ws now = now" if "\<forall>w \<in> set ws. w \<le> now" for ws :: "int list"
    using that by (induction ws) (simp_all add: max_def)
  with marks assms(2) show ?thesis
    by (simp add: effective_time_def mapE_total [of _ _ watermark])
qed

lemma run_previous:
  assumes "replay_run F"
  shows "\<exists>p. (if replay_history F = [] then Inr JNull else dsub (last (replay_history F)) ''entry_identity'') = Inr p"
  using run_invariant [OF assms] by (auto simp: replay_inv_def list_all_iff dsub_dget)

lemma consume_fresh:
  assumes run: "replay_run F" and bound: "bound c r" and fresh: "\<not> consumed c (replay_history F)"
    and window: "strict_time (dget c ''issued_at'') = Inr issued" "strict_time (dget c ''expires_at'') = Inr expires" "issued \<le> now" "now < expires"
    and clock: "\<forall>e \<in> set (replay_history F). watermark e \<le> now"
    and new: "\<And>e. prepare_entry c r now (replay_history F) = Inr (Inr e) \<Longrightarrow> fresh_record e (stream_unlocked F)"
  shows "\<exists>rep F' e. consume_challenge c (JObj r) now F = Inr (rep, F') \<and> rp_valid rep
    \<and> rp_receipt rep = Some (JObj (replay_receipt e)) \<and> replay_history F' = replay_history F @ [e]"
proof -
  have ok: "ledger_ok F" using run_invariant [OF run] by simp
  from run_previous [OF run] obtain e where e: "prepare_entry c r now (replay_history F) = Inr (Inr e)"
    using fresh window run_effective_time [OF run clock] unfolding prepare_eq_Inr by auto
  have "ledger_append REPLAY_RECORD e F = Inr (next_entry REPLAY_RECORD e (stream_unlocked F),
      write_entries [next_entry REPLAY_RECORD e (stream_unlocked F)] F)"
    using ok new [OF e] by (intro ledger_append_fresh) (simp_all add: REPLAY_RECORD_def)
  then obtain rep F' where c: "consume_challenge c (JObj r) now F = Inr (rep, F')" "rp_valid rep"
    using e by (simp add: consume_challenge_def bind_bound [OF bound] replay_entries_ok [OF ok] receipt_dict_def
      replay_report_of_def)
  from c obtain entry where "prepare_entry c r now (replay_history F) = Inr (Inr entry)"
    "replay_history F' = replay_history F @ [entry]" "rp_receipt rep = Some (JObj (replay_receipt entry))"
    by (rule consume_validE) auto
  with c show ?thesis by blast
qed

lemma receipt_fields [simp]:
  "dget (replay_receipt e) ''schema_version'' = JStr CHALLENGE_VERSION" "dget (replay_receipt e) ''record_type'' = JStr REPLAY_TYPE"
  "dget (replay_receipt e) ''replay_identity'' = JStr (identity_without (replay_receipt e) ''replay_identity'')"
  "dget (replay_receipt e) ''challenge_identity'' = dget e ''challenge_identity''"
  "dget (replay_receipt e) ''receipt_identity'' = dget e ''receipt_identity''"
  "dget (replay_receipt e) ''nonce_digest'' = dget e ''nonce_digest''"
  "dget (replay_receipt e) ''store_entry_identity'' = dget e ''entry_identity''"
  by (simp_all add: replay_receipt_def Let_def)

lemma receipt_verifies:
  assumes "bound c r" "prepare_entry c r now es = Inr (Inr e)" "e \<in> set (replay_history G)" "ledger_ok G"
  shows "verify_replay_receipt (JObj (replay_receipt e)) c (JObj r) (Some G)
    = Inr (replay_report_of [] (Some (JObj (replay_receipt e))))"
proof -
  have "dget e ''challenge_identity'' = dget c ''challenge_identity''" "dget e ''nonce_digest'' = JStr (nonce_digest c)"
    "dget e ''receipt_identity'' = dget r ''receipt_identity''"
    using assms(2) unfolding prepare_eq_Inr by auto
  moreover have "list_ex (\<lambda>x. dget x ''entry_identity'' = dget e ''entry_identity'') (replay_history G)"
    using assms(3) by (auto simp: list_ex_iff)
  ultimately show ?thesis
    by (simp add: verify_replay_receipt_def bind_bound [OF assms(1)] replay_entries_ok [OF assms(4)] receipt_dict_def Let_def)
qed

text \<open>The receipt of a consumption verifies against the store ever after.\<close>

theorem replay_receipt_verifies:
  assumes "consume_challenge c receipt now F = Inr (rep, F')" "rp_valid rep"
    and "stream_unlocked G = stream_unlocked F' @ zs" "ledger_ok G"
  shows "\<exists>replay. rp_receipt rep = Some replay
    \<and> verify_replay_receipt replay c receipt (Some G) = Inr (replay_report_of [] (Some replay))"
proof -
  from assms(1,2) obtain r e where r: "receipt = JObj r" "bound c r" and e: "prepare_entry c r now (replay_history F) = Inr (Inr e)"
    and h: "replay_history F' = replay_history F @ [e]" and rep: "rp_receipt rep = Some (JObj (replay_receipt e))"
    by (rule consume_validE) auto
  have "e \<in> set (replay_history G)" using replay_history_extends [OF assms(3)] h by auto
  from receipt_verifies [OF r(2) e this assms(4)] r rep show ?thesis by auto
qed

section \<open>Two consumers at once\<close>


section \<open>Single use and the clock\<close>

text \<open>
  C30: Once a challenge has been consumed, no later submission of it, or of another challenge with its nonce, is accepted by a
  store whose ledger holds that history, whatever else was appended and whatever the clock says; a refused submission writes
  nothing.
\<close>

theorem challenge_is_consumed_once:
  assumes first: "consume_challenge c receipt now F = Inr (rep, F')" "rp_valid rep"
    and later: "stream_unlocked G = stream_unlocked F' @ zs"
    and second: "consume_challenge c2 receipt2 now2 G = Inr (rep2, G')"
    and same: "dget c2 ''challenge_identity'' = dget c ''challenge_identity'' \<or> dget c2 ''nonce'' = dget c ''nonce''"
  shows "\<not> rp_valid rep2 \<and> G' = G"
  by (rule consumed_once [OF assms])

text \<open>
  C32: The store keeps its own clock: a consumption happens no earlier than the given time and every watermark of the store, inside
  the window of the challenge, and its watermark reads back as that time. Setting the clock back does not revive a challenge
  that expired by a watermark.
\<close>

theorem replay_clock_never_runs_back:
  assumes "consume_challenge c receipt now F = Inr (rep, F')" "rp_valid rep"
  shows "\<exists>issued t expires entry. strict_time (dget c ''issued_at'') = Inr issued \<and> strict_time (dget c ''expires_at'') = Inr expires
    \<and> issued \<le> t \<and> t < expires \<and> now \<le> t
    \<and> (\<forall>e \<in> set (replay_history F). \<exists>w. strict_time (dget e ''time_watermark'') = Inr w \<and> w \<le> t)
    \<and> replay_history F' = replay_history F @ [entry] \<and> strict_time (dget entry ''time_watermark'') = Inr t"
  by (rule clock_forward [OF assms])


section \<open>A run\<close>

lemma sample_times:
  "strict_time (dget sample_challenge ''issued_at'') = Inr 1767225600000000"
  "strict_time (dget sample_challenge ''expires_at'') = Inr 1767225900000000"
  by (simp_all add: sample_challenge_def strict_time_iso sample_instants)

lemma empty_run: "replay_run empty_ledger" "replay_history empty_ledger = []"
  by (auto intro: run_start simp: replay_history_def)

lemma sample_consumption:
  "\<exists>rep F'. consume_challenge sample_challenge (JObj (sample_receipt run)) 1767225600000000 empty_ledger = Inr (rep, F')
     \<and> rp_valid rep \<and> length (replay_history F') = 1"
  using consume_fresh [OF empty_run(1) sample_bound _ sample_times, of 1767225600000000 run]
  by (fastforce simp: empty_run(2) consumed_def)



theorem challenge_is_consumed_once_witness:
  "\<exists>rep F rep2 F2. consume_challenge sample_challenge (JObj (sample_receipt [])) 1767225600000000 empty_ledger = Inr (rep, F)
     \<and> rp_valid rep \<and> consume_challenge sample_challenge (JObj (sample_receipt ''other'')) 1767225600000000 F = Inr (rep2, F2)
     \<and> \<not> rp_valid rep2 \<and> F2 = F"
proof -
  from sample_consumption obtain rep F where c: "consume_challenge sample_challenge (JObj (sample_receipt [])) 1767225600000000 empty_ledger
      = Inr (rep, F)" "rp_valid rep" by blast
  from c obtain entry where ok: "ledger_ok F" and h: "replay_history F = [entry]"
    and e: "prepare_entry sample_challenge (sample_receipt []) 1767225600000000 [] = Inr (Inr entry)"
    by (rule consume_validE) (auto simp: empty_run(2))
  have "consumed sample_challenge (replay_history F)"
    using e unfolding prepare_eq_Inr h by (auto simp: consumed_def)
  then obtain rep2 F2 where c2: "consume_challenge sample_challenge (JObj (sample_receipt ''other'')) 1767225600000000 F = Inr (rep2, F2)"
    by (simp add: consume_challenge_def bind_bound [OF sample_bound] replay_entries_ok [OF ok] prepare_entry_def)
  have "stream_unlocked F = stream_unlocked F @ []" by simp
  from challenge_is_consumed_once [OF c this c2] c c2 show ?thesis by blast
qed

theorem replay_clock_never_runs_back_witness:
  "\<exists>rep F (t :: int). consume_challenge sample_challenge (JObj (sample_receipt [])) 1767225600000000 empty_ledger = Inr (rep, F)
     \<and> 1767225600000000 \<le> t \<and> t < 1767225900000000 \<and> length (replay_history F) = 1"
proof -
  from sample_consumption obtain rep F where c: "consume_challenge sample_challenge (JObj (sample_receipt [])) 1767225600000000 empty_ledger
      = Inr (rep, F)" "rp_valid rep" "length (replay_history F) = 1" by blast
  from replay_clock_never_runs_back [OF c(1,2)] c sample_times show ?thesis by fastforce
qed

theorem replay_receipt_verifies_witness:
  "\<exists>rep F replay. consume_challenge sample_challenge (JObj (sample_receipt [])) 1767225600000000 empty_ledger = Inr (rep, F)
     \<and> rp_receipt rep = Some replay
     \<and> verify_replay_receipt replay sample_challenge (JObj (sample_receipt [])) (Some F) = Inr (replay_report_of [] (Some replay))"
proof -
  from sample_consumption obtain rep F where c: "consume_challenge sample_challenge (JObj (sample_receipt [])) 1767225600000000 empty_ledger
      = Inr (rep, F)" "rp_valid rep" by blast
  from c have "ledger_ok F" by (rule consume_validE)
  moreover have "stream_unlocked F = stream_unlocked F @ []" by simp
  ultimately show ?thesis using replay_receipt_verifies [OF c] c by blast
qed


end
