(* ===== verification/Capability_Observation.thy ===== *)
theory Capability_Observation
  imports Calendar Runtime_Observation
begin

text \<open>
  \<^verbatim>\<open>src/src/mncs_fabric/capabilities.py\<close>: the capabilities a worker was observed to have. An observation is built from
  entries that are normalised, identified and sorted; its class says who authored it, and only what a worker or an
  operator observed is trusted for admission. The attributes of an entry are visited in the order of their keys.
  Shown here: what is built validates unchanged.
\<close>

section \<open>Constants\<close>

definition CAPABILITY_OBSERVATION_SCHEMA :: string where
  "CAPABILITY_OBSERVATION_SCHEMA = ''mncs-fabric.worker-capability-observation.v0.1''"

definition CAPABILITY_KINDS :: "string list" where
  "CAPABILITY_KINDS = [''model'', ''runtime'', ''tool'', ''mcp'', ''service'', ''other'']"

definition CAPABILITY_AVAILABILITY :: "string list" where
  "CAPABILITY_AVAILABILITY = [''AVAILABLE'', ''UNAVAILABLE'', ''UNKNOWN'']"

definition OBSERVATION_CLASSES :: "string list" where
  "OBSERVATION_CLASSES = [''worker-observed'', ''operator-asserted'', ''consumer-declared'']"

definition TRUSTED_ADMISSION_CLASSES :: "string list" where
  "TRUSTED_ADMISSION_CLASSES = [''worker-observed'', ''operator-asserted'']"

definition DEFAULT_OBSERVATION_CLASS :: string where
  "DEFAULT_OBSERVATION_CLASS = ''consumer-declared''"

definition CAPABILITY_CLAIM_BOUNDARY :: string where
  "CAPABILITY_CLAIM_BOUNDARY =
     ''identity-bound capability observation supplied by an authenticated or registered worker workflow; not attestation, authorization, availability guarantee, semantic suitability, correctness, or conformance''"

definition MAX_CAPABILITY_ENTRIES :: nat where "MAX_CAPABILITY_ENTRIES = 256"

definition MAX_CAPABILITY_ATTRIBUTES :: nat where "MAX_CAPABILITY_ATTRIBUTES = 24"

definition MAX_ATTRIBUTE_LIST_ITEMS :: nat where "MAX_ATTRIBUTE_LIST_ITEMS = 32"

definition MAX_CAPABILITY_OBSERVATION_BYTES :: nat where "MAX_CAPABILITY_OBSERVATION_BYTES = 256 * 1024"

section \<open>Field checks\<close>

definition is_control :: "char \<Rightarrow> bool" where
  "is_control c = (let n = (of_char c :: nat) in n < 32 \<or> 127 \<le> n \<and> n \<le> 159)"

definition plain_text :: "string \<Rightarrow> nat \<Rightarrow> json \<Rightarrow> string result" where
  "plain_text field maximum v =
     (case v of
        JStr s \<Rightarrow>
          if s = [] \<or> maximum < length s then Inl (ValidationError (field @ '' must be bounded non-empty text''))
          else if list_ex is_control s then Inl (ValidationError (field @ '' must not contain control characters''))
          else Inr s
      | _ \<Rightarrow> Inl (ValidationError (field @ '' must be bounded non-empty text'')))"

definition optional_plain_text :: "string \<Rightarrow> nat \<Rightarrow> json \<Rightarrow> json result" where
  "optional_plain_text field maximum v =
     (if v = JNull then Inr JNull else tryE (plain_text field maximum v) (\<lambda>s. Inr (JStr s)))"

definition capability_stamp :: "json \<Rightarrow> string result" where
  "capability_stamp v =
     tryE (plain_text ''captured_at'' 64 v) (\<lambda>raw.
       case fromisoformat (replace_Z raw) of
         None \<Rightarrow> Inl (ValidationError ''captured_at must be an RFC 3339 timestamp'')
       | Some (local', None) \<Rightarrow> Inl (ValidationError ''captured_at must include a timezone'')
       | Some (local', Some off) \<Rightarrow> tryE (instant_of_offset (local', off)) (\<lambda>us. Inr (show_instant us)))"

definition attribute_value :: "string \<Rightarrow> json \<Rightarrow> json result" where
  "attribute_value field v =
     (case v of
        JNull \<Rightarrow> Inr v
      | JBool b \<Rightarrow> Inr v
      | JInt n \<Rightarrow>
          if n < 0 \<or> 2 ^ 63 - 1 < n then Inl (ValidationError (field @ '' integer is outside the bounded range'')) else Inr v
      | JStr s \<Rightarrow> tryE (plain_text field 512 v) (\<lambda>s. Inr (JStr s))
      | JList xs \<Rightarrow>
          if MAX_ATTRIBUTE_LIST_ITEMS < length xs then Inl (ValidationError (field @ '' list exceeds the item bound''))
          else tryE (mapE (plain_text field 256) xs) (\<lambda>items.
            if \<not> distinct items then Inl (ValidationError (field @ '' list items must be unique''))
            else Inr (JList (map JStr (sort items))))
      | _ \<Rightarrow> Inl (ValidationError (field @ '' must be a bounded JSON scalar or string list'')))"

text \<open>\<^verbatim>\<open>[a-z][a-z0-9_.-]{0,63}\<close>, matched against the whole text.\<close>

definition is_lower :: "char \<Rightarrow> bool" where
  "is_lower c = (97 \<le> (of_char c :: nat) \<and> (of_char c :: nat) \<le> 122)"

definition matches_attribute_key :: "string \<Rightarrow> bool" where
  "matches_attribute_key s =
     (case s of
        [] \<Rightarrow> False
      | c # cs \<Rightarrow> is_lower c \<and> length cs \<le> 63 \<and> list_all (\<lambda>d. is_lower d \<or> is_ascii_digit d \<or> d \<in> set ''_.-'') cs)"

text \<open>A dict with the same keys whose values are what a check returns.\<close>

definition map_values :: "(string \<Rightarrow> json \<Rightarrow> json result) \<Rightarrow> dict \<Rightarrow> dict result" where
  "map_values f d =
     tryE (mapE (\<lambda>k. tryE (f k (dget d k)) (\<lambda>w. Inr (k, w))) (dict_keys d)) (\<lambda>kvs. Inr (dict_of kvs))"

definition attribute_item :: "string \<Rightarrow> json \<Rightarrow> json result" where
  "attribute_item k v =
     (if \<not> matches_attribute_key k
      then Inl (ValidationError ''capability attribute names must use the bounded factual namespace'')
      else attribute_value (''attributes.'' @ k) v)"

definition normalize_attributes :: "json \<Rightarrow> dict result" where
  "normalize_attributes v =
     (case v of
        JObj m \<Rightarrow>
          if MAX_CAPABILITY_ATTRIBUTES < length (dict_keys m)
          then Inl (ValidationError ''capability attributes must be a bounded object'')
          else map_values attribute_item m
      | _ \<Rightarrow> Inl (ValidationError ''capability attributes must be a bounded object''))"

section \<open>Entries\<close>

definition capability_entry_inputs :: "string list" where
  "capability_entry_inputs = [''kind'', ''namespace'', ''name'', ''version'', ''subject_identity'', ''attributes'']"

definition capability_entry_of :: "string \<Rightarrow> string \<Rightarrow> string \<Rightarrow> json \<Rightarrow> json \<Rightarrow> dict \<Rightarrow> dict" where
  "capability_entry_of kind namespace name version subject attributes =
     attach_identity (dict_of
       [(''kind'', JStr kind), (''namespace'', JStr namespace), (''name'', JStr name), (''version'', version),
        (''subject_identity'', subject), (''attributes'', JObj attributes)]) ''capability_identity''"

definition build_capability_entry :: "json \<Rightarrow> dict result" where
  "build_capability_entry v =
     (case v of
        JObj m \<Rightarrow>
          if \<not> fmdom m |\<subseteq>| fset_of_list capability_entry_inputs
          then Inl (ValidationError ''capability entry contains unsupported fields'')
          else
            tryE (plain_text ''kind'' 32 (dget m ''kind'')) (\<lambda>kind.
            if kind \<notin> set CAPABILITY_KINDS then Inl (ValidationError ''capability kind is unsupported'')
            else
              tryE (plain_text ''namespace'' 128 (dget m ''namespace'')) (\<lambda>namespace.
              tryE (plain_text ''name'' 256 (dget m ''name'')) (\<lambda>name.
              tryE (optional_plain_text ''version'' 128 (dget m ''version'')) (\<lambda>version.
              tryE (optional_plain_text ''subject_identity'' 256 (dget m ''subject_identity'')) (\<lambda>subject.
              tryE (normalize_attributes (dget_default m ''attributes'' (JObj fmempty))) (\<lambda>attributes.
                Inr (capability_entry_of kind namespace name version subject attributes)))))))
      | _ \<Rightarrow> Inl (ValidationError ''capability entry must be an object''))"

definition capability_entry_fields :: "string list" where
  "capability_entry_fields = capability_entry_inputs @ [''capability_identity'']"

definition validate_capability_entry :: "json \<Rightarrow> dict result" where
  "validate_capability_entry v =
     (case v of
        JObj m \<Rightarrow>
          if \<not> keys_are m capability_entry_fields \<or> \<not> verify_identity m ''capability_identity''
          then Inl (ValidationError ''capability entry fields or identity are invalid'')
          else
            tryE (build_capability_entry (JObj (fmdrop ''capability_identity'' m))) (\<lambda>rebuilt.
              if rebuilt \<noteq> m then Inl (ValidationError ''capability entry is not canonically normalized'') else Inr m)
      | _ \<Rightarrow> Inl (ValidationError ''capability entry must be an object''))"

section \<open>Observations\<close>

definition sort_entries :: "dict list \<Rightarrow> dict list" where
  "sort_entries entries = sort_key (\<lambda>e. canonical_json_bytes (JObj e)) entries"

definition entry_identities :: "dict list \<Rightarrow> json list" where
  "entry_identities entries = map (\<lambda>e. dget e ''capability_identity'') entries"

definition capability_observation_payload ::
    "string \<Rightarrow> json \<Rightarrow> dict list \<Rightarrow> string \<Rightarrow> string \<Rightarrow> json \<Rightarrow> json \<Rightarrow> dict" where
  "capability_observation_payload worker availability entries captured source reason cls = dict_of
     [(''schema_version'', JStr CAPABILITY_OBSERVATION_SCHEMA), (''worker_identity'', JStr worker),
      (''availability'', availability), (''capabilities'', JList (map JObj entries)), (''captured_at'', JStr captured),
      (''observation_source'', JStr source), (''status_reason'', reason), (''attestation'', JStr ''NOT_ASSERTED''),
      (''claim_boundary'', JStr CAPABILITY_CLAIM_BOUNDARY), (''observation_class'', cls)]"

text \<open>\<open>clock\<close> is the text of \<^verbatim>\<open>utc_now()\<close>, used when no time of capture is given.\<close>

definition build_capability_observation ::
    "string \<Rightarrow> json \<Rightarrow> json list \<Rightarrow> json \<Rightarrow> json \<Rightarrow> json \<Rightarrow> json \<Rightarrow> json \<Rightarrow> dict result" where
  "build_capability_observation clock worker_identity capabilities availability captured_at source reason cls =
     tryE (plain_text ''worker_identity'' 256 worker_identity) (\<lambda>worker.
     tryE (in_strset availability CAPABILITY_AVAILABILITY) (\<lambda>known.
     if \<not> known then Inl (ValidationError ''capability observation availability is invalid'')
     else if cls \<notin> JStr ` set OBSERVATION_CLASSES then Inl (ValidationError ''capability observation class is invalid'')
     else
       tryE (mapE build_capability_entry (take MAX_CAPABILITY_ENTRIES capabilities)) (\<lambda>entries.
       if MAX_CAPABILITY_ENTRIES < length capabilities
         then Inl (ValidationError ''capability observation exceeds the entry bound'')
       else if availability \<noteq> JStr ''AVAILABLE'' \<and> entries \<noteq> []
         then Inl (ValidationError ''unavailable or unknown observations cannot claim capabilities'')
       else if \<not> distinct (entry_identities (sort_entries entries))
         then Inl (ValidationError ''capability observation entries must be unique'')
       else
         tryE (capability_stamp (if truthy captured_at then captured_at else JStr clock)) (\<lambda>captured.
         tryE (plain_text ''observation_source'' 256 source) (\<lambda>source.
         tryE (optional_plain_text ''status_reason'' 512 reason) (\<lambda>reason.
           let observed = attach_identity
                 (capability_observation_payload worker availability (sort_entries entries) captured source reason cls)
                 ''capability_observation_identity''
           in if MAX_CAPABILITY_OBSERVATION_BYTES < length (canonical_json_bytes (JObj observed))
              then Inl (ValidationError ''capability observation exceeds the encoded-size bound'') else Inr observed))))))"

definition observation_admission_trusted :: "dict \<Rightarrow> bool result" where
  "observation_admission_trusted m =
     in_strset (dget_default m ''observation_class'' (JStr DEFAULT_OBSERVATION_CLASS)) TRUSTED_ADMISSION_CLASSES"

definition capability_observation_required :: "string list" where
  "capability_observation_required =
     [''schema_version'', ''worker_identity'', ''availability'', ''capabilities'', ''captured_at'', ''observation_source'',
      ''status_reason'', ''attestation'', ''claim_boundary'', ''capability_observation_identity'']"

definition observation_entries :: "json \<Rightarrow> json \<Rightarrow> dict list result" where
  "observation_entries availability v =
     (case v of
        JList xs \<Rightarrow>
          if MAX_CAPABILITY_ENTRIES < length xs then Inl (ValidationError ''capability observation entries are invalid'')
          else tryE (mapE validate_capability_entry xs) (\<lambda>entries.
            if availability \<noteq> JStr ''AVAILABLE'' \<and> entries \<noteq> []
              then Inl (ValidationError ''unavailable or unknown observations cannot claim capabilities'')
            else if entries \<noteq> sort_entries entries
              then Inl (ValidationError ''capability observation entries are not canonically ordered'')
            else if \<not> distinct (entry_identities entries)
              then Inl (ValidationError ''capability observation entries must be unique'')
            else Inr entries)
      | _ \<Rightarrow> Inl (ValidationError ''capability observation entries are invalid''))"

definition capability_observation_checks :: "dict \<Rightarrow> string option \<Rightarrow> unit result list" where
  "capability_observation_checks m expected =
     [ensure (dget m ''schema_version'' = JStr CAPABILITY_OBSERVATION_SCHEMA) ''unsupported capability observation schema'',
      ensure (fmdom m |\<subseteq>| fset_of_list (capability_observation_required @ [''observation_class''])
          \<and> fset_of_list capability_observation_required |\<subseteq>| fmdom m \<and> verify_identity m ''capability_observation_identity'')
        ''capability observation fields or identity are invalid'',
      ensure (length (canonical_json_bytes (JObj m)) \<le> MAX_CAPABILITY_OBSERVATION_BYTES)
        ''capability observation exceeds the encoded-size bound'',
      tryE (plain_text ''worker_identity'' 256 (dget m ''worker_identity'')) (\<lambda>_. Inr ()),
      ensure (matches_expected expected (dget m ''worker_identity'')) ''capability observation is bound to another worker'',
      tryE (in_strset (dget m ''availability'') CAPABILITY_AVAILABILITY) (\<lambda>known.
        ensure known ''capability observation availability is invalid''),
      tryE (observation_entries (dget m ''availability'') (dget m ''capabilities'')) (\<lambda>_. Inr ()),
      tryE (capability_stamp (dget m ''captured_at'')) (\<lambda>_. Inr ()),
      tryE (plain_text ''observation_source'' 256 (dget m ''observation_source'')) (\<lambda>_. Inr ()),
      tryE (optional_plain_text ''status_reason'' 512 (dget m ''status_reason'')) (\<lambda>_. Inr ()),
      ensure (dget m ''attestation'' = JStr ''NOT_ASSERTED'') ''capability observations cannot assert attestation'',
      ensure (dget m ''claim_boundary'' = JStr CAPABILITY_CLAIM_BOUNDARY) ''capability observation claim boundary is invalid'',
      ensure (case fmlookup m ''observation_class'' of None \<Rightarrow> True | Some c \<Rightarrow> c \<in> JStr ` set OBSERVATION_CLASSES)
        ''capability observation class is invalid'']"

definition validate_capability_observation :: "json \<Rightarrow> string option \<Rightarrow> dict result" where
  "validate_capability_observation v expected =
     (case v of
        JObj m \<Rightarrow> tryE (all_checks (capability_observation_checks m expected)) (\<lambda>_. Inr m)
      | _ \<Rightarrow> Inl (ValidationError ''unsupported capability observation schema''))"

text \<open>
  \<open>now\<close> is null or a time stamp, \<open>clock\<close> the instant read when it is null. A skew of a minute into the future is allowed.
\<close>

definition capability_observation_is_fresh :: "int \<Rightarrow> dict \<Rightarrow> json \<Rightarrow> json \<Rightarrow> bool result" where
  "capability_observation_is_fresh clock m max_age now =
     tryE (validate_capability_observation (JObj m) None) (\<lambda>checked.
       if is_bool max_age \<or> \<not> is_number max_age \<or> \<not> num_le (JInt 0) max_age \<or> \<not> num_le max_age (JInt 86400)
       then Inl (ValidationError ''capability freshness bound is outside the supported range'')
       else
         tryE (if now = JNull then Inr clock else tryE (capability_stamp now) (\<lambda>s. instant (JStr s))) (\<lambda>current.
         tryE (instant (dget checked ''captured_at'')) (\<lambda>captured.
         tryE (within_age (current - captured) max_age) (\<lambda>recent. Inr (- 60000000 \<le> current - captured \<and> recent)))))"

section \<open>Checks that leave their value as it is\<close>

definition plain_ok :: "nat \<Rightarrow> string \<Rightarrow> bool" where
  "plain_ok maximum s = (s \<noteq> [] \<and> length s \<le> maximum \<and> \<not> list_ex is_control s)"

lemma plain_text_eq_Inr [result_simps]: "plain_text f n v = Inr s \<longleftrightarrow> v = JStr s \<and> plain_ok n s"
  by (cases v) (auto simp: plain_text_def plain_ok_def)

lemma plain_text_ok [simp]: "plain_ok n s \<Longrightarrow> plain_text f n (JStr s) = Inr s"
  by (simp add: plain_text_eq_Inr)

definition plain_or_null :: "nat \<Rightarrow> json \<Rightarrow> bool" where
  "plain_or_null maximum v = (v = JNull \<or> (\<exists>s. v = JStr s \<and> plain_ok maximum s))"

lemma optional_plain_text_eq_Inr [result_simps]: "optional_plain_text f n v = Inr w \<longleftrightarrow> w = v \<and> plain_or_null n v"
  by (cases v) (auto simp: optional_plain_text_def plain_or_null_def result_simps)

lemma optional_plain_text_ok [simp]: "plain_or_null n v \<Longrightarrow> optional_plain_text f n v = Inr v"
  by (simp add: optional_plain_text_eq_Inr)

lemma shown_instant_plain:
  assumes "instant_ok us"
  shows "plain_ok 64 (show_instant us)"
proof -
  have plain: "\<not> is_control c" if "is_ascii_digit c \<or> c \<in> set ''-:.TZ''" for c
    using that by (auto simp: is_control_def is_ascii_digit_def)
  have digits: "\<not> list_ex is_control (fixed_digits w n)" for w n
    using fixed_digits_shape(2) [of w n] plain by (auto simp: list_all_iff list_ex_iff)
  have "\<not> list_ex is_control (show_instant us)"
    by (auto simp: show_instant_text instant_text_def clock_text_def date_text_def digits plain split: prod.splits)
  then show ?thesis using stamp_text_ok [OF assms] by (simp add: plain_ok_def)
qed

lemma instant_of_offset_eq_Inr: "instant_of_offset p = Inr us \<longleftrightarrow> us = fst p - snd p \<and> instant_ok us"
  by (auto simp: instant_of_offset_def)

lemma capability_stamp_InrD:
  assumes "capability_stamp v = Inr s"
  obtains us where "instant_ok us" "s = show_instant us"
proof -
  from assms obtain raw where raw: "(case fromisoformat (replace_Z raw) of
         None \<Rightarrow> Inl (ValidationError ''captured_at must be an RFC 3339 timestamp'')
       | Some (local', None) \<Rightarrow> Inl (ValidationError ''captured_at must include a timezone'')
       | Some (local', Some off) \<Rightarrow> tryE (instant_of_offset (local', off)) (\<lambda>us. Inr (show_instant us))) = Inr s"
    unfolding capability_stamp_def tryE_eq_Inr by blast
  show ?thesis
  proof (cases "fromisoformat (replace_Z raw)")
    case (Some p)
    with raw show ?thesis
      by (cases p; cases "snd p") (auto simp: tryE_eq_Inr instant_of_offset_eq_Inr intro: that)
  qed (use raw in simp)
qed

lemma capability_stamp_shown [simp]: "instant_ok us \<Longrightarrow> capability_stamp (JStr (show_instant us)) = Inr (show_instant us)"
  using shown_instant_plain [of us] show_instant_reads_back [of us]
  by (simp add: capability_stamp_def instant_of_offset_def)

lemma capability_stamp_idem: "capability_stamp v = Inr s \<Longrightarrow> capability_stamp (JStr s) = Inr s"
  by (erule capability_stamp_InrD) simp

lemma plain_texts_map [simp]: "list_all (plain_ok n) xs \<Longrightarrow> mapE (plain_text f n) (map JStr xs) = Inr xs"
  by (induction xs) simp_all

lemma plain_texts_InrD: "mapE (plain_text f n) vs = Inr xs \<Longrightarrow> vs = map JStr xs \<and> list_all (plain_ok n) xs"
  by (induction vs arbitrary: xs) (auto simp: result_simps)

lemma attribute_value_idem: "attribute_value f v = Inr w \<Longrightarrow> attribute_value f w = Inr w"
proof (cases v)
  case (JList xs)
  assume "attribute_value f v = Inr w"
  with JList obtain items where "length xs \<le> MAX_ATTRIBUTE_LIST_ITEMS" "mapE (plain_text f 256) xs = Inr items"
    "distinct items" "w = JList (map JStr (sort items))"
    by (auto simp: attribute_value_def result_simps)
  moreover from this have "list_all (plain_ok 256) (sort items)" using plain_texts_InrD by (auto simp: list_all_iff)
  ultimately show ?thesis
    by (auto simp: attribute_value_def sort_key_id_if_sorted dest: mapE_length)
qed (auto simp: attribute_value_def result_simps split: if_splits)

lemma attribute_item_idem: "attribute_item k v = Inr w \<Longrightarrow> attribute_item k w = Inr w"
  by (auto simp: attribute_item_def attribute_value_idem split: if_splits)

lemma map_values_eq_Inr:
  "map_values f d = Inr e \<longleftrightarrow> fmdom e = fmdom d \<and> (\<forall>k \<in> fset (fmdom d). f k (dget d k) = Inr (dget e k))"
proof
  let ?g = "\<lambda>k. tryE (f k (dget d k)) (\<lambda>w. Inr (k, w))"
  assume "map_values f d = Inr e"
  then obtain kvs where kvs: "mapE ?g (dict_keys d) = Inr kvs" and e: "e = dict_of kvs"
    by (auto simp: map_values_def tryE_eq_Inr)
  have rel: "list_all2 (\<lambda>k (k', w). k' = k \<and> f k (dget d k) = Inr w) (dict_keys d) kvs"
    using kvs by (auto simp: mapE_eq_Inr tryE_eq_Inr elim!: list_all2_mono)
  then have fst: "map fst kvs = dict_keys d" by (induction rule: list_all2_induct) auto
  then have dist: "distinct (map fst kvs)" by simp
  have dom: "fmdom e = fmdom d"
    by (rule fset_inject [THEN iffD1]) (use fst in \<open>simp add: e fset_of_list.rep_eq flip: set_map\<close>)
  have "f k (dget d k) = Inr (dget e k)" if k: "k \<in> fset (fmdom d)" for k
  proof -
    from k obtain w where w: "?g k = Inr (k, w)" "(k, w) \<in> set kvs"
      using mapE_set2 [OF kvs, of k] by (auto simp: tryE_eq_Inr)
    then have "map_of kvs k = Some w" using dist by simp
    with w show ?thesis by (simp add: e tryE_eq_Inr)
  qed
  with dom show "fmdom e = fmdom d \<and> (\<forall>k \<in> fset (fmdom d). f k (dget d k) = Inr (dget e k))" by blast
next
  assume r: "fmdom e = fmdom d \<and> (\<forall>k \<in> fset (fmdom d). f k (dget d k) = Inr (dget e k))"
  have "mapE (\<lambda>k. tryE (f k (dget d k)) (\<lambda>w. Inr (k, w))) (dict_keys d) = Inr (map (\<lambda>k. (k, dget e k)) (dict_keys d))"
    by (rule mapE_total) (use r in simp)
  moreover have "dict_of (map (\<lambda>k. (k, dget e k)) (dict_keys d)) = e"
  proof (rule fmap_ext)
    fix k
    show "fmlookup (dict_of (map (\<lambda>k. (k, dget e k)) (dict_keys d))) k = fmlookup e k"
      using r by (cases "fmlookup e k")
        (auto simp: fmlookup_of_list map_of_map_restrict restrict_map_def dget_eq dest: fmdomI fmdom_notI)
  qed
  ultimately show "map_values f d = Inr e" by (simp add: map_values_def)
qed

lemma dict_keys_cong: "fmdom e = fmdom d \<Longrightarrow> dict_keys e = dict_keys d"
  by (simp add: dict_keys_def)

lemma normalize_attributes_idem: "normalize_attributes v = Inr d \<Longrightarrow> normalize_attributes (JObj d) = Inr d"
proof (cases v)
  case (JObj m)
  assume "normalize_attributes v = Inr d"
  with JObj have small: "length (dict_keys m) \<le> MAX_CAPABILITY_ATTRIBUTES" and d: "map_values attribute_item m = Inr d"
    by (auto simp: normalize_attributes_def split: if_splits)
  from d have dom: "fmdom d = fmdom m" unfolding map_values_eq_Inr by (rule conjunct1)
  from d have "map_values attribute_item d = Inr d" unfolding map_values_eq_Inr using attribute_item_idem by metis
  with small show ?thesis by (simp add: normalize_attributes_def dict_keys_cong [OF dom])
qed (simp_all add: normalize_attributes_def)

section \<open>What is built validates\<close>

lemma build_entry_InrE:
  assumes "build_capability_entry v = Inr e"
  obtains kind namespace name version subject attributes where
    "e = capability_entry_of kind namespace name version subject attributes"
    "plain_ok 32 kind" "kind \<in> set CAPABILITY_KINDS" "plain_ok 128 namespace" "plain_ok 256 name"
    "plain_or_null 128 version" "plain_or_null 256 subject" "normalize_attributes (JObj attributes) = Inr attributes"
proof (cases v)
  case (JObj m)
  from assms [unfolded build_capability_entry_def JObj json.case if_Inl_eq_Inr tryE_eq_Inr]
  obtain kind namespace name version subject attributes where
    "plain_text ''kind'' 32 (dget m ''kind'') = Inr kind" "\<not> kind \<notin> set CAPABILITY_KINDS"
    "plain_text ''namespace'' 128 (dget m ''namespace'') = Inr namespace" "plain_text ''name'' 256 (dget m ''name'') = Inr name"
    "optional_plain_text ''version'' 128 (dget m ''version'') = Inr version"
    "optional_plain_text ''subject_identity'' 256 (dget m ''subject_identity'') = Inr subject"
    "normalize_attributes (dget_default m ''attributes'' (JObj fmempty)) = Inr attributes"
    "Inr (capability_entry_of kind namespace name version subject attributes) = (Inr e :: dict result)" by blast
  then show ?thesis
    by (intro that [of kind namespace name version subject attributes])
      (auto simp: plain_text_eq_Inr optional_plain_text_eq_Inr dest: normalize_attributes_idem)
qed (use assms in \<open>simp_all add: build_capability_entry_def\<close>)

lemma capability_entry_payload:
  "fmdrop ''capability_identity'' (capability_entry_of kind namespace name version subject attributes) = dict_of
     [(''kind'', JStr kind), (''namespace'', JStr namespace), (''name'', JStr name), (''version'', version),
      (''subject_identity'', subject), (''attributes'', JObj attributes)]"
  by (simp add: capability_entry_of_def) (rule fmap_ext, simp add: fmlookup_of_list)

lemma capability_entry_keys: "keys_are (capability_entry_of kind namespace name version subject attributes) capability_entry_fields"
  unfolding keys_are_def
  by (rule fset_eqI) (auto simp: capability_entry_of_def capability_entry_fields_def capability_entry_inputs_def)

lemma validate_built_entry: "build_capability_entry v = Inr e \<Longrightarrow> validate_capability_entry (JObj e) = Inr e"
proof (erule build_entry_InrE)
  fix kind namespace name version subject attributes
  let ?e = "capability_entry_of kind namespace name version subject attributes"
  assume e: "e = ?e" and kind: "plain_ok 32 kind" "kind \<in> set CAPABILITY_KINDS"
    and texts: "plain_ok 128 namespace" "plain_ok 256 name" "plain_or_null 128 version" "plain_or_null 256 subject"
    and attributes: "normalize_attributes (JObj attributes) = Inr attributes"
  have "fmdom (fmdrop ''capability_identity'' ?e) |\<subseteq>| fset_of_list capability_entry_inputs"
    unfolding capability_entry_payload by (auto simp: capability_entry_inputs_def)
  then have "build_capability_entry (JObj (fmdrop ''capability_identity'' ?e)) = Inr ?e"
    using kind texts attributes
    by (simp add: build_capability_entry_def capability_entry_payload)
  moreover have "verify_identity ?e ''capability_identity''" by (simp add: capability_entry_of_def)
  ultimately show "validate_capability_entry (JObj e) = Inr e"
    using capability_entry_keys by (simp add: validate_capability_entry_def e)
qed

lemma validate_entries_built:
  assumes "mapE build_capability_entry vs = Inr es"
  shows "mapE validate_capability_entry (map JObj (sort_entries es)) = Inr (sort_entries es)"
proof -
  have "mapE validate_capability_entry (map JObj es') = Inr es'" if "set es' \<subseteq> set es" for es'
    using that by (induction es') (auto dest!: mapE_set [OF assms] validate_built_entry)
  then show ?thesis by (simp add: sort_entries_def)
qed

lemma sort_entries_idem [simp]: "sort_entries (sort_entries es) = sort_entries es"
  by (simp add: sort_entries_def sort_key_id_if_sorted)

lemma sort_entries_length [simp]: "length (sort_entries es) = length es"
  by (simp add: sort_entries_def)

lemma sort_entries_Nil [simp]: "sort_entries es = [] \<longleftrightarrow> es = []"
  by (metis sort_entries_length length_0_conv)

lemma build_observation_InrE:
  assumes "build_capability_observation clock worker capabilities availability captured_at source reason cls = Inr m"
  obtains w es captured src where
    "worker = JStr w" "plain_ok 256 w" "in_strset availability CAPABILITY_AVAILABILITY = Inr True"
    "cls \<in> JStr ` set OBSERVATION_CLASSES" "mapE build_capability_entry (take MAX_CAPABILITY_ENTRIES capabilities) = Inr es"
    "length capabilities \<le> MAX_CAPABILITY_ENTRIES" "availability = JStr ''AVAILABLE'' \<or> es = []"
    "distinct (entry_identities (sort_entries es))" "capability_stamp (JStr captured) = Inr captured"
    "plain_ok 256 src" "plain_or_null 512 reason"
    "m = attach_identity (capability_observation_payload w availability (sort_entries es) captured src reason cls)
        ''capability_observation_identity''"
    "length (canonical_json_bytes (JObj m)) \<le> MAX_CAPABILITY_OBSERVATION_BYTES"
proof -
  from assms [unfolded build_capability_observation_def if_Inl_eq_Inr tryE_eq_Inr Let_def]
  obtain w known es captured src reason' where
    "plain_text ''worker_identity'' 256 worker = Inr w" "in_strset availability CAPABILITY_AVAILABILITY = Inr known"
    "\<not> \<not> known" "\<not> cls \<notin> JStr ` set OBSERVATION_CLASSES"
    "mapE build_capability_entry (take MAX_CAPABILITY_ENTRIES capabilities) = Inr es"
    "\<not> MAX_CAPABILITY_ENTRIES < length capabilities" "\<not> (availability \<noteq> JStr ''AVAILABLE'' \<and> es \<noteq> [])"
    "\<not> \<not> distinct (entry_identities (sort_entries es))"
    "capability_stamp (if truthy captured_at then captured_at else JStr clock) = Inr captured"
    "plain_text ''observation_source'' 256 source = Inr src" "optional_plain_text ''status_reason'' 512 reason = Inr reason'"
    "\<not> MAX_CAPABILITY_OBSERVATION_BYTES < length (canonical_json_bytes (JObj (attach_identity
        (capability_observation_payload w availability (sort_entries es) captured src reason' cls) ''capability_observation_identity'')))"
    "Inr (attach_identity (capability_observation_payload w availability (sort_entries es) captured src reason' cls)
        ''capability_observation_identity'') = (Inr m :: dict result)" by blast
  then show ?thesis
    by (intro that [of w es captured src])
      (auto simp: plain_text_eq_Inr optional_plain_text_eq_Inr dest: capability_stamp_idem)
qed

lemma built_observation_valid:
  assumes "build_capability_observation clock worker capabilities availability captured_at source reason cls = Inr m"
  shows "validate_capability_observation (JObj m) expected = Inr m \<longleftrightarrow> matches_expected expected worker"
proof -
  from build_observation_InrE [OF assms] obtain w es captured src where
    parts: "worker = JStr w" "plain_ok 256 w" "in_strset availability CAPABILITY_AVAILABILITY = Inr True"
      "cls \<in> JStr ` set OBSERVATION_CLASSES" "mapE build_capability_entry (take MAX_CAPABILITY_ENTRIES capabilities) = Inr es"
      "length capabilities \<le> MAX_CAPABILITY_ENTRIES" "availability = JStr ''AVAILABLE'' \<or> es = []"
      "distinct (entry_identities (sort_entries es))" "capability_stamp (JStr captured) = Inr captured"
      "plain_ok 256 src" "plain_or_null 512 reason"
    and m: "m = attach_identity (capability_observation_payload w availability (sort_entries es) captured src reason cls)
        ''capability_observation_identity''"
    and small: "length (canonical_json_bytes (JObj m)) \<le> MAX_CAPABILITY_OBSERVATION_BYTES" .
  have dom: "fmdom m |\<subseteq>| fset_of_list (capability_observation_required @ [''observation_class''])"
    "fset_of_list capability_observation_required |\<subseteq>| fmdom m"
    by (auto simp: m capability_observation_payload_def capability_observation_required_def)
  have "observation_entries availability (JList (map JObj (sort_entries es))) = Inr (sort_entries es)"
    using parts(6-8) mapE_length [OF parts(5)] validate_entries_built [OF parts(5)] by (auto simp: observation_entries_def)
  moreover have fields: "dget m ''schema_version'' = JStr CAPABILITY_OBSERVATION_SCHEMA" "dget m ''worker_identity'' = worker"
    "dget m ''availability'' = availability" "dget m ''capabilities'' = JList (map JObj (sort_entries es))"
    "dget m ''captured_at'' = JStr captured" "dget m ''observation_source'' = JStr src" "dget m ''status_reason'' = reason"
    "dget m ''attestation'' = JStr ''NOT_ASSERTED''" "dget m ''claim_boundary'' = JStr CAPABILITY_CLAIM_BOUNDARY"
    "fmlookup m ''observation_class'' = Some cls" "verify_identity m ''capability_observation_identity''"
    using parts(1) by (simp_all add: m capability_observation_payload_def)
  ultimately have "all_checks (capability_observation_checks m expected) = Inr () \<longleftrightarrow> matches_expected expected worker"
    unfolding capability_observation_checks_def
    using parts small dom by (simp add: result_simps exI [of "\<lambda>a. a" True])
  then show ?thesis
    unfolding validate_capability_observation_def
    by (cases "all_checks (capability_observation_checks m expected)") (auto simp: tryE_eq_Inr)
qed

end
