(* ===== verification/Consumer_Context.thy ===== *)
theory Consumer_Context
  imports Platform_Facts
begin

text \<open>
  The consumer context of \<^verbatim>\<open>src/src/mncs_fabric/contracts.py\<close>: opaque provenance of the consumer that asks for work. A context
  is built field by field and validated by building it again; the entries of a dict are visited in the order of their keys.
  Shown here: the accepted values are exactly the texts of contexts that can be built, so that the search for authority
  fields inside a context never refuses one.
\<close>

section \<open>Contexts\<close>

definition CONSUMER_CONTEXT_SCHEMA :: string where
  "CONSUMER_CONTEXT_SCHEMA = ''mncs-fabric.consumer-context.v0.1''"

definition PROVENANCE_BINDING_SCHEMA :: string where
  "PROVENANCE_BINDING_SCHEMA = ''mncs-fabric.consumer-provenance.v0.1''"

definition FORBIDDEN_AUTHORITY_FIELDS :: "string list" where
  "FORBIDDEN_AUTHORITY_FIELDS =
     [''verdict'', ''evaluator_verdict'', ''conformance'', ''mncs_conformance'', ''mncds_conformance'', ''promotion'',
      ''promotion_authorized'', ''evaluator_authority'', ''selection_authority'', ''freeze_status'']"

definition check_context_identity :: "string \<Rightarrow> bool \<Rightarrow> json \<Rightarrow> unit result" where
  "check_context_identity field allow_none v =
     (if v = JNull \<and> allow_none then Inr ()
      else ensure (is_sha256_identity v) (field @ '' must be a sha256 identity''))"

text \<open>\<^verbatim>\<open>child not in (None, False, "UNKNOWN", "not-asserted")\<close>: zero equals \<^verbatim>\<open>False\<close>.\<close>

definition asserts_something :: "json \<Rightarrow> bool" where
  "asserts_something v =
     (case v of
        JNull \<Rightarrow> False
      | JBool b \<Rightarrow> b
      | JInt n \<Rightarrow> n \<noteq> 0
      | JFloat s m e \<Rightarrow> m \<noteq> 0
      | JStr s \<Rightarrow> s \<notin> {''UNKNOWN'', ''not-asserted''}
      | _ \<Rightarrow> True)"

definition authority_entry :: "string \<Rightarrow> json \<Rightarrow> unit result" where
  "authority_entry k child =
     ensure (\<not> (map lower_char k \<in> set FORBIDDEN_AUTHORITY_FIELDS \<and> asserts_something child))
       ''consumer context cannot grant authority''"

primrec reject_authority :: "json \<Rightarrow> unit result" where
  "reject_authority JNull = Inr ()"
| "reject_authority (JBool b) = Inr ()"
| "reject_authority (JInt n) = Inr ()"
| "reject_authority (JFloat s m e) = Inr ()"
| "reject_authority (JStr s) = Inr ()"
| "reject_authority (JList xs) = all_checks (map reject_authority xs)"
| "reject_authority (JObj m) =
     all_checks (concat (map (\<lambda>(k, r). [authority_entry k (dget m k), r]) (sorted_list_of_fmap (fmmap reject_authority m))))"

record consumer_context =
  cc_source_project :: string
  cc_consumer_workload_identity :: string
  cc_experiment_identity :: json
  cc_forge_workflow_identity :: json
  cc_provider_identity :: json
  cc_partition_identity :: json

definition build_consumer_context :: "json \<Rightarrow> json \<Rightarrow> json \<Rightarrow> json \<Rightarrow> json \<Rightarrow> json \<Rightarrow> consumer_context result" where
  "build_consumer_context source workload experiment workflow provider part =
     tryE (text_field ''source_project'' 64 source) (\<lambda>project.
     tryE (check_context_identity ''consumer_workload_identity'' False workload) (\<lambda>_.
     tryE (check_context_identity ''experiment_identity'' True experiment) (\<lambda>_.
     tryE (check_context_identity ''forge_workflow_identity'' True workflow) (\<lambda>_.
     tryE (check_context_identity ''provider_identity'' True provider) (\<lambda>_.
     tryE (check_context_identity ''partition_identity'' True part) (\<lambda>_.
       Inr \<lparr>cc_source_project = project, cc_consumer_workload_identity = (case workload of JStr s \<Rightarrow> s | _ \<Rightarrow> []),
            cc_experiment_identity = experiment, cc_forge_workflow_identity = workflow, cc_provider_identity = provider,
            cc_partition_identity = part\<rparr>))))))"

definition context_entries :: "consumer_context \<Rightarrow> (string \<times> json) list" where
  "context_entries c =
     [(''schema_version'', JStr CONSUMER_CONTEXT_SCHEMA), (''source_project'', JStr (cc_source_project c)),
      (''consumer_workload_identity'', JStr (cc_consumer_workload_identity c)),
      (''experiment_identity'', cc_experiment_identity c), (''forge_workflow_identity'', cc_forge_workflow_identity c),
      (''provider_identity'', cc_provider_identity c), (''partition_identity'', cc_partition_identity c),
      (''authority'', JStr ''provenance-only''),
      (''claim_boundary'', JStr ''opaque consumer provenance; no semantic verdict, promotion, conformance, or evaluator authority'')]"

definition context_payload :: "consumer_context \<Rightarrow> dict" where
  "context_payload c = dict_of (context_entries c)"

definition context_identity :: "consumer_context \<Rightarrow> string" where
  "context_identity c = sha256_identity (JObj (context_payload c))"

definition context_to_dict :: "consumer_context \<Rightarrow> dict" where
  "context_to_dict c = fmupd ''context_identity'' (JStr (context_identity c)) (context_payload c)"

definition consumer_context_fields :: "string list" where
  "consumer_context_fields =
     [''schema_version'', ''source_project'', ''consumer_workload_identity'', ''experiment_identity'', ''forge_workflow_identity'',
      ''provider_identity'', ''partition_identity'', ''authority'', ''claim_boundary'', ''context_identity'']"

text \<open>\<^verbatim>\<open>except ValidationError as exc: raise error_type(str(exc))\<close>\<close>

definition reraise_validation :: "(string \<Rightarrow> fabric_error) \<Rightarrow> 'a result \<Rightarrow> 'a result" where
  "reraise_validation error_type r = (case r of Inl (ValidationError s) \<Rightarrow> Inl (error_type s) | _ \<Rightarrow> r)"

definition validate_consumer_context :: "(string \<Rightarrow> fabric_error) \<Rightarrow> json \<Rightarrow> dict result" where
  "validate_consumer_context error_type v =
     (case v of
        JObj m \<Rightarrow>
          if dget m ''schema_version'' \<noteq> JStr CONSUMER_CONTEXT_SCHEMA
            then Inl (error_type ''unsupported or malformed consumer context'')
          else if \<not> keys_are m consumer_context_fields \<or> dget m ''authority'' \<noteq> JStr ''provenance-only''
            then Inl (error_type ''consumer context fields or authority boundary are invalid'')
          else
            tryE (reraise_validation error_type
              (tryE (build_consumer_context (dget m ''source_project'') (dget m ''consumer_workload_identity'')
                  (dget m ''experiment_identity'') (dget m ''forge_workflow_identity'') (dget m ''provider_identity'')
                  (dget m ''partition_identity'')) (\<lambda>context.
               tryE (reject_authority v) (\<lambda>_. Inr context)))) (\<lambda>context.
            if context_to_dict context \<noteq> m \<or> \<not> verify_identity m ''context_identity''
            then Inl (error_type ''consumer context identity does not verify'') else Inr (context_to_dict context))
      | _ \<Rightarrow> Inl (error_type ''unsupported or malformed consumer context''))"

definition build_provenance_binding ::
    "consumer_context \<Rightarrow> json \<Rightarrow> json \<Rightarrow> json \<Rightarrow> json \<Rightarrow> json \<Rightarrow> json \<Rightarrow> json \<Rightarrow> dict" where
  "build_provenance_binding context request job worker record' receipt bundle challenge =
     attach_identity (dict_of
       [(''schema_version'', JStr PROVENANCE_BINDING_SCHEMA), (''consumer_context_identity'', JStr (context_identity context)),
        (''request_identity'', request), (''job_identity'', job), (''worker_identity'', worker), (''record_identity'', record'),
        (''receipt_identity'', receipt), (''bundle_identity'', bundle), (''challenge_identity'', challenge),
        (''claim_boundary'', JStr ''provenance linkage only; Fabric does not establish consumer semantic truth or authority'')])
       ''binding_identity''"

section \<open>The accepted contexts\<close>

definition sha_or_null :: "json \<Rightarrow> bool" where
  "sha_or_null v = (v = JNull \<or> is_sha256_identity v)"

lemma check_context_identity_eq_Inr [result_simps]:
  "check_context_identity f a v = Inr u \<longleftrightarrow> (a \<and> v = JNull) \<or> is_sha256_identity v"
  by (auto simp: check_context_identity_def result_simps)

lemma sha256_identity_not_str [simp]:
  "\<not> is_sha256_identity JNull" "\<not> is_sha256_identity (JBool b)" "\<not> is_sha256_identity (JInt n)"
  "\<not> is_sha256_identity (JFloat s m e)" "\<not> is_sha256_identity (JList xs)" "\<not> is_sha256_identity (JObj d)"
  by (simp_all add: is_sha256_identity_def)

definition context_ok :: "consumer_context \<Rightarrow> bool" where
  "context_ok c =
     (text_ok 64 (cc_source_project c) \<and> is_sha256_identity (JStr (cc_consumer_workload_identity c)) \<and>
      sha_or_null (cc_experiment_identity c) \<and> sha_or_null (cc_forge_workflow_identity c) \<and>
      sha_or_null (cc_provider_identity c) \<and> sha_or_null (cc_partition_identity c))"

lemma build_consumer_context_eq_Inr:
  "build_consumer_context source workload experiment workflow provider part = Inr c \<longleftrightarrow>
     context_ok c \<and> source = JStr (cc_source_project c) \<and> workload = JStr (cc_consumer_workload_identity c) \<and>
     experiment = cc_experiment_identity c \<and> workflow = cc_forge_workflow_identity c \<and>
     provider = cc_provider_identity c \<and> part = cc_partition_identity c"
  unfolding build_consumer_context_def
  by (cases workload) (auto simp: context_ok_def sha_or_null_def result_simps)

lemma reject_authority_sha: "sha_or_null v \<Longrightarrow> reject_authority v = Inr ()"
  by (cases v) (auto simp: sha_or_null_def)

lemma reject_authority_flat:
  assumes "\<And>k v. fmlookup m k = Some v \<Longrightarrow> reject_authority v = Inr () \<and> map lower_char k \<notin> set FORBIDDEN_AUTHORITY_FIELDS"
  shows "reject_authority (JObj m) = Inr ()"
proof -
  have "authority_entry k (dget m k) = Inr () \<and> r = Inr ()"
    if kr: "(k, r) \<in> set (sorted_list_of_fmap (fmmap reject_authority m))" for k r
  proof -
    from kr obtain v where "fmlookup m k = Some v" "r = reject_authority v"
      by (auto simp: sorted_list_of_fmap_ran sorted_list_fmmap)
    with assms show ?thesis by (simp add: authority_entry_def ensure_def)
  qed
  then show ?thesis by (fastforce simp: result_simps list_all_iff)
qed

lemma context_keys_harmless: "k \<in> set consumer_context_fields \<Longrightarrow> map lower_char k \<notin> set FORBIDDEN_AUTHORITY_FIELDS"
  by (auto simp: consumer_context_fields_def FORBIDDEN_AUTHORITY_FIELDS_def lower_char_def)

lemma context_keys: "keys_are (context_to_dict c) consumer_context_fields"
  unfolding keys_are_def
  by (rule fset_eqI) (auto simp: context_to_dict_def context_payload_def context_entries_def consumer_context_fields_def)

lemma context_grants_nothing: "context_ok c \<Longrightarrow> reject_authority (JObj (context_to_dict c)) = Inr ()"
proof (rule reject_authority_flat)
  fix k v
  assume c: "context_ok c" and v: "fmlookup (context_to_dict c) k = Some v"
  from v have "k |\<in>| fmdom (context_to_dict c)" by (rule fmdomI)
  then have "k \<in> set consumer_context_fields" using context_keys [of c] by (simp add: keys_are_def fset_of_list_elem)
  moreover have "reject_authority v = Inr ()"
  proof (cases "k = ''context_identity''")
    case False
    with v have "map_of (context_entries c) k = Some v" by (simp add: context_to_dict_def context_payload_def fmlookup_of_list)
    then have "v \<in> snd ` set (context_entries c)" by (force dest: map_of_SomeD)
    then show ?thesis using c by (auto simp: context_entries_def context_ok_def intro: reject_authority_sha)
  qed (use v in \<open>auto simp: context_to_dict_def\<close>)
  ultimately show "reject_authority v = Inr () \<and> map lower_char k \<notin> set FORBIDDEN_AUTHORITY_FIELDS"
    using context_keys_harmless by blast
qed

lemma context_verifies: "verify_identity (context_to_dict c) ''context_identity''"
proof -
  have "fmdrop ''context_identity'' (context_to_dict c) = context_payload c"
    unfolding context_to_dict_def fmdrop_fmupd_same by (rule fmdrop_idle) (simp add: context_payload_def context_entries_def)
  moreover have "dget (context_to_dict c) ''context_identity'' = JStr (context_identity c)" by (simp add: context_to_dict_def)
  ultimately show ?thesis by (simp add: verify_identity_def identity_payload_def context_identity_def)
qed

lemma context_validates: "validate_consumer_context err v = Inr m \<longleftrightarrow> (\<exists>c. context_ok c \<and> m = context_to_dict c \<and> v = JObj m)"
proof
  assume a: "validate_consumer_context err v = Inr m"
  then obtain d where d: "v = JObj d" by (cases v) (simp_all add: validate_consumer_context_def)
  from a obtain c where "build_consumer_context (dget d ''source_project'') (dget d ''consumer_workload_identity'')
      (dget d ''experiment_identity'') (dget d ''forge_workflow_identity'') (dget d ''provider_identity'')
      (dget d ''partition_identity'') = Inr c" "context_to_dict c = d" "m = context_to_dict c"
    unfolding validate_consumer_context_def d json.case if_Inl_eq_Inr tryE_eq_Inr
    by (auto simp: reraise_validation_def tryE_eq_Inr split: sum.splits fabric_error.splits)
  then show "\<exists>c. context_ok c \<and> m = context_to_dict c \<and> v = JObj m"
    unfolding build_consumer_context_eq_Inr using d by blast
next
  assume "\<exists>c. context_ok c \<and> m = context_to_dict c \<and> v = JObj m"
  then obtain c where c: "context_ok c" "m = context_to_dict c" "v = JObj m" by blast
  have f: "dget m ''schema_version'' = JStr CONSUMER_CONTEXT_SCHEMA" "dget m ''authority'' = JStr ''provenance-only''"
    "dget m ''source_project'' = JStr (cc_source_project c)"
    "dget m ''consumer_workload_identity'' = JStr (cc_consumer_workload_identity c)"
    "dget m ''experiment_identity'' = cc_experiment_identity c" "dget m ''forge_workflow_identity'' = cc_forge_workflow_identity c"
    "dget m ''provider_identity'' = cc_provider_identity c" "dget m ''partition_identity'' = cc_partition_identity c"
    by (simp_all add: c(2) context_to_dict_def context_payload_def context_entries_def)
  have "build_consumer_context (dget m ''source_project'') (dget m ''consumer_workload_identity'')
      (dget m ''experiment_identity'') (dget m ''forge_workflow_identity'') (dget m ''provider_identity'')
      (dget m ''partition_identity'') = Inr c"
    unfolding build_consumer_context_eq_Inr f using c(1) by simp
  then show "validate_consumer_context err v = Inr m"
    using context_keys [of c] context_verifies [of c] context_grants_nothing [OF c(1)] f(1,2)
    unfolding validate_consumer_context_def c(3) json.case
    by (simp add: reraise_validation_def c(2) del: reject_authority.simps)
qed

text \<open>
  C23: The accepted consumer contexts are exactly the dicts of the contexts that can be built, whatever exception the caller
  wants raised, and an accepted context is returned as it is.
\<close>

theorem accepted_contexts_are_the_built_ones:
  "validate_consumer_context error_type (JObj m) = Inr m \<longleftrightarrow>
   (\<exists>source workload experiment workflow provider part c.
      build_consumer_context source workload experiment workflow provider part = Inr c \<and> m = context_to_dict c)"
  unfolding context_validates build_consumer_context_eq_Inr by blast

end
