(* ===== verification/Targets.thy ===== *)
theory Targets
  imports Capability_Observation Consumer_Context Challenges Fleet_Presence
begin

text \<open>
  \<^verbatim>\<open>src/src/mncs_fabric/targets.py\<close>: a consumer names the exact worker that must run its work, and admission is
  re-evaluated from what the controller observed. The evaluation goes on after a failed check, to record every check, but
  the first failure decides, except for an observation whose author is not trusted, which overrides it. An age in seconds
  is written as the decimal of its microseconds. The text of a list or a dict given as authorization is not modelled.
\<close>

section \<open>Constants\<close>

definition EXECUTION_TARGET_SCHEMA :: string where
  "EXECUTION_TARGET_SCHEMA = ''mncs-fabric.execution-target-reference.v0.1''"

definition TARGET_ADMISSION_SCHEMA :: string where
  "TARGET_ADMISSION_SCHEMA = ''mncs-fabric.target-admission.v0.1''"

definition TARGET_EXECUTION_EVIDENCE_SCHEMA :: string where
  "TARGET_EXECUTION_EVIDENCE_SCHEMA = ''mncs-fabric.target-execution-evidence.v0.1''"

definition TARGET_AUTHORIZATION_INTERPRETATION :: string where
  "TARGET_AUTHORIZATION_INTERPRETATION = ''CONSUMER_PROVIDED_PROVENANCE_ONLY''"

definition TARGET_CLAIM_BOUNDARY :: string where
  "TARGET_CLAIM_BOUNDARY =
     ''consumer-authorized target and factual admission requirements only; not semantic tool choice, model permission, shell authority, attestation, or fallback authority''"

definition TARGET_EXECUTION_CLAIM_BOUNDARY :: string where
  "TARGET_EXECUTION_CLAIM_BOUNDARY =
     ''Fabric proves the same-OS-user authenticated local peer requested this exact bounded execution and target; consumer_authorization_identity is opaque consumer-provided provenance, not Fabric-verified semantic permission''"

definition EXECUTION_CLASSES :: "string list" where "EXECUTION_CLASSES = [''bounded-argv-workload'']"

definition MAX_REQUIRED_CAPABILITIES :: nat where "MAX_REQUIRED_CAPABILITIES = 64"

definition MAX_LIVENESS_AGE_SECONDS :: nat where "MAX_LIVENESS_AGE_SECONDS = 300"

definition MAX_CAPABILITY_AGE_SECONDS :: nat where "MAX_CAPABILITY_AGE_SECONDS = 3600"

definition TARGET_ADMISSION_DISPOSITIONS :: "(string \<times> string) list" where
  "TARGET_ADMISSION_DISPOSITIONS =
     [(''TARGET_ADMITTED'', ''PASS''), (''TARGET_REVOKED'', ''DENIED''), (''TARGET_CAPABILITY_MISSING'', ''DENIED''),
      (''TARGET_CAPABILITY_UNVERIFIED'', ''DENIED''), (''TARGET_RUNTIME_MISMATCH'', ''DENIED''),
      (''TARGET_TOOL_CAPABILITY_MISMATCH'', ''DENIED''), (''TARGET_CONTEXT_MISMATCH'', ''DENIED''),
      (''TARGET_AUTHORIZATION_BINDING_INVALID'', ''DENIED''), (''TARGET_UNKNOWN'', ''UNKNOWN''),
      (''TARGET_DISCONNECTED'', ''UNKNOWN''), (''TARGET_LIVENESS_STALE'', ''UNKNOWN''),
      (''TARGET_CAPABILITIES_STALE'', ''UNKNOWN''), (''TARGET_BECAME_UNAVAILABLE'', ''UNKNOWN'')]"

section \<open>Fields of a target\<close>

text \<open>\<^verbatim>\<open>[A-Za-z0-9][A-Za-z0-9._:+/-]{0,255}\<close>, matched against the whole text.\<close>

definition matches_capability_name :: "string \<Rightarrow> bool" where
  "matches_capability_name s =
     (case s of
        [] \<Rightarrow> False
      | c # cs \<Rightarrow> is_alnum c \<and> length cs \<le> 255 \<and> list_all (\<lambda>d. is_alnum d \<or> d \<in> set ''._:+/-'') cs)"

definition capability_name :: "string \<Rightarrow> json \<Rightarrow> string result" where
  "capability_name field v =
     (case v of
        JStr s \<Rightarrow>
          if matches_capability_name s then Inr s else Inl (ValidationError (field @ '' must be a bounded capability name''))
      | _ \<Rightarrow> Inl (ValidationError (field @ '' must be a bounded capability name'')))"

text \<open>
  \<^verbatim>\<open>float(value)\<close> in range: an integer of \<open>2 ^ 1024 - 2 ^ 970\<close> or more does not fit a float; one in range is a float exactly.
\<close>

definition target_age :: "string \<Rightarrow> json \<Rightarrow> nat \<Rightarrow> json result" where
  "target_age field v maximum =
     (let in_range = (\<lambda>x. if \<not> num_le x (JInt 0) \<and> num_le x (JInt (int maximum)) then Inr x
                         else Inl (ValidationError (field @ '' is outside the bounded range'')))
      in case v of
        JInt n \<Rightarrow>
          if 2 ^ 1024 - 2 ^ 970 \<le> \<bar>n\<bar> then Inl PyOverflowError
          else (case strip_zeros (nat \<bar>n\<bar>) 0 of (m, e) \<Rightarrow> in_range (JFloat (n < 0) m e))
      | JFloat s m e \<Rightarrow> in_range v
      | _ \<Rightarrow> Inl (ValidationError (field @ '' must be a bounded number'')))"

definition target_capabilities :: "json \<Rightarrow> string list result" where
  "target_capabilities v =
     (if is_str v then Inl (ValidationError ''required_capabilities must be a collection, not text'')
      else
        tryE (py_iter v) (\<lambda>xs.
        tryE (mapE (capability_name ''required_capability'') xs) (\<lambda>items.
          if items = [] \<or> MAX_REQUIRED_CAPABILITIES < length items
            then Inl (ValidationError ''required_capabilities must be a non-empty bounded collection'')
          else if \<not> distinct items then Inl (ValidationError ''required_capabilities must be unique'')
          else Inr (sort items))))"

record execution_target =
  et_worker_identity :: string
  et_execution_class :: string
  et_required_capabilities :: "string list"
  et_tool_capability_identity :: json
  et_runtime_identity :: json
  et_consumer_context_identity :: json
  et_consumer_authorization_identity :: json
  et_liveness_max_age_seconds :: json
  et_capability_max_age_seconds :: json

definition build_execution_target ::
    "json \<Rightarrow> json \<Rightarrow> json \<Rightarrow> json \<Rightarrow> json \<Rightarrow> json \<Rightarrow> json \<Rightarrow> json \<Rightarrow> json \<Rightarrow> execution_target result" where
  "build_execution_target worker cls capabilities tool runtime context auth liveness_age capability_age =
     (case worker of
        JStr w \<Rightarrow>
          if \<not> matches_identity w then Inl (ValidationError ''worker_identity is invalid'')
          else
            tryE (in_strset cls EXECUTION_CLASSES) (\<lambda>known.
            if \<not> known then Inl (ValidationError ''execution_class is unsupported'')
            else
              tryE (target_capabilities capabilities) (\<lambda>required.
              tryE (check_context_identity ''consumer_context_identity'' False context) (\<lambda>_.
              tryE (check_context_identity ''consumer_authorization_identity'' False auth) (\<lambda>_.
              tryE (check_context_identity ''tool_capability_identity'' True tool) (\<lambda>_.
              tryE (check_context_identity ''runtime_identity'' True runtime) (\<lambda>_.
              tryE (target_age ''liveness_max_age_seconds'' liveness_age MAX_LIVENESS_AGE_SECONDS) (\<lambda>live.
              tryE (target_age ''capability_max_age_seconds'' capability_age MAX_CAPABILITY_AGE_SECONDS) (\<lambda>recent.
                Inr \<lparr>et_worker_identity = w, et_execution_class = (case cls of JStr c \<Rightarrow> c | _ \<Rightarrow> []),
                     et_required_capabilities = required, et_tool_capability_identity = tool, et_runtime_identity = runtime,
                     et_consumer_context_identity = context, et_consumer_authorization_identity = auth,
                     et_liveness_max_age_seconds = live, et_capability_max_age_seconds = recent\<rparr>))))))))
      | _ \<Rightarrow> Inl (ValidationError ''worker_identity is invalid''))"

definition target_entries :: "execution_target \<Rightarrow> (string \<times> json) list" where
  "target_entries t =
     [(''schema_version'', JStr EXECUTION_TARGET_SCHEMA), (''worker_identity'', JStr (et_worker_identity t)),
      (''execution_class'', JStr (et_execution_class t)),
      (''required_capabilities'', JList (map JStr (et_required_capabilities t))),
      (''tool_capability_identity'', et_tool_capability_identity t), (''runtime_identity'', et_runtime_identity t),
      (''consumer_context_identity'', et_consumer_context_identity t),
      (''consumer_authorization_identity'', et_consumer_authorization_identity t),
      (''require_current_membership'', JBool True), (''require_authenticated_presence'', JBool True),
      (''required_availability'', JStr ''AVAILABLE''), (''liveness_max_age_seconds'', et_liveness_max_age_seconds t),
      (''capability_max_age_seconds'', et_capability_max_age_seconds t), (''fallback_policy'', JStr ''NONE''),
      (''claim_boundary'', JStr TARGET_CLAIM_BOUNDARY)]"

definition target_identity :: "execution_target \<Rightarrow> string" where
  "target_identity t = sha256_identity (JObj (dict_of (target_entries t)))"

definition target_to_dict :: "execution_target \<Rightarrow> dict" where
  "target_to_dict t = fmupd ''target_identity'' (JStr (target_identity t)) (dict_of (target_entries t))"

definition execution_target_fields :: "string list" where
  "execution_target_fields =
     [''schema_version'', ''worker_identity'', ''execution_class'', ''required_capabilities'', ''tool_capability_identity'',
      ''runtime_identity'', ''consumer_context_identity'', ''consumer_authorization_identity'', ''require_current_membership'',
      ''require_authenticated_presence'', ''required_availability'', ''liveness_max_age_seconds'',
      ''capability_max_age_seconds'', ''fallback_policy'', ''claim_boundary'', ''target_identity'']"

definition rebuild_target :: "dict \<Rightarrow> execution_target result" where
  "rebuild_target m =
     build_execution_target (dget m ''worker_identity'') (dget m ''execution_class'') (dget m ''required_capabilities'')
       (dget m ''tool_capability_identity'') (dget m ''runtime_identity'') (dget m ''consumer_context_identity'')
       (dget m ''consumer_authorization_identity'') (dget m ''liveness_max_age_seconds'') (dget m ''capability_max_age_seconds'')"

definition validate_execution_target_reference :: "json \<Rightarrow> string option \<Rightarrow> string option \<Rightarrow> dict result" where
  "validate_execution_target_reference v expected_worker expected_context =
     (case v of
        JObj m \<Rightarrow>
          if dget m ''schema_version'' \<noteq> JStr EXECUTION_TARGET_SCHEMA then Inl (ValidationError ''unsupported execution target schema'')
          else if \<not> keys_are m execution_target_fields \<or> \<not> verify_identity m ''target_identity''
            then Inl (ValidationError ''execution target fields or identity are invalid'')
          else if dget m ''require_current_membership'' \<noteq> JBool True \<or> dget m ''require_authenticated_presence'' \<noteq> JBool True
              \<or> dget m ''required_availability'' \<noteq> JStr ''AVAILABLE'' \<or> dget m ''fallback_policy'' \<noteq> JStr ''NONE''
              \<or> dget m ''claim_boundary'' \<noteq> JStr TARGET_CLAIM_BOUNDARY
            then Inl (ValidationError ''execution target authority or fallback boundary is invalid'')
          else if \<not> is_list (dget m ''required_capabilities'')
            then Inl (ValidationError ''required_capabilities must be an array'')
          else
            tryE (rebuild_target m) (\<lambda>t.
              if \<not> py_eq (JObj (target_to_dict t)) v then Inl (ValidationError ''execution target is not canonically normalized'')
              else if \<not> matches_expected expected_worker (dget m ''worker_identity'')
                then Inl (ValidationError ''execution target is bound to another worker'')
              else if \<not> matches_expected expected_context (dget m ''consumer_context_identity'')
                then Inl (ValidationError ''execution target is bound to another consumer context'')
              else Inr (target_to_dict t))
      | _ \<Rightarrow> Inl (ValidationError ''unsupported execution target schema''))"

section \<open>What was observed\<close>

definition target_instant :: "json \<Rightarrow> int option result" where
  "target_instant v =
     (case v of
        JStr s \<Rightarrow>
          if 64 < length s then Inr None
          else
            (case fromisoformat (replace_Z s) of
               Some (local', Some off) \<Rightarrow> tryE (instant_of_offset (local', off)) (\<lambda>us. Inr (Some us))
             | _ \<Rightarrow> Inr None)
      | _ \<Rightarrow> Inr None)"

text \<open>The names an entry answers to: its name, and the name qualified by its kind and by its namespace.\<close>

definition entry_names :: "json \<Rightarrow> string list" where
  "entry_names entry =
     (case entry of
        JObj e \<Rightarrow>
          (case dget e ''name'' of
             JStr name \<Rightarrow>
               name # (case dget e ''kind'' of JStr k \<Rightarrow> [k @ '':'' @ name] | _ \<Rightarrow> [])
                 @ (case dget e ''namespace'' of JStr ns \<Rightarrow> [ns @ '':'' @ name] | _ \<Rightarrow> [])
           | _ \<Rightarrow> [])
      | _ \<Rightarrow> [])"

definition capability_names :: "dict \<Rightarrow> string list result" where
  "capability_names m =
     tryE (py_iter (dget_default m ''capabilities'' (JList []))) (\<lambda>entries. Inr (concat (map entry_names entries)))"

definition entry_dicts :: "dict \<Rightarrow> dict list" where
  "entry_dicts m =
     (case dget m ''capabilities'' of JList xs \<Rightarrow> concat (map (\<lambda>x. case x of JObj e \<Rightarrow> [e] | _ \<Rightarrow> []) xs) | _ \<Rightarrow> [])"

definition tool_identities :: "dict \<Rightarrow> json list" where
  "tool_identities m =
     map (\<lambda>e. dget e ''capability_identity'') (filter (\<lambda>e. dget e ''kind'' = JStr ''tool'') (entry_dicts m))"

definition observed_identities :: "dict \<Rightarrow> string list" where
  "observed_identities m =
     sort (concat (map (\<lambda>e. case dget e ''capability_identity'' of JStr s \<Rightarrow> [s] | _ \<Rightarrow> []) (entry_dicts m)))"

text \<open>\<^verbatim>\<open>except ValidationError: x = None\<close>\<close>

definition catch_validation :: "'a result \<Rightarrow> 'a option result" where
  "catch_validation r =
     (case r of Inr a \<Rightarrow> Inr (Some a) | Inl (ValidationError s) \<Rightarrow> Inr None | Inl e \<Rightarrow> Inl e)"

text \<open>\<^verbatim>\<open>isinstance(x, int)\<close> holds of booleans.\<close>

definition authenticated_presence :: "dict \<Rightarrow> bool" where
  "authenticated_presence w =
     (is_str (dget w ''session_id'') \<and> as_int (dget w ''session_generation'') \<noteq> None
      \<or> dget w ''transport'' = JStr ''tls-mutual-authenticated'' \<and> is_str (dget w ''description_identity''))"

definition runtime_identity_of :: "dict \<Rightarrow> string option" where
  "runtime_identity_of w =
     (case dget w ''description'' of
        JObj d \<Rightarrow>
          (case dget d ''runtime_profile'' of
             JObj p \<Rightarrow> (case dget p ''runtime_profile_identity'' of JStr s \<Rightarrow> Some s | _ \<Rightarrow> None)
           | _ \<Rightarrow> None)
      | _ \<Rightarrow> None)"

text \<open>\<^verbatim>\<open>-60.0 <= age <= maximum\<close> for an age that is known.\<close>

definition age_within :: "int option \<Rightarrow> json \<Rightarrow> bool" where
  "age_within age maximum =
     (case age of None \<Rightarrow> False | Some us \<Rightarrow> - 60000000 \<le> us \<and> num_le (seconds_json us) maximum)"

section \<open>The evaluation\<close>

record target_verdict =
  tv_disposition :: string
  tv_reason :: string
  tv_checks :: dict

definition note_check :: "string \<Rightarrow> string \<Rightarrow> target_verdict \<Rightarrow> target_verdict" where
  "note_check name outcome v = v\<lparr>tv_checks := fmupd name (JStr outcome) (tv_checks v)\<rparr>"

text \<open>\<^verbatim>\<open>if disposition == "PASS": reason_code, disposition = ...\<close>\<close>

definition downgrade :: "string \<Rightarrow> string \<Rightarrow> target_verdict \<Rightarrow> target_verdict" where
  "downgrade reason disposition v =
     (if tv_disposition v = ''PASS'' then v\<lparr>tv_disposition := disposition, tv_reason := reason\<rparr> else v)"

definition context_check :: "dict option \<Rightarrow> dict \<Rightarrow> target_verdict \<Rightarrow> target_verdict" where
  "context_check context target v =
     (if context = None \<or> dget (the context) ''context_identity'' \<noteq> dget target ''consumer_context_identity''
      then (note_check ''consumer_context'' ''FAIL'' v)\<lparr>tv_disposition := ''DENIED'', tv_reason := ''TARGET_CONTEXT_MISMATCH''\<rparr>
      else note_check ''consumer_context'' ''PASS'' v)"

definition authorization_check :: "json \<Rightarrow> dict \<Rightarrow> target_verdict \<Rightarrow> target_verdict" where
  "authorization_check auth target v =
     (if \<not> is_sha256_identity auth \<or> auth \<noteq> dget target ''consumer_authorization_identity''
      then downgrade ''TARGET_AUTHORIZATION_BINDING_INVALID'' ''DENIED'' (note_check ''consumer_authorization_binding'' ''FAIL'' v)
      else note_check ''consumer_authorization_binding'' ''PROVENANCE_ONLY'' v)"

definition membership_check :: "dict option \<Rightarrow> target_verdict \<Rightarrow> target_verdict" where
  "membership_check worker v =
     (case worker of
        None \<Rightarrow> downgrade ''TARGET_UNKNOWN'' ''UNKNOWN'' (note_check ''membership'' ''UNKNOWN'' v)
      | Some w \<Rightarrow>
          if dget w ''membership_status'' = JStr ''REVOKED''
            then downgrade ''TARGET_REVOKED'' ''DENIED'' (note_check ''membership'' ''FAIL'' v)
          else if dget w ''membership_status'' \<noteq> JStr ''ENROLLED''
            then downgrade ''TARGET_UNKNOWN'' ''UNKNOWN'' (note_check ''membership'' ''UNKNOWN'' v)
          else note_check ''membership'' ''PASS'' v)"

definition presence_check :: "dict \<Rightarrow> target_verdict \<Rightarrow> target_verdict" where
  "presence_check w v =
     (if dget w ''availability'' \<noteq> JStr ''AVAILABLE'' \<or> \<not> authenticated_presence w
      then downgrade ''TARGET_DISCONNECTED'' ''UNKNOWN'' (note_check ''authenticated_presence'' ''UNKNOWN'' v)
      else note_check ''authenticated_presence'' ''PASS'' v)"

definition liveness_check :: "int option \<Rightarrow> dict \<Rightarrow> target_verdict \<Rightarrow> target_verdict" where
  "liveness_check age target v =
     (if \<not> age_within age (dget target ''liveness_max_age_seconds'')
      then downgrade ''TARGET_LIVENESS_STALE'' ''UNKNOWN'' (note_check ''liveness_freshness'' ''UNKNOWN'' v)
      else note_check ''liveness_freshness'' ''PASS'' v)"

text \<open>The facts of an enrolled worker: the verdict, the age of the last contact, the runtime identity.\<close>

definition worker_facts ::
    "int \<Rightarrow> dict \<Rightarrow> dict option \<Rightarrow> target_verdict \<Rightarrow> (target_verdict \<times> int option \<times> string option) result" where
  "worker_facts evaluated target worker v =
     (case worker of
        Some w \<Rightarrow>
          if dget (tv_checks v) ''membership'' = JStr ''PASS''
          then
            tryE (target_instant (dget_default w ''last_seen'' (dget w ''last_observed_at''))) (\<lambda>observed.
              let age = map_option (\<lambda>at. evaluated - at) observed
              in Inr (liveness_check age target (presence_check w v), age, runtime_identity_of w))
          else Inr (v, None, None)
      | None \<Rightarrow> Inr (v, None, None))"

definition provenance_check :: "dict option \<Rightarrow> target_verdict \<Rightarrow> target_verdict result" where
  "provenance_check observation v =
     (case observation of
        None \<Rightarrow> Inr v
      | Some m \<Rightarrow>
          tryE (observation_admission_trusted m) (\<lambda>trusted.
            Inr (if trusted then note_check ''capability_provenance'' ''PASS'' v
                 else (note_check ''capability_provenance'' ''FAIL'' v)
                   \<lparr>tv_disposition := ''DENIED'', tv_reason := ''TARGET_CAPABILITY_UNVERIFIED''\<rparr>)))"

definition observation_age :: "int \<Rightarrow> dict option \<Rightarrow> int option result" where
  "observation_age evaluated observation =
     (case observation of
        None \<Rightarrow> Inr None
      | Some m \<Rightarrow> tryE (target_instant (dget m ''captured_at'')) (\<lambda>at. Inr (map_option (\<lambda>us. evaluated - us) at)))"

definition fresh_capabilities :: "dict \<Rightarrow> int option \<Rightarrow> dict option \<Rightarrow> dict option" where
  "fresh_capabilities target age observation =
     (case observation of
        None \<Rightarrow> None
      | Some m \<Rightarrow>
          if dget m ''availability'' = JStr ''AVAILABLE'' \<and> age_within age (dget target ''capability_max_age_seconds'')
          then Some m else None)"

definition strings_of :: "json \<Rightarrow> string list" where
  "strings_of v = (case v of JList xs \<Rightarrow> concat (map (\<lambda>x. case x of JStr s \<Rightarrow> [s] | _ \<Rightarrow> []) xs) | _ \<Rightarrow> [])"

definition required_check :: "dict \<Rightarrow> string list \<Rightarrow> target_verdict \<Rightarrow> target_verdict" where
  "required_check target names v =
     (if \<not> set (strings_of (dget target ''required_capabilities'')) \<subseteq> set names
      then downgrade ''TARGET_CAPABILITY_MISSING'' ''DENIED'' (note_check ''required_capabilities'' ''FAIL'' v)
      else note_check ''required_capabilities'' ''PASS'' v)"

definition tool_check :: "dict \<Rightarrow> dict \<Rightarrow> target_verdict \<Rightarrow> target_verdict" where
  "tool_check target m v =
     (let tool = dget target ''tool_capability_identity'' in
      if tool \<noteq> JNull \<and> tool \<notin> set (tool_identities m)
      then downgrade ''TARGET_TOOL_CAPABILITY_MISMATCH'' ''DENIED'' (note_check ''tool_capability_identity'' ''FAIL'' v)
      else note_check ''tool_capability_identity'' (if tool \<noteq> JNull then ''PASS'' else ''NOT_REQUIRED'') v)"

definition capability_check :: "dict \<Rightarrow> dict option \<Rightarrow> target_verdict \<Rightarrow> target_verdict result" where
  "capability_check target fresh v =
     (case fresh of
        None \<Rightarrow> Inr (downgrade ''TARGET_CAPABILITIES_STALE'' ''UNKNOWN'' (note_check ''capability_freshness'' ''UNKNOWN'' v))
      | Some m \<Rightarrow>
          tryE (capability_names m) (\<lambda>names.
            Inr (tool_check target m (required_check target names (note_check ''capability_freshness'' ''PASS'' v)))))"

definition runtime_check :: "dict \<Rightarrow> string option \<Rightarrow> target_verdict \<Rightarrow> target_verdict" where
  "runtime_check target runtime v =
     (let required = dget target ''runtime_identity'' in
      if required \<noteq> JNull \<and> opt_str runtime \<noteq> required
      then downgrade ''TARGET_RUNTIME_MISMATCH'' ''DENIED'' (note_check ''runtime_identity'' ''FAIL'' v)
      else note_check ''runtime_identity'' (if required \<noteq> JNull then ''PASS'' else ''NOT_REQUIRED'') v)"

section \<open>Admissions\<close>

record target_request =
  tr_request_identity :: string
  tr_execution_request_identity :: string
  tr_authenticated_client_identity :: string
  tr_client_label :: string
  tr_job_identity :: string
  tr_bundle_identity :: string

definition target_binding :: "dict \<Rightarrow> target_request \<Rightarrow> json \<Rightarrow> string \<Rightarrow> dict" where
  "target_binding target request context_id auth = attach_identity (dict_of
     [(''target_identity'', dget target ''target_identity''), (''request_identity'', JStr (tr_request_identity request)),
      (''execution_request_identity'', JStr (tr_execution_request_identity request)),
      (''authenticated_client_identity'', JStr (tr_authenticated_client_identity request)),
      (''client_label'', JStr (tr_client_label request)), (''consumer_context_identity'', context_id),
      (''consumer_authorization_identity'', JStr auth), (''job_identity'', JStr (tr_job_identity request)),
      (''bundle_identity'', JStr (tr_bundle_identity request)),
      (''authorization_interpretation'', JStr TARGET_AUTHORIZATION_INTERPRETATION)]) ''request_binding_identity''"

text \<open>\<^verbatim>\<open>x.get(k) if x is not None else None\<close>\<close>

definition get_from :: "dict option \<Rightarrow> string \<Rightarrow> json" where
  "get_from m k = (case m of None \<Rightarrow> JNull | Some d \<Rightarrow> dget d k)"

definition age_json :: "int option \<Rightarrow> json" where
  "age_json age = (case age of None \<Rightarrow> JNull | Some us \<Rightarrow> seconds_json us)"

definition target_admission ::
    "dict \<Rightarrow> target_verdict \<Rightarrow> int \<Rightarrow> dict \<Rightarrow> dict option \<Rightarrow> dict option \<Rightarrow> int option \<Rightarrow> int option \<Rightarrow> string option \<Rightarrow> dict result" where
  "target_admission target v evaluated binding worker observation live_age observed_age runtime =
     (if map_of TARGET_ADMISSION_DISPOSITIONS (tv_reason v) \<noteq> Some (tv_disposition v)
      then Inl (ValidationError ''target admission reason/disposition is unsupported'')
      else Inr (attach_identity (dict_of
        [(''schema_version'', JStr TARGET_ADMISSION_SCHEMA), (''target_identity'', dget target ''target_identity''),
         (''target_reference'', JObj target), (''worker_identity'', dget target ''worker_identity''),
         (''disposition'', JStr (tv_disposition v)), (''reason_code'', JStr (tv_reason v)),
         (''evaluated_at'', JStr (show_instant evaluated)), (''request_binding'', JObj binding),
         (''membership_status'', get_from worker ''membership_status''), (''availability'', get_from worker ''availability''),
         (''transport'', get_from worker ''transport''), (''session_id'', get_from worker ''session_id''),
         (''session_generation'', get_from worker ''session_generation''),
         (''liveness_observed_at'', (case worker of None \<Rightarrow> JNull | Some w \<Rightarrow> dget_default w ''last_seen'' (dget w ''last_observed_at''))),
         (''liveness_age_seconds'', age_json live_age),
         (''capability_observation_identity'', get_from observation ''capability_observation_identity''),
         (''capability_observed_at'', get_from observation ''captured_at''), (''capability_age_seconds'', age_json observed_age),
         (''observed_capability_identities'',
            JList (case observation of None \<Rightarrow> [] | Some m \<Rightarrow> map JStr (observed_identities m))),
         (''observed_runtime_identity'', opt_str runtime), (''checks'', JObj (tv_checks v)),
         (''authorization_interpretation'', JStr TARGET_AUTHORIZATION_INTERPRETATION),
         (''claim_boundary'', JStr TARGET_EXECUTION_CLAIM_BOUNDARY)]) ''target_admission_identity''))"

definition start_verdict :: target_verdict where
  "start_verdict = \<lparr>tv_disposition = ''PASS'', tv_reason = ''TARGET_ADMITTED'', tv_checks = fmempty\<rparr>"

definition early_verdict :: "dict \<Rightarrow> dict option \<Rightarrow> dict option \<Rightarrow> json \<Rightarrow> target_verdict" where
  "early_verdict target worker context auth =
     membership_check worker (authorization_check auth target (context_check context target start_verdict))"

definition checked_observation :: "dict \<Rightarrow> dict option \<Rightarrow> dict option result" where
  "checked_observation target observation =
     (case observation of
        None \<Rightarrow> Inr None
      | Some m \<Rightarrow> catch_validation (validate_capability_observation (JObj m)
          (case dget target ''worker_identity'' of JStr w \<Rightarrow> Some w | _ \<Rightarrow> None)))"

text \<open>
  \<open>now\<close> is null or a time stamp, \<open>clock\<close> the instant read when it is null.
\<close>

definition evaluation_instant :: "int \<Rightarrow> json \<Rightarrow> int result" where
  "evaluation_instant clock now =
     (if now = JNull then Inr clock
      else tryE (target_instant now) (\<lambda>at. case at of
        None \<Rightarrow> Inl (ValidationError ''target admission time is invalid'') | Some us \<Rightarrow> Inr us))"

definition evaluate_target_admission ::
    "int \<Rightarrow> json \<Rightarrow> dict option \<Rightarrow> dict option \<Rightarrow> json \<Rightarrow> json \<Rightarrow> target_request \<Rightarrow> json \<Rightarrow> dict result" where
  "evaluate_target_admission clock target worker observation context auth request now =
     tryE (validate_execution_target_reference target None None) (\<lambda>checked.
     tryE (evaluation_instant clock now) (\<lambda>evaluated.
     tryE (catch_validation (validate_consumer_context ValidationError context)) (\<lambda>ctx.
     tryE (worker_facts evaluated checked worker (early_verdict checked worker ctx auth)) (\<lambda>(v, live_age, runtime).
     tryE (checked_observation checked observation) (\<lambda>obs.
     tryE (provenance_check obs v) (\<lambda>v.
     tryE (observation_age evaluated obs) (\<lambda>age.
     tryE (capability_check checked (fresh_capabilities checked age obs) v) (\<lambda>v.
     tryE (py_str auth) (\<lambda>auth_text.
       target_admission checked (runtime_check checked runtime v) evaluated
         (target_binding checked request (case ctx of None \<Rightarrow> JStr ''INVALID'' | Some c \<Rightarrow> dget c ''context_identity'') auth_text)
         worker obs live_age age runtime)))))))))"

section \<open>Validation of admissions\<close>

definition target_admission_fields :: "string list" where
  "target_admission_fields =
     [''schema_version'', ''target_identity'', ''target_reference'', ''worker_identity'', ''disposition'', ''reason_code'',
      ''evaluated_at'', ''request_binding'', ''membership_status'', ''availability'', ''transport'', ''session_id'',
      ''session_generation'', ''liveness_observed_at'', ''liveness_age_seconds'', ''capability_observation_identity'',
      ''capability_observed_at'', ''capability_age_seconds'', ''observed_capability_identities'', ''observed_runtime_identity'',
      ''checks'', ''authorization_interpretation'', ''claim_boundary'', ''target_admission_identity'']"

definition target_binding_fields :: "string list" where
  "target_binding_fields =
     [''target_identity'', ''request_identity'', ''execution_request_identity'', ''authenticated_client_identity'',
      ''client_label'', ''consumer_context_identity'', ''consumer_authorization_identity'', ''job_identity'', ''bundle_identity'',
      ''authorization_interpretation'', ''request_binding_identity'']"

definition str_matches :: "(string \<Rightarrow> bool) \<Rightarrow> json \<Rightarrow> bool" where
  "str_matches p v = (case v of JStr s \<Rightarrow> p s | _ \<Rightarrow> False)"

definition disposition_of_reason :: "json \<Rightarrow> json \<Rightarrow> unit result" where
  "disposition_of_reason reason disposition =
     tryE (in_strset reason (map fst TARGET_ADMISSION_DISPOSITIONS)) (\<lambda>known.
       ensure (known \<and> (case reason of JStr r \<Rightarrow> disposition = opt_str (map_of TARGET_ADMISSION_DISPOSITIONS r) | _ \<Rightarrow> False))
         ''target admission disposition is invalid'')"

definition binding_checks :: "dict \<Rightarrow> dict \<Rightarrow> dict \<Rightarrow> unit result list" where
  "binding_checks m b target =
     [ensure (dget target ''target_identity'' = dget m ''target_identity'' \<and> dget b ''target_identity'' = dget m ''target_identity''
          \<and> dget target ''worker_identity'' = dget m ''worker_identity'') ''target admission target binding is invalid'',
      ensure (list_all (\<lambda>k. is_sha256_identity (dget b k))
          [''request_identity'', ''execution_request_identity'', ''authenticated_client_identity'', ''job_identity''])
        ''target admission request identity is invalid'',
      ensure (str_matches matches_hash (dget b ''bundle_identity'')) ''target admission bundle identity is invalid'',
      ensure (str_matches matches_identity (dget b ''client_label'')) ''target admission client label is invalid'',
      ensure (\<not> (dget m ''disposition'' = JStr ''PASS''
          \<and> (dget b ''consumer_context_identity'' \<noteq> dget target ''consumer_context_identity''
            \<or> dget b ''consumer_authorization_identity'' \<noteq> dget target ''consumer_authorization_identity''
            \<or> dget m ''membership_status'' \<noteq> JStr ''ENROLLED'' \<or> dget m ''availability'' \<noteq> JStr ''AVAILABLE'')))
        ''passing target admission facts are inconsistent'',
      ensure (list_all (\<lambda>k. sha_or_null (dget m k)) [''capability_observation_identity'', ''observed_runtime_identity''])
        ''target admission observation identity is invalid'',
      ensure (case dget m ''observed_capability_identities'' of JList xs \<Rightarrow> list_all is_sha256_identity xs | _ \<Rightarrow> False)
        ''target admission capability identities are invalid'',
      tryE (target_instant (dget m ''evaluated_at'')) (\<lambda>at. ensure (at \<noteq> None) ''target admission evaluation time is invalid'')]"

definition admission_header_checks :: "dict \<Rightarrow> unit result list" where
  "admission_header_checks m =
     [ensure (keys_are m target_admission_fields \<and> dget m ''schema_version'' = JStr TARGET_ADMISSION_SCHEMA
          \<and> verify_identity m ''target_admission_identity'') ''target admission fields or identity are invalid'',
      disposition_of_reason (dget m ''reason_code'') (dget m ''disposition''),
      ensure (dget m ''authorization_interpretation'' = JStr TARGET_AUTHORIZATION_INTERPRETATION
          \<and> dget m ''claim_boundary'' = JStr TARGET_EXECUTION_CLAIM_BOUNDARY) ''target admission authority boundary is invalid'']"

definition request_binding_of :: "dict \<Rightarrow> dict result" where
  "request_binding_of m =
     (case dget m ''request_binding'' of
        JObj b \<Rightarrow>
          if keys_are b target_binding_fields \<and> verify_identity b ''request_binding_identity''
             \<and> dget b ''authorization_interpretation'' = JStr TARGET_AUTHORIZATION_INTERPRETATION
          then Inr b else Inl (ValidationError ''target admission request binding is invalid'')
      | _ \<Rightarrow> Inl (ValidationError ''target admission request binding is invalid''))"

definition validate_target_admission :: "json \<Rightarrow> dict result" where
  "validate_target_admission v =
     (case v of
        JObj m \<Rightarrow>
          tryE (all_checks (admission_header_checks m)) (\<lambda>_.
          tryE (request_binding_of m) (\<lambda>b.
          tryE (validate_execution_target_reference (dget m ''target_reference'') None None) (\<lambda>target.
          tryE (all_checks (binding_checks m b target)) (\<lambda>_. Inr m))))
      | _ \<Rightarrow> Inl (ValidationError ''target admission fields or identity are invalid''))"

section \<open>Execution evidence\<close>

definition target_evidence_payload :: "dict \<Rightarrow> dict \<Rightarrow> dict \<Rightarrow> dict" where
  "target_evidence_payload m b r = dict_of
     [(''schema_version'', JStr TARGET_EXECUTION_EVIDENCE_SCHEMA), (''target_identity'', dget m ''target_identity''),
      (''target_admission_identity'', dget m ''target_admission_identity''),
      (''request_binding_identity'', dget b ''request_binding_identity''), (''request_identity'', dget b ''request_identity''),
      (''execution_request_identity'', dget b ''execution_request_identity''),
      (''authenticated_client_identity'', dget b ''authenticated_client_identity''), (''client_label'', dget b ''client_label''),
      (''worker_identity'', dget r ''worker_identity''), (''session_id'', dget m ''session_id''),
      (''session_generation'', dget m ''session_generation''),
      (''capability_observation_identity'', dget m ''capability_observation_identity''),
      (''observed_capability_identities'', dget m ''observed_capability_identities''),
      (''observed_runtime_identity'', dget m ''observed_runtime_identity''),
      (''consumer_context_identity'', dget b ''consumer_context_identity''),
      (''consumer_authorization_identity'', dget b ''consumer_authorization_identity''),
      (''authorization_interpretation'', JStr TARGET_AUTHORIZATION_INTERPRETATION), (''bundle_identity'', dget r ''bundle_identity''),
      (''job_identity'', dget r ''job_identity''), (''record_identity'', dget r ''record_identity''),
      (''receipt_identity'', dget r ''receipt_identity''), (''disposition'', dget r ''disposition''),
      (''claim_boundary'', JStr TARGET_EXECUTION_CLAIM_BOUNDARY)]"

definition build_target_execution_evidence :: "dict \<Rightarrow> dict \<Rightarrow> dict result" where
  "build_target_execution_evidence admission r =
     tryE (validate_target_admission (JObj admission)) (\<lambda>m.
       if dget m ''disposition'' \<noteq> JStr ''PASS''
         then Inl (ValidationError ''target execution evidence requires a passing admission'')
       else if dget r ''worker_identity'' \<noteq> dget m ''worker_identity''
         then Inl (ValidationError ''target execution result worker differs from admission'')
       else
         tryE (request_binding_of m) (\<lambda>b.
           if dget r ''job_identity'' \<noteq> dget b ''job_identity''
             then Inl (ValidationError ''target execution result job differs from admission'')
           else if dget r ''bundle_identity'' \<noteq> dget b ''bundle_identity''
             then Inl (ValidationError ''target execution result bundle differs from admission'')
           else
             tryE (in_strset (dget r ''disposition'') [''EXECUTED'', ''DUPLICATE_IDEMPOTENT'']) (\<lambda>executed.
               if \<not> executed then Inl (ValidationError ''target execution result disposition is invalid'')
               else Inr (attach_identity (target_evidence_payload m b r) ''target_execution_evidence_identity''))))"

definition target_evidence_fields :: "string list" where
  "target_evidence_fields =
     [''schema_version'', ''target_identity'', ''target_admission_identity'', ''request_binding_identity'', ''request_identity'',
      ''execution_request_identity'', ''authenticated_client_identity'', ''client_label'', ''worker_identity'', ''session_id'',
      ''session_generation'', ''capability_observation_identity'', ''observed_capability_identities'',
      ''observed_runtime_identity'', ''consumer_context_identity'', ''consumer_authorization_identity'',
      ''authorization_interpretation'', ''bundle_identity'', ''job_identity'', ''record_identity'', ''receipt_identity'',
      ''disposition'', ''claim_boundary'', ''target_execution_evidence_identity'']"

definition target_evidence_checks :: "dict \<Rightarrow> unit result list" where
  "target_evidence_checks m =
     [ensure (keys_are m target_evidence_fields \<and> dget m ''schema_version'' = JStr TARGET_EXECUTION_EVIDENCE_SCHEMA
          \<and> verify_identity m ''target_execution_evidence_identity'') ''target execution evidence fields or identity are invalid'',
      ensure (dget m ''authorization_interpretation'' = JStr TARGET_AUTHORIZATION_INTERPRETATION
          \<and> dget m ''claim_boundary'' = JStr TARGET_EXECUTION_CLAIM_BOUNDARY) ''target execution evidence authority boundary is invalid'',
      ensure (list_all (\<lambda>k. is_sha256_identity (dget m k))
          [''target_identity'', ''target_admission_identity'', ''request_binding_identity'', ''request_identity'',
           ''execution_request_identity'', ''authenticated_client_identity'', ''consumer_context_identity'',
           ''consumer_authorization_identity'', ''job_identity'', ''record_identity'', ''target_execution_evidence_identity''])
        ''target execution evidence identity field is invalid'',
      ensure (list_all (\<lambda>k. sha_or_null (dget m k)) [''capability_observation_identity'', ''observed_runtime_identity''])
        ''target execution evidence optional identity is invalid'',
      ensure (str_matches matches_hash (dget m ''bundle_identity'')) ''target execution evidence bundle identity is invalid'',
      ensure (str_matches matches_hash (dget m ''receipt_identity'')) ''target execution evidence receipt identity is invalid'',
      tryE (in_strset (dget m ''disposition'') [''EXECUTED'', ''DUPLICATE_IDEMPOTENT'']) (\<lambda>executed.
        ensure executed ''target execution evidence disposition is invalid''),
      ensure (str_matches matches_identity (dget m ''client_label'')) ''target execution evidence client label is invalid'']"

definition validate_target_execution_evidence :: "json \<Rightarrow> dict result" where
  "validate_target_execution_evidence v =
     (case v of
        JObj m \<Rightarrow> tryE (all_checks (target_evidence_checks m)) (\<lambda>_. Inr m)
      | _ \<Rightarrow> Inl (ValidationError ''target execution evidence fields or identity are invalid''))"

end
