(* ===== verification/Target_Safety.thy ===== *)
theory Target_Safety
  imports Targets
begin

text \<open>
  What a passing target admission rests on. \<open>admits_target\<close> states it without the order of the checks; the evaluation passes
  exactly then. The admission that is returned validates, and the evidence of an execution can be built only from one that
  passed.
\<close>

section \<open>Accepted targets\<close>

definition age_ok :: "nat \<Rightarrow> json \<Rightarrow> bool" where
  "age_ok maximum v =
     (case v of JFloat s m e \<Rightarrow> \<not> num_le v (JInt 0) \<and> num_le v (JInt (int maximum)) | _ \<Rightarrow> False)"

lemma target_age_ok: "age_ok n v \<Longrightarrow> target_age f v n = Inr v"
  by (cases v) (simp_all add: age_ok_def target_age_def)

lemma target_age_InrD: "target_age f v n = Inr w \<Longrightarrow> age_ok n w"
  by (cases v) (auto simp: target_age_def age_ok_def split: if_splits prod.splits)

definition target_ok :: "execution_target \<Rightarrow> bool" where
  "target_ok t =
     (matches_identity (et_worker_identity t) \<and> et_execution_class t \<in> set EXECUTION_CLASSES
      \<and> et_required_capabilities t \<noteq> [] \<and> length (et_required_capabilities t) \<le> MAX_REQUIRED_CAPABILITIES
      \<and> distinct (et_required_capabilities t) \<and> sorted (et_required_capabilities t)
      \<and> list_all matches_capability_name (et_required_capabilities t)
      \<and> is_sha256_identity (et_consumer_context_identity t) \<and> is_sha256_identity (et_consumer_authorization_identity t)
      \<and> sha_or_null (et_tool_capability_identity t) \<and> sha_or_null (et_runtime_identity t)
      \<and> age_ok MAX_LIVENESS_AGE_SECONDS (et_liveness_max_age_seconds t)
      \<and> age_ok MAX_CAPABILITY_AGE_SECONDS (et_capability_max_age_seconds t))"

lemma capability_name_eq_Inr [result_simps]: "capability_name f v = Inr s \<longleftrightarrow> v = JStr s \<and> matches_capability_name s"
  by (cases v) (auto simp: capability_name_def)

lemma capability_names_InrD: "mapE (capability_name f) xs = Inr ys \<Longrightarrow> xs = map JStr ys \<and> list_all matches_capability_name ys"
  by (induction xs arbitrary: ys) (auto simp: result_simps)

lemma capability_names_map: "list_all matches_capability_name ys \<Longrightarrow> mapE (capability_name f) (map JStr ys) = Inr ys"
  by (induction ys) (simp_all add: capability_name_def)

lemma target_capabilities_InrD:
  assumes "target_capabilities v = Inr cs"
  shows "cs \<noteq> [] \<and> length cs \<le> MAX_REQUIRED_CAPABILITIES \<and> distinct cs \<and> sorted cs \<and> list_all matches_capability_name cs"
proof -
  from assms obtain xs items where "mapE (capability_name ''required_capability'') xs = Inr items" "cs = sort items"
    "items \<noteq> []" "length items \<le> MAX_REQUIRED_CAPABILITIES" "distinct items"
    by (auto simp: target_capabilities_def tryE_eq_Inr split: if_splits)
  moreover from this have "list_all matches_capability_name items" using capability_names_InrD by blast
  moreover have "set (sort items) = set items" by simp
  ultimately show ?thesis by (auto simp: list_all_iff simp flip: set_empty)
qed

lemma target_capabilities_ok:
  "cs \<noteq> [] \<Longrightarrow> length cs \<le> MAX_REQUIRED_CAPABILITIES \<Longrightarrow> distinct cs \<Longrightarrow> sorted cs \<Longrightarrow> list_all matches_capability_name cs
    \<Longrightarrow> target_capabilities (JList (map JStr cs)) = Inr cs"
  by (simp add: target_capabilities_def py_iter_def capability_names_map sort_key_id_if_sorted)

lemma build_execution_target_ok:
  assumes "build_execution_target worker cls capabilities tool runtime context auth live recent = Inr t"
  shows "target_ok t"
proof (cases worker)
  case (JStr w)
  from assms [unfolded build_execution_target_def JStr json.case if_Inl_eq_Inr tryE_eq_Inr]
  obtain required l r where g: "\<not> \<not> matches_identity w" "in_strset cls EXECUTION_CLASSES = Inr True"
    "target_capabilities capabilities = Inr required"
    "check_context_identity ''consumer_context_identity'' False context = Inr ()"
    "check_context_identity ''consumer_authorization_identity'' False auth = Inr ()"
    "check_context_identity ''tool_capability_identity'' True tool = Inr ()"
    "check_context_identity ''runtime_identity'' True runtime = Inr ()"
    "target_age ''liveness_max_age_seconds'' live MAX_LIVENESS_AGE_SECONDS = Inr l"
    "target_age ''capability_max_age_seconds'' recent MAX_CAPABILITY_AGE_SECONDS = Inr r"
    and t: "t = \<lparr>et_worker_identity = w, et_execution_class = (case cls of JStr c \<Rightarrow> c | _ \<Rightarrow> []),
         et_required_capabilities = required, et_tool_capability_identity = tool, et_runtime_identity = runtime,
         et_consumer_context_identity = context, et_consumer_authorization_identity = auth,
         et_liveness_max_age_seconds = l, et_capability_max_age_seconds = r\<rparr>" by auto
  from g(2) obtain c where "cls = JStr c" "c \<in> set EXECUTION_CLASSES" by (auto simp: in_strset_eq_Inr_True)
  then show ?thesis
    using g(1) g(4-7) target_capabilities_InrD [OF g(3)] target_age_InrD [OF g(8)] target_age_InrD [OF g(9)]
    by (auto simp: t target_ok_def result_simps sha_or_null_def)
qed (use assms in \<open>simp_all add: build_execution_target_def\<close>)

lemma target_fields [simp]:
  "dget (target_to_dict t) ''schema_version'' = JStr EXECUTION_TARGET_SCHEMA"
  "dget (target_to_dict t) ''worker_identity'' = JStr (et_worker_identity t)"
  "dget (target_to_dict t) ''execution_class'' = JStr (et_execution_class t)"
  "dget (target_to_dict t) ''required_capabilities'' = JList (map JStr (et_required_capabilities t))"
  "dget (target_to_dict t) ''tool_capability_identity'' = et_tool_capability_identity t"
  "dget (target_to_dict t) ''runtime_identity'' = et_runtime_identity t"
  "dget (target_to_dict t) ''consumer_context_identity'' = et_consumer_context_identity t"
  "dget (target_to_dict t) ''consumer_authorization_identity'' = et_consumer_authorization_identity t"
  "dget (target_to_dict t) ''require_current_membership'' = JBool True"
  "dget (target_to_dict t) ''require_authenticated_presence'' = JBool True"
  "dget (target_to_dict t) ''required_availability'' = JStr ''AVAILABLE''"
  "dget (target_to_dict t) ''fallback_policy'' = JStr ''NONE''"
  "dget (target_to_dict t) ''claim_boundary'' = JStr TARGET_CLAIM_BOUNDARY"
  "dget (target_to_dict t) ''liveness_max_age_seconds'' = et_liveness_max_age_seconds t"
  "dget (target_to_dict t) ''capability_max_age_seconds'' = et_capability_max_age_seconds t"
  "dget (target_to_dict t) ''target_identity'' = JStr (target_identity t)"
  by (simp_all add: target_to_dict_def target_entries_def)

lemma target_keys: "keys_are (target_to_dict t) execution_target_fields"
  unfolding keys_are_def
  by (rule fset_eqI) (auto simp: target_to_dict_def target_entries_def execution_target_fields_def)

lemma target_verifies: "verify_identity (target_to_dict t) ''target_identity''"
proof -
  have "fmdrop ''target_identity'' (target_to_dict t) = dict_of (target_entries t)"
    unfolding target_to_dict_def fmdrop_fmupd_same by (rule fmdrop_idle) (simp add: target_entries_def)
  then show ?thesis by (simp add: verify_identity_def identity_payload_def target_identity_def)
qed

lemma rebuild_target_ok:
  assumes "target_ok t"
  shows "rebuild_target (target_to_dict t) = Inr t"
  using assms
  by (simp add: rebuild_target_def build_execution_target_def target_ok_def target_capabilities_ok target_age_ok
      check_context_identity_def ensure_def sha_or_null_def) auto

lemma target_validates:
  assumes "target_ok t"
  shows "validate_execution_target_reference (JObj (target_to_dict t)) expected_worker expected_context = Inr (target_to_dict t) \<longleftrightarrow>
    matches_expected expected_worker (JStr (et_worker_identity t)) \<and> matches_expected expected_context (et_consumer_context_identity t)"
  using rebuild_target_ok [OF assms] target_keys [of t] target_verifies [of t]
  by (auto simp: validate_execution_target_reference_def py_eq_def)

lemma validate_target_InrE:
  assumes "validate_execution_target_reference v expected_worker expected_context = Inr m"
  obtains t where "target_ok t" "m = target_to_dict t"
proof (cases v)
  case (JObj d)
  from assms [unfolded validate_execution_target_reference_def JObj json.case if_Inl_eq_Inr tryE_eq_Inr]
  obtain t where "rebuild_target d = Inr t" "Inr (target_to_dict t) = (Inr m :: dict result)" by blast
  then show thesis using build_execution_target_ok that unfolding rebuild_target_def by blast
qed (use assms in \<open>simp_all add: validate_execution_target_reference_def\<close>)

section \<open>What a passing evaluation rests on\<close>

definition seen_within :: "int \<Rightarrow> json \<Rightarrow> json \<Rightarrow> bool" where
  "seen_within evaluated stamp maximum =
     (\<exists>us. target_instant stamp = Inr (Some us) \<and> - 60000000 \<le> evaluated - us \<and> num_le (seconds_json (evaluated - us)) maximum)"

definition worker_admissible :: "int \<Rightarrow> execution_target \<Rightarrow> dict \<Rightarrow> bool" where
  "worker_admissible evaluated t w =
     (dget w ''membership_status'' = JStr ''ENROLLED'' \<and> dget w ''availability'' = JStr ''AVAILABLE'' \<and> authenticated_presence w
      \<and> seen_within evaluated (dget_default w ''last_seen'' (dget w ''last_observed_at'')) (et_liveness_max_age_seconds t)
      \<and> (et_runtime_identity t = JNull \<or> opt_str (runtime_identity_of w) = et_runtime_identity t))"

definition observation_admissible :: "int \<Rightarrow> execution_target \<Rightarrow> dict \<Rightarrow> bool" where
  "observation_admissible evaluated t m =
     (validate_capability_observation (JObj m) (Some (et_worker_identity t)) = Inr m
      \<and> dget m ''observation_class'' \<in> JStr ` set TRUSTED_ADMISSION_CLASSES \<and> dget m ''availability'' = JStr ''AVAILABLE''
      \<and> seen_within evaluated (dget m ''captured_at'') (et_capability_max_age_seconds t)
      \<and> (\<exists>names. capability_names m = Inr names \<and> set (et_required_capabilities t) \<subseteq> set names)
      \<and> (et_tool_capability_identity t = JNull \<or> et_tool_capability_identity t \<in> set (tool_identities m)))"

definition admits_target :: "int \<Rightarrow> execution_target \<Rightarrow> dict option \<Rightarrow> dict option \<Rightarrow> json \<Rightarrow> json \<Rightarrow> bool" where
  "admits_target evaluated t worker observation context auth =
     ((\<exists>c. context_ok c \<and> context = JObj (context_to_dict c) \<and> et_consumer_context_identity t = JStr (context_identity c))
      \<and> auth = et_consumer_authorization_identity t
      \<and> (\<exists>w. worker = Some w \<and> worker_admissible evaluated t w)
      \<and> (\<exists>m. observation = Some m \<and> observation_admissible evaluated t m))"

lemma verdict_note [simp]:
  "tv_disposition (note_check n r v) = tv_disposition v" "tv_reason (note_check n r v) = tv_reason v"
  "tv_checks (note_check n r v) = fmupd n (JStr r) (tv_checks v)"
  by (simp_all add: note_check_def)

lemma verdict_downgrade [simp]:
  "d \<noteq> ''PASS'' \<Longrightarrow> tv_disposition (downgrade r d v) \<noteq> ''PASS''" "tv_checks (downgrade r d v) = tv_checks v"
  by (simp_all add: downgrade_def)

lemma membership_noted:
  "dget (tv_checks (membership_check worker v)) ''membership'' = JStr ''PASS'' \<longleftrightarrow>
    (\<exists>w. worker = Some w \<and> dget w ''membership_status'' = JStr ''ENROLLED'')"
  by (auto simp: membership_check_def split: option.splits)

lemma early_passes:
  "tv_disposition (early_verdict target worker context auth) = ''PASS'' \<longleftrightarrow>
    (\<exists>c. context = Some c \<and> dget c ''context_identity'' = dget target ''consumer_context_identity'')
    \<and> is_sha256_identity auth \<and> auth = dget target ''consumer_authorization_identity''
    \<and> (\<exists>w. worker = Some w \<and> dget w ''membership_status'' = JStr ''ENROLLED'')"
proof -
  have "tv_disposition (context_check context target start_verdict) = ''PASS'' \<longleftrightarrow>
      (\<exists>c. context = Some c \<and> dget c ''context_identity'' = dget target ''consumer_context_identity'')"
    by (auto simp: context_check_def start_verdict_def)
  moreover have "tv_disposition (authorization_check auth target v) = ''PASS'' \<longleftrightarrow>
      tv_disposition v = ''PASS'' \<and> is_sha256_identity auth \<and> auth = dget target ''consumer_authorization_identity''" for v
    by (auto simp: authorization_check_def)
  moreover have "tv_disposition (membership_check worker v) = ''PASS'' \<longleftrightarrow>
      tv_disposition v = ''PASS'' \<and> (\<exists>w. worker = Some w \<and> dget w ''membership_status'' = JStr ''ENROLLED'')" for v
    by (auto simp: membership_check_def split: option.splits)
  ultimately show ?thesis unfolding early_verdict_def by blast
qed

lemma age_within_seen:
  "target_instant stamp = Inr at \<Longrightarrow> age_within (map_option (\<lambda>us. evaluated - us) at) maximum \<longleftrightarrow> seen_within evaluated stamp maximum"
  by (auto simp: age_within_def seen_within_def split: option.splits)

lemma worker_facts_passes:
  assumes "worker_facts evaluated target worker v = Inr (v', age, runtime)"
    and "dget (tv_checks v) ''membership'' = JStr ''PASS'' \<longleftrightarrow> (\<exists>w. worker = Some w \<and> dget w ''membership_status'' = JStr ''ENROLLED'')"
    and "tv_disposition v = ''PASS'' \<longrightarrow> (\<exists>w. worker = Some w \<and> dget w ''membership_status'' = JStr ''ENROLLED'')"
  shows "tv_disposition v' = ''PASS'' \<longleftrightarrow> tv_disposition v = ''PASS'' \<and>
      (\<exists>w. worker = Some w \<and> dget w ''availability'' = JStr ''AVAILABLE'' \<and> authenticated_presence w
        \<and> seen_within evaluated (dget_default w ''last_seen'' (dget w ''last_observed_at'')) (dget target ''liveness_max_age_seconds''))"
proof (cases "\<exists>w. worker = Some w \<and> dget w ''membership_status'' = JStr ''ENROLLED''")
  case True
  then obtain w where w: "worker = Some w" by blast
  from True assms(2) have "dget (tv_checks v) ''membership'' = JStr ''PASS''" by simp
  with assms(1) w obtain at where at: "target_instant (dget_default w ''last_seen'' (dget w ''last_observed_at'')) = Inr at"
    and r: "v' = liveness_check (map_option (\<lambda>us. evaluated - us) at) target (presence_check w v)" "runtime = runtime_identity_of w"
    by (auto simp: worker_facts_def tryE_eq_Inr)
  have "tv_disposition (presence_check w u) = ''PASS'' \<longleftrightarrow>
      tv_disposition u = ''PASS'' \<and> dget w ''availability'' = JStr ''AVAILABLE'' \<and> authenticated_presence w" for u
    by (simp add: presence_check_def)
  moreover have "tv_disposition (liveness_check a target u) = ''PASS'' \<longleftrightarrow>
      tv_disposition u = ''PASS'' \<and> age_within a (dget target ''liveness_max_age_seconds'')" for a u
    by (simp add: liveness_check_def)
  ultimately show ?thesis using w r age_within_seen [OF at] by auto
next
  case False
  with assms(2) have "\<not> dget (tv_checks v) ''membership'' = JStr ''PASS''" by simp
  with assms(1) have "v' = v" by (auto simp: worker_facts_def split: option.splits)
  with False assms(3) show ?thesis by blast
qed

lemma worker_facts_runtime:
  assumes "worker_facts evaluated target (Some w) v = Inr (v', age, runtime)" "dget (tv_checks v) ''membership'' = JStr ''PASS''"
  shows "runtime = runtime_identity_of w"
  using assms by (auto simp: worker_facts_def tryE_eq_Inr)

lemma provenance_passes:
  assumes "provenance_check observation v = Inr v'"
  shows "tv_disposition v' = ''PASS'' \<longleftrightarrow> tv_disposition v = ''PASS'' \<and>
    (\<forall>m. observation = Some m \<longrightarrow> dget m ''observation_class'' \<in> JStr ` set TRUSTED_ADMISSION_CLASSES)"
proof (cases observation)
  case (Some m)
  from assms Some obtain trusted where t: "observation_admission_trusted m = Inr trusted"
    and v': "v' = (if trusted then note_check ''capability_provenance'' ''PASS'' v
       else (note_check ''capability_provenance'' ''FAIL'' v)\<lparr>tv_disposition := ''DENIED'', tv_reason := ''TARGET_CAPABILITY_UNVERIFIED''\<rparr>)"
    by (auto simp: provenance_check_def tryE_eq_Inr)
  have "trusted \<longleftrightarrow> observation_admission_trusted m = Inr True" using t by simp
  also have "\<dots> \<longleftrightarrow> dget m ''observation_class'' \<in> JStr ` set TRUSTED_ADMISSION_CLASSES"
    by (auto simp: observation_admission_trusted_def in_strset_eq_Inr_True dget_default_def dget_def DEFAULT_OBSERVATION_CLASS_def
        TRUSTED_ADMISSION_CLASSES_def split: option.splits)
  finally show ?thesis using v' Some by simp
qed (use assms in \<open>simp add: provenance_check_def\<close>)

lemma capability_check_passes:
  assumes "capability_check target fresh v = Inr v'"
  shows "tv_disposition v' = ''PASS'' \<longleftrightarrow> tv_disposition v = ''PASS'' \<and>
    (\<exists>m names. fresh = Some m \<and> capability_names m = Inr names
      \<and> set (strings_of (dget target ''required_capabilities'')) \<subseteq> set names
      \<and> (dget target ''tool_capability_identity'' = JNull \<or> dget target ''tool_capability_identity'' \<in> set (tool_identities m)))"
proof (cases fresh)
  case (Some m)
  with assms obtain names where n: "capability_names m = Inr names"
    and v': "v' = tool_check target m (required_check target names (note_check ''capability_freshness'' ''PASS'' v))"
    by (auto simp: capability_check_def tryE_eq_Inr)
  have "tv_disposition (required_check target names u) = ''PASS'' \<longleftrightarrow>
      tv_disposition u = ''PASS'' \<and> set (strings_of (dget target ''required_capabilities'')) \<subseteq> set names" for u
    by (simp add: required_check_def)
  moreover have "tv_disposition (tool_check target m u) = ''PASS'' \<longleftrightarrow> tv_disposition u = ''PASS'' \<and>
      (dget target ''tool_capability_identity'' = JNull \<or> dget target ''tool_capability_identity'' \<in> set (tool_identities m))" for u
    by (simp add: tool_check_def)
  ultimately show ?thesis using n v' Some by auto
qed (use assms in \<open>auto simp: capability_check_def\<close>)

lemma runtime_check_passes:
  "tv_disposition (runtime_check target runtime v) = ''PASS'' \<longleftrightarrow> tv_disposition v = ''PASS'' \<and>
    (dget target ''runtime_identity'' = JNull \<or> opt_str runtime = dget target ''runtime_identity'')"
  by (simp add: runtime_check_def)

lemma catch_validation_Some: "catch_validation r = Inr x \<Longrightarrow> x = Some a \<longleftrightarrow> r = Inr a"
  by (cases r) (auto simp: catch_validation_def split: fabric_error.splits)

lemma validate_observation_same: "validate_capability_observation v e = Inr m \<Longrightarrow> v = JObj m"
  by (cases v) (auto simp: validate_capability_observation_def tryE_eq_Inr)

lemma checked_observation_Some:
  assumes "checked_observation (target_to_dict t) observation = Inr obs"
  shows "obs = Some m \<longleftrightarrow> observation = Some m \<and> validate_capability_observation (JObj m) (Some (et_worker_identity t)) = Inr m"
proof (cases observation)
  case (Some o')
  with assms have "catch_validation (validate_capability_observation (JObj o') (Some (et_worker_identity t))) = Inr obs"
    by (simp add: checked_observation_def)
  from catch_validation_Some [OF this] Some show ?thesis by (auto dest: validate_observation_same)
qed (use assms in \<open>auto simp: checked_observation_def\<close>)

lemma strings_of_map [simp]: "strings_of (JList (map JStr xs)) = xs"
  by (induction xs) (simp_all add: strings_of_def)

lemma fresh_capabilities_Some:
  assumes "observation_age evaluated obs = Inr age"
  shows "fresh_capabilities target age obs = Some m \<longleftrightarrow> obs = Some m \<and> dget m ''availability'' = JStr ''AVAILABLE''
    \<and> seen_within evaluated (dget m ''captured_at'') (dget target ''capability_max_age_seconds'')"
proof (cases obs)
  case (Some o')
  with assms obtain at where at: "target_instant (dget o' ''captured_at'') = Inr at" and age: "age = map_option (\<lambda>us. evaluated - us) at"
    by (auto simp: observation_age_def tryE_eq_Inr)
  from Some show ?thesis by (auto simp: fresh_capabilities_def age age_within_seen [OF at])
qed (simp add: fresh_capabilities_def)

lemma target_admission_eq_Inr:
  "target_admission target v evaluated binding worker obs live age runtime = Inr m \<Longrightarrow> dget m ''disposition'' = JStr (tv_disposition v)"
  by (auto simp: target_admission_def split: if_splits)

lemma evaluation_InrE:
  assumes "evaluate_target_admission clock target worker observation context auth request now = Inr m"
  obtains t evaluated ctx v1 live runtime obs v2 age v3 auth_text where
    "validate_execution_target_reference target None None = Inr (target_to_dict t)" "target_ok t"
    "evaluation_instant clock now = Inr evaluated" "catch_validation (validate_consumer_context ValidationError context) = Inr ctx"
    "worker_facts evaluated (target_to_dict t) worker (early_verdict (target_to_dict t) worker ctx auth) = Inr (v1, live, runtime)"
    "checked_observation (target_to_dict t) observation = Inr obs" "provenance_check obs v1 = Inr v2"
    "observation_age evaluated obs = Inr age"
    "capability_check (target_to_dict t) (fresh_capabilities (target_to_dict t) age obs) v2 = Inr v3" "py_str auth = Inr auth_text"
    "target_admission (target_to_dict t) (runtime_check (target_to_dict t) runtime v3) evaluated
       (target_binding (target_to_dict t) request (case ctx of None \<Rightarrow> JStr ''INVALID'' | Some c \<Rightarrow> dget c ''context_identity'') auth_text)
       worker obs live age runtime = Inr m"
proof -
  from assms obtain checked where c: "validate_execution_target_reference target None None = Inr checked"
    unfolding evaluate_target_admission_def tryE_eq_Inr by blast
  then obtain t where t: "target_ok t" "checked = target_to_dict t" by (rule validate_target_InrE)
  note c = c [unfolded t(2)]
  from assms [unfolded evaluate_target_admission_def c tryE_Inr tryE_eq_Inr split_paired_Ex prod.case] show thesis
    by (elim exE conjE) (rule that [OF c t(1)])
qed

lemma evaluation_passes:
  assumes "evaluate_target_admission clock target worker observation context auth request now = Inr m"
    and t: "validate_execution_target_reference target None None = Inr (target_to_dict t)"
    and at: "evaluation_instant clock now = Inr evaluated"
  shows "dget m ''disposition'' = JStr ''PASS'' \<longleftrightarrow> admits_target evaluated t worker observation context auth"
  using assms(1)
proof (rule evaluation_InrE)
  fix t' evaluated' ctx v1 live runtime obs v2 age v3 auth_text
  assume t': "validate_execution_target_reference target None None = Inr (target_to_dict t')" "target_ok t'"
    and at': "evaluation_instant clock now = Inr evaluated'"
    and ctx: "catch_validation (validate_consumer_context ValidationError context) = Inr ctx"
    and wf: "worker_facts evaluated' (target_to_dict t') worker (early_verdict (target_to_dict t') worker ctx auth) = Inr (v1, live, runtime)"
    and obs: "checked_observation (target_to_dict t') observation = Inr obs" and pc: "provenance_check obs v1 = Inr v2"
    and age: "observation_age evaluated' obs = Inr age"
    and cc: "capability_check (target_to_dict t') (fresh_capabilities (target_to_dict t') age obs) v2 = Inr v3"
    and m: "target_admission (target_to_dict t') (runtime_check (target_to_dict t') runtime v3) evaluated'
       (target_binding (target_to_dict t') request (case ctx of None \<Rightarrow> JStr ''INVALID'' | Some c \<Rightarrow> dget c ''context_identity'') auth_text)
       worker obs live age runtime = Inr m"
  have same: "target_to_dict t' = target_to_dict t" "evaluated' = evaluated" using t t'(1) at at' by simp_all
  have sha: "is_sha256_identity (et_consumer_authorization_identity t)"
    using t'(2) same(1) target_fields(8) by (metis target_ok_def)
  let ?early = "early_verdict (target_to_dict t) worker ctx auth"
  have noted: "dget (tv_checks ?early) ''membership'' = JStr ''PASS'' \<longleftrightarrow>
      (\<exists>w. worker = Some w \<and> dget w ''membership_status'' = JStr ''ENROLLED'')"
    unfolding early_verdict_def by (rule membership_noted)
  have ctx_some: "ctx = Some c \<longleftrightarrow> (\<exists>c'. context_ok c' \<and> c = context_to_dict c' \<and> context = JObj c)" for c
    unfolding catch_validation_Some [OF ctx] by (rule context_validates)
  have cid: "dget (context_to_dict c) ''context_identity'' = JStr (context_identity c)" for c by (simp add: context_to_dict_def)
  let ?enrolled = "\<exists>w. worker = Some w \<and> dget w ''membership_status'' = JStr ''ENROLLED''"
  have context_facts: "(\<exists>c. ctx = Some c \<and> dget c ''context_identity'' = et_consumer_context_identity t) \<longleftrightarrow>
      (\<exists>c. context_ok c \<and> context = JObj (context_to_dict c) \<and> et_consumer_context_identity t = JStr (context_identity c))"
    unfolding ctx_some using cid by metis
  have early: "tv_disposition ?early = ''PASS'' \<longleftrightarrow>
      (\<exists>c. context_ok c \<and> context = JObj (context_to_dict c) \<and> et_consumer_context_identity t = JStr (context_identity c))
      \<and> auth = et_consumer_authorization_identity t \<and> ?enrolled"
    unfolding early_passes target_fields context_facts using sha by blast
  then have "tv_disposition ?early = ''PASS'' \<longrightarrow> ?enrolled" by blast
  note live = worker_facts_passes [OF wf [unfolded same] noted this, unfolded target_fields]
  note trusted = provenance_passes [OF pc]
  note required = capability_check_passes [OF cc, unfolded same target_fields strings_of_map]
  note fresh = fresh_capabilities_Some [OF age [unfolded same], of "target_to_dict t", unfolded target_fields
      checked_observation_Some [OF obs [unfolded same]]]
  have "dget m ''disposition'' = JStr ''PASS'' \<longleftrightarrow> tv_disposition (runtime_check (target_to_dict t) runtime v3) = ''PASS''"
    using target_admission_eq_Inr [OF m] by (simp add: same)
  also have "\<dots> \<longleftrightarrow> tv_disposition v3 = ''PASS'' \<and> (et_runtime_identity t = JNull \<or> opt_str runtime = et_runtime_identity t)"
    unfolding runtime_check_passes target_fields ..
  also have "\<dots> \<longleftrightarrow> tv_disposition v1 = ''PASS'' \<and> (\<exists>m. observation = Some m \<and> observation_admissible evaluated t m)
      \<and> (et_runtime_identity t = JNull \<or> opt_str runtime = et_runtime_identity t)"
    unfolding required trusted fresh observation_admissible_def checked_observation_Some [OF obs [unfolded same]] by blast
  also have "\<dots> \<longleftrightarrow> admits_target evaluated t worker observation context auth"
  proof (cases ?enrolled)
    case True
    then obtain w where w: "worker = Some w" "dget w ''membership_status'' = JStr ''ENROLLED''" by blast
    then have "dget (tv_checks ?early) ''membership'' = JStr ''PASS''" using noted by blast
    with wf [unfolded same] have "runtime = runtime_identity_of w" unfolding w(1) by (rule worker_facts_runtime)
    then show ?thesis using w unfolding live early admits_target_def worker_admissible_def by auto
  next
    case False
    then show ?thesis unfolding live early admits_target_def worker_admissible_def by blast
  qed
  finally show ?thesis .
qed

end
