(* ===== verification/Target_Evidence.thy ===== *)
theory Target_Evidence
  imports Target_Safety
begin

text \<open>
  The records around an execution on an exact target: the admission that the evaluation returns validates, and evidence can
  be built only from an admission that passed, for its worker, its job and its bundle.
\<close>

section \<open>The returned admission\<close>

lemma verified_identity_shape: "verify_identity m f \<Longrightarrow> is_sha256_identity (dget m f)"
  by (auto simp: verify_identity_def sha256_identity_shape split: json.splits)

lemma sha256_identity_str: "is_sha256_identity v \<Longrightarrow> \<exists>s. v = JStr s"
  by (cases v) simp_all

lemma keys_are_attach:
  "fst ` set kvs \<union> {k} = set ks \<Longrightarrow> keys_are (attach_identity (dict_of kvs) k) ks"
proof -
  assume k: "fst ` set kvs \<union> {k} = set ks"
  have "fset (fmdom (attach_identity (dict_of kvs) k)) = fst ` set kvs \<union> {k}"
    by (simp add: fset_of_list.rep_eq)
  also have "\<dots> = fset (fset_of_list ks)" unfolding k by (simp add: fset_of_list.rep_eq)
  finally show ?thesis unfolding keys_are_def by (simp only: fset_inject)
qed

lemma binding_keys: "keys_are (target_binding target request context_id auth) target_binding_fields"
  unfolding target_binding_def by (rule keys_are_attach) (auto simp: target_binding_fields_def)

lemma binding_fields [simp]:
  "dget (target_binding target request context_id auth) ''target_identity'' = dget target ''target_identity''"
  "dget (target_binding target request context_id auth) ''request_identity'' = JStr (tr_request_identity request)"
  "dget (target_binding target request context_id auth) ''execution_request_identity'' = JStr (tr_execution_request_identity request)"
  "dget (target_binding target request context_id auth) ''authenticated_client_identity'' = JStr (tr_authenticated_client_identity request)"
  "dget (target_binding target request context_id auth) ''client_label'' = JStr (tr_client_label request)"
  "dget (target_binding target request context_id auth) ''consumer_context_identity'' = context_id"
  "dget (target_binding target request context_id auth) ''consumer_authorization_identity'' = JStr auth"
  "dget (target_binding target request context_id auth) ''job_identity'' = JStr (tr_job_identity request)"
  "dget (target_binding target request context_id auth) ''bundle_identity'' = JStr (tr_bundle_identity request)"
  "dget (target_binding target request context_id auth) ''authorization_interpretation'' = JStr TARGET_AUTHORIZATION_INTERPRETATION"
  "verify_identity (target_binding target request context_id auth) ''request_binding_identity''"
  by (simp_all add: target_binding_def)

lemma admission_of:
  assumes "target_admission target v evaluated binding worker obs live age runtime = Inr m"
  shows "keys_are m target_admission_fields" "verify_identity m ''target_admission_identity''"
    "map_of TARGET_ADMISSION_DISPOSITIONS (tv_reason v) = Some (tv_disposition v)"
    "dget m ''schema_version'' = JStr TARGET_ADMISSION_SCHEMA" "dget m ''target_identity'' = dget target ''target_identity''"
    "dget m ''target_reference'' = JObj target" "dget m ''worker_identity'' = dget target ''worker_identity''"
    "dget m ''disposition'' = JStr (tv_disposition v)" "dget m ''reason_code'' = JStr (tv_reason v)"
    "dget m ''evaluated_at'' = JStr (show_instant evaluated)" "dget m ''request_binding'' = JObj binding"
    "dget m ''membership_status'' = get_from worker ''membership_status''" "dget m ''availability'' = get_from worker ''availability''"
    "dget m ''capability_observation_identity'' = get_from obs ''capability_observation_identity''"
    "dget m ''observed_capability_identities'' = JList (case obs of None \<Rightarrow> [] | Some o' \<Rightarrow> map JStr (observed_identities o'))"
    "dget m ''observed_runtime_identity'' = opt_str runtime"
    "dget m ''authorization_interpretation'' = JStr TARGET_AUTHORIZATION_INTERPRETATION"
    "dget m ''claim_boundary'' = JStr TARGET_EXECUTION_CLAIM_BOUNDARY"
proof -
  from assms show "map_of TARGET_ADMISSION_DISPOSITIONS (tv_reason v) = Some (tv_disposition v)"
    by (simp add: target_admission_def split: if_splits)
  with assms obtain kvs where m: "m = attach_identity (dict_of kvs) ''target_admission_identity''"
    and kvs: "kvs = [(''schema_version'', JStr TARGET_ADMISSION_SCHEMA), (''target_identity'', dget target ''target_identity''),
         (''target_reference'', JObj target), (''worker_identity'', dget target ''worker_identity''),
         (''disposition'', JStr (tv_disposition v)), (''reason_code'', JStr (tv_reason v)),
         (''evaluated_at'', JStr (show_instant evaluated)), (''request_binding'', JObj binding),
         (''membership_status'', get_from worker ''membership_status''), (''availability'', get_from worker ''availability''),
         (''transport'', get_from worker ''transport''), (''session_id'', get_from worker ''session_id''),
         (''session_generation'', get_from worker ''session_generation''),
         (''liveness_observed_at'', (case worker of None \<Rightarrow> JNull | Some w \<Rightarrow> dget_default w ''last_seen'' (dget w ''last_observed_at''))),
         (''liveness_age_seconds'', age_json live),
         (''capability_observation_identity'', get_from obs ''capability_observation_identity''),
         (''capability_observed_at'', get_from obs ''captured_at''), (''capability_age_seconds'', age_json age),
         (''observed_capability_identities'',
            JList (case obs of None \<Rightarrow> [] | Some o' \<Rightarrow> map JStr (observed_identities o'))),
         (''observed_runtime_identity'', opt_str runtime), (''checks'', JObj (tv_checks v)),
         (''authorization_interpretation'', JStr TARGET_AUTHORIZATION_INTERPRETATION),
         (''claim_boundary'', JStr TARGET_EXECUTION_CLAIM_BOUNDARY)]"
    unfolding target_admission_def by (simp only: not_True_eq_False if_False sum.inject simp_thms)
  show "verify_identity m ''target_admission_identity''" unfolding m by (rule verify_attach)
  have "fst ` set kvs \<union> {''target_admission_identity''} = set target_admission_fields"
    unfolding kvs target_admission_fields_def by auto
  then show "keys_are m target_admission_fields" unfolding m by (rule keys_are_attach)
  show "dget m ''schema_version'' = JStr TARGET_ADMISSION_SCHEMA" "dget m ''target_identity'' = dget target ''target_identity''"
    "dget m ''target_reference'' = JObj target" "dget m ''worker_identity'' = dget target ''worker_identity''"
    "dget m ''disposition'' = JStr (tv_disposition v)" "dget m ''reason_code'' = JStr (tv_reason v)"
    "dget m ''evaluated_at'' = JStr (show_instant evaluated)" "dget m ''request_binding'' = JObj binding"
    "dget m ''membership_status'' = get_from worker ''membership_status''" "dget m ''availability'' = get_from worker ''availability''"
    "dget m ''capability_observation_identity'' = get_from obs ''capability_observation_identity''"
    "dget m ''observed_capability_identities'' = JList (case obs of None \<Rightarrow> [] | Some o' \<Rightarrow> map JStr (observed_identities o'))"
    "dget m ''observed_runtime_identity'' = opt_str runtime"
    "dget m ''authorization_interpretation'' = JStr TARGET_AUTHORIZATION_INTERPRETATION"
    "dget m ''claim_boundary'' = JStr TARGET_EXECUTION_CLAIM_BOUNDARY"
    unfolding m kvs by simp_all
qed

lemma observed_identities_sha:
  assumes "validate_capability_observation v e = Inr m"
  shows "list_all is_sha256_identity (map JStr (observed_identities m))" "is_sha256_identity (dget m ''capability_observation_identity'')"
proof -
  from assms have v: "v = JObj m" by (rule validate_observation_same)
  from assms have checks: "list_all (\<lambda>c. c = Inr ()) (capability_observation_checks m e)"
    by (auto simp: validate_capability_observation_def v tryE_eq_Inr all_checks_eq_Inr)
  then have id: "verify_identity m ''capability_observation_identity''"
    and entries: "\<exists>es. observation_entries (dget m ''availability'') (dget m ''capabilities'') = Inr es"
    by (simp_all add: capability_observation_checks_def result_simps)
  from id show "is_sha256_identity (dget m ''capability_observation_identity'')" by (rule verified_identity_shape)
  from entries obtain xs es where xs: "dget m ''capabilities'' = JList xs" "mapE validate_capability_entry xs = Inr es"
    by (auto simp: observation_entries_def tryE_eq_Inr split: json.splits if_splits)
  have "is_sha256_identity (dget d ''capability_identity'')" if "JObj d \<in> set xs" for d
    using mapE_set2 [OF xs(2) that]
    by (auto simp: validate_capability_entry_def tryE_eq_Inr split: if_splits dest: verified_identity_shape)
  then show "list_all is_sha256_identity (map JStr (observed_identities m))"
    by (auto simp: observed_identities_def entry_dicts_def xs(1) list_all_iff split: json.splits)
qed

definition request_ok :: "target_request \<Rightarrow> bool" where
  "request_ok r =
     (list_all (\<lambda>s. is_sha256_identity (JStr s))
        [tr_request_identity r, tr_execution_request_identity r, tr_authenticated_client_identity r, tr_job_identity r]
      \<and> matches_hash (tr_bundle_identity r) \<and> matches_identity (tr_client_label r))"

lemma disposition_of_reason_ok:
  assumes "map_of TARGET_ADMISSION_DISPOSITIONS r = Some d"
  shows "disposition_of_reason (JStr r) (JStr d) = Inr ()"
proof -
  from assms have "r \<in> set (map fst TARGET_ADMISSION_DISPOSITIONS)"
    by (metis domI dom_map_of_conv_image_fst set_map)
  with assms show ?thesis by (simp add: disposition_of_reason_def ensure_def)
qed

lemma target_instant_shown: "instant_ok us \<Longrightarrow> target_instant (JStr (show_instant us)) = Inr (Some us)"
  using stamp_text_ok(1) [of us] show_instant_reads_back [of us] by (simp add: target_instant_def instant_of_offset_def)

lemma evaluation_instant_ok:
  assumes "evaluation_instant clock now = Inr us" "instant_ok clock"
  shows "instant_ok us"
proof (cases "now = JNull")
  case False
  with assms(1) have "target_instant now = Inr (Some us)"
    by (auto simp: evaluation_instant_def tryE_eq_Inr split: option.splits)
  then obtain s where s: "now = JStr s" by (cases now) (simp_all add: target_instant_def)
  from \<open>target_instant now = _\<close> obtain p where "fromisoformat (replace_Z s) = Some p"
    by (cases "fromisoformat (replace_Z s)") (auto simp: target_instant_def s split: if_splits)
  with \<open>target_instant now = _\<close> show ?thesis
    by (cases p; cases "snd p") (auto simp: target_instant_def s tryE_eq_Inr instant_of_offset_eq_Inr split: if_splits)
qed (use assms in \<open>simp add: evaluation_instant_def\<close>)

lemma worker_facts_runtime_of:
  "worker_facts evaluated target worker v = Inr (v', age, runtime) \<Longrightarrow>
    runtime = None \<or> (\<exists>w. worker = Some w \<and> runtime = runtime_identity_of w)"
  by (auto simp: worker_facts_def tryE_eq_Inr split: option.splits if_splits)

lemma evaluated_admission_valid:
  assumes eval: "evaluate_target_admission clock target worker observation context auth request now = Inr m"
    and clock: "instant_ok clock" and request: "request_ok request"
    and worker_id: "\<And>w. worker = Some w \<Longrightarrow> sha_or_null (opt_str (runtime_identity_of w))"
  shows "validate_target_admission (JObj m) = Inr m"
  using eval
proof (rule evaluation_InrE)
  fix t evaluated ctx v1 live runtime obs v2 age v3 auth_text
  assume t: "validate_execution_target_reference target None None = Inr (target_to_dict t)" "target_ok t"
    and at: "evaluation_instant clock now = Inr evaluated"
    and ctx: "catch_validation (validate_consumer_context ValidationError context) = Inr ctx"
    and wf: "worker_facts evaluated (target_to_dict t) worker (early_verdict (target_to_dict t) worker ctx auth) = Inr (v1, live, runtime)"
    and obs: "checked_observation (target_to_dict t) observation = Inr obs"
    and auth_text: "py_str auth = Inr auth_text"
    and m: "target_admission (target_to_dict t) (runtime_check (target_to_dict t) runtime v3) evaluated
       (target_binding (target_to_dict t) request (case ctx of None \<Rightarrow> JStr ''INVALID'' | Some c \<Rightarrow> dget c ''context_identity'') auth_text)
       worker obs live age runtime = Inr m"
  let ?b = "target_binding (target_to_dict t) request
    (case ctx of None \<Rightarrow> JStr ''INVALID'' | Some c \<Rightarrow> dget c ''context_identity'') auth_text"
  note a = admission_of [OF m]
  have header: "all_checks (admission_header_checks m) = Inr ()"
    unfolding admission_header_checks_def all_checks_eq_Inr list.pred_inject ensure_eq_Inr a(4,8,9,17,18)
    using a(1-3) disposition_of_reason_ok by simp
  have binding: "request_binding_of m = Inr ?b"
    unfolding request_binding_of_def a(11) json.case using binding_keys by simp
  have reference: "validate_execution_target_reference (dget m ''target_reference'') None None = Inr (target_to_dict t)"
    unfolding a(6) using target_validates [OF t(2)] by (simp add: matches_expected_def)
  have passing: "dget m ''disposition'' = JStr ''PASS'' \<Longrightarrow> dget ?b ''consumer_context_identity'' = et_consumer_context_identity t
      \<and> JStr auth_text = et_consumer_authorization_identity t
      \<and> get_from worker ''membership_status'' = JStr ''ENROLLED'' \<and> get_from worker ''availability'' = JStr ''AVAILABLE''"
  proof -
    assume "dget m ''disposition'' = JStr ''PASS''"
    then have "admits_target evaluated t worker observation context auth"
      using evaluation_passes [OF eval t(1) at] by simp
    then obtain c w where c: "context_ok c" "context = JObj (context_to_dict c)" "et_consumer_context_identity t = JStr (context_identity c)"
      and "auth = et_consumer_authorization_identity t" and w: "worker = Some w" "worker_admissible evaluated t w"
      unfolding admits_target_def by blast
    moreover have "ctx = Some (context_to_dict c)"
      using catch_validation_Some [OF ctx, of "context_to_dict c"] context_validates c by blast
    moreover obtain s where s: "auth = JStr s"
      using t(2) \<open>auth = _\<close> sha256_identity_str by (auto simp: target_ok_def)
    moreover have "JStr auth_text = auth" using auth_text by (simp add: s)
    ultimately show ?thesis by (simp add: worker_admissible_def get_from_def context_to_dict_def)
  qed
  have runtime: "sha_or_null (opt_str runtime)"
    using worker_facts_runtime_of [OF wf] worker_id by (auto simp: sha_or_null_def)
  have observed: "sha_or_null (get_from obs ''capability_observation_identity'')
      \<and> list_all is_sha256_identity (case obs of None \<Rightarrow> [] | Some o' \<Rightarrow> map JStr (observed_identities o'))"
  proof (cases obs)
    case (Some o')
    then have "validate_capability_observation (JObj o') (Some (et_worker_identity t)) = Inr o'"
      using checked_observation_Some [OF obs] by blast
    from observed_identities_sha [OF this] Some show ?thesis by (simp add: get_from_def sha_or_null_def)
  qed (simp add: get_from_def sha_or_null_def)
  have "all_checks (binding_checks m ?b (target_to_dict t)) = Inr ()"
    unfolding binding_checks_def all_checks_eq_Inr list.pred_inject ensure_eq_Inr a binding_fields target_fields json.case
    using passing [unfolded a binding_fields] request runtime observed target_instant_shown [OF evaluation_instant_ok [OF at clock]]
    by (auto simp: request_ok_def str_matches_def ensure_def)
  then show ?thesis unfolding validate_target_admission_def by (simp add: header binding reference)
qed

section \<open>Evidence\<close>

lemma validate_admission_InrE:
  assumes "validate_target_admission (JObj a) = Inr m"
  obtains b t where "m = a" "target_ok t" "request_binding_of a = Inr b"
    "all_checks (admission_header_checks a) = Inr ()" "all_checks (binding_checks a b (target_to_dict t)) = Inr ()"
proof -
  from assms [unfolded validate_target_admission_def json.case tryE_eq_Inr]
  obtain b target where r: "all_checks (admission_header_checks a) = Inr ()" "request_binding_of a = Inr b"
    "validate_execution_target_reference (dget a ''target_reference'') None None = Inr target"
    "all_checks (binding_checks a b target) = Inr ()" "m = a" by auto
  from r(3) obtain t where "target_ok t" "target = target_to_dict t" by (rule validate_target_InrE)
  with r show thesis by (intro that) auto
qed

lemma validated_admission_facts:
  assumes "validate_target_admission (JObj a) = Inr m" "dget a ''disposition'' = JStr ''PASS''"
  obtains b t where "target_ok t" "request_binding_of a = Inr b" "verify_identity a ''target_admission_identity''"
    "verify_identity b ''request_binding_identity''"
    "dget a ''target_identity'' = JStr (target_identity t)" "dget a ''worker_identity'' = JStr (et_worker_identity t)"
    "dget a ''membership_status'' = JStr ''ENROLLED''" "dget a ''availability'' = JStr ''AVAILABLE''"
    "dget b ''consumer_context_identity'' = et_consumer_context_identity t"
    "dget b ''consumer_authorization_identity'' = et_consumer_authorization_identity t"
    "list_all (\<lambda>k. is_sha256_identity (dget b k))
       [''request_identity'', ''execution_request_identity'', ''authenticated_client_identity'', ''job_identity'']"
    "str_matches matches_hash (dget b ''bundle_identity'')" "str_matches matches_identity (dget b ''client_label'')"
    "list_all (\<lambda>k. sha_or_null (dget a k)) [''capability_observation_identity'', ''observed_runtime_identity'']"
proof -
  from assms(1) obtain b t where t: "target_ok t" and b: "request_binding_of a = Inr b"
    and h: "all_checks (admission_header_checks a) = Inr ()" and c: "all_checks (binding_checks a b (target_to_dict t)) = Inr ()"
    by (rule validate_admission_InrE)
  from b have vb: "verify_identity b ''request_binding_identity''"
    by (auto simp: request_binding_of_def split: json.splits if_splits)
  from h have va: "verify_identity a ''target_admission_identity''"
    unfolding admission_header_checks_def all_checks_eq_Inr list.pred_inject ensure_eq_Inr by blast
  note c = c [unfolded binding_checks_def all_checks_eq_Inr list.pred_inject(2) ensure_eq_Inr target_fields]
  show thesis
    by (rule that [OF t b va vb]) (use c assms(2) in \<open>simp_all\<close>)
qed

lemma build_evidence_InrE:
  assumes "build_target_execution_evidence a r = Inr e"
  obtains m b where "validate_target_admission (JObj a) = Inr m" "m = a" "dget a ''disposition'' = JStr ''PASS''"
    "dget r ''worker_identity'' = dget a ''worker_identity''" "request_binding_of a = Inr b"
    "dget r ''job_identity'' = dget b ''job_identity''" "dget r ''bundle_identity'' = dget b ''bundle_identity''"
    "in_strset (dget r ''disposition'') [''EXECUTED'', ''DUPLICATE_IDEMPOTENT''] = Inr True"
    "e = attach_identity (target_evidence_payload a b r) ''target_execution_evidence_identity''"
proof -
  from assms obtain m where m: "validate_target_admission (JObj a) = Inr m"
    unfolding build_target_execution_evidence_def tryE_eq_Inr by blast
  then have "m = a" by (rule validate_admission_InrE)
  with assms [unfolded build_target_execution_evidence_def m tryE_Inr if_Inl_eq_Inr tryE_eq_Inr]
  obtain b executed where "\<not> dget a ''disposition'' \<noteq> JStr ''PASS''" "\<not> dget r ''worker_identity'' \<noteq> dget a ''worker_identity''"
    "request_binding_of a = Inr b" "\<not> dget r ''job_identity'' \<noteq> dget b ''job_identity''"
    "\<not> dget r ''bundle_identity'' \<noteq> dget b ''bundle_identity''"
    "in_strset (dget r ''disposition'') [''EXECUTED'', ''DUPLICATE_IDEMPOTENT''] = Inr executed" "\<not> \<not> executed"
    "Inr (attach_identity (target_evidence_payload a b r) ''target_execution_evidence_identity'') = (Inr e :: dict result)" by blast
  with m \<open>m = a\<close> show thesis by (intro that [of m b]) auto
qed

lemma evidence_keys: "keys_are (attach_identity (target_evidence_payload a b r) ''target_execution_evidence_identity'') target_evidence_fields"
  unfolding target_evidence_payload_def by (rule keys_are_attach) (auto simp: target_evidence_fields_def)

lemma evidence_fields [simp]:
  "dget (target_evidence_payload a b r) ''schema_version'' = JStr TARGET_EXECUTION_EVIDENCE_SCHEMA"
  "dget (target_evidence_payload a b r) ''target_identity'' = dget a ''target_identity''"
  "dget (target_evidence_payload a b r) ''target_admission_identity'' = dget a ''target_admission_identity''"
  "dget (target_evidence_payload a b r) ''request_binding_identity'' = dget b ''request_binding_identity''"
  "dget (target_evidence_payload a b r) ''request_identity'' = dget b ''request_identity''"
  "dget (target_evidence_payload a b r) ''execution_request_identity'' = dget b ''execution_request_identity''"
  "dget (target_evidence_payload a b r) ''authenticated_client_identity'' = dget b ''authenticated_client_identity''"
  "dget (target_evidence_payload a b r) ''client_label'' = dget b ''client_label''"
  "dget (target_evidence_payload a b r) ''worker_identity'' = dget r ''worker_identity''"
  "dget (target_evidence_payload a b r) ''capability_observation_identity'' = dget a ''capability_observation_identity''"
  "dget (target_evidence_payload a b r) ''observed_runtime_identity'' = dget a ''observed_runtime_identity''"
  "dget (target_evidence_payload a b r) ''consumer_context_identity'' = dget b ''consumer_context_identity''"
  "dget (target_evidence_payload a b r) ''consumer_authorization_identity'' = dget b ''consumer_authorization_identity''"
  "dget (target_evidence_payload a b r) ''authorization_interpretation'' = JStr TARGET_AUTHORIZATION_INTERPRETATION"
  "dget (target_evidence_payload a b r) ''bundle_identity'' = dget r ''bundle_identity''"
  "dget (target_evidence_payload a b r) ''job_identity'' = dget r ''job_identity''"
  "dget (target_evidence_payload a b r) ''record_identity'' = dget r ''record_identity''"
  "dget (target_evidence_payload a b r) ''receipt_identity'' = dget r ''receipt_identity''"
  "dget (target_evidence_payload a b r) ''disposition'' = dget r ''disposition''"
  "dget (target_evidence_payload a b r) ''claim_boundary'' = JStr TARGET_EXECUTION_CLAIM_BOUNDARY"
  by (simp_all add: target_evidence_payload_def)

lemma evidence_validates_iff:
  assumes "build_target_execution_evidence a r = Inr e"
  shows "validate_target_execution_evidence (JObj e) = Inr e \<longleftrightarrow>
    is_sha256_identity (dget r ''record_identity'') \<and> str_matches matches_hash (dget r ''receipt_identity'')"
  using assms
proof (rule build_evidence_InrE)
  fix m b
  assume m: "validate_target_admission (JObj a) = Inr m" and pass: "dget a ''disposition'' = JStr ''PASS''"
    and b: "request_binding_of a = Inr b" and r: "dget r ''job_identity'' = dget b ''job_identity''"
      "dget r ''bundle_identity'' = dget b ''bundle_identity''"
      "in_strset (dget r ''disposition'') [''EXECUTED'', ''DUPLICATE_IDEMPOTENT''] = Inr True"
    and e: "e = attach_identity (target_evidence_payload a b r) ''target_execution_evidence_identity''"
  have v: "validate_target_execution_evidence (JObj e) = Inr e \<longleftrightarrow> all_checks (target_evidence_checks e) = Inr ()"
    by (auto simp: validate_target_execution_evidence_def tryE_eq_Inr)
  have sha: "is_sha256_identity (JStr (target_identity t))" "is_sha256_identity (JStr (sha256_identity x))" for t x
    by (simp_all add: target_identity_def sha256_identity_shape)
  show ?thesis
  proof (rule validated_admission_facts [OF m pass])
    fix b' t
    assume b': "request_binding_of a = Inr b'" and f: "target_ok t" "verify_identity a ''target_admission_identity''"
      "verify_identity b' ''request_binding_identity''" "dget a ''target_identity'' = JStr (target_identity t)"
      "dget b' ''consumer_context_identity'' = et_consumer_context_identity t"
      "dget b' ''consumer_authorization_identity'' = et_consumer_authorization_identity t"
      "list_all (\<lambda>k. is_sha256_identity (dget b' k))
         [''request_identity'', ''execution_request_identity'', ''authenticated_client_identity'', ''job_identity'']"
      "str_matches matches_hash (dget b' ''bundle_identity'')" "str_matches matches_identity (dget b' ''client_label'')"
      "list_all (\<lambda>k. sha_or_null (dget a k)) [''capability_observation_identity'', ''observed_runtime_identity'']"
    from b b' have "b' = b" by simp
    note f = f [unfolded this]
    have t: "is_sha256_identity (et_consumer_context_identity t)" "is_sha256_identity (et_consumer_authorization_identity t)"
      using f(1) by (simp_all add: target_ok_def)
    have "all_checks (target_evidence_checks e) = Inr () \<longleftrightarrow>
        is_sha256_identity (dget r ''record_identity'') \<and> str_matches matches_hash (dget r ''receipt_identity'')"
      unfolding target_evidence_checks_def all_checks_eq_Inr list.pred_inject ensure_eq_Inr
      using f(4-10) t r verified_identity_shape [OF f(2)] verified_identity_shape [OF f(3)] evidence_keys [of a b r] sha
      by (simp add: e ensure_def)
    with v show ?thesis by simp
  qed
qed

end
