(* ===== verification/Capability_Example.thy ===== *)
theory Capability_Example
  imports Capability_Observation
begin

text \<open>
  Bounds on the length of a canonical encoding, by which a concrete observation is seen to be small enough, and that
  observation: one compiler, observed by its worker.
\<close>

section \<open>The length of an encoding\<close>

lemma length_utf8: "length (utf8 s) \<le> 2 * length s"
proof (induction s)
  case (Cons c s)
  have "length (utf8_char c) \<le> 2" by (simp add: utf8_char_def)
  with Cons show ?case by (simp add: utf8_def)
qed (simp add: utf8_def)

lemma length_json_string: "length (json_string s) \<le> 6 * length s + 2"
proof -
  have "length (json_escape c) \<le> 6" for c by (cases c rule: json_escape_cases) simp_all
  then have "length (concat (map json_escape s)) \<le> 6 * length s"
    by (induction s) (simp_all, metis add_mono mult_Suc_right)
  then show ?thesis by (simp add: json_string_def)
qed

lemma length_join_comma: "length (join_comma xs) \<le> sum_list (map (\<lambda>x. length x + 1) xs)"
  by (induction xs rule: join_comma.induct) simp_all

lemma sorted_list_of_dict:
  assumes "distinct (map fst kvs)"
  shows "distinct (sorted_list_of_fmap (dict_of kvs))" "set (sorted_list_of_fmap (dict_of kvs)) = set kvs"
proof -
  show "distinct (sorted_list_of_fmap (dict_of kvs))"
    by (simp add: sorted_list_of_fmap_def distinct_map inj_on_def sorted_list_of_fset.rep_eq)
  have "set (sorted_list_of_fmap (dict_of kvs)) = {(k, v). map_of kvs k = Some v}"
    by (auto simp: sorted_list_of_fmap_def sorted_list_of_fset.rep_eq fmlookup_of_list image_iff fset_of_list.rep_eq
        dom_map_of_conv_image_fst [symmetric] finite_dom_map_of)
  also have "\<dots> = set kvs" using assms by auto
  finally show "set (sorted_list_of_fmap (dict_of kvs)) = set kvs" .
qed

definition pair_size :: "string \<times> json \<Rightarrow> nat" where
  "pair_size p = 6 * length (fst p) + 4 + length (json_dumps (snd p))"

lemma length_json_dumps_dict:
  assumes "distinct (map fst kvs)"
  shows "length (json_dumps (JObj (dict_of kvs))) \<le> 2 + sum_list (map pair_size kvs)"
proof -
  have "length (dump_pair p) + 1 \<le> pair_size p" for p
    using length_json_string [of "fst p"] by (simp add: dump_pair_def pair_size_def)
  then have "sum_list (map (\<lambda>p. length (dump_pair p) + 1) xs) \<le> sum_list (map pair_size xs)" for xs
    by (intro sum_list_mono)
  then have "length (json_dumps (JObj (dict_of kvs))) \<le> 2 + sum_list (map pair_size (sorted_list_of_fmap (dict_of kvs)))"
    using length_join_comma [of "map dump_pair (sorted_list_of_fmap (dict_of kvs))"]
    by (simp add: json_dumps_JObj comp_def del: json_dumps.simps(7)) (metis add_leD2 le_trans)
  also have "sum_list (map pair_size (sorted_list_of_fmap (dict_of kvs))) = sum_list (map pair_size kvs)"
    using sorted_list_of_dict [OF assms] assms by (simp add: sum_list_distinct_conv_sum_set distinct_map)
  finally show ?thesis .
qed

lemma length_canonical: "length (canonical_json_bytes v) \<le> 2 * length (json_dumps v)"
  by (simp add: canonical_json_bytes_def length_utf8)

lemma attach_as_dict:
  assumes "k \<notin> fst ` set kvs"
  shows "attach_identity (dict_of kvs) k = dict_of ((k, JStr (sha256_identity (JObj (dict_of kvs)))) # kvs)"
proof -
  have "fmdrop k (dict_of kvs) = dict_of kvs"
    by (rule fmdrop_idle) (use assms in \<open>simp add: fset_of_list.rep_eq\<close>)
  then show ?thesis by (simp add: attach_identity_def identity_payload_def)
qed

lemma sha256_identity_length: "length (sha256_identity v) = 71"
  by (simp add: sha256_identity_def sha256_identity_bytes_def IDENTITY_PREFIX_def sha256_hex_length)

section \<open>A compiler\<close>

definition sample_tool :: dict where
  "sample_tool = capability_entry_of ''tool'' ''host'' ''gcc'' JNull JNull fmempty"

definition sample_observation :: dict where
  "sample_observation = attach_identity
     (capability_observation_payload ''worker-1'' (JStr ''AVAILABLE'') [sample_tool] ''2026-01-01T00:00:00Z'' ''probe'' JNull
       (JStr ''worker-observed'')) ''capability_observation_identity''"

lemma plain_samples:
  "plain_ok 32 ''tool''" "plain_ok 128 ''host''" "plain_ok 256 ''gcc''" "plain_ok 256 ''worker-1''" "plain_ok 256 ''probe''"
  "plain_ok 64 ''2026-01-01T00:00:00Z''"
  by (simp_all add: plain_ok_def is_control_def)

lemma sample_tool_built:
  "build_capability_entry (obj [(''kind'', JStr ''tool''), (''namespace'', JStr ''host''), (''name'', JStr ''gcc'')]) = Inr sample_tool"
proof -
  have "normalize_attributes (JObj fmempty) = Inr fmempty"
    by (simp add: normalize_attributes_def map_values_def dict_keys_def)
  then show ?thesis
    by (simp add: build_capability_entry_def capability_entry_inputs_def CAPABILITY_KINDS_def plain_samples optional_plain_text_def
        sample_tool_def)
qed

lemma sample_stamp: "capability_stamp (JStr ''2026-01-01T00:00:00Z'') = Inr ''2026-01-01T00:00:00Z''"
  by (simp add: capability_stamp_def plain_samples parse_examples instant_of_offset_def instant_range show_example)

lemma attached_size:
  assumes "distinct (k # map fst kvs)"
  shows "length (json_dumps (JObj (attach_identity (dict_of kvs) k))) \<le> 434 + 6 * length k + sum_list (map pair_size kvs)"
proof -
  let ?i = "sha256_identity (JObj (dict_of kvs))"
  have i: "length (json_dumps (JStr ?i)) \<le> 428"
    using length_json_string [of ?i] by (simp add: sha256_identity_length)
  have k: "k \<notin> fst ` set kvs" using assms by simp
  have "length (json_dumps (JObj (attach_identity (dict_of kvs) k))) \<le> 2 + sum_list (map pair_size ((k, JStr ?i) # kvs))"
    unfolding attach_as_dict [OF k] by (rule length_json_dumps_dict) (use assms in simp)
  with i show ?thesis by (simp add: pair_size_def)
qed

lemma pair_size_str: "pair_size (k, JStr s) \<le> 6 * length k + 6 * length s + 6"
  using length_json_string [of s] by (simp add: pair_size_def)

lemma sample_tool_size: "length (json_dumps (JObj sample_tool)) \<le> 1100"
  unfolding sample_tool_def capability_entry_of_def
  by (rule order_trans [OF attached_size])
    (use pair_size_str [of "''kind''" "''tool''"] pair_size_str [of "''namespace''" "''host''"] pair_size_str [of "''name''" "''gcc''"]
      in \<open>simp_all add: pair_size_def [of "(_, JNull)"] pair_size_def [of "(_, JObj fmempty)"] json_dumps_JObj sorted_list_of_fmap_def
        del: json_dumps.simps(7)\<close>)

lemma sample_observation_size: "length (canonical_json_bytes (JObj sample_observation)) \<le> MAX_CAPABILITY_OBSERVATION_BYTES"
proof -
  have "length (json_dumps (JObj sample_observation)) \<le> 9000"
    unfolding sample_observation_def capability_observation_payload_def
    by (rule order_trans [OF attached_size])
      (use pair_size_str [of "''schema_version''" CAPABILITY_OBSERVATION_SCHEMA] pair_size_str [of "''worker_identity''" "''worker-1''"]
        pair_size_str [of "''availability''" "''AVAILABLE''"] pair_size_str [of "''captured_at''" "''2026-01-01T00:00:00Z''"]
        pair_size_str [of "''observation_source''" "''probe''"] pair_size_str [of "''attestation''" "''NOT_ASSERTED''"]
        pair_size_str [of "''claim_boundary''" CAPABILITY_CLAIM_BOUNDARY] pair_size_str [of "''observation_class''" "''worker-observed''"]
        sample_tool_size
        in \<open>simp_all add: pair_size_def [of "(_, JNull)"] pair_size_def [of "(_, JList _)"] CAPABILITY_OBSERVATION_SCHEMA_def
          CAPABILITY_CLAIM_BOUNDARY_def del: json_dumps.simps(7)\<close>)
  then show ?thesis
    using length_canonical [of "JObj sample_observation"] by (simp add: MAX_CAPABILITY_OBSERVATION_BYTES_def del: json_dumps.simps(7))
qed

lemma sample_observation_built:
  "build_capability_observation clock (JStr ''worker-1'')
     [obj [(''kind'', JStr ''tool''), (''namespace'', JStr ''host''), (''name'', JStr ''gcc'')]] (JStr ''AVAILABLE'')
     (JStr ''2026-01-01T00:00:00Z'') (JStr ''probe'') JNull (JStr ''worker-observed'') = Inr sample_observation"
  using sample_observation_size sample_tool_built
  by (simp add: build_capability_observation_def plain_samples CAPABILITY_AVAILABILITY_def OBSERVATION_CLASSES_def
      MAX_CAPABILITY_ENTRIES_def sort_entries_def entry_identities_def sample_stamp optional_plain_text_def
      sample_observation_def [symmetric])

text \<open>
  An observation that is built validates unchanged, for the worker it names and for no other, although validation
  normalises, sorts and identifies everything again.
\<close>

theorem built_observation_validates:
  assumes "build_capability_observation clock worker capabilities availability captured_at source reason cls = Inr m"
  shows "validate_capability_observation (JObj m) expected = Inr m \<longleftrightarrow> matches_expected expected worker"
  by (rule built_observation_valid [OF assms])

theorem built_observation_validates_witness:
  "validate_capability_observation (JObj sample_observation) (Some ''worker-1'') = Inr sample_observation
   \<and> validate_capability_observation (JObj sample_observation) (Some ''worker-2'') \<noteq> Inr sample_observation"
  using built_observation_validates [OF sample_observation_built] by (simp add: matches_expected_def)

end
