(* ===== verification/Target_Properties.thy ===== *)
theory Target_Properties
  imports Target_Evidence Capability_Example
begin

text \<open>
  The properties of exact targets, and a target with its worker, its observation and its context on which they hold.
\<close>

section \<open>A target\<close>

definition sample_sha :: "char \<Rightarrow> string" where
  "sample_sha c = ''sha256:'' @ replicate 64 c"

definition sample_context :: consumer_context where
  "sample_context = \<lparr>cc_source_project = ''consumer'', cc_consumer_workload_identity = sample_sha CHR ''a'',
     cc_experiment_identity = JNull, cc_forge_workflow_identity = JNull, cc_provider_identity = JNull, cc_partition_identity = JNull\<rparr>"

definition sample_target :: execution_target where
  "sample_target = \<lparr>et_worker_identity = ''worker-1'', et_execution_class = ''bounded-argv-workload'',
     et_required_capabilities = [''tool:gcc''], et_tool_capability_identity = JNull, et_runtime_identity = JNull,
     et_consumer_context_identity = JStr (context_identity sample_context),
     et_consumer_authorization_identity = JStr (sample_sha CHR ''b''),
     et_liveness_max_age_seconds = JFloat False 3 1, et_capability_max_age_seconds = JFloat False 3 2\<rparr>"

definition sample_worker :: dict where
  "sample_worker = dict_of
     [(''membership_status'', JStr ''ENROLLED''), (''availability'', JStr ''AVAILABLE''), (''session_id'', JStr ''s1''),
      (''session_generation'', JInt 1), (''last_seen'', JStr ''2026-01-01T00:00:00Z'')]"

definition sample_request :: target_request where
  "sample_request = \<lparr>tr_request_identity = sample_sha CHR ''c'', tr_execution_request_identity = sample_sha CHR ''d'',
     tr_authenticated_client_identity = sample_sha CHR ''e'', tr_client_label = ''client'', tr_job_identity = sample_sha CHR ''f'',
     tr_bundle_identity = replicate 64 CHR ''0''\<rparr>"

lemma sample_sha_ok: "c \<in> set ''0123456789abcdef'' \<Longrightarrow> is_sha256_identity (JStr (sample_sha c))"
  by (auto simp: is_sha256_identity_def sample_sha_def IDENTITY_PREFIX_def startswith_def list_all_iff)

lemma sample_context_ok: "context_ok sample_context"
  by (simp add: context_ok_def sample_context_def text_ok_def sample_sha_ok sha_or_null_def)

lemma sample_target_ok: "target_ok sample_target"
  by (simp add: target_ok_def sample_target_def matches_identity_def is_alnum_def is_ascii_digit_def is_upper_def EXECUTION_CLASSES_def
      MAX_REQUIRED_CAPABILITIES_def matches_capability_name_def context_identity_def sha256_identity_shape sample_sha_ok sha_or_null_def
      age_ok_def num_le_def MAX_LIVENESS_AGE_SECONDS_def MAX_CAPABILITY_AGE_SECONDS_def)

lemma sample_request_ok: "request_ok sample_request"
  by (simp add: request_ok_def sample_request_def sample_sha_ok matches_hash_def matches_identity_def is_alnum_def is_ascii_digit_def
      is_upper_def list_all_iff)

lemma sample_seen: "target_instant (JStr ''2026-01-01T00:00:00Z'') = Inr (Some 1767225600000000)"
  by (simp add: target_instant_def parse_examples instant_of_offset_def instant_range)

lemma sample_age: "num_le (seconds_json 10000000) (JFloat False 3 1)" "num_le (seconds_json 10000000) (JFloat False 3 2)"
  by (simp_all add: seconds_json_def strip_zeros.simps num_le_def)

lemma sample_observation_valid: "validate_capability_observation (JObj sample_observation) (Some ''worker-1'') = Inr sample_observation"
  using built_observation_valid [OF sample_observation_built] by (simp add: matches_expected_def)

lemma sample_observation_fields:
  "fmlookup sample_observation ''observation_class'' = Some (JStr ''worker-observed'')"
  "dget sample_observation ''observation_class'' = JStr ''worker-observed''" "dget sample_observation ''availability'' = JStr ''AVAILABLE''"
  "dget sample_observation ''captured_at'' = JStr ''2026-01-01T00:00:00Z''"
  "capability_names sample_observation = Inr [''gcc'', ''tool:gcc'', ''host:gcc'']"
  by (simp_all add: sample_observation_def capability_observation_payload_def capability_names_def dget_default_present py_iter_def
      entry_names_def sample_tool_def capability_entry_of_def)

lemma sample_admitted:
  "admits_target 1767225610000000 sample_target (Some sample_worker) (Some sample_observation)
     (JObj (context_to_dict sample_context)) (JStr (sample_sha CHR ''b''))"
proof -
  have "worker_admissible 1767225610000000 sample_target sample_worker"
    by (simp add: worker_admissible_def sample_worker_def sample_target_def authenticated_presence_def seen_within_def sample_seen sample_age)
  moreover have "observation_admissible 1767225610000000 sample_target sample_observation"
    by (simp add: observation_admissible_def sample_observation_fields sample_target_def sample_observation_valid
        TRUSTED_ADMISSION_CLASSES_def seen_within_def sample_seen sample_age)
  ultimately show ?thesis
    using sample_context_ok by (auto simp: admits_target_def sample_target_def)
qed

definition consistent :: "target_verdict \<Rightarrow> bool" where
  "consistent v = (map_of TARGET_ADMISSION_DISPOSITIONS (tv_reason v) = Some (tv_disposition v))"

lemma consistent_steps [simp]:
  "consistent (note_check n r v) = consistent v"
  "consistent v \<Longrightarrow> map_of TARGET_ADMISSION_DISPOSITIONS r = Some d \<Longrightarrow> consistent (downgrade r d v)"
  by (simp_all add: consistent_def downgrade_def)

lemma consistent_early: "consistent (early_verdict target worker context auth)"
proof -
  have "consistent (context_check context target start_verdict)"
    by (simp add: context_check_def consistent_def start_verdict_def TARGET_ADMISSION_DISPOSITIONS_def)
  then have "consistent (authorization_check auth target (context_check context target start_verdict))"
    by (simp add: authorization_check_def TARGET_ADMISSION_DISPOSITIONS_def)
  then show ?thesis
    by (simp add: early_verdict_def membership_check_def TARGET_ADMISSION_DISPOSITIONS_def split: option.splits)
qed

lemma consistent_checks:
  assumes "consistent v"
  shows "consistent (presence_check w v)" "consistent (liveness_check age target v)" "consistent (required_check target names v)"
    "consistent (tool_check target m v)" "consistent (runtime_check target runtime v)"
  using assms
  by (simp_all add: presence_check_def liveness_check_def required_check_def tool_check_def runtime_check_def
      TARGET_ADMISSION_DISPOSITIONS_def)

lemma consistent_worker:
  assumes "worker_facts evaluated target worker v = Inr (v', age, runtime)" "consistent v"
  shows "consistent v'"
proof -
  from assms(1) have "v' = v \<or> (\<exists>w age. v' = liveness_check age target (presence_check w v))"
    unfolding worker_facts_def by (cases worker) (auto simp: tryE_eq_Inr split: if_splits)
  with assms(2) show ?thesis by (auto intro: consistent_checks)
qed

lemma consistent_provenance: "provenance_check observation v = Inr v' \<Longrightarrow> consistent v \<Longrightarrow> consistent v'"
proof -
  have "consistent (u\<lparr>tv_disposition := ''DENIED'', tv_reason := ''TARGET_CAPABILITY_UNVERIFIED''\<rparr>)" for u
    by (simp add: consistent_def TARGET_ADMISSION_DISPOSITIONS_def)
  then show "provenance_check observation v = Inr v' \<Longrightarrow> consistent v \<Longrightarrow> consistent v'"
    by (cases observation) (auto simp: provenance_check_def tryE_eq_Inr)
qed

lemma consistent_capability:
  assumes "capability_check target fresh v = Inr v'" "consistent v"
  shows "consistent v'"
proof (cases fresh)
  case None
  with assms show ?thesis by (auto simp: capability_check_def TARGET_ADMISSION_DISPOSITIONS_def)
next
  case (Some m)
  with assms(1) obtain names where "v' = tool_check target m (required_check target names (note_check ''capability_freshness'' ''PASS'' v))"
    by (auto simp: capability_check_def tryE_eq_Inr)
  with assms(2) show ?thesis by (simp add: consistent_checks)
qed

text \<open>The verdict is always one of the table, so that the evaluation returns whenever its inputs can be read.\<close>

lemma evaluation_returns:
  assumes "validate_execution_target_reference target None None = Inr checked" "evaluation_instant clock now = Inr evaluated"
    "catch_validation (validate_consumer_context ValidationError context) = Inr ctx"
    "worker_facts evaluated checked worker (early_verdict checked worker ctx auth) = Inr (v1, live, runtime)"
    "checked_observation checked observation = Inr obs" "provenance_check obs v1 = Inr v2" "observation_age evaluated obs = Inr age"
    "capability_check checked (fresh_capabilities checked age obs) v2 = Inr v3" "py_str auth = Inr auth_text"
  shows "\<exists>m. evaluate_target_admission clock target worker observation context auth request now = Inr m"
proof -
  have "consistent (runtime_check checked runtime v3)"
    using consistent_early consistent_worker [OF assms(4)] consistent_provenance [OF assms(6)] consistent_capability [OF assms(8)]
      consistent_checks(5) by blast
  then show ?thesis
    unfolding evaluate_target_admission_def assms(1,2,3,5,7,9) tryE_Inr assms(4) prod.case assms(6) assms(8)
    by (simp add: target_admission_def consistent_def)
qed

lemma sample_evaluates:
  "\<exists>m. evaluate_target_admission 1767225610000000 (JObj (target_to_dict sample_target)) (Some sample_worker) (Some sample_observation)
     (JObj (context_to_dict sample_context)) (JStr (sample_sha CHR ''b'')) sample_request JNull = Inr m"
proof -
  let ?t = "target_to_dict sample_target" and ?c = "context_to_dict sample_context" and ?auth = "JStr (sample_sha CHR ''b'')"
  let ?early = "early_verdict ?t (Some sample_worker) (Some ?c) ?auth"
  have t: "validate_execution_target_reference (JObj ?t) None None = Inr ?t"
    using target_validates [OF sample_target_ok] by (simp add: matches_expected_def)
  have "validate_consumer_context ValidationError (JObj ?c) = Inr ?c" unfolding context_validates using sample_context_ok by blast
  then have c: "catch_validation (validate_consumer_context ValidationError (JObj ?c)) = Inr (Some ?c)" by (simp add: catch_validation_def)
  have "dget sample_worker ''membership_status'' = JStr ''ENROLLED''" by (simp add: sample_worker_def)
  then have "dget (tv_checks ?early) ''membership'' = JStr ''PASS''" unfolding early_verdict_def membership_noted by simp
  then obtain v1 where w: "worker_facts 1767225610000000 ?t (Some sample_worker) ?early = Inr (v1, Some 10000000, runtime_identity_of sample_worker)"
    by (simp add: worker_facts_def) (simp add: sample_worker_def sample_seen)
  have o': "checked_observation ?t (Some sample_observation) = Inr (Some sample_observation)"
    by (simp add: checked_observation_def sample_target_def sample_observation_valid catch_validation_def)
  obtain v2 where p: "provenance_check (Some sample_observation) v1 = Inr v2"
    by (simp add: provenance_check_def observation_admission_trusted_def dget_default_def sample_observation_fields
        TRUSTED_ADMISSION_CLASSES_def)
  have a: "observation_age 1767225610000000 (Some sample_observation) = Inr (Some 10000000)"
    by (simp add: observation_age_def sample_observation_fields sample_seen)
  obtain v3 where k: "capability_check ?t (fresh_capabilities ?t (Some 10000000) (Some sample_observation)) v2 = Inr v3"
    by (cases "age_within (Some 10000000) (et_capability_max_age_seconds sample_target)")
      (simp_all add: fresh_capabilities_def capability_check_def sample_observation_fields)
  show ?thesis by (rule evaluation_returns [OF t _ c w o' p a k]) (simp_all add: evaluation_instant_def)
qed

definition sample_result :: dict where
  "sample_result = dict_of
     [(''worker_identity'', JStr ''worker-1''), (''job_identity'', JStr (sample_sha CHR ''f'')),
      (''bundle_identity'', JStr (replicate 64 CHR ''0'')), (''disposition'', JStr ''EXECUTED''),
      (''record_identity'', JStr (sample_sha CHR ''1'')), (''receipt_identity'', JStr (replicate 64 CHR ''2''))]"

lemma admission_binding:
  assumes "evaluate_target_admission clock target worker observation context auth request now = Inr m"
    and t: "validate_execution_target_reference target None None = Inr (target_to_dict t)"
  obtains b where "request_binding_of m = Inr b" "dget b ''job_identity'' = JStr (tr_job_identity request)"
    "dget b ''bundle_identity'' = JStr (tr_bundle_identity request)" "dget m ''worker_identity'' = JStr (et_worker_identity t)"
  using assms(1)
proof (rule evaluation_InrE)
  fix t' evaluated ctx v1 live runtime obs v2 age v3 auth_text
  let ?b = "target_binding (target_to_dict t') request
    (case ctx of None \<Rightarrow> JStr ''INVALID'' | Some c \<Rightarrow> dget c ''context_identity'') auth_text"
  assume t': "validate_execution_target_reference target None None = Inr (target_to_dict t')"
    and m: "target_admission (target_to_dict t') (runtime_check (target_to_dict t') runtime v3) evaluated ?b worker obs live age runtime = Inr m"
  note a = admission_of [OF m]
  from t t' have "target_to_dict t' = target_to_dict t" by simp
  then have "dget m ''worker_identity'' = JStr (et_worker_identity t)" unfolding a(7) by (simp only: target_fields)
  moreover have "request_binding_of m = Inr ?b"
    unfolding request_binding_of_def a(11) json.case using binding_keys by simp
  ultimately show thesis by (intro that [of ?b]) simp_all
qed

section \<open>Properties\<close>

text \<open>
  C20: An exact target is admitted exactly when the consumer context and the authorization are those it names, its worker is
  enrolled, available, authenticated and was seen recently under the required runtime, and a trusted, recent observation of
  that worker holds every required capability and the required tool.
\<close>

theorem target_admitted_exactly_when_admissible:
  assumes "evaluate_target_admission clock target worker observation context auth request now = Inr m"
    and "validate_execution_target_reference target None None = Inr (target_to_dict t)"
    and "evaluation_instant clock now = Inr evaluated"
  shows "dget m ''disposition'' = JStr ''PASS'' \<longleftrightarrow> admits_target evaluated t worker observation context auth"
  by (rule evaluation_passes [OF assms])

lemma sample_reference: "validate_execution_target_reference (JObj (target_to_dict sample_target)) None None = Inr (target_to_dict sample_target)"
  using target_validates [OF sample_target_ok] by (simp add: matches_expected_def)

theorem target_admitted_exactly_when_admissible_witness:
  "\<exists>m. evaluate_target_admission 1767225610000000 (JObj (target_to_dict sample_target)) (Some sample_worker) (Some sample_observation)
     (JObj (context_to_dict sample_context)) (JStr (sample_sha CHR ''b'')) sample_request JNull = Inr m
     \<and> dget m ''disposition'' = JStr ''PASS''"
  using sample_evaluates target_admitted_exactly_when_admissible [OF _ sample_reference, of 1767225610000000 "Some sample_worker"
      "Some sample_observation" "JObj (context_to_dict sample_context)" "JStr (sample_sha CHR ''b'')" sample_request JNull _ 1767225610000000]
    sample_admitted by (auto simp: evaluation_instant_def)


lemma sample_clock: "instant_ok 1767225610000000"
  by (simp add: instant_range)

lemma sample_runtime: "sha_or_null (opt_str (runtime_identity_of sample_worker))"
  by (simp add: runtime_identity_of_def sample_worker_def sha_or_null_def)


text \<open>
  C22: Evidence of an execution on an exact target is built only for an evaluation that found the target admissible, and only from a
  result of the same worker, job and bundle that was executed; what is built validates exactly if the result carries the
  identities of its record and its receipt.
\<close>

theorem evidence_of_admitted_target:
  assumes "evaluate_target_admission clock target worker observation context auth request now = Inr m"
    and "validate_execution_target_reference target None None = Inr (target_to_dict t)"
    and "evaluation_instant clock now = Inr evaluated"
    and "build_target_execution_evidence m r = Inr e"
  shows "admits_target evaluated t worker observation context auth
    \<and> dget r ''worker_identity'' = JStr (et_worker_identity t) \<and> dget r ''job_identity'' = JStr (tr_job_identity request)
    \<and> dget r ''bundle_identity'' = JStr (tr_bundle_identity request)
    \<and> dget r ''disposition'' \<in> {JStr ''EXECUTED'', JStr ''DUPLICATE_IDEMPOTENT''}
    \<and> (validate_target_execution_evidence (JObj e) = Inr e \<longleftrightarrow>
         is_sha256_identity (dget r ''record_identity'') \<and> str_matches matches_hash (dget r ''receipt_identity''))"
proof -
  from assms(1,2) obtain b where b: "request_binding_of m = Inr b" "dget b ''job_identity'' = JStr (tr_job_identity request)"
    "dget b ''bundle_identity'' = JStr (tr_bundle_identity request)" "dget m ''worker_identity'' = JStr (et_worker_identity t)"
    by (rule admission_binding)
  from assms(4) obtain b' where "dget m ''disposition'' = JStr ''PASS''" "dget r ''worker_identity'' = dget m ''worker_identity''"
    "request_binding_of m = Inr b'" "dget r ''job_identity'' = dget b' ''job_identity''" "dget r ''bundle_identity'' = dget b' ''bundle_identity''"
    "in_strset (dget r ''disposition'') [''EXECUTED'', ''DUPLICATE_IDEMPOTENT''] = Inr True"
    by (rule build_evidence_InrE)
  then show ?thesis
    using b evaluation_passes [OF assms(1-3)] evidence_validates_iff [OF assms(4)] by (auto simp: in_strset_eq_Inr_True)
qed

theorem evidence_of_admitted_target_witness:
  "\<exists>e. validate_target_execution_evidence (JObj e) = Inr e \<and> dget e ''worker_identity'' = JStr ''worker-1''"
proof -
  from sample_evaluates obtain m where m: "evaluate_target_admission 1767225610000000 (JObj (target_to_dict sample_target))
     (Some sample_worker) (Some sample_observation) (JObj (context_to_dict sample_context)) (JStr (sample_sha CHR ''b''))
     sample_request JNull = Inr m" by blast
  have at: "evaluation_instant 1767225610000000 JNull = Inr 1767225610000000" by (simp add: evaluation_instant_def)
  from m sample_reference obtain b where b: "request_binding_of m = Inr b" "dget b ''job_identity'' = JStr (tr_job_identity sample_request)"
    "dget b ''bundle_identity'' = JStr (tr_bundle_identity sample_request)" "dget m ''worker_identity'' = JStr (et_worker_identity sample_target)"
    by (rule admission_binding)
  have valid: "validate_target_admission (JObj m) = Inr m"
    using evaluated_admission_valid [OF m sample_clock sample_request_ok] sample_runtime by simp
  let ?e = "attach_identity (target_evidence_payload m b sample_result) ''target_execution_evidence_identity''"
  have e: "build_target_execution_evidence m sample_result = Inr ?e"
    using valid b evaluation_passes [OF m sample_reference at] sample_admitted
    by (simp add: build_target_execution_evidence_def) (simp add: sample_result_def sample_target_def sample_request_def)
  have "dget ?e ''worker_identity'' = JStr ''worker-1''" by (simp add: sample_result_def)
  moreover have "is_sha256_identity (dget sample_result ''record_identity'') \<and> str_matches matches_hash (dget sample_result ''receipt_identity'')"
    by (simp add: sample_result_def sample_sha_ok str_matches_def matches_hash_def list_all_iff)
  ultimately show ?thesis
    using evidence_of_admitted_target [OF m sample_reference at e] by blast
qed

end
