(* ===== verification/Inventory.thy ===== *)
theory Inventory
  imports Calendar Challenges Runtime_Observation
begin

text \<open>
  The inventory record of \<^verbatim>\<open>src/src/mncs_fabric/inventory.py\<close>: what a worker observed of its host, built field by field and
  validated by building it again, and the look-up of a tool, a runtime or a service. A field that is returned unchanged by
  its check is checked here without rebuilding it. The probes that collect the facts read the host and are not modelled.
  Shown here: what is built validates unchanged.
\<close>

section \<open>Constants\<close>

definition INVENTORY_SCHEMA :: string where "INVENTORY_SCHEMA = ''mncs-fabric.worker-inventory.v0.1''"

definition INVENTORY_CLAIM_BOUNDARY :: string where
  "INVENTORY_CLAIM_BOUNDARY =
     ''authenticated worker-observed inventory; not attestation, honesty, continuous availability, semantic suitability, or conformance''"

definition MAX_INVENTORY_BYTES :: nat where "MAX_INVENTORY_BYTES = 256 * 1024"

definition MAX_TOOLS :: nat where "MAX_TOOLS = 64"

definition MAX_RUNTIMES :: nat where "MAX_RUNTIMES = 16"

definition MAX_RUNTIME_MODELS :: nat where "MAX_RUNTIME_MODELS = 64"

definition MAX_REPOS :: nat where "MAX_REPOS = 32"

definition MAX_SERVICES :: nat where "MAX_SERVICES = 32"

definition MAX_CREDENTIALS :: nat where "MAX_CREDENTIALS = 16"

definition MAX_ACCELERATORS :: nat where "MAX_ACCELERATORS = 16"

definition UPDATE_CLASSES :: "string list" where "UPDATE_CLASSES = [''A'', ''B'', ''C'', ''D'', ''E'']"

definition SERVICE_MANAGERS :: "string list" where
  "SERVICE_MANAGERS =
     [''systemd-system'', ''systemd-user'', ''windows-service'', ''windows-scheduled-task'', ''process'', ''supervisor'', ''unknown'',
      ''absent'']"

definition INSTALL_TYPES :: "string list" where
  "INSTALL_TYPES = [''package'', ''pip'', ''cargo'', ''binary'', ''repository'', ''windows-package'', ''unknown'', ''absent'']"

definition PRESSURE :: "string list" where "PRESSURE = [''ok'', ''elevated'', ''critical'', ''unknown'']"

section \<open>Python conversions\<close>

text \<open>\<^verbatim>\<open>len(v)\<close>\<close>

definition py_len :: "json \<Rightarrow> nat result" where
  "py_len v =
     (case v of
        JStr s \<Rightarrow> Inr (length s)
      | JList xs \<Rightarrow> Inr (length xs)
      | JObj m \<Rightarrow> Inr (length (dict_keys m))
      | _ \<Rightarrow> Inl PyTypeError)"

text \<open>
  \<^verbatim>\<open>dict(v)\<close>: a dict is copied, the items of a collection must be pairs. \<open>None\<close> is a dict with a key that is not a text.
\<close>

definition dict_item :: "json \<Rightarrow> dict option \<Rightarrow> dict option result" where
  "dict_item item acc =
     tryE (py_iter item) (\<lambda>pair.
       case pair of
         [k, x] \<Rightarrow>
           if \<not> hashable k then Inl PyTypeError
           else Inr (case (k, acc) of (JStr s, Some m) \<Rightarrow> Some (fmupd s x m) | _ \<Rightarrow> None)
       | _ \<Rightarrow> Inl PyValueError)"

definition dict_of_value :: "json \<Rightarrow> dict option result" where
  "dict_of_value v = (case v of JObj m \<Rightarrow> Inr (Some m) | _ \<Rightarrow> tryE (py_iter v) (\<lambda>items. foldE dict_item items (Some fmempty)))"

text \<open>
  The shortest decimal that reads back as the float nearest to \<open>n\<close>: the digits of its value, rounded at the highest
  position at which they still read back as it.
\<close>

definition round_at :: "nat \<Rightarrow> nat \<Rightarrow> nat" where
  "round_at v e = (2 * v + 10 ^ e) div (2 * 10 ^ e)"

fun shortest_from :: "nat \<Rightarrow> nat \<Rightarrow> nat \<times> nat" where
  "shortest_from v e =
     (if e = 0 \<or> round_double (round_at v e * 10 ^ e) = v then (round_at v e, e) else shortest_from v (e - 1))"

declare shortest_from.simps [simp del]

definition float_of_int :: "int \<Rightarrow> json result" where
  "float_of_int n =
     (if 2 ^ 1024 - 2 ^ 970 \<le> \<bar>n\<bar> then Inl PyOverflowError
      else if n = 0 then Inr (JFloat False 0 0)
      else
        (let v = round_double (nat \<bar>n\<bar>) in
         case shortest_from v (length (show_nat v)) of (m, e) \<Rightarrow> Inr (JFloat (n < 0) m (int e))))"

section \<open>Field checks\<close>

definition inventory_stamp :: "string \<Rightarrow> json \<Rightarrow> string result" where
  "inventory_stamp field v =
     tryE (text_field field 64 v) (\<lambda>raw.
       case fromisoformat (replace_Z raw) of
         None \<Rightarrow> Inl (ValidationError (field @ '' must be an RFC 3339 timestamp''))
       | Some (local', None) \<Rightarrow> Inl (ValidationError (field @ '' must include a timezone''))
       | Some (local', Some off) \<Rightarrow> tryE (instant_of_offset (local', off)) (\<lambda>us. Inr (show_instant us)))"

definition check_nonnegative_or_null :: "string \<Rightarrow> json \<Rightarrow> unit result" where
  "check_nonnegative_or_null field v = ensure (v = JNull \<or> is_nonnegative_int v) (field @ '' must be a non-negative integer or null'')"

definition check_bool :: "string \<Rightarrow> json \<Rightarrow> unit result" where
  "check_bool field v = ensure (is_bool v) (field @ '' must be a boolean'')"

definition check_member :: "string \<Rightarrow> string list \<Rightarrow> json \<Rightarrow> unit result" where
  "check_member msg options v = tryE (in_strset v options) (\<lambda>known. ensure known msg)"

text \<open>A dict with exactly the given keys whose checks pass, returned as it is.\<close>

definition checked_record :: "string \<Rightarrow> string list \<Rightarrow> (dict \<Rightarrow> unit result list) \<Rightarrow> dict option \<Rightarrow> json result" where
  "checked_record msg ks checks d =
     (case d of
        None \<Rightarrow> Inl (ValidationError msg)
      | Some m \<Rightarrow>
          if \<not> keys_are m ks then Inl (ValidationError msg) else tryE (all_checks (checks m)) (\<lambda>_. Inr (JObj m)))"

definition dict_value :: "json \<Rightarrow> dict option" where
  "dict_value v = (case v of JObj m \<Rightarrow> Some m | _ \<Rightarrow> None)"

text \<open>A bounded list whose items all pass.\<close>

definition check_items :: "string \<Rightarrow> nat \<Rightarrow> json \<Rightarrow> unit result" where
  "check_items msg maximum v = ensure (case v of JList xs \<Rightarrow> length xs \<le> maximum | _ \<Rightarrow> False) msg"

definition check_each :: "(json \<Rightarrow> json result) \<Rightarrow> json \<Rightarrow> unit result" where
  "check_each f v = (case v of JList xs \<Rightarrow> tryE (mapE f xs) (\<lambda>_. Inr ()) | _ \<Rightarrow> Inr ())"

section \<open>The parts of an inventory\<close>

definition validate_tool :: "dict option \<Rightarrow> json result" where
  "validate_tool = checked_record ''inventory tool fields are invalid'' [''name'', ''present'', ''path'', ''version'', ''detail'']
     (\<lambda>m. [check_text ''tools.name'' 64 (dget m ''name''), check_bool ''tools.present'' (dget m ''present''),
           check_optional_text ''tools.path'' 512 (dget m ''path''), check_optional_text ''tools.version'' 256 (dget m ''version''),
           check_optional_text ''tools.detail'' 256 (dget m ''detail'')])"

definition validate_model :: "dict option \<Rightarrow> json result" where
  "validate_model = checked_record ''inventory model fields are invalid''
     [''name'', ''digest'', ''size_bytes'', ''family'', ''parameter_size'', ''quantization'']
     (\<lambda>m. [check_text ''models.name'' 256 (dget m ''name''), check_optional_text ''models.digest'' 128 (dget m ''digest''),
           check_nonnegative_or_null ''models.size_bytes'' (dget m ''size_bytes''), check_optional_text ''models.family'' 64 (dget m ''family''),
           check_optional_text ''models.parameter_size'' 64 (dget m ''parameter_size''),
           check_optional_text ''models.quantization'' 64 (dget m ''quantization'')])"

definition validate_runtime :: "dict option \<Rightarrow> json result" where
  "validate_runtime = checked_record ''inventory runtime fields are invalid''
     [''name'', ''present'', ''install_type'', ''service_type'', ''endpoint'', ''version'', ''reachable'', ''models'']
     (\<lambda>m. [check_member ''inventory runtime install_type is unsupported'' INSTALL_TYPES (dget m ''install_type''),
           check_member ''inventory runtime service_type is unsupported'' SERVICE_MANAGERS (dget m ''service_type''),
           check_items ''inventory runtime models are invalid'' MAX_RUNTIME_MODELS (dget m ''models''),
           check_text ''runtimes.name'' 64 (dget m ''name''), check_bool ''runtimes.present'' (dget m ''present''),
           check_optional_text ''runtimes.endpoint'' 256 (dget m ''endpoint''),
           check_optional_text ''runtimes.version'' 256 (dget m ''version''), check_bool ''runtimes.reachable'' (dget m ''reachable''),
           check_each (\<lambda>x. validate_model (dict_value x)) (dget m ''models'')])"

definition validate_repo :: "dict option \<Rightarrow> json result" where
  "validate_repo = checked_record ''inventory repository fields are invalid''
     [''name'', ''path'', ''branch'', ''commit'', ''dirty'', ''remote'']
     (\<lambda>m. [ensure (dget m ''dirty'' = JNull \<or> is_bool (dget m ''dirty'')) ''inventory repository dirty flag is invalid'',
           check_text ''repositories.name'' 128 (dget m ''name''), check_text ''repositories.path'' 512 (dget m ''path''),
           check_optional_text ''repositories.branch'' 256 (dget m ''branch''),
           check_optional_text ''repositories.commit'' 128 (dget m ''commit''),
           check_optional_text ''repositories.remote'' 256 (dget m ''remote'')])"

definition validate_service :: "dict option \<Rightarrow> json result" where
  "validate_service = checked_record ''inventory service fields are invalid''
     [''name'', ''present'', ''manager'', ''unit'', ''state'', ''install_type'']
     (\<lambda>m. [check_member ''inventory service manager is unsupported'' SERVICE_MANAGERS (dget m ''manager''),
           check_member ''inventory service install_type is unsupported'' INSTALL_TYPES (dget m ''install_type''),
           check_text ''services.name'' 128 (dget m ''name''), check_bool ''services.present'' (dget m ''present''),
           check_optional_text ''services.unit'' 256 (dget m ''unit''), check_text ''services.state'' 64 (dget m ''state'')])"

definition validate_credential :: "dict option \<Rightarrow> json result" where
  "validate_credential = checked_record ''inventory credential fields are invalid'' [''name'', ''available'', ''detail'']
     (\<lambda>m. [check_text ''credentials.name'' 64 (dget m ''name''), check_bool ''credentials.available'' (dget m ''available''),
           check_optional_text ''credentials.detail'' 256 (dget m ''detail'')])"

definition validate_accelerator :: "dict option \<Rightarrow> json result" where
  "validate_accelerator = checked_record ''inventory accelerator fields are invalid''
     [''index'', ''name'', ''backend'', ''total_memory_bytes'', ''free_memory_bytes'']
     (\<lambda>m. [ensure (dget m ''index'' = JNull \<or> is_nonnegative_int (dget m ''index'')) ''inventory accelerator index is invalid'',
           check_optional_text ''accelerators.name'' 256 (dget m ''name''),
           check_optional_text ''accelerators.backend'' 64 (dget m ''backend''),
           check_nonnegative_or_null ''accelerators.total_memory_bytes'' (dget m ''total_memory_bytes''),
           check_nonnegative_or_null ''accelerators.free_memory_bytes'' (dget m ''free_memory_bytes'')])"

definition validate_host_identity :: "dict option \<Rightarrow> json result" where
  "validate_host_identity = checked_record ''inventory identity fields are invalid''
     [''hostname'', ''platform'', ''os'', ''distribution'', ''os_version'', ''kernel'', ''architecture'']
     (\<lambda>m. [check_text ''identity.hostname'' 128 (dget m ''hostname''), check_text ''identity.platform'' 32 (dget m ''platform''),
           check_text ''identity.os'' 32 (dget m ''os''), check_optional_text ''identity.distribution'' 64 (dget m ''distribution''),
           check_optional_text ''identity.os_version'' 128 (dget m ''os_version''),
           check_optional_text ''identity.kernel'' 128 (dget m ''kernel''), check_text ''identity.architecture'' 64 (dget m ''architecture'')])"

definition validate_hardware :: "dict option \<Rightarrow> json result" where
  "validate_hardware = checked_record ''inventory hardware fields are invalid''
     [''cpu_count'', ''ram_bytes'', ''ram_available_bytes'', ''disk_bytes'', ''disk_available_bytes'', ''accelerators'']
     (\<lambda>m. [check_items ''inventory accelerators are invalid'' MAX_ACCELERATORS (dget m ''accelerators''),
           ensure (case dget m ''cpu_count'' of JNull \<Rightarrow> True | JInt n \<Rightarrow> 1 \<le> n | _ \<Rightarrow> False) ''inventory cpu_count is invalid'',
           check_nonnegative_or_null ''hardware.ram_bytes'' (dget m ''ram_bytes''),
           check_nonnegative_or_null ''hardware.ram_available_bytes'' (dget m ''ram_available_bytes''),
           check_nonnegative_or_null ''hardware.disk_bytes'' (dget m ''disk_bytes''),
           check_nonnegative_or_null ''hardware.disk_available_bytes'' (dget m ''disk_available_bytes''),
           check_each (\<lambda>x. validate_accelerator (dict_value x)) (dget m ''accelerators'')])"

definition validate_fabric :: "dict option \<Rightarrow> json result" where
  "validate_fabric = checked_record ''inventory fabric fields are invalid''
     [''worker_version'', ''protocol_version'', ''harness_version'', ''agent_version'', ''python_executable'']
     (\<lambda>m. [check_text ''fabric.worker_version'' 64 (dget m ''worker_version''),
           check_text ''fabric.protocol_version'' 64 (dget m ''protocol_version''),
           check_optional_text ''fabric.harness_version'' 64 (dget m ''harness_version''),
           check_optional_text ''fabric.agent_version'' 64 (dget m ''agent_version''),
           check_text ''fabric.python_executable'' 512 (dget m ''python_executable'')])"

definition health_checks :: "dict \<Rightarrow> unit result list" where
  "health_checks m =
     [check_member ''inventory health pressure is invalid'' PRESSURE (dget m ''ram_pressure''),
      check_member ''inventory health pressure is invalid'' PRESSURE (dget m ''disk_pressure''),
      ensure (dget m ''load_1m'' = JNull \<or> is_number (dget m ''load_1m'') \<and> \<not> is_bool (dget m ''load_1m'') \<and> num_le (JInt 0) (dget m ''load_1m''))
        ''inventory load_1m is invalid'',
      ensure (dget m ''pending_reboot'' = JNull \<or> is_bool (dget m ''pending_reboot'')) ''inventory pending_reboot is invalid'',
      ensure (case dget m ''active_jobs'' of JInt n \<Rightarrow> 0 \<le> n \<and> n \<le> 1024 | _ \<Rightarrow> False) ''inventory active_jobs is invalid'']"

text \<open>The load average is the one field that is converted: an integer becomes a float.\<close>

definition load_value :: "json \<Rightarrow> json result" where
  "load_value v = (case v of JInt n \<Rightarrow> float_of_int n | _ \<Rightarrow> Inr v)"

definition validate_health :: "dict option \<Rightarrow> json result" where
  "validate_health d =
     (case d of
        None \<Rightarrow> Inl (ValidationError ''inventory health fields are invalid'')
      | Some m \<Rightarrow>
          if \<not> keys_are m [''load_1m'', ''ram_pressure'', ''disk_pressure'', ''pending_reboot'', ''active_jobs'', ''maintenance_eligible'']
          then Inl (ValidationError ''inventory health fields are invalid'')
          else
            tryE (all_checks (health_checks m)) (\<lambda>_.
            tryE (load_value (dget m ''load_1m'')) (\<lambda>load.
            tryE (check_bool ''health.maintenance_eligible'' (dget m ''maintenance_eligible'')) (\<lambda>_.
              Inr (JObj (fmupd ''load_1m'' load m))))))"

section \<open>Inventories\<close>

fun any_exceeds :: "(json \<times> nat) list \<Rightarrow> bool result" where
  "any_exceeds [] = Inr False"
| "any_exceeds ((v, n) # rest) = tryE (py_len v) (\<lambda>l. if n < l then Inr True else any_exceeds rest)"

text \<open>\<^verbatim>\<open>validate(dict(x))\<close>, and the list of it over a collection.\<close>

definition of_dict :: "(dict option \<Rightarrow> json result) \<Rightarrow> json \<Rightarrow> json result" where
  "of_dict validate v = tryE (dict_of_value v) validate"

definition of_dicts :: "(dict option \<Rightarrow> json result) \<Rightarrow> json \<Rightarrow> json result" where
  "of_dicts validate v = tryE (py_iter v) (\<lambda>items. tryE (mapE (of_dict validate) items) (\<lambda>xs. Inr (JList xs)))"

definition inventory_entries ::
    "string \<Rightarrow> string \<Rightarrow> json \<Rightarrow> json \<Rightarrow> json \<Rightarrow> json \<Rightarrow> json \<Rightarrow> json \<Rightarrow> json \<Rightarrow> json \<Rightarrow> json \<Rightarrow> (string \<times> json) list" where
  "inventory_entries worker captured identity hardware fabric tools runtimes repositories services health credentials =
     [(''schema_version'', JStr INVENTORY_SCHEMA), (''worker_identity'', JStr worker), (''captured_at'', JStr captured),
      (''observation_source'', JStr ''worker-observed''), (''claim_boundary'', JStr INVENTORY_CLAIM_BOUNDARY),
      (''identity'', identity), (''hardware'', hardware), (''fabric'', fabric), (''tools'', tools), (''runtimes'', runtimes),
      (''repositories'', repositories), (''services'', services), (''health'', health), (''credentials'', credentials)]"

text \<open>\<open>clock\<close> is the text of \<^verbatim>\<open>utc_now()\<close>, used when no time of capture is given.\<close>

definition build_worker_inventory ::
    "string \<Rightarrow> json \<Rightarrow> json \<Rightarrow> json \<Rightarrow> json \<Rightarrow> json \<Rightarrow> json \<Rightarrow> json \<Rightarrow> json \<Rightarrow> json \<Rightarrow> json \<Rightarrow> json \<Rightarrow> dict result" where
  "build_worker_inventory clock worker_id identity hardware fabric tools runtimes repositories services health credentials captured_at =
     tryE (any_exceeds [(tools, MAX_TOOLS), (runtimes, MAX_RUNTIMES), (repositories, MAX_REPOS), (services, MAX_SERVICES),
         (credentials, MAX_CREDENTIALS)]) (\<lambda>exceeded.
     if exceeded then Inl (ValidationError ''inventory exceeds a collection bound'')
     else
       tryE (text_field ''worker_identity'' 256 worker_id) (\<lambda>worker.
       tryE (inventory_stamp ''captured_at'' (if truthy captured_at then captured_at else JStr clock)) (\<lambda>captured.
       tryE (of_dict validate_host_identity identity) (\<lambda>identity.
       tryE (of_dict validate_hardware hardware) (\<lambda>hardware.
       tryE (of_dict validate_fabric fabric) (\<lambda>fabric.
       tryE (of_dicts validate_tool tools) (\<lambda>tools.
       tryE (of_dicts validate_runtime runtimes) (\<lambda>runtimes.
       tryE (of_dicts validate_repo repositories) (\<lambda>repositories.
       tryE (of_dicts validate_service services) (\<lambda>services.
       tryE (of_dict validate_health health) (\<lambda>health.
       tryE (of_dicts validate_credential credentials) (\<lambda>credentials.
         let observed = attach_identity (dict_of (inventory_entries worker captured identity hardware fabric tools runtimes
               repositories services health credentials)) ''inventory_identity''
         in if MAX_INVENTORY_BYTES < length (canonical_json_bytes (JObj observed))
            then Inl (ValidationError ''worker inventory exceeds the encoded-size bound'') else Inr observed))))))))))))"

definition inventory_fields :: "string list" where
  "inventory_fields =
     [''schema_version'', ''worker_identity'', ''captured_at'', ''observation_source'', ''claim_boundary'', ''identity'', ''hardware'',
      ''fabric'', ''tools'', ''runtimes'', ''repositories'', ''services'', ''health'', ''credentials'', ''inventory_identity'']"

definition inventory_header_checks :: "dict \<Rightarrow> string option \<Rightarrow> unit result list" where
  "inventory_header_checks m expected =
     [ensure (dget m ''schema_version'' = JStr INVENTORY_SCHEMA) ''unsupported worker inventory schema'',
      ensure (keys_are m inventory_fields \<and> verify_identity m ''inventory_identity'') ''worker inventory fields or identity are invalid'',
      ensure (length (canonical_json_bytes (JObj m)) \<le> MAX_INVENTORY_BYTES) ''worker inventory exceeds the encoded-size bound'',
      check_text ''worker_identity'' 256 (dget m ''worker_identity''),
      ensure (matches_expected expected (dget m ''worker_identity'')) ''worker inventory is bound to another worker'',
      tryE (inventory_stamp ''captured_at'' (dget m ''captured_at'')) (\<lambda>_. Inr ()),
      ensure (dget m ''observation_source'' = JStr ''worker-observed'') ''worker inventory must identify its observation source'',
      check_text ''claim_boundary'' 512 (dget m ''claim_boundary'')]"

definition rebuild_inventory :: "dict \<Rightarrow> dict result" where
  "rebuild_inventory m =
     build_worker_inventory [] (dget m ''worker_identity'') (dget m ''identity'') (dget m ''hardware'') (dget m ''fabric'')
       (dget m ''tools'') (dget m ''runtimes'') (dget m ''repositories'') (dget m ''services'') (dget m ''health'')
       (dget m ''credentials'') (dget m ''captured_at'')"

definition validate_worker_inventory :: "json \<Rightarrow> string option \<Rightarrow> dict result" where
  "validate_worker_inventory v expected =
     (case v of
        JObj m \<Rightarrow>
          tryE (all_checks (inventory_header_checks m expected)) (\<lambda>_.
          tryE (rebuild_inventory m) (\<lambda>rebuilt.
            if \<not> py_eq (JObj rebuilt) v then Inl (ValidationError ''worker inventory is not canonically normalized'') else Inr m))
      | _ \<Rightarrow> Inl (ValidationError ''unsupported worker inventory schema''))"

text \<open>\<^verbatim>\<open>inventory_tool\<close>, \<^verbatim>\<open>inventory_runtime\<close>, \<^verbatim>\<open>inventory_service\<close>: the first entry of that name.\<close>

definition inventory_entry :: "dict \<Rightarrow> string \<Rightarrow> json \<Rightarrow> dict option result" where
  "inventory_entry inventory collection name =
     tryE (py_iter (dget_default inventory collection (JList []))) (\<lambda>items.
       Inr (Option.bind (find_first (\<lambda>x. case x of JObj m \<Rightarrow> dget m ''name'' = name | _ \<Rightarrow> False) items) dict_value))"

section \<open>What is built validates\<close>

text \<open>A validator whose result is a dict that it accepts and returns unchanged.\<close>

definition stable :: "(dict option \<Rightarrow> json result) \<Rightarrow> bool" where
  "stable f = (\<forall>d w. f d = Inr w \<longrightarrow> (\<exists>m. w = JObj m \<and> f (Some m) = Inr w))"

lemma stable_checked_record: "stable (checked_record msg ks checks)"
  by (auto simp: stable_def checked_record_def tryE_eq_Inr split: option.splits if_splits)

lemma stable_records:
  "stable validate_tool" "stable validate_runtime" "stable validate_repo" "stable validate_service" "stable validate_credential"
  "stable validate_host_identity" "stable validate_hardware" "stable validate_fabric"
  by (simp_all add: validate_tool_def validate_runtime_def validate_repo_def validate_service_def validate_credential_def
      validate_host_identity_def validate_hardware_def validate_fabric_def stable_checked_record)

lemma float_of_int_InrD: "float_of_int n = Inr w \<Longrightarrow> \<exists>m e. w = JFloat (n < 0) m e"
  by (auto simp: float_of_int_def split: if_splits prod.splits)

lemma num_le_float: "num_le (JInt 0) (JFloat False m e)"
  by (simp add: num_le_def)

lemma stable_health: "stable validate_health"
  unfolding stable_def
proof (intro allI impI)
  fix d w
  assume a: "validate_health d = Inr w"
  then obtain m load where d: "d = Some m" and k: "keys_are m [''load_1m'', ''ram_pressure'', ''disk_pressure'', ''pending_reboot'',
      ''active_jobs'', ''maintenance_eligible'']" and c: "all_checks (health_checks m) = Inr ()"
    and l: "load_value (dget m ''load_1m'') = Inr load" and b: "check_bool ''health.maintenance_eligible'' (dget m ''maintenance_eligible'') = Inr ()"
    and w: "w = JObj (fmupd ''load_1m'' load m)"
    by (cases d) (auto simp: validate_health_def tryE_eq_Inr split: if_splits)
  let ?m = "fmupd ''load_1m'' load m"
  have "''load_1m'' |\<in>| fmdom m" using k by (simp add: keys_are_def)
  then have k': "keys_are ?m [''load_1m'', ''ram_pressure'', ''disk_pressure'', ''pending_reboot'', ''active_jobs'', ''maintenance_eligible'']"
    using k by (simp add: keys_are_def finsert_absorb)
  have load: "(dget m ''load_1m'' = JNull \<and> load = JNull \<or> is_number load \<and> \<not> is_bool load \<and> num_le (JInt 0) load)
      \<and> load_value load = Inr load"
    using l c by (cases "dget m ''load_1m''")
      (auto simp: load_value_def health_checks_def result_simps num_le_float num_le_def dest!: float_of_int_InrD)
  then have "all_checks (health_checks ?m) = Inr ()"
    using c by (auto simp: health_checks_def result_simps)
  with k' load b show "\<exists>m. w = JObj m \<and> validate_health (Some m) = Inr w"
    by (simp add: w validate_health_def)
qed

lemma of_dict_stable:
  assumes "stable f" "of_dict f v = Inr w"
  shows "\<exists>m. w = JObj m \<and> of_dict f w = Inr w"
proof -
  from assms(2) obtain d where "f d = Inr w" by (auto simp: of_dict_def tryE_eq_Inr)
  with assms(1) obtain m where "w = JObj m" "f (Some m) = Inr w" unfolding stable_def by blast
  then show ?thesis by (simp add: of_dict_def dict_of_value_def)
qed

lemma of_dicts_stable:
  assumes "stable f" "of_dicts f v = Inr w"
  shows "of_dicts f w = Inr w" "py_len w = py_len v" "is_list w"
proof -
  from assms(2) obtain items xs where i: "py_iter v = Inr items" "mapE (of_dict f) items = Inr xs" and w: "w = JList xs"
    by (auto simp: of_dicts_def tryE_eq_Inr)
  have "mapE (of_dict f) xs = Inr xs"
  proof -
    have "of_dict f x = Inr x" if "x \<in> set xs" for x
      using mapE_set [OF i(2) that] of_dict_stable [OF assms(1)] by blast
    then show ?thesis using mapE_total [of xs "of_dict f" "\<lambda>x. x"] by simp
  qed
  then show "of_dicts f w = Inr w" by (simp add: of_dicts_def py_iter_def w)
  show "py_len w = py_len v" using i mapE_length [OF i(2)] by (cases v) (auto simp: w py_len_def py_iter_def)
  show "is_list w" by (simp add: w)
qed

lemma inventory_stamp_shown: "instant_ok us \<Longrightarrow> inventory_stamp f (JStr (show_instant us)) = Inr (show_instant us)"
  using stamp_text_ok [of us] show_instant_reads_back [of us]
  by (simp add: inventory_stamp_def text_ok_def instant_of_offset_def)

lemma inventory_stamp_idem:
  assumes "inventory_stamp f v = Inr s"
  shows "inventory_stamp f (JStr s) = Inr s \<and> s \<noteq> []"
proof -
  from assms obtain raw where raw: "(case fromisoformat (replace_Z raw) of
         None \<Rightarrow> Inl (ValidationError (f @ '' must be an RFC 3339 timestamp''))
       | Some (local', None) \<Rightarrow> Inl (ValidationError (f @ '' must include a timezone''))
       | Some (local', Some off) \<Rightarrow> tryE (instant_of_offset (local', off)) (\<lambda>us. Inr (show_instant us))) = Inr s"
    unfolding inventory_stamp_def tryE_eq_Inr by blast
  have "\<exists>us. instant_ok us \<and> s = show_instant us"
  proof (cases "fromisoformat (replace_Z raw)")
    case (Some p)
    with raw show ?thesis
      by (cases p; cases "snd p") (auto simp: tryE_eq_Inr instant_of_offset_def split: if_splits)
  qed (use raw in simp)
  then show ?thesis using inventory_stamp_shown stamp_text_ok(3) by auto
qed

lemma inventory_keys:
  "keys_are (attach_identity (dict_of (inventory_entries w c i h f t r p s l d)) ''inventory_identity'') inventory_fields"
  unfolding keys_are_def
  by (rule fset_eqI) (auto simp: inventory_entries_def inventory_fields_def)

lemma inventory_values:
  assumes "m = attach_identity (dict_of (inventory_entries w c i h f t r p s l d)) ''inventory_identity''"
  shows "dget m ''schema_version'' = JStr INVENTORY_SCHEMA" "dget m ''worker_identity'' = JStr w" "dget m ''captured_at'' = JStr c"
    "dget m ''observation_source'' = JStr ''worker-observed''" "dget m ''claim_boundary'' = JStr INVENTORY_CLAIM_BOUNDARY"
    "dget m ''identity'' = i" "dget m ''hardware'' = h" "dget m ''fabric'' = f" "dget m ''tools'' = t" "dget m ''runtimes'' = r"
    "dget m ''repositories'' = p" "dget m ''services'' = s" "dget m ''health'' = l" "dget m ''credentials'' = d"
  by (simp_all add: assms inventory_entries_def)

lemma build_inventory_InrE:
  assumes "build_worker_inventory clock worker i h f t r p s l d captured_at = Inr m"
  obtains w c i' h' f' t' r' p' s' l' d' where
    "worker = JStr w" "text_ok 256 w" "inventory_stamp ''captured_at'' (JStr c) = Inr c" "c \<noteq> []"
    "any_exceeds [(t, MAX_TOOLS), (r, MAX_RUNTIMES), (p, MAX_REPOS), (s, MAX_SERVICES), (d, MAX_CREDENTIALS)] = Inr False"
    "of_dict validate_host_identity i = Inr i'" "of_dict validate_hardware h = Inr h'" "of_dict validate_fabric f = Inr f'"
    "of_dicts validate_tool t = Inr t'" "of_dicts validate_runtime r = Inr r'" "of_dicts validate_repo p = Inr p'"
    "of_dicts validate_service s = Inr s'" "of_dict validate_health l = Inr l'" "of_dicts validate_credential d = Inr d'"
    "m = attach_identity (dict_of (inventory_entries w c i' h' f' t' r' p' s' l' d')) ''inventory_identity''"
    "length (canonical_json_bytes (JObj m)) \<le> MAX_INVENTORY_BYTES"
proof -
  from assms [unfolded build_worker_inventory_def tryE_eq_Inr if_Inl_eq_Inr Let_def]
  obtain exceeded w c i' h' f' t' r' p' s' l' d' where
    x: "any_exceeds [(t, MAX_TOOLS), (r, MAX_RUNTIMES), (p, MAX_REPOS), (s, MAX_SERVICES), (d, MAX_CREDENTIALS)] = Inr exceeded"
      "\<not> exceeded" "text_field ''worker_identity'' 256 worker = Inr w"
      "inventory_stamp ''captured_at'' (if truthy captured_at then captured_at else JStr clock) = Inr c"
    and y: "of_dict validate_host_identity i = Inr i'" "of_dict validate_hardware h = Inr h'" "of_dict validate_fabric f = Inr f'"
      "of_dicts validate_tool t = Inr t'" "of_dicts validate_runtime r = Inr r'" "of_dicts validate_repo p = Inr p'"
      "of_dicts validate_service s = Inr s'" "of_dict validate_health l = Inr l'" "of_dicts validate_credential d = Inr d'"
    and z: "\<not> MAX_INVENTORY_BYTES < length (canonical_json_bytes (JObj (attach_identity
          (dict_of (inventory_entries w c i' h' f' t' r' p' s' l' d')) ''inventory_identity'')))"
      "Inr (attach_identity (dict_of (inventory_entries w c i' h' f' t' r' p' s' l' d')) ''inventory_identity'') = (Inr m :: dict result)"
    by blast
  from z(2) have m: "m = attach_identity (dict_of (inventory_entries w c i' h' f' t' r' p' s' l' d')) ''inventory_identity''" by simp
  from z(1) have "length (canonical_json_bytes (JObj m)) \<le> MAX_INVENTORY_BYTES" unfolding m by (simp only: not_less)
  with x y m show thesis
    using inventory_stamp_idem [OF x(4)] by (intro that [of w c i' h' f' t' r' p' s' l' d']) (auto simp: text_field_eq_Inr)
qed

lemma any_exceeds_cong: "map (\<lambda>(v, n). (py_len v, n)) xs = map (\<lambda>(v, n). (py_len v, n)) ys \<Longrightarrow> any_exceeds xs = any_exceeds ys"
proof (induction xs arbitrary: ys)
  case (Cons x xs)
  then obtain y ys' where ys: "ys = y # ys'" by (cases ys) auto
  obtain v n where x: "x = (v, n)" by (cases x)
  obtain u k where y: "y = (u, k)" by (cases y)
  from Cons.prems have e: "py_len v = py_len u" "n = k" by (auto simp: ys x y)
  from Cons.prems have "any_exceeds xs = any_exceeds ys'" by (intro Cons.IH) (simp add: ys)
  then show ?case unfolding ys x y any_exceeds.simps e by (rule arg_cong)
qed simp

lemma built_inventory_valid:
  assumes "build_worker_inventory clock worker i h f t r p s l d captured_at = Inr m"
  shows "validate_worker_inventory (JObj m) expected = Inr m \<longleftrightarrow> matches_expected expected worker"
  using assms
proof (rule build_inventory_InrE)
  fix w c i' h' f' t' r' p' s' l' d'
  assume w: "worker = JStr w" "text_ok 256 w" and c: "inventory_stamp ''captured_at'' (JStr c) = Inr c" "c \<noteq> []"
    and x: "any_exceeds [(t, MAX_TOOLS), (r, MAX_RUNTIMES), (p, MAX_REPOS), (s, MAX_SERVICES), (d, MAX_CREDENTIALS)] = Inr False"
    and one: "of_dict validate_host_identity i = Inr i'" "of_dict validate_hardware h = Inr h'" "of_dict validate_fabric f = Inr f'"
      "of_dict validate_health l = Inr l'"
    and many: "of_dicts validate_tool t = Inr t'" "of_dicts validate_runtime r = Inr r'" "of_dicts validate_repo p = Inr p'"
      "of_dicts validate_service s = Inr s'" "of_dicts validate_credential d = Inr d'"
    and m: "m = attach_identity (dict_of (inventory_entries w c i' h' f' t' r' p' s' l' d')) ''inventory_identity''"
    and small: "length (canonical_json_bytes (JObj m)) \<le> MAX_INVENTORY_BYTES"
  note ones = of_dict_stable [OF stable_records(6) one(1)] of_dict_stable [OF stable_records(7) one(2)]
    of_dict_stable [OF stable_records(8) one(3)] of_dict_stable [OF stable_health one(4)]
  note many = of_dicts_stable [OF stable_records(1) many(1)] of_dicts_stable [OF stable_records(2) many(2)]
    of_dicts_stable [OF stable_records(3) many(3)] of_dicts_stable [OF stable_records(4) many(4)]
    of_dicts_stable [OF stable_records(5) many(5)]
  have "any_exceeds [(t', MAX_TOOLS), (r', MAX_RUNTIMES), (p', MAX_REPOS), (s', MAX_SERVICES), (d', MAX_CREDENTIALS)] = Inr False"
    unfolding x [symmetric] by (rule any_exceeds_cong) (simp only: list.map prod.case many)
  moreover note fields = inventory_values [OF m]
  moreover have "of_dict validate_host_identity i' = Inr i'" "of_dict validate_hardware h' = Inr h'" "of_dict validate_fabric f' = Inr f'"
    "of_dict validate_health l' = Inr l'" using ones by blast+
  ultimately have "rebuild_inventory m = Inr m"
    unfolding rebuild_inventory_def fields build_worker_inventory_def
    using many small c(2) by (simp only: tryE_Inr if_False text_field_ok [OF w(2)] c(1) truthy.simps if_True Let_def m [symmetric] not_less [symmetric] simp_thms)
  moreover have "all_checks (inventory_header_checks m expected) = Inr () \<longleftrightarrow> matches_expected expected worker"
  proof -
    have "text_ok 512 INVENTORY_CLAIM_BOUNDARY" by (simp add: text_ok_def INVENTORY_CLAIM_BOUNDARY_def)
    moreover have "verify_identity m ''inventory_identity''" by (simp add: m)
    moreover have "keys_are m inventory_fields" unfolding m by (rule inventory_keys)
    ultimately show ?thesis
      unfolding inventory_header_checks_def using small w c
      by (simp add: result_simps fields check_text_def)
  qed
  ultimately show ?thesis
    by (cases "all_checks (inventory_header_checks m expected)") (auto simp: validate_worker_inventory_def py_eq_def tryE_eq_Inr)
qed

end
