(* ===== verification/Desired_State.thy ===== *)
theory Desired_State
  imports Inventory Platform_Facts "HOL-Library.Product_Lexorder"
begin

text \<open>
  \<^verbatim>\<open>src/src/mncs_fabric/desired_state.py\<close>: what an operator wants a worker to have. Profiles of requirements compose, the
  strongest requirement on a thing wins, and the difference to the inventory of the worker is the list of changes. Entries of
  a dict are visited in the order of their keys; \<open>clock\<close> is the text of \<^verbatim>\<open>utc_now()\<close>, one for all calls of an operation.
\<close>

section \<open>Constants\<close>

definition DESIRED_STATE_SCHEMA :: string where "DESIRED_STATE_SCHEMA = ''mncs-fabric.desired-state.v0.1''"

definition PROFILE_SCHEMA :: string where "PROFILE_SCHEMA = ''mncs-fabric.worker-profile.v0.1''"

definition DIFF_SCHEMA :: string where "DIFF_SCHEMA = ''mncs-fabric.desired-state-diff.v0.1''"

definition REQUIREMENT_LEVELS :: "string list" where
  "REQUIREMENT_LEVELS = [''present'', ''supported-current'', ''mncs-supported'', ''running'', ''absent'']"

definition REQUIREMENT_KINDS :: "string list" where
  "REQUIREMENT_KINDS = [''tool'', ''runtime'', ''service'', ''model'', ''package'', ''config'']"

definition OS_UPDATE_POLICIES :: "string list" where "OS_UPDATE_POLICIES = [''none'', ''security'', ''manual'']"

definition MAX_PROFILES :: nat where "MAX_PROFILES = 8"

definition MAX_REQUIREMENTS :: nat where "MAX_REQUIREMENTS = 64"

definition MAX_MODELS :: nat where "MAX_MODELS = 32"

text \<open>A profile: its summary, its requirements as kind, name, update class and level, and its policy on updates of the system.\<close>

record catalog_profile =
  cp_summary :: string
  cp_requirements :: "(string \<times> string \<times> string \<times> string) list"
  cp_os_updates :: string

definition worker_baseline :: "(string \<times> string \<times> string \<times> string) list" where
  "worker_baseline =
     [(''package'', ''fabric-worker'', ''A'', ''supported-current''), (''package'', ''local-harness'', ''A'', ''present''),
      (''tool'', ''git'', ''B'', ''present''), (''tool'', ''gh'', ''B'', ''supported-current''), (''tool'', ''python'', ''B'', ''present''),
      (''service'', ''fabric-worker'', ''E'', ''running'')]"

definition PROFILE_CATALOG :: "(string \<times> catalog_profile) list" where
  "PROFILE_CATALOG =
     [(''mncs-linux-worker'', \<lparr>cp_summary = ''Baseline Linux MNCS worker host'', cp_requirements = worker_baseline, cp_os_updates = ''security''\<rparr>),
      (''mncs-windows-worker'',
        \<lparr>cp_summary = ''Baseline Windows MNCS worker host'', cp_requirements = worker_baseline, cp_os_updates = ''security''\<rparr>),
      (''mncs-inference-worker'',
        \<lparr>cp_summary = ''Model-agnostic local inference worker'',
         cp_requirements = [(''runtime'', ''ollama'', ''C'', ''mncs-supported''), (''service'', ''ollama'', ''C'', ''running'')],
         cp_os_updates = ''security''\<rparr>),
      (''mncs-build-worker'',
        \<lparr>cp_summary = ''Compilation worker'',
         cp_requirements = [(''tool'', ''git'', ''B'', ''present''), (''tool'', ''gcc'', ''B'', ''present''), (''tool'', ''rustc'', ''B'', ''present''),
           (''tool'', ''cargo'', ''B'', ''present''), (''tool'', ''forge'', ''B'', ''mncs-supported'')],
         cp_os_updates = ''security''\<rparr>),
      (''mncs-ravel-worker'',
        \<lparr>cp_summary = ''RAVEL-oriented Linux build worker'',
         cp_requirements = [(''package'', ''fabric-worker'', ''A'', ''supported-current''), (''tool'', ''git'', ''B'', ''present''),
           (''tool'', ''python'', ''B'', ''present'')],
         cp_os_updates = ''security''\<rparr>),
      (''mncs-mnel-worker'',
        \<lparr>cp_summary = ''MNEL-oriented inference-capable worker'',
         cp_requirements = [(''package'', ''fabric-worker'', ''A'', ''supported-current''), (''runtime'', ''ollama'', ''C'', ''mncs-supported'')],
         cp_os_updates = ''security''\<rparr>)]"

definition known_profiles :: "string list" where
  "known_profiles = sort (map fst PROFILE_CATALOG)"

section \<open>Requirements\<close>

record requirement =
  rq_kind :: string
  rq_name :: string
  rq_update_class :: string
  rq_level :: string
  rq_version :: json

definition requirement_inputs :: "string list" where
  "requirement_inputs = [''kind'', ''name'', ''update_class'', ''level'', ''version'']"

definition requirement_of_dict :: "dict \<Rightarrow> requirement result" where
  "requirement_of_dict m =
     (if \<not> fmdom m |\<subseteq>| fset_of_list requirement_inputs
      then Inl (ValidationError ''desired-state requirement contains unsupported fields'')
      else
        tryE (text_field ''requirement.kind'' 32 (dget m ''kind'')) (\<lambda>kind.
        tryE (text_field ''requirement.level'' 32 (dget m ''level'')) (\<lambda>level.
        tryE (text_field ''requirement.update_class'' 1 (dget m ''update_class'')) (\<lambda>cls.
        if kind \<notin> set REQUIREMENT_KINDS then Inl (ValidationError ''desired-state requirement kind is unsupported'')
        else if level \<notin> set REQUIREMENT_LEVELS then Inl (ValidationError ''desired-state requirement level is unsupported'')
        else if cls \<notin> set UPDATE_CLASSES then Inl (ValidationError ''desired-state update class is unsupported'')
        else
          tryE (text_field ''requirement.name'' 128 (dget m ''name'')) (\<lambda>name.
          tryE (check_optional_text ''requirement.version'' 128 (dget m ''version'')) (\<lambda>_.
            Inr \<lparr>rq_kind = kind, rq_name = name, rq_update_class = cls, rq_level = level, rq_version = dget m ''version''\<rparr>))))))"

text \<open>
  \<^verbatim>\<open>set(value) - allowed\<close> is taken of a text or a list as well; what passes it has no \<^verbatim>\<open>get\<close>.
\<close>

definition requirement_of :: "json \<Rightarrow> requirement result" where
  "requirement_of v =
     (case v of
        JObj m \<Rightarrow> requirement_of_dict m
      | _ \<Rightarrow>
          tryE (py_iter v) (\<lambda>items.
            if list_ex (\<lambda>x. \<not> hashable x) items then Inl PyTypeError
            else if \<not> set items \<subseteq> JStr ` set requirement_inputs
              then Inl (ValidationError ''desired-state requirement contains unsupported fields'')
            else Inl PyAttributeError))"

definition requirement_dict :: "requirement \<Rightarrow> dict" where
  "requirement_dict r = dict_of
     [(''kind'', JStr (rq_kind r)), (''name'', JStr (rq_name r)), (''update_class'', JStr (rq_update_class r)),
      (''level'', JStr (rq_level r)), (''version'', rq_version r)]"

definition requirement_key :: "requirement \<Rightarrow> string \<times> string" where
  "requirement_key r = (rq_kind r, rq_name r)"

section \<open>Profiles\<close>

definition profile_requirements :: "catalog_profile \<Rightarrow> requirement list result" where
  "profile_requirements p =
     tryE (mapE (\<lambda>(kind, name, cls, level). requirement_of (obj
         [(''kind'', JStr kind), (''name'', JStr name), (''update_class'', JStr cls), (''level'', JStr level)])) (cp_requirements p))
       (\<lambda>rs. Inr (sort_key requirement_key rs))"

definition profile_policy :: "catalog_profile \<Rightarrow> dict" where
  "profile_policy p = dict_of
     [(''os_updates'', JStr (cp_os_updates p)), (''auto_apply_classes'', JList [JStr ''A'', JStr ''B'', JStr ''E'']),
      (''require_drain'', JBool True), (''require_certification'', JBool True)]"

definition build_profile :: "string \<Rightarrow> string \<Rightarrow> json \<Rightarrow> dict result" where
  "build_profile clock profile_id captured_at =
     (case map_of PROFILE_CATALOG profile_id of
        None \<Rightarrow> Inl (ValidationError ''unknown worker profile'')
      | Some p \<Rightarrow>
          tryE (profile_requirements p) (\<lambda>rs.
            Inr (attach_identity (dict_of
              [(''schema_version'', JStr PROFILE_SCHEMA), (''profile_id'', JStr profile_id), (''summary'', JStr (cp_summary p)),
               (''requirements'', JList (map (\<lambda>r. JObj (requirement_dict r)) rs)), (''policy'', JObj (profile_policy p)),
               (''captured_at'', if truthy captured_at then captured_at else JStr clock),
               (''claim_boundary'', JStr ''reusable operator profile; not a host identity or attestation'')]) ''profile_identity'')))"

fun any_unknown_class :: "json list \<Rightarrow> bool result" where
  "any_unknown_class [] = Inr False"
| "any_unknown_class (x # xs) = tryE (in_strset x UPDATE_CLASSES) (\<lambda>known. if \<not> known then Inr True else any_unknown_class xs)"

definition check_policy :: "json \<Rightarrow> unit result" where
  "check_policy v =
     (case v of
        JObj m \<Rightarrow>
          if \<not> keys_are m [''os_updates'', ''auto_apply_classes'', ''require_drain'', ''require_certification'']
          then Inl (ValidationError ''desired-state policy fields are invalid'')
          else
            tryE (check_member ''os_updates policy is unsupported'' OS_UPDATE_POLICIES (dget m ''os_updates'')) (\<lambda>_.
            tryE (case dget m ''auto_apply_classes'' of JList xs \<Rightarrow> any_unknown_class xs | _ \<Rightarrow> Inr True) (\<lambda>bad.
            if bad then Inl (ValidationError ''auto_apply_classes is invalid'')
            else ensure (is_bool (dget m ''require_drain'') \<and> is_bool (dget m ''require_certification''))
              ''desired-state policy flags are invalid''))
      | _ \<Rightarrow> Inl (ValidationError ''desired-state policy fields are invalid''))"

definition check_requirements :: "string \<Rightarrow> json \<Rightarrow> unit result" where
  "check_requirements msg v =
     (case v of
        JList xs \<Rightarrow> if MAX_REQUIREMENTS < length xs then Inl (ValidationError msg) else tryE (mapE requirement_of xs) (\<lambda>_. Inr ())
      | _ \<Rightarrow> Inl (ValidationError msg))"

definition profile_fields :: "string list" where
  "profile_fields =
     [''schema_version'', ''profile_id'', ''summary'', ''requirements'', ''policy'', ''captured_at'', ''claim_boundary'', ''profile_identity'']"

definition validate_profile :: "json \<Rightarrow> dict result" where
  "validate_profile v =
     (case v of
        JObj m \<Rightarrow>
          tryE (all_checks
            [ensure (dget m ''schema_version'' = JStr PROFILE_SCHEMA) ''unsupported worker profile schema'',
             ensure (keys_are m profile_fields \<and> verify_identity m ''profile_identity'') ''worker profile fields or identity are invalid'',
             check_text ''profile_id'' 64 (dget m ''profile_id''), check_text ''summary'' 256 (dget m ''summary''),
             check_requirements ''worker profile requirements are invalid'' (dget m ''requirements''), check_policy (dget m ''policy'')])
            (\<lambda>_. Inr m)
      | _ \<Rightarrow> Inl (ValidationError ''unsupported worker profile schema''))"

section \<open>Composition\<close>

definition level_rank :: "string \<Rightarrow> nat" where
  "level_rank level =
     (if level = ''present'' then 1 else if level = ''supported-current'' then 2 else if level = ''mncs-supported'' then 3
      else if level = ''running'' then 4 else 5)"

type_synonym merged = "(string \<times> string, requirement) fmap"

definition merge_requirement :: "requirement \<Rightarrow> merged \<Rightarrow> merged" where
  "merge_requirement r merged =
     (case fmlookup merged (requirement_key r) of
        None \<Rightarrow> fmupd (requirement_key r) r merged
      | Some current \<Rightarrow>
          if level_rank (rq_level current) \<le> level_rank (rq_level r) then fmupd (requirement_key r) r merged else merged)"

definition merge_item :: "json \<Rightarrow> merged \<Rightarrow> merged result" where
  "merge_item item merged = tryE (requirement_of item) (\<lambda>r. Inr (merge_requirement r merged))"

definition merged_values :: "merged \<Rightarrow> requirement list" where
  "merged_values merged = map (\<lambda>k. the (fmlookup merged k)) (sorted_list_of_fset (fmdom merged))"

definition merge_requirements :: "json list list \<Rightarrow> requirement list result" where
  "merge_requirements groups = tryE (foldE merge_item (concat groups) fmempty) (\<lambda>merged. Inr (merged_values merged))"

definition model_requirement :: "string \<Rightarrow> json \<Rightarrow> requirement result" where
  "model_requirement name spec =
     (case spec of
        JObj s \<Rightarrow> requirement_of (obj
          [(''kind'', JStr ''model''), (''name'', JStr name), (''update_class'', dget_default s ''update_class'' (JStr ''C'')),
           (''level'', py_or (dget s ''state'') (py_or (dget s ''level'') (JStr ''present''))), (''version'', dget s ''version'')])
      | _ \<Rightarrow> Inl (ValidationError ''model desired-state entry must be an object''))"

definition add_model :: "dict \<Rightarrow> string \<Rightarrow> requirement list \<Rightarrow> requirement list result" where
  "add_model models name acc =
     tryE (model_requirement name (dget models name)) (\<lambda>r.
       if MAX_MODELS < length (acc @ [r]) then Inl (ValidationError ''desired-state model list exceeds its bound'')
       else Inr (acc @ [r]))"

definition requirement_objs :: "requirement list \<Rightarrow> json list" where
  "requirement_objs rs = map (\<lambda>r. JObj (requirement_dict r)) rs"

definition list_items :: "json \<Rightarrow> json list" where
  "list_items v = (case v of JList xs \<Rightarrow> xs | _ \<Rightarrow> [])"

definition policy_flag :: "string \<Rightarrow> dict list \<Rightarrow> bool" where
  "policy_flag k loaded = list_ex (\<lambda>p. truthy (dget (dict_at p ''policy'') k)) loaded"

definition composed_policy :: "dict list \<Rightarrow> dict" where
  "composed_policy loaded = dict_of
     [(''os_updates'', dget (dict_at (last loaded) ''policy'') ''os_updates''),
      (''auto_apply_classes'', dget (dict_at (last loaded) ''policy'') ''auto_apply_classes''),
      (''require_drain'', JBool (policy_flag ''require_drain'' loaded)),
      (''require_certification'', JBool (policy_flag ''require_certification'' loaded))]"

definition desired_entries ::
    "string \<Rightarrow> string list \<Rightarrow> dict list \<Rightarrow> requirement list \<Rightarrow> dict \<Rightarrow> json \<Rightarrow> (string \<times> json) list" where
  "desired_entries worker names loaded requirements supported captured =
     [(''schema_version'', JStr DESIRED_STATE_SCHEMA), (''worker_identity'', JStr worker), (''profiles'', JList (map JStr names)),
      (''profile_identities'', JList (map (\<lambda>p. dget p ''profile_identity'') loaded)),
      (''requirements'', JList (requirement_objs requirements)), (''supported_current'', JObj supported),
      (''policy'', JObj (composed_policy loaded)), (''captured_at'', captured),
      (''claim_boundary'', JStr ''operator-declared desired state; not a command interpreter or attestation'')]"

definition supported_item :: "dict \<Rightarrow> string \<Rightarrow> (string \<times> json) result" where
  "supported_item versions k = tryE (text_field (''supported_current.'' @ k) 128 (dget versions k)) (\<lambda>s. Inr (k, JStr s))"

definition resolve_desired_state ::
    "string \<Rightarrow> json \<Rightarrow> json list \<Rightarrow> json list \<Rightarrow> dict \<Rightarrow> dict \<Rightarrow> json \<Rightarrow> dict result" where
  "resolve_desired_state clock worker_id profiles overrides models supported captured_at =
     tryE (mapE (text_field ''profiles[]'' 64) profiles) (\<lambda>names.
     if names = [] \<or> MAX_PROFILES < length names
       then Inl (ValidationError ''desired state requires a bounded non-empty profile list'')
     else if \<not> distinct names then Inl (ValidationError ''desired-state profiles must be unique'')
     else if list_ex (\<lambda>n. map_of PROFILE_CATALOG n = None) names then Inl (ValidationError ''unknown worker profile'')
     else
       tryE (mapE (\<lambda>n. build_profile clock n captured_at) names) (\<lambda>loaded.
       tryE (merge_requirements (map (\<lambda>p. list_items (dget p ''requirements'')) loaded @ [overrides])) (\<lambda>composed.
       tryE (foldE (add_model models) (dict_keys models) []) (\<lambda>model_requirements.
       tryE (merge_requirements [requirement_objs composed, requirement_objs model_requirements]) (\<lambda>requirements.
       tryE (text_field ''worker_identity'' 256 worker_id) (\<lambda>worker.
       tryE (mapE (supported_item supported) (dict_keys supported)) (\<lambda>versions.
         Inr (attach_identity (dict_of (desired_entries worker names loaded requirements (dict_of versions)
           (if truthy captured_at then captured_at else JStr clock))) ''desired_state_identity''))))))))"

definition desired_fields :: "string list" where
  "desired_fields =
     [''schema_version'', ''worker_identity'', ''profiles'', ''profile_identities'', ''requirements'', ''supported_current'', ''policy'',
      ''captured_at'', ''claim_boundary'', ''desired_state_identity'']"

definition desired_checks :: "dict \<Rightarrow> string option \<Rightarrow> unit result list" where
  "desired_checks m expected =
     [ensure (dget m ''schema_version'' = JStr DESIRED_STATE_SCHEMA) ''unsupported desired-state schema'',
      ensure (keys_are m desired_fields \<and> verify_identity m ''desired_state_identity'') ''desired-state fields or identity are invalid'',
      check_text ''worker_identity'' 256 (dget m ''worker_identity''),
      ensure (matches_expected expected (dget m ''worker_identity'')) ''desired state is bound to another worker'',
      ensure (case dget m ''profiles'' of JList xs \<Rightarrow> xs \<noteq> [] \<and> length xs \<le> MAX_PROFILES | _ \<Rightarrow> False)
        ''desired-state profiles are invalid'',
      check_requirements ''desired-state requirements are invalid'' (dget m ''requirements''),
      ensure (is_dict (dget m ''supported_current'')) ''supported_current must be an object'',
      check_policy (dget m ''policy'')]"

definition validate_desired_document :: "json \<Rightarrow> string option \<Rightarrow> dict result" where
  "validate_desired_document v expected =
     (case v of
        JObj m \<Rightarrow> tryE (all_checks (desired_checks m expected)) (\<lambda>_. Inr m)
      | _ \<Rightarrow> Inl (ValidationError ''unsupported desired-state schema''))"

definition default_profiles_for_platform :: "string \<Rightarrow> string list" where
  "default_profiles_for_platform platform =
     (if map lower_char platform = ''windows'' then [''mncs-windows-worker''] else [''mncs-linux-worker''])"

section \<open>The difference to an inventory\<close>

text \<open>\<^verbatim>\<open>v or d\<close> where \<open>v\<close> is a text or null, as in a validated inventory.\<close>

definition text_or :: "json \<Rightarrow> string \<Rightarrow> string" where
  "text_or v d = (case v of JStr s \<Rightarrow> if s = [] then d else s | _ \<Rightarrow> d)"

definition actual_tool :: "requirement \<Rightarrow> dict option \<Rightarrow> string \<times> string" where
  "actual_tool r tool =
     (case tool of
        None \<Rightarrow> (''absent'', ''tool not present'')
      | Some t \<Rightarrow>
          if \<not> truthy (dget t ''present'') then (''absent'', ''tool not present'')
          else if rq_level r \<in> {''supported-current'', ''mncs-supported''} \<and> \<not> truthy (dget t ''version'')
            then (''present-unversioned'', ''tool present without a version'')
          else (''present'', text_or (dget t ''version'') ''present''))"

definition actual_runtime :: "requirement \<Rightarrow> dict option \<Rightarrow> string \<times> string" where
  "actual_runtime r runtime =
     (case runtime of
        None \<Rightarrow> (''absent'', ''runtime not present'')
      | Some t \<Rightarrow>
          if \<not> truthy (dget t ''present'') then (''absent'', ''runtime not present'')
          else if rq_level r = ''running'' \<and> \<not> truthy (dget t ''reachable'')
            then (''present-unreachable'', ''runtime present but endpoint is not reachable'')
          else if rq_level r = ''mncs-supported'' \<and> \<not> truthy (dget t ''reachable'')
            then (''present-unverified'', ''runtime present but not verified reachable'')
          else (''present'', text_or (dget t ''version'') (text_or (dget t ''service_type'') ''present'')))"

definition actual_service :: "requirement \<Rightarrow> dict option \<Rightarrow> string \<times> string" where
  "actual_service r service =
     (case service of
        None \<Rightarrow> (''absent'', ''service not discovered'')
      | Some t \<Rightarrow>
          if \<not> truthy (dget t ''present'') then (''absent'', ''service not discovered'')
          else if rq_level r = ''running'' \<and> dget t ''state'' \<noteq> JStr ''running''
            then (text_or (dget t ''state'') ''unknown'', ''service manager='' @ text_or (dget t ''manager'') ''None'')
          else (text_or (dget t ''state'') ''present'', ''manager='' @ text_or (dget t ''manager'') ''None''))"

definition is_model_named :: "string \<Rightarrow> json \<Rightarrow> bool" where
  "is_model_named name v = (case v of JStr s \<Rightarrow> s = name \<or> startswith s (name @ '':'') | _ \<Rightarrow> False)"

definition model_names :: "dict option \<Rightarrow> json list" where
  "model_names runtime =
     (case runtime of
        None \<Rightarrow> []
      | Some t \<Rightarrow> map (\<lambda>x. case x of JObj d \<Rightarrow> dget d ''name'' | _ \<Rightarrow> JNull) (list_items (dget_default t ''models'' (JList []))))"

definition actual_model :: "requirement \<Rightarrow> dict option \<Rightarrow> string \<times> string" where
  "actual_model r runtime =
     (if list_ex (is_model_named (rq_name r)) (model_names runtime) then (''present'', rq_name r)
      else (''absent'', ''model not in runtime inventory''))"

definition worker_pin :: "requirement \<Rightarrow> dict \<Rightarrow> json" where
  "worker_pin r supported = py_or (rq_version r) (dget supported ''fabric-worker'')"

definition actual_package :: "requirement \<Rightarrow> dict \<Rightarrow> dict \<Rightarrow> (string \<times> string) result" where
  "actual_package r fabric supported =
     (if rq_name r = ''fabric-worker''
      then
        (let version = dget fabric ''worker_version''; desired = worker_pin r supported in
         if \<not> truthy version then Inr (''absent'', ''fabric worker version unknown'')
         else if rq_level r = ''supported-current'' \<and> truthy desired \<and> version \<noteq> desired
           then tryE (py_str desired) (\<lambda>d. Inr (''version-drift'', text_or version [] @ '' != '' @ d))
         else Inr (text_or version [], ''installed''))
      else if rq_name r = ''local-harness''
      then
        (let version = dget fabric ''harness_version'' in
         Inr (if truthy version then (text_or version ''absent'', ''harness package'')
              else (''absent'', ''harness package not importable'')))
      else Inr (''unknown'', ''package observation is not implemented''))"

definition actual_for :: "dict \<Rightarrow> dict \<Rightarrow> requirement \<Rightarrow> (string \<times> string) result" where
  "actual_for inventory supported r =
     (if rq_kind r = ''tool'' then tryE (inventory_entry inventory ''tools'' (JStr (rq_name r))) (\<lambda>t. Inr (actual_tool r t))
      else if rq_kind r = ''runtime''
        then tryE (inventory_entry inventory ''runtimes'' (JStr (rq_name r))) (\<lambda>t. Inr (actual_runtime r t))
      else if rq_kind r = ''service''
        then tryE (inventory_entry inventory ''services'' (JStr (rq_name r))) (\<lambda>t. Inr (actual_service r t))
      else if rq_kind r = ''model'' then tryE (inventory_entry inventory ''runtimes'' (JStr ''ollama'')) (\<lambda>t. Inr (actual_model r t))
      else if rq_kind r = ''package'' then actual_package r (dict_at inventory ''fabric'') supported
      else if rq_kind r = ''config'' then Inr (''unknown'', ''configuration observation is provider-specific'')
      else Inr (''unknown'', ''requirement kind has no inspector''))"

definition is_compliant :: "requirement \<Rightarrow> string \<Rightarrow> bool" where
  "is_compliant r actual =
     (let level = rq_level r in
      if level = ''absent'' then actual = ''absent''
      else if actual = ''absent'' then False
      else if actual = ''version-drift'' then False
      else if level = ''running'' then actual = ''running'' \<or> actual = ''present''
      else if level \<in> {''present'', ''supported-current'', ''mncs-supported''}
        then actual \<notin> {''absent'', ''present-unverified'', ''present-unreachable'', ''version-drift''}
      else False)"

definition authorization_for :: "requirement \<Rightarrow> string \<Rightarrow> string" where
  "authorization_for r actual =
     (if rq_update_class r = ''D'' then ''privilege''
      else if rq_kind r = ''package'' \<and> rq_name r = ''fabric-worker'' \<and> actual \<noteq> ''absent'' then ''operator''
      else if rq_kind r \<in> {''tool'', ''package''} \<and> actual = ''absent'' then ''privilege''
      else if rq_kind r = ''model'' then ''operator''
      else ''none'')"

text \<open>
  \<^verbatim>\<open>requirement["version"]\<close> is read of the stored dict: the validator does not ask for that key, so that it may be missing.
\<close>

definition desired_text :: "json \<Rightarrow> requirement \<Rightarrow> dict \<Rightarrow> string result" where
  "desired_text item r supported =
     tryE (dsub (case item of JObj d \<Rightarrow> d | _ \<Rightarrow> fmempty) ''version'') (\<lambda>version.
       let base = (case version of JStr v \<Rightarrow> rq_level r @ '':'' @ v | _ \<Rightarrow> rq_level r) in
       if rq_kind r = ''package'' \<and> rq_name r = ''fabric-worker'' \<and> truthy (worker_pin r supported)
       then py_str (worker_pin r supported) else Inr base)"

definition change_of :: "string \<Rightarrow> requirement \<Rightarrow> string \<times> string \<Rightarrow> json" where
  "change_of desired r a = obj
     [(''kind'', JStr (rq_kind r)), (''name'', JStr (rq_name r)), (''update_class'', JStr (rq_update_class r)),
      (''desired'', JStr desired), (''actual'', JStr (fst a)), (''detail'', JStr (take 256 (snd a))),
      (''authorization'', JStr (authorization_for r (fst a)))]"

definition requirement_changes :: "dict \<Rightarrow> dict \<Rightarrow> string list \<Rightarrow> json \<Rightarrow> json list result" where
  "requirement_changes inventory supported classes item =
     tryE (requirement_of item) (\<lambda>r.
       if rq_update_class r \<notin> set classes then Inr []
       else
         tryE (actual_for inventory supported r) (\<lambda>a.
           if is_compliant r (fst a) then Inr []
           else tryE (desired_text item r supported) (\<lambda>desired. Inr [change_of desired r a])))"

definition diff_record :: "string \<Rightarrow> dict \<Rightarrow> dict \<Rightarrow> json list \<Rightarrow> dict" where
  "diff_record clock desired inventory changes = attach_identity (dict_of
     [(''schema_version'', JStr DIFF_SCHEMA), (''worker_identity'', dget desired ''worker_identity''),
      (''desired_state_identity'', dget desired ''desired_state_identity''), (''inventory_identity'', dget inventory ''inventory_identity''),
      (''change_count'', JInt (int (length changes))), (''changes'', JList changes), (''compliant'', JBool (changes = [])),
      (''captured_at'', JStr clock),
      (''claim_boundary'', JStr ''deterministic desired-versus-actual comparison; not a repair or attestation'')]) ''diff_identity''"

definition diff_desired_state :: "string \<Rightarrow> dict \<Rightarrow> dict \<Rightarrow> string list option \<Rightarrow> dict result" where
  "diff_desired_state clock desired inventory classes =
     (let worker = dget inventory ''worker_identity'' in
      tryE (if truthy worker then tryE (py_str worker) (\<lambda>w. Inr (Some w)) else Inr None) (\<lambda>expected.
      tryE (validate_desired_document (JObj desired) expected) (\<lambda>wanted.
      tryE (validate_worker_inventory (JObj inventory) (case dget wanted ''worker_identity'' of JStr w \<Rightarrow> Some w | _ \<Rightarrow> None)) (\<lambda>observed.
        let allowed = (case classes of None \<Rightarrow> UPDATE_CLASSES | Some cs \<Rightarrow> cs) in
        if \<not> set allowed \<subseteq> set UPDATE_CLASSES then Inl (ValidationError ''diff update class filter is invalid'')
        else
          tryE (mapE (requirement_changes observed (dict_at wanted ''supported_current'') allowed)
              (list_items (dget wanted ''requirements''))) (\<lambda>changes.
            Inr (diff_record clock wanted observed (concat changes)))))))"

definition diff_fields :: "string list" where
  "diff_fields =
     [''schema_version'', ''worker_identity'', ''desired_state_identity'', ''inventory_identity'', ''change_count'', ''changes'',
      ''compliant'', ''captured_at'', ''claim_boundary'', ''diff_identity'']"

definition validate_diff :: "json \<Rightarrow> dict result" where
  "validate_diff v =
     (case v of
        JObj m \<Rightarrow>
          if dget m ''schema_version'' \<noteq> JStr DIFF_SCHEMA then Inl (ValidationError ''unsupported desired-state diff schema'')
          else if \<not> keys_are m diff_fields \<or> \<not> verify_identity m ''diff_identity''
            then Inl (ValidationError ''desired-state diff fields or identity are invalid'')
          else
            (case dget m ''changes'' of
               JList xs \<Rightarrow>
                 if \<not> py_eq (dget m ''change_count'') (JInt (int (length xs)))
                 then Inl (ValidationError ''desired-state diff change count is inconsistent'') else Inr m
             | _ \<Rightarrow> Inl (ValidationError ''desired-state diff change count is inconsistent''))
      | _ \<Rightarrow> Inl (ValidationError ''unsupported desired-state diff schema''))"

end
