(* ===== verification/Desired_Merge.thy ===== *)
theory Desired_Merge
  imports Desired_State
begin

text \<open>
  What \<^verbatim>\<open>_merge_requirements\<close> of \<^verbatim>\<open>src/src/mncs_fabric/desired_state.py\<close> returns, stated on the list of
  requirements instead of the table the code updates, and that merging its own result changes nothing.
\<close>

section \<open>The requirement that wins\<close>

definition same_thing :: "string \<times> string \<Rightarrow> requirement list \<Rightarrow> requirement list" where
  "same_thing k rs = filter (\<lambda>r. requirement_key r = k) rs"

text \<open>Of the requirements on one thing, the last that no other one outranks.\<close>

definition strongest :: "requirement list \<Rightarrow> requirement option" where
  "strongest rs = find_last (\<lambda>r. \<forall>s \<in> set rs. level_rank (rq_level s) \<le> level_rank (rq_level r)) rs"

lemma strongest_Nil [simp]: "strongest [] = None"
  by (simp add: strongest_def)

lemma strongest_SomeD:
  assumes "strongest rs = Some r"
  shows "r \<in> set rs" "s \<in> set rs \<Longrightarrow> level_rank (rq_level s) \<le> level_rank (rq_level r)"
  using find_last_Some [OF assms [unfolded strongest_def]] by auto

lemma strongest_exists: "rs \<noteq> [] \<Longrightarrow> \<exists>r. strongest rs = Some r"
proof (rule ccontr)
  assume "rs \<noteq> []" "\<nexists>r. strongest rs = Some r"
  then have "strongest rs = None" by auto
  then have no: "\<forall>r \<in> set rs. \<exists>s \<in> set rs. level_rank (rq_level r) < level_rank (rq_level s)"
    by (auto simp: strongest_def find_last_None not_le)
  let ?R = "(\<lambda>r. level_rank (rq_level r)) ` set rs"
  from \<open>rs \<noteq> []\<close> have "Max ?R \<in> ?R" by (intro Max_in) auto
  then obtain r where r: "r \<in> set rs" "Max ?R = level_rank (rq_level r)" by auto
  with no obtain s where s: "s \<in> set rs" "level_rank (rq_level r) < level_rank (rq_level s)" by auto
  then have "level_rank (rq_level s) \<le> Max ?R" by (intro Max_ge) auto
  with r s show False by simp
qed

lemma strongest_snoc:
  "strongest (rs @ [r]) =
     (case strongest rs of
        None \<Rightarrow> Some r
      | Some c \<Rightarrow> if level_rank (rq_level c) \<le> level_rank (rq_level r) then Some r else Some c)"
proof (cases "strongest rs")
  case None
  then have "rs = []" using strongest_exists by force
  then show ?thesis by (simp add: strongest_def find_last_snoc [of _ "[]", simplified])
next
  case (Some c)
  note c = strongest_SomeD [OF Some]
  show ?thesis
  proof (cases "level_rank (rq_level c) \<le> level_rank (rq_level r)")
    case True
    then have "\<forall>s \<in> set rs. level_rank (rq_level s) \<le> level_rank (rq_level r)" using c(2) order_trans by blast
    with True Some show ?thesis by (simp add: strongest_def find_last_snoc)
  next
    case False
    have "(\<lambda>x. \<forall>s \<in> set (rs @ [r]). level_rank (rq_level s) \<le> level_rank (rq_level x))
        = (\<lambda>x. \<forall>s \<in> set rs. level_rank (rq_level s) \<le> level_rank (rq_level x))"
      by (rule ext) (use False c(1) in \<open>auto dest: order_trans\<close>)
    then have "strongest (rs @ [r]) = (if \<forall>s \<in> set rs. level_rank (rq_level s) \<le> level_rank (rq_level r) then Some r else strongest rs)"
      unfolding strongest_def find_last_snoc by (rule arg_cong)
    with False c(1) Some show ?thesis by auto
  qed
qed

lemma same_thing_snoc: "same_thing k (rs @ [r]) = (if requirement_key r = k then same_thing k rs @ [r] else same_thing k rs)"
  by (simp add: same_thing_def)

section \<open>The table holds the winners\<close>

lemma merged_lookup: "fmlookup (fold merge_requirement rs fmempty) k = strongest (same_thing k rs)"
proof (induction rs rule: rev_induct)
  case (snoc r rs)
  then show ?case
    by (auto simp: merge_requirement_def same_thing_snoc strongest_snoc split: option.splits)
qed (simp add: same_thing_def)

lemma fold_merge_items: "foldE merge_item items m = tryE (mapE requirement_of items) (\<lambda>rs. Inr (fold merge_requirement rs m))"
proof (induction items arbitrary: m)
  case (Cons x items)
  show ?case
  proof (cases "requirement_of x")
    case (Inr r)
    with Cons show ?thesis by (cases "mapE requirement_of items") (simp_all add: merge_item_def)
  qed (simp add: merge_item_def)
qed simp

definition winners :: "requirement list \<Rightarrow> requirement list" where
  "winners rs = map (\<lambda>k. the (strongest (same_thing k rs))) (sorted_list_of_set (requirement_key ` set rs))"

lemma same_thing_empty: "same_thing k rs = [] \<longleftrightarrow> k \<notin> requirement_key ` set rs"
  by (auto simp: same_thing_def filter_empty_conv)

lemma merged_keys: "fset (fmdom (fold merge_requirement rs fmempty)) = requirement_key ` set rs"
proof -
  have "k \<in> fset (fmdom (fold merge_requirement rs fmempty)) \<longleftrightarrow> same_thing k rs \<noteq> []" for k
    using strongest_exists [of "same_thing k rs"] by (cases "same_thing k rs = []") (auto simp: fmlookup_dom_iff merged_lookup)
  then show ?thesis by (intro set_eqI) (simp only: same_thing_empty not_not)
qed

lemma merge_is_winners: "merge_requirements groups = tryE (mapE requirement_of (concat groups)) (\<lambda>rs. Inr (winners rs))"
  by (cases "mapE requirement_of (concat groups)")
    (simp_all add: merge_requirements_def fold_merge_items merged_values_def winners_def merged_lookup merged_keys
      sorted_list_of_fset.rep_eq)

lemma winner_key:
  assumes "k \<in> requirement_key ` set rs"
  shows "requirement_key (the (strongest (same_thing k rs))) = k" "the (strongest (same_thing k rs)) \<in> set rs"
proof -
  from assms have "same_thing k rs \<noteq> []" by (auto simp: same_thing_def filter_empty_conv)
  then obtain r where r: "strongest (same_thing k rs) = Some r" using strongest_exists by blast
  from strongest_SomeD(1) [OF r] have "the (strongest (same_thing k rs)) \<in> set (same_thing k rs)" by (simp add: r)
  then show "requirement_key (the (strongest (same_thing k rs))) = k"
    "the (strongest (same_thing k rs)) \<in> set rs" unfolding same_thing_def by (simp_all del: filter_filter)
qed

lemma winner_keys: "map requirement_key (winners rs) = sorted_list_of_set (requirement_key ` set rs)"
  unfolding winners_def map_map comp_def by (rule map_idI) (simp add: winner_key)

lemma set_winners: "set (winners rs) \<subseteq> set rs"
  using winner_key(2) by (auto simp: winners_def)

lemma same_thing_distinct:
  assumes "distinct (map requirement_key rs)" "r \<in> set rs"
  shows "same_thing (requirement_key r) rs = [r]"
  using assms by (induction rs) (auto simp: same_thing_def filter_empty_conv image_iff)

lemma winners_idem: "winners (winners rs) = winners rs"
proof -
  let ?w = "winners rs"
  have d: "distinct (map requirement_key ?w)" by (simp add: winner_keys)
  have s: "requirement_key ` set ?w = requirement_key ` set rs"
    using arg_cong [OF winner_keys [of rs], of set] by simp
  have "winners ?w = map (\<lambda>k. the (strongest (same_thing k ?w))) (map requirement_key ?w)"
    unfolding winners_def [of ?w] by (simp add: s winner_keys)
  also have "\<dots> = map (\<lambda>r. r) ?w"
    unfolding map_map comp_def
    by (rule map_cong) (simp_all add: same_thing_distinct [OF d] strongest_snoc [of "[]", simplified])
  finally show ?thesis by simp
qed

section \<open>A requirement and its dict\<close>

definition requirement_ok :: "requirement \<Rightarrow> bool" where
  "requirement_ok r \<longleftrightarrow>
     rq_kind r \<in> set REQUIREMENT_KINDS \<and> rq_level r \<in> set REQUIREMENT_LEVELS \<and> rq_update_class r \<in> set UPDATE_CLASSES \<and>
     text_ok 128 (rq_name r) \<and> (case rq_version r of JNull \<Rightarrow> True | JStr v \<Rightarrow> text_ok 128 v | _ \<Rightarrow> False)"

lemma kind_texts: "k \<in> set REQUIREMENT_KINDS \<Longrightarrow> text_ok 32 k"
  by (auto simp: REQUIREMENT_KINDS_def text_ok_def)

lemma level_texts: "l \<in> set REQUIREMENT_LEVELS \<Longrightarrow> text_ok 32 l"
  by (auto simp: REQUIREMENT_LEVELS_def text_ok_def)

lemma class_texts: "c \<in> set UPDATE_CLASSES \<Longrightarrow> text_ok (Suc 0) c"
  by (auto simp: UPDATE_CLASSES_def text_ok_def)

lemma requirement_dict_fields:
  "fmdom (requirement_dict r) |\<subseteq>| fset_of_list requirement_inputs" "dget (requirement_dict r) ''kind'' = JStr (rq_kind r)"
  "dget (requirement_dict r) ''name'' = JStr (rq_name r)" "dget (requirement_dict r) ''update_class'' = JStr (rq_update_class r)"
  "dget (requirement_dict r) ''level'' = JStr (rq_level r)" "dget (requirement_dict r) ''version'' = rq_version r"
  by (auto simp: requirement_dict_def requirement_inputs_def)

lemma requirement_dict_of:
  assumes "requirement_ok r"
  shows "requirement_of (JObj (requirement_dict r)) = Inr r"
  using assms
  by (cases "rq_version r")
    (simp_all add: requirement_ok_def requirement_of_def requirement_of_dict_def requirement_dict_fields kind_texts level_texts
      class_texts check_optional_text_def check_text_def)

lemma requirement_of_ok:
  assumes "requirement_of v = Inr r"
  shows "requirement_ok r"
proof -
  from assms obtain m where "requirement_of_dict m = Inr r"
    by (cases v) (auto simp: requirement_of_def tryE_eq_Inr split: if_splits)
  then show ?thesis
    by (cases "dget m ''version''")
      (auto simp: requirement_of_dict_def requirement_ok_def check_optional_text_def check_text_def result_simps split: if_splits)
qed

lemma requirements_read_back: "list_all requirement_ok rs \<Longrightarrow> mapE requirement_of (requirement_objs rs) = Inr rs"
  by (induction rs) (simp_all add: requirement_objs_def requirement_dict_of)

lemma merged_requirements_ok:
  assumes "merge_requirements groups = Inr rs"
  shows "list_all requirement_ok rs" "\<exists>parsed. mapE requirement_of (concat groups) = Inr parsed \<and> rs = winners parsed"
proof -
  from assms obtain parsed where p: "mapE requirement_of (concat groups) = Inr parsed" "rs = winners parsed"
    by (auto simp: merge_is_winners tryE_eq_Inr)
  then show "\<exists>parsed. mapE requirement_of (concat groups) = Inr parsed \<and> rs = winners parsed" by blast
  have "requirement_ok r" if "r \<in> set rs" for r
  proof -
    from that set_winners have "r \<in> set parsed" by (auto simp: p(2))
    from mapE_set [OF p(1) this] show ?thesis using requirement_of_ok by blast
  qed
  then show "list_all requirement_ok rs" by (simp add: list_all_iff)
qed

lemma merge_again: "tryE (merge_requirements groups) (\<lambda>rs. merge_requirements [requirement_objs rs]) = merge_requirements groups"
proof (cases "merge_requirements groups")
  case (Inr rs)
  note m = merged_requirements_ok [OF Inr]
  from m(2) have "winners rs = rs" by (auto simp: winners_idem)
  with m(1) have "merge_requirements [requirement_objs rs] = Inr rs"
    unfolding merge_is_winners by (simp add: requirements_read_back)
  with Inr show ?thesis by simp
qed simp

text \<open>
  C24: Merging keeps, of the requirements on each thing, the last one of the highest level, in the order of kind and name; it
  fails exactly where one of the requirements does not read, and merging the result again changes nothing.
\<close>

theorem merge_keeps_the_strongest:
  "merge_requirements groups = tryE (mapE requirement_of (concat groups)) (\<lambda>rs.
     Inr (map (\<lambda>k. the (strongest (same_thing k rs))) (sorted_list_of_set (requirement_key ` set rs))))
   \<and> tryE (merge_requirements groups) (\<lambda>rs. merge_requirements [requirement_objs rs]) = merge_requirements groups"
  using merge_is_winners [unfolded winners_def] merge_again by blast

end
