(* ===== verification/Desired_Resolve.thy ===== *)
theory Desired_Resolve
  imports Desired_Merge
begin

text \<open>
  What \<^verbatim>\<open>resolve_desired_state\<close> of \<^verbatim>\<open>src/src/mncs_fabric/desired_state.py\<close> returns passes \<^verbatim>\<open>validate_desired_state\<close>
  exactly if it has no more requirements than a document may have, a bound the resolution itself does not check.
\<close>

section \<open>Profiles of the catalog\<close>

lemma catalog_policy: "map_of PROFILE_CATALOG n = Some p \<Longrightarrow> cp_os_updates p = ''security''"
  by (auto simp: PROFILE_CATALOG_def split: if_splits)

lemma built_profile_policy:
  assumes "build_profile clock n captured_at = Inr m"
  shows "\<exists>p. dget m ''policy'' = JObj (profile_policy p) \<and> cp_os_updates p = ''security''"
proof (cases "map_of PROFILE_CATALOG n")
  case (Some p)
  with assms catalog_policy [OF Some] show ?thesis by (auto simp: build_profile_def tryE_eq_Inr)
qed (use assms in \<open>simp add: build_profile_def\<close>)

lemma policy_fields:
  "dget (profile_policy p) ''os_updates'' = JStr (cp_os_updates p)"
  "dget (profile_policy p) ''auto_apply_classes'' = JList [JStr ''A'', JStr ''B'', JStr ''E'']"
  by (simp_all add: profile_policy_def)

lemma composed_policy_fields:
  "keys_are (composed_policy loaded) [''os_updates'', ''auto_apply_classes'', ''require_drain'', ''require_certification'']"
  "dget (composed_policy loaded) ''os_updates'' = dget (dict_at (last loaded) ''policy'') ''os_updates''"
  "dget (composed_policy loaded) ''auto_apply_classes'' = dget (dict_at (last loaded) ''policy'') ''auto_apply_classes''"
  "dget (composed_policy loaded) ''require_drain'' = JBool (policy_flag ''require_drain'' loaded)"
  "dget (composed_policy loaded) ''require_certification'' = JBool (policy_flag ''require_certification'' loaded)"
  unfolding keys_are_def by (auto simp: composed_policy_def)

lemma composed_policy_ok:
  assumes "mapE (\<lambda>n. build_profile clock n captured_at) names = Inr loaded" "names \<noteq> []"
  shows "check_policy (JObj (composed_policy loaded)) = Inr ()"
proof -
  from mapE_length [OF assms(1)] assms(2) have "loaded \<noteq> []" by auto
  then have "last loaded \<in> set loaded" by simp
  from mapE_set [OF assms(1) this] obtain p where
    p: "dget (last loaded) ''policy'' = JObj (profile_policy p)" "cp_os_updates p = ''security''"
    using built_profile_policy by blast
  show ?thesis
    by (simp add: check_policy_def composed_policy_fields dict_at_def p policy_fields check_member_def in_strset.simps
        OS_UPDATE_POLICIES_def UPDATE_CLASSES_def ensure_def)
qed

section \<open>The resolved document\<close>

lemma desired_keys:
  "keys_are (attach_identity (dict_of (desired_entries w ns ps rs sv c)) ''desired_state_identity'') desired_fields"
  unfolding keys_are_def by (rule fset_eqI) (auto simp: desired_entries_def desired_fields_def)

lemma desired_values:
  assumes "m = attach_identity (dict_of (desired_entries w ns ps rs sv c)) ''desired_state_identity''"
  shows "dget m ''schema_version'' = JStr DESIRED_STATE_SCHEMA" "dget m ''worker_identity'' = JStr w"
    "dget m ''profiles'' = JList (map JStr ns)" "dget m ''requirements'' = JList (requirement_objs rs)"
    "dget m ''supported_current'' = JObj sv" "dget m ''policy'' = JObj (composed_policy ps)"
  by (simp_all add: assms desired_entries_def)

lemma resolve_InrE:
  assumes "resolve_desired_state clock worker_id profiles overrides models supported captured_at = Inr d"
  obtains w names loaded rs versions c where
    "worker_id = JStr w" "text_ok 256 w" "names \<noteq> []" "length names \<le> MAX_PROFILES"
    "mapE (\<lambda>n. build_profile clock n captured_at) names = Inr loaded" "list_all requirement_ok rs"
    "d = attach_identity (dict_of (desired_entries w names loaded rs versions c)) ''desired_state_identity''"
proof -
  from assms [unfolded resolve_desired_state_def tryE_eq_Inr if_Inl_eq_Inr]
  obtain names loaded groups rs w vs where
    a: "\<not> (names = [] \<or> MAX_PROFILES < length names)"
      "mapE (\<lambda>n. build_profile clock n captured_at) names = Inr loaded"
    and b: "merge_requirements groups = Inr rs" "text_field ''worker_identity'' 256 worker_id = Inr w"
      "d = attach_identity (dict_of (desired_entries w names loaded rs (dict_of vs)
         (if truthy captured_at then captured_at else JStr clock))) ''desired_state_identity''"
    by blast
  with merged_requirements_ok(1) [OF b(1)] show thesis
    by (intro that [of w names loaded rs]) (auto simp: text_field_eq_Inr)
qed

lemma resolved_valid:
  assumes "resolve_desired_state clock worker_id profiles overrides models supported captured_at = Inr d"
  shows "validate_desired_document (JObj d) expected = Inr d
    \<longleftrightarrow> matches_expected expected worker_id \<and> length (list_items (dget d ''requirements'')) \<le> MAX_REQUIREMENTS"
  using assms
proof (rule resolve_InrE)
  fix w names loaded rs versions c
  assume w: "worker_id = JStr w" "text_ok 256 w" and n: "names \<noteq> []" "length names \<le> MAX_PROFILES"
    and l: "mapE (\<lambda>n. build_profile clock n captured_at) names = Inr loaded" and r: "list_all requirement_ok rs"
    and d: "d = attach_identity (dict_of (desired_entries w names loaded rs versions c)) ''desired_state_identity''"
  note fields = desired_values [OF d]
  have v: "verify_identity d ''desired_state_identity''" by (simp add: d)
  have k: "keys_are d desired_fields" unfolding d by (rule desired_keys)
  have q: "check_requirements msg (JList (requirement_objs rs)) = Inr () \<longleftrightarrow> length rs \<le> MAX_REQUIREMENTS" for msg
    using requirements_read_back [OF r] by (simp add: check_requirements_def requirement_objs_def not_less [symmetric])
  have "all_checks (desired_checks d expected) = Inr ()
      \<longleftrightarrow> matches_expected expected (JStr w) \<and> length rs \<le> MAX_REQUIREMENTS"
    using w n k v by (simp add: desired_checks_def fields result_simps check_text_def q composed_policy_ok [OF l])
  then show ?thesis
    by (cases "all_checks (desired_checks d expected)")
      (simp_all add: validate_desired_document_def fields w list_items_def requirement_objs_def)
qed

section \<open>Two resolutions\<close>

definition ollama_runtime :: requirement where
  "ollama_runtime = \<lparr>rq_kind = ''runtime'', rq_name = ''ollama'', rq_update_class = ''C'', rq_level = ''mncs-supported'', rq_version = JNull\<rparr>"

definition ollama_service :: requirement where
  "ollama_service = \<lparr>rq_kind = ''service'', rq_name = ''ollama'', rq_update_class = ''C'', rq_level = ''running'', rq_version = JNull\<rparr>"

definition inference_profile :: catalog_profile where
  "inference_profile = \<lparr>cp_summary = ''Model-agnostic local inference worker'',
     cp_requirements = [(''runtime'', ''ollama'', ''C'', ''mncs-supported''), (''service'', ''ollama'', ''C'', ''running'')],
     cp_os_updates = ''security''\<rparr>"

lemma inference_in_catalog: "map_of PROFILE_CATALOG ''mncs-inference-worker'' = Some inference_profile"
  by (simp add: PROFILE_CATALOG_def inference_profile_def)

lemma inference_requirements: "profile_requirements inference_profile = Inr [ollama_runtime, ollama_service]"
proof -
  have "fmdom (dict_of [(''kind'', k), (''name'', n), (''update_class'', c), (''level'', l)]) |\<subseteq>| fset_of_list requirement_inputs" for k n c l
    by (auto simp: requirement_inputs_def)
  then show ?thesis
    by (simp add: profile_requirements_def inference_profile_def requirement_of_def requirement_of_dict_def text_ok_def
        REQUIREMENT_KINDS_def REQUIREMENT_LEVELS_def UPDATE_CLASSES_def check_optional_text_def ollama_runtime_def
        ollama_service_def sort_key_def requirement_key_def del: fmdom_fmupd)
qed

lemma inference_built:
  "\<exists>p. build_profile clock ''mncs-inference-worker'' captured = Inr p
    \<and> list_items (dget p ''requirements'') = requirement_objs [ollama_runtime, ollama_service]"
  by (simp add: build_profile_def inference_in_catalog inference_requirements list_items_def requirement_objs_def)

lemma resolve_inference:
  assumes "mapE requirement_of overrides = Inr extra" "text_ok 256 w"
  shows "\<exists>d. resolve_desired_state clock (JStr w) [JStr ''mncs-inference-worker''] overrides fmempty fmempty captured = Inr d
    \<and> dget d ''requirements'' = JList (requirement_objs (winners (ollama_runtime # ollama_service # extra)))"
proof -
  obtain p where p: "build_profile clock ''mncs-inference-worker'' captured = Inr p"
    "list_items (dget p ''requirements'') = requirement_objs [ollama_runtime, ollama_service]" using inference_built by blast
  let ?rs = "winners (ollama_runtime # ollama_service # extra)"
  have two: "mapE requirement_of (requirement_objs [ollama_runtime, ollama_service]) = Inr [ollama_runtime, ollama_service]"
    by (rule requirements_read_back)
      (simp add: requirement_ok_def ollama_runtime_def ollama_service_def REQUIREMENT_KINDS_def REQUIREMENT_LEVELS_def
        UPDATE_CLASSES_def text_ok_def)
  then have m: "merge_requirements [requirement_objs [ollama_runtime, ollama_service], overrides] = Inr ?rs"
    using assms(1) by (auto simp: merge_is_winners requirement_objs_def tryE_eq_Inr)
  then have again: "merge_requirements [requirement_objs ?rs, requirement_objs []] = Inr ?rs"
    using merge_again [of "[requirement_objs [ollama_runtime, ollama_service], overrides]"]
    by (simp add: merge_is_winners requirement_objs_def)
  show ?thesis
    using assms(2) p m again
    by (simp add: resolve_desired_state_def inference_in_catalog MAX_PROFILES_def text_ok_def dict_keys_def desired_entries_def)
qed

lemma length_winners: "length (winners rs) = card (requirement_key ` set rs)"
  by (simp add: winners_def)

text \<open>Sixty-five tools that an operator adds by hand.\<close>

definition many_tools :: "requirement list" where
  "many_tools = map (\<lambda>i. \<lparr>rq_kind = ''tool'', rq_name = replicate (Suc i) CHR ''x'', rq_update_class = ''B'', rq_level = ''present'',
     rq_version = JNull\<rparr>) [0..<65]"

lemma many_tools_read: "mapE requirement_of (requirement_objs many_tools) = Inr many_tools"
  by (rule requirements_read_back)
    (auto simp: many_tools_def list_all_iff requirement_ok_def REQUIREMENT_KINDS_def REQUIREMENT_LEVELS_def UPDATE_CLASSES_def
      text_ok_def)

lemma many_tools_exceed: "MAX_REQUIREMENTS < length (winners (ollama_runtime # ollama_service # many_tools))"
proof -
  have "distinct (map requirement_key many_tools)"
    by (simp add: many_tools_def requirement_key_def comp_def distinct_map inj_on_def)
  then have "card (requirement_key ` set many_tools) = length many_tools"
    using distinct_card [of "map requirement_key many_tools"] by (simp only: set_map length_map)
  then have "65 = card (requirement_key ` set many_tools)" by (simp add: many_tools_def)
  also have "card (requirement_key ` set many_tools) \<le> card (requirement_key ` set (ollama_runtime # ollama_service # many_tools))"
    by (rule card_mono) auto
  finally show ?thesis unfolding length_winners by (simp add: MAX_REQUIREMENTS_def)
qed

lemma few_requirements: "length (winners [ollama_runtime, ollama_service]) \<le> MAX_REQUIREMENTS"
  using card_image_le [of "set [ollama_runtime, ollama_service]" requirement_key] card_length [of "[ollama_runtime, ollama_service]"]
  unfolding length_winners by (simp add: MAX_REQUIREMENTS_def)

text \<open>
  C26: A resolved document validates, for the worker it is resolved for and for no other, exactly if it has no more than the
  permitted number of requirements: the resolution itself returns documents with more.
\<close>

theorem resolved_document_validates:
  assumes "resolve_desired_state clock worker_id profiles overrides models supported captured_at = Inr d"
  shows "validate_desired_document (JObj d) expected = Inr d
    \<longleftrightarrow> matches_expected expected worker_id \<and> length (list_items (dget d ''requirements'')) \<le> MAX_REQUIREMENTS"
  by (rule resolved_valid [OF assms])

theorem resolved_document_validates_witness:
  "(\<exists>d. resolve_desired_state [] (JStr ''worker-1'') [JStr ''mncs-inference-worker''] [] fmempty fmempty (JStr ''now'') = Inr d
     \<and> validate_desired_document (JObj d) (Some ''worker-1'') = Inr d)
   \<and> (\<exists>d. resolve_desired_state [] (JStr ''worker-1'') [JStr ''mncs-inference-worker''] (requirement_objs many_tools) fmempty fmempty
       (JStr ''now'') = Inr d
     \<and> validate_desired_document (JObj d) (Some ''worker-1'') \<noteq> Inr d)"
proof (intro conjI)
  have w: "text_ok 256 ''worker-1''" by (simp add: text_ok_def)
  obtain d where d: "resolve_desired_state [] (JStr ''worker-1'') [JStr ''mncs-inference-worker''] [] fmempty fmempty (JStr ''now'') = Inr d"
    "dget d ''requirements'' = JList (requirement_objs (winners [ollama_runtime, ollama_service]))"
    using resolve_inference [of "[]" "[]" "''worker-1''" "[]" "JStr ''now''"] w by auto
  with resolved_document_validates [OF d(1), of "Some ''worker-1''"] few_requirements
  show "\<exists>d. resolve_desired_state [] (JStr ''worker-1'') [JStr ''mncs-inference-worker''] [] fmempty fmempty (JStr ''now'') = Inr d
     \<and> validate_desired_document (JObj d) (Some ''worker-1'') = Inr d"
    by (auto simp: matches_expected_def list_items_def requirement_objs_def)
  obtain d where d: "resolve_desired_state [] (JStr ''worker-1'') [JStr ''mncs-inference-worker''] (requirement_objs many_tools)
      fmempty fmempty (JStr ''now'') = Inr d"
    "dget d ''requirements'' = JList (requirement_objs (winners (ollama_runtime # ollama_service # many_tools)))"
    using resolve_inference [OF many_tools_read w] by blast
  with resolved_document_validates [OF d(1), of "Some ''worker-1''"] many_tools_exceed
  show "\<exists>d. resolve_desired_state [] (JStr ''worker-1'') [JStr ''mncs-inference-worker''] (requirement_objs many_tools) fmempty fmempty
       (JStr ''now'') = Inr d
     \<and> validate_desired_document (JObj d) (Some ''worker-1'') \<noteq> Inr d"
    by (auto simp: list_items_def requirement_objs_def)
qed

end
