(* ===== verification/Desired_Diff.thy ===== *)
theory Desired_Diff
  imports Desired_Resolve Capability_Example
begin

text \<open>
  What the difference of \<^verbatim>\<open>src/src/mncs_fabric/desired_state.py\<close> reports: one change for every requirement of an admitted
  update class that the inventory does not meet, in the order of the document, and no other.
\<close>

section \<open>When an inventory meets a requirement\<close>

text \<open>The entry of a present tool, runtime or service.\<close>

definition present_entry :: "dict \<Rightarrow> string \<Rightarrow> string \<Rightarrow> dict option" where
  "present_entry inventory collection name =
     (case inventory_entry inventory collection (JStr name) of
        Inr (Some m) \<Rightarrow> if truthy (dget m ''present'') then Some m else None
      | _ \<Rightarrow> None)"

text \<open>A state or version that the host reports, read against a level.\<close>

definition reported_meets :: "string \<Rightarrow> string \<Rightarrow> bool" where
  "reported_meets level s \<longleftrightarrow>
     (if level = ''absent'' then s = ''absent''
      else if level = ''running'' then s = ''running'' \<or> s = ''present''
      else s \<notin> {''absent'', ''present-unverified'', ''present-unreachable'', ''version-drift''})"

definition tool_met :: "dict \<Rightarrow> requirement \<Rightarrow> bool" where
  "tool_met inventory r \<longleftrightarrow> (present_entry inventory ''tools'' (rq_name r) \<noteq> None) = (rq_level r \<noteq> ''absent'')"

definition runtime_met :: "dict \<Rightarrow> requirement \<Rightarrow> bool" where
  "runtime_met inventory r \<longleftrightarrow>
     (case present_entry inventory ''runtimes'' (rq_name r) of
        None \<Rightarrow> rq_level r = ''absent''
      | Some t \<Rightarrow> rq_level r \<noteq> ''absent'' \<and> (rq_level r \<in> {''running'', ''mncs-supported''} \<longrightarrow> truthy (dget t ''reachable'')))"

definition service_met :: "dict \<Rightarrow> requirement \<Rightarrow> bool" where
  "service_met inventory r \<longleftrightarrow>
     (case present_entry inventory ''services'' (rq_name r) of
        None \<Rightarrow> rq_level r = ''absent''
      | Some t \<Rightarrow>
          reported_meets (rq_level r)
            (text_or (dget t ''state'') (if rq_level r = ''running'' then ''unknown'' else ''present'')))"

definition model_met :: "dict \<Rightarrow> requirement \<Rightarrow> bool" where
  "model_met inventory r \<longleftrightarrow>
     (\<exists>runtime. inventory_entry inventory ''runtimes'' (JStr ''ollama'') = Inr (Some runtime)
        \<and> list_ex (is_model_named (rq_name r)) (model_names (Some runtime))) = (rq_level r \<noteq> ''absent'')"

definition package_met :: "dict \<Rightarrow> dict \<Rightarrow> requirement \<Rightarrow> bool" where
  "package_met fabric supported r \<longleftrightarrow>
     (if rq_name r = ''fabric-worker''
      then
        (if truthy (dget fabric ''worker_version'')
         then \<not> (rq_level r = ''supported-current'' \<and> truthy (worker_pin r supported)
                 \<and> dget fabric ''worker_version'' \<noteq> worker_pin r supported)
              \<and> reported_meets (rq_level r) (text_or (dget fabric ''worker_version'') [])
         else rq_level r = ''absent'')
      else if rq_name r = ''local-harness''
      then
        (if truthy (dget fabric ''harness_version'')
         then reported_meets (rq_level r) (text_or (dget fabric ''harness_version'') ''absent'')
         else rq_level r = ''absent'')
      else rq_level r \<notin> {''absent'', ''running''})"

definition requirement_met :: "dict \<Rightarrow> dict \<Rightarrow> requirement \<Rightarrow> bool" where
  "requirement_met inventory supported r \<longleftrightarrow>
     (if rq_kind r = ''tool'' then tool_met inventory r
      else if rq_kind r = ''runtime'' then runtime_met inventory r
      else if rq_kind r = ''service'' then service_met inventory r
      else if rq_kind r = ''model'' then model_met inventory r
      else if rq_kind r = ''package'' then package_met (dict_at inventory ''fabric'') supported r
      else rq_level r \<notin> {''absent'', ''running''})"

lemma compliant_reported: "rq_level r \<in> set REQUIREMENT_LEVELS \<Longrightarrow> is_compliant r s \<longleftrightarrow> reported_meets (rq_level r) s"
  by (auto simp: is_compliant_def reported_meets_def REQUIREMENT_LEVELS_def)

lemma tool_compliant:
  assumes "inventory_entry inventory ''tools'' (JStr (rq_name r)) = Inr t" "rq_level r \<in> set REQUIREMENT_LEVELS"
  shows "is_compliant r (fst (actual_tool r t)) \<longleftrightarrow> tool_met inventory r"
  using assms
  by (auto simp: actual_tool_def tool_met_def present_entry_def compliant_reported reported_meets_def split: option.splits)

lemma runtime_compliant:
  assumes "inventory_entry inventory ''runtimes'' (JStr (rq_name r)) = Inr t" "rq_level r \<in> set REQUIREMENT_LEVELS"
  shows "is_compliant r (fst (actual_runtime r t)) \<longleftrightarrow> runtime_met inventory r"
  using assms
  by (auto simp: actual_runtime_def runtime_met_def present_entry_def compliant_reported reported_meets_def split: option.splits)

lemma service_compliant:
  assumes "inventory_entry inventory ''services'' (JStr (rq_name r)) = Inr t" "rq_level r \<in> set REQUIREMENT_LEVELS"
  shows "is_compliant r (fst (actual_service r t)) \<longleftrightarrow> service_met inventory r"
  using assms
  by (auto simp: actual_service_def service_met_def present_entry_def compliant_reported reported_meets_def text_or_def
      split: option.splits)

lemma model_compliant:
  assumes "inventory_entry inventory ''runtimes'' (JStr ''ollama'') = Inr t" "rq_level r \<in> set REQUIREMENT_LEVELS"
  shows "is_compliant r (fst (actual_model r t)) \<longleftrightarrow> model_met inventory r"
  using assms
  by (cases t) (auto simp: actual_model_def model_met_def model_names_def compliant_reported reported_meets_def)

lemma package_compliant:
  assumes "actual_package r fabric supported = Inr a" "rq_level r \<in> set REQUIREMENT_LEVELS"
  shows "is_compliant r (fst a) \<longleftrightarrow> package_met fabric supported r"
  using assms
  by (auto simp: actual_package_def package_met_def compliant_reported reported_meets_def tryE_eq_Inr split: if_splits)

lemma compliant_met:
  assumes "actual_for inventory supported r = Inr a" "rq_level r \<in> set REQUIREMENT_LEVELS"
  shows "is_compliant r (fst a) \<longleftrightarrow> requirement_met inventory supported r"
proof -
  have unknown: "is_compliant r ''unknown'' \<longleftrightarrow> rq_level r \<notin> {''absent'', ''running''}"
    using assms(2) by (auto simp: compliant_reported reported_meets_def)
  show ?thesis
    using assms(1)
    by (auto simp: actual_for_def requirement_met_def unknown tryE_eq_Inr tool_compliant [OF _ assms(2)]
        runtime_compliant [OF _ assms(2)] service_compliant [OF _ assms(2)] model_compliant [OF _ assms(2)]
        package_compliant [OF _ assms(2)] split: if_splits)
qed

section \<open>The changes of a difference\<close>

definition admitted_classes :: "string list option \<Rightarrow> string list" where
  "admitted_classes classes = (case classes of None \<Rightarrow> UPDATE_CLASSES | Some cs \<Rightarrow> cs)"

definition unmet :: "dict \<Rightarrow> dict \<Rightarrow> string list \<Rightarrow> requirement list \<Rightarrow> requirement list" where
  "unmet inventory supported classes rs =
     filter (\<lambda>r. rq_update_class r \<in> set classes \<and> \<not> requirement_met inventory supported r) rs"

text \<open>What a change is about, and how a requirement would name it.\<close>

definition change_subject :: "json \<Rightarrow> json \<times> json \<times> json" where
  "change_subject c = (case c of JObj m \<Rightarrow> (dget m ''kind'', dget m ''name'', dget m ''update_class'') | _ \<Rightarrow> (JNull, JNull, JNull))"

definition requirement_subject :: "requirement \<Rightarrow> json \<times> json \<times> json" where
  "requirement_subject r = (JStr (rq_kind r), JStr (rq_name r), JStr (rq_update_class r))"

lemma change_subject_of: "change_subject (change_of desired r a) = requirement_subject r"
  by (simp add: change_of_def change_subject_def requirement_subject_def)

lemma requirement_changes_subjects:
  assumes "requirement_changes inventory supported classes item = Inr cs"
  shows "\<exists>r. requirement_of item = Inr r \<and> map change_subject cs = map requirement_subject (unmet inventory supported classes [r])"
proof -
  from assms obtain r where r: "requirement_of item = Inr r" by (auto simp: requirement_changes_def tryE_eq_Inr)
  from requirement_of_ok [OF r] have level: "rq_level r \<in> set REQUIREMENT_LEVELS" by (simp add: requirement_ok_def)
  from assms r compliant_met [OF _ level] show ?thesis
    by (auto simp: requirement_changes_def unmet_def tryE_eq_Inr change_subject_of split: if_splits)
qed

lemma all_changes_subjects:
  assumes "mapE (requirement_changes inventory supported classes) items = Inr css"
  shows "\<exists>rs. mapE requirement_of items = Inr rs
    \<and> map change_subject (concat css) = map requirement_subject (unmet inventory supported classes rs)"
  using assms
proof (induction items arbitrary: css)
  case (Cons item items)
  then obtain cs rest where c: "requirement_changes inventory supported classes item = Inr cs"
    "mapE (requirement_changes inventory supported classes) items = Inr rest" "css = cs # rest"
    by (auto simp: tryE_eq_Inr)
  from requirement_changes_subjects [OF c(1)] Cons.IH [OF c(2)] show ?case by (auto simp: c(3) unmet_def)
qed (simp add: unmet_def)

lemma diff_record_values:
  "dget (diff_record clock desired inventory changes) ''changes'' = JList changes"
  "dget (diff_record clock desired inventory changes) ''compliant'' = JBool (changes = [])"
  by (simp_all add: diff_record_def)

lemma validators_return_their_input:
  "validate_desired_document (JObj m) e = Inr w \<Longrightarrow> w = m" "validate_worker_inventory (JObj m) e = Inr w \<Longrightarrow> w = m"
  by (auto simp: validate_desired_document_def validate_worker_inventory_def tryE_eq_Inr split: if_splits)

lemma diff_InrE:
  assumes "diff_desired_state clock desired inventory classes = Inr d"
  obtains css where "mapE (requirement_changes inventory (dict_at desired ''supported_current'') (admitted_classes classes))
      (list_items (dget desired ''requirements'')) = Inr css" "d = diff_record clock desired inventory (concat css)"
proof -
  from assms [unfolded diff_desired_state_def Let_def tryE_eq_Inr if_Inl_eq_Inr, folded admitted_classes_def]
  obtain e w e' v css where "validate_desired_document (JObj desired) e = Inr w" "validate_worker_inventory (JObj inventory) e' = Inr v"
    "mapE (requirement_changes v (dict_at w ''supported_current'') (admitted_classes classes)) (list_items (dget w ''requirements'')) = Inr css"
    "d = diff_record clock w v (concat css)" by blast
  then show thesis using that validators_return_their_input by blast
qed

lemma diff_changes:
  assumes "diff_desired_state clock desired inventory classes = Inr d"
  shows "\<exists>rs. mapE requirement_of (list_items (dget desired ''requirements'')) = Inr rs
    \<and> map change_subject (list_items (dget d ''changes''))
      = map requirement_subject (unmet inventory (dict_at desired ''supported_current'') (admitted_classes classes) rs)
    \<and> dget d ''compliant'' = JBool (unmet inventory (dict_at desired ''supported_current'') (admitted_classes classes) rs = [])"
  using assms
proof (rule diff_InrE)
  fix css
  assume css: "mapE (requirement_changes inventory (dict_at desired ''supported_current'') (admitted_classes classes))
      (list_items (dget desired ''requirements'')) = Inr css" and d: "d = diff_record clock desired inventory (concat css)"
  from all_changes_subjects [OF css] obtain rs where rs: "mapE requirement_of (list_items (dget desired ''requirements'')) = Inr rs"
    "map change_subject (concat css)
      = map requirement_subject (unmet inventory (dict_at desired ''supported_current'') (admitted_classes classes) rs)" by blast
  from arg_cong [OF rs(2), of "\<lambda>xs. xs = []"]
  have "concat css = [] \<longleftrightarrow> unmet inventory (dict_at desired ''supported_current'') (admitted_classes classes) rs = []"
    by (simp only: map_is_Nil_conv)
  with rs show ?thesis by (simp add: d diff_record_values list_items_def)
qed

end
