(* ===== verification/Desired_Example.thy ===== *)
theory Desired_Example
  imports Desired_Diff
begin

text \<open>
  A host on which nothing was found, and what it lacks of the inference profile.
\<close>

section \<open>An empty host\<close>

definition host_identity :: "(string \<times> json) list" where
  "host_identity = [(''hostname'', JStr ''h''), (''platform'', JStr ''linux''), (''os'', JStr ''Linux''), (''distribution'', JNull),
     (''os_version'', JNull), (''kernel'', JNull), (''architecture'', JStr ''x86_64'')]"

definition host_hardware :: "(string \<times> json) list" where
  "host_hardware = [(''cpu_count'', JNull), (''ram_bytes'', JNull), (''ram_available_bytes'', JNull), (''disk_bytes'', JNull),
     (''disk_available_bytes'', JNull), (''accelerators'', JList [])]"

definition host_fabric :: "(string \<times> json) list" where
  "host_fabric = [(''worker_version'', JStr ''0.1.0''), (''protocol_version'', JStr ''1''), (''harness_version'', JNull),
     (''agent_version'', JNull), (''python_executable'', JStr ''python3'')]"

definition host_health :: "(string \<times> json) list" where
  "host_health = [(''load_1m'', JNull), (''ram_pressure'', JStr ''ok''), (''disk_pressure'', JStr ''ok''), (''pending_reboot'', JNull),
     (''active_jobs'', JInt 0), (''maintenance_eligible'', JBool True)]"

definition sample_inventory :: dict where
  "sample_inventory = attach_identity (dict_of (inventory_entries ''worker-1'' ''2026-01-01T00:00:00Z'' (obj host_identity)
     (obj host_hardware) (obj host_fabric) (JList []) (JList []) (JList []) (JList []) (obj host_health) (JList []))) ''inventory_identity''"

lemma host_parts:
  "of_dict validate_host_identity (obj host_identity) = Inr (obj host_identity)"
  "of_dict validate_hardware (obj host_hardware) = Inr (obj host_hardware)"
  "of_dict validate_fabric (obj host_fabric) = Inr (obj host_fabric)"
proof -
  have k: "keys_are (dict_of host_identity) [''hostname'', ''platform'', ''os'', ''distribution'', ''os_version'', ''kernel'', ''architecture'']"
    "keys_are (dict_of host_hardware) [''cpu_count'', ''ram_bytes'', ''ram_available_bytes'', ''disk_bytes'', ''disk_available_bytes'', ''accelerators'']"
    "keys_are (dict_of host_fabric) [''worker_version'', ''protocol_version'', ''harness_version'', ''agent_version'', ''python_executable'']"
    unfolding keys_are_def host_identity_def host_hardware_def host_fabric_def by (auto)
  show "of_dict validate_host_identity (obj host_identity) = Inr (obj host_identity)"
    using k(1) by (simp add: of_dict_def dict_of_value_def validate_host_identity_def checked_record_def)
      (simp add: host_identity_def check_text_def check_optional_text_def text_ok_def)
  show "of_dict validate_hardware (obj host_hardware) = Inr (obj host_hardware)"
    using k(2) by (simp add: of_dict_def dict_of_value_def validate_hardware_def checked_record_def)
      (simp add: host_hardware_def check_items_def check_each_def check_nonnegative_or_null_def ensure_def)
  show "of_dict validate_fabric (obj host_fabric) = Inr (obj host_fabric)"
    using k(3) by (simp add: of_dict_def dict_of_value_def validate_fabric_def checked_record_def)
      (simp add: host_fabric_def check_text_def check_optional_text_def text_ok_def)
qed

lemma host_health_part: "of_dict validate_health (obj host_health) = Inr (obj host_health)"
proof -
  have k: "keys_are (dict_of host_health) [''load_1m'', ''ram_pressure'', ''disk_pressure'', ''pending_reboot'', ''active_jobs'', ''maintenance_eligible'']"
    unfolding keys_are_def host_health_def by auto
  have u: "fmupd ''load_1m'' JNull (dict_of host_health) = dict_of host_health"
    by (rule fmap_ext) (simp add: host_health_def)
  have c: "all_checks (health_checks (dict_of host_health)) = Inr ()" "dget (dict_of host_health) ''load_1m'' = JNull"
    "dget (dict_of host_health) ''maintenance_eligible'' = JBool True"
    by (simp_all add: host_health_def health_checks_def check_member_def PRESSURE_def ensure_def)
  show ?thesis using k u c by (simp add: of_dict_def dict_of_value_def validate_health_def load_value_def check_bool_def ensure_def)
qed

lemma pair_size_atoms:
  "pair_size (k, JNull) = 6 * length k + 8" "pair_size (k, JBool True) = 6 * length k + 8" "pair_size (k, JList []) = 6 * length k + 6"
  "pair_size (k, JInt 0) = 6 * length k + 5"
  by (simp_all add: pair_size_def show_int_def show_nat.simps)

lemma host_sizes:
  "pair_size (''identity'', obj host_identity) \<le> 1000" "pair_size (''hardware'', obj host_hardware) \<le> 1000"
  "pair_size (''fabric'', obj host_fabric) \<le> 1000" "pair_size (''health'', obj host_health) \<le> 1000"
proof -
  note atoms = pair_size_atoms pair_size_def [of "(''identity'', _)"] pair_size_def [of "(''hardware'', _)"]
    pair_size_def [of "(''fabric'', _)"] pair_size_def [of "(''health'', _)"]
  show "pair_size (''identity'', obj host_identity) \<le> 1000"
    using length_json_dumps_dict [of host_identity] pair_size_str [of "''hostname''" "''h''"] pair_size_str [of "''platform''" "''linux''"]
      pair_size_str [of "''os''" "''Linux''"] pair_size_str [of "''architecture''" "''x86_64''"]
    by (simp add: host_identity_def atoms del: json_dumps.simps(7))
  show "pair_size (''hardware'', obj host_hardware) \<le> 1000"
    using length_json_dumps_dict [of host_hardware] by (simp add: host_hardware_def atoms del: json_dumps.simps(7))
  show "pair_size (''fabric'', obj host_fabric) \<le> 1000"
    using length_json_dumps_dict [of host_fabric] pair_size_str [of "''worker_version''" "''0.1.0''"]
      pair_size_str [of "''protocol_version''" "''1''"] pair_size_str [of "''python_executable''" "''python3''"]
    by (simp add: host_fabric_def atoms del: json_dumps.simps(7))
  show "pair_size (''health'', obj host_health) \<le> 1000"
    using length_json_dumps_dict [of host_health] pair_size_str [of "''ram_pressure''" "''ok''"] pair_size_str [of "''disk_pressure''" "''ok''"]
    by (simp add: host_health_def atoms del: json_dumps.simps(7))
qed

lemma sample_inventory_size: "length (canonical_json_bytes (JObj sample_inventory)) \<le> MAX_INVENTORY_BYTES"
proof -
  have "length (json_dumps (JObj sample_inventory)) \<le> 9000"
    unfolding sample_inventory_def inventory_entries_def
    by (rule order_trans [OF attached_size])
      (use pair_size_str [of "''schema_version''" INVENTORY_SCHEMA] pair_size_str [of "''worker_identity''" "''worker-1''"]
        pair_size_str [of "''captured_at''" "''2026-01-01T00:00:00Z''"] pair_size_str [of "''observation_source''" "''worker-observed''"]
        pair_size_str [of "''claim_boundary''" INVENTORY_CLAIM_BOUNDARY] host_sizes
        in \<open>simp_all add: pair_size_atoms INVENTORY_SCHEMA_def INVENTORY_CLAIM_BOUNDARY_def del: json_dumps.simps(7)\<close>)
  then show ?thesis
    using length_canonical [of "JObj sample_inventory"] by (simp add: MAX_INVENTORY_BYTES_def del: json_dumps.simps(7))
qed

lemma sample_inventory_stamp: "inventory_stamp f (JStr ''2026-01-01T00:00:00Z'') = Inr ''2026-01-01T00:00:00Z''"
  by (simp add: inventory_stamp_def text_ok_def parse_examples instant_of_offset_def instant_range show_example)

lemma sample_inventory_built:
  "build_worker_inventory [] (JStr ''worker-1'') (obj host_identity) (obj host_hardware) (obj host_fabric) (JList []) (JList [])
     (JList []) (JList []) (obj host_health) (JList []) (JStr ''2026-01-01T00:00:00Z'') = Inr sample_inventory"
proof -
  have none: "of_dicts f (JList []) = Inr (JList [])" for f by (simp add: of_dicts_def py_iter_def)
  have "any_exceeds [(JList [], MAX_TOOLS), (JList [], MAX_RUNTIMES), (JList [], MAX_REPOS), (JList [], MAX_SERVICES),
      (JList [], MAX_CREDENTIALS)] = Inr False" by (simp add: py_len_def)
  moreover have "text_field ''worker_identity'' 256 (JStr ''worker-1'') = Inr ''worker-1''" by (simp add: text_ok_def)
  ultimately show ?thesis
    unfolding build_worker_inventory_def using sample_inventory_size
    by (simp only: tryE_Inr if_False truthy.simps if_True Let_def none host_parts host_health_part sample_inventory_stamp
        sample_inventory_def [symmetric] not_less [symmetric] simp_thms list.distinct)
qed

text \<open>
  C27: An inventory that is built validates unchanged, for the worker it names and for no other, although validation builds it
  again from its parts.
\<close>

theorem built_inventory_validates:
  assumes "build_worker_inventory clock worker i h f t r p s l d captured_at = Inr m"
  shows "validate_worker_inventory (JObj m) expected = Inr m \<longleftrightarrow> matches_expected expected worker"
  by (rule built_inventory_valid [OF assms])

theorem built_inventory_validates_witness:
  "validate_worker_inventory (JObj sample_inventory) (Some ''worker-1'') = Inr sample_inventory
   \<and> validate_worker_inventory (JObj sample_inventory) (Some ''worker-2'') \<noteq> Inr sample_inventory"
  using built_inventory_validates [OF sample_inventory_built] by (simp add: matches_expected_def)

section \<open>What it lacks\<close>

lemma inference_winners: "winners [ollama_runtime, ollama_service] = [ollama_runtime, ollama_service]"
proof -
  have "requirement_key ollama_runtime = (''runtime'', ''ollama'')" "requirement_key ollama_service = (''service'', ''ollama'')"
    by (simp_all add: requirement_key_def ollama_runtime_def ollama_service_def)
  then show ?thesis
    by (simp add: winners_def same_thing_def strongest_def find_last_def)
qed

lemma sample_inventory_fields:
  "dget sample_inventory ''worker_identity'' = JStr ''worker-1''"
  "dget_default sample_inventory ''runtimes'' (JList []) = JList []" "dget_default sample_inventory ''services'' (JList []) = JList []"
  by (simp_all add: sample_inventory_def inventory_entries_def dget_default_def)

lemma ollama_readable: "list_all requirement_ok [ollama_runtime, ollama_service]"
  by (simp add: requirement_ok_def ollama_runtime_def ollama_service_def REQUIREMENT_KINDS_def REQUIREMENT_LEVELS_def
      UPDATE_CLASSES_def text_ok_def)

lemma requirement_dict_version: "dsub (requirement_dict r) ''version'' = Inr (rq_version r)"
  by (simp add: requirement_dict_def dsub_def)

lemma ollama_changes:
  assumes "r \<in> {ollama_runtime, ollama_service}"
  shows "\<exists>c. requirement_changes sample_inventory supported UPDATE_CLASSES (JObj (requirement_dict r)) = Inr [c]"
proof -
  have "requirement_of (JObj (requirement_dict r)) = Inr r"
    using assms ollama_readable by (intro requirement_dict_of) auto
  moreover have "\<exists>a. actual_for sample_inventory supported r = Inr a \<and> fst a = ''absent''"
    using assms by (auto simp: actual_for_def ollama_runtime_def ollama_service_def inventory_entry_def sample_inventory_fields
        py_iter_def actual_runtime_def actual_service_def)
  moreover have "\<exists>s. desired_text (JObj (requirement_dict r)) r supported = Inr s"
    using assms by (auto simp: desired_text_def requirement_dict_version ollama_runtime_def ollama_service_def)
  moreover have "\<not> is_compliant r ''absent''" "rq_update_class r \<in> set UPDATE_CLASSES"
    using assms by (auto simp: is_compliant_def ollama_runtime_def ollama_service_def UPDATE_CLASSES_def)
  ultimately show ?thesis by (auto simp: requirement_changes_def)
qed

lemma sample_diff:
  "\<exists>desired d. dget desired ''requirements'' = JList (requirement_objs [ollama_runtime, ollama_service])
    \<and> diff_desired_state clock desired sample_inventory None = Inr d"
proof -
  have w: "text_ok 256 ''worker-1''" by (simp add: text_ok_def)
  obtain m where r: "resolve_desired_state [] (JStr ''worker-1'') [JStr ''mncs-inference-worker''] [] fmempty fmempty (JStr ''now'') = Inr m"
    "dget m ''requirements'' = JList (requirement_objs [ollama_runtime, ollama_service])"
    using resolve_inference [of "[]" "[]" "''worker-1''" "[]" "JStr ''now''"] w by (auto simp: inference_winners)
  have v: "validate_desired_document (JObj m) (Some ''worker-1'') = Inr m"
    using resolved_valid [OF r(1), of "Some ''worker-1''"]
    by (simp add: r(2) matches_expected_def list_items_def requirement_objs_def MAX_REQUIREMENTS_def)
  have i: "dget m ''worker_identity'' = JStr ''worker-1''"
    using r(1) by (rule resolve_InrE) (simp add: desired_entries_def)
  have u: "validate_worker_inventory (JObj sample_inventory) (Some ''worker-1'') = Inr sample_inventory"
    using built_inventory_valid [OF sample_inventory_built, of "Some ''worker-1''"] by (simp add: matches_expected_def)
  obtain c1 c2 where "requirement_changes sample_inventory (dict_at m ''supported_current'') UPDATE_CLASSES (JObj (requirement_dict ollama_runtime)) = Inr [c1]"
    "requirement_changes sample_inventory (dict_at m ''supported_current'') UPDATE_CLASSES (JObj (requirement_dict ollama_service)) = Inr [c2]"
    using ollama_changes by blast
  then have "\<exists>css. mapE (requirement_changes sample_inventory (dict_at m ''supported_current'') UPDATE_CLASSES)
      (requirement_objs [ollama_runtime, ollama_service]) = Inr css" by (simp add: requirement_objs_def)
  with r(2) v u i have "\<exists>d. diff_desired_state clock m sample_inventory None = Inr d"
    by (auto simp: diff_desired_state_def sample_inventory_fields list_items_def)
  with r(2) show ?thesis by blast
qed

text \<open>
  C25: The changes of a difference are about the requirements of the admitted update classes that the inventory does not meet,
  each once and in the order of the document, and the difference is compliant exactly if there are none.
\<close>

theorem diff_reports_unmet_requirements:
  assumes "diff_desired_state clock desired inventory classes = Inr d"
  shows "\<exists>rs. mapE requirement_of (list_items (dget desired ''requirements'')) = Inr rs
    \<and> map change_subject (list_items (dget d ''changes''))
      = map requirement_subject (unmet inventory (dict_at desired ''supported_current'') (admitted_classes classes) rs)
    \<and> dget d ''compliant'' = JBool (unmet inventory (dict_at desired ''supported_current'') (admitted_classes classes) rs = [])"
  by (rule diff_changes [OF assms])

theorem diff_reports_unmet_requirements_witness:
  "\<exists>desired d. diff_desired_state ''now'' desired sample_inventory None = Inr d
    \<and> map change_subject (list_items (dget d ''changes'')) = map requirement_subject [ollama_runtime, ollama_service]
    \<and> dget d ''compliant'' = JBool False"
proof -
  obtain desired d where d: "diff_desired_state ''now'' desired sample_inventory None = Inr d"
    "dget desired ''requirements'' = JList (requirement_objs [ollama_runtime, ollama_service])" using sample_diff by blast
  have "unmet sample_inventory supported UPDATE_CLASSES [ollama_runtime, ollama_service] = [ollama_runtime, ollama_service]" for supported
    by (simp add: unmet_def requirement_met_def runtime_met_def service_met_def present_entry_def inventory_entry_def
        sample_inventory_fields py_iter_def ollama_runtime_def ollama_service_def UPDATE_CLASSES_def)
  then have "map change_subject (list_items (dget d ''changes'')) = map requirement_subject [ollama_runtime, ollama_service]
      \<and> dget d ''compliant'' = JBool False"
    using diff_reports_unmet_requirements [OF d(1)] requirements_read_back [OF ollama_readable] d(2)
    by (auto simp: list_items_def [of "JList _"] admitted_classes_def)
  with d(1) show ?thesis by blast
qed

end
