(* ===== verification/Spec2Isabelle.thy ===== *)
theory Spec2Isabelle
  imports Lifecycle_Safety Trust_Store Management Update_Lifecycle Rollout Availability Work_Queue
    Schedule_Placement Reconcile Challenge_Runs Target_Properties Desired_Example
begin

text \<open>
  A verification development for MNCS Fabric (\<^verbatim>\<open>src/src/mncs_fabric\<close>), a controller that enrolls workers, tracks
  their state in append-only ledgers, updates them, and schedules jobs on them.

  \<^bold>\<open>How the program is put together.\<close> Every durable fact is a JSON record with a SHA-256 identity
  (\<^verbatim>\<open>canonical.py\<close>), appended to a hash-chained file (\<^verbatim>\<open>store.py\<close>). The stores are projections of such a ledger:
  who is trusted (\<^verbatim>\<open>enrollment.py\<close>), enrollment and sessions (\<^verbatim>\<open>lifecycle.py\<close>), management states
  (\<^verbatim>\<open>management.py\<close>), scheduled work (\<^verbatim>\<open>work_queue.py\<close>), consumed execution
  challenges (\<^verbatim>\<open>challenges.py\<close>). Decisions over them are pure: the steps of an update
  (\<^verbatim>\<open>update_lifecycle.py\<close>, \<^verbatim>\<open>versioning.py\<close>), the canary gate of a rollout (\<^verbatim>\<open>rollout.py\<close>), availability windows
  (\<^verbatim>\<open>availability.py\<close>), the resolution of capabilities (\<^verbatim>\<open>capability_resolution.py\<close>), the admission of a job plan
  (\<^verbatim>\<open>models.py\<close>, \<^verbatim>\<open>scheduler.py\<close>), the placement on a machine (\<^verbatim>\<open>resources.py\<close>, \<^verbatim>\<open>runtime.py\<close>), the admission
  of an exact target (\<^verbatim>\<open>targets.py\<close>, \<^verbatim>\<open>capabilities.py\<close>, \<^verbatim>\<open>contracts.py\<close>), the comparison of execution records
  (\<^verbatim>\<open>reconcile.py\<close>), and what a worker should have against what its inventory says it has (\<^verbatim>\<open>desired_state.py\<close>,
  \<^verbatim>\<open>inventory.py\<close>).

  \<^bold>\<open>Conventions.\<close> A fallible function returns \<open>fabric_error + 'a\<close>; every \<^verbatim>\<open>raise\<close>, and every built-in exception
  that can escape, is a branch. A Python value is a \<open>json\<close>, a dict a finite map from strings, so nothing depends on
  the order of a dict. A ledger is the list of its decoded lines; locks and \<^verbatim>\<open>fsync\<close> are the atomicity of an
  operation. Clocks, random tokens, the time zone database, callbacks and the compiled MNCS authority are arguments.
  All functions are total; the loops recurse over lists, so no fuel is used. The data held in records of the model
  have the fields of the classes they model.

  \<^bold>\<open>Theories.\<close>
  \<^item> \<open>Fabric_Prelude\<close>, \<open>PyJson\<close>, \<open>Record_Fields\<close>, \<open>Effects\<close>, \<open>Timestamps\<close>: results and their combinators, Python values and
    operators, field checks shared by the record modules, calls with side effects in sequence, ISO time stamps.
  \<^item> \<open>Sha256\<close>, \<open>Canonical\<close>: the hash and the canonical serialisation; two records under one identity are equal unless
    the hash collides.
  \<^item> \<open>Ledger\<close>: \<^verbatim>\<open>FabricLedger\<close>. A verified file stays verified under append, recovery and compaction; the head identity
    determines the history; a batch that repeats a record breaks the chain. The locale of ledger clients and its
    interpretation carry the projections below.
  \<^item> \<open>Trust_Store\<close>: enrollment and revocation of certificates, before and after a restart.
  \<^item> \<open>Lifecycle_Fields\<close>, \<open>Lifecycle\<close>, \<open>Fleet_Presence\<close>, \<open>Lifecycle_History\<close>, \<open>Lifecycle_Safety\<close>: \<^verbatim>\<open>LifecycleStore\<close>. Every
    operation is simulated by an abstract machine over the history, whose invariants give that an authorization is
    consumed once, an enrolled worker keeps its key, a live session is not taken over.
  \<^item> \<open>Management\<close>, \<open>Versioning\<close>, \<open>Update_Lifecycle\<close>, \<open>Rollout\<close>: transition tables as checked by the code, runs of
    accepted transitions, the reconnect classification, the canary gate.
  \<^item> \<open>Availability\<close>, \<open>Work_Queue\<close>: windows as circular intervals; submission is idempotent, a tick dispatches in order of
    priority.
  \<^item> \<open>Platform_Facts\<close>, \<open>Worker_Policy\<close>, \<open>Capability_Resolution\<close>, \<open>Eligibility\<close>, \<open>Fleet_Selection\<close>: \<open>meets_query\<close> is the declarative
    reading of eligibility; the code decides it except for emulated environments under a requirement that names no
    architecture, and ranks the fleet as the sort by a rank read off the snapshots.
  \<^item> \<open>Calendar\<close>, \<open>Jcs\<close>, \<open>Challenges\<close>, \<open>Challenge_Safety\<close>, \<open>Challenge_Issue\<close>, \<open>Challenge_Runs\<close>: printed instants read back;
    the second serialisation; execution challenges and the replay store, with the runs of consumptions as an inductive
    predicate whose invariant gives single use, unless two consumers interleave.
  \<^item> \<open>Runtime_Observation\<close>, \<open>Placement\<close>, \<open>Placement_Decision\<close>, \<open>Placement_Safety\<close>: what a resource snapshot can hold of a
    request; \<open>snapshot_admits\<close> states what a passing admission rests on, and \<open>Schedule_Placement\<close> joins it to the schedule.
  \<^item> \<open>Capability_Observation\<close>, \<open>Capability_Example\<close>, \<open>Consumer_Context\<close>, \<open>Targets\<close>, \<open>Target_Safety\<close>, \<open>Target_Evidence\<close>,
    \<open>Target_Properties\<close>: execution on an exact worker. \<open>admits_target\<close> states what a passing admission rests on, the
    evaluation passes exactly then, and evidence of an execution needs such an admission.
  \<^item> \<open>Inventory\<close>, \<open>Desired_State\<close>, \<open>Desired_Merge\<close>, \<open>Desired_Resolve\<close>, \<open>Desired_Diff\<close>, \<open>Desired_Example\<close>: a built inventory
    validates unchanged; merging requirements keeps the last of the highest level on each thing, and doing it again changes
    nothing; a resolved document validates unless it has too many requirements; a difference reports exactly the requirements
    that are not met, read off the inventory by \<open>requirement_met\<close>.
  \<^item> \<open>Job_Plan\<close>, \<open>Scheduler\<close>, \<open>Schedule_Safety\<close>, \<open>Reconcile\<close>: plans are normal forms whose paths stay inside their root;
    a scheduled worker qualifies; a cohort that passes agrees.

  \<^bold>\<open>Not modelled.\<close> The socket server and its dispatch (\<^verbatim>\<open>controller.py\<close>, \<^verbatim>\<open>controller_service.py\<close>), the command line and
  client (\<^verbatim>\<open>cli.py\<close>, \<^verbatim>\<open>api.py\<close>), process execution and host probes (\<^verbatim>\<open>capability_broker.py\<close>, \<^verbatim>\<open>executor.py\<close>,
  the collectors of \<^verbatim>\<open>inventory.py\<close>), TLS transport and bundles, which are input and output around the modelled core. The record
  modules \<^verbatim>\<open>receipts.py\<close>, \<^verbatim>\<open>worker_state.py\<close>, and the profiles, environments and bindings of
  \<^verbatim>\<open>runtime.py\<close> and \<^verbatim>\<open>resources.py\<close>, describe a host whose facts the probes above read; their builders and validators
  have the shape of the modelled records. Code points above 255, non-finite floats inside JSON values and the
  text of lists and dicts inside f-strings are outside the model of Python values.
\<close>

end
